(* ===== verification/Rpc_Prelude.thy ===== *)
theory Rpc_Prelude
  imports Complex_Main "HOL-Library.AList"
begin

text \<open>
  What every component of the development shares: the Python values that reach the code as
  \<open>Any\<close>, the string methods and the \<open>int()\<close> conversion the code calls, dictionaries in insertion
  order, world-passing computations for the callables the resilience layer guards, and the
  named collections the component theories add their facts to.

  Numbers: Python's \<open>int\<close> is \<open>int\<close>; a finite \<open>float\<close> is the rational it denotes
  (every finite double is one), so arithmetic is exact and rounding is not modelled. Strings are
  lists of characters; case mapping is the ASCII one.
\<close>

named_theorems rpc_defs \<open>unfoldings of the operations\<close>
named_theorems rpc_inv \<open>operations preserve their component's invariant\<close>

section \<open>Python values\<close>

text \<open>
  \<open>PFloat None\<close> is a float that is not a number or infinite; \<open>PEnum c v\<close> is any object with an
  attribute \<open>value\<close>, the case \<open>getattr(x, "value", x)\<close> looks for.
\<close>

datatype pyval =
    PNone
  | PBool bool
  | PInt int
  | PFloat "rat option"
  | PStr string
  | PList "pyval list"
  | PDict "(string \<times> pyval) list"
  | PEnum string pyval

definition getattr_value :: "pyval \<Rightarrow> pyval" where
  "getattr_value x = (case x of PEnum c v \<Rightarrow> v | _ \<Rightarrow> x)"

text \<open>Python's truth value of an object.\<close>

fun py_truthy :: "pyval \<Rightarrow> bool" where
  "py_truthy PNone = False"
| "py_truthy (PBool b) = b"
| "py_truthy (PInt i) = (i \<noteq> 0)"
| "py_truthy (PFloat (Some r)) = (r \<noteq> 0)"
| "py_truthy (PFloat None) = True"
| "py_truthy (PStr s) = (s \<noteq> [])"
| "py_truthy (PList xs) = (xs \<noteq> [])"
| "py_truthy (PDict d) = (d \<noteq> [])"
| "py_truthy (PEnum c v) = True"

section \<open>Strings\<close>

definition ascii_code :: "char \<Rightarrow> nat" where
  "ascii_code c = of_char c"

definition lower_char :: "char \<Rightarrow> char" where
  "lower_char c = (if 65 \<le> ascii_code c \<and> ascii_code c \<le> 90 then char_of (ascii_code c + 32) else c)"

definition py_lower :: "string \<Rightarrow> string" where
  "py_lower s = map lower_char s"

definition is_space :: "char \<Rightarrow> bool" where
  "is_space c = (let n = ascii_code c in
     (9 \<le> n \<and> n \<le> 13) \<or> (28 \<le> n \<and> n \<le> 32) \<or> n = 133 \<or> n = 160)"

definition py_strip :: "string \<Rightarrow> string" where
  "py_strip s = rev (dropWhile is_space (rev (dropWhile is_space s)))"

definition is_digit :: "char \<Rightarrow> bool" where
  "is_digit c = (48 \<le> ascii_code c \<and> ascii_code c \<le> 57)"

definition is_alpha :: "char \<Rightarrow> bool" where
  "is_alpha c = (let n = ascii_code c in (65 \<le> n \<and> n \<le> 90) \<or> (97 \<le> n \<and> n \<le> 122))"

text \<open>\<open>s.startswith(p)\<close> and \<open>s.endswith(p)\<close>, and the substring test \<open>p in s\<close>.\<close>

fun starts_with :: "string \<Rightarrow> string \<Rightarrow> bool" where
  "starts_with s [] = True"
| "starts_with [] (p # ps) = False"
| "starts_with (c # s) (p # ps) = (c = p \<and> starts_with s ps)"

definition ends_with :: "string \<Rightarrow> string \<Rightarrow> bool" where
  "ends_with s p = starts_with (rev s) (rev p)"

fun contains_str :: "string \<Rightarrow> string \<Rightarrow> bool" where
  "contains_str [] p = (p = [])"
| "contains_str (c # s) p = (starts_with (c # s) p \<or> contains_str s p)"

text \<open>\<open>s.partition(c)\<close>: what is before the first \<open>c\<close>, whether there is one, what follows it.\<close>

definition py_partition :: "char \<Rightarrow> string \<Rightarrow> string \<times> bool \<times> string" where
  "py_partition c s =
     (case dropWhile (\<lambda>x. x \<noteq> c) s of
        [] \<Rightarrow> (s, False, [])
      | _ # t \<Rightarrow> (takeWhile (\<lambda>x. x \<noteq> c) s, True, t))"

text \<open>\<open>s.split(c)\<close> (never empty) and \<open>c.join(parts)\<close>.\<close>

fun py_split :: "char \<Rightarrow> string \<Rightarrow> string list" where
  "py_split c [] = [[]]"
| "py_split c (x # xs) =
     (if x = c then [] # py_split c xs
      else (case py_split c xs of [] \<Rightarrow> [[x]] | p # ps \<Rightarrow> (x # p) # ps))"

fun py_join :: "char \<Rightarrow> string list \<Rightarrow> string" where
  "py_join c [] = []"
| "py_join c [p] = p"
| "py_join c (p # q # ps) = p @ c # py_join c (q # ps)"

lemma starts_with_append [simp]: "starts_with (p @ s) p"
  by (induction p) auto

lemma starts_with_iff: "starts_with s p \<longleftrightarrow> (\<exists>t. s = p @ t)"
  by (induction s p rule: starts_with.induct) auto

lemma ends_with_append [simp]: "ends_with (s @ p) p"
  by (simp add: ends_with_def)

lemma ends_with_iff: "ends_with s p \<longleftrightarrow> (\<exists>t. s = t @ p)"
proof
  assume "ends_with s p"
  then obtain t where "rev s = rev p @ t"
    by (auto simp: ends_with_def starts_with_iff)
  then have "s = rev t @ p"
    by (metis rev_append rev_rev_ident)
  then show "\<exists>t. s = t @ p" ..
qed auto

lemma py_split_not_Nil [simp]: "py_split c s \<noteq> []"
  by (induction s) (auto split: list.splits)

lemma py_join_split [simp]: "py_join c (py_split c s) = s"
proof (induction s)
  case (Cons x xs)
  obtain p ps where ps: "py_split c xs = p # ps"
    by (cases "py_split c xs") auto
  with Cons.IH show ?case
    by (cases ps) auto
qed simp

lemma py_partition_absent: "c \<notin> set s \<Longrightarrow> py_partition c s = (s, False, [])"
proof -
  assume "c \<notin> set s"
  then have "dropWhile (\<lambda>x. x \<noteq> c) s = []"
    by (auto simp: dropWhile_eq_Nil_conv)
  then show ?thesis by (simp only: py_partition_def list.case)
qed

lemma py_partition_append: "c \<notin> set s \<Longrightarrow> py_partition c (s @ c # t) = (s, True, t)"
proof -
  assume a: "c \<notin> set s"
  have "dropWhile (\<lambda>x. x \<noteq> c) (s @ c # t) = c # t"
    using a by (induction s) auto
  moreover have "takeWhile (\<lambda>x. x \<noteq> c) (s @ c # t) = s"
    using a by (induction s) auto
  ultimately show ?thesis by (simp add: py_partition_def)
qed

lemma py_partition_found:
  assumes "py_partition c s = (a, True, b)"
  shows "s = a @ c # b" and "c \<notin> set a"
proof -
  obtain y t where dw: "dropWhile (\<lambda>x. x \<noteq> c) s = y # t"
    using assms by (cases "dropWhile (\<lambda>x. x \<noteq> c) s") (auto simp: py_partition_def)
  then have "y = c"
    by (metis (mono_tags, lifting) hd_dropWhile list.distinct(1) list.sel(1))
  moreover have ab: "a = takeWhile (\<lambda>x. x \<noteq> c) s" "b = t"
    using assms dw by (auto simp: py_partition_def)
  ultimately show "s = a @ c # b"
    using dw takeWhile_dropWhile_id [of "\<lambda>x. x \<noteq> c" s] by simp
  show "c \<notin> set a"
    using ab by (auto dest: set_takeWhileD)
qed

section \<open>The conversion \<open>int(x)\<close>\<close>

text \<open>
  \<open>int()\<close> of a string: surrounding white space, an optional sign, digits with single
  underscores between them, at most 4300 digits (the interpreter's limit). \<open>None\<close> stands for
  the exception; every caller here catches it.
\<close>

fun int_body :: "bool \<Rightarrow> int \<Rightarrow> string \<Rightarrow> int option" where
  "int_body d a [] = (if d then Some a else None)"
| "int_body d a (c # cs) =
     (if is_digit c then int_body True (10 * a + int (ascii_code c - 48)) cs
      else if c = CHR ''_'' \<and> d then int_body False a cs
      else None)"

definition parse_int :: "string \<Rightarrow> int option" where
  "parse_int s =
     (let t = py_strip s in
      if length (filter is_digit t) > 4300 then None
      else case t of
        [] \<Rightarrow> None
      | c # cs \<Rightarrow>
          (if c = CHR ''-'' then map_option uminus (int_body False 0 cs)
           else if c = CHR ''+'' then int_body False 0 cs
           else int_body False 0 t))"

definition py_trunc :: "rat \<Rightarrow> int" where
  "py_trunc r = (if 0 \<le> r then \<lfloor>r\<rfloor> else \<lceil>r\<rceil>)"

fun py_int :: "pyval \<Rightarrow> int option" where
  "py_int (PBool b) = Some (if b then 1 else 0)"
| "py_int (PInt i) = Some i"
| "py_int (PFloat r) = map_option py_trunc r"
| "py_int (PStr s) = parse_int s"
| "py_int _ = None"

lemma py_trunc_of_int [simp]: "py_trunc (of_int i) = i"
  by (simp add: py_trunc_def)

lemma py_trunc_nonneg: "0 \<le> r \<Longrightarrow> 0 \<le> py_trunc r"
  by (simp add: py_trunc_def)

lemma py_trunc_le: "0 \<le> r \<Longrightarrow> of_int (py_trunc r) \<le> r"
  by (simp add: py_trunc_def)

section \<open>Dictionaries\<close>

text \<open>
  A Python \<open>dict\<close> keeps insertion order: assigning to a present key keeps its place, a new key
  goes to the end. \<open>AList.update\<close> and \<open>AList.delete\<close> do exactly that on association lists;
  \<open>map_of\<close> is the lookup, \<open>map fst\<close> the keys in iteration order.
\<close>

type_synonym ('k, 'v) dict = "('k \<times> 'v) list"

abbreviation dict_keys :: "('k, 'v) dict \<Rightarrow> 'k list" where
  "dict_keys d \<equiv> map fst d"

abbreviation dict_wf :: "('k, 'v) dict \<Rightarrow> bool" where
  "dict_wf d \<equiv> distinct (map fst d)"

definition dict_get :: "('k, 'v) dict \<Rightarrow> 'k \<Rightarrow> 'v \<Rightarrow> 'v" where
  "dict_get d k dflt = (case map_of d k of None \<Rightarrow> dflt | Some v \<Rightarrow> v)"

lemma map_of_dict_update [simp]: "map_of (AList.update k v d) = (map_of d)(k \<mapsto> v)"
  by (rule update_conv')

lemma map_of_dict_delete [simp]: "map_of (AList.delete k d) = (map_of d)(k := None)"
  by (rule delete_conv')

lemma length_dict_update:
  "length (AList.update k v d) = (if map_of d k = None then Suc (length d) else length d)"
  by (induction d) auto

lemma length_dict_delete_le [simp]: "length (AList.delete k d) \<le> length d"
  by (simp add: AList.delete_eq)

lemma length_dict_delete:
  "dict_wf d \<Longrightarrow> map_of d k \<noteq> None \<Longrightarrow> Suc (length (AList.delete k d)) = length d"
proof (induction d)
  case (Cons p d)
  show ?case
  proof (cases "fst p = k")
    case True
    with Cons.prems have "k \<notin> fst ` set d" by auto
    then have "AList.delete k d = d"
      by (simp add: delete_id)
    with True show ?thesis by (cases p) (simp add: AList.delete_eq)
  next
    case False
    with Cons show ?thesis by (cases p) (auto simp: AList.delete_eq)
  qed
qed simp

lemma dict_wf_update [simp, intro]: "dict_wf d \<Longrightarrow> dict_wf (AList.update k v d)"
  by (rule distinct_update)

lemma dict_wf_delete [simp, intro]: "dict_wf d \<Longrightarrow> dict_wf (AList.delete k d)"
  by (rule distinct_delete)

lemma set_dict_delete: "set (AList.delete k d) = {p \<in> set d. fst p \<noteq> k}"
  by (auto simp: AList.delete_eq)

lemma dict_keys_update:
  "dict_keys (AList.update k v d) = (if k \<in> set (dict_keys d) then dict_keys d else dict_keys d @ [k])"
  by (simp add: update_keys)

text \<open>Rules that turn a lookup into membership; deleted where the lookup has to stay.\<close>

lemmas dict_opaque = map_of_eq_Some_iff Some_eq_map_of_iff

section \<open>Computations over a world\<close>

text \<open>
  The callables the guards run are parameters: a computation takes the world it changes and
  returns an exception or a value, and the world after it.
\<close>

type_synonym ('w, 'e, 'a) comp = "'w \<Rightarrow> ('e + 'a) \<times> 'w"

definition is_ok :: "'e + 'a \<Rightarrow> bool" where
  "is_ok r = (case r of Inl _ \<Rightarrow> False | Inr _ \<Rightarrow> True)"

lemma is_ok_simps [simp]: "\<not> is_ok (Inl e)" "is_ok (Inr v)"
  by (simp_all add: is_ok_def)

section \<open>Maxima the constructors clamp with\<close>

lemma max_one_pos [simp]: "0 < max (1::int) n"
  by simp

end
