(* ===== verification/Wire_Codec.thy ===== *)
theory Wire_Codec
  imports Rpc_Prelude
begin

text \<open>
  The enumerations of the v2 protocol and their wire forms: \<open>Priority\<close>
  (\<open>protocol/v2/qos.py\<close>), \<open>TaskStatus\<close> (\<open>server/tasks/types.py\<close>), \<open>ResponseStatus\<close>
  (\<open>protocol/v2/types.py\<close>), \<open>AuthScheme\<close> (\<open>protocol/v2/metadata.py\<close>) and \<open>HealthStatus\<close>
  (\<open>protocol/v2/health.py\<close>), each with its \<open>_from_wire\<close> (also reached as \<open>from_proto\<close> and
  \<open>from_thrift\<close>) and \<open>_to_wire\<close> (\<open>to_proto\<close>, \<open>to_thrift\<close>).

  The argument is a member of the class itself or any other Python value. The five classes
  repeat one skeleton, \<open>wire_dispatch\<close>: \<open>None\<close> has a result of its own; otherwise take the attribute \<open>value\<close> if there is one; a string is
  looked up, case folded, in a table of names, and then read as a number; anything else is
  converted with \<open>int()\<close>; a conversion that raises gives the default.
\<close>

datatype 'e wire_arg = Member 'e | Other pyval

definition number_or :: "(int \<Rightarrow> 'r) \<Rightarrow> 'r \<Rightarrow> pyval \<Rightarrow> 'r" where
  "number_or nums dflt raw = (case py_int raw of None \<Rightarrow> dflt | Some n \<Rightarrow> nums n)"

definition wire_dispatch ::
  "'r \<Rightarrow> (string \<times> 'r) list \<Rightarrow> (int \<Rightarrow> 'r) \<Rightarrow> 'r \<Rightarrow> pyval \<Rightarrow> 'r" where
  "wire_dispatch none names nums dflt v =
     (if v = PNone then none
      else let raw = getattr_value v in
        case raw of
          PStr s \<Rightarrow> (case map_of names (py_lower s) of
                      Some r \<Rightarrow> r
                    | None \<Rightarrow> number_or nums dflt raw)
        | _ \<Rightarrow> number_or nums dflt raw)"

section \<open>Priority\<close>

datatype priority = LOW | NORMAL | HIGH | CRITICAL

definition priority_value :: "priority \<Rightarrow> int" where
  "priority_value p = (case p of LOW \<Rightarrow> 0 | NORMAL \<Rightarrow> 1 | HIGH \<Rightarrow> 2 | CRITICAL \<Rightarrow> 3)"

definition priority_from_wire :: "priority wire_arg \<Rightarrow> priority" where
  "priority_from_wire value =
     (case value of
        Member p \<Rightarrow> p
      | Other v \<Rightarrow> wire_dispatch NORMAL
          [(''low'', LOW), (''normal'', NORMAL), (''high'', HIGH), (''critical'', CRITICAL)]
          (\<lambda>num. if num = 1 then LOW else if num = 2 then NORMAL else if num = 3 then HIGH
                 else if num \<ge> 4 then CRITICAL else NORMAL)
          NORMAL v)"

definition priority_num_to_wire :: "int \<Rightarrow> int" where
  "priority_num_to_wire num = (if num \<le> 0 then 1 else if num = 1 then 2 else if num = 2 then 3 else 4)"

definition priority_to_wire :: "priority wire_arg \<Rightarrow> int" where
  "priority_to_wire value =
     (case value of
        Member p \<Rightarrow> priority_num_to_wire (priority_value p)
      | Other v \<Rightarrow> wire_dispatch 0
          [(''low'', 1), (''normal'', 2), (''high'', 3),
           (''critical'', 4)]
          priority_num_to_wire 0 v)"

section \<open>TaskStatus\<close>

datatype task_status = PENDING | SCHEDULED | RUNNING | SUCCEEDED | FAILED | CANCELED | RETRYING

definition task_status_name :: "task_status \<Rightarrow> string" where
  "task_status_name s =
     (case s of PENDING \<Rightarrow> ''pending'' | SCHEDULED \<Rightarrow> ''scheduled'' | RUNNING \<Rightarrow> ''running''
      | SUCCEEDED \<Rightarrow> ''succeeded'' | FAILED \<Rightarrow> ''failed'' | CANCELED \<Rightarrow> ''canceled''
      | RETRYING \<Rightarrow> ''retrying'')"

definition task_status_from_wire :: "task_status wire_arg \<Rightarrow> task_status" where
  "task_status_from_wire value =
     (case value of
        Member s \<Rightarrow> s
      | Other v \<Rightarrow> wire_dispatch PENDING
          [(''pending'', PENDING), (''scheduled'', SCHEDULED), (''running'', RUNNING),
           (''succeeded'', SUCCEEDED), (''failed'', FAILED), (''canceled'', CANCELED),
           (''retrying'', RETRYING)]
          (\<lambda>num. if num = 1 then PENDING else if num = 2 then SCHEDULED
                 else if num = 3 then RUNNING else if num = 4 then SUCCEEDED
                 else if num = 5 then FAILED else if num = 6 then CANCELED
                 else if num = 7 then RETRYING else PENDING)
          PENDING v)"

definition task_status_to_wire :: "task_status wire_arg \<Rightarrow> int" where
  "task_status_to_wire value =
     (case value of
        Member s \<Rightarrow>
          (case s of PENDING \<Rightarrow> 1 | SCHEDULED \<Rightarrow> 2 | RUNNING \<Rightarrow> 3 | SUCCEEDED \<Rightarrow> 4
           | FAILED \<Rightarrow> 5 | CANCELED \<Rightarrow> 6 | RETRYING \<Rightarrow> 7)
      | Other v \<Rightarrow> wire_dispatch 0
          [(''pending'', 1), (''scheduled'', 2), (''running'', 3),
           (''succeeded'', 4), (''failed'', 5), (''canceled'', 6),
           (''retrying'', 7)]
          (\<lambda>num. if 0 \<le> num \<and> num \<le> 7 then num else 0)
          0 v)"

section \<open>ResponseStatus\<close>

datatype response_status = SUCCESS | ERROR | PARTIAL

definition response_status_name :: "response_status \<Rightarrow> string" where
  "response_status_name s =
     (case s of SUCCESS \<Rightarrow> ''success'' | ERROR \<Rightarrow> ''error'' | PARTIAL \<Rightarrow> ''partial'')"

definition response_status_from_wire :: "response_status wire_arg \<Rightarrow> response_status" where
  "response_status_from_wire value =
     (case value of
        Member s \<Rightarrow> s
      | Other v \<Rightarrow> wire_dispatch ERROR
          [(''success'', SUCCESS), (''error'', ERROR), (''partial'', PARTIAL)]
          (\<lambda>num. if num = 1 then SUCCESS else if num = 2 then ERROR
                 else if num = 3 then PARTIAL else ERROR)
          ERROR v)"

definition response_status_to_wire :: "response_status wire_arg \<Rightarrow> int" where
  "response_status_to_wire value =
     (case value of
        Member s \<Rightarrow> (case s of SUCCESS \<Rightarrow> 1 | ERROR \<Rightarrow> 2 | PARTIAL \<Rightarrow> 3)
      | Other v \<Rightarrow> wire_dispatch 0
          [(''success'', 1), (''error'', 2), (''partial'', 3)]
          (\<lambda>num. if num = 1 then 1 else if num = 2 then 2 else if num = 3 then 3 else 0)
          0 v)"

section \<open>AuthScheme\<close>

datatype auth_scheme = UNSPECIFIED | BEARER | API_KEY | MTLS | BASIC

definition auth_scheme_name :: "auth_scheme \<Rightarrow> string" where
  "auth_scheme_name s =
     (case s of UNSPECIFIED \<Rightarrow> ''unspecified'' | BEARER \<Rightarrow> ''bearer'' | API_KEY \<Rightarrow> ''api_key''
      | MTLS \<Rightarrow> ''mtls'' | BASIC \<Rightarrow> ''basic'')"

definition auth_scheme_from_wire :: "auth_scheme wire_arg \<Rightarrow> auth_scheme" where
  "auth_scheme_from_wire value =
     (case value of
        Member s \<Rightarrow> s
      | Other v \<Rightarrow> wire_dispatch UNSPECIFIED
          [(''bearer'', BEARER), (''api_key'', API_KEY), (''mtls'', MTLS),
           (''basic'', BASIC), (''unspecified'', UNSPECIFIED)]
          (\<lambda>num. if num = 1 then BEARER else if num = 2 then API_KEY
                 else if num = 3 then MTLS else UNSPECIFIED)
          UNSPECIFIED v)"

definition auth_scheme_to_wire :: "auth_scheme wire_arg \<Rightarrow> int" where
  "auth_scheme_to_wire value =
     (case value of
        Member s \<Rightarrow> (case s of BEARER \<Rightarrow> 1 | API_KEY \<Rightarrow> 2 | MTLS \<Rightarrow> 3 | _ \<Rightarrow> 0)
      | Other v \<Rightarrow> wire_dispatch 0
          [(''bearer'', 1), (''api_key'', 2), (''mtls'', 3),
           (''basic'', 0), (''unspecified'', 0)]
          (\<lambda>num. if 0 \<le> num \<and> num \<le> 3 then num else 0)
          0 v)"

section \<open>HealthStatus\<close>

datatype health_status = HEALTHY | UNHEALTHY | DEGRADED | UNKNOWN

definition health_status_name :: "health_status \<Rightarrow> string" where
  "health_status_name s =
     (case s of HEALTHY \<Rightarrow> ''healthy'' | UNHEALTHY \<Rightarrow> ''unhealthy'' | DEGRADED \<Rightarrow> ''degraded''
      | UNKNOWN \<Rightarrow> ''unknown'')"

definition health_status_from_wire :: "health_status wire_arg \<Rightarrow> health_status" where
  "health_status_from_wire value =
     (case value of
        Member s \<Rightarrow> s
      | Other v \<Rightarrow> wire_dispatch UNKNOWN
          [(''healthy'', HEALTHY), (''unhealthy'', UNHEALTHY), (''degraded'', DEGRADED),
           (''unknown'', UNKNOWN)]
          (\<lambda>num. if num = 1 then HEALTHY else if num = 2 then UNHEALTHY
                 else if num = 3 then DEGRADED else if num = 4 then UNKNOWN else UNKNOWN)
          UNKNOWN v)"

definition health_status_to_wire :: "health_status wire_arg \<Rightarrow> int" where
  "health_status_to_wire value =
     (case value of
        Member s \<Rightarrow> (case s of HEALTHY \<Rightarrow> 1 | UNHEALTHY \<Rightarrow> 2 | DEGRADED \<Rightarrow> 3 | UNKNOWN \<Rightarrow> 4)
      | Other v \<Rightarrow> wire_dispatch 4
          [(''healthy'', 1), (''unhealthy'', 2), (''degraded'', 3),
           (''unknown'', 4)]
          (\<lambda>num. if 0 \<le> num \<and> num \<le> 4 then num else 4)
          4 v)"

section \<open>The codec contract\<close>

text \<open>
  What the transports rely on: a member passes through; its name, in any case, decodes to it and
  encodes like it; a numbered member survives the round trip through its number; every encoding
  lies within the enumeration of the schema. \<open>numbered\<close> says which members the schema carries.
\<close>

locale wire_codec =
  fixes of_wire :: "'e wire_arg \<Rightarrow> 'e"
    and to_wire :: "'e wire_arg \<Rightarrow> int"
    and member_name :: "'e \<Rightarrow> string"
    and numbered :: "'e \<Rightarrow> bool"
    and top :: int
  assumes of_member: "of_wire (Member e) = e"
    and of_name: "py_lower s = member_name e \<Longrightarrow> of_wire (Other (PStr s)) = e"
    and to_of_name: "py_lower s = member_name e \<Longrightarrow> to_wire (Other (PStr s)) = to_wire (Member e)"
    and of_to: "numbered e \<Longrightarrow> of_wire (Other (PInt (to_wire (Member e)))) = e"
    and in_range: "0 \<le> to_wire v \<and> to_wire v \<le> top"
begin

lemma to_wire_inj: "numbered e \<Longrightarrow> numbered f \<Longrightarrow> to_wire (Member e) = to_wire (Member f) \<Longrightarrow> e = f"
  by (metis of_to)

lemma text_binary_agree:
  "numbered e \<Longrightarrow> py_lower s = member_name e \<Longrightarrow>
     of_wire (Other (PInt (to_wire (Other (PStr s))))) = of_wire (Other (PStr s))"
  by (simp only: to_of_name [of s e] of_to [of e] of_name [of s e])

lemma relay_stable:
  "numbered (of_wire v) \<Longrightarrow> of_wire (Other (PInt (to_wire (Member (of_wire v))))) = of_wire v"
  by (rule of_to)

lemma list_round_trip:
  "list_all numbered es \<Longrightarrow> map (\<lambda>n. of_wire (Other (PInt n))) (map (\<lambda>e. to_wire (Member e)) es) = es"
  by (induction es) (simp_all add: of_to)

end

lemma wire_dispatch_PInt [simp]: "wire_dispatch none names nums dflt (PInt n) = nums n"
  by (simp add: wire_dispatch_def getattr_value_def number_or_def)

lemma wire_dispatch_name:
  "map_of names (py_lower s) = Some r \<Longrightarrow> wire_dispatch none names nums dflt (PStr s) = r"
  by (simp add: wire_dispatch_def getattr_value_def)

lemma number_or_cases: "(\<And>n. P (nums n)) \<Longrightarrow> P dflt \<Longrightarrow> P (number_or nums dflt raw)"
  by (simp add: number_or_def split: option.split)

lemma wire_dispatch_range:
  assumes "list_all (\<lambda>(k, r). lo \<le> r \<and> r \<le> hi) names" "\<And>n. lo \<le> nums n \<and> nums n \<le> hi"
    and "lo \<le> dflt \<and> dflt \<le> hi" "lo \<le> none \<and> none \<le> (hi :: int)"
  shows "lo \<le> wire_dispatch none names nums dflt v \<and> wire_dispatch none names nums dflt v \<le> hi"
proof -
  let ?P = "\<lambda>r. lo \<le> r \<and> r \<le> hi"
  have num: "?P (number_or nums dflt raw)" for raw
    by (rule number_or_cases [of ?P]) (use assms in auto)
  have nam: "?P r" if "map_of names k = Some r" for k r
    using assms(1) map_of_SomeD [OF that] by (auto simp: list_all_iff)
  have str: "?P (case map_of names k of Some r \<Rightarrow> r | None \<Rightarrow> number_or nums dflt raw)" for k raw
    using num nam by (cases "map_of names k") simp_all
  show ?thesis
  proof (cases "v = PNone")
    case True
    with assms(4) show ?thesis by (simp add: wire_dispatch_def)
  next
    case False
    with num str show ?thesis
      by (cases "getattr_value v") (simp_all add: wire_dispatch_def)
  qed
qed

lemma wire_dispatch_natural:
  assumes "h none = none'" "map (\<lambda>(k, r). (k, h r)) names = names'" "\<And>n. h (nums n) = nums' n"
    and "h dflt = dflt'"
  shows "h (wire_dispatch none names nums dflt v) = wire_dispatch none' names' nums' dflt' v"
proof -
  have num: "h (number_or nums dflt raw) = number_or nums' dflt' raw" for raw
    by (simp add: number_or_def assms(3,4) split: option.split)
  have str: "map_of names' k = map_option h (map_of names k)" for k
    by (simp add: assms(2) [symmetric] map_of_map)
  show ?thesis
  proof (cases "v = PNone")
    case True
    then show ?thesis by (simp add: wire_dispatch_def assms(1))
  next
    case False
    then show ?thesis
      by (cases "getattr_value v") (simp_all add: wire_dispatch_def num str split: option.split)
  qed
qed

definition priority_name :: "priority \<Rightarrow> string" where
  "priority_name p = (case p of LOW \<Rightarrow> ''low'' | NORMAL \<Rightarrow> ''normal'' | HIGH \<Rightarrow> ''high''
     | CRITICAL \<Rightarrow> ''critical'')"

text \<open>The interpretations: the five enumerations meet the contract (\<open>BASIC\<close> has no number).\<close>

lemmas priority_wire_defs = priority_from_wire_def priority_to_wire_def priority_name_def
  priority_value_def priority_num_to_wire_def
lemmas task_status_wire_defs = task_status_from_wire_def task_status_to_wire_def task_status_name_def
lemmas response_status_wire_defs = response_status_from_wire_def response_status_to_wire_def
  response_status_name_def
lemmas auth_scheme_wire_defs = auth_scheme_from_wire_def auth_scheme_to_wire_def auth_scheme_name_def
lemmas health_status_wire_defs = health_status_from_wire_def health_status_to_wire_def
  health_status_name_def

lemma priority_to_wire_range: "0 \<le> priority_to_wire v \<and> priority_to_wire v \<le> 4"
proof (cases v)
  case (Member e)
  then show ?thesis
    by (cases e) (simp_all add: priority_wire_defs)
next
  case (Other x)
  then show ?thesis
    by (simp only: priority_to_wire_def wire_arg.case, intro wire_dispatch_range) (auto simp: priority_num_to_wire_def priority_value_def )
qed

interpretation priority_codec: wire_codec priority_from_wire priority_to_wire priority_name "\<lambda>_. True" 4
proof unfold_locales
  fix s e
  assume "py_lower s = priority_name e"
  then show "priority_from_wire (Other (PStr s)) = e"
    and "priority_to_wire (Other (PStr s)) = priority_to_wire (Member e)"
    by (cases e; simp add: priority_wire_defs wire_dispatch_name)+
next
  fix e
  show "priority_from_wire (Member e) = e"
    by (simp add: priority_wire_defs)
next
  fix e
  assume "True"
  then show "priority_from_wire (Other (PInt (priority_to_wire (Member e)))) = e"
    by (cases e) (simp_all add: priority_wire_defs)
next
  fix v
  show "0 \<le> priority_to_wire v \<and> priority_to_wire v \<le> 4"
    by (rule priority_to_wire_range)
qed

lemma task_status_to_wire_range: "0 \<le> task_status_to_wire v \<and> task_status_to_wire v \<le> 7"
proof (cases v)
  case (Member e)
  then show ?thesis
    by (cases e) (simp_all add: task_status_wire_defs)
next
  case (Other x)
  then show ?thesis
    by (simp only: task_status_to_wire_def wire_arg.case, intro wire_dispatch_range) auto
qed

interpretation task_status_codec: wire_codec task_status_from_wire task_status_to_wire task_status_name "\<lambda>_. True" 7
proof unfold_locales
  fix s e
  assume "py_lower s = task_status_name e"
  then show "task_status_from_wire (Other (PStr s)) = e"
    and "task_status_to_wire (Other (PStr s)) = task_status_to_wire (Member e)"
    by (cases e; simp add: task_status_wire_defs wire_dispatch_name)+
next
  fix e
  show "task_status_from_wire (Member e) = e"
    by (simp add: task_status_wire_defs)
next
  fix e
  assume "True"
  then show "task_status_from_wire (Other (PInt (task_status_to_wire (Member e)))) = e"
    by (cases e) (simp_all add: task_status_wire_defs)
next
  fix v
  show "0 \<le> task_status_to_wire v \<and> task_status_to_wire v \<le> 7"
    by (rule task_status_to_wire_range)
qed

lemma response_status_to_wire_range: "0 \<le> response_status_to_wire v \<and> response_status_to_wire v \<le> 3"
proof (cases v)
  case (Member e)
  then show ?thesis
    by (cases e) (simp_all add: response_status_wire_defs)
next
  case (Other x)
  then show ?thesis
    by (simp only: response_status_to_wire_def wire_arg.case, intro wire_dispatch_range) auto
qed

interpretation response_status_codec: wire_codec response_status_from_wire response_status_to_wire response_status_name "\<lambda>_. True" 3
proof unfold_locales
  fix s e
  assume "py_lower s = response_status_name e"
  then show "response_status_from_wire (Other (PStr s)) = e"
    and "response_status_to_wire (Other (PStr s)) = response_status_to_wire (Member e)"
    by (cases e; simp add: response_status_wire_defs wire_dispatch_name)+
next
  fix e
  show "response_status_from_wire (Member e) = e"
    by (simp add: response_status_wire_defs)
next
  fix e
  assume "True"
  then show "response_status_from_wire (Other (PInt (response_status_to_wire (Member e)))) = e"
    by (cases e) (simp_all add: response_status_wire_defs)
next
  fix v
  show "0 \<le> response_status_to_wire v \<and> response_status_to_wire v \<le> 3"
    by (rule response_status_to_wire_range)
qed

lemma auth_scheme_to_wire_range: "0 \<le> auth_scheme_to_wire v \<and> auth_scheme_to_wire v \<le> 3"
proof (cases v)
  case (Member e)
  then show ?thesis
    by (cases e) (simp_all add: auth_scheme_wire_defs)
next
  case (Other x)
  then show ?thesis
    by (simp only: auth_scheme_to_wire_def wire_arg.case, intro wire_dispatch_range) auto
qed

interpretation auth_scheme_codec: wire_codec auth_scheme_from_wire auth_scheme_to_wire auth_scheme_name "\<lambda>s. s \<noteq> BASIC" 3
proof unfold_locales
  fix s e
  assume "py_lower s = auth_scheme_name e"
  then show "auth_scheme_from_wire (Other (PStr s)) = e"
    and "auth_scheme_to_wire (Other (PStr s)) = auth_scheme_to_wire (Member e)"
    by (cases e; simp add: auth_scheme_wire_defs wire_dispatch_name)+
next
  fix e
  show "auth_scheme_from_wire (Member e) = e"
    by (simp add: auth_scheme_wire_defs)
next
  fix e
  assume "e \<noteq> BASIC"
  then show "auth_scheme_from_wire (Other (PInt (auth_scheme_to_wire (Member e)))) = e"
    by (cases e) (simp_all add: auth_scheme_wire_defs)
next
  fix v
  show "0 \<le> auth_scheme_to_wire v \<and> auth_scheme_to_wire v \<le> 3"
    by (rule auth_scheme_to_wire_range)
qed

lemma health_status_to_wire_range: "0 \<le> health_status_to_wire v \<and> health_status_to_wire v \<le> 4"
proof (cases v)
  case (Member e)
  then show ?thesis
    by (cases e) (simp_all add: health_status_wire_defs)
next
  case (Other x)
  then show ?thesis
    by (simp only: health_status_to_wire_def wire_arg.case, intro wire_dispatch_range) auto
qed

interpretation health_status_codec: wire_codec health_status_from_wire health_status_to_wire health_status_name "\<lambda>_. True" 4
proof unfold_locales
  fix s e
  assume "py_lower s = health_status_name e"
  then show "health_status_from_wire (Other (PStr s)) = e"
    and "health_status_to_wire (Other (PStr s)) = health_status_to_wire (Member e)"
    by (cases e; simp add: health_status_wire_defs wire_dispatch_name)+
next
  fix e
  show "health_status_from_wire (Member e) = e"
    by (simp add: health_status_wire_defs)
next
  fix e
  assume "True"
  then show "health_status_from_wire (Other (PInt (health_status_to_wire (Member e)))) = e"
    by (cases e) (simp_all add: health_status_wire_defs)
next
  fix v
  show "0 \<le> health_status_to_wire v \<and> health_status_to_wire v \<le> 4"
    by (rule health_status_to_wire_range)
qed

lemma relay_of_task_status:
  "task_status_from_wire (Other (PInt (task_status_to_wire (Other v)))) = task_status_from_wire (Other v)"
  unfolding task_status_to_wire_def task_status_from_wire_def wire_arg.case wire_dispatch_PInt
  by (rule wire_dispatch_natural) auto

lemma relay_of_response_status:
  "response_status_from_wire (Other (PInt (response_status_to_wire (Other v)))) = response_status_from_wire (Other v)"
  unfolding response_status_to_wire_def response_status_from_wire_def wire_arg.case wire_dispatch_PInt
  by (rule wire_dispatch_natural) auto

lemma relay_of_health_status:
  "health_status_from_wire (Other (PInt (health_status_to_wire (Other v)))) = health_status_from_wire (Other v)"
  unfolding health_status_to_wire_def health_status_from_wire_def wire_arg.case wire_dispatch_PInt
  by (rule wire_dispatch_natural) auto

lemma relay_of_auth_scheme:
  "auth_scheme_from_wire (Other (PInt (auth_scheme_to_wire (Other v)))) =
     (if auth_scheme_from_wire (Other v) = BASIC then UNSPECIFIED else auth_scheme_from_wire (Other v))"
proof -
  let ?basic = "\<lambda>s. if s = BASIC then UNSPECIFIED else s"
  let ?common = "wire_dispatch UNSPECIFIED
    [(''bearer'', BEARER), (''api_key'', API_KEY), (''mtls'', MTLS), (''basic'', UNSPECIFIED),
     (''unspecified'', UNSPECIFIED)]
    (\<lambda>num. if num = 1 then BEARER else if num = 2 then API_KEY else if num = 3 then MTLS
           else UNSPECIFIED) UNSPECIFIED v"
  have "auth_scheme_from_wire (Other (PInt (auth_scheme_to_wire (Other v)))) = ?common"
    unfolding auth_scheme_to_wire_def auth_scheme_from_wire_def wire_arg.case wire_dispatch_PInt
    by (rule wire_dispatch_natural) auto
  moreover have "?basic (auth_scheme_from_wire (Other v)) = ?common"
    unfolding auth_scheme_from_wire_def wire_arg.case
    by (rule wire_dispatch_natural [where h = ?basic]) auto
  ultimately show ?thesis by (simp only:)
qed

section \<open>Properties\<close>

text \<open>
  Every member of the five protocol enumerations survives encoding to its
  wire number and decoding again, except \<open>AuthScheme.BASIC\<close>, which the schema has no number
  for and which comes back as \<open>UNSPECIFIED\<close>.
\<close>

theorem wire_round_trip:
  "priority_from_wire (Other (PInt (priority_to_wire (Member p)))) = p
   \<and> task_status_from_wire (Other (PInt (task_status_to_wire (Member t)))) = t
   \<and> response_status_from_wire (Other (PInt (response_status_to_wire (Member r)))) = r
   \<and> health_status_from_wire (Other (PInt (health_status_to_wire (Member h)))) = h
   \<and> auth_scheme_from_wire (Other (PInt (auth_scheme_to_wire (Member a))))
       = (if a = BASIC then UNSPECIFIED else a)"
  by (intro conjI priority_codec.of_to task_status_codec.of_to response_status_codec.of_to
      health_status_codec.of_to) (cases a; simp add: auth_scheme_wire_defs)+

text \<open>
  C2. For any Python value that is not a member (text in any case, a number, a foreign
  enumeration, \<open>None\<close>, garbage), the receiver of the encoded number sees what a local
  decode of the value gives: statuses agree always, authentication schemes except for
  \<open>BASIC\<close>. The encoding never leaves the range of the schema.
\<close>

theorem wire_relay_agrees:
  "task_status_from_wire (Other (PInt (task_status_to_wire (Other v))))
     = task_status_from_wire (Other v)
   \<and> response_status_from_wire (Other (PInt (response_status_to_wire (Other v))))
     = response_status_from_wire (Other v)
   \<and> health_status_from_wire (Other (PInt (health_status_to_wire (Other v))))
     = health_status_from_wire (Other v)
   \<and> auth_scheme_from_wire (Other (PInt (auth_scheme_to_wire (Other v))))
     = (if auth_scheme_from_wire (Other v) = BASIC then UNSPECIFIED
        else auth_scheme_from_wire (Other v))
   \<and> task_status_to_wire (Other v) \<in> {0..7} \<and> response_status_to_wire (Other v) \<in> {0..3}
   \<and> health_status_to_wire (Other v) \<in> {0..4} \<and> auth_scheme_to_wire (Other v) \<in> {0..3}"
  by (simp add: relay_of_task_status relay_of_response_status relay_of_health_status
      relay_of_auth_scheme task_status_codec.in_range response_status_codec.in_range
      health_status_codec.in_range auth_scheme_codec.in_range)

text \<open>
  A bare integer means a different priority on the two sides: encoding reads it
  as the member's own value (0 to 3, clamped), decoding as the wire number (1 to 4). So the
  number the encoder makes decodes to the right member, and encoding that number once more
  raises the priority by one level up to \<open>CRITICAL\<close>.
\<close>

theorem priority_number_views:
  "priority_from_wire (Other (PInt (priority_to_wire (Other (PInt (priority_value p)))))) = p
   \<and> priority_to_wire (Other (PInt (priority_to_wire (Member p))))
       = min 4 (priority_to_wire (Member p) + 1)
   \<and> priority_to_wire (Other v) \<in> {0..4}"
  using priority_codec.in_range [of "Other v"] by (cases p) (simp_all add: priority_wire_defs)

section \<open>Order\<close>

text \<open>\<open>Priority\<close> is an \<open>IntEnum\<close>: its members are ordered as their values are.\<close>

lemma priority_value_inject: "priority_value p = priority_value q \<longleftrightarrow> p = q"
  by (cases p; cases q) (simp_all add: priority_value_def)

instantiation priority :: linorder
begin

definition less_eq_priority :: "priority \<Rightarrow> priority \<Rightarrow> bool" where
  "less_eq_priority p q \<longleftrightarrow> priority_value p \<le> priority_value q"

definition less_priority :: "priority \<Rightarrow> priority \<Rightarrow> bool" where
  "less_priority p q \<longleftrightarrow> priority_value p < priority_value q"

instance
  by standard (auto simp: less_eq_priority_def less_priority_def priority_value_inject)

end

text \<open>The number on the wire keeps the order, so either side may compare priorities.\<close>

lemma priority_wire_mono: "priority_to_wire (Member p) \<le> priority_to_wire (Member q) \<longleftrightarrow> p \<le> q"
  by (cases p; cases q) (simp_all add: priority_to_wire_def priority_num_to_wire_def priority_value_def less_eq_priority_def)

end
