(* ===== verification/Rpc_Errors.thy ===== *)
theory Rpc_Errors
  imports Rpc_Prelude
begin

text \<open>
  Exceptions and error payloads (\<open>exceptions.py\<close>, \<open>protocol/v2/errors.py\<close>,
  \<open>RpcError.from_exception\<close> in \<open>protocol/v2/types.py\<close>, \<open>exception_to_error\<close> in
  \<open>utils/error_handlers.py\<close>): the exception classes with their inheritance, the standard
  codes, the HTTP and gRPC statuses, the conversions in both directions, and the debug gate
  with its cached module-level flag.
\<close>

section \<open>Exception classes\<close>

text \<open>
  The classes the package raises or tests for. \<open>PyException\<close> is Python's \<open>Exception\<close>;
  \<open>Custom n b\<close> is a class named \<open>n\<close> deriving from \<open>b\<close> that some other module defines.
\<close>

datatype exn_class =
    BaseException | CancelledError | PyException | ValueError | KeyError | TypeError
    | AttributeError | IndexError | AssertionError | StopIteration | PermissionError
    | FileNotFoundError | OSError | TimeoutError | LookupError | NotImplementedError
    | RuntimeError
  | RpcException | BulkheadError | FallbackExhaustedError
  | ProtocolError | UnsupportedVersionError | InvalidMessageError | SerializationError
  | CompressionError | BadRequestError | InvalidParamsError | MissingRequiredFieldError
  | InvalidFieldValueError | RequestTooLargeError | UnauthenticatedError | InvalidTokenError
  | TokenExpiredError | UnauthorizedError | PermissionDeniedError | InsufficientScopeError
  | ResourceNotFoundError | MethodNotFoundError | ServiceNotFoundError | AlreadyExistsError
  | ConflictError | GoneError | InternalError | RpcNotImplementedError | ServiceUnavailableError
  | RpcTimeoutError | CircuitBreakerOpenError | RateLimitedError | ResourceExhaustedError
  | DependencyError | UpstreamTimeoutError | UpstreamUnavailableError
  | Custom string exn_class

text \<open>The linearised bases of a class, itself first (single inheritance).\<close>

fun mro :: "exn_class \<Rightarrow> exn_class list" where
  "mro (Custom n b) = Custom n b # mro b"
| "mro BaseException = [BaseException]"
| "mro CancelledError = [CancelledError, BaseException]"
| "mro PyException = [PyException, BaseException]"
| "mro ValueError = [ValueError, PyException, BaseException]"
| "mro TypeError = [TypeError, PyException, BaseException]"
| "mro AttributeError = [AttributeError, PyException, BaseException]"
| "mro AssertionError = [AssertionError, PyException, BaseException]"
| "mro StopIteration = [StopIteration, PyException, BaseException]"
| "mro OSError = [OSError, PyException, BaseException]"
| "mro LookupError = [LookupError, PyException, BaseException]"
| "mro RuntimeError = [RuntimeError, PyException, BaseException]"
| "mro RpcException = [RpcException, PyException, BaseException]"
| "mro KeyError = [KeyError, LookupError, PyException, BaseException]"
| "mro IndexError = [IndexError, LookupError, PyException, BaseException]"
| "mro PermissionError = [PermissionError, OSError, PyException, BaseException]"
| "mro FileNotFoundError = [FileNotFoundError, OSError, PyException, BaseException]"
| "mro TimeoutError = [TimeoutError, OSError, PyException, BaseException]"
| "mro NotImplementedError = [NotImplementedError, RuntimeError, PyException, BaseException]"
| "mro c = [c, RpcException, PyException, BaseException]"

definition is_subclass :: "exn_class \<Rightarrow> exn_class \<Rightarrow> bool" where
  "is_subclass c d = (d \<in> set (mro c))"

text \<open>
  An exception object. \<open>exn_message\<close> is \<open>str(exc)\<close>; code, data and cause are those of
  \<open>RpcException\<close> and mean nothing outside its subclasses.
\<close>

datatype exn = Exn (exn_class: exn_class) (exn_code: int) (exn_message: string)
  (exn_data: pyval) (exn_cause: "exn option")

definition isinstance_exn :: "exn \<Rightarrow> exn_class \<Rightarrow> bool" where
  "isinstance_exn e d = is_subclass (exn_class e) d"

text \<open>The default \<open>code\<close> and \<open>message\<close> of each dataclass.\<close>

definition rpc_defaults :: "(exn_class \<times> int \<times> string) list" where
  "rpc_defaults = [
    (ProtocolError, 1000, ''Protocol error''),
    (UnsupportedVersionError, 1001, ''Unsupported protocol version''),
    (InvalidMessageError, 1002, ''Invalid message''),
    (SerializationError, 1003, ''Serialization error''),
    (CompressionError, 1004, ''Compression error''),
    (BadRequestError, 2000, ''Bad request''),
    (InvalidParamsError, 2001, ''Invalid params''),
    (MissingRequiredFieldError, 2002, ''Missing required field''),
    (InvalidFieldValueError, 2003, ''Invalid field value''),
    (RequestTooLargeError, 2004, ''Request too large''),
    (UnauthenticatedError, 3000, ''Unauthenticated''),
    (InvalidTokenError, 3001, ''Invalid token''),
    (TokenExpiredError, 3002, ''Token expired''),
    (UnauthorizedError, 3010, ''Unauthorized''),
    (PermissionDeniedError, 3011, ''Permission denied''),
    (InsufficientScopeError, 3012, ''Insufficient scope''),
    (ResourceNotFoundError, 4000, ''Resource not found''),
    (MethodNotFoundError, 4001, ''Method not found''),
    (ServiceNotFoundError, 4002, ''Service not found''),
    (AlreadyExistsError, 4010, ''Already exists''),
    (ConflictError, 4011, ''Conflict''),
    (GoneError, 4020, ''Gone''),
    (InternalError, 5000, ''Internal error''),
    (RpcNotImplementedError, 5001, ''Not implemented''),
    (ServiceUnavailableError, 5002, ''Service unavailable''),
    (RpcTimeoutError, 5003, ''RPC timeout''),
    (CircuitBreakerOpenError, 5010, ''Circuit breaker open''),
    (RateLimitedError, 5020, ''Rate limited''),
    (ResourceExhaustedError, 5021, ''Resource exhausted''),
    (DependencyError, 6000, ''Dependency error''),
    (UpstreamTimeoutError, 6001, ''Upstream timeout''),
    (UpstreamUnavailableError, 6002, ''Upstream unavailable''),
    (BulkheadError, 5030, ''Bulkhead queue exhausted''),
    (FallbackExhaustedError, 5040, ''All fallback handlers exhausted'')]"

text \<open>\<open>type(exc).__name__\<close>.\<close>

fun class_name :: "exn_class \<Rightarrow> string" where
  "class_name (Custom n b) = n"
| "class_name BaseException = ''BaseException''"
| "class_name CancelledError = ''CancelledError''"
| "class_name PyException = ''Exception''"
| "class_name ValueError = ''ValueError''"
| "class_name KeyError = ''KeyError''"
| "class_name TypeError = ''TypeError''"
| "class_name AttributeError = ''AttributeError''"
| "class_name IndexError = ''IndexError''"
| "class_name AssertionError = ''AssertionError''"
| "class_name StopIteration = ''StopIteration''"
| "class_name PermissionError = ''PermissionError''"
| "class_name FileNotFoundError = ''FileNotFoundError''"
| "class_name OSError = ''OSError''"
| "class_name TimeoutError = ''TimeoutError''"
| "class_name LookupError = ''LookupError''"
| "class_name NotImplementedError = ''NotImplementedError''"
| "class_name RuntimeError = ''RuntimeError''"
| "class_name RpcException = ''RpcException''"
| "class_name BulkheadError = ''BulkheadError''"
| "class_name FallbackExhaustedError = ''FallbackExhaustedError''"
| "class_name ProtocolError = ''ProtocolError''"
| "class_name UnsupportedVersionError = ''UnsupportedVersionError''"
| "class_name InvalidMessageError = ''InvalidMessageError''"
| "class_name SerializationError = ''SerializationError''"
| "class_name CompressionError = ''CompressionError''"
| "class_name BadRequestError = ''BadRequestError''"
| "class_name InvalidParamsError = ''InvalidParamsError''"
| "class_name MissingRequiredFieldError = ''MissingRequiredFieldError''"
| "class_name InvalidFieldValueError = ''InvalidFieldValueError''"
| "class_name RequestTooLargeError = ''RequestTooLargeError''"
| "class_name UnauthenticatedError = ''UnauthenticatedError''"
| "class_name InvalidTokenError = ''InvalidTokenError''"
| "class_name TokenExpiredError = ''TokenExpiredError''"
| "class_name UnauthorizedError = ''UnauthorizedError''"
| "class_name PermissionDeniedError = ''PermissionDeniedError''"
| "class_name InsufficientScopeError = ''InsufficientScopeError''"
| "class_name ResourceNotFoundError = ''ResourceNotFoundError''"
| "class_name MethodNotFoundError = ''MethodNotFoundError''"
| "class_name ServiceNotFoundError = ''ServiceNotFoundError''"
| "class_name AlreadyExistsError = ''AlreadyExistsError''"
| "class_name ConflictError = ''ConflictError''"
| "class_name GoneError = ''GoneError''"
| "class_name InternalError = ''InternalError''"
| "class_name RpcNotImplementedError = ''RpcNotImplementedError''"
| "class_name ServiceUnavailableError = ''ServiceUnavailableError''"
| "class_name RpcTimeoutError = ''RpcTimeoutError''"
| "class_name CircuitBreakerOpenError = ''CircuitBreakerOpenError''"
| "class_name RateLimitedError = ''RateLimitedError''"
| "class_name ResourceExhaustedError = ''ResourceExhaustedError''"
| "class_name DependencyError = ''DependencyError''"
| "class_name UpstreamTimeoutError = ''UpstreamTimeoutError''"
| "class_name UpstreamUnavailableError = ''UpstreamUnavailableError''"

section \<open>Error codes\<close>

datatype error_code =
    PROTOCOL_ERROR | UNSUPPORTED_VERSION | INVALID_MESSAGE | SERIALIZATION_ERROR
    | COMPRESSION_ERROR | BAD_REQUEST | INVALID_PARAMS | MISSING_REQUIRED_FIELD
    | INVALID_FIELD_VALUE | REQUEST_TOO_LARGE | UNAUTHENTICATED | INVALID_TOKEN | TOKEN_EXPIRED
    | UNAUTHORIZED | PERMISSION_DENIED | INSUFFICIENT_SCOPE | RESOURCE_NOT_FOUND
    | METHOD_NOT_FOUND | SERVICE_NOT_FOUND | ALREADY_EXISTS | CONFLICT | GONE | INTERNAL_ERROR
    | NOT_IMPLEMENTED | SERVICE_UNAVAILABLE | RPC_TIMEOUT | CIRCUIT_BREAKER_OPEN | RATE_LIMITED
    | RESOURCE_EXHAUSTED | DEPENDENCY_ERROR | UPSTREAM_TIMEOUT | UPSTREAM_UNAVAILABLE

fun error_code_value :: "error_code \<Rightarrow> int" where
  "error_code_value PROTOCOL_ERROR = 1000"
| "error_code_value UNSUPPORTED_VERSION = 1001"
| "error_code_value INVALID_MESSAGE = 1002"
| "error_code_value SERIALIZATION_ERROR = 1003"
| "error_code_value COMPRESSION_ERROR = 1004"
| "error_code_value BAD_REQUEST = 2000"
| "error_code_value INVALID_PARAMS = 2001"
| "error_code_value MISSING_REQUIRED_FIELD = 2002"
| "error_code_value INVALID_FIELD_VALUE = 2003"
| "error_code_value REQUEST_TOO_LARGE = 2004"
| "error_code_value UNAUTHENTICATED = 3000"
| "error_code_value INVALID_TOKEN = 3001"
| "error_code_value TOKEN_EXPIRED = 3002"
| "error_code_value UNAUTHORIZED = 3010"
| "error_code_value PERMISSION_DENIED = 3011"
| "error_code_value INSUFFICIENT_SCOPE = 3012"
| "error_code_value RESOURCE_NOT_FOUND = 4000"
| "error_code_value METHOD_NOT_FOUND = 4001"
| "error_code_value SERVICE_NOT_FOUND = 4002"
| "error_code_value ALREADY_EXISTS = 4010"
| "error_code_value CONFLICT = 4011"
| "error_code_value GONE = 4020"
| "error_code_value INTERNAL_ERROR = 5000"
| "error_code_value NOT_IMPLEMENTED = 5001"
| "error_code_value SERVICE_UNAVAILABLE = 5002"
| "error_code_value RPC_TIMEOUT = 5003"
| "error_code_value CIRCUIT_BREAKER_OPEN = 5010"
| "error_code_value RATE_LIMITED = 5020"
| "error_code_value RESOURCE_EXHAUSTED = 5021"
| "error_code_value DEPENDENCY_ERROR = 6000"
| "error_code_value UPSTREAM_TIMEOUT = 6001"
| "error_code_value UPSTREAM_UNAVAILABLE = 6002"

fun error_code_name :: "error_code \<Rightarrow> string" where
  "error_code_name PROTOCOL_ERROR = ''PROTOCOL_ERROR''"
| "error_code_name UNSUPPORTED_VERSION = ''UNSUPPORTED_VERSION''"
| "error_code_name INVALID_MESSAGE = ''INVALID_MESSAGE''"
| "error_code_name SERIALIZATION_ERROR = ''SERIALIZATION_ERROR''"
| "error_code_name COMPRESSION_ERROR = ''COMPRESSION_ERROR''"
| "error_code_name BAD_REQUEST = ''BAD_REQUEST''"
| "error_code_name INVALID_PARAMS = ''INVALID_PARAMS''"
| "error_code_name MISSING_REQUIRED_FIELD = ''MISSING_REQUIRED_FIELD''"
| "error_code_name INVALID_FIELD_VALUE = ''INVALID_FIELD_VALUE''"
| "error_code_name REQUEST_TOO_LARGE = ''REQUEST_TOO_LARGE''"
| "error_code_name UNAUTHENTICATED = ''UNAUTHENTICATED''"
| "error_code_name INVALID_TOKEN = ''INVALID_TOKEN''"
| "error_code_name TOKEN_EXPIRED = ''TOKEN_EXPIRED''"
| "error_code_name UNAUTHORIZED = ''UNAUTHORIZED''"
| "error_code_name PERMISSION_DENIED = ''PERMISSION_DENIED''"
| "error_code_name INSUFFICIENT_SCOPE = ''INSUFFICIENT_SCOPE''"
| "error_code_name RESOURCE_NOT_FOUND = ''RESOURCE_NOT_FOUND''"
| "error_code_name METHOD_NOT_FOUND = ''METHOD_NOT_FOUND''"
| "error_code_name SERVICE_NOT_FOUND = ''SERVICE_NOT_FOUND''"
| "error_code_name ALREADY_EXISTS = ''ALREADY_EXISTS''"
| "error_code_name CONFLICT = ''CONFLICT''"
| "error_code_name GONE = ''GONE''"
| "error_code_name INTERNAL_ERROR = ''INTERNAL_ERROR''"
| "error_code_name NOT_IMPLEMENTED = ''NOT_IMPLEMENTED''"
| "error_code_name SERVICE_UNAVAILABLE = ''SERVICE_UNAVAILABLE''"
| "error_code_name RPC_TIMEOUT = ''RPC_TIMEOUT''"
| "error_code_name CIRCUIT_BREAKER_OPEN = ''CIRCUIT_BREAKER_OPEN''"
| "error_code_name RATE_LIMITED = ''RATE_LIMITED''"
| "error_code_name RESOURCE_EXHAUSTED = ''RESOURCE_EXHAUSTED''"
| "error_code_name DEPENDENCY_ERROR = ''DEPENDENCY_ERROR''"
| "error_code_name UPSTREAM_TIMEOUT = ''UPSTREAM_TIMEOUT''"
| "error_code_name UPSTREAM_UNAVAILABLE = ''UPSTREAM_UNAVAILABLE''"

definition all_error_codes :: "error_code list" where
  "all_error_codes = [
    PROTOCOL_ERROR, UNSUPPORTED_VERSION, INVALID_MESSAGE, SERIALIZATION_ERROR, COMPRESSION_ERROR
    , BAD_REQUEST, INVALID_PARAMS, MISSING_REQUIRED_FIELD, INVALID_FIELD_VALUE
    , REQUEST_TOO_LARGE, UNAUTHENTICATED, INVALID_TOKEN, TOKEN_EXPIRED, UNAUTHORIZED
    , PERMISSION_DENIED, INSUFFICIENT_SCOPE, RESOURCE_NOT_FOUND, METHOD_NOT_FOUND
    , SERVICE_NOT_FOUND, ALREADY_EXISTS, CONFLICT, GONE, INTERNAL_ERROR, NOT_IMPLEMENTED
    , SERVICE_UNAVAILABLE, RPC_TIMEOUT, CIRCUIT_BREAKER_OPEN, RATE_LIMITED, RESOURCE_EXHAUSTED
    , DEPENDENCY_ERROR, UPSTREAM_TIMEOUT, UPSTREAM_UNAVAILABLE]"

definition ERROR_CODE_NAMES :: "(int, string) dict" where
  "ERROR_CODE_NAMES = map (\<lambda>c. (error_code_value c, error_code_name c)) all_error_codes"

fun exception_class_of :: "error_code \<Rightarrow> exn_class" where
  "exception_class_of PROTOCOL_ERROR = ProtocolError"
| "exception_class_of UNSUPPORTED_VERSION = UnsupportedVersionError"
| "exception_class_of INVALID_MESSAGE = InvalidMessageError"
| "exception_class_of SERIALIZATION_ERROR = SerializationError"
| "exception_class_of COMPRESSION_ERROR = CompressionError"
| "exception_class_of BAD_REQUEST = BadRequestError"
| "exception_class_of INVALID_PARAMS = InvalidParamsError"
| "exception_class_of MISSING_REQUIRED_FIELD = MissingRequiredFieldError"
| "exception_class_of INVALID_FIELD_VALUE = InvalidFieldValueError"
| "exception_class_of REQUEST_TOO_LARGE = RequestTooLargeError"
| "exception_class_of UNAUTHENTICATED = UnauthenticatedError"
| "exception_class_of INVALID_TOKEN = InvalidTokenError"
| "exception_class_of TOKEN_EXPIRED = TokenExpiredError"
| "exception_class_of UNAUTHORIZED = UnauthorizedError"
| "exception_class_of PERMISSION_DENIED = PermissionDeniedError"
| "exception_class_of INSUFFICIENT_SCOPE = InsufficientScopeError"
| "exception_class_of RESOURCE_NOT_FOUND = ResourceNotFoundError"
| "exception_class_of METHOD_NOT_FOUND = MethodNotFoundError"
| "exception_class_of SERVICE_NOT_FOUND = ServiceNotFoundError"
| "exception_class_of ALREADY_EXISTS = AlreadyExistsError"
| "exception_class_of CONFLICT = ConflictError"
| "exception_class_of GONE = GoneError"
| "exception_class_of INTERNAL_ERROR = InternalError"
| "exception_class_of NOT_IMPLEMENTED = RpcNotImplementedError"
| "exception_class_of SERVICE_UNAVAILABLE = ServiceUnavailableError"
| "exception_class_of RPC_TIMEOUT = RpcTimeoutError"
| "exception_class_of CIRCUIT_BREAKER_OPEN = CircuitBreakerOpenError"
| "exception_class_of RATE_LIMITED = RateLimitedError"
| "exception_class_of RESOURCE_EXHAUSTED = ResourceExhaustedError"
| "exception_class_of DEPENDENCY_ERROR = DependencyError"
| "exception_class_of UPSTREAM_TIMEOUT = UpstreamTimeoutError"
| "exception_class_of UPSTREAM_UNAVAILABLE = UpstreamUnavailableError"

definition EXCEPTION_BY_CODE :: "(int, exn_class) dict" where
  "EXCEPTION_BY_CODE = map (\<lambda>c. (error_code_value c, exception_class_of c)) all_error_codes"

definition error_code_to_http_status :: "int \<Rightarrow> int" where
  "error_code_to_http_status code =
     (if 1000 \<le> code \<and> code < 2000 then 400
      else if 2000 \<le> code \<and> code < 3000 then 400
      else if 3000 \<le> code \<and> code \<le> 3002 then 401
      else if 3010 \<le> code \<and> code \<le> 3012 then 403
      else if 4000 \<le> code \<and> code \<le> 4002 then 404
      else if 4010 \<le> code \<and> code \<le> 4011 then 409
      else if code = 4020 then 410
      else if code = 5000 then 500
      else if code = 5001 then 501
      else if code = 5002 then 503
      else if code = 5003 then 504
      else if code = 5010 then 503
      else if 5020 \<le> code \<and> code \<le> 5021 then 429
      else if 5000 \<le> code \<and> code < 6000 then 500
      else if code = 6000 then 502
      else if code = 6001 then 504
      else if code = 6002 then 502
      else if 6000 \<le> code \<and> code < 7000 then 502
      else 500)"

definition error_code_to_grpc_status :: "int \<Rightarrow> string" where
  "error_code_to_grpc_status code =
     (if 2000 \<le> code \<and> code < 3000 then ''INVALID_ARGUMENT''
      else if 3000 \<le> code \<and> code \<le> 3002 then ''UNAUTHENTICATED''
      else if 3010 \<le> code \<and> code \<le> 3012 then ''PERMISSION_DENIED''
      else if 4000 \<le> code \<and> code \<le> 4002 then ''NOT_FOUND''
      else if 4010 \<le> code \<and> code \<le> 4011 then ''ALREADY_EXISTS''
      else if code = 4020 then ''NOT_FOUND''
      else if code = 5000 then ''INTERNAL''
      else if code = 5001 then ''UNIMPLEMENTED''
      else if code = 5002 then ''UNAVAILABLE''
      else if code = 5003 then ''DEADLINE_EXCEEDED''
      else if 5020 \<le> code \<and> code \<le> 5021 then ''RESOURCE_EXHAUSTED''
      else ''UNKNOWN'')"

section \<open>Exceptions and payloads\<close>

text \<open>
  A class of \<open>rpc_defaults\<close> called with keyword arguments: what is not given has its default.
\<close>

definition new_rpc_exn :: "exn_class \<Rightarrow> string option \<Rightarrow> pyval \<Rightarrow> exn option \<Rightarrow> exn" where
  "new_rpc_exn c message data cause =
     (case map_of rpc_defaults c of
        None \<Rightarrow> Exn c 0 (case message of None \<Rightarrow> [] | Some m \<Rightarrow> m) data cause
      | Some (code, dflt) \<Rightarrow> Exn c code (case message of None \<Rightarrow> dflt | Some m \<Rightarrow> m) data cause)"

definition exception_from_code :: "int \<Rightarrow> string option \<Rightarrow> pyval \<Rightarrow> exn" where
  "exception_from_code code message data =
     (case map_of EXCEPTION_BY_CODE code of
        None \<Rightarrow>
          Exn RpcException code
            (case message of None \<Rightarrow> ''RPC error'' | Some m \<Rightarrow> if m = [] then ''RPC error'' else m)
            data None
      | Some c \<Rightarrow> new_rpc_exn c message data None)"

record error_detail =
  detail_type :: string
  detail_field :: "string option"
  detail_reason :: string
  detail_metadata :: "(string \<times> pyval) list option"

record debug_info =
  stack_trace :: "string option"
  internal_message :: "string option"
  debug_timestamp_ms :: int

record rpc_error =
  err_code :: int
  err_name :: string
  err_message :: string
  err_details :: "error_detail list option"
  err_debug :: "debug_info option"

text \<open>
  \<open>RpcError.from_exception\<close>. A list in \<open>data\<close> becomes the details, each item through
  \<open>ErrorDetail.model_validate\<close>, which is pydantic's: the argument \<open>validate\<close>, returning
  \<open>None\<close> where it raises (then so does the whole conversion).
\<close>

fun validate_all :: "(pyval \<Rightarrow> error_detail option) \<Rightarrow> pyval list \<Rightarrow> error_detail list option" where
  "validate_all validate [] = Some []"
| "validate_all validate (x # xs) =
     (case validate x of
        None \<Rightarrow> None
      | Some d \<Rightarrow> map_option (\<lambda>ds. d # ds) (validate_all validate xs))"

definition from_exception :: "(pyval \<Rightarrow> error_detail option) \<Rightarrow> exn \<Rightarrow> rpc_error option" where
  "from_exception validate exc =
     (let name = dict_get ERROR_CODE_NAMES (exn_code exc) ''UNKNOWN'';
          details = (case exn_data exc of
                       PList items \<Rightarrow> map_option Some (validate_all validate items)
                     | _ \<Rightarrow> Some None)
      in map_option
           (\<lambda>ds. \<lparr>err_code = exn_code exc, err_name = name, err_message = exn_message exc,
                  err_details = ds, err_debug = None\<rparr>)
           details)"

section \<open>Mapping Python exceptions\<close>

definition STANDARD_EXCEPTION_MAPPING :: "(exn_class, error_code) dict" where
  "STANDARD_EXCEPTION_MAPPING =
     [(ValueError, INVALID_PARAMS), (KeyError, INVALID_PARAMS), (TypeError, INVALID_PARAMS),
      (AttributeError, INVALID_PARAMS), (IndexError, INVALID_PARAMS),
      (AssertionError, INVALID_PARAMS), (StopIteration, INVALID_PARAMS),
      (PermissionError, PERMISSION_DENIED), (FileNotFoundError, RESOURCE_NOT_FOUND),
      (LookupError, RESOURCE_NOT_FOUND), (NotImplementedError, NOT_IMPLEMENTED),
      (RuntimeError, INTERNAL_ERROR), (PyException, INTERNAL_ERROR)]"

text \<open>The loop over the mapping, in its order.\<close>

fun first_match :: "exn_class \<Rightarrow> (exn_class, error_code) dict \<Rightarrow> error_code option" where
  "first_match c [] = None"
| "first_match c ((d, code) # rest) = (if is_subclass c d then Some code else first_match c rest)"

definition map_exception_to_error_code :: "exn \<Rightarrow> int" where
  "map_exception_to_error_code exc =
     (if isinstance_exn exc RpcException then exn_code exc
      else case first_match (exn_class exc) STANDARD_EXCEPTION_MAPPING of
        Some code \<Rightarrow> error_code_value code
      | None \<Rightarrow> error_code_value INTERNAL_ERROR)"

section \<open>The debug gate\<close>

text \<open>
  The module variable \<open>_DEBUG_ENABLED\<close> is the state; the process environment and
  \<open>sys.gettrace\<close> are read through \<open>env\<close> and \<open>tracing\<close>.
\<close>

type_synonym debug_cache = "bool option"

definition env_get :: "(string \<rightharpoonup> string) \<Rightarrow> string \<Rightarrow> string" where
  "env_get env k = (case env k of None \<Rightarrow> [] | Some s \<Rightarrow> py_lower s)"

definition is_debug_enabled :: "(string \<rightharpoonup> string) \<Rightarrow> bool \<Rightarrow> debug_cache \<Rightarrow> bool \<times> debug_cache" where
  "is_debug_enabled env tracing cache =
     (case cache of
        Some b \<Rightarrow> (b, cache)
      | None \<Rightarrow>
          (if env_get env ''ADUIB_RPC_DEBUG'' \<in> {''1'', ''true'', ''yes'', ''on''} then (True, Some True)
           else if env_get env ''ADUIB_ENV'' \<in> {''dev'', ''development'', ''test''} then (True, Some True)
           else (tracing, Some tracing)))"

definition set_debug_enabled :: "bool \<Rightarrow> debug_cache \<Rightarrow> debug_cache" where
  "set_debug_enabled enabled cache = Some enabled"

definition reset_debug_cache :: "debug_cache \<Rightarrow> debug_cache" where
  "reset_debug_cache cache = None"

text \<open>
  \<open>exception_to_rpc_error\<close>; \<open>format_exc\<close> is \<open>traceback.format_exception\<close> joined and
  \<open>module_of\<close> the \<open>__module__\<close> of a class.
\<close>

definition exception_to_rpc_error ::
  "(exn \<Rightarrow> string) \<Rightarrow> (exn_class \<Rightarrow> string) \<Rightarrow> (string \<rightharpoonup> string) \<Rightarrow> bool \<Rightarrow> exn \<Rightarrow> bool option
     \<Rightarrow> debug_cache \<Rightarrow> rpc_error \<times> debug_cache" where
  "exception_to_rpc_error format_exc module_of env tracing exc include_debug cache =
     (let code = map_exception_to_error_code exc;
          name = dict_get ERROR_CODE_NAMES code ''UNKNOWN'';
          message = (if exn_message exc \<noteq> [] then exn_message exc else class_name (exn_class exc));
          (dbg, cache') = (case include_debug of
                             None \<Rightarrow> is_debug_enabled env tracing cache
                           | Some b \<Rightarrow> (b, cache));
          info = (if dbg then Some
                    \<lparr>stack_trace = Some (format_exc exc),
                     internal_message =
                       Some (module_of (exn_class exc) @ ''.'' @ class_name (exn_class exc)),
                     debug_timestamp_ms = 0\<rparr>
                  else None)
      in (\<lparr>err_code = code, err_name = name, err_message = message, err_details = None,
           err_debug = info\<rparr>, cache'))"

text \<open>\<open>exception_to_error\<close> of \<open>utils/error_handlers.py\<close>: a forced code, or the mapping above.\<close>

definition exception_to_error ::
  "(exn \<Rightarrow> string) \<Rightarrow> (exn_class \<Rightarrow> string) \<Rightarrow> (string \<rightharpoonup> string) \<Rightarrow> bool \<Rightarrow> exn \<Rightarrow> int option
     \<Rightarrow> debug_cache \<Rightarrow> rpc_error \<times> debug_cache" where
  "exception_to_error format_exc module_of env tracing exc code cache =
     (case code of
        Some c \<Rightarrow>
          (\<lparr>err_code = c, err_name = dict_get ERROR_CODE_NAMES c ''UNKNOWN'',
            err_message = (if exn_message exc \<noteq> [] then exn_message exc
                           else class_name (exn_class exc)),
            err_details = None, err_debug = None\<rparr>, cache)
      | None \<Rightarrow> exception_to_rpc_error format_exc module_of env tracing exc None cache)"

section \<open>Lemmas\<close>

lemma is_subclass_refl [simp]: "is_subclass c c"
  by (cases c) (simp_all add: is_subclass_def)

lemma is_subclass_Custom: "is_subclass (Custom n b) d \<longleftrightarrow> d = Custom n b \<or> is_subclass b d"
  by (auto simp: is_subclass_def)

text \<open>Every class the package defines is below \<open>Exception\<close>; \<open>CancelledError\<close> is not.\<close>

lemma rpc_below_exception: "is_subclass c RpcException \<Longrightarrow> is_subclass c PyException"
  by (induction c) (auto simp: is_subclass_def)

lemma cancelled_not_exception [simp]: "\<not> is_subclass CancelledError PyException"
  by (simp add: is_subclass_def)

lemma isinstance_exn_simp [simp]: "isinstance_exn (Exn c k m d ca) b = is_subclass c b"
  by (simp add: isinstance_exn_def)

lemma code_value_inj [simp]: "error_code_value c = error_code_value d \<longleftrightarrow> c = d"
  by (cases c; cases d) simp_all

lemma all_error_codes_UNIV [simp]: "c \<in> set all_error_codes"
  by (cases c) (simp_all add: all_error_codes_def)

lemma map_of_codes:
  "map_of (map (\<lambda>c. (error_code_value c, f c)) cs) (error_code_value c)
     = (if c \<in> set cs then Some (f c) else None)"
  by (induction cs) auto

lemma ERROR_CODE_NAMES_value [simp]:
  "map_of ERROR_CODE_NAMES (error_code_value c) = Some (error_code_name c)"
  by (simp add: ERROR_CODE_NAMES_def map_of_codes)

lemma EXCEPTION_BY_CODE_value [simp]:
  "map_of EXCEPTION_BY_CODE (error_code_value c) = Some (exception_class_of c)"
  by (simp add: EXCEPTION_BY_CODE_def map_of_codes)

lemma EXCEPTION_BY_CODE_Some:
  "map_of EXCEPTION_BY_CODE n = Some k \<longleftrightarrow> (\<exists>c. n = error_code_value c \<and> k = exception_class_of c)"
proof
  assume "map_of EXCEPTION_BY_CODE n = Some k"
  from map_of_SomeD [OF this] show "\<exists>c. n = error_code_value c \<and> k = exception_class_of c"
    by (auto simp: EXCEPTION_BY_CODE_def)
qed auto

text \<open>The table of codes and the dataclass defaults agree, and every such class is an \<open>RpcException\<close>.\<close>

lemma rpc_defaults_code:
  "map_option fst (map_of rpc_defaults (exception_class_of c)) = Some (error_code_value c)"
  by (cases c) (simp_all add: rpc_defaults_def)

lemma exception_class_rpc [simp]: "is_subclass (exception_class_of c) RpcException"
  by (cases c) (simp_all add: is_subclass_def)

lemma new_rpc_exn_class [simp]: "exn_class (new_rpc_exn c m d ca) = c"
  by (simp add: new_rpc_exn_def split: option.split)

lemma new_rpc_exn_code [simp]: "exn_code (new_rpc_exn (exception_class_of c) m d ca) = error_code_value c"
  using rpc_defaults_code [of c] by (auto simp: new_rpc_exn_def split: option.split)

lemma new_rpc_exn_data [simp]: "exn_data (new_rpc_exn c m d ca) = d"
  by (simp add: new_rpc_exn_def split: option.split)

lemma exception_from_code_value:
  "exception_from_code (error_code_value c) m d = new_rpc_exn (exception_class_of c) m d None"
  by (simp add: exception_from_code_def)

lemma exception_from_code_code [simp]: "exn_code (exception_from_code n m d) = n"
proof (cases "map_of EXCEPTION_BY_CODE n")
  case (Some k)
  then show ?thesis by (auto simp: exception_from_code_def EXCEPTION_BY_CODE_Some)
qed (simp add: exception_from_code_def)

lemma exception_from_code_rpc [simp]: "isinstance_exn (exception_from_code n m d) RpcException"
proof (cases "map_of EXCEPTION_BY_CODE n")
  case (Some k)
  then show ?thesis
    by (auto simp: exception_from_code_def EXCEPTION_BY_CODE_Some isinstance_exn_def)
qed (simp add: exception_from_code_def)

text \<open>The entry of the nearest ancestor that has one.\<close>

definition nearest_code :: "exn_class \<Rightarrow> error_code" where
  "nearest_code c =
     (case find (\<lambda>d. map_of STANDARD_EXCEPTION_MAPPING d \<noteq> None) (mro c) of
        None \<Rightarrow> INTERNAL_ERROR
      | Some d \<Rightarrow> the (map_of STANDARD_EXCEPTION_MAPPING d))"

lemma first_match_Custom:
  "\<forall>d \<in> set (dict_keys m). d \<noteq> Custom n b \<Longrightarrow> first_match (Custom n b) m = first_match b m"
  by (induction m rule: first_match.induct [of _ b, case_names Nil Cons])
    (auto simp: is_subclass_Custom)

lemma first_match_nearest:
  "(case first_match c STANDARD_EXCEPTION_MAPPING of Some k \<Rightarrow> k | None \<Rightarrow> INTERNAL_ERROR)
     = nearest_code c"
proof (induction c)
  case (Custom n b)
  moreover have "first_match (Custom n b) STANDARD_EXCEPTION_MAPPING
      = first_match b STANDARD_EXCEPTION_MAPPING"
    by (rule first_match_Custom) (simp add: STANDARD_EXCEPTION_MAPPING_def)
  moreover have "nearest_code (Custom n b) = nearest_code b"
    by (simp add: nearest_code_def STANDARD_EXCEPTION_MAPPING_def)
  ultimately show ?case by simp
qed (simp_all add: nearest_code_def STANDARD_EXCEPTION_MAPPING_def is_subclass_def)

lemma from_exception_no_list:
  "exn_data e = PNone \<Longrightarrow> from_exception validate e =
     Some \<lparr>err_code = exn_code e, err_name = dict_get ERROR_CODE_NAMES (exn_code e) ''UNKNOWN'',
           err_message = exn_message e, err_details = None, err_debug = None\<rparr>"
  by (simp add: from_exception_def)

lemma exception_from_code_data [simp]: "exn_data (exception_from_code n m d) = d"
  by (simp add: exception_from_code_def split: option.split)

text \<open>The gRPC status that names an HTTP status in the standard correspondence.\<close>

definition grpc_of_http :: "int \<Rightarrow> string" where
  "grpc_of_http h =
     (if h = 400 then ''INVALID_ARGUMENT'' else if h = 401 then ''UNAUTHENTICATED''
      else if h = 403 then ''PERMISSION_DENIED'' else if h = 404 \<or> h = 410 then ''NOT_FOUND''
      else if h = 409 then ''ALREADY_EXISTS'' else if h = 429 then ''RESOURCE_EXHAUSTED''
      else if h = 500 then ''INTERNAL'' else if h = 501 then ''UNIMPLEMENTED''
      else if h = 503 then ''UNAVAILABLE'' else if h = 504 then ''DEADLINE_EXCEEDED''
      else ''UNKNOWN'')"

section \<open>Properties\<close>

text \<open>
  An exception rebuilt from any code carries that code through
  both conversions back to a payload; for the standard codes it is an instance of the class
  of that code and the payload gets the code's name; a code outside the enumeration gets
  \<open>UNKNOWN\<close>. No two standard codes share a number.
\<close>

theorem error_code_round_trip:
  "map_exception_to_error_code (exception_from_code n m d) = n
   \<and> map_option err_code (from_exception validate (exception_from_code n m PNone)) = Some n
   \<and> map_option err_name (from_exception validate (exception_from_code n m PNone))
       = Some (if n \<in> error_code_value ` UNIV
               then error_code_name (inv error_code_value n) else ''UNKNOWN'')
   \<and> exn_class (exception_from_code (error_code_value c) m d) = exception_class_of c
   \<and> inj error_code_value"
proof -
  have inj: "inj error_code_value"
    by (simp add: inj_def)
  have "dict_get ERROR_CODE_NAMES n ''UNKNOWN'' =
      (if n \<in> error_code_value ` UNIV
       then error_code_name (inv error_code_value n) else ''UNKNOWN'')"
  proof (cases "n \<in> range error_code_value")
    case True
    then show ?thesis using inj by (auto simp: dict_get_def)
  next
    case False
    then have "map_of ERROR_CODE_NAMES n = None"
      by (auto simp: ERROR_CODE_NAMES_def map_of_eq_None_iff)
    with False show ?thesis by (simp add: dict_get_def)
  qed
  with inj show ?thesis
    by (simp add: map_exception_to_error_code_def from_exception_no_list exception_from_code_value)
qed

text \<open>
  The first entry of the mapping that matches, in the order of
  the dictionary, is the entry of the nearest ancestor of the exception's class: the order of
  the table never lets a base class hide a more specific entry.
\<close>

theorem exception_mapping_nearest:
  "map_exception_to_error_code exc =
     (if isinstance_exn exc RpcException then exn_code exc
      else error_code_value (nearest_code (exn_class exc)))"
  unfolding map_exception_to_error_code_def
  by (simp add: first_match_nearest [symmetric] split: option.split)

text \<open>
  For every standard code the gRPC status names the same outcome as
  the HTTP status, except for the protocol errors, the open breaker and the dependency errors,
  which gRPC reports as \<open>UNKNOWN\<close> although HTTP says 400, 503, 502 and 504. A code is a
  4xx status exactly when it is below 5000 or one of the two quota codes.
\<close>

theorem status_mappings_agree:
  "error_code_to_grpc_status (error_code_value c) =
     (if error_code_value c < 2000 \<or> error_code_value c = 5010 \<or> 6000 \<le> error_code_value c
      then ''UNKNOWN''
      else grpc_of_http (error_code_to_http_status (error_code_value c)))
   \<and> (error_code_to_http_status (error_code_value c) < 500
       \<longleftrightarrow> error_code_value c < 5000 \<or> c = RATE_LIMITED \<or> c = RESOURCE_EXHAUSTED)"
  by (cases c) (simp_all add: error_code_to_grpc_status_def error_code_to_http_status_def
      grpc_of_http_def)

text \<open>
  The debug gate answers once: whatever the environment becomes, the
  cached answer stays until it is reset, and after \<open>set_debug_enabled(False)\<close> no conversion
  of any exception attaches debug information unless its caller asks for it explicitly.
\<close>

theorem debug_gate_sticky:
  "is_debug_enabled env2 tr2 (snd (is_debug_enabled env1 tr1 cache)) = is_debug_enabled env1 tr1 cache
   \<and> fst (is_debug_enabled env tr (reset_debug_cache cache)) =
       (env_get env ''ADUIB_RPC_DEBUG'' \<in> {''1'', ''true'', ''yes'', ''on''}
        \<or> env_get env ''ADUIB_ENV'' \<in> {''dev'', ''development'', ''test''} \<or> tr)
   \<and> exception_to_error fe mo env tr exc None (set_debug_enabled False cache)
       = (\<lparr>err_code = map_exception_to_error_code exc,
           err_name = dict_get ERROR_CODE_NAMES (map_exception_to_error_code exc) ''UNKNOWN'',
           err_message = (if exn_message exc = [] then class_name (exn_class exc)
                          else exn_message exc),
           err_details = None, err_debug = None\<rparr>, Some False)
   \<and> err_debug (fst (exception_to_error fe mo env tr exc (Some n) cache)) = None"
proof (intro conjI)
  show "is_debug_enabled env2 tr2 (snd (is_debug_enabled env1 tr1 cache)) = is_debug_enabled env1 tr1 cache"
    by (cases cache) (simp_all add: is_debug_enabled_def del: insert_iff)
  show "fst (is_debug_enabled env tr (reset_debug_cache cache)) =
       (env_get env ''ADUIB_RPC_DEBUG'' \<in> {''1'', ''true'', ''yes'', ''on''}
        \<or> env_get env ''ADUIB_ENV'' \<in> {''dev'', ''development'', ''test''} \<or> tr)"
    by (simp add: is_debug_enabled_def reset_debug_cache_def del: insert_iff)
qed (simp_all add: is_debug_enabled_def set_debug_enabled_def exception_to_error_def
    exception_to_rpc_error_def Let_def)

end
