(* ===== verification/Circuit_Breaker.thy ===== *)
theory Circuit_Breaker
  imports Rpc_Errors "HOL-Library.Sublist"
begin

text \<open>
  The circuit breaker (\<open>resilience/circuit_breaker.py\<close>). The asyncio lock makes
  \<open>_before_call\<close> and the three \<open>_record_*\<close> methods atomic; between them the guarded
  callable runs, and other calls interleave. \<open>breaker_call\<close> is one call on its own;
  \<open>cb_step\<close> is the interleaving of any number of calls. \<open>time.monotonic()\<close> is an argument.
\<close>

datatype circuit_state = CLOSED | OPEN | HALF_OPEN

definition circuit_state_value :: "circuit_state \<Rightarrow> string" where
  "circuit_state_value s =
     (case s of CLOSED \<Rightarrow> ''closed'' | OPEN \<Rightarrow> ''open'' | HALF_OPEN \<Rightarrow> ''half_open'')"

record breaker_config =
  cfg_failure_threshold :: int
  cfg_success_threshold :: int
  cfg_timeout_seconds :: rat
  cfg_half_open_max_calls :: int
  cfg_excluded_exceptions :: "exn_class list"

definition default_breaker_config :: breaker_config where
  "default_breaker_config =
     \<lparr>cfg_failure_threshold = 5, cfg_success_threshold = 3, cfg_timeout_seconds = 30,
      cfg_half_open_max_calls = 3, cfg_excluded_exceptions = []\<rparr>"

record breaker =
  cb_name :: string
  failure_threshold :: int
  success_threshold :: int
  timeout_seconds :: rat
  half_open_max_calls :: int
  excluded_exceptions :: "exn_class list"
  cb_state :: circuit_state
  failure_count :: int
  success_count :: int
  opened_at :: "rat option"
  half_open_in_flight :: int

definition new_breaker :: "string \<Rightarrow> breaker_config option \<Rightarrow> breaker" where
  "new_breaker name config =
     (let c = (case config of None \<Rightarrow> default_breaker_config | Some c \<Rightarrow> c) in
      \<lparr>cb_name = name,
       failure_threshold = max 1 (cfg_failure_threshold c),
       success_threshold = max 1 (cfg_success_threshold c),
       timeout_seconds = max 0 (cfg_timeout_seconds c),
       half_open_max_calls = max 1 (cfg_half_open_max_calls c),
       excluded_exceptions = cfg_excluded_exceptions c,
       cb_state = CLOSED, failure_count = 0, success_count = 0, opened_at = None,
       half_open_in_flight = 0\<rparr>)"

section \<open>Transitions under the lock\<close>

definition open_timeout_elapsed :: "rat \<Rightarrow> breaker \<Rightarrow> bool" where
  "open_timeout_elapsed now b =
     (case opened_at b of None \<Rightarrow> False | Some t \<Rightarrow> now - t \<ge> timeout_seconds b)"

definition enter_open :: "rat \<Rightarrow> breaker \<Rightarrow> breaker" where
  "enter_open now b =
     (let b' = (if cb_state b \<noteq> OPEN then b\<lparr>cb_state := OPEN, opened_at := Some now\<rparr> else b)
      in b'\<lparr>failure_count := failure_threshold b', success_count := 0, half_open_in_flight := 0\<rparr>)"

definition enter_half_open :: "breaker \<Rightarrow> breaker" where
  "enter_half_open b =
     b\<lparr>cb_state := HALF_OPEN, opened_at := None, failure_count := 0, success_count := 0,
       half_open_in_flight := 0\<rparr>"

definition enter_closed :: "breaker \<Rightarrow> breaker" where
  "enter_closed b =
     b\<lparr>cb_state := CLOSED, opened_at := None, failure_count := 0, success_count := 0,
       half_open_in_flight := 0\<rparr>"

definition maybe_transition_to_half_open :: "rat \<Rightarrow> breaker \<Rightarrow> breaker" where
  "maybe_transition_to_half_open now b =
     (if cb_state b \<noteq> OPEN then b
      else if timeout_seconds b \<le> 0 \<or> open_timeout_elapsed now b then enter_half_open b
      else b)"

definition acquire_half_open_slot :: "breaker \<Rightarrow> bool \<times> breaker" where
  "acquire_half_open_slot b =
     (if half_open_in_flight b \<ge> half_open_max_calls b then (False, b)
      else (True, b\<lparr>half_open_in_flight := half_open_in_flight b + 1\<rparr>))"

definition release_half_open_slot :: "breaker \<Rightarrow> breaker" where
  "release_half_open_slot b =
     (if half_open_in_flight b > 0 then b\<lparr>half_open_in_flight := half_open_in_flight b - 1\<rparr>
      else b)"

definition is_excluded_exception :: "breaker \<Rightarrow> exn \<Rightarrow> bool" where
  "is_excluded_exception b exc = (\<exists>c \<in> set (excluded_exceptions b). isinstance_exn exc c)"

definition retry_after_ms :: "rat \<Rightarrow> breaker \<Rightarrow> int" where
  "retry_after_ms now b =
     (case opened_at b of
        Some t \<Rightarrow>
          if cb_state b = OPEN then py_trunc (max 0 (timeout_seconds b - (now - t)) * 1000) else 0
      | None \<Rightarrow> 0)"

definition build_open_error :: "rat \<Rightarrow> breaker \<Rightarrow> exn" where
  "build_open_error now b =
     new_rpc_exn CircuitBreakerOpenError (Some ''Circuit breaker open'')
       (PDict [(''name'', PStr (cb_name b)),
               (''state'', PStr (circuit_state_value (cb_state b))),
               (''retry_after_ms'', PInt (retry_after_ms now b))]) None"

section \<open>The locked operations\<close>

definition before_call :: "rat \<Rightarrow> breaker \<Rightarrow> (exn + circuit_state) \<times> breaker" where
  "before_call now b =
     (let b1 = maybe_transition_to_half_open now b in
      if cb_state b1 = OPEN then (Inl (build_open_error now b1), b1)
      else if cb_state b1 = HALF_OPEN then
        (case acquire_half_open_slot b1 of
           (False, b2) \<Rightarrow> (Inl (build_open_error now b2), b2)
         | (True, b2) \<Rightarrow> (Inr HALF_OPEN, b2))
      else (Inr CLOSED, b1))"

definition record_success :: "circuit_state \<Rightarrow> breaker \<Rightarrow> breaker" where
  "record_success call_state b =
     (if call_state = HALF_OPEN then
        (let b1 = release_half_open_slot b in
         if cb_state b1 = HALF_OPEN then
           (let b2 = b1\<lparr>success_count := success_count b1 + 1\<rparr> in
            if success_count b2 \<ge> success_threshold b2 then enter_closed b2 else b2)
         else if cb_state b1 = CLOSED then b1\<lparr>failure_count := 0\<rparr>
         else b1)
      else if cb_state b = CLOSED then b\<lparr>failure_count := 0\<rparr>
      else b)"

definition count_failure :: "rat \<Rightarrow> breaker \<Rightarrow> breaker" where
  "count_failure now b =
     (let b1 = b\<lparr>failure_count := failure_count b + 1\<rparr> in
      if failure_count b1 \<ge> failure_threshold b1 then enter_open now b1 else b1)"

definition record_failure :: "rat \<Rightarrow> circuit_state \<Rightarrow> breaker \<Rightarrow> breaker" where
  "record_failure now call_state b =
     (if call_state = HALF_OPEN then
        (let b1 = release_half_open_slot b in
         if cb_state b1 = HALF_OPEN then enter_open now b1
         else if cb_state b1 = CLOSED then count_failure now b1
         else b1)
      else if cb_state b \<noteq> CLOSED then b
      else count_failure now b)"

definition record_ignored :: "circuit_state \<Rightarrow> breaker \<Rightarrow> breaker" where
  "record_ignored call_state b =
     (if call_state = HALF_OPEN then release_half_open_slot b else b)"

definition breaker_reset :: "breaker \<Rightarrow> breaker" where
  "breaker_reset b = enter_closed b"

text \<open>
  What happens when the callable ends: \<open>except Exception\<close> does not see a
  \<open>CancelledError\<close>, so nothing at all is recorded for it.
\<close>

definition after_call :: "rat \<Rightarrow> circuit_state \<Rightarrow> exn + 'a \<Rightarrow> breaker \<Rightarrow> breaker" where
  "after_call now call_state r b =
     (case r of
        Inl exc \<Rightarrow>
          if isinstance_exn exc PyException then
            (if is_excluded_exception b exc then record_ignored call_state b
             else record_failure now call_state b)
          else b
      | Inr v \<Rightarrow> record_success call_state b)"

text \<open>
  A whole call with nothing interleaved: \<open>now\<close> is the clock at admission and \<open>now'\<close> at
  completion; \<open>None\<close> for \<open>func\<close> is a value that is not callable.
\<close>

definition breaker_call ::
  "rat \<Rightarrow> rat \<Rightarrow> ('w, exn, 'a) comp option \<Rightarrow> breaker \<Rightarrow> 'w \<Rightarrow> (exn + 'a) \<times> breaker \<times> 'w" where
  "breaker_call now now' func b w =
     (case func of
        None \<Rightarrow> (Inl (Exn TypeError 0 ''func must be callable'' PNone None), b, w)
      | Some f \<Rightarrow>
          (case before_call now b of
             (Inl e, b1) \<Rightarrow> (Inl e, b1, w)
           | (Inr call_state, b1) \<Rightarrow>
               (let (r, w') = f w in (r, after_call now' call_state r b1, w'))))"

section \<open>Interleaved calls\<close>

text \<open>
  The breaker, the admission states of the calls now running, and the monotonic clock. A call
  is admitted or rejected, or some running call ends with any outcome, or the breaker is reset.
\<close>

type_synonym cb_sys = "breaker \<times> circuit_state list \<times> rat"

inductive cb_step :: "cb_sys \<Rightarrow> cb_sys \<Rightarrow> bool" where
  admit: "clk \<le> now \<Longrightarrow> before_call now b = (Inr st, b') \<Longrightarrow> cb_step (b, calls, clk) (b', st # calls, now)"
| reject: "clk \<le> now \<Longrightarrow> before_call now b = (Inl e, b') \<Longrightarrow> cb_step (b, calls, clk) (b', calls, now)"
| finish: "clk \<le> now \<Longrightarrow>
    cb_step (b, xs @ st # ys, clk) (after_call now st (r :: exn + unit) b, xs @ ys, now)"
| reset: "clk \<le> now \<Longrightarrow> cb_step (b, calls, clk) (breaker_reset b, calls, now)"

inductive_cases cb_stepE: "cb_step (b, calls, clk) s'"

abbreviation cb_steps :: "cb_sys \<Rightarrow> cb_sys \<Rightarrow> bool" where
  "cb_steps \<equiv> cb_step\<^sup>*\<^sup>*"

section \<open>The invariant\<close>

text \<open>
  The counters belong to the state: a closed breaker has fewer failures than its threshold, an
  open one knows since when, a half-open one has room for at most its maximum.
\<close>

definition cb_inv :: "rat \<Rightarrow> breaker \<Rightarrow> bool" where
  "cb_inv clk b \<longleftrightarrow>
     1 \<le> failure_threshold b \<and> 1 \<le> success_threshold b \<and> 0 \<le> timeout_seconds b
     \<and> 1 \<le> half_open_max_calls b
     \<and> 0 \<le> half_open_in_flight b \<and> half_open_in_flight b \<le> half_open_max_calls b
     \<and> (case cb_state b of
          CLOSED \<Rightarrow> 0 \<le> failure_count b \<and> failure_count b < failure_threshold b
                     \<and> success_count b = 0 \<and> opened_at b = None \<and> half_open_in_flight b = 0
        | OPEN \<Rightarrow> failure_count b = failure_threshold b \<and> success_count b = 0
                     \<and> (\<exists>t \<le> clk. opened_at b = Some t) \<and> half_open_in_flight b = 0
        | HALF_OPEN \<Rightarrow> failure_count b = 0 \<and> 0 \<le> success_count b
                     \<and> success_count b < success_threshold b \<and> opened_at b = None)"

lemmas breaker_defs = before_call_def maybe_transition_to_half_open_def open_timeout_elapsed_def
  acquire_half_open_slot_def enter_open_def enter_half_open_def enter_closed_def
  release_half_open_slot_def count_failure_def Let_def

lemma new_breaker_inv [rpc_inv]: "cb_inv clk (new_breaker name config)"
  by (simp add: cb_inv_def new_breaker_def Let_def)

lemma cb_inv_clock: "cb_inv clk b \<Longrightarrow> clk \<le> now \<Longrightarrow> cb_inv now b"
  by (cases "cb_state b") (auto simp: cb_inv_def intro: order_trans)

lemma before_call_inv [rpc_inv]: "cb_inv now b \<Longrightarrow> cb_inv now (snd (before_call now b))"
  by (cases "cb_state b") (auto simp: cb_inv_def breaker_defs)

lemma record_success_inv [rpc_inv]: "cb_inv now b \<Longrightarrow> cb_inv now (record_success st b)"
  by (cases "cb_state b") (auto simp: cb_inv_def record_success_def breaker_defs)

lemma record_failure_inv [rpc_inv]: "cb_inv now b \<Longrightarrow> cb_inv now (record_failure now st b)"
  by (cases "cb_state b") (auto simp: cb_inv_def record_failure_def breaker_defs)

lemma record_ignored_inv [rpc_inv]: "cb_inv now b \<Longrightarrow> cb_inv now (record_ignored st b)"
  by (cases "cb_state b") (auto simp: cb_inv_def record_ignored_def breaker_defs)

lemma breaker_reset_inv [rpc_inv]: "cb_inv now b \<Longrightarrow> cb_inv now (breaker_reset b)"
  by (auto simp: cb_inv_def breaker_reset_def breaker_defs)

lemma after_call_inv [rpc_inv]: "cb_inv now b \<Longrightarrow> cb_inv now (after_call now st r b)"
  by (simp add: after_call_def rpc_inv split: sum.split)

lemma cb_step_inv:
  "cb_step s s' \<Longrightarrow> cb_inv (snd (snd s)) (fst s) \<Longrightarrow> cb_inv (snd (snd s')) (fst s')"
proof (induction rule: cb_step.induct)
  case (admit clk now b st b' calls)
  then show ?case using before_call_inv [of now b] cb_inv_clock by fastforce
next
  case (reject clk now b e b' calls)
  then show ?case using before_call_inv [of now b] cb_inv_clock by fastforce
qed (auto intro: rpc_inv cb_inv_clock)

lemma cb_steps_inv:
  "cb_steps s s' \<Longrightarrow> cb_inv (snd (snd s)) (fst s) \<Longrightarrow> cb_inv (snd (snd s')) (fst s')"
  by (induction rule: rtranclp_induct) (auto dest: cb_step_inv)

section \<open>Counting failures while closed\<close>

text \<open>
  How an outcome counts: a success, a failure, or neither (an excluded exception, or a
  cancellation, which is not an \<open>Exception\<close>).
\<close>

definition counted :: "breaker \<Rightarrow> exn + unit \<Rightarrow> bool option" where
  "counted b r =
     (case r of
        Inr _ \<Rightarrow> Some True
      | Inl exc \<Rightarrow>
          if isinstance_exn exc PyException \<and> \<not> is_excluded_exception b exc then Some False else None)"

definition complete_all :: "(rat \<times> (exn + unit)) list \<Rightarrow> breaker \<Rightarrow> breaker" where
  "complete_all outs b = fold (\<lambda>(t, r). after_call t CLOSED r) outs b"

fun trips :: "nat \<Rightarrow> nat \<Rightarrow> bool list \<Rightarrow> bool" where
  "trips k n [] = False"
| "trips k n (True # os) = trips k 0 os"
| "trips k n (False # os) = (k \<le> Suc n \<or> trips k (Suc n) os)"

lemma sublist_run_True:
  "n < k \<Longrightarrow> sublist (replicate k False) (replicate n False @ True # os)
     \<longleftrightarrow> sublist (replicate k False) os"
proof (induction n)
  case 0
  then obtain j where "k = Suc j" by (cases k) auto
  then show ?case by (auto simp: sublist_Cons_right)
next
  case (Suc n)
  have "\<not> prefix (replicate k False) (replicate (Suc n) False @ True # os)"
  proof
    assume "prefix (replicate k False) (replicate (Suc n) False @ True # os)"
    then obtain zs where "replicate (Suc n) False @ True # os = replicate k False @ zs"
      by (auto simp: prefix_def)
    then have "(replicate (Suc n) False @ True # os) ! Suc n = (replicate k False @ zs) ! Suc n"
      by simp
    with Suc.prems show False by (simp add: nth_append)
  qed
  with Suc show ?case by (simp add: sublist_Cons_right)
qed

lemma trips_iff: "n < k \<Longrightarrow> trips k n os \<longleftrightarrow> sublist (replicate k False) (replicate n False @ os)"
proof (induction k n os rule: trips.induct)
  case (1 k n)
  then have "\<not> sublist (replicate k False) (replicate n False)"
    by (auto dest: sublist_length_le)
  then show ?case by simp
next
  case (2 k n os)
  then have "k > 0" by simp
  with 2 show ?case by (simp add: sublist_run_True)
next
  case (3 k n os)
  have eq: "replicate n False @ False # os = replicate (Suc n) False @ os"
    by (simp add: replicate_app_Cons_same)
  show ?case
  proof (cases "Suc n = k")
    case True
    then have "prefix (replicate k False) (replicate (Suc n) False @ os)" by simp
    then have "sublist (replicate k False) (replicate n False @ False # os)"
      unfolding eq by (rule prefix_imp_sublist)
    with True show ?thesis by simp
  next
    case False
    with 3 have "Suc n < k" by simp
    with 3(1) show ?thesis unfolding eq by simp
  qed
qed

lemma complete_all_open: "cb_state b = OPEN \<Longrightarrow> cb_state (complete_all outs b) = OPEN"
proof (induction outs arbitrary: b)
  case (Cons o' outs)
  then show ?case
    by (auto simp: complete_all_def after_call_def record_success_def record_failure_def
        record_ignored_def split: sum.split prod.split)
qed (simp add: complete_all_def)

lemma counted_cong:
  "excluded_exceptions b' = excluded_exceptions b \<Longrightarrow> counted b' = counted b"
  by (rule ext) (simp add: counted_def is_excluded_exception_def split: sum.split)

lemma counted_failure_count [simp]: "counted (b\<lparr>failure_count := n\<rparr>) = counted b"
  by (rule counted_cong) simp

lemma complete_all_Cons [simp]:
  "complete_all ((t, r) # outs) b = complete_all outs (after_call t CLOSED r b)"
  by (simp add: complete_all_def)

lemma after_call_closed:
  "cb_state b = CLOSED \<Longrightarrow> after_call t CLOSED r b =
     (case counted b r of
        None \<Rightarrow> b
      | Some ok \<Rightarrow> if ok then b\<lparr>failure_count := 0\<rparr> else count_failure t b)"
  by (auto simp: counted_def after_call_def record_success_def record_failure_def
      record_ignored_def split: sum.splits)

lemma complete_all_closed:
  "cb_state b = CLOSED \<Longrightarrow> 0 \<le> failure_count b \<Longrightarrow> failure_count b < failure_threshold b \<Longrightarrow>
   cb_state (complete_all outs b) =
     (if trips (nat (failure_threshold b)) (nat (failure_count b))
          (List.map_filter (\<lambda>(t, r). counted b r) outs)
      then OPEN else CLOSED)"
proof (induction outs arbitrary: b)
  case Nil
  then show ?case by (simp add: complete_all_def List.map_filter_def)
next
  case (Cons p outs)
  obtain t r where p: "p = (t, r)" by (cases p)
  consider "counted b r = None" | "counted b r = Some True"
    | "counted b r = Some False" "failure_threshold b \<le> failure_count b + 1"
    | "counted b r = Some False" "failure_count b + 1 < failure_threshold b"
    by (cases "counted b r") force+
  then show ?case
  proof cases
    case 1
    with Cons show ?thesis by (simp add: p after_call_closed map_filter_simps)
  next
    case 2
    with Cons.IH [of "b\<lparr>failure_count := 0\<rparr>"] Cons.prems show ?thesis
      by (simp add: p after_call_closed map_filter_simps)
  next
    case 3
    then have "cb_state (count_failure t b) = OPEN"
        "nat (failure_threshold b) \<le> Suc (nat (failure_count b))"
      using Cons.prems by (simp_all add: count_failure_def enter_open_def Let_def)
    with 3 Cons.prems show ?thesis
      by (simp add: p after_call_closed complete_all_open map_filter_simps)
  next
    case 4
    let ?b = "b\<lparr>failure_count := failure_count b + 1\<rparr>"
    have "count_failure t b = ?b" "nat (failure_count b + 1) = Suc (nat (failure_count b))"
      "\<not> nat (failure_threshold b) \<le> Suc (nat (failure_count b))"
      using 4 Cons.prems by (simp_all add: count_failure_def Let_def)
    with 4 Cons.IH [of ?b] Cons.prems show ?thesis
      by (simp add: p after_call_closed map_filter_simps)
  qed
qed

section \<open>Calls on their own\<close>

definition ok_call :: "('w, exn, unit) comp" where
  "ok_call w = (Inr (), w)"

definition fail_call :: "exn \<Rightarrow> ('w, exn, unit) comp" where
  "fail_call e w = (Inl e, w)"

lemma after_call_success [simp]: "after_call now st (Inr v) b = record_success st b"
  by (simp add: after_call_def)

lemma breaker_call_reject:
  "before_call now b = (Inl e, b1) \<Longrightarrow> breaker_call now now' (Some f) b w = (Inl e, b1, w)"
  by (simp add: breaker_call_def)

lemma breaker_call_admit:
  "before_call now b = (Inr st, b1) \<Longrightarrow>
     breaker_call now now' (Some f) b w = (fst (f w), after_call now' st (fst (f w)) b1, snd (f w))"
  by (simp add: breaker_call_def split: prod.split)

lemma before_call_open:
  "cb_state b = OPEN \<Longrightarrow> opened_at b = Some t \<Longrightarrow> now - t < timeout_seconds b \<Longrightarrow>
     0 < timeout_seconds b \<Longrightarrow> before_call now b = (Inl (build_open_error now b), b)"
  by (simp add: breaker_defs)

lemma before_call_elapsed:
  "cb_state b = OPEN \<Longrightarrow> opened_at b = Some t \<Longrightarrow> timeout_seconds b \<le> now - t \<Longrightarrow>
     1 \<le> half_open_max_calls b \<Longrightarrow>
     before_call now b = (Inr HALF_OPEN, (enter_half_open b)\<lparr>half_open_in_flight := 1\<rparr>)"
  by (simp add: breaker_defs)

lemma before_call_half_open:
  "cb_state b = HALF_OPEN \<Longrightarrow> half_open_in_flight b < half_open_max_calls b \<Longrightarrow>
     before_call now b =
       (Inr HALF_OPEN, b\<lparr>half_open_in_flight := half_open_in_flight b + 1\<rparr>)"
  by (simp add: breaker_defs)

lemma before_call_full:
  "cb_state b = HALF_OPEN \<Longrightarrow> half_open_max_calls b \<le> half_open_in_flight b \<Longrightarrow>
     before_call now b = (Inl (build_open_error now b), b)"
  by (simp add: breaker_defs)

lemma before_call_closed: "cb_state b = CLOSED \<Longrightarrow> before_call now b = (Inr CLOSED, b)"
  by (simp add: breaker_defs)

lemma build_open_error_class [simp]: "exn_class (build_open_error now b) = CircuitBreakerOpenError"
  by (simp add: build_open_error_def)

lemma build_open_error_code [simp]: "map_exception_to_error_code (build_open_error now b) = 5010"
  by (simp add: map_exception_to_error_code_def isinstance_exn_def is_subclass_def
      build_open_error_def new_rpc_exn_def rpc_defaults_def)

section \<open>Runs\<close>

definition some_failure :: exn where
  "some_failure = new_rpc_exn InternalError None PNone None"

definition cancellation :: exn where
  "cancellation = Exn CancelledError 0 [] PNone None"

lemma one_call_steps:
  "before_call now b = (Inr st, b') \<Longrightarrow> clk \<le> now \<Longrightarrow>
     cb_steps (b, [], clk) (after_call now st (r :: exn + unit) b', [], now)"
  using admit [of clk now b st b' "[]"] finish [of now now b' "[]" st "[]" r] by auto

lemma closed_failure_steps:
  assumes "cb_state b = CLOSED" "excluded_exceptions b = []"
  shows "cb_steps (b, [], clk) (count_failure clk b, [], clk)"
proof -
  have "after_call clk CLOSED (Inl some_failure :: exn + unit) b = count_failure clk b"
    using assms by (simp add: after_call_def record_failure_def is_excluded_exception_def
        some_failure_def isinstance_exn_def is_subclass_def)
  then show ?thesis
    using one_call_steps [OF before_call_closed [OF assms(1)], of clk clk "Inl some_failure"] by simp
qed

lemma failing_steps:
  "cb_state b = CLOSED \<Longrightarrow> excluded_exceptions b = [] \<Longrightarrow> failure_count b = 0 \<Longrightarrow>
   int j < failure_threshold b \<Longrightarrow> cb_steps (b, [], clk) (b\<lparr>failure_count := int j\<rparr>, [], clk)"
proof (induction j)
  case 0
  then have "b\<lparr>failure_count := int 0\<rparr> = b" by simp
  then show ?case by simp
next
  case (Suc j)
  let ?b = "b\<lparr>failure_count := int j\<rparr>"
  have "count_failure clk ?b = b\<lparr>failure_count := int (Suc j)\<rparr>"
    using Suc.prems by (simp add: count_failure_def Let_def)
  then have "cb_steps (?b, [], clk) (b\<lparr>failure_count := int (Suc j)\<rparr>, [], clk)"
    using closed_failure_steps [of ?b clk] Suc.prems by simp
  with Suc show ?case
    by (auto intro: rtranclp_trans)
qed

lemma opening_steps:
  assumes "cb_state b = CLOSED" "excluded_exceptions b = []" "failure_count b = 0"
    and "1 \<le> failure_threshold b"
  shows "cb_steps (b, [], clk) (enter_open clk b, [], clk)"
proof -
  let ?b = "b\<lparr>failure_count := failure_threshold b - 1\<rparr>"
  have "cb_steps (b, [], clk) (?b, [], clk)"
    using failing_steps [of b "nat (failure_threshold b - 1)" clk] assms by simp
  moreover have "count_failure clk ?b = enter_open clk b"
    using assms by (simp add: count_failure_def enter_open_def Let_def)
  then have "cb_steps (?b, [], clk) (enter_open clk b, [], clk)"
    using closed_failure_steps [of ?b clk] assms by simp
  ultimately show ?thesis by (rule rtranclp_trans)
qed

lemma cancelled_call [simp]: "after_call now st (Inl cancellation) b = b"
  by (simp add: after_call_def cancellation_def)

lemma leaking_steps:
  "cb_state b = HALF_OPEN \<Longrightarrow> half_open_in_flight b + int j \<le> half_open_max_calls b \<Longrightarrow>
     cb_steps (b, [], clk) (b\<lparr>half_open_in_flight := half_open_in_flight b + int j\<rparr>, [], clk)"
proof (induction j)
  case (Suc j)
  let ?b = "\<lambda>j. b\<lparr>half_open_in_flight := half_open_in_flight b + int j\<rparr>"
  have "before_call clk (?b j) = (Inr HALF_OPEN, ?b (Suc j))"
    using Suc.prems by (simp add: before_call_half_open add.commute add.left_commute)
  from one_call_steps [OF this order_refl, of "Inl cancellation"]
  have "cb_steps (?b j, [], clk) (?b (Suc j), [], clk)" by simp
  moreover have "cb_steps (b, [], clk) (?b j, [], clk)"
    using Suc by simp
  ultimately show ?case by (rule rtranclp_trans [rotated])
qed simp

section \<open>Successful probes\<close>

definition probe :: "rat \<Rightarrow> breaker \<Rightarrow> breaker" where
  "probe now b = fst (snd (breaker_call now now (Some ok_call) b ()))"

lemma probe_admitted:
  "before_call now b = (Inr st, b') \<Longrightarrow> probe now b = record_success st b'"
  by (simp add: probe_def breaker_call_admit ok_call_def)

lemma probe_closed: "probe now (enter_closed b) = enter_closed b"
  by (subst probe_admitted [OF before_call_closed]) (simp_all add: enter_closed_def record_success_def)

lemma probe_half_open:
  "1 \<le> half_open_max_calls b \<Longrightarrow> probe now ((enter_half_open b)\<lparr>success_count := m\<rparr>) =
     (if m + 1 < success_threshold b then (enter_half_open b)\<lparr>success_count := m + 1\<rparr>
      else enter_closed b)"
  by (subst probe_admitted [OF before_call_half_open])
    (simp_all add: enter_half_open_def enter_closed_def record_success_def
      release_half_open_slot_def Let_def)

lemma probe_open:
  assumes "cb_state b = OPEN" "opened_at b = Some t" "timeout_seconds b \<le> now - t"
    and "1 \<le> half_open_max_calls b"
  shows "probe now b =
     (if 1 < success_threshold b then (enter_half_open b)\<lparr>success_count := 1\<rparr> else enter_closed b)"
  by (subst probe_admitted [OF before_call_elapsed [OF assms]])
    (simp add: enter_half_open_def enter_closed_def record_success_def release_half_open_slot_def
      Let_def)

lemma probes:
  assumes "cb_state b = OPEN" "opened_at b = Some t" "timeout_seconds b \<le> now - t"
    and "1 \<le> half_open_max_calls b"
  shows "(probe now ^^ Suc n) b =
     (if int (Suc n) < success_threshold b
      then (enter_half_open b)\<lparr>success_count := int (Suc n)\<rparr> else enter_closed b)"
proof (induction n)
  case 0
  then show ?case by (simp add: probe_open [OF assms])
next
  case (Suc n)
  have "(probe now ^^ Suc (Suc n)) b = probe now ((probe now ^^ Suc n) b)" by simp
  also have "\<dots> = (if int (Suc (Suc n)) < success_threshold b
      then (enter_half_open b)\<lparr>success_count := int (Suc (Suc n))\<rparr> else enter_closed b)"
    unfolding Suc using assms(4) by (simp add: probe_closed probe_half_open add.commute)
  finally show ?case .
qed

lemma failure_reopens:
  assumes "cb_state b = HALF_OPEN" "half_open_in_flight b < half_open_max_calls b"
    and "counted b (Inl e) = Some False"
  shows "cb_state (fst (snd (breaker_call now now' (Some (fail_call e)) b w))) = OPEN
    \<and> opened_at (fst (snd (breaker_call now now' (Some (fail_call e)) b w))) = Some now'"
proof -
  have "isinstance_exn e PyException" "\<not> is_excluded_exception b e"
    using assms(3) by (simp_all add: counted_def split: if_splits)
  with assms(1) show ?thesis
    unfolding breaker_call_admit [OF before_call_half_open [OF assms(1,2)]]
    by (simp add: fail_call_def after_call_def is_excluded_exception_def record_failure_def enter_open_def
        release_half_open_slot_def Let_def)
qed

lemma counted_enter_half_open [simp]: "counted ((enter_half_open b)\<lparr>success_count := m\<rparr>) = counted b"
  by (rule counted_cong) (simp add: enter_half_open_def)

section \<open>Properties\<close>

text \<open>
  C1. Starting from a new breaker, whatever the order in which calls admitted
  while closed complete and whatever their outcomes, the breaker is open afterwards exactly if
  at some point \<open>failure_threshold\<close> counted failures came in a row, where excluded exceptions
  and cancellations are skipped and any success ends a row; otherwise it is still closed.
\<close>

theorem breaker_opens_iff:
  "cb_state (complete_all outs (new_breaker name config)) =
     (if sublist (replicate (nat (failure_threshold (new_breaker name config))) False)
           (List.map_filter (\<lambda>(t, r). counted (new_breaker name config) r) outs)
      then OPEN else CLOSED)"
proof -
  have "failure_count (new_breaker name config) = 0" "cb_state (new_breaker name config) = CLOSED"
    "1 \<le> failure_threshold (new_breaker name config)"
    by (simp_all add: new_breaker_def Let_def)
  then show ?thesis
    by (simp add: complete_all_closed trips_iff)
qed

text \<open>
  While the timeout of an open breaker has not elapsed, a call is
  refused without running the callable and without changing the breaker; the error is
  \<open>CircuitBreakerOpenError\<close> with code 5010, and its \<open>retry_after_ms\<close> is the remaining time
  rounded down to a millisecond. From the timeout on, the next call is let through as a probe.
\<close>

theorem breaker_open_rejects:
  assumes "cb_state b = OPEN" "opened_at b = Some t" "t \<le> now" "0 < timeout_seconds b"
    and "1 \<le> half_open_max_calls b"
  shows "if now - t < timeout_seconds b
    then breaker_call now now' (Some f) b w = (Inl (build_open_error now b), b, w)
      \<and> exn_class (build_open_error now b) = CircuitBreakerOpenError
      \<and> map_exception_to_error_code (build_open_error now b) = 5010
      \<and> of_int (retry_after_ms now b) \<le> (t + timeout_seconds b - now) * 1000
      \<and> (t + timeout_seconds b - now) * 1000 < of_int (retry_after_ms now b) + 1
    else before_call now b = (Inr HALF_OPEN, (enter_half_open b)\<lparr>half_open_in_flight := 1\<rparr>)
      \<and> fst (breaker_call now now' (Some f) b w) = fst (f w)"
proof (cases "now - t < timeout_seconds b")
  case True
  then have "retry_after_ms now b = \<lfloor>(timeout_seconds b - (now - t)) * 1000\<rfloor>"
    using assms by (simp add: retry_after_ms_def py_trunc_def)
  moreover have "(timeout_seconds b - (now - t)) * 1000 = (t + timeout_seconds b - now) * 1000"
    by simp
  ultimately show ?thesis
    using True assms before_call_open [OF assms(1,2) True assms(4)]
    by (simp only: if_True breaker_call_reject build_open_error_class build_open_error_code
        of_int_floor_le simp_thms) linarith
next
  case False
  then have "timeout_seconds b \<le> now - t" by simp
  from before_call_elapsed [OF assms(1,2) this assms(5)] False show ?thesis
    by (simp add: breaker_call_admit)
qed

theorem breaker_open_rejects_witness:
  "\<exists>b. cb_state b = OPEN \<and> retry_after_ms 10 b = 20000 \<and>
     breaker_call 10 10 (Some ok_call) b () = (Inl (build_open_error 10 b), b, ())"
proof -
  let ?b = "enter_open 0 (new_breaker ''svc'' None)"
  have "if 10 - 0 < timeout_seconds ?b
    then breaker_call 10 10 (Some ok_call) ?b () = (Inl (build_open_error 10 ?b), ?b, ())
      \<and> exn_class (build_open_error 10 ?b) = CircuitBreakerOpenError
      \<and> map_exception_to_error_code (build_open_error 10 ?b) = 5010
      \<and> of_int (retry_after_ms 10 ?b) \<le> (0 + timeout_seconds ?b - 10) * 1000
      \<and> (0 + timeout_seconds ?b - 10) * 1000 < of_int (retry_after_ms 10 ?b) + 1
    else before_call 10 ?b = (Inr HALF_OPEN, (enter_half_open ?b)\<lparr>half_open_in_flight := 1\<rparr>)
      \<and> fst (breaker_call 10 10 (Some ok_call) ?b ()) = fst (ok_call ())"
    by (rule breaker_open_rejects)
      (simp_all add: enter_open_def new_breaker_def default_breaker_config_def Let_def)
  then have "breaker_call 10 10 (Some ok_call) ?b () = (Inl (build_open_error 10 ?b), ?b, ())"
    by (simp add: enter_open_def new_breaker_def default_breaker_config_def Let_def)
  moreover have "retry_after_ms 10 ?b = 20000" "cb_state ?b = OPEN"
    by (simp_all add: retry_after_ms_def enter_open_def new_breaker_def default_breaker_config_def
        Let_def py_trunc_def)
  ultimately show ?thesis by blast
qed

text \<open>
  However calls interleave, complete, are cancelled or resets intervene, the
  counters stay within the state they belong to: fewer counted failures than the threshold while
  closed, fewer probe successes than the threshold while half-open, at most
  \<open>half_open_max_calls\<close> slots taken and none outside half-open, and an open breaker knows a past
  instant at which it opened.
\<close>

theorem breaker_reachable:
  assumes "cb_steps (new_breaker name config, [], clk0) (b, calls, clk)"
  shows "0 \<le> half_open_in_flight b \<and> half_open_in_flight b \<le> half_open_max_calls b
    \<and> (case cb_state b of
         CLOSED \<Rightarrow> 0 \<le> failure_count b \<and> failure_count b < failure_threshold b
                    \<and> half_open_in_flight b = 0
       | OPEN \<Rightarrow> (\<exists>t \<le> clk. opened_at b = Some t) \<and> half_open_in_flight b = 0
       | HALF_OPEN \<Rightarrow> 0 \<le> success_count b \<and> success_count b < success_threshold b
                    \<and> opened_at b = None)"
  using cb_steps_inv [OF assms] new_breaker_inv [of clk0 name config]
  by (simp add: cb_inv_def split: circuit_state.splits)

theorem breaker_reachable_witness:
  "\<exists>b. cb_steps (new_breaker ''svc'' None, [], 0) (b, [CLOSED], 1)
     \<and> failure_count b < failure_threshold b"
proof -
  let ?b = "new_breaker ''svc'' None"
  have "before_call 1 ?b = (Inr CLOSED, ?b)"
    by (rule before_call_closed) (simp add: new_breaker_def Let_def)
  then have st: "cb_steps (?b, [], 0) (?b, [CLOSED], 1)"
    by (intro r_into_rtranclp admit) simp_all
  from breaker_reachable [OF this] have "failure_count ?b < failure_threshold ?b"
    by (simp add: new_breaker_def Let_def)
  with st show ?thesis by blast
qed

text \<open>
  A call cancelled while it probes keeps its slot: \<open>CancelledError\<close> is
  not an \<open>Exception\<close>, so nothing is recorded for it. From any new breaker (with no excluded
  exceptions) there is a run that ends with no call in flight and with a breaker that refuses
  every call at any later time, with \<open>retry_after_ms\<close> 0; only a manual reset ends this.
\<close>

theorem breaker_slot_leak:
  "\<exists>b clk. cb_steps (new_breaker name (Some (c\<lparr>cfg_excluded_exceptions := []\<rparr>)), [], 0) (b, [], clk)
     \<and> (\<forall>now. before_call now b = (Inl (build_open_error now b), b) \<and> retry_after_ms now b = 0)
     \<and> cb_state (breaker_reset b) = CLOSED"
proof -
  let ?b = "new_breaker name (Some (c\<lparr>cfg_excluded_exceptions := []\<rparr>))"
  let ?o = "enter_open 0 ?b"
  let ?T = "timeout_seconds ?b"
  let ?h = "(enter_half_open ?o)\<lparr>half_open_in_flight := 1\<rparr>"
  let ?l = "?h\<lparr>half_open_in_flight := half_open_max_calls ?h\<rparr>"
  have T: "0 \<le> ?T" "1 \<le> half_open_max_calls ?h" "half_open_in_flight ?h = 1"
    by (simp_all add: new_breaker_def enter_half_open_def enter_open_def Let_def)
  have "cb_steps (?b, [], 0) (?o, [], 0)"
    by (rule opening_steps) (simp_all add: new_breaker_def Let_def)
  also have "before_call ?T ?o = (Inr HALF_OPEN, ?h)"
    by (rule before_call_elapsed [where t = 0]) (simp_all add: new_breaker_def enter_open_def Let_def)
  from one_call_steps [OF this T(1), of "Inl cancellation"]
  have "cb_steps (?o, [], 0) (?h, [], ?T)" by simp
  also have "cb_steps (?h, [], ?T) (?l, [], ?T)"
    using leaking_steps [of ?h "nat (half_open_max_calls ?h - 1)" ?T] T(2,3)
    by (simp add: enter_half_open_def)
  finally show ?thesis
    by (intro exI [of _ ?l] exI [of _ ?T])
      (simp add: before_call_full retry_after_ms_def enter_half_open_def breaker_reset_def enter_closed_def)
qed

text \<open>
  Once the timeout of an open breaker has elapsed, successful calls made
  one after another are all let through: the breaker is half-open until \<open>success_threshold\<close> of
  them have succeeded and closed, with no failure counted, from then on. A counted failure
  before that reopens it from the instant of the failure.
\<close>

theorem breaker_recovery:
  assumes "cb_state b = OPEN" "opened_at b = Some t" "timeout_seconds b \<le> now - t"
    and "1 \<le> half_open_max_calls b" "1 \<le> success_threshold b" "counted b (Inl e) = Some False"
  shows "cb_state ((probe now ^^ n) b) =
      (if n = 0 then OPEN else if int n < success_threshold b then HALF_OPEN else CLOSED)
    \<and> failure_count ((probe now ^^ Suc n) b) = 0
    \<and> (0 < n \<and> int n < success_threshold b \<longrightarrow>
       opened_at (fst (snd (breaker_call now now' (Some (fail_call e)) ((probe now ^^ n) b) ())))
         = Some now')"
proof (cases n)
  case 0
  then show ?thesis
    using assms(1) by (simp add: probe_open [OF assms(1-4)] enter_half_open_def enter_closed_def)
next
  case (Suc m)
  have "failure_count ((probe now ^^ Suc n) b) = 0"
    unfolding probes [OF assms(1-4)] by (simp add: enter_half_open_def enter_closed_def)
  moreover have "opened_at (fst (snd (breaker_call now now' (Some (fail_call e))
      ((enter_half_open b)\<lparr>success_count := int n\<rparr>) ()))) = Some now'"
  proof (rule failure_reopens [THEN conjunct2])
    show "counted ((enter_half_open b)\<lparr>success_count := int n\<rparr>) (Inl e) = Some False"
      using assms(6) by simp
  qed (use assms(4) in \<open>simp_all add: enter_half_open_def\<close>)
  ultimately show ?thesis
    unfolding Suc probes [OF assms(1-4)] by (simp add: enter_half_open_def enter_closed_def)
qed

theorem breaker_recovery_witness:
  "\<exists>b. cb_state b = OPEN \<and> cb_state ((probe 40 ^^ 2) b) = HALF_OPEN
     \<and> cb_state ((probe 40 ^^ 3) b) = CLOSED"
proof -
  let ?b = "enter_open 0 (new_breaker ''svc'' None)"
  have h: "cb_state ?b = OPEN" "opened_at ?b = Some 0" "timeout_seconds ?b \<le> 40 - 0"
    "1 \<le> half_open_max_calls ?b" "1 \<le> success_threshold ?b" "success_threshold ?b = 3"
    by (simp_all add: enter_open_def new_breaker_def default_breaker_config_def Let_def)
  have "counted ?b (Inl some_failure) = Some False"
    by (simp add: counted_def some_failure_def isinstance_exn_def is_subclass_def
        is_excluded_exception_def enter_open_def new_breaker_def default_breaker_config_def Let_def)
  from breaker_recovery [OF h(1-5) this, of 2 40] breaker_recovery [OF h(1-5) this, of 3 40] h
  show ?thesis by (intro exI [of _ ?b]) (simp del: funpow.simps)
qed

end
