(* ===== verification/Retry_Policy.thy ===== *)
theory Retry_Policy
  imports Circuit_Breaker
begin

text \<open>
  Retries (\<open>resilience/retry_policy.py\<close>). The executor runs a callable, possibly through a
  circuit breaker, until it succeeds, fails with an error not worth a retry, or has used its
  attempts. Clock, sleeping and \<open>random.random()\<close> are read from the world through \<open>env\<close>.
\<close>

datatype retry_strategy = FIXED | EXPONENTIAL | LINEAR

datatype retry_condition = ALWAYS | ON_ERROR | ON_SPECIFIC_CODES

record retry_policy =
  rp_max_attempts :: int
  rp_strategy :: retry_strategy
  rp_initial_delay_ms :: int
  rp_max_delay_ms :: int
  rp_backoff_multiplier :: rat
  rp_jitter :: rat
  rp_retryable_codes :: "int list option"
  rp_respect_circuit_breaker :: bool

definition default_retry_policy :: retry_policy where
  "default_retry_policy =
     \<lparr>rp_max_attempts = 3, rp_strategy = EXPONENTIAL, rp_initial_delay_ms = 100,
      rp_max_delay_ms = 10000, rp_backoff_multiplier = 2, rp_jitter = 1 / 10,
      rp_retryable_codes = None, rp_respect_circuit_breaker = True\<rparr>"

record retry_executor =
  re_max_attempts :: int
  re_strategy :: retry_strategy
  re_initial_delay_ms :: int
  re_max_delay_ms :: int
  re_backoff_multiplier :: rat
  re_jitter :: rat
  re_retryable_codes :: "int list option"
  re_respect_circuit_breaker :: bool
  re_retry_condition :: retry_condition

definition new_retry_executor :: "retry_policy \<Rightarrow> retry_executor" where
  "new_retry_executor p =
     (let init = max 0 (rp_initial_delay_ms p) in
      \<lparr>re_max_attempts = max 1 (rp_max_attempts p), re_strategy = rp_strategy p,
       re_initial_delay_ms = init, re_max_delay_ms = max init (rp_max_delay_ms p),
       re_backoff_multiplier = max 1 (rp_backoff_multiplier p),
       re_jitter = max 0 (min 1 (rp_jitter p)), re_retryable_codes = rp_retryable_codes p,
       re_respect_circuit_breaker = rp_respect_circuit_breaker p,
       re_retry_condition =
         (if rp_retryable_codes p \<noteq> None then ON_SPECIFIC_CODES else ON_ERROR)\<rparr>)"

record 'w env =
  env_now :: "'w \<Rightarrow> rat"
  env_sleep :: "rat \<Rightarrow> 'w \<Rightarrow> 'w"
  env_random :: "'w \<Rightarrow> rat \<times> 'w"

definition is_retryable_error :: "retry_executor \<Rightarrow> exn \<Rightarrow> bool" where
  "is_retryable_error x error =
     (if isinstance_exn error CircuitBreakerOpenError then False
      else case re_retry_condition x of
        ALWAYS \<Rightarrow> True
      | ON_SPECIFIC_CODES \<Rightarrow>
          (case re_retryable_codes x of
             Some codes \<Rightarrow> isinstance_exn error RpcException \<and> exn_code error \<in> set codes
           | None \<Rightarrow> False)
      | ON_ERROR \<Rightarrow> True)"

definition should_retry :: "retry_executor \<Rightarrow> int \<Rightarrow> exn \<Rightarrow> bool" where
  "should_retry x attempt error =
     (if attempt \<ge> re_max_attempts x then False else is_retryable_error x error)"

definition base_delay_ms :: "retry_executor \<Rightarrow> int \<Rightarrow> rat" where
  "base_delay_ms x attempt =
     min (of_int (re_max_delay_ms x))
       (case re_strategy x of
          EXPONENTIAL \<Rightarrow>
            of_int (re_initial_delay_ms x) * re_backoff_multiplier x ^ nat (max 0 (attempt - 1))
        | LINEAR \<Rightarrow> of_int (re_initial_delay_ms x * attempt)
        | FIXED \<Rightarrow> of_int (re_initial_delay_ms x))"

definition compute_delay :: "'w env \<Rightarrow> retry_executor \<Rightarrow> int \<Rightarrow> 'w \<Rightarrow> rat \<times> 'w" where
  "compute_delay env x attempt w =
     (let base = base_delay_ms x attempt in
      if re_jitter x > 0 \<and> base > 0 then
        (let (u, w') = env_random env w;
             delta = (u * 2 - 1) * (re_jitter x * base)
         in (max 0 (base + delta) / 1000, w'))
      else (base / 1000, w))"

text \<open>
  One invocation. The breaker is part of the state; its clock is read before the callable runs
  and after it.
\<close>

definition invoke ::
  "'w env \<Rightarrow> retry_executor \<Rightarrow> ('w, exn, 'a) comp \<Rightarrow> breaker option \<Rightarrow> 'w
     \<Rightarrow> (exn + 'a) \<times> breaker option \<times> 'w" where
  "invoke env x f cb w =
     (case cb of
        Some b \<Rightarrow>
          if re_respect_circuit_breaker x then
            (case breaker_call (env_now env w) (env_now env (snd (f w))) (Some f) b w of
               (r, b', w') \<Rightarrow> (r, Some b', w'))
          else (fst (f w), cb, snd (f w))
      | None \<Rightarrow> (fst (f w), cb, snd (f w)))"

text \<open>
  The loop: \<open>k\<close> attempts are left, this one is number \<open>attempt\<close>. \<open>except Exception\<close> lets a
  cancellation through at once.
\<close>

fun retry_loop ::
  "'w env \<Rightarrow> retry_executor \<Rightarrow> ('w, exn, 'a) comp \<Rightarrow> int \<Rightarrow> nat \<Rightarrow> exn \<Rightarrow> breaker option \<Rightarrow> 'w
     \<Rightarrow> (exn + 'a) \<times> breaker option \<times> 'w" where
  "retry_loop env x f attempt 0 last_exc cb w = (Inl last_exc, cb, w)"
| "retry_loop env x f attempt (Suc k) last_exc cb w =
     (case invoke env x f cb w of
        (Inr v, cb', w') \<Rightarrow> (Inr v, cb', w')
      | (Inl exc, cb', w') \<Rightarrow>
          if \<not> isinstance_exn exc PyException then (Inl exc, cb', w')
          else if \<not> should_retry x attempt exc then (Inl exc, cb', w')
          else
            (let (delay_s, w'') = compute_delay env x attempt w' in
             retry_loop env x f (attempt + 1) k exc cb'
               (if delay_s > 0 then env_sleep env delay_s w'' else w'')))"

definition retry_execute ::
  "'w env \<Rightarrow> retry_executor \<Rightarrow> ('w, exn, 'a) comp option \<Rightarrow> breaker option \<Rightarrow> 'w
     \<Rightarrow> (exn + 'a) \<times> breaker option \<times> 'w" where
  "retry_execute env x func cb w =
     (case func of
        None \<Rightarrow> (Inl (Exn TypeError 0 ''func must be callable'' PNone None), cb, w)
      | Some f \<Rightarrow>
          retry_loop env x f 1 (nat (re_max_attempts x))
            (Exn AssertionError 0 [] PNone None) cb w)"

section \<open>Delays\<close>

definition retry_wf :: "retry_executor \<Rightarrow> bool" where
  "retry_wf x \<longleftrightarrow> 1 \<le> re_max_attempts x \<and> 0 \<le> re_initial_delay_ms x
     \<and> re_initial_delay_ms x \<le> re_max_delay_ms x \<and> 1 \<le> re_backoff_multiplier x
     \<and> 0 \<le> re_jitter x \<and> re_jitter x \<le> 1"

lemma new_retry_executor_wf [rpc_inv]: "retry_wf (new_retry_executor p)"
  by (simp add: retry_wf_def new_retry_executor_def Let_def)

lemma base_delay_bounds:
  assumes "retry_wf x" "1 \<le> attempt"
  shows "of_int (re_initial_delay_ms x) \<le> base_delay_ms x attempt"
    and "base_delay_ms x attempt \<le> of_int (re_max_delay_ms x)"
proof -
  let ?i = "rat_of_int (re_initial_delay_ms x)"
  have i: "0 \<le> ?i" "?i \<le> of_int (re_max_delay_ms x)"
    using assms(1) by (simp_all add: retry_wf_def)
  have "1 \<le> re_backoff_multiplier x ^ n" for n
    using assms(1) by (simp add: retry_wf_def one_le_power)
  then have exp: "?i \<le> ?i * re_backoff_multiplier x ^ n" for n
    using mult_left_mono [OF _ i(1), of 1] by simp
  have "re_initial_delay_ms x * 1 \<le> re_initial_delay_ms x * attempt"
    using assms by (intro mult_left_mono) (simp_all add: retry_wf_def)
  then have lin: "?i \<le> of_int (re_initial_delay_ms x * attempt)"
    by (intro of_int_le_iff [THEN iffD2]) simp
  show "?i \<le> base_delay_ms x attempt"
    using i(2) exp lin by (simp add: base_delay_ms_def split: retry_strategy.split)
  show "base_delay_ms x attempt \<le> of_int (re_max_delay_ms x)"
    by (simp add: base_delay_ms_def)
qed

lemma base_delay_mono:
  assumes "retry_wf x" "1 \<le> attempt"
  shows "base_delay_ms x attempt \<le> base_delay_ms x (attempt + 1)"
proof -
  let ?i = "rat_of_int (re_initial_delay_ms x)"
  have i: "0 \<le> ?i" using assms(1) by (simp add: retry_wf_def)
  have "re_backoff_multiplier x ^ nat (attempt - 1) \<le> re_backoff_multiplier x ^ nat attempt"
    using assms by (intro power_increasing) (simp_all add: retry_wf_def)
  then have exp: "?i * re_backoff_multiplier x ^ nat (attempt - 1) \<le> ?i * re_backoff_multiplier x ^ nat attempt"
    using i by (rule mult_left_mono)
  have "re_initial_delay_ms x * attempt \<le> re_initial_delay_ms x * (attempt + 1)"
    using assms by (intro mult_left_mono) (simp_all add: retry_wf_def)
  then have lin: "rat_of_int (re_initial_delay_ms x * attempt) \<le> of_int (re_initial_delay_ms x * (attempt + 1))"
    by (rule of_int_le_iff [THEN iffD2])
  show ?thesis
    unfolding base_delay_ms_def
    by (rule min.mono [OF order_refl], cases "re_strategy x") (use assms(2) exp lin in \<open>simp_all del: of_int_mult\<close>)
qed

section \<open>A scripted callable\<close>

text \<open>
  The world of a test: the outcomes still to come and the sleeps so far; every random number
  is \<open>u\<close>.
\<close>

type_synonym 'a script = "(exn + 'a) list \<times> rat list"

definition script_env :: "rat \<Rightarrow> 'a script env" where
  "script_env u = \<lparr>env_now = (\<lambda>_. 0), env_sleep = (\<lambda>d (rs, ds). (rs, ds @ [d])),
                   env_random = (\<lambda>w. (u, w))\<rparr>"

definition next_outcome :: "('a script, exn, 'a) comp" where
  "next_outcome w =
     (case fst w of
        [] \<Rightarrow> (Inl (Exn AssertionError 0 [] PNone None), w)
      | r # rs \<Rightarrow> (r, (rs, snd w)))"

definition delay_of :: "rat \<Rightarrow> retry_executor \<Rightarrow> int \<Rightarrow> rat" where
  "delay_of u x attempt =
     (let base = base_delay_ms x attempt in
      if re_jitter x > 0 \<and> base > 0
      then max 0 (base + (u * 2 - 1) * (re_jitter x * base)) / 1000 else base / 1000)"

text \<open>A failure that another attempt may follow.\<close>

definition worth_retry :: "retry_executor \<Rightarrow> exn + 'a \<Rightarrow> bool" where
  "worth_retry x r =
     (case r of Inl e \<Rightarrow> isinstance_exn e PyException \<and> is_retryable_error x e | Inr _ \<Rightarrow> False)"

lemma next_outcome_Cons [simp]: "next_outcome (r # rs, ds) = (r, (rs, ds))"
  by (simp add: next_outcome_def)

lemma compute_delay_script [simp]: "compute_delay (script_env u) x a w = (delay_of u x a, w)"
  by (simp add: compute_delay_def delay_of_def script_env_def Let_def)

lemma sleep_script [simp]:
  "(if 0 < d then env_sleep (script_env u) d (rs, ds) else (rs, ds)) = (rs, ds @ filter ((<) 0) [d])"
  by (simp add: script_env_def)

lemma retry_loop_script:
  "a + int k = re_max_attempts x \<Longrightarrow> k < length rs \<Longrightarrow>
   n = length (takeWhile (worth_retry x) (take k rs)) \<Longrightarrow>
     retry_loop (script_env u) x next_outcome a (Suc k) e None (rs, ds) =
       (rs ! n, None, drop (Suc n) rs,
        ds @ filter ((<) 0) (map (delay_of u x) (map (\<lambda>i. a + int i) [0..<n])))"
proof (induction k arbitrary: a rs ds e n)
  case 0
  then obtain r rs' where "rs = r # rs'" by (cases rs) auto
  with 0 show ?case
    by (cases r) (simp_all add: invoke_def next_outcome_def should_retry_def)
next
  case (Suc k)
  then obtain r rs' where rs: "rs = r # rs'" by (cases rs) auto
  show ?case
  proof (cases "worth_retry x r")
    case False
    with Suc.prems rs show ?thesis
      by (cases r) (auto simp: invoke_def next_outcome_def should_retry_def worth_retry_def)
  next
    case True
    then obtain exc where r: "r = Inl exc" "isinstance_exn exc PyException" "is_retryable_error x exc"
      by (cases r) (auto simp: worth_retry_def)
    define m where "m = length (takeWhile (worth_retry x) (take k rs'))"
    have n: "n = Suc m" using Suc.prems(3) True by (simp add: rs m_def)
    have idx: "map (\<lambda>i. a + int i) [0..<Suc m] = a # map (\<lambda>i. a + 1 + int i) [0..<m]"
      by (simp add: upt_conv_Cons map_Suc_upt [symmetric] del: upt_Suc)
    have IH: "retry_loop (script_env u) x next_outcome (a + 1) (Suc k) exc None
        (rs', ds @ filter ((<) 0) [delay_of u x a]) =
       (rs' ! m, None, drop (Suc m) rs', (ds @ filter ((<) 0) [delay_of u x a]) @
          filter ((<) 0) (map (delay_of u x) (map (\<lambda>i. a + 1 + int i) [0..<m])))"
      using Suc.prems by (intro Suc.IH) (simp_all add: rs m_def)
    have "should_retry x a exc"
      using Suc.prems(1) r by (simp add: should_retry_def)
    then have "retry_loop (script_env u) x next_outcome a (Suc (Suc k)) e None (rs, ds) =
        retry_loop (script_env u) x next_outcome (a + 1) (Suc k) exc None
          (rs', ds @ filter ((<) 0) [delay_of u x a])"
      using r by (simp add: rs invoke_def retry_loop.simps(2) [of _ _ _ _ "Suc k"]
          del: retry_loop.simps(2) filter.simps)
    then show ?thesis unfolding IH by (simp add: rs n idx del: upt_Suc)
  qed
qed

section \<open>Properties\<close>

text \<open>
  C7. Against any sequence of outcomes the executor stops at the first success, the
  first failure not worth a retry (a cancellation, a refusal of the breaker, a code that is not
  listed) or its last attempt, returns exactly that outcome, has consumed exactly the outcomes up to it,
  and has slept once between attempts, for the delay of each.
\<close>

theorem retry_attempts:
  assumes "nat (re_max_attempts (new_retry_executor p)) \<le> length rs"
    and "n = length (takeWhile (worth_retry (new_retry_executor p))
               (take (nat (re_max_attempts (new_retry_executor p)) - 1) rs))"
  shows "retry_execute (script_env u) (new_retry_executor p) (Some next_outcome) None (rs, []) =
     (rs ! n, None, drop (Suc n) rs,
      filter ((<) 0) (map (delay_of u (new_retry_executor p)) (map (\<lambda>i. 1 + int i) [0..<n])))
    \<and> n < nat (re_max_attempts (new_retry_executor p))"
proof -
  let ?x = "new_retry_executor p"
  have m: "1 \<le> re_max_attempts ?x" by (simp add: new_retry_executor_def Let_def)
  then obtain k where k: "nat (re_max_attempts ?x) = Suc k" by (cases "nat (re_max_attempts ?x)") auto
  have "length (takeWhile (worth_retry ?x) (take k rs)) \<le> k"
    by (rule order_trans [OF length_takeWhile_le]) simp
  then show ?thesis
    using retry_loop_script [of 1 k ?x rs n u _ "[]"] assms k m by (simp add: retry_execute_def)
qed

theorem retry_attempts_witness:
  "retry_execute (script_env 0) (new_retry_executor (default_retry_policy\<lparr>rp_jitter := 0\<rparr>))
     (Some next_outcome) None ([Inl some_failure, Inr (7 :: int), Inr 8], [])
   = (Inr 7, None, [Inr 8], [1 / 10])"
proof -
  let ?x = "new_retry_executor (default_retry_policy\<lparr>rp_jitter := 0\<rparr>)"
  have w: "worth_retry ?x (Inl some_failure :: exn + int)" "\<not> worth_retry ?x (Inr i)" for i :: int
    by (simp_all add: worth_retry_def some_failure_def isinstance_exn_def is_subclass_def
        is_retryable_error_def new_retry_executor_def default_retry_policy_def Let_def)
  have d: "delay_of 0 ?x 1 = 1 / 10" "re_max_attempts ?x = 3"
    by (simp_all add: delay_of_def base_delay_ms_def new_retry_executor_def default_retry_policy_def Let_def)
  from retry_attempts [of "default_retry_policy\<lparr>rp_jitter := 0\<rparr>" "[Inl some_failure, Inr (7 :: int), Inr 8]" 1 0]
  show ?thesis using w d by simp
qed

text \<open>
  For any random number in the unit interval the delay after attempt
  \<open>k\<close> stays within the jitter around a base that never decreases with \<open>k\<close> and lies between the
  initial and the maximal delay; the jitter is applied after the cap, so the delay itself can
  exceed \<open>max_delay_ms\<close> by the jitter fraction.
\<close>

theorem retry_delay_bounds:
  fixes p :: retry_policy
  defines "x \<equiv> new_retry_executor p"
  assumes "1 \<le> k" "0 \<le> u" "u \<le> 1"
  shows "base_delay_ms x k * (1 - re_jitter x) / 1000 \<le> delay_of u x k
    \<and> delay_of u x k \<le> base_delay_ms x k * (1 + re_jitter x) / 1000
    \<and> of_int (re_initial_delay_ms x) \<le> base_delay_ms x k
    \<and> base_delay_ms x k \<le> base_delay_ms x (k + 1)
    \<and> base_delay_ms x k \<le> of_int (re_max_delay_ms x)
    \<and> (0 < re_jitter x \<longrightarrow> 0 < base_delay_ms x k
         \<longrightarrow> delay_of 1 x k = base_delay_ms x k * (1 + re_jitter x) / 1000)"
proof -
  have wf: "retry_wf x" unfolding x_def by (rule rpc_inv)
  note b = base_delay_bounds [OF wf assms(2)]
  let ?b = "base_delay_ms x k" and ?j = "re_jitter x"
  have i: "0 \<le> rat_of_int (re_initial_delay_ms x)" "0 \<le> ?j" "?j \<le> 1"
    using wf by (simp_all add: retry_wf_def)
  have jb: "0 \<le> ?j * ?b" "?j * ?b \<le> ?b"
    using i b mult_right_mono [of ?j 1 ?b] by simp_all
  have "- (?j * ?b) \<le> (u * 2 - 1) * (?j * ?b)" "(u * 2 - 1) * (?j * ?b) \<le> ?j * ?b"
    using mult_right_mono [of "-1" "u * 2 - 1" "?j * ?b"] mult_right_mono [of "u * 2 - 1" 1 "?j * ?b"]
      assms(3,4) jb by simp_all
  then have d: "?b * (1 - ?j) / 1000 \<le> delay_of u x k" "delay_of u x k \<le> ?b * (1 + ?j) / 1000"
    using jb i b by (auto simp: delay_of_def Let_def field_simps)
  have "0 < ?j \<longrightarrow> 0 < ?b \<longrightarrow> delay_of 1 x k = ?b * (1 + ?j) / 1000"
    using jb by (simp add: delay_of_def Let_def field_simps)
  with d b base_delay_mono [OF wf assms(2)] show ?thesis by simp
qed

theorem retry_delay_bounds_witness:
  "delay_of 1 (new_retry_executor (default_retry_policy\<lparr>rp_max_delay_ms := 100\<rparr>)) 2 = 11 / 100
   \<and> base_delay_ms (new_retry_executor (default_retry_policy\<lparr>rp_max_delay_ms := 100\<rparr>)) 2 = 100"
proof -
  let ?x = "new_retry_executor (default_retry_policy\<lparr>rp_max_delay_ms := 100\<rparr>)"
  have "base_delay_ms ?x 2 = 100" "re_jitter ?x = 1 / 10"
    by (simp_all add: base_delay_ms_def new_retry_executor_def default_retry_policy_def Let_def)
  with retry_delay_bounds [of 2 1 "default_retry_policy\<lparr>rp_max_delay_ms := 100\<rparr>"] show ?thesis by simp
qed

text \<open>
  Behind an open breaker whose timeout has not elapsed nothing is
  tried: the callable does not run, the executor does not sleep, and the breaker's refusal comes
  back at once, whatever the policy.
\<close>

theorem retry_respects_breaker:
  assumes "cb_state b = OPEN" "opened_at b = Some t" "env_now env w - t < timeout_seconds b"
    and "0 < timeout_seconds b" "re_respect_circuit_breaker (new_retry_executor p)"
  shows "retry_execute env (new_retry_executor p) (Some f) (Some b) w
    = (Inl (build_open_error (env_now env w) b), Some b, w)"
proof -
  have "1 \<le> re_max_attempts (new_retry_executor p)" by (simp add: new_retry_executor_def Let_def)
  then obtain k where k: "nat (re_max_attempts (new_retry_executor p)) = Suc k"
    by (cases "nat (re_max_attempts (new_retry_executor p))") auto
  have "\<not> should_retry (new_retry_executor p) 1 (build_open_error (env_now env w) b)"
    by (simp add: should_retry_def is_retryable_error_def isinstance_exn_def)
  then show ?thesis
    using assms(5)
    by (simp add: retry_execute_def k invoke_def breaker_call_reject [OF before_call_open [OF assms(1-4)]])
qed

theorem retry_respects_breaker_witness:
  "\<exists>b. retry_execute (script_env 0) (new_retry_executor default_retry_policy) (Some next_outcome)
       (Some b) ([Inr ()], []) = (Inl (build_open_error 0 b), Some b, ([Inr ()], []))"
proof -
  let ?b = "enter_open 0 (new_breaker ''svc'' None)"
  have "retry_execute (script_env 0) (new_retry_executor default_retry_policy) (Some next_outcome)
      (Some ?b) ([Inr ()], []) = (Inl (build_open_error (env_now (script_env 0) ([Inr ()], [])) ?b), Some ?b, ([Inr ()], []))"
    by (rule retry_respects_breaker [where t = 0])
      (simp_all add: enter_open_def new_breaker_def default_breaker_config_def script_env_def
        new_retry_executor_def default_retry_policy_def Let_def)
  then show ?thesis by (auto simp: script_env_def)
qed

end
