(* ===== verification/Task_Manager.thy ===== *)
theory Task_Manager
  imports Wire_Codec Rpc_Errors
begin

text \<open>
  Background tasks (\<open>server/tasks/types.py\<close>, \<open>server/tasks/task_manager.py\<close>). Task records
  are mutable objects that the manager, its callers and the events in subscriber queues share,
  so they live in a store and are named by references (indices); so do the queues. Each locked
  section is one function; \<open>now\<close> is the wall clock in milliseconds.
\<close>

section \<open>Records\<close>

record task_progress =
  tp_current :: int
  tp_total :: int
  tp_message :: "string option"
  tp_percentage :: "rat option"

record task_record =
  task_id :: string
  parent_task_id :: "string option"
  status :: task_status
  task_priority :: priority
  created_at_ms :: int
  scheduled_at_ms :: "int option"
  started_at_ms :: "int option"
  completed_at_ms :: "int option"
  attempt :: int
  max_attempts :: int
  next_retry_at_ms :: "int option"
  result :: pyval
  task_error :: "rpc_error option"
  progress :: "task_progress option"
  metadata :: "(string, pyval) dict option"
  tags :: "string list option"

definition is_terminal :: "task_record \<Rightarrow> bool" where
  "is_terminal r = (status r \<in> {SUCCEEDED, FAILED, CANCELED})"

definition is_active :: "task_record \<Rightarrow> bool" where
  "is_active r = (status r \<in> {PENDING, SCHEDULED, RUNNING, RETRYING})"

text \<open>The defaults of the model's fields.\<close>

definition new_record :: "string \<Rightarrow> int \<Rightarrow> task_record" where
  "new_record tid now =
     \<lparr>task_id = tid, parent_task_id = None, status = PENDING, task_priority = NORMAL,
      created_at_ms = now, scheduled_at_ms = None, started_at_ms = None, completed_at_ms = None,
      attempt = 1, max_attempts = 3, next_retry_at_ms = None, result = PNone, task_error = None,
      progress = None, metadata = None, tags = None\<rparr>"

definition opt_val :: "('a \<Rightarrow> pyval) \<Rightarrow> 'a option \<Rightarrow> pyval" where
  "opt_val f x = (case x of None \<Rightarrow> PNone | Some v \<Rightarrow> f v)"

text \<open>\<open>TaskRecord.create\<close>; \<open>uuid\<close> is the identifier \<open>uuid4\<close> would give.\<close>

definition create_record ::
  "int \<Rightarrow> string \<Rightarrow> string \<Rightarrow> (string, pyval) dict option \<Rightarrow> priority \<Rightarrow> int \<Rightarrow> int option \<Rightarrow> int option
     \<Rightarrow> string option \<Rightarrow> (string, pyval) dict option \<Rightarrow> string list option \<Rightarrow> string option
     \<Rightarrow> string option \<Rightarrow> task_record" where
  "create_record now uuid target_method params prio max_att timeout_ms scheduled idem meta tgs tid parent =
     (let base = [(''target_method'', PStr target_method),
                  (''params'', PDict (case params of None \<Rightarrow> [] | Some d \<Rightarrow> d)),
                  (''timeout_ms'', opt_val PInt timeout_ms),
                  (''idempotency_key'', opt_val PStr idem)];
          full = (case meta of None \<Rightarrow> base | Some d \<Rightarrow> fold (\<lambda>(k, v). AList.update k v) d base)
      in (new_record (case tid of Some t \<Rightarrow> if t = [] then uuid else t | None \<Rightarrow> uuid) now)
           \<lparr>parent_task_id := parent, task_priority := prio, scheduled_at_ms := scheduled,
            max_attempts := max_att, metadata := Some full, tags := tgs\<rparr>)"

record task_event =
  event :: string
  event_task :: nat
  event_timestamp_ms :: int

section \<open>The manager\<close>

record task_manager_config =
  tmc_default_ttl_seconds :: "int option"
  tmc_max_tasks :: int

record task_manager =
  default_ttl_seconds :: "int option"
  max_tasks :: int
  store :: "task_record list"
  tasks :: "(string, nat) dict"
  expiry :: "(string, int option) dict"
  subs :: "(string, nat list) dict"
  queues :: "task_event list list"

definition new_task_manager :: "task_manager_config option \<Rightarrow> task_manager" where
  "new_task_manager cfg =
     \<lparr>default_ttl_seconds = (case cfg of None \<Rightarrow> Some 3600 | Some c \<Rightarrow> tmc_default_ttl_seconds c),
      max_tasks = (case cfg of None \<Rightarrow> 10000 | Some c \<Rightarrow> tmc_max_tasks c),
      store = [], tasks = [], expiry = [], subs = [], queues = []\<rparr>"

definition is_expired :: "int \<Rightarrow> task_manager \<Rightarrow> string \<Rightarrow> bool" where
  "is_expired now m tid = (case map_of (expiry m) tid of Some (Some t) \<Rightarrow> t \<le> now | _ \<Rightarrow> False)"

definition delete_task :: "string \<Rightarrow> task_manager \<Rightarrow> task_manager" where
  "delete_task tid m =
     m\<lparr>tasks := AList.delete tid (tasks m), expiry := AList.delete tid (expiry m),
       subs := AList.delete tid (subs m)\<rparr>"

definition event_name :: "task_status \<Rightarrow> string" where
  "event_name s =
     (if s = RUNNING then ''started'' else if s = SUCCEEDED then ''completed''
      else if s \<in> {FAILED, CANCELED} then ''failed'' else ''progress'')"

definition event_for_task :: "int \<Rightarrow> nat \<Rightarrow> task_manager \<Rightarrow> task_event" where
  "event_for_task now r m =
     \<lparr>event = event_name (status (store m ! r)), event_task = r, event_timestamp_ms = now\<rparr>"

definition emit :: "string \<Rightarrow> task_event \<Rightarrow> task_manager \<Rightarrow> task_manager" where
  "emit tid ev m =
     m\<lparr>queues := fold (\<lambda>q qs. qs[q := qs ! q @ [ev]]) (dict_get (subs m) tid []) (queues m)\<rparr>"

definition gc_expired :: "int \<Rightarrow> task_manager \<Rightarrow> task_manager" where
  "gc_expired now m = fold delete_task (filter (is_expired now m) (dict_keys (tasks m))) m"

text \<open>Finished tasks, oldest completion first, go until at most 90 percent of the room is used.\<close>

definition finished_key :: "task_record \<Rightarrow> int" where
  "finished_key r =
     (case completed_at_ms r of Some t \<Rightarrow> if t \<noteq> 0 then t else created_at_ms r | None \<Rightarrow> created_at_ms r)"

definition finished_ids :: "task_manager \<Rightarrow> string list" where
  "finished_ids m =
     map task_id (sort_key finished_key
       (filter is_terminal (map (\<lambda>(tid, r). store m ! r) (tasks m))))"

fun drop_finished :: "int \<Rightarrow> string list \<Rightarrow> task_manager \<Rightarrow> task_manager" where
  "drop_finished cap [] m = m"
| "drop_finished cap (t # ts) m =
     (if int (length (tasks m)) > cap then drop_finished cap ts (delete_task t m) else m)"

definition gc_locked :: "int \<Rightarrow> bool \<Rightarrow> task_manager \<Rightarrow> task_manager" where
  "gc_locked now aggressive m =
     (let m1 = gc_expired now m in
      if aggressive
      then drop_finished (py_trunc (of_int (max_tasks m1) * (9 / 10))) (finished_ids m1) m1
      else m1)"

text \<open>\<open>min(..., key=created_at_ms)\<close>: the first of the smallest.\<close>

fun min_by :: "('a \<Rightarrow> int) \<Rightarrow> 'a list \<Rightarrow> 'a option" where
  "min_by f [] = None"
| "min_by f (x # xs) =
     (case min_by f xs of None \<Rightarrow> Some x | Some y \<Rightarrow> if f x \<le> f y then Some x else Some y)"

definition make_room :: "int \<Rightarrow> task_manager \<Rightarrow> exn + task_manager" where
  "make_room now m =
     (if int (length (tasks m)) \<ge> max_tasks m then
        (let m1 = gc_locked now True m in
         if int (length (tasks m1)) \<ge> max_tasks m1 then
           (case min_by created_at_ms (map (\<lambda>(tid, r). store m1 ! r) (tasks m1)) of
              None \<Rightarrow> Inl (Exn ValueError 0 ''min() iterable argument is empty'' PNone None)
            | Some oldest \<Rightarrow> Inr (delete_task (task_id oldest) m1))
         else Inr m1)
      else Inr m)"

text \<open>
  \<open>submit\<close> returns the record and whether a runner was started: for a known identifier the
  existing record comes back and the coroutine is dropped.
\<close>

definition submit ::
  "int \<Rightarrow> string \<Rightarrow> int option \<Rightarrow> string option \<Rightarrow> task_manager \<Rightarrow> (exn + nat \<times> bool) \<times> task_manager" where
  "submit now uuid ttl_seconds tid_opt m =
     (let tid = (case tid_opt of Some t \<Rightarrow> if t = [] then uuid else t | None \<Rightarrow> uuid);
          ttl = (case ttl_seconds of None \<Rightarrow> default_ttl_seconds m | Some t \<Rightarrow> Some t);
          expires_at = map_option (\<lambda>t. now + t * 1000) ttl;
          m1 = gc_locked now False m
      in case map_of (tasks m1) tid of
           Some r \<Rightarrow> (Inr (r, False), m1)
         | None \<Rightarrow>
             (case make_room now m1 of
                Inl e \<Rightarrow> (Inl e, gc_locked now True m1)
              | Inr m2 \<Rightarrow>
                  (let r = length (store m2);
                       m3 = m2\<lparr>store := store m2 @ [new_record tid now],
                               tasks := AList.update tid r (tasks m2),
                               expiry := AList.update tid expires_at (expiry m2)\<rparr>
                   in (Inr (r, True), emit tid (event_for_task now r m3) m3))))"

definition task_not_found :: "string \<Rightarrow> exn" where
  "task_not_found tid = Exn (Custom ''TaskNotFoundError'' KeyError) 0 tid PNone None"

definition get_task :: "int \<Rightarrow> string \<Rightarrow> task_manager \<Rightarrow> (exn + nat) \<times> task_manager" where
  "get_task now tid m =
     (let m1 = gc_locked now False m in
      (case map_of (tasks m1) tid of None \<Rightarrow> Inl (task_not_found tid) | Some r \<Rightarrow> Inr r, m1))"

text \<open>\<open>subscribe\<close> returns a new queue that already holds an event for the present status.\<close>

definition subscribe :: "int \<Rightarrow> string \<Rightarrow> task_manager \<Rightarrow> (exn + nat) \<times> task_manager" where
  "subscribe now tid m =
     (case get_task now tid m of
        (Inl e, m1) \<Rightarrow> (Inl e, m1)
      | (Inr r, m1) \<Rightarrow>
          (let q = length (queues m1) in
           (Inr q, m1\<lparr>queues := queues m1 @ [[event_for_task now r m1]],
                      subs := AList.update tid (dict_get (subs m1) tid [] @ [q]) (subs m1)\<rparr>)))"

definition unsubscribe :: "string \<Rightarrow> nat \<Rightarrow> task_manager \<Rightarrow> task_manager" where
  "unsubscribe tid q m =
     (let qs = removeAll q (dict_get (subs m) tid []) in
      m\<lparr>subs := (if qs = [] then AList.delete tid (subs m) else AList.update tid qs (subs m))\<rparr>)"

section \<open>The runner\<close>

text \<open>Updating the record an identifier names now, if any, and telling its subscribers.\<close>

definition update_task ::
  "int \<Rightarrow> string \<Rightarrow> (task_record \<Rightarrow> task_record) \<Rightarrow> task_manager \<Rightarrow> task_manager" where
  "update_task now tid f m =
     (case map_of (tasks m) tid of
        None \<Rightarrow> m
      | Some r \<Rightarrow>
          (let m1 = m\<lparr>store := (store m)[r := f (store m ! r)]\<rparr>
           in emit tid (event_for_task now r m1) m1))"

definition set_status :: "int \<Rightarrow> string \<Rightarrow> task_status \<Rightarrow> task_manager \<Rightarrow> task_manager" where
  "set_status now tid s m =
     update_task now tid
       (\<lambda>r. let r1 = r\<lparr>status := s\<rparr> in
            if s = RUNNING \<and> started_at_ms r1 = None then r1\<lparr>started_at_ms := Some now\<rparr> else r1) m"

definition set_result :: "int \<Rightarrow> string \<Rightarrow> pyval \<Rightarrow> task_manager \<Rightarrow> task_manager" where
  "set_result now tid v m =
     update_task now tid
       (\<lambda>r. r\<lparr>status := SUCCEEDED, result := v, task_error := None, completed_at_ms := Some now\<rparr>) m"

definition set_error :: "int \<Rightarrow> string \<Rightarrow> rpc_error \<Rightarrow> task_status \<Rightarrow> task_manager \<Rightarrow> task_manager" where
  "set_error now tid err s m =
     update_task now tid
       (\<lambda>r. let r1 = r\<lparr>status := s, task_error := Some err, result := PNone\<rparr> in
            if is_terminal r1 then r1\<lparr>completed_at_ms := Some now\<rparr> else r1) m"

definition task_failure :: "int \<Rightarrow> string \<Rightarrow> string \<Rightarrow> string \<Rightarrow> rpc_error" where
  "task_failure code name message reason =
     \<lparr>err_code = code, err_name = name, err_message = message,
      err_details = Some [\<lparr>detail_type = ''aduib.rpc/task'', detail_field = None,
                           detail_reason = reason, detail_metadata = None\<rparr>],
      err_debug = None\<rparr>"

text \<open>The end of the runner, by the outcome of the coroutine.\<close>

definition runner_finish :: "int \<Rightarrow> string \<Rightarrow> exn + pyval \<Rightarrow> task_manager \<Rightarrow> task_manager" where
  "runner_finish now tid outcome m =
     (case outcome of
        Inr v \<Rightarrow> set_result now tid v m
      | Inl e \<Rightarrow>
          if isinstance_exn e CancelledError then
            set_error now tid
              (task_failure 499 ''CANCELED'' ''Task cancelled''
                 (if exn_message e \<noteq> [] then exn_message e else ''cancelled'')) CANCELED m
          else if isinstance_exn e PyException then
            set_error now tid
              (task_failure (error_code_value INTERNAL_ERROR)
                 (dict_get ERROR_CODE_NAMES (error_code_value INTERNAL_ERROR) ''UNKNOWN'')
                 ''Task failed'' (exn_message e)) FAILED m
          else m)"

section \<open>The invariant\<close>

text \<open>
  The dictionaries have the same keys, a key names a record with that identifier, and every
  subscriber queue exists.
\<close>

definition tm_wf :: "task_manager \<Rightarrow> bool" where
  "tm_wf m \<longleftrightarrow> dict_wf (tasks m) \<and> dict_wf (expiry m) \<and> dict_wf (subs m)
     \<and> set (dict_keys (expiry m)) = set (dict_keys (tasks m))
     \<and> (\<forall>(tid, r) \<in> set (tasks m). r < length (store m) \<and> task_id (store m ! r) = tid)
     \<and> (\<forall>(tid, qs) \<in> set (subs m). \<forall>q \<in> set qs. q < length (queues m))"

lemma keys_dict_delete [simp]: "set (dict_keys (AList.delete k d)) = set (dict_keys d) - {k}"
  by (auto simp: set_dict_delete)

lemma keys_dict_update [simp]: "set (dict_keys (AList.update k v d)) = insert k (set (dict_keys d))"
  by (auto simp: dict_keys_update)

lemma set_dict_update: "set (AList.update k v d) \<subseteq> insert (k, v) (set d)"
  by (induction d) auto

lemma delete_task_wf [rpc_inv]: "tm_wf m \<Longrightarrow> tm_wf (delete_task tid m)"
  unfolding tm_wf_def delete_task_def
  by (simp del: set_map add: dict_wf_delete) (auto simp: set_dict_delete)

lemma delete_task_same [simp]: "store (delete_task tid m) = store m" "queues (delete_task tid m) = queues m"
  "max_tasks (delete_task tid m) = max_tasks m"
  "default_ttl_seconds (delete_task tid m) = default_ttl_seconds m"
  by (simp_all add: delete_task_def)

lemma delete_task_length: "length (tasks (delete_task tid m)) \<le> length (tasks m)"
  by (simp add: delete_task_def)

text \<open>What only deletes: the store, the queues and the limits stay, no task comes.\<close>

definition shrinks :: "task_manager \<Rightarrow> task_manager \<Rightarrow> bool" where
  "shrinks m m' \<longleftrightarrow> store m' = store m \<and> queues m' = queues m \<and> max_tasks m' = max_tasks m
     \<and> default_ttl_seconds m' = default_ttl_seconds m \<and> length (tasks m') \<le> length (tasks m)
     \<and> set (tasks m') \<subseteq> set (tasks m) \<and> (tm_wf m \<longrightarrow> tm_wf m')"

lemma shrinks_refl [simp]: "shrinks m m"
  by (simp add: shrinks_def)

lemma shrinks_trans: "shrinks a b \<Longrightarrow> shrinks b c \<Longrightarrow> shrinks a c"
  by (auto simp: shrinks_def)

lemma shrinks_delete [simp]: "shrinks m (delete_task tid m)"
  by (auto simp: shrinks_def rpc_inv) (auto simp: delete_task_def set_dict_delete)

lemma shrinks_fold: "shrinks m (fold delete_task ids m)"
  by (induction ids arbitrary: m) (auto intro: shrinks_trans shrinks_delete)

lemma shrinks_drop_finished: "shrinks m (drop_finished cap ids m)"
  by (induction cap ids m rule: drop_finished.induct) (auto intro: shrinks_trans shrinks_delete)

lemma shrinks_gc: "shrinks m (gc_locked now aggressive m)"
  unfolding gc_locked_def gc_expired_def Let_def
  by (auto intro: shrinks_fold shrinks_drop_finished shrinks_trans)

lemma gc_wf [rpc_inv]: "tm_wf m \<Longrightarrow> tm_wf (gc_locked now aggressive m)"
  using shrinks_gc [of m now aggressive] by (simp add: shrinks_def)

lemma min_by_in: "min_by f xs = Some y \<Longrightarrow> y \<in> set xs"
  by (induction xs arbitrary: y) (auto split: option.splits if_splits)

lemma min_by_None [simp]: "min_by f xs = None \<longleftrightarrow> xs = []"
  by (cases xs) (auto split: option.split)

lemma min_by_least: "min_by f xs = Some y \<Longrightarrow> x \<in> set xs \<Longrightarrow> f y \<le> f x"
proof (induction xs arbitrary: y)
  case (Cons a xs)
  show ?case
  proof (cases "min_by f xs")
    case None
    with Cons.prems show ?thesis by (auto split: if_splits)
  next
    case (Some z)
    with Cons.IH [OF Some] Cons.prems show ?thesis
      by (auto split: if_splits)
  qed
qed simp

lemma make_room_facts:
  assumes "tm_wf m" "int (length (tasks m)) \<le> max_tasks m" "make_room now m = Inr m'"
  shows "shrinks m m' \<and> int (length (tasks m')) < max_tasks m'"
proof (cases "int (length (tasks m)) \<ge> max_tasks m")
  case False
  with assms(3) show ?thesis by (simp add: make_room_def)
next
  case True
  let ?m = "gc_locked now True m"
  note g = shrinks_gc [of m now True]
  show ?thesis
  proof (cases "int (length (tasks ?m)) \<ge> max_tasks ?m")
    case False
    with True assms(3) g show ?thesis by (simp add: make_room_def Let_def)
  next
    case full: True
    then obtain old where old: "min_by created_at_ms (map (\<lambda>(tid, r). store ?m ! r) (tasks ?m)) = Some old"
      and m': "m' = delete_task (task_id old) ?m"
      using True assms(3) by (auto simp: make_room_def Let_def split: option.splits)
    from min_by_in [OF old] obtain tid r where "(tid, r) \<in> set (tasks ?m)" "old = store ?m ! r" by auto
    moreover have "tm_wf ?m" using assms(1) by (rule gc_wf)
    ultimately have "map_of (tasks ?m) (task_id old) \<noteq> None" "dict_wf (tasks ?m)"
      by (auto simp: tm_wf_def)
    then have "Suc (length (tasks m')) = length (tasks ?m)"
      unfolding m' delete_task_def by (simp add: length_dict_delete del: dict_opaque)
    with g assms(2) shrinks_trans [OF g shrinks_delete, of "task_id old"] show ?thesis
      by (auto simp: shrinks_def m')
  qed
qed

lemma length_emit [simp]: "length (queues (emit tid ev m)) = length (queues m)"
proof -
  have "length (fold (\<lambda>q qs. qs[q := qs ! q @ [ev]]) ids qs) = length qs" for ids and qs :: "task_event list list"
    by (induction ids arbitrary: qs) auto
  then show ?thesis by (simp add: emit_def)
qed

lemma emit_same [simp]: "store (emit tid ev m) = store m" "tasks (emit tid ev m) = tasks m"
  "expiry (emit tid ev m) = expiry m" "subs (emit tid ev m) = subs m"
  "max_tasks (emit tid ev m) = max_tasks m" "default_ttl_seconds (emit tid ev m) = default_ttl_seconds m"
  by (simp_all add: emit_def)

lemma tm_wf_emit [simp]: "tm_wf (emit tid ev m) = tm_wf m"
  by (simp add: tm_wf_def)

lemma tm_wf_task:
  "tm_wf m \<Longrightarrow> map_of (tasks m) tid = Some r \<Longrightarrow> r < length (store m) \<and> task_id (store m ! r) = tid"
  by (auto simp: tm_wf_def)

lemma update_task_wf [rpc_inv]:
  assumes "tm_wf m" "\<And>r. task_id (f r) = task_id r"
  shows "tm_wf (update_task now tid f m)"
proof (cases "map_of (tasks m) tid")
  case (Some r)
  with tm_wf_task [OF assms(1) this] assms show ?thesis
    by (auto simp: update_task_def tm_wf_def nth_list_update Let_def)
qed (simp add: update_task_def assms(1))

lemma update_task_same [simp]: "tasks (update_task now tid f m) = tasks m"
  "max_tasks (update_task now tid f m) = max_tasks m"
  by (simp_all add: update_task_def Let_def split: option.split)

lemma runner_wf [rpc_inv]:
  "tm_wf m \<Longrightarrow> tm_wf (set_status now tid s m)"
  "tm_wf m \<Longrightarrow> tm_wf (runner_finish now tid outcome m)"
  by (auto simp: set_status_def runner_finish_def set_result_def set_error_def Let_def
      intro!: update_task_wf split: sum.split)

lemma runner_same [simp]: "tasks (set_status now tid s m) = tasks m"
  "max_tasks (set_status now tid s m) = max_tasks m"
  "tasks (runner_finish now tid outcome m) = tasks m"
  "max_tasks (runner_finish now tid outcome m) = max_tasks m"
  by (simp_all add: set_status_def runner_finish_def set_result_def set_error_def split: sum.split)

definition tm_inv :: "task_manager \<Rightarrow> bool" where
  "tm_inv m \<longleftrightarrow> tm_wf m \<and> 1 \<le> max_tasks m \<and> int (length (tasks m)) \<le> max_tasks m"

lemma tm_inv_shrinks: "tm_inv m \<Longrightarrow> shrinks m m' \<Longrightarrow> tm_inv m'"
  by (auto simp: tm_inv_def shrinks_def)

lemma add_record_wf:
  assumes "tm_wf m"
  shows "tm_wf (m\<lparr>store := store m @ [new_record tid now], tasks := AList.update tid (length (store m)) (tasks m),
    expiry := AList.update tid x (expiry m)\<rparr>)"
proof -
  have "\<forall>(t, r) \<in> set (AList.update tid (length (store m)) (tasks m)).
      r < Suc (length (store m)) \<and> task_id ((store m @ [new_record tid now]) ! r) = t"
  proof (clarify)
    fix t r
    assume "(t, r) \<in> set (AList.update tid (length (store m)) (tasks m))"
    then have "(t, r) = (tid, length (store m)) \<or> (t, r) \<in> set (tasks m)"
      using set_dict_update by fastforce
    with assms show "r < Suc (length (store m)) \<and> task_id ((store m @ [new_record tid now]) ! r) = t"
      by (auto simp: tm_wf_def nth_append new_record_def)
  qed
  with assms show ?thesis by (simp add: tm_wf_def del: set_map)
qed

lemma submit_inv [rpc_inv]:
  assumes "tm_inv m"
  shows "tm_inv (snd (submit now uuid ttl tid m))"
proof -
  let ?t = "case tid of Some t \<Rightarrow> if t = [] then uuid else t | None \<Rightarrow> uuid"
  let ?m = "gc_locked now False m"
  have g: "tm_inv ?m" using tm_inv_shrinks [OF assms shrinks_gc] .
  show ?thesis
  proof (cases "map_of (tasks ?m) ?t")
    case (Some r)
    with g show ?thesis by (simp add: submit_def Let_def)
  next
    case None
    show ?thesis
    proof (cases "make_room now ?m")
      case (Inl e)
      with None tm_inv_shrinks [OF g shrinks_gc] show ?thesis by (simp add: submit_def Let_def)
    next
      case (Inr m2)
      with g make_room_facts [of ?m now m2] have r: "shrinks ?m m2" "int (length (tasks m2)) < max_tasks m2"
        by (auto simp: tm_inv_def)
      with g have "tm_wf m2" "1 \<le> max_tasks m2" by (auto simp: tm_inv_def shrinks_def)
      with r(2) add_record_wf [OF this(1)] None Inr show ?thesis
        by (simp add: submit_def tm_inv_def length_dict_update Let_def)
    qed
  qed
qed

lemma get_task_inv [rpc_inv]: "tm_inv m \<Longrightarrow> tm_inv (snd (get_task now tid m))"
  using tm_inv_shrinks [OF _ shrinks_gc] by (simp add: get_task_def Let_def)

lemma subscribe_inv [rpc_inv]:
  assumes "tm_inv m"
  shows "tm_inv (snd (subscribe now tid m))"
proof (cases "get_task now tid m")
  case (Pair r m1)
  have m1: "tm_inv m1" using get_task_inv [OF assms, of now tid] Pair by simp
  have old: "\<forall>q \<in> set (dict_get (subs m1) tid []). q < length (queues m1)"
    using m1 by (fastforce simp: tm_inv_def tm_wf_def dict_get_def split: option.split)
  show ?thesis
  proof (cases r)
    case (Inr r')
    have "\<forall>(t, qs) \<in> set (AList.update tid (dict_get (subs m1) tid [] @ [length (queues m1)]) (subs m1)).
        \<forall>q \<in> set qs. q < Suc (length (queues m1))"
    proof (clarify)
      fix t qs q
      assume "(t, qs) \<in> set (AList.update tid (dict_get (subs m1) tid [] @ [length (queues m1)]) (subs m1))"
        and q: "q \<in> set qs"
      then have "qs = dict_get (subs m1) tid [] @ [length (queues m1)] \<or> (t, qs) \<in> set (subs m1)"
        using set_dict_update by fastforce
      with q old m1 show "q < Suc (length (queues m1))"
        by (fastforce simp: tm_inv_def tm_wf_def)
    qed
    with m1 Pair Inr show ?thesis
      by (simp add: subscribe_def tm_inv_def tm_wf_def Let_def del: set_map)
  qed (simp add: subscribe_def Pair m1)
qed

lemma dict_get_subset: "set (dict_get d k []) \<subseteq> (\<Union>(t, qs) \<in> set d. set qs)"
proof (cases "map_of d k")
  case (Some qs)
  from map_of_SomeD [OF this] Some show ?thesis by (fastforce simp: dict_get_def)
qed (simp add: dict_get_def)

lemma unsubscribe_inv [rpc_inv]:
  assumes "tm_inv m"
  shows "tm_inv (unsubscribe tid q m)"
proof -
  let ?qs = "removeAll q (dict_get (subs m) tid [])"
  have old: "\<forall>q \<in> set ?qs. q < length (queues m)"
    using assms dict_get_subset [of "subs m" tid] by (fastforce simp: tm_inv_def tm_wf_def)
  have "\<forall>(t, qs) \<in> set (AList.update tid ?qs (subs m)). \<forall>q \<in> set qs. q < length (queues m)"
  proof (clarify)
    fix t qs x
    assume "(t, qs) \<in> set (AList.update tid ?qs (subs m))" and x: "x \<in> set qs"
    then have "qs = ?qs \<or> (t, qs) \<in> set (subs m)" using set_dict_update by fastforce
    with x old assms show "x < length (queues m)" by (fastforce simp: tm_inv_def tm_wf_def)
  qed
  with assms show ?thesis
    by (auto simp: unsubscribe_def tm_inv_def tm_wf_def set_dict_delete Let_def simp del: set_map)
qed

section \<open>Interleaved operations\<close>

text \<open>The runners that have been created, each with whether it has set \<open>RUNNING\<close> yet.\<close>

type_synonym tm_sys = "task_manager \<times> (string \<times> bool) list \<times> int"

inductive tm_step :: "tm_sys \<Rightarrow> tm_sys \<Rightarrow> bool" where
  submit: "clk \<le> now \<Longrightarrow> submit now uuid ttl tid m = (res, m') \<Longrightarrow>
    tm_step (m, rs, clk)
      (m', (case res of Inr (r, True) \<Rightarrow> rs @ [(task_id (store m' ! r), False)] | _ \<Rightarrow> rs), now)"
| get: "clk \<le> now \<Longrightarrow> tm_step (m, rs, clk) (snd (get_task now tid m), rs, now)"
| subscribe: "clk \<le> now \<Longrightarrow> tm_step (m, rs, clk) (snd (subscribe now tid m), rs, now)"
| unsubscribe: "clk \<le> now \<Longrightarrow> tm_step (m, rs, clk) (unsubscribe tid q m, rs, now)"
| start: "clk \<le> now \<Longrightarrow> i < length rs \<Longrightarrow> rs ! i = (tid, False) \<Longrightarrow>
    tm_step (m, rs, clk) (set_status now tid RUNNING m, rs[i := (tid, True)], now)"
| finish: "clk \<le> now \<Longrightarrow> i < length rs \<Longrightarrow> rs ! i = (tid, True) \<Longrightarrow>
    tm_step (m, rs, clk) (runner_finish now tid outcome m, take i rs @ drop (Suc i) rs, now)"

abbreviation tm_steps :: "tm_sys \<Rightarrow> tm_sys \<Rightarrow> bool" where
  "tm_steps \<equiv> tm_step\<^sup>*\<^sup>*"

lemma tm_step_inv: "tm_step s s' \<Longrightarrow> tm_inv (fst s) \<Longrightarrow> tm_inv (fst s')"
proof (induction rule: tm_step.induct)
  case (submit clk now uuid ttl tid m res m' rs)
  then show ?case using submit_inv [of m now uuid ttl tid] by simp
qed (simp_all add: rpc_inv, simp_all add: tm_inv_def rpc_inv)

lemma tm_steps_inv: "tm_steps s s' \<Longrightarrow> tm_inv (fst s) \<Longrightarrow> tm_inv (fst s')"
  by (induction rule: rtranclp_induct) (auto dest: tm_step_inv)

section \<open>One task from submission to result\<close>

lemma submit_new:
  assumes "tm_inv m" "submit t0 uuid ttl (Some tid) m = (Inr (r, True), m1)" "tid \<noteq> []"
  shows "tm_inv m1 \<and> map_of (tasks m1) tid = Some r \<and> store m1 ! r = new_record tid t0"
proof -
  have "tm_inv m1" using submit_inv [OF assms(1), of t0 uuid ttl "Some tid"] assms(2) by simp
  moreover have "map_of (tasks m1) tid = Some r \<and> store m1 ! r = new_record tid t0"
    using assms(2,3) by (auto simp: submit_def Let_def simp del: dict_opaque split: option.splits sum.splits)
  ultimately show ?thesis by simp
qed

lemma gc_keeps:
  assumes "tm_wf m" "map_of (tasks (gc_locked now a m)) tid = Some r"
  shows "map_of (tasks m) tid = Some r"
proof -
  have "set (tasks (gc_locked now a m)) \<subseteq> set (tasks m)" "dict_wf (tasks m)"
    using shrinks_gc [of m now a] assms(1) by (simp_all add: shrinks_def tm_wf_def)
  with map_of_SomeD [OF assms(2)] show ?thesis by auto
qed

lemma subscribe_new:
  assumes "tm_inv m1" "map_of (tasks m1) tid = Some r" "subscribe t0 tid m1 = (Inr q, m2)"
  shows "tm_inv m2 \<and> map_of (tasks m2) tid = Some r \<and> store m2 = store m1 \<and> q < length (queues m2)
    \<and> queues m2 ! q = [event_for_task t0 r m2]
    \<and> (\<exists>qs. map_of (subs m2) tid = Some (qs @ [q]) \<and> q \<notin> set qs)"
proof -
  let ?g = "gc_locked t0 False m1"
  have inv: "tm_inv m2" using subscribe_inv [OF assms(1), of t0 tid] assms(3) by simp
  have g: "shrinks m1 ?g" "tm_inv ?g" using shrinks_gc tm_inv_shrinks [OF assms(1) shrinks_gc] by simp_all
  from assms(3) obtain r' where r': "map_of (tasks ?g) tid = Some r'" "q = length (queues ?g)"
    "m2 = ?g\<lparr>queues := queues ?g @ [[event_for_task t0 r' ?g]],
             subs := AList.update tid (dict_get (subs ?g) tid [] @ [q]) (subs ?g)\<rparr>"
    by (auto simp: subscribe_def get_task_def Let_def simp del: dict_opaque split: option.splits)
  have "r' = r" using gc_keeps [OF _ r'(1)] assms(1,2) by (simp add: tm_inv_def del: dict_opaque)
  moreover have "q \<notin> set (dict_get (subs ?g) tid [])"
    using g(2) dict_get_subset [of "subs ?g" tid] by (fastforce simp: tm_inv_def tm_wf_def r'(2))
  ultimately show ?thesis
    using inv r' g(1) by (simp add: shrinks_def event_for_task_def nth_append del: dict_opaque)
qed

lemma fold_deliver:
  "q < length qs \<Longrightarrow> (fold (\<lambda>q qs. qs[q := qs ! q @ [ev]]) ids qs) ! q =
     qs ! q @ replicate (count_list ids q) ev"
proof (induction ids arbitrary: qs)
  case (Cons i ids)
  then show ?case by (cases "i = q") (simp_all add: nth_list_update replicate_append_same)
qed simp

lemma emit_queue:
  assumes "map_of (subs m) tid = Some (qs @ [q])" "q \<notin> set qs" "q < length (queues m)"
  shows "queues (emit tid ev m) ! q = queues m ! q @ [ev]"
  using assms fold_deliver [of q "queues m" ev "qs @ [q]"]
  by (simp add: emit_def dict_get_def count_notin del: dict_opaque fold_append)

lemma update_task_effect:
  assumes "tm_inv m" "map_of (tasks m) tid = Some r" "q < length (queues m)"
    and "map_of (subs m) tid = Some (qs @ [q])" "q \<notin> set qs"
  shows "store (update_task now tid f m) ! r = f (store m ! r)"
    and "queues (update_task now tid f m) ! q = queues m ! q @
      [\<lparr>event = event_name (status (f (store m ! r))), event_task = r, event_timestamp_ms = now\<rparr>]"
    and "map_of (tasks (update_task now tid f m)) tid = Some r"
    and "map_of (subs (update_task now tid f m)) tid = Some (qs @ [q])"
    and "q < length (queues (update_task now tid f m))"
proof -
  have r: "r < length (store m)"
    using tm_wf_task [of m tid r] assms(1,2) by (simp add: tm_inv_def)
  show "queues (update_task now tid f m) ! q = queues m ! q @
      [\<lparr>event = event_name (status (f (store m ! r))), event_task = r, event_timestamp_ms = now\<rparr>]"
    using assms(2-5) r by (simp add: update_task_def emit_queue event_for_task_def Let_def del: dict_opaque)
  show "store (update_task now tid f m) ! r = f (store m ! r)"
    using assms(2) r by (simp add: update_task_def Let_def del: dict_opaque)
qed (use assms in \<open>simp_all add: update_task_def Let_def del: dict_opaque\<close>)

section \<open>Properties\<close>

text \<open>
  C8. With room for at least one task, no interleaving of submissions, queries,
  subscriptions and runners makes the manager hold more than \<open>max_tasks\<close> tasks; every
  identifier it knows names a record that carries this identifier, its expiry is known for
  exactly these, and events only go to queues that exist.
\<close>

theorem tasks_bounded:
  assumes "tm_steps (new_task_manager (Some c), [], clk0) (m, rs, clk)" "1 \<le> tmc_max_tasks c"
  shows "int (length (tasks m)) \<le> max_tasks m
    \<and> set (dict_keys (expiry m)) = set (dict_keys (tasks m))
    \<and> (\<forall>(tid, r) \<in> set (tasks m). r < length (store m) \<and> task_id (store m ! r) = tid)
    \<and> (\<forall>(tid, qs) \<in> set (subs m). \<forall>q \<in> set qs. q < length (queues m))"
proof -
  have "tm_inv (new_task_manager (Some c))"
    using assms(2) by (simp add: tm_inv_def tm_wf_def new_task_manager_def)
  with tm_steps_inv [OF assms(1)] have "tm_inv m" by simp
  then show ?thesis unfolding tm_inv_def tm_wf_def by blast
qed

definition small_config :: task_manager_config where
  "small_config = \<lparr>tmc_default_ttl_seconds = Some 1, tmc_max_tasks = 2\<rparr>"

lemmas task_run_defs = submit_def make_room_def gc_locked_def gc_expired_def is_expired_def
  delete_task_def emit_def event_for_task_def event_name_def new_record_def new_task_manager_def
  small_config_def update_task_def set_status_def runner_finish_def set_result_def dict_get_def

definition demo :: task_manager where
  "demo = \<lparr>default_ttl_seconds = Some 1, max_tasks = 2, store = [new_record ''t'' 0],
     tasks = [(''t'', 0)], expiry = [(''t'', Some 1000)], subs = [], queues = []\<rparr>"

lemma first_submit:
  "tm_step (new_task_manager (Some small_config), [], 0) (demo, [(''t'', False)], 0)"
proof -
  have "submit 0 ''u'' None (Some ''t'') (new_task_manager (Some small_config)) = (Inr (0, True), demo)"
    by (simp add: task_run_defs demo_def Let_def)
  from tm_step.submit [OF order_refl this, of "[]"] show ?thesis
    by (simp add: demo_def new_record_def)
qed

theorem tasks_bounded_witness:
  "\<exists>m. tm_steps (new_task_manager (Some small_config), [], 0) (m, [(''t'', False)], 0)
     \<and> tasks m = [(''t'', 0)] \<and> int (length (tasks m)) \<le> max_tasks m"
proof -
  have st: "tm_steps (new_task_manager (Some small_config), [], 0) (demo, [(''t'', False)], 0)"
    using first_submit by (rule r_into_rtranclp)
  from tasks_bounded [OF st] st show ?thesis by (auto simp: small_config_def demo_def)
qed

text \<open>
  A runner finds its record by identifier only. When a task expires
  while it runs and its identifier is submitted again, the old runner completes the new record
  with its own result, and the new runner then moves the completed record back to \<open>RUNNING\<close>
  and completes it again with another result: a terminal status is not final.
\<close>

theorem stale_runner_overwrites:
  "\<exists>m1 m2 m3 rs1 rs2.
     tm_steps (new_task_manager (Some small_config), [], 0) (m1, rs1, 1500)
     \<and> tm_steps (m1, rs1, 1500) (m2, rs2, 1600) \<and> tm_steps (m2, rs2, 1600) (m3, [], 1700)
     \<and> map_of (tasks m1) ''t'' = Some 1 \<and> is_terminal (store m1 ! 1) \<and> result (store m1 ! 1) = PStr ''old''
     \<and> status (store m2 ! 1) = RUNNING
     \<and> status (store m3 ! 1) = SUCCEEDED \<and> result (store m3 ! 1) = PStr ''new''"
proof -
  let ?m0 = "new_task_manager (Some small_config)"
  let ?b = "set_status 10 ''t'' RUNNING demo"
  let ?c = "snd (submit 1000 ''u'' None (Some ''t'') ?b)"
  let ?m1 = "runner_finish 1500 ''t'' (Inr (PStr ''old'')) ?c"
  let ?m2 = "set_status 1600 ''t'' RUNNING ?m1"
  let ?m3 = "runner_finish 1700 ''t'' (Inr (PStr ''new'')) ?m2"
  have "tm_step (demo, [(''t'', False)], 0) (?b, [(''t'', True)], 10)"
    using start [of 0 10 0 "[(''t'', False)]" "''t''" demo] by simp
  moreover have sub: "submit 1000 ''u'' None (Some ''t'') ?b = (Inr (1, True), ?c)"
    "task_id (store ?c ! 1) = ''t''"
    by (simp_all add: task_run_defs demo_def Let_def)
  from tm_step.submit [OF _ sub(1), of 10 "[(''t'', True)]"] sub(2)
  have "tm_step (?b, [(''t'', True)], 10) (?c, [(''t'', True), (''t'', False)], 1000)" by simp
  moreover have "tm_step (?c, [(''t'', True), (''t'', False)], 1000) (?m1, [(''t'', False)], 1500)"
    using finish [of 1000 1500 0 "[(''t'', True), (''t'', False)]" "''t''" ?c] by simp
  ultimately have 1: "tm_steps (?m0, [], 0) (?m1, [(''t'', False)], 1500)"
    using first_submit by (meson converse_rtranclp_into_rtranclp rtranclp.rtrancl_refl)
  have 2: "tm_steps (?m1, [(''t'', False)], 1500) (?m2, [(''t'', True)], 1600)"
    using start [of 1500 1600 0 "[(''t'', False)]" "''t''" ?m1] by (intro r_into_rtranclp) simp
  have 3: "tm_steps (?m2, [(''t'', True)], 1600) (?m3, [], 1700)"
    using finish [of 1600 1700 0 "[(''t'', True)]" "''t''" ?m2] by (intro r_into_rtranclp) simp
  have "map_of (tasks ?m1) ''t'' = Some 1 \<and> is_terminal (store ?m1 ! 1) \<and> result (store ?m1 ! 1) = PStr ''old''
     \<and> status (store ?m2 ! 1) = RUNNING
     \<and> status (store ?m3 ! 1) = SUCCEEDED \<and> result (store ?m3 ! 1) = PStr ''new''"
    by (simp add: task_run_defs is_terminal_def demo_def Let_def)
  with 1 2 3 show ?thesis by blast
qed

text \<open>
  C9. A new task that runs undisturbed ends in the terminal status of its outcome
  (value, cancellation, any other exception), with the times of its start and completion, the
  value or an error with the right code, still under its identifier; a subscriber from the start gets
  exactly the events progress, started and completed or failed, all of which share the one record.
\<close>

theorem task_lifecycle:
  assumes "tm_inv m" "tid \<noteq> []" "submit t0 uuid ttl (Some tid) m = (Inr (r, True), m1)"
    and "subscribe t0 tid m1 = (Inr q, m2)"
    and "case outcome of Inl e \<Rightarrow> isinstance_exn e PyException \<or> isinstance_exn e CancelledError | Inr _ \<Rightarrow> True"
    and "m4 = runner_finish t2 tid outcome (set_status t1 tid RUNNING m2)"
  shows "status (store m4 ! r) = (case outcome of Inr _ \<Rightarrow> SUCCEEDED
           | Inl e \<Rightarrow> if isinstance_exn e CancelledError then CANCELED else FAILED)
    \<and> started_at_ms (store m4 ! r) = Some t1 \<and> completed_at_ms (store m4 ! r) = Some t2
    \<and> result (store m4 ! r) = (case outcome of Inr v \<Rightarrow> v | Inl _ \<Rightarrow> PNone)
    \<and> map_option err_code (task_error (store m4 ! r)) = (case outcome of Inr _ \<Rightarrow> None
           | Inl e \<Rightarrow> Some (if isinstance_exn e CancelledError then 499 else 5000))
    \<and> map_of (tasks m4) tid = Some r
    \<and> map (\<lambda>ev. (event ev, event_task ev, event_timestamp_ms ev)) (queues m4 ! q) =
        [(''progress'', r, t0), (''started'', r, t1),
         (case outcome of Inr _ \<Rightarrow> ''completed'' | Inl _ \<Rightarrow> ''failed'', r, t2)]"
proof -
  note s1 = submit_new [OF assms(1,3,2)]
  have s2: "tm_inv m2" "map_of (tasks m2) tid = Some r" "store m2 ! r = new_record tid t0"
    "q < length (queues m2)" "queues m2 ! q = [event_for_task t0 r m2]"
    using subscribe_new [OF _ _ assms(4)] s1 by auto
  obtain qs where qs: "map_of (subs m2) tid = Some (qs @ [q])" "q \<notin> set qs"
    using subscribe_new [OF _ _ assms(4)] s1 by auto
  let ?m3 = "set_status t1 tid RUNNING m2"
  have inv3: "tm_inv ?m3" using s2(1) by (simp add: tm_inv_def runner_wf)
  have m3: "store ?m3 ! r = (new_record tid t0)\<lparr>status := RUNNING, started_at_ms := Some t1\<rparr>"
    "map_of (tasks ?m3) tid = Some r" "q < length (queues ?m3)" "map_of (subs ?m3) tid = Some (qs @ [q])"
    "map (\<lambda>ev. (event ev, event_task ev, event_timestamp_ms ev)) (queues ?m3 ! q) =
       [(''progress'', r, t0), (''started'', r, t1)]"
    using update_task_effect [OF s2(1,2,4) qs, of t1] s2(2,3,5)
    by (simp_all add: set_status_def event_for_task_def event_name_def new_record_def Let_def)
  note e4 = update_task_effect [OF inv3 m3(2,3,4) qs(2), of t2]
  show ?thesis
    unfolding assms(6)
    using assms(5) e4 m3 by (auto simp: runner_finish_def set_result_def set_error_def task_failure_def
        event_name_def is_terminal_def new_record_def Let_def simp del: dict_opaque split: sum.splits)
qed

theorem task_lifecycle_witness:
  "let m4 = runner_finish 9 ''t'' (Inl (Exn CancelledError 0 [] PNone None))
              (set_status 5 ''t'' RUNNING (snd (subscribe 0 ''t'' demo)))
   in status (store m4 ! 0) = CANCELED \<and> map_option err_code (task_error (store m4 ! 0)) = Some 499
      \<and> map event (queues m4 ! 0) = [''progress'', ''started'', ''failed'']"
proof -
  let ?m = "new_task_manager (Some small_config)" and ?o = "Inl (Exn CancelledError 0 [] PNone None)"
  have m: "tm_inv ?m" by (simp add: tm_inv_def tm_wf_def new_task_manager_def small_config_def)
  have s: "submit 0 ''u'' None (Some ''t'') ?m = (Inr (0, True), demo)"
    by (simp add: task_run_defs demo_def Let_def)
  have q: "subscribe 0 ''t'' demo = (Inr 0, snd (subscribe 0 ''t'' demo))"
    by (simp add: subscribe_def get_task_def task_run_defs demo_def Let_def)
  note * = task_lifecycle [OF m _ s q, of ?o _ 9 5, OF _ _ refl]
  have "map event (queues (runner_finish 9 ''t'' ?o (set_status 5 ''t'' RUNNING (snd (subscribe 0 ''t'' demo)))) ! 0) =
     map fst [(''progress'', 0 :: nat, 0 :: int), (''started'', 0, 5), (''failed'', 0, 9)]"
    using * [THEN conjunct2, THEN conjunct2, THEN conjunct2, THEN conjunct2, THEN conjunct2, THEN conjunct2,
      THEN arg_cong [of _ _ "map fst"]] by (simp add: comp_def)
  then show ?thesis using * by (simp add: Let_def)
qed

end
