(* ===== verification/Messages.thy ===== *)
theory Messages
  imports Wire_Codec Rpc_Errors Retry_Policy Task_Manager
begin

text \<open>
  The models of the v2 protocol: trace context, metadata, QoS settings, the request and response
  envelopes (\<open>protocol/v2/types.py\<close>, \<open>protocol/v2/metadata.py\<close>, \<open>protocol/v2/qos.py\<close>),
  health and task requests (\<open>protocol/v2/health.py\<close>, \<open>server/tasks/types.py\<close>), with the
  validators the classes declare. Building a model from values of the declared types either
  gives the model or the \<open>ValidationError\<close> of a validator; assignments to a field are not
  validated afterwards.
\<close>

section \<open>Computations that may raise\<close>

definition bind_ok :: "'e + 'a \<Rightarrow> ('a \<Rightarrow> 'e + 'b) \<Rightarrow> 'e + 'b" where
  "bind_ok r f = (case r of Inl e \<Rightarrow> Inl e | Inr v \<Rightarrow> f v)"

definition opt_ok :: "('a \<Rightarrow> 'e + 'b) \<Rightarrow> 'a option \<Rightarrow> 'e + 'b option" where
  "opt_ok f x = (case x of None \<Rightarrow> Inr None | Some v \<Rightarrow> bind_ok (f v) (\<lambda>w. Inr (Some w)))"

fun list_ok :: "('a \<Rightarrow> 'e + 'b) \<Rightarrow> 'a list \<Rightarrow> 'e + 'b list" where
  "list_ok f [] = Inr []"
| "list_ok f (x # xs) = bind_ok (f x) (\<lambda>y. bind_ok (list_ok f xs) (\<lambda>ys. Inr (y # ys)))"

lemma bind_ok_simps [simp]: "bind_ok (Inl e) f = Inl e" "bind_ok (Inr v) f = f v"
  by (simp_all add: bind_ok_def)

lemma bind_ok_Inr: "bind_ok r f = Inr y \<longleftrightarrow> (\<exists>v. r = Inr v \<and> f v = Inr y)"
  by (cases r) simp_all

lemma opt_ok_simps [simp]: "opt_ok f None = Inr None"
  "opt_ok f (Some v) = bind_ok (f v) (\<lambda>w. Inr (Some w))"
  by (simp_all add: opt_ok_def)

lemma opt_ok_Inr:
  "opt_ok f x = Inr y \<longleftrightarrow> (case x of None \<Rightarrow> y = None | Some v \<Rightarrow> (\<exists>w. f v = Inr w \<and> y = Some w))"
  by (auto simp: bind_ok_Inr split: option.split)

lemma list_ok_map: "(\<And>x. x \<in> set xs \<Longrightarrow> f x = Inr (g x)) \<Longrightarrow> list_ok f xs = Inr (map g xs)"
  by (induction xs) simp_all

text \<open>\<open>x or None\<close> for a list or a dictionary, and \<open>x or ""\<close>.\<close>

definition nonempty :: "'a list \<Rightarrow> 'a list option" where
  "nonempty xs = (if xs = [] then None else Some xs)"

definition or_empty :: "'a list option \<Rightarrow> 'a list" where
  "or_empty x = (case x of None \<Rightarrow> [] | Some xs \<Rightarrow> xs)"

definition or_default :: "'a::zero \<Rightarrow> 'a \<Rightarrow> 'a" where
  "or_default x d = (if x = 0 then d else x)"

lemma or_empty_simps [simp]: "or_empty None = []" "or_empty (Some xs) = xs"
  by (simp_all add: or_empty_def)

lemma or_empty_nonempty [simp]: "or_empty (nonempty xs) = xs"
  by (simp add: nonempty_def)

lemma nonempty_simps [simp]: "nonempty [] = None" "nonempty (x # xs) = Some (x # xs)"
  by (simp_all add: nonempty_def)

text \<open>Reading an attribute of \<open>None\<close> or of a value that has none of that name.\<close>

definition no_attribute :: "string \<Rightarrow> exn" where
  "no_attribute name = Exn AttributeError 0 name PNone None"

section \<open>Trace context\<close>

record trace_context =
  tc_trace_id :: string
  tc_span_id :: string
  tc_parent_span_id :: "string option"
  tc_sampled :: bool
  tc_baggage :: "(string, string) dict option"

definition is_hex :: "char \<Rightarrow> bool" where
  "is_hex c = (is_digit c \<or> (let n = ascii_code c in (65 \<le> n \<and> n \<le> 70) \<or> (97 \<le> n \<and> n \<le> 102)))"

definition hex_of_length :: "nat \<Rightarrow> string \<Rightarrow> bool" where
  "hex_of_length n s = (length s = n \<and> list_all is_hex s)"

definition validation_error :: "string \<Rightarrow> exn" where
  "validation_error msg = Exn (Custom ''ValidationError'' ValueError) 0 msg PNone None"

definition validate_trace_id :: "string \<Rightarrow> exn + string" where
  "validate_trace_id v =
     (if hex_of_length 32 v then Inr v
      else Inl (validation_error ''trace_id must be a 32-character hex string''))"

definition validate_span_id :: "string \<Rightarrow> exn + string" where
  "validate_span_id v =
     (if hex_of_length 16 v then Inr v
      else Inl (validation_error ''span_id must be a 16-character hex string''))"

definition new_trace_context ::
  "string \<Rightarrow> string \<Rightarrow> string option \<Rightarrow> bool \<Rightarrow> (string, string) dict option \<Rightarrow> exn + trace_context" where
  "new_trace_context tid sid parent smp bag =
     bind_ok (validate_trace_id tid) (\<lambda>t. bind_ok (validate_span_id sid) (\<lambda>s.
       Inr \<lparr>tc_trace_id = t, tc_span_id = s, tc_parent_span_id = parent, tc_sampled = smp,
            tc_baggage = bag\<rparr>))"

text \<open>\<open>TraceContext.create\<close>: \<open>hex1\<close> and \<open>hex2\<close> are what the two \<open>uuid4().hex\<close> give.\<close>

definition create_trace_context ::
  "string \<Rightarrow> string \<Rightarrow> bool \<Rightarrow> (string, string) dict option \<Rightarrow> exn + trace_context" where
  "create_trace_context hex1 hex2 smp bag = new_trace_context hex1 (take 16 hex2) None smp bag"

section \<open>Metadata\<close>

record auth_context =
  ac_scheme :: auth_scheme
  ac_credentials :: "string option"
  ac_principal :: "string option"
  ac_principal_type :: "string option"
  ac_roles :: "string list option"

record request_metadata =
  rm_timestamp_ms :: int
  rm_client_id :: "string option"
  rm_client_version :: "string option"
  rm_auth :: "auth_context option"
  rm_tenant_id :: "string option"
  rm_headers :: "(string, string) dict option"
  rm_long_task :: bool
  rm_long_task_method :: "string option"
  rm_long_task_timeout :: "int option"

definition create_request_metadata ::
  "int \<Rightarrow> string \<Rightarrow> string \<Rightarrow> auth_context option \<Rightarrow> (string, string) dict option \<Rightarrow> bool
     \<Rightarrow> string option \<Rightarrow> int option \<Rightarrow> request_metadata" where
  "create_request_metadata now tenant client auth headers long lmethod ltimeout =
     \<lparr>rm_timestamp_ms = now, rm_client_id = Some client, rm_client_version = Some ''2.0.0'',
      rm_auth = auth, rm_tenant_id = Some tenant, rm_headers = headers, rm_long_task = long,
      rm_long_task_method = lmethod, rm_long_task_timeout = ltimeout\<rparr>"

record response_metadata =
  sm_timestamp_ms :: int
  sm_duration_ms :: "int option"
  sm_server_id :: "string option"
  sm_server_version :: "string option"

definition create_response_metadata ::
  "int \<Rightarrow> int option \<Rightarrow> string option \<Rightarrow> string option \<Rightarrow> response_metadata" where
  "create_response_metadata now duration sid version =
     \<lparr>sm_timestamp_ms = now, sm_duration_ms = duration, sm_server_id = sid,
      sm_server_version = version\<rparr>"

section \<open>Quality of service\<close>

text \<open>
  A dataclass, so its fields hold whatever they are given: a priority is a member or another
  value, and the codecs store \<open>None\<close> as a timeout.
\<close>

record qos_config =
  qc_enabled :: bool
  qc_priority :: "priority wire_arg"
  qc_timeout_ms :: "int option"
  qc_idempotency_ttl_s :: int
  qc_retry :: "retry_policy option"
  qc_idempotency_key :: "string option"

definition default_qos_config :: qos_config where
  "default_qos_config =
     \<lparr>qc_enabled = False, qc_priority = Member NORMAL, qc_timeout_ms = Some 60000,
      qc_idempotency_ttl_s = 300, qc_retry = None, qc_idempotency_key = None\<rparr>"

section \<open>Requests and responses\<close>

text \<open>The \<open>qos\<close> field is \<open>Any\<close>: a \<open>QosConfig\<close>, or any other value (a dictionary, say).\<close>

datatype qos_field = Qos qos_config | RawQos pyval

record rpc_request =
  rq_aduib_rpc :: string
  rq_id :: "string option"
  rq_method :: string
  rq_name :: "string option"
  rq_data :: "(string, pyval) dict option"
  rq_supported_versions :: "string list option"
  rq_trace_context :: "trace_context option"
  rq_metadata :: "request_metadata option"
  rq_qos :: "qos_field option"
  rq_meta :: "(string, pyval) dict option"
  rq_id_str :: "string option"

text \<open>The literal version and a dictionary payload are what validation of a request asks for.\<close>

definition validate_version :: "string \<Rightarrow> exn + string" where
  "validate_version v =
     (if v = ''2.0'' then Inr v else Inl (validation_error ''Input should be 2.0''))"

definition validate_data :: "pyval \<Rightarrow> exn + (string, pyval) dict option" where
  "validate_data v =
     (case v of PNone \<Rightarrow> Inr None | PDict d \<Rightarrow> Inr (Some d)
      | _ \<Rightarrow> Inl (validation_error ''Input should be a valid dictionary''))"

definition new_request ::
  "string \<Rightarrow> string option \<Rightarrow> string \<Rightarrow> string option \<Rightarrow> pyval \<Rightarrow> trace_context option
     \<Rightarrow> request_metadata option \<Rightarrow> qos_field option \<Rightarrow> (string, pyval) dict option \<Rightarrow> exn + rpc_request" where
  "new_request version rid method name data tc meta qos extra =
     bind_ok (validate_version version) (\<lambda>v. bind_ok (validate_data data) (\<lambda>d.
       Inr \<lparr>rq_aduib_rpc = v, rq_id = rid, rq_method = method, rq_name = name, rq_data = d,
            rq_supported_versions = None, rq_trace_context = tc, rq_metadata = meta, rq_qos = qos,
            rq_meta = extra, rq_id_str = None\<rparr>))"

text \<open>
  \<open>AduibRpcRequest.create\<close> and \<open>id_str\<close>, which makes an identifier up (\<open>uuid\<close>) the first time
  a request without one is asked, and keeps it.
\<close>

definition create_request ::
  "string \<Rightarrow> string \<Rightarrow> string \<Rightarrow> pyval \<Rightarrow> (string, pyval) dict option \<Rightarrow> trace_context option
     \<Rightarrow> qos_field option \<Rightarrow> request_metadata option \<Rightarrow> exn + rpc_request" where
  "create_request rid name method data extra tc qos meta =
     new_request ''2.0'' (Some rid) method (Some name) data tc meta qos extra"

definition id_str :: "string \<Rightarrow> rpc_request \<Rightarrow> string \<times> rpc_request" where
  "id_str uuid r =
     (case rq_id_str r of
        Some (c # cs) \<Rightarrow> (c # cs, r)
      | _ \<Rightarrow> (let s = (case rq_id r of None \<Rightarrow> uuid | Some i \<Rightarrow> i)
             in (s, r\<lparr>rq_id_str := Some s\<rparr>)))"

record rpc_response =
  rs_aduib_rpc :: string
  rs_id :: "string option"
  rs_status :: response_status
  rs_result :: pyval
  rs_error :: "rpc_error option"
  rs_negotiated_version :: "string option"
  rs_trace_context :: "trace_context option"
  rs_metadata :: "response_metadata option"

definition validate_result_error :: "pyval \<Rightarrow> rpc_error option \<Rightarrow> exn + rpc_error option" where
  "validate_result_error res err =
     (if err \<noteq> None \<and> res \<noteq> PNone
      then Inl (validation_error ''result and error are mutually exclusive'') else Inr err)"

definition new_response ::
  "string \<Rightarrow> string option \<Rightarrow> response_status \<Rightarrow> pyval \<Rightarrow> rpc_error option \<Rightarrow> trace_context option
     \<Rightarrow> response_metadata option \<Rightarrow> exn + rpc_response" where
  "new_response version rid st res err tc meta =
     bind_ok (validate_version version) (\<lambda>v. bind_ok (validate_result_error res err) (\<lambda>e.
       Inr \<lparr>rs_aduib_rpc = v, rs_id = rid, rs_status = st, rs_result = res, rs_error = e,
            rs_negotiated_version = None, rs_trace_context = tc, rs_metadata = meta\<rparr>))"

definition is_success :: "rpc_response \<Rightarrow> bool" where
  "is_success r = (rs_status r = SUCCESS \<and> rs_error r = None)"

section \<open>Task and health requests\<close>

text \<open>
  The default of \<open>TaskSubmitRequest.priority\<close> is a one-element tuple (a stray comma in the
  class), and defaults are not validated.
\<close>

record task_submit_request =
  tsr_target_method :: string
  tsr_params :: "(string, pyval) dict option"
  tsr_priority :: "priority wire_arg"

definition default_submit_priority :: "priority wire_arg" where
  "default_submit_priority = Other (PList [PEnum ''Priority'' (PInt 1)])"

definition new_task_submit_request ::
  "string \<Rightarrow> pyval \<Rightarrow> priority wire_arg \<Rightarrow> exn + task_submit_request" where
  "new_task_submit_request target params prio =
     bind_ok (validate_data params) (\<lambda>d.
       Inr \<lparr>tsr_target_method = target, tsr_params = d, tsr_priority = prio\<rparr>)"

record task_submit_response =
  tss_task_id :: string
  tss_status :: task_status
  tss_created_at_ms :: int

record task_cancel_request =
  tcr_task_id :: string
  tcr_reason :: "string option"

record task_subscribe_request =
  tbr_task_id :: string
  tbr_events :: "string list option"

record health_check_response =
  hcr_status :: health_status
  hcr_services :: "(string, health_status) dict option"

section \<open>Facts of the constructors\<close>

definition trace_ok :: "trace_context \<Rightarrow> bool" where
  "trace_ok t \<longleftrightarrow> hex_of_length 32 (tc_trace_id t) \<and> hex_of_length 16 (tc_span_id t)"

lemma new_trace_context_ok: "new_trace_context a b p s g = Inr t \<Longrightarrow> trace_ok t"
  by (auto simp: new_trace_context_def validate_trace_id_def validate_span_id_def trace_ok_def
      split: if_splits)

lemma new_trace_context_of_ok:
  "trace_ok t \<Longrightarrow> new_trace_context (tc_trace_id t) (tc_span_id t) p s g
     = Inr \<lparr>tc_trace_id = tc_trace_id t, tc_span_id = tc_span_id t, tc_parent_span_id = p,
            tc_sampled = s, tc_baggage = g\<rparr>"
  by (simp add: new_trace_context_def validate_trace_id_def validate_span_id_def trace_ok_def)

lemma create_trace_context_ok:
  "hex_of_length 32 a \<Longrightarrow> hex_of_length 32 b \<Longrightarrow> \<exists>t. create_trace_context a b s g = Inr t \<and> trace_ok t"
  by (auto simp: create_trace_context_def new_trace_context_def validate_trace_id_def
      validate_span_id_def trace_ok_def hex_of_length_def list_all_iff dest: in_set_takeD)

lemma id_str_stable:
  "id_str u r = (s, r') \<Longrightarrow> s \<noteq> [] \<Longrightarrow> id_str u' r' = (s, r')"
  by (auto simp: id_str_def Let_def neq_Nil_conv split: option.splits list.splits)

section \<open>What a binary transport keeps\<close>

text \<open>
  The specification of the two binary codecs: what is left of a model after it was encoded and
  decoded. Empty lists and dictionaries come back as \<open>None\<close>, \<open>BASIC\<close> has no number, zero in a
  retry setting means the default, and some fields have no place in the schema.
\<close>

definition trace_view :: "trace_context \<Rightarrow> trace_context" where
  "trace_view t = t\<lparr>tc_baggage := nonempty (or_empty (tc_baggage t))\<rparr>"

definition auth_view :: "auth_context \<Rightarrow> auth_context" where
  "auth_view a =
     a\<lparr>ac_scheme := (if ac_scheme a = BASIC then UNSPECIFIED else ac_scheme a),
       ac_principal_type := None, ac_roles := nonempty (or_empty (ac_roles a))\<rparr>"

definition metadata_view :: "request_metadata \<Rightarrow> request_metadata" where
  "metadata_view m =
     m\<lparr>rm_auth := map_option auth_view (rm_auth m),
       rm_headers := nonempty (or_empty (rm_headers m))\<rparr>"

definition response_metadata_view :: "response_metadata \<Rightarrow> response_metadata" where
  "response_metadata_view m =
     m\<lparr>sm_duration_ms := Some (case sm_duration_ms m of None \<Rightarrow> 0 | Some d \<Rightarrow> d)\<rparr>"

definition retry_view :: "retry_policy \<Rightarrow> retry_policy" where
  "retry_view p =
     default_retry_policy\<lparr>rp_max_attempts := or_default (rp_max_attempts p) 3,
       rp_initial_delay_ms := or_default (rp_initial_delay_ms p) 100,
       rp_max_delay_ms := or_default (rp_max_delay_ms p) 10000,
       rp_backoff_multiplier := or_default (rp_backoff_multiplier p) 2,
       rp_retryable_codes := nonempty (or_empty (rp_retryable_codes p))\<rparr>"

definition qos_view :: "qos_config \<Rightarrow> qos_config" where
  "qos_view q =
     default_qos_config\<lparr>
       qc_priority :=
         Member (priority_from_wire (Other (PInt (priority_to_wire (qc_priority q))))),
       qc_timeout_ms := qc_timeout_ms q, qc_retry := map_option retry_view (qc_retry q),
       qc_idempotency_key := qc_idempotency_key q\<rparr>"

definition qos_field_view :: "qos_field \<Rightarrow> qos_field" where
  "qos_field_view f = (case f of Qos q \<Rightarrow> Qos (qos_view q) | RawQos v \<Rightarrow> RawQos v)"

definition request_view :: "(string, pyval) dict option \<Rightarrow> rpc_request \<Rightarrow> rpc_request" where
  "request_view d r =
     \<lparr>rq_aduib_rpc = ''2.0'', rq_id = Some (or_empty (rq_id r)), rq_method = rq_method r,
      rq_name = rq_name r, rq_data = d, rq_supported_versions = None,
      rq_trace_context = map_option trace_view (rq_trace_context r),
      rq_metadata = map_option metadata_view (rq_metadata r),
      rq_qos = map_option qos_field_view (rq_qos r), rq_meta = None, rq_id_str = None\<rparr>"

definition fits :: "nat \<Rightarrow> int \<Rightarrow> bool" where
  "fits bits v \<longleftrightarrow> - (2 ^ (bits - 1)) \<le> v \<and> v < 2 ^ (bits - 1)"

definition opt_fits :: "nat \<Rightarrow> int option \<Rightarrow> bool" where
  "opt_fits bits x = (case x of None \<Rightarrow> True | Some v \<Rightarrow> fits bits v)"

definition retry_fits :: "retry_policy \<Rightarrow> bool" where
  "retry_fits p \<longleftrightarrow> fits 32 (rp_max_attempts p) \<and> fits 64 (rp_initial_delay_ms p)
     \<and> fits 64 (rp_max_delay_ms p) \<and> list_all (fits 32) (or_empty (rp_retryable_codes p))"

text \<open>The requests the schema can carry: valid identifiers, typed settings, integers in range.\<close>

definition request_sendable :: "rpc_request \<Rightarrow> bool" where
  "request_sendable r \<longleftrightarrow> rq_aduib_rpc r = ''2.0''
     \<and> (case rq_trace_context r of None \<Rightarrow> True | Some t \<Rightarrow> trace_ok t)
     \<and> (case rq_metadata r of None \<Rightarrow> True
        | Some m \<Rightarrow> fits 64 (rm_timestamp_ms m) \<and> opt_fits 32 (rm_long_task_timeout m))
     \<and> (case rq_qos r of None \<Rightarrow> True | Some (RawQos _) \<Rightarrow> False
        | Some (Qos q) \<Rightarrow> opt_fits 64 (qc_timeout_ms q)
            \<and> (case qc_retry q of None \<Rightarrow> True | Some p \<Rightarrow> retry_fits p))"

definition response_sendable :: "rpc_response \<Rightarrow> bool" where
  "response_sendable r \<longleftrightarrow> rs_aduib_rpc r = ''2.0''
     \<and> (case rs_error r of None \<Rightarrow> True | Some e \<Rightarrow> fits 32 (err_code e))
     \<and> (case rs_trace_context r of None \<Rightarrow> True | Some t \<Rightarrow> trace_ok t)
     \<and> (case rs_metadata r of None \<Rightarrow> True
        | Some m \<Rightarrow> fits 64 (sm_timestamp_ms m) \<and> opt_fits 64 (sm_duration_ms m))"

lemma scheme_wire_view:
  "auth_scheme_from_wire (Other (PInt (auth_scheme_to_wire (Member s))))
     = (if s = BASIC then UNSPECIFIED else s)"
  by (cases s) (simp_all add: auth_scheme_wire_defs)

end
