(* ===== verification/Discovery.thy ===== *)
theory Discovery
  imports Messages
begin

text \<open>
  Service discovery: instances (\<open>discover/entities/service_instance.py\<close>), load balancers
  (\<open>discover/load_balance\<close>), the in-memory registry (\<open>discover/registry/in_memory.py\<close>), health
  tracking (\<open>discover/registry/health_aware_registry.py\<close>, \<open>client/transports/health_aware.py\<close>) and
  the client's resolver (\<open>client/service_resolver.py\<close>).
\<close>

section \<open>Instances\<close>

datatype transport_scheme = HTTP | HTTPS | GRPC | GRPCS | JSONRPC | JSONRPCS | THRIFT

definition transport_scheme_value :: "transport_scheme \<Rightarrow> string" where
  "transport_scheme_value s =
     (case s of HTTP \<Rightarrow> ''http'' | HTTPS \<Rightarrow> ''https'' | GRPC \<Rightarrow> ''grpc'' | GRPCS \<Rightarrow> ''grpcs''
      | JSONRPC \<Rightarrow> ''jsonrpc'' | JSONRPCS \<Rightarrow> ''jsonrpcs'' | THRIFT \<Rightarrow> ''thrift'')"

definition transport_scheme_to_original :: "string option \<Rightarrow> exn + transport_scheme" where
  "transport_scheme_to_original value =
     (case value of
        None \<Rightarrow> Inr JSONRPC
      | Some v \<Rightarrow>
          (case map_of (map (\<lambda>s. (transport_scheme_value s, s))
                   [HTTP, HTTPS, GRPC, GRPCS, JSONRPC, JSONRPCS, THRIFT]) v of
             Some s \<Rightarrow> Inr s
           | None \<Rightarrow> Inl (Exn ValueError 0 (''Unsupported transport scheme: '' @ v) PNone None)))"

definition get_real_scheme :: "transport_scheme \<Rightarrow> exn + string" where
  "get_real_scheme s =
     (case s of HTTP \<Rightarrow> Inr ''http'' | HTTPS \<Rightarrow> Inr ''https'' | GRPC \<Rightarrow> Inr [] | JSONRPC \<Rightarrow> Inr ''http''
      | JSONRPCS \<Rightarrow> Inr ''https'' | THRIFT \<Rightarrow> Inr ''thrift''
      | GRPCS \<Rightarrow> Inl (Exn ValueError 0 (''Unsupported transport scheme: '' @ transport_scheme_value s) PNone None))"

datatype ai_protocol = A2A | AduibRpc

record method_descriptor =
  md_name :: string
  md_full_name :: "string option"
  md_description :: "string option"
  md_client_stream :: bool
  md_server_stream :: bool
  md_bidirectional_stream :: bool
  md_deprecated :: bool
  md_version :: "string option"

record service_capabilities =
  scap_protocol_versions :: "string list"
  scap_content_types :: "string list"
  scap_compressions :: "string list"
  scap_methods :: "method_descriptor list option"
  scap_streaming :: bool
  scap_bidirectional :: bool

record service_instance =
  si_instance_id :: string
  si_service_name :: string
  si_version :: string
  si_host :: string
  si_port :: int
  si_scheme :: transport_scheme
  si_protocol :: ai_protocol
  si_health :: health_status
  si_last_health_check_ms :: "int option"
  si_weight :: int
  si_zone :: "string option"
  si_region :: "string option"
  si_capabilities :: "service_capabilities option"
  si_metadata :: "(string, string) dict option"
  si_tags :: "string list option"
  si_registered_at_ms :: "int option"
  si_ttl_seconds :: int

definition validate_port :: "int \<Rightarrow> exn + int" where
  "validate_port v =
     (if v < 1 \<or> v > 65535 then Inl (validation_error ''port must be between 1 and 65535'') else Inr v)"

definition validate_weight :: "int \<Rightarrow> exn + int" where
  "validate_weight v =
     (if v < 0 then Inl (validation_error ''weight must be non-negative'') else Inr v)"

text \<open>An instance with the defaults of the other fields; \<open>uuid\<close> is the generated identifier.\<close>

definition new_instance ::
  "string \<Rightarrow> string option \<Rightarrow> string \<Rightarrow> string \<Rightarrow> int \<Rightarrow> int \<Rightarrow> exn + service_instance" where
  "new_instance uuid iid name host port weight =
     bind_ok (validate_port port) (\<lambda>p. bind_ok (validate_weight weight) (\<lambda>w.
       Inr \<lparr>si_instance_id = (case iid of Some i \<Rightarrow> i | None \<Rightarrow> uuid), si_service_name = name,
            si_version = ''2.0.0'', si_host = host, si_port = p, si_scheme = HTTPS, si_protocol = AduibRpc,
            si_health = UNKNOWN, si_last_health_check_ms = None, si_weight = w, si_zone = None,
            si_region = None, si_capabilities = None, si_metadata = None, si_tags = None,
            si_registered_at_ms = None, si_ttl_seconds = 30\<rparr>))"

text \<open>\<open>show_int\<close> is \<open>str()\<close> of a number.\<close>

definition instance_url :: "(int \<Rightarrow> string) \<Rightarrow> service_instance \<Rightarrow> string" where
  "instance_url show_int i =
     (let scheme = transport_scheme_value (si_scheme i) in
      if scheme = ''grpc'' then si_host i @ CHR '':'' # show_int (si_port i)
      else scheme @ ''://'' @ si_host i @ CHR '':'' # show_int (si_port i))"

definition is_healthy :: "service_instance \<Rightarrow> bool" where
  "is_healthy i = (si_health i = HEALTHY)"

definition instance_expired :: "int \<Rightarrow> service_instance \<Rightarrow> bool" where
  "instance_expired now_ms i =
     (case si_registered_at_ms i of
        None \<Rightarrow> False
      | Some t \<Rightarrow> of_int now_ms > (of_int t + of_int (si_ttl_seconds i) * 1000 * 3 / 2 :: rat))"

section \<open>Load balancers\<close>

datatype lb_policy = Random | WeightedRoundRobin | CONSISTENT_HASHING

text \<open>The pool repeats an instance as often as it weighs; \<open>next\<close> of a fresh cycle is its head.\<close>

definition weighted_pool :: "service_instance list \<Rightarrow> service_instance list" where
  "weighted_pool is = concat (map (\<lambda>i. replicate (nat (si_weight i)) i) is)"

definition weighted_select :: "service_instance list \<Rightarrow> service_instance option" where
  "weighted_select is = (case weighted_pool is of [] \<Rightarrow> None | i # _ \<Rightarrow> Some i)"

text \<open>\<open>pick n\<close> is the index \<open>random.choice\<close> takes of \<open>n\<close>.\<close>

definition random_select :: "(nat \<Rightarrow> nat) \<Rightarrow> 'a list \<Rightarrow> 'a option" where
  "random_select pick xs = (if xs = [] then None else Some (xs ! pick (length xs)))"

text \<open>The ring: hash values of the virtual nodes, the last writer of a value owns it.\<close>

definition node_key :: "(nat \<Rightarrow> string) \<Rightarrow> service_instance \<Rightarrow> nat \<Rightarrow> string" where
  "node_key show_nat i n = si_instance_id i @ CHR ''#'' # show_nat n"

definition ring_nodes ::
  "(string \<Rightarrow> nat) \<Rightarrow> (nat \<Rightarrow> string) \<Rightarrow> nat \<Rightarrow> service_instance list \<Rightarrow> (nat \<times> service_instance) list" where
  "ring_nodes md5 show_nat v is =
     concat (map (\<lambda>i. map (\<lambda>n. (md5 (node_key show_nat i n), i)) [0..<v]) is)"

definition hash_ring :: "(nat \<times> service_instance) list \<Rightarrow> (nat, service_instance) dict" where
  "hash_ring nodes = fold (\<lambda>(h, i). AList.update h i) nodes []"

definition sorted_keys :: "(nat \<times> service_instance) list \<Rightarrow> nat list" where
  "sorted_keys nodes = sort (map fst nodes)"

definition bisect :: "nat list \<Rightarrow> nat \<Rightarrow> nat" where
  "bisect ks x = length (takeWhile (\<lambda>k. k \<le> x) ks)"

definition ring_lookup :: "(nat \<times> service_instance) list \<Rightarrow> nat \<Rightarrow> service_instance option" where
  "ring_lookup nodes x =
     (let ks = sorted_keys nodes; idx = bisect ks x in
      map_of (hash_ring nodes) (ks ! (if idx = length ks then 0 else idx)))"

definition consistent_select ::
  "(string \<Rightarrow> nat) \<Rightarrow> (nat \<Rightarrow> string) \<Rightarrow> (nat \<Rightarrow> nat) \<Rightarrow> nat \<Rightarrow> service_instance list \<Rightarrow> string option
     \<Rightarrow> service_instance option" where
  "consistent_select md5 show_nat pick v is key =
     (let nodes = ring_nodes md5 show_nat v is in
      if hash_ring nodes = [] then None
      else (case key of
              None \<Rightarrow> random_select pick (map snd (hash_ring nodes))
            | Some k \<Rightarrow> ring_lookup nodes (md5 k)))"

text \<open>The standard library the balancers use: \<open>md5\<close> as a number, \<open>str\<close> and \<open>random.choice\<close>.\<close>

record lb_lib =
  lb_md5 :: "string \<Rightarrow> nat"
  lb_show :: "nat \<Rightarrow> string"
  lb_pick :: "nat \<Rightarrow> nat"

definition select_instance ::
  "lb_lib \<Rightarrow> lb_policy \<Rightarrow> service_instance list \<Rightarrow> string option \<Rightarrow> service_instance option" where
  "select_instance lib policy is key =
     (case policy of
        Random \<Rightarrow> random_select (lb_pick lib) is
      | WeightedRoundRobin \<Rightarrow> weighted_select is
      | CONSISTENT_HASHING \<Rightarrow> consistent_select (lb_md5 lib) (lb_show lib) (lb_pick lib) 100 is key)"

section \<open>The in-memory registry\<close>

type_synonym services = "(string, service_instance list) dict"

definition register_service :: "service_instance \<Rightarrow> services \<Rightarrow> services" where
  "register_service i s =
     (let s' = (if map_of s (si_service_name i) = None then AList.update (si_service_name i) [] s else s)
      in AList.update (si_service_name i) (dict_get s' (si_service_name i) [] @ [i]) s')"

text \<open>For an unknown service the loop iterates over \<open>None\<close>.\<close>

definition unregister_service :: "service_instance \<Rightarrow> services \<Rightarrow> (exn + unit) \<times> services" where
  "unregister_service i s =
     (if map_of s (si_service_name i) \<noteq> None then (Inr (), AList.delete (si_service_name i) s)
      else (Inl (Exn TypeError 0 [] PNone None), s))"

definition list_instances :: "string \<Rightarrow> services \<Rightarrow> service_instance list" where
  "list_instances name s = dict_get s name []"

definition discover_service ::
  "lb_lib \<Rightarrow> lb_policy \<Rightarrow> string \<Rightarrow> services \<Rightarrow> service_instance option" where
  "discover_service lib policy name s = select_instance lib policy (list_instances name s) None"

section \<open>Health tracking\<close>

record health_result =
  hr_status :: health_status
  hr_latency_ms :: rat
  hr_message :: "string option"
  hr_checked_at_ms :: int

record health_config =
  hc_interval_seconds :: rat
  hc_timeout_seconds :: rat
  hc_healthy_threshold :: int
  hc_unhealthy_threshold :: int
  hc_path :: string

definition default_health_config :: health_config where
  "default_health_config =
     \<lparr>hc_interval_seconds = 10, hc_timeout_seconds = 5, hc_healthy_threshold = 2, hc_unhealthy_threshold = 3,
      hc_path = ''/health''\<rparr>"

record health_entry =
  he_instance :: service_instance
  he_status :: health_status
  he_last_check :: "health_result option"
  he_failures :: int
  he_successes :: int

definition new_health_entry :: "service_instance \<Rightarrow> health_entry" where
  "new_health_entry i =
     \<lparr>he_instance = i, he_status = UNKNOWN, he_last_check = None, he_failures = 0, he_successes = 0\<rparr>"

definition update_entry :: "health_config \<Rightarrow> health_result \<Rightarrow> health_entry \<Rightarrow> health_entry" where
  "update_entry cfg res e =
     (let e1 = e\<lparr>he_last_check := Some res\<rparr> in
      if hr_status res = HEALTHY then
        (let e2 = e1\<lparr>he_successes := he_successes e1 + 1, he_failures := 0\<rparr> in
         if he_successes e2 \<ge> hc_healthy_threshold cfg then e2\<lparr>he_status := HEALTHY\<rparr> else e2)
      else
        (let e2 = e1\<lparr>he_failures := he_failures e1 + 1, he_successes := 0\<rparr> in
         if he_failures e2 \<ge> hc_unhealthy_threshold cfg then e2\<lparr>he_status := UNHEALTHY\<rparr> else e2))"

type_synonym health_cache = "(string, health_entry) dict"

definition record_health ::
  "health_config \<Rightarrow> string \<Rightarrow> service_instance \<Rightarrow> health_result \<Rightarrow> health_cache \<Rightarrow> health_cache" where
  "record_health cfg key i res cache =
     AList.update key
       (update_entry cfg res (case map_of cache key of None \<Rightarrow> new_health_entry i | Some e \<Rightarrow> e)) cache"

text \<open>The registry keeps entries by address, the client transport by instance identifier.\<close>

definition address_key :: "(int \<Rightarrow> string) \<Rightarrow> service_instance \<Rightarrow> string" where
  "address_key show_int i = si_host i @ CHR '':'' # show_int (si_port i)"

definition registry_lists :: "health_entry option \<Rightarrow> bool" where
  "registry_lists e =
     (case e of
        None \<Rightarrow> True
      | Some e \<Rightarrow> he_status e = HEALTHY
          \<or> (he_status e = UNKNOWN \<and> map_option hr_status (he_last_check e) = Some HEALTHY))"

definition is_cached_healthy :: "health_entry option \<Rightarrow> bool" where
  "is_cached_healthy e = (case e of None \<Rightarrow> False | Some e \<Rightarrow> he_status e = HEALTHY)"

definition healthy_or_all :: "bool \<Rightarrow> (service_instance \<Rightarrow> bool) \<Rightarrow> service_instance list \<Rightarrow> service_instance list" where
  "healthy_or_all allow_unhealthy_fallback ok is =
     (let healthy = filter ok is in
      if healthy \<noteq> [] then healthy else if allow_unhealthy_fallback then is else [])"

definition list_healthy_instances ::
  "(int \<Rightarrow> string) \<Rightarrow> bool \<Rightarrow> health_cache \<Rightarrow> service_instance list \<Rightarrow> service_instance list" where
  "list_healthy_instances show_int allow cache is =
     healthy_or_all allow (\<lambda>i. registry_lists (map_of cache (address_key show_int i))) is"

section \<open>The resolver\<close>

text \<open>\<open>ip_kind\<close> is \<open>ipaddress\<close>: whether an address is private and whether it is loopback.\<close>

record resolver =
  rv_policy :: lb_policy
  rv_allow_private_ips :: bool
  rv_allow_loopback :: bool

definition new_resolver :: "lb_policy option \<Rightarrow> bool \<Rightarrow> bool \<Rightarrow> resolver" where
  "new_resolver policy priv loopb =
     \<lparr>rv_policy = (case policy of None \<Rightarrow> WeightedRoundRobin | Some Random \<Rightarrow> WeightedRoundRobin | Some p \<Rightarrow> p),
      rv_allow_private_ips = priv, rv_allow_loopback = loopb\<rparr>"

definition validate_instance ::
  "(string \<Rightarrow> (bool \<times> bool) option) \<Rightarrow> resolver \<Rightarrow> service_instance \<Rightarrow> string \<Rightarrow> bool" where
  "validate_instance ip_kind rv i name =
     (if si_service_name i \<noteq> name then False
      else if (case ip_kind (si_host i) of
                 Some (is_private, is_loopback) \<Rightarrow>
                   (is_private \<and> \<not> rv_allow_private_ips rv) \<or> (is_loopback \<and> \<not> rv_allow_loopback rv)
               | None \<Rightarrow>
                   si_host i \<in> {''localhost'', ''127.0.0.1'', ''0.0.0.0'', ''::1''} \<and> \<not> rv_allow_loopback rv)
      then False
      else 1 \<le> si_port i \<and> si_port i \<le> 65535)"

definition get_lb_value :: "service_instance \<Rightarrow> string option \<Rightarrow> exn + string" where
  "get_lb_value i lb_key =
     (case or_empty lb_key of
        [] \<Rightarrow> Inr []
      | k # ks \<Rightarrow>
          (case si_metadata i of
             None \<Rightarrow> Inl (Exn TypeError 0 [] PNone None)
           | Some m \<Rightarrow> Inr (dict_get m (k # ks) [])))"

text \<open>What each registry lists; an exception of one is logged and the next is asked.\<close>

fun resolve ::
  "lb_lib \<Rightarrow> (string \<Rightarrow> (bool \<times> bool) option) \<Rightarrow> resolver \<Rightarrow> string \<Rightarrow> string option
     \<Rightarrow> (exn + service_instance list) list \<Rightarrow> exn + service_instance option" where
  "resolve lib ip_kind rv name lb_key [] = Inr None"
| "resolve lib ip_kind rv name lb_key (r # rs) =
     (case r of
        Inl e \<Rightarrow> if isinstance_exn e PyException then resolve lib ip_kind rv name lb_key rs else Inl e
      | Inr is \<Rightarrow>
          (let ok = filter (\<lambda>i. validate_instance ip_kind rv i name) is in
           case ok of
             [] \<Rightarrow> resolve lib ip_kind rv name lb_key rs
           | i # _ \<Rightarrow>
               (case get_lb_value i lb_key of
                  Inl e \<Rightarrow> resolve lib ip_kind rv name lb_key rs
                | Inr k \<Rightarrow>
                    (case select_instance lib (rv_policy rv) ok (Some k) of
                       None \<Rightarrow> resolve lib ip_kind rv name lb_key rs
                     | Some inst \<Rightarrow>
                         if validate_instance ip_kind rv inst name then Inr (Some inst)
                         else resolve lib ip_kind rv name lb_key rs))))"

section \<open>Consistent hashing\<close>

text \<open>The owner of a point: the next key above it, or the smallest of all.\<close>

definition cyc_next :: "nat set \<Rightarrow> nat \<Rightarrow> nat" where
  "cyc_next S x = (if \<exists>k \<in> S. x < k then Min {k \<in> S. x < k} else Min S)"

lemma cyc_next_in: "finite S \<Longrightarrow> S \<noteq> {} \<Longrightarrow> cyc_next S x \<in> S"
  using Min_in [of S] Min_in [of "{k \<in> S. x < k}"] by (auto simp: cyc_next_def)

lemma cyc_next_union:
  assumes "finite S" "finite T" "S \<noteq> {}"
  shows "cyc_next (S \<union> T) x \<in> T \<or> cyc_next (S \<union> T) x = cyc_next S x"
proof (rule disjCI)
  assume out: "cyc_next (S \<union> T) x \<noteq> cyc_next S x"
  show "cyc_next (S \<union> T) x \<in> T"
  proof (rule ccontr)
    assume no: "cyc_next (S \<union> T) x \<notin> T"
    let ?n = "cyc_next (S \<union> T) x"
    have n: "?n \<in> S" using cyc_next_in [of "S \<union> T" x] assms no by auto
    show False
    proof (cases "\<exists>k \<in> S \<union> T. x < k")
      case True
      then have m: "?n = Min {k \<in> S \<union> T. x < k}" by (simp add: cyc_next_def)
      have "?n \<in> {k \<in> S \<union> T. x < k}"
        unfolding m using True assms by (intro Min_in) auto
      then have "x < ?n" by simp
      have "\<And>k. k \<in> S \<Longrightarrow> x < k \<Longrightarrow> ?n \<le> k"
        unfolding m using assms by (intro Min_le) auto
      with \<open>x < ?n\<close> have "Min {k \<in> S. x < k} = ?n"
        using n assms(1) by (intro Min_eqI) auto
      moreover have "\<exists>k \<in> S. x < k" using n \<open>x < ?n\<close> by blast
      ultimately have "cyc_next S x = ?n" by (simp add: cyc_next_def [of S])
      with out show False by simp
    next
      case False
      then have m: "?n = Min (S \<union> T)" by (auto simp: cyc_next_def)
      have "Min S = ?n"
        using n assms by (intro Min_eqI) (auto simp: m)
      with out False show False by (auto simp: cyc_next_def)
    qed
  qed
qed

lemma bisect_next:
  assumes "sorted ks" "ks \<noteq> []"
  shows "ks ! (if bisect ks x = length ks then 0 else bisect ks x) = cyc_next (set ks) x"
proof (cases "bisect ks x = length ks")
  case True
  then have "takeWhile (\<lambda>k. k \<le> x) ks = ks"
    by (metis bisect_def takeWhile_eq_take take_all order_refl)
  then have "\<forall>k \<in> set ks. k \<le> x" by (simp add: takeWhile_eq_all_conv)
  then have "cyc_next (set ks) x = Min (set ks)" by (force simp: cyc_next_def)
  moreover have "ks ! 0 = Min (set ks)"
    using assms by (intro Min_eqI [symmetric]) (auto simp: sorted_iff_nth_mono in_set_conv_nth)
  ultimately show ?thesis using True by simp
next
  case False
  then have len: "bisect ks x < length ks"
    using length_takeWhile_le [of "\<lambda>k. k \<le> x" ks] by (simp add: bisect_def)
  then have above: "x < ks ! bisect ks x"
    using nth_length_takeWhile [of "\<lambda>k. k \<le> x" ks] by (simp add: bisect_def)
  have "ks ! bisect ks x \<le> k" if k: "k \<in> set ks" "x < k" for k
  proof -
    from k(1) obtain j where j: "j < length ks" "k = ks ! j" by (auto simp: in_set_conv_nth)
    have "\<not> j < bisect ks x"
      using k(2) j set_takeWhileD [of "ks ! j" "\<lambda>k. k \<le> x" ks] takeWhile_nth [of j "\<lambda>k. k \<le> x" ks]
      by (metis bisect_def leD nth_mem)
    with assms(1) j show ?thesis by (simp add: sorted_iff_nth_mono)
  qed
  with above len have "Min {k \<in> set ks. x < k} = ks ! bisect ks x"
    by (intro Min_eqI) auto
  moreover have "\<exists>k \<in> set ks. x < k" using above len nth_mem by blast
  ultimately show ?thesis using False by (simp add: cyc_next_def)
qed

lemma map_of_ring: "map_of (fold (\<lambda>(h, i). AList.update h i) nodes d) = map_of d ++ map_of (rev nodes)"
proof (induction nodes arbitrary: d)
  case (Cons n nodes)
  then show ?case by (cases n) (auto simp: map_add_def fun_eq_iff split: option.splits)
qed simp

lemma map_of_hash_ring: "map_of (hash_ring nodes) = map_of (rev nodes)"
  by (simp add: hash_ring_def map_of_ring)

lemma hash_ring_empty [simp]: "hash_ring nodes = [] \<longleftrightarrow> nodes = []"
proof -
  have "hash_ring nodes = [] \<Longrightarrow> map_of (rev nodes) = Map.empty"
    using map_of_hash_ring [of nodes] by simp
  then show ?thesis by (auto simp: hash_ring_def)
qed

lemma ring_lookup_next:
  assumes "nodes \<noteq> []"
  shows "ring_lookup nodes x = map_of (rev nodes) (cyc_next (fst ` set nodes) x)"
proof -
  have "length (sorted_keys nodes) = length nodes" "set (sorted_keys nodes) = fst ` set nodes" "sorted (sorted_keys nodes)"
    by (simp_all add: sorted_keys_def)
  moreover from this(1) assms have "sorted_keys nodes \<noteq> []" by auto
  ultimately show ?thesis
    using bisect_next [of "sorted_keys nodes" x]
    by (auto simp: ring_lookup_def map_of_hash_ring Let_def)
qed

lemma ring_lookup_join:
  assumes "nodes \<noteq> []" "\<forall>n \<in> set news. snd n = i"
  shows "ring_lookup (nodes @ news) x = Some i \<or> ring_lookup (nodes @ news) x = ring_lookup nodes x"
proof -
  let ?n = "cyc_next (fst ` set (nodes @ news)) x"
  have r: "ring_lookup (nodes @ news) x = (map_of (rev nodes) ++ map_of (rev news)) ?n"
    using assms(1) by (simp add: ring_lookup_next)
  show ?thesis
  proof (cases "?n \<in> fst ` set news")
    case True
    then obtain j where j: "map_of (rev news) ?n = Some j"
      using map_of_eq_None_iff [of "rev news" ?n] by auto
    then have "(?n, j) \<in> set news" by (auto dest: map_of_SomeD)
    with assms(2) have "j = i" by force
    with j r show ?thesis by simp
  next
    case False
    then have "?n = cyc_next (fst ` set nodes) x"
      using cyc_next_union [of "fst ` set nodes" "fst ` set news" x] assms(1) by (auto simp: image_Un)
    moreover have "map_of (rev news) ?n = None"
      using False by (simp add: map_of_eq_None_iff)
    ultimately show ?thesis
      using r assms(1) by (simp add: map_add_def ring_lookup_next)
  qed
qed

section \<open>Properties\<close>

lemma ring_nodes_append [simp]:
  "ring_nodes md5 sh v (is @ js) = ring_nodes md5 sh v is @ ring_nodes md5 sh v js"
  by (simp add: ring_nodes_def)

lemma ring_nodes_empty: "ring_nodes md5 sh v is = [] \<longleftrightarrow> is = [] \<or> v = 0"
  by (induction "is") (auto simp: ring_nodes_def)

lemma consistent_select_key:
  "consistent_select md5 sh pick v is (Some k) =
     (if is = [] \<or> v = 0 then None else ring_lookup (ring_nodes md5 sh v is) (md5 k))"
  by (auto simp: consistent_select_def ring_nodes_empty Let_def)

lemma ring_lookup_in:
  assumes "nodes \<noteq> []"
  shows "\<exists>n \<in> set nodes. ring_lookup nodes x = Some (snd n)"
proof -
  let ?k = "cyc_next (fst ` set nodes) x"
  have "?k \<in> fst ` set nodes" using assms cyc_next_in by simp
  then obtain i where "map_of (rev nodes) ?k = Some i"
    using map_of_eq_None_iff [of "rev nodes" ?k] by auto
  moreover from this have "(?k, i) \<in> set nodes" by (auto dest: map_of_SomeD)
  ultimately show ?thesis using assms by (force simp: ring_lookup_next)
qed

text \<open>
  C18. Consistent hashing moves keys only to an instance that joins: whatever the hash
  function does, collisions included, a key keeps its instance or goes to the new one, so a
  joining instance never shuffles keys between the others.
\<close>

theorem consistent_hash_join:
  "consistent_select md5 sh pick v (is @ [new]) (Some k)
     \<in> {consistent_select md5 sh pick v is (Some k), Some new}"
proof (cases "is = [] \<or> v = 0")
  case True
  show ?thesis
  proof (cases "v = 0")
    case False
    with ring_lookup_in [of "ring_nodes md5 sh v [new]" "md5 k"] True show ?thesis
      by (auto simp: consistent_select_key ring_nodes_empty ring_nodes_def)
  qed (simp add: consistent_select_key)
next
  case False
  have "\<forall>n \<in> set (ring_nodes md5 sh v [new]). snd n = new" by (auto simp: ring_nodes_def)
  from ring_lookup_join [OF _ this, of "ring_nodes md5 sh v is" "md5 k"] False show ?thesis
    by (auto simp: consistent_select_key ring_nodes_empty)
qed

lemma weighted_select_find: "weighted_select is = List.find (\<lambda>i. 0 < si_weight i) is"
proof (induction "is")
  case (Cons i "is")
  then show ?case
    by (cases "nat (si_weight i)") (auto simp: weighted_select_def weighted_pool_def)
qed (simp add: weighted_select_def weighted_pool_def)

text \<open>
  The weighted round robin never goes round: for one listing it always selects the
  first instance that has a positive weight, whatever the weights are, and so does discovery through
  the in-memory registry with its default policy. Registering more instances behind it changes
  nothing, and unregistering any one instance removes all instances of its service.
\<close>

theorem weighted_never_rotates:
  "weighted_select is = List.find (\<lambda>i. 0 < si_weight i) is
   \<and> (0 < si_weight i \<longrightarrow> weighted_select (i # is) = Some i)
   \<and> (list_instances (si_service_name j) s = i # is \<and> 0 < si_weight i \<longrightarrow>
        discover_service lib WeightedRoundRobin (si_service_name j) (register_service j s) = Some i)
   \<and> list_instances (si_service_name j) (snd (unregister_service j (register_service j s))) = []"
proof (intro conjI impI)
  show "weighted_select is = List.find (\<lambda>i. 0 < si_weight i) is" by (rule weighted_select_find)
  show "0 < si_weight i \<Longrightarrow> weighted_select (i # is) = Some i" by (simp add: weighted_select_find)
  show "list_instances (si_service_name j) (snd (unregister_service j (register_service j s))) = []"
    by (simp add: list_instances_def unregister_service_def register_service_def dict_get_def Let_def)
  assume "list_instances (si_service_name j) s = i # is \<and> 0 < si_weight i"
  then show "discover_service lib WeightedRoundRobin (si_service_name j) (register_service j s) = Some i"
    by (auto simp: discover_service_def select_instance_def weighted_select_find list_instances_def register_service_def dict_get_def
        split: option.splits)
qed

definition sample_lib :: lb_lib where
  "sample_lib = \<lparr>lb_md5 = length, lb_show = (\<lambda>n. replicate n CHR ''1''), lb_pick = (\<lambda>n. n - 1)\<rparr>"

definition plain_instance :: "string \<Rightarrow> int \<Rightarrow> service_instance" where
  "plain_instance iid weight =
     \<lparr>si_instance_id = iid, si_service_name = ''svc'', si_version = ''2.0.0'', si_host = ''h'', si_port = 80,
      si_scheme = HTTPS, si_protocol = AduibRpc, si_health = UNKNOWN, si_last_health_check_ms = None,
      si_weight = weight, si_zone = None, si_region = None, si_capabilities = None, si_metadata = None,
      si_tags = None, si_registered_at_ms = None, si_ttl_seconds = 30\<rparr>"

theorem weighted_never_rotates_witness:
  "weighted_select [plain_instance ''a'' 1, plain_instance ''b'' 1000] = Some (plain_instance ''a'' 1)
   \<and> list_instances ''svc'' (snd (unregister_service (plain_instance ''b'' 1)
       (register_service (plain_instance ''b'' 1) [(''svc'', [plain_instance ''a'' 1])]))) = []"
  using weighted_never_rotates [of "[plain_instance ''b'' 1000]" "plain_instance ''a'' 1" "plain_instance ''b'' 1"
      "[(''svc'', [plain_instance ''a'' 1])]" sample_lib]
  by (simp add: plain_instance_def)

lemma select_in:
  assumes "\<And>n. 0 < n \<Longrightarrow> lb_pick lib n < n" "select_instance lib policy is (Some k) = Some i"
  shows "i \<in> set is"
proof (cases policy)
  case CONSISTENT_HASHING
  let ?nodes = "ring_nodes (lb_md5 lib) (lb_show lib) 100 is"
  have "\<exists>n \<in> set ?nodes. i = snd n"
    using assms(2) CONSISTENT_HASHING ring_lookup_in [of ?nodes "lb_md5 lib k"]
    by (auto simp: select_instance_def consistent_select_key ring_nodes_empty split: if_splits)
  then show ?thesis by (auto simp: ring_nodes_def)
next
  case WeightedRoundRobin
  with assms(2) show ?thesis
    by (auto simp: select_instance_def weighted_select_find find_Some_iff)
next
  case Random
  with assms show ?thesis by (auto simp: select_instance_def random_select_def split: if_splits)
qed

lemma resolve_sound:
  assumes "\<And>n. 0 < n \<Longrightarrow> lb_pick lib n < n"
  shows "resolve lib ip_kind rv name lb_key rs = Inr (Some i) \<Longrightarrow>
    validate_instance ip_kind rv i name \<and> (\<exists>is. Inr is \<in> set rs \<and> i \<in> set is)"
proof (induction rs)
  case (Cons r rs)
  show ?case
  proof (cases r)
    case (Inl e)
    with Cons show ?thesis by (auto split: if_splits)
  next
    case (Inr "is")
    let ?ok = "filter (\<lambda>i. validate_instance ip_kind rv i name) is"
    consider "resolve lib ip_kind rv name lb_key rs = Inr (Some i)"
      | k where "select_instance lib (rv_policy rv) ?ok (Some k) = Some i"
      using Cons.prems Inr by (auto simp: Let_def split: list.splits sum.splits option.splits if_splits)
    then show ?thesis
    proof cases
      case 1
      with Cons.IH show ?thesis by auto
    next
      case 2
      from select_in [OF assms 2] Inr show ?thesis by auto
    qed
  qed
qed simp

text \<open>
  C19. The resolver returns only instances that some registry lists under the service's name,
  with a port in range and an address the resolver allows; registries that raise, or list nothing
  valid, are passed over, and without loopback no host the address parser calls loopback comes
  out, and no \<open>localhost\<close>.
\<close>

theorem resolver_valid:
  assumes "resolve lib ip_kind rv name lb_key rs = Inr (Some i)" "\<And>n. 0 < n \<Longrightarrow> lb_pick lib n < n"
  shows "(\<exists>is. Inr is \<in> set rs \<and> i \<in> set is) \<and> si_service_name i = name
    \<and> 1 \<le> si_port i \<and> si_port i \<le> 65535
    \<and> (\<not> rv_allow_private_ips rv \<longrightarrow> (\<forall>l. ip_kind (si_host i) \<noteq> Some (True, l)))
    \<and> (\<not> rv_allow_loopback rv \<longrightarrow>
         (\<forall>p. ip_kind (si_host i) \<noteq> Some (p, True)) \<and> (ip_kind (si_host i) = None \<longrightarrow> si_host i \<noteq> ''localhost''))"
  using resolve_sound [OF assms(2,1)] by (auto simp: validate_instance_def split: if_splits option.splits prod.splits)

theorem resolver_valid_witness:
  "resolve sample_lib (\<lambda>_. None) (new_resolver None False False) ''svc'' None
     [Inl (Exn OSError 0 [] PNone None), Inr [plain_instance ''a'' 1]] = Inr (Some (plain_instance ''a'' 1))
   \<and> si_port (plain_instance ''a'' 1) \<le> 65535"
proof -
  have r: "resolve sample_lib (\<lambda>_. None) (new_resolver None False False) ''svc'' None
     [Inl (Exn OSError 0 [] PNone None), Inr [plain_instance ''a'' 1]] = Inr (Some (plain_instance ''a'' 1))"
    by (simp add: isinstance_exn_def is_subclass_def new_resolver_def validate_instance_def get_lb_value_def
        select_instance_def weighted_select_find plain_instance_def)
  from resolver_valid [OF r] r show ?thesis by (simp add: sample_lib_def)
qed

end
