(* ===== verification/Rbac.thy ===== *)
theory Rbac
  imports Rpc_Errors
begin

text \<open>
  Role-based access control (\<open>security/rbac.py\<close>) and the validators built on it
  (\<open>security/validators.py\<close>), with the wildcard matching of Python's \<open>fnmatch\<close> they use.
  Frozen sets are lists whose order and repetitions no operation looks at.
\<close>

section \<open>Wildcards\<close>

text \<open>
  \<open>fnmatch.translate\<close>: \<open>*\<close>, \<open>?\<close>, \<open>[seq]\<close> and \<open>[!seq]\<close> with ranges; a bracket that is not
  closed is itself. (A reversed first range directly before \<open>!\<close>, which CPython then reads as a
  negation, is not modelled.)
\<close>

datatype pat_tok = Lit char | AnyChar | AnySeq | OneOf bool "(char \<times> char) list"

fun class_items :: "string \<Rightarrow> (char \<times> char) list" where
  "class_items (x # d # y # rest) =
     (if d = CHR ''-'' then (x, y) # class_items rest else (x, x) # class_items (d # y # rest))"
| "class_items (x # rest) = (x, x) # class_items rest"
| "class_items [] = []"

definition split_class :: "string \<Rightarrow> (bool \<times> string \<times> string) option" where
  "split_class rest =
     (let neg = (rest \<noteq> [] \<and> hd rest = CHR ''!''); r = (if neg then tl rest else rest) in
      case r of
        [] \<Rightarrow> None
      | c # r' \<Rightarrow>
          (case py_partition (CHR '']'') r' of
             (body, True, after) \<Rightarrow> Some (neg, c # body, after)
           | (body, False, after) \<Rightarrow> None))"

lemma split_class_length:
  "split_class cs = Some (neg, body, after) \<Longrightarrow> length after < length cs"
  by (auto simp: split_class_def Let_def split: if_splits list.splits prod.splits bool.splits
      dest!: py_partition_found(1) arg_cong [of _ _ length])

function parse_pattern :: "string \<Rightarrow> pat_tok list" where
  "parse_pattern [] = []"
| "parse_pattern (c # cs) =
     (if c = CHR ''*'' then AnySeq # parse_pattern cs
      else if c = CHR ''?'' then AnyChar # parse_pattern cs
      else if c = CHR ''['' then
        (case split_class cs of
           None \<Rightarrow> Lit c # parse_pattern cs
         | Some (neg, body, after) \<Rightarrow> OneOf neg (class_items body) # parse_pattern after)
      else Lit c # parse_pattern cs)"
  by pat_completeness auto
termination
  by (relation "measure length") (auto dest: split_class_length)

fun tok_matches :: "pat_tok \<Rightarrow> char \<Rightarrow> bool" where
  "tok_matches (Lit d) c = (c = d)"
| "tok_matches AnyChar c = True"
| "tok_matches AnySeq c = True"
| "tok_matches (OneOf neg rs) c =
     (neg \<noteq> (\<exists>(a, b) \<in> set rs. ascii_code a \<le> ascii_code c \<and> ascii_code c \<le> ascii_code b))"

fun match_toks :: "pat_tok list \<Rightarrow> string \<Rightarrow> bool" where
  "match_toks [] s = (s = [])"
| "match_toks (AnySeq # ts) [] = match_toks ts []"
| "match_toks (AnySeq # ts) (c # s) = (match_toks ts (c # s) \<or> match_toks (AnySeq # ts) s)"
| "match_toks (t # ts) [] = False"
| "match_toks (t # ts) (c # s) = (tok_matches t c \<and> match_toks ts s)"

definition fnmatch :: "string \<Rightarrow> string \<Rightarrow> bool" where
  "fnmatch name pat = match_toks (parse_pattern pat) name"

section \<open>Permissions, roles, principals\<close>

record permission =
  pm_resource :: string
  pm_action :: string

definition permission_matches :: "permission \<Rightarrow> permission \<Rightarrow> bool" where
  "permission_matches p q = (fnmatch (pm_resource q) (pm_resource p) \<and> fnmatch (pm_action q) (pm_action p))"

record role =
  role_name :: string
  role_permissions :: "permission list"
  role_allowed :: "string list"
  role_denied :: "string list"
  role_metadata :: "(string, pyval) dict"

definition role_has_permission :: "role \<Rightarrow> permission \<Rightarrow> bool" where
  "role_has_permission r q = (\<exists>p \<in> set (role_permissions r). permission_matches p q)"

definition is_method_allowed :: "role \<Rightarrow> string \<Rightarrow> bool" where
  "is_method_allowed r method =
     (if \<exists>pat \<in> set (role_denied r). fnmatch method pat then False
      else if role_allowed r \<noteq> [] then (\<exists>pat \<in> set (role_allowed r). fnmatch method pat)
      else True)"

text \<open>Nothing checks the types of a principal's identifier and type.\<close>

record principal =
  pr_id :: pyval
  pr_type :: pyval
  pr_roles :: "string list"
  pr_metadata :: "(string, pyval) dict"

definition has_role :: "principal \<Rightarrow> string \<Rightarrow> bool" where
  "has_role p name = (name \<in> set (pr_roles p))"

definition get_attribute :: "principal \<Rightarrow> string \<Rightarrow> pyval \<Rightarrow> pyval" where
  "get_attribute p key dflt = dict_get (pr_metadata p) key dflt"

section \<open>The policy\<close>

text \<open>The audit callback is only known by whether there is one; what it is called with is a log.\<close>

record rbac_policy =
  po_roles :: "(string, role) dict"
  po_superadmin :: "string option"
  po_default_role :: "string option"
  po_audited :: bool

record audit_event =
  ae_type :: string
  ae_principal :: principal
  ae_permission :: permission
  ae_result :: bool

definition add_role :: "role \<Rightarrow> rbac_policy \<Rightarrow> rbac_policy" where
  "add_role r po = po\<lparr>po_roles := AList.update (role_name r) r (po_roles po)\<rparr>"

definition new_policy :: "role list \<Rightarrow> string option \<Rightarrow> bool \<Rightarrow> rbac_policy" where
  "new_policy rs dflt audited =
     fold add_role rs \<lparr>po_roles = [], po_superadmin = None, po_default_role = dflt, po_audited = audited\<rparr>"

definition remove_role :: "string \<Rightarrow> rbac_policy \<Rightarrow> rbac_policy" where
  "remove_role name po = po\<lparr>po_roles := AList.delete name (po_roles po)\<rparr>"

definition set_superadmin_role :: "string \<Rightarrow> rbac_policy \<Rightarrow> rbac_policy" where
  "set_superadmin_role name po = po\<lparr>po_superadmin := Some name\<rparr>"

definition set_default_role :: "string \<Rightarrow> rbac_policy \<Rightarrow> rbac_policy" where
  "set_default_role name po = po\<lparr>po_default_role := Some name\<rparr>"

definition get_role :: "rbac_policy \<Rightarrow> string \<Rightarrow> role option" where
  "get_role po name = map_of (po_roles po) name"

definition list_roles :: "rbac_policy \<Rightarrow> string list" where
  "list_roles po = dict_keys (po_roles po)"

definition is_superadmin :: "rbac_policy \<Rightarrow> principal \<Rightarrow> bool" where
  "is_superadmin po p =
     (case po_superadmin po of None \<Rightarrow> False | Some r \<Rightarrow> r \<noteq> [] \<and> has_role p r)"

text \<open>The two loops of \<open>can_invoke_method\<close>, in the order of the principal's roles.\<close>

fun denied_by :: "rbac_policy \<Rightarrow> string \<Rightarrow> string list \<Rightarrow> bool" where
  "denied_by po method [] = False"
| "denied_by po method (name # names) =
     (case get_role po name of
        None \<Rightarrow> denied_by po method names
      | Some r \<Rightarrow> (\<exists>pat \<in> set (role_denied r). fnmatch method pat) \<or> denied_by po method names)"

fun allowed_scan :: "rbac_policy \<Rightarrow> string \<Rightarrow> bool \<Rightarrow> string list \<Rightarrow> bool" where
  "allowed_scan po method has_rules [] = (\<not> has_rules)"
| "allowed_scan po method has_rules (name # names) =
     (case get_role po name of
        None \<Rightarrow> allowed_scan po method has_rules names
      | Some r \<Rightarrow>
          (if role_allowed r = [] then allowed_scan po method has_rules names
           else if \<exists>pat \<in> set (role_allowed r). fnmatch method pat then True
           else allowed_scan po method True names))"

definition can_invoke_method :: "rbac_policy \<Rightarrow> principal \<Rightarrow> string \<Rightarrow> bool" where
  "can_invoke_method po p method =
     (if is_superadmin po p then True
      else if denied_by po method (pr_roles p) then False
      else allowed_scan po method False (pr_roles p))"

definition has_permission_no_audit :: "rbac_policy \<Rightarrow> principal \<Rightarrow> permission \<Rightarrow> bool" where
  "has_permission_no_audit po p q =
     (if is_superadmin po p then True
      else \<exists>name \<in> set (pr_roles p).
        case get_role po name of None \<Rightarrow> False | Some r \<Rightarrow> role_has_permission r q)"

definition audit ::
  "rbac_policy \<Rightarrow> string \<Rightarrow> principal \<Rightarrow> permission \<Rightarrow> bool \<Rightarrow> audit_event list \<Rightarrow> audit_event list" where
  "audit po ty p q res evs =
     (if po_audited po
      then evs @ [\<lparr>ae_type = ty, ae_principal = p, ae_permission = q, ae_result = res\<rparr>] else evs)"

definition has_permission ::
  "rbac_policy \<Rightarrow> principal \<Rightarrow> permission \<Rightarrow> audit_event list \<Rightarrow> bool \<times> audit_event list" where
  "has_permission po p q evs =
     (let res = has_permission_no_audit po p q in (res, audit po ''permission_check'' p q res evs))"

text \<open>\<open>txt\<close> is the text of a value in a formatted string.\<close>

definition denied_error :: "(pyval \<Rightarrow> string) \<Rightarrow> principal \<Rightarrow> permission \<Rightarrow> exn" where
  "denied_error txt p q =
     Exn (Custom ''PermissionDeniedError'' PyException) 0
       (''Principal '' @ CHR 0x27 # txt (pr_id p) @ CHR 0x27 # '' denied '' @ CHR 0x27 # pm_action q
        @ CHR 0x27 # '' on '' @ CHR 0x27 # pm_resource q @ [CHR 0x27]) PNone None"

definition require_permission ::
  "(pyval \<Rightarrow> string) \<Rightarrow> rbac_policy \<Rightarrow> principal \<Rightarrow> permission \<Rightarrow> audit_event list \<Rightarrow> (exn + unit) \<times> audit_event list" where
  "require_permission txt po p q evs =
     (let (ok, evs1) = has_permission po p q evs in
      if ok then (Inr (), evs1)
      else (Inl (denied_error txt p q), audit po ''permission_denied'' p q False evs1))"

definition create_principal ::
  "rbac_policy \<Rightarrow> string \<Rightarrow> string \<Rightarrow> string list \<Rightarrow> (string, pyval) dict \<Rightarrow> principal" where
  "create_principal po pid ty roles meta =
     (let rs = (case po_default_role po of
                  Some d \<Rightarrow> if d \<noteq> [] \<and> roles = [] then [d] else roles
                | None \<Rightarrow> roles)
      in \<lparr>pr_id = PStr pid, pr_type = PStr ty, pr_roles = rs, pr_metadata = meta\<rparr>)"

section \<open>The validators\<close>

text \<open>\<open>RbacPermissionValidator.check\<close>.\<close>

definition rbac_check ::
  "rbac_policy \<Rightarrow> principal \<Rightarrow> permission \<Rightarrow> string \<Rightarrow> audit_event list \<Rightarrow> bool \<times> audit_event list" where
  "rbac_check po p q method evs =
     (if \<not> can_invoke_method po p method then (False, evs) else has_permission po p q evs)"

section \<open>Lemmas\<close>

lemma denied_by_iff:
  "denied_by po method names \<longleftrightarrow>
     (\<exists>name \<in> set names. \<exists>r. get_role po name = Some r \<and> (\<exists>pat \<in> set (role_denied r). fnmatch method pat))"
  by (induction names) (auto split: option.splits)

lemma allowed_scan_iff:
  "allowed_scan po method b names \<longleftrightarrow>
     (\<exists>name \<in> set names. \<exists>r. get_role po name = Some r \<and> (\<exists>pat \<in> set (role_allowed r). fnmatch method pat))
     \<or> (\<not> b \<and> (\<forall>name \<in> set names. \<forall>r. get_role po name = Some r \<longrightarrow> role_allowed r = []))"
  by (induction names arbitrary: b) (auto split: option.splits)

lemma parse_pattern_plain:
  "list_all (\<lambda>c. c \<notin> {CHR ''*'', CHR ''?'', CHR ''[''}) pat \<Longrightarrow> parse_pattern (pat @ rest) = map Lit pat @ parse_pattern rest"
  by (induction pat) auto

lemma match_lits: "match_toks (map Lit p @ ts) s \<longleftrightarrow> (\<exists>t. s = p @ t \<and> match_toks ts t)"
proof (induction p arbitrary: s)
  case (Cons c p)
  then show ?case by (cases s) auto
qed simp

lemma match_any: "match_toks [AnySeq] s"
  by (induction s) auto

lemma match_any_suffix: "match_toks (AnySeq # ts) s \<longleftrightarrow> (\<exists>u t. s = u @ t \<and> match_toks ts t)"
proof (induction s)
  case (Cons c s)
  then show ?case by (auto simp: Cons_eq_append_conv)
qed simp

abbreviation plain :: "string \<Rightarrow> bool" where
  "plain pat \<equiv> list_all (\<lambda>c. c \<notin> {CHR ''*'', CHR ''?'', CHR ''[''}) pat"

lemma fnmatch_plain: "plain pat \<Longrightarrow> fnmatch name pat \<longleftrightarrow> name = pat"
  using parse_pattern_plain [of pat "[]"] match_lits [of pat "[]" name] by (simp add: fnmatch_def)

lemma fnmatch_prefix: "plain p \<Longrightarrow> fnmatch name (p @ ''*'') \<longleftrightarrow> starts_with name p"
  using parse_pattern_plain [of p "''*''"] match_lits [of p "[AnySeq]" name]
  by (simp add: fnmatch_def match_any starts_with_iff)

lemma fnmatch_suffix: "plain p \<Longrightarrow> fnmatch name (''*'' @ p) \<longleftrightarrow> ends_with name p"
  using parse_pattern_plain [of p "[]"] match_lits [of p "[]"]
  by (simp add: fnmatch_def match_any_suffix ends_with_iff)

lemma fnmatch_all [simp]: "fnmatch name ''*''"
  by (simp add: fnmatch_def match_any)

text \<open>The language of a pattern: a string cut into one piece per token.\<close>

fun tok_lang :: "pat_tok \<Rightarrow> string \<Rightarrow> bool" where
  "tok_lang AnySeq s = True"
| "tok_lang t s = (case s of [c] \<Rightarrow> tok_matches t c | _ \<Rightarrow> False)"

lemma tok_lang_one: "t \<noteq> AnySeq \<Longrightarrow> tok_lang t s \<longleftrightarrow> (\<exists>c. s = [c] \<and> tok_matches t c)"
  by (cases t) (auto split: list.splits)

lemma match_toks_one:
  "t \<noteq> AnySeq \<Longrightarrow> match_toks (t # ts) s \<longleftrightarrow> (\<exists>c s'. s = c # s' \<and> tok_matches t c \<and> match_toks ts s')"
  by (cases t; cases s) auto

lemma concat_cut:
  "(\<exists>parts. s = concat parts \<and> list_all2 P (t # ts) parts) \<longleftrightarrow>
     (\<exists>u v. s = u @ v \<and> P t u \<and> (\<exists>parts. v = concat parts \<and> list_all2 P ts parts))"
  by (simp add: list_all2_Cons1) (metis concat.simps(2))

lemma match_toks_lang:
  "match_toks ts s \<longleftrightarrow> (\<exists>parts. s = concat parts \<and> list_all2 tok_lang ts parts)"
proof (induction ts arbitrary: s)
  case (Cons t ts)
  show ?case
  proof (cases "t = AnySeq")
    case True
    then show ?thesis by (simp add: match_any_suffix Cons.IH concat_cut)
  next
    case False
    then show ?thesis
      by (simp add: match_toks_one Cons.IH concat_cut tok_lang_one) (metis append_Cons append_Nil)
  qed
qed simp

section \<open>Properties\<close>

definition known_roles :: "rbac_policy \<Rightarrow> principal \<Rightarrow> role set" where
  "known_roles po p = {r. \<exists>name \<in> set (pr_roles p). get_role po name = Some r}"

text \<open>
  C11. The permission check grants access exactly to a superadmin, or to a principal none of
  whose defined roles denies the method, one of which allows it unless none restricts methods, and one
  of which has the permission. Roles without a definition count for nothing, so method rules alone
  never stop a principal with no defined role; and a check leaves one audit event exactly when the
  method rules let it through to the permission.
\<close>

theorem rbac_decision:
  "(fst (rbac_check po p q method evs) \<longleftrightarrow>
     is_superadmin po p \<or>
     ((\<forall>r \<in> known_roles po p. \<forall>pat \<in> set (role_denied r). \<not> fnmatch method pat)
      \<and> ((\<exists>r \<in> known_roles po p. \<exists>pat \<in> set (role_allowed r). fnmatch method pat)
          \<or> (\<forall>r \<in> known_roles po p. role_allowed r = []))
      \<and> (\<exists>r \<in> known_roles po p. role_has_permission r q)))
   \<and> snd (rbac_check po p q method evs) =
     (if po_audited po \<and> can_invoke_method po p method
      then evs @ [\<lparr>ae_type = ''permission_check'', ae_principal = p, ae_permission = q,
                   ae_result = fst (rbac_check po p q method evs)\<rparr>]
      else evs)
   \<and> (known_roles po p = {} \<longrightarrow> can_invoke_method po p method)"
proof (intro conjI)
  have granted: "has_permission_no_audit po p q \<longleftrightarrow>
      is_superadmin po p \<or> (\<exists>r \<in> known_roles po p. role_has_permission r q)"
    by (auto simp: has_permission_no_audit_def known_roles_def split: option.splits)
  show "fst (rbac_check po p q method evs) \<longleftrightarrow>
     is_superadmin po p \<or>
     ((\<forall>r \<in> known_roles po p. \<forall>pat \<in> set (role_denied r). \<not> fnmatch method pat)
      \<and> ((\<exists>r \<in> known_roles po p. \<exists>pat \<in> set (role_allowed r). fnmatch method pat)
          \<or> (\<forall>r \<in> known_roles po p. role_allowed r = []))
      \<and> (\<exists>r \<in> known_roles po p. role_has_permission r q))"
    by (auto simp: rbac_check_def can_invoke_method_def has_permission_def granted denied_by_iff
        allowed_scan_iff Let_def) (auto simp: known_roles_def)
  show "known_roles po p = {} \<longrightarrow> can_invoke_method po p method"
    by (auto simp: can_invoke_method_def denied_by_iff allowed_scan_iff known_roles_def)
qed (simp add: rbac_check_def has_permission_def audit_def Let_def)

text \<open>A policy with an operator that must not touch billing, for the witnesses.\<close>

definition sample_policy :: rbac_policy where
  "sample_policy = new_policy
     [\<lparr>role_name = ''op'', role_permissions = [\<lparr>pm_resource = ''*'', pm_action = ''read''\<rparr>],
       role_allowed = [], role_denied = [''rpc.v2/Billing/*''], role_metadata = []\<rparr>] None True"

definition sample_operator :: principal where
  "sample_operator = \<lparr>pr_id = PStr ''u'', pr_type = PStr ''user'', pr_roles = [''op''], pr_metadata = []\<rparr>"

theorem rbac_decision_witness:
  "fst (rbac_check sample_policy sample_operator \<lparr>pm_resource = ''x'', pm_action = ''read''\<rparr> ''rpc.v2/Svc/get'' [])
   \<and> \<not> fst (rbac_check sample_policy sample_operator \<lparr>pm_resource = ''x'', pm_action = ''read''\<rparr> ''rpc.v2/Billing/get'' [])
   \<and> can_invoke_method sample_policy (sample_operator\<lparr>pr_roles := [''ghost'']\<rparr>) ''any''"
proof -
  have k: "known_roles sample_policy sample_operator =
      {\<lparr>role_name = ''op'', role_permissions = [\<lparr>pm_resource = ''*'', pm_action = ''read''\<rparr>],
       role_allowed = [], role_denied = [''rpc.v2/Billing/*''], role_metadata = []\<rparr>}"
    by (auto simp: known_roles_def sample_policy_def sample_operator_def new_policy_def add_role_def get_role_def)
  have s: "\<not> is_superadmin sample_policy sample_operator"
    by (simp add: is_superadmin_def sample_policy_def new_policy_def add_role_def)
  have f: "fnmatch m ''rpc.v2/Billing/*'' \<longleftrightarrow> starts_with m ''rpc.v2/Billing/''" for m
    using fnmatch_prefix [of "''rpc.v2/Billing/''" m] by simp
  have g: "known_roles sample_policy (sample_operator\<lparr>pr_roles := [''ghost'']\<rparr>) = {}"
    by (simp add: known_roles_def sample_policy_def sample_operator_def new_policy_def add_role_def get_role_def)
  show ?thesis
    using rbac_decision [of sample_policy sample_operator "\<lparr>pm_resource = ''x'', pm_action = ''read''\<rparr>"]
      rbac_decision [of sample_policy "sample_operator\<lparr>pr_roles := [''ghost'']\<rparr>" _ "''any''"] g
    by (simp add: k s f role_has_permission_def permission_matches_def fnmatch_plain)
qed

end
