(* ===== verification/Interceptor_Chain.thy ===== *)
theory Interceptor_Chain
  imports Messages Rbac
begin

text \<open>
  The server's request context and its chain of interceptors (\<open>server/context.py\<close>). An
  interceptor is an asynchronous context manager: what it does before its \<open>yield\<close> and what it
  does after, when the exception of the body, if any, is thrown into it. A handler is a
  generator of responses. A consumer either drains the chain (streams) or stops at the first
  response (unary calls): then the generator is closed, which throws \<open>GeneratorExit\<close> into the
  interceptors; unary handlers do nothing after their response.
\<close>

section \<open>The context\<close>

text \<open>
  \<open>cx_principal\<close> is \<open>state["principal"]\<close>, \<open>cx_world\<close> the shared objects interceptors use (logs,
  limiters). Handler wrappers, which the code keeps in the context's local store, are returned by
  the interceptors instead.
\<close>

record 'w ctx =
  cx_request :: rpc_request
  cx_state :: "(string, pyval) dict"
  cx_principal :: "principal option"
  cx_meta :: "(string, pyval) dict"
  cx_is_stream :: bool
  cx_response :: "rpc_response option"
  cx_error :: "exn option"
  cx_aborted :: bool
  cx_abort_error :: "rpc_error option"
  cx_local :: "(string, pyval) dict"
  cx_world :: 'w

text \<open>\<open>store\<close> and \<open>load\<close> of the interceptors' own state.\<close>

definition store_local :: "string \<Rightarrow> pyval \<Rightarrow> 'w ctx \<Rightarrow> 'w ctx" where
  "store_local key v c = c\<lparr>cx_local := AList.update key v (cx_local c)\<rparr>"

definition load_local :: "string \<Rightarrow> 'w ctx \<Rightarrow> pyval" where
  "load_local key c = dict_get (cx_local c) key PNone"

type_synonym stream_end = "rpc_response list \<times> exn option"

type_synonym 'w stream_handler = "'w ctx \<Rightarrow> stream_end \<times> 'w ctx"

definition new_ctx ::
  "rpc_request \<Rightarrow> (string, pyval) dict \<Rightarrow> principal option \<Rightarrow> (string, pyval) dict \<Rightarrow> bool \<Rightarrow> 'w \<Rightarrow> 'w ctx" where
  "new_ctx request st pr meta strm w =
     \<lparr>cx_request = request, cx_state = st, cx_principal = pr, cx_meta = meta, cx_is_stream = strm,
      cx_response = None, cx_error = None, cx_aborted = False, cx_abort_error = None,
      cx_local = [], cx_world = w\<rparr>"

definition abort :: "rpc_error \<Rightarrow> 'w ctx \<Rightarrow> 'w ctx" where
  "abort e c = c\<lparr>cx_aborted := True, cx_abort_error := Some e\<rparr>"

section \<open>The chain\<close>

record 'w interceptor =
  ic_order :: int
  ic_enter :: "'w ctx \<Rightarrow> exn option \<times> ('w stream_handler \<Rightarrow> 'w stream_handler) list \<times> 'w ctx"
  ic_exit :: "exn option \<Rightarrow> 'w ctx \<Rightarrow> exn option \<times> 'w ctx"

definition new_chain :: "'w interceptor list \<Rightarrow> 'w interceptor list" where
  "new_chain is = sort_key ic_order is"

text \<open>The body runs under the interceptors entered so far and the wrappers they left.\<close>

fun nest ::
  "'w interceptor list \<Rightarrow> (('w stream_handler \<Rightarrow> 'w stream_handler) list \<Rightarrow> 'w stream_handler)
     \<Rightarrow> ('w stream_handler \<Rightarrow> 'w stream_handler) list \<Rightarrow> 'w stream_handler" where
  "nest [] body ws c = body ws c"
| "nest (i # is) body ws c =
     (if cx_aborted c then body ws c
      else (case ic_enter i c of
              (Some e, ws', c1) \<Rightarrow> (([], Some e), c1)
            | (None, ws', c1) \<Rightarrow>
                (let ((rs, exc), c2) =
                       (if cx_aborted c1 then body (ws @ ws') c1 else nest is body (ws @ ws') c1);
                     (exc', c3) = ic_exit i exc c2
                 in ((rs, exc'), c3))))"

definition apply_wrappers ::
  "('w stream_handler \<Rightarrow> 'w stream_handler) list \<Rightarrow> 'w stream_handler \<Rightarrow> 'w stream_handler" where
  "apply_wrappers ws h = foldr (\<lambda>w wrapped. w wrapped) ws h"

text \<open>\<open>x or y\<close>, and a value given to an optional string field of a model.\<close>

definition py_or :: "pyval \<Rightarrow> pyval \<Rightarrow> pyval" where
  "py_or x y = (if py_truthy x then x else y)"

definition opt_str_field :: "pyval \<Rightarrow> exn + string option" where
  "opt_str_field v =
     (case v of PNone \<Rightarrow> Inr None | PStr s \<Rightarrow> Inr (Some s)
      | _ \<Rightarrow> Inl (validation_error ''Input should be a valid string''))"

text \<open>\<open>now\<close> and \<open>elapsed\<close> are the clocks at this response, in milliseconds.\<close>

definition attach_response_metadata ::
  "int \<Rightarrow> rat \<Rightarrow> (string, pyval) dict \<Rightarrow> rpc_response \<Rightarrow> exn + rpc_response" where
  "attach_response_metadata now elapsed meta r =
     (if rs_metadata r \<noteq> None then Inr r
      else
        (let duration = py_trunc (max 0 elapsed);
             server_id = py_or (dict_get meta ''server_id'' PNone) (dict_get meta ''server-id'' PNone);
             version = py_or (dict_get meta ''server_version'' PNone) (dict_get meta ''server-version'' PNone)
         in bind_ok (opt_str_field server_id) (\<lambda>sid. bind_ok (opt_str_field version) (\<lambda>sv.
              Inr (r\<lparr>rs_metadata := Some (create_response_metadata now (Some duration) sid sv)\<rparr>)))))"

definition error_payload :: "error_code \<Rightarrow> string \<Rightarrow> error_detail list option \<Rightarrow> rpc_error" where
  "error_payload code message details =
     \<lparr>err_code = error_code_value code,
      err_name = dict_get ERROR_CODE_NAMES (error_code_value code) ''UNKNOWN'',
      err_message = message, err_details = details, err_debug = None\<rparr>"

definition abort_response :: "string \<Rightarrow> 'w ctx \<Rightarrow> rpc_response \<times> 'w ctx" where
  "abort_response uuid c =
     (let err = (case cx_abort_error c of
                   Some e \<Rightarrow> e
                 | None \<Rightarrow> error_payload INTERNAL_ERROR ''Request aborted'' None);
          (rid, req) = (case rq_id (cx_request c) of
                          Some i \<Rightarrow> (i, cx_request c)
                        | None \<Rightarrow> id_str uuid (cx_request c))
      in (\<lparr>rs_aduib_rpc = ''2.0'', rs_id = Some rid, rs_status = ERROR, rs_result = PNone,
           rs_error = Some err, rs_negotiated_version = None, rs_trace_context = None,
           rs_metadata = None\<rparr>, c\<lparr>cx_request := req\<rparr>))"

text \<open>The loop over the responses; \<open>tick n\<close> are the clocks at the \<open>n\<close>-th.\<close>

fun attach_all ::
  "(nat \<Rightarrow> int \<times> rat) \<Rightarrow> (string, pyval) dict \<Rightarrow> nat \<Rightarrow> rpc_response list \<Rightarrow> stream_end" where
  "attach_all tick meta n [] = ([], None)"
| "attach_all tick meta n (r # rs) =
     (case attach_response_metadata (fst (tick n)) (snd (tick n)) meta r of
        Inl e \<Rightarrow> ([], Some e)
      | Inr r' \<Rightarrow> (let (out, exc) = attach_all tick meta (Suc n) rs in (r' # out, exc)))"

definition generator_exit :: exn where
  "generator_exit = Exn (Custom ''GeneratorExit'' BaseException) 0 [] PNone None"

definition consume :: "bool \<Rightarrow> stream_end \<Rightarrow> stream_end" where
  "consume first res =
     (case res of (r # rs, exc) \<Rightarrow> if first then ([r], Some generator_exit) else res | _ \<Rightarrow> res)"

definition chain_body ::
  "bool \<Rightarrow> (nat \<Rightarrow> int \<times> rat) \<Rightarrow> string \<Rightarrow> 'w stream_handler
     \<Rightarrow> ('w stream_handler \<Rightarrow> 'w stream_handler) list \<Rightarrow> 'w stream_handler" where
  "chain_body first tick uuid handler ws c =
     (if cx_aborted c then
        (let (r, c1) = abort_response uuid c in
         case attach_response_metadata (fst (tick 0)) (snd (tick 0)) (cx_meta c1) r of
           Inl e \<Rightarrow> (([], Some e), c1)
         | Inr r' \<Rightarrow> (consume first ([r'], None), c1\<lparr>cx_response := Some r'\<rparr>))
      else
        (let ((rs, exc), c1) = apply_wrappers ws handler c;
             (attached, exc') = attach_all tick (cx_meta c1) 0 rs;
             (out, err) = consume first (attached, case exc' of Some e \<Rightarrow> Some e | None \<Rightarrow> exc);
             c2 = (if out = [] then c1 else c1\<lparr>cx_response := Some (last out)\<rparr>);
             c3 = (case err of
                     Some e \<Rightarrow> if isinstance_exn e PyException then c2\<lparr>cx_error := Some e\<rparr> else c2
                   | None \<Rightarrow> c2)
         in ((out, err), c3)))"

definition chain_execute ::
  "bool \<Rightarrow> (nat \<Rightarrow> int \<times> rat) \<Rightarrow> string \<Rightarrow> 'w interceptor list \<Rightarrow> 'w stream_handler \<Rightarrow> 'w stream_handler" where
  "chain_execute first tick uuid is handler c =
     nest (new_chain is) (chain_body first tick uuid handler) [] c"

section \<open>Unary handlers in a stream\<close>

text \<open>The first response of the handler, drained to its end; \<open>None\<close> when there is none.\<close>

definition invoke_downstream ::
  "'w stream_handler \<Rightarrow> ('w ctx, exn, rpc_response option) comp" where
  "invoke_downstream handler c =
     (let ((rs, exc), c') = handler c in
      (case exc of Some e \<Rightarrow> Inl e | None \<Rightarrow> Inr (case rs of [] \<Rightarrow> None | r # _ \<Rightarrow> Some r), c'))"

definition unary_stream :: "exn + rpc_response option \<Rightarrow> stream_end" where
  "unary_stream r =
     (case r of Inl e \<Rightarrow> ([], Some e) | Inr None \<Rightarrow> ([], None) | Inr (Some v) \<Rightarrow> ([v], None))"

section \<open>Going in and coming out\<close>

text \<open>
  The specification: going in enters interceptors one after the other until one raises or the
  context is aborted; coming out leaves exactly those entered, the last one first.
\<close>

fun go_in ::
  "'w interceptor list \<Rightarrow> ('w stream_handler \<Rightarrow> 'w stream_handler) list \<Rightarrow> 'w ctx
     \<Rightarrow> 'w interceptor list \<times> exn option \<times> ('w stream_handler \<Rightarrow> 'w stream_handler) list \<times> 'w ctx" where
  "go_in [] ws c = ([], None, ws, c)"
| "go_in (i # is) ws c =
     (if cx_aborted c then ([], None, ws, c)
      else (case ic_enter i c of
              (Some e, ws', c1) \<Rightarrow> ([], Some e, ws @ ws', c1)
            | (None, ws', c1) \<Rightarrow>
                (let (entered, exc, ws2, c2) = go_in is (ws @ ws') c1 in (i # entered, exc, ws2, c2))))"

definition come_out :: "'w interceptor list \<Rightarrow> stream_end \<times> 'w ctx \<Rightarrow> stream_end \<times> 'w ctx" where
  "come_out entered res =
     fold (\<lambda>i ((rs, exc), c). let (exc', c') = ic_exit i exc c in ((rs, exc'), c')) (rev entered) res"

lemma nest_aborted [simp]: "cx_aborted c \<Longrightarrow> nest is body ws c = body ws c"
  by (cases "is") simp_all

lemma go_in_aborted [simp]: "cx_aborted c \<Longrightarrow> go_in is ws c = ([], None, ws, c)"
  by (cases "is") simp_all

lemma come_out_Nil [simp]: "come_out [] res = res"
  by (simp add: come_out_def)

lemma come_out_Cons [simp]:
  "come_out (i # is) res =
     (let ((rs, exc), c) = come_out is res; (exc', c') = ic_exit i exc c in ((rs, exc'), c'))"
  by (simp add: come_out_def Let_def split: prod.splits)

lemma nest_in_out:
  "nest is body ws c =
     (case go_in is ws c of
        (entered, Some e, ws', c') \<Rightarrow> come_out entered (([], Some e), c')
      | (entered, None, ws', c') \<Rightarrow> come_out entered (body ws' c'))"
proof (induction "is" arbitrary: ws c)
  case (Cons i "is")
  show ?case
  proof (cases "cx_aborted c")
    case False
    obtain e ws1 c1 where en: "ic_enter i c = (e, ws1, c1)" by (cases "ic_enter i c")
    show ?thesis
    proof (cases e)
      case None
      then show ?thesis
        using False en Cons.IH [of "ws @ ws1" c1]
        by (auto split: prod.splits option.splits simp: Let_def)
    qed (use False en in simp)
  qed simp
qed simp

lemma go_in_prefix: "go_in is ws c = (entered, e, ws', c') \<Longrightarrow> \<exists>rest. is = entered @ rest"
proof (induction "is" arbitrary: ws c entered)
  case (Cons i "is")
  then show ?case
    by (auto split: if_splits prod.splits option.splits simp: Let_def)
qed simp

lemma go_in_abort: "go_in is ws c = (entered, None, ws', c') \<Longrightarrow> entered \<noteq> is \<Longrightarrow> cx_aborted c'"
proof (induction "is" arbitrary: ws c entered)
  case (Cons i "is")
  then show ?case
    by (auto split: if_splits prod.splits option.splits simp: Let_def)
qed simp

text \<open>The server's name and version, when the context has them, are strings.\<close>

definition server_named :: "(string, pyval) dict \<Rightarrow> bool" where
  "server_named meta \<longleftrightarrow>
     (\<forall>k \<in> {''server_id'', ''server-id'', ''server_version'', ''server-version''}.
        case dict_get meta k PNone of PNone \<Rightarrow> True | PStr _ \<Rightarrow> True | _ \<Rightarrow> False)"

lemma opt_str_field_or:
  "(case x of PNone \<Rightarrow> True | PStr _ \<Rightarrow> True | _ \<Rightarrow> False) \<Longrightarrow>
   (case y of PNone \<Rightarrow> True | PStr _ \<Rightarrow> True | _ \<Rightarrow> False) \<Longrightarrow> \<exists>s. opt_str_field (py_or x y) = Inr s"
  by (cases x; cases y) (auto simp: opt_str_field_def py_or_def)

lemma attach_named:
  assumes "server_named meta"
  shows "\<exists>m. attach_response_metadata now el meta r = Inr (r\<lparr>rs_metadata := m\<rparr>)"
proof -
  obtain s1 s2 where "opt_str_field (py_or (dict_get meta ''server_id'' PNone) (dict_get meta ''server-id'' PNone)) = Inr s1"
    "opt_str_field (py_or (dict_get meta ''server_version'' PNone) (dict_get meta ''server-version'' PNone)) = Inr s2"
    using assms opt_str_field_or unfolding server_named_def by (metis insertCI)
  then show ?thesis
    by (cases r; cases "rs_metadata r") (auto simp: attach_response_metadata_def Let_def)
qed

lemma aborted_body:
  assumes "cx_aborted c" "cx_abort_error c = Some e" "server_named (cx_meta c)"
  shows "\<exists>r c2. chain_body first tick uuid handler ws c = (consume first ([r], None), c2)
    \<and> rs_status r = ERROR \<and> rs_error r = Some e \<and> cx_aborted c2"
proof -
  obtain r c1 where r: "abort_response uuid c = (r, c1)" "rs_status r = ERROR" "rs_error r = Some e"
    "cx_aborted c1" "cx_meta c1 = cx_meta c"
    using assms(1,2)
    by (cases "case rq_id (cx_request c) of Some i \<Rightarrow> (i, cx_request c) | None \<Rightarrow> id_str uuid (cx_request c)")
      (simp add: abort_response_def Let_def)
  obtain m where "attach_response_metadata (fst (tick 0)) (snd (tick 0)) (cx_meta c1) r = Inr (r\<lparr>rs_metadata := m\<rparr>)"
    using attach_named assms(3) r(5) by metis
  with r assms(1) show ?thesis by (auto simp: chain_body_def)
qed

section \<open>Properties\<close>


text \<open>Three interceptors, given out of order: the second one aborts, so the third is never entered.\<close>

definition trace_interceptor :: "int \<Rightarrow> bool \<Rightarrow> int list interceptor" where
  "trace_interceptor n aborts =
     \<lparr>ic_order = n,
      ic_enter = (\<lambda>c. (None, [], (if aborts then abort (error_payload PERMISSION_DENIED ''no'' None) else id)
                                (c\<lparr>cx_world := cx_world c @ [n]\<rparr>))),
      ic_exit = (\<lambda>e c. (e, c\<lparr>cx_world := cx_world c @ [- n]\<rparr>))\<rparr>"

definition empty_request :: rpc_request where
  "empty_request =
     \<lparr>rq_aduib_rpc = ''2.0'', rq_id = Some ''1'', rq_method = ''m'', rq_name = None, rq_data = None,
      rq_supported_versions = None, rq_trace_context = None, rq_metadata = None, rq_qos = None,
      rq_meta = None, rq_id_str = None\<rparr>"


end
