(* ===== verification/Method_Names.thy ===== *)
theory Method_Names
  imports Rpc_Prelude
begin

text \<open>
  Method names on the wire (\<open>server/rpc_execution/method_registry.py\<close>): the strict parser
  \<open>parse_method_name\<close> with the two regular expressions, \<open>normalize_method_name\<close>, and
  \<open>MethodName\<close> with the tolerant parser \<open>parse_compat\<close> that the request executor uses.
\<close>

section \<open>Lexical classes\<close>

definition is_word :: "char \<Rightarrow> bool" where
  "is_word c = (is_alpha c \<or> is_digit c \<or> c = CHR ''_'')"

text \<open>The pattern \<open>[a-zA-Z][a-zA-Z0-9_]*\<close>.\<close>

definition is_ident :: "string \<Rightarrow> bool" where
  "is_ident s = (case s of [] \<Rightarrow> False | c # cs \<Rightarrow> is_alpha c \<and> list_all is_word cs)"

text \<open>In a Python pattern \<open>$\<close> also matches before one trailing newline.\<close>

definition chop_newline :: "string \<Rightarrow> string" where
  "chop_newline s = (if s \<noteq> [] \<and> last s = CHR 0x0A then butlast s else s)"

definition V2_PREFIX :: string where
  "V2_PREFIX = ''rpc.v2/''"

section \<open>The strict parser\<close>

record parsed_method =
  pm_protocol :: string
  pm_service :: string
  pm_handler :: string
  pm_normalized :: string

text \<open>Both patterns are a prefix, an identifier, a separator, an identifier and the end.\<close>

definition match_pair :: "string \<Rightarrow> char \<Rightarrow> string \<Rightarrow> (string \<times> string) option" where
  "match_pair pre sep s =
     (let t = chop_newline s in
      if starts_with t pre then
        (case py_partition sep (drop (length pre) t) of
           (service, found, handler) \<Rightarrow>
             if found \<and> is_ident service \<and> is_ident handler then Some (service, handler) else None)
      else None)"

definition parse_method_name :: "string \<Rightarrow> parsed_method option" where
  "parse_method_name method =
     (case match_pair V2_PREFIX (CHR ''/'') method of
        Some (service, handler) \<Rightarrow>
          Some \<lparr>pm_protocol = ''v2'', pm_service = service, pm_handler = handler,
                pm_normalized = method\<rparr>
      | None \<Rightarrow>
          (case match_pair [] (CHR ''.'') method of
             Some (service, handler) \<Rightarrow>
               Some \<lparr>pm_protocol = ''v1'', pm_service = service, pm_handler = handler,
                     pm_normalized = service @ ''.'' @ handler\<rparr>
           | None \<Rightarrow> None))"

definition normalize_method_name :: "string \<Rightarrow> string \<Rightarrow> string option" where
  "normalize_method_name method target_protocol =
     (case parse_method_name method of
        None \<Rightarrow> None
      | Some p \<Rightarrow>
          if target_protocol = ''v2'' then
            (if pm_protocol p = ''v2'' then Some (pm_normalized p)
             else Some (''rpc.v2/'' @ pm_service p @ ''/'' @ pm_handler p))
          else
            (if pm_protocol p = ''v1'' then Some (pm_normalized p)
             else Some (pm_service p @ ''.'' @ pm_handler p)))"

section \<open>MethodName\<close>

record method_name =
  mn_service :: string
  mn_handler :: string

text \<open>The \<open>ValueError\<close>s, by their message.\<close>

datatype name_error =
    ServiceEmpty | HandlerEmpty | MethodIsNone | MethodEmpty
  | InvalidV2 string | InvalidLegacy string

definition format_v2 :: "string \<Rightarrow> string \<Rightarrow> name_error + string" where
  "format_v2 service handler =
     (if service = [] then Inl ServiceEmpty
      else if handler = [] then Inl HandlerEmpty
      else Inr (V2_PREFIX @ service @ ''/'' @ handler))"

definition method_name_v2 :: "method_name \<Rightarrow> name_error + string" where
  "method_name_v2 n = format_v2 (mn_service n) (mn_handler n)"

text \<open>Rewriting the first legacy separator into a dot.\<close>

definition dot_first :: "char \<Rightarrow> string \<Rightarrow> string" where
  "dot_first sep m =
     (case py_partition sep m of
        (service, found, tail) \<Rightarrow>
          if found \<and> service \<noteq> [] \<and> tail \<noteq> [] then service @ ''.'' @ tail else m)"

definition legacy_dotted :: "string \<Rightarrow> string" where
  "legacy_dotted m =
     (if CHR '':'' \<in> set m then dot_first (CHR '':'') m
      else if CHR ''/'' \<in> set m \<and> CHR ''.'' \<notin> set m then dot_first (CHR ''/'') m
      else m)"

definition parse_compat :: "string option \<Rightarrow> name_error + method_name" where
  "parse_compat method =
     (case method of
        None \<Rightarrow> Inl MethodIsNone
      | Some method \<Rightarrow>
          (let m = py_strip method in
           if m = [] then Inl MethodEmpty
           else
             let m = dropWhile (\<lambda>c. c = CHR ''/'') m in
             if starts_with m V2_PREFIX then
               (case py_partition (CHR ''/'') (drop (length V2_PREFIX) m) of
                  (service, found, handler) \<Rightarrow>
                    if \<not> found \<or> service = [] \<or> handler = [] then Inl (InvalidV2 method)
                    else Inr \<lparr>mn_service = service, mn_handler = handler\<rparr>)
             else
               let parts = py_split (CHR ''.'') (legacy_dotted m) in
               if length parts < 2 then Inl (InvalidLegacy method)
               else
                 let service = hd parts; handler = py_join (CHR ''.'') (tl parts) in
                 if service = [] \<or> handler = [] then Inl (InvalidLegacy method)
                 else Inr \<lparr>mn_service = service, mn_handler = handler\<rparr>))"

section \<open>Lemmas\<close>

lemma py_split_no_sep: "c \<notin> set s \<Longrightarrow> py_split c s = [s]"
  by (induction s) auto

lemma py_split_append: "c \<notin> set s \<Longrightarrow> py_split c (s @ c # t) = s # py_split c t"
  by (induction s) auto

lemma char_class_facts [simp]:
  "\<not> is_word (CHR ''/'')" "\<not> is_word (CHR '':'')" "\<not> is_word (CHR ''.'')" "\<not> is_word (CHR 0x0A)"
  by (simp_all add: is_word_def is_alpha_def is_digit_def ascii_code_def)

lemma is_word_not_space: "is_word c \<Longrightarrow> \<not> is_space c"
  by (auto simp: is_word_def is_alpha_def is_digit_def is_space_def Let_def ascii_code_def)

lemma is_alpha_word: "is_alpha c \<Longrightarrow> is_word c"
  by (simp add: is_word_def)

lemma is_ident_word: "is_ident s \<Longrightarrow> c \<in> set s \<Longrightarrow> is_word c"
  by (cases s) (auto simp: is_ident_def list_all_iff is_alpha_word)

lemma is_ident_sep: "is_ident s \<Longrightarrow> \<not> is_word c \<Longrightarrow> c \<notin> set s"
  using is_ident_word by blast

lemma is_ident_not_Nil: "is_ident s \<Longrightarrow> s \<noteq> []"
  by (auto simp: is_ident_def)

lemma dropWhile_pad: "list_all P a \<Longrightarrow> s \<noteq> [] \<Longrightarrow> \<not> P (hd s) \<Longrightarrow> dropWhile P (a @ s) = s"
  by (induction a) (auto simp: neq_Nil_conv)

lemma py_strip_pad:
  assumes "list_all is_space a" "list_all is_space b" "s \<noteq> []" "\<not> is_space (hd s)" "\<not> is_space (last s)"
  shows "py_strip (a @ s @ b) = s"
proof -
  have "dropWhile is_space (a @ s @ b) = s @ b"
    using assms by (intro dropWhile_pad) simp_all
  moreover have "dropWhile is_space (rev b @ rev s) = rev s"
    using assms by (intro dropWhile_pad) (simp_all add: hd_rev)
  ultimately show ?thesis by (simp add: py_strip_def)
qed

lemma slash_not_space [simp]: "\<not> is_space (CHR ''/'')" "\<not> is_space (CHR ''r'')"
  by (simp_all add: is_space_def ascii_code_def)

text \<open>A name in the v2 form, after slashes the router left in front.\<close>

lemma parse_compat_v2_body:
  assumes "py_strip method = replicate n (CHR ''/'') @ V2_PREFIX @ service @ ''/'' @ handler"
    and "CHR ''/'' \<notin> set service" "service \<noteq> []" "handler \<noteq> []"
  shows "parse_compat (Some method) = Inr \<lparr>mn_service = service, mn_handler = handler\<rparr>"
proof -
  have "dropWhile (\<lambda>c. c = CHR ''/'') (py_strip method) = V2_PREFIX @ service @ ''/'' @ handler"
    unfolding assms(1) by (intro dropWhile_pad) (simp_all add: V2_PREFIX_def list_all_iff)
  moreover have "py_strip method \<noteq> []"
    unfolding assms(1) by (simp add: V2_PREFIX_def)
  ultimately show ?thesis
    using py_partition_append [OF assms(2), of handler] assms(3,4)
    by (simp add: parse_compat_def Let_def)
qed

text \<open>A name in a dotted form.\<close>

lemma parse_compat_dotted_body:
  assumes "py_strip method = m" "m \<noteq> []" "hd m \<noteq> CHR ''/''" "\<not> starts_with m V2_PREFIX"
    and "legacy_dotted m = service @ ''.'' @ handler" "CHR ''.'' \<notin> set service"
    and "service \<noteq> []" "handler \<noteq> []"
  shows "parse_compat (Some method) = Inr \<lparr>mn_service = service, mn_handler = handler\<rparr>"
proof -
  have "dropWhile (\<lambda>c. c = CHR ''/'') m = m"
    using assms(2,3) by (cases m) simp_all
  moreover have "py_split (CHR ''.'') (legacy_dotted m) = service # py_split (CHR ''.'') handler"
    unfolding assms(5) using py_split_append [OF assms(6)] by simp
  moreover have "0 < length (py_split (CHR ''.'') handler)"
    by simp
  ultimately show ?thesis
    using assms by (simp add: parse_compat_def Let_def less_Suc_eq_0_disj del: length_greater_0_conv)
qed

lemma match_pair_Some:
  assumes "match_pair pre sep s = Some (service, handler)"
  shows "chop_newline s = pre @ service @ sep # handler" "is_ident service" "is_ident handler"
proof -
  from assms have pre: "starts_with (chop_newline s) pre"
    and part: "py_partition sep (drop (length pre) (chop_newline s)) = (service, True, handler)"
    and "is_ident service \<and> is_ident handler"
    by (auto simp: match_pair_def Let_def split: if_splits prod.splits)
  from pre obtain t where "chop_newline s = pre @ t"
    by (auto simp: starts_with_iff)
  with py_partition_found(1) [OF part] show "chop_newline s = pre @ service @ sep # handler" by simp
  show "is_ident service" "is_ident handler"
    using \<open>is_ident service \<and> is_ident handler\<close> by simp_all
qed

lemma match_pair_intro:
  "chop_newline s = pre @ service @ sep # handler \<Longrightarrow> is_ident service \<Longrightarrow> is_ident handler \<Longrightarrow>
     \<not> is_word sep \<Longrightarrow> match_pair pre sep s = Some (service, handler)"
  by (simp add: match_pair_def Let_def py_partition_append is_ident_sep)

text \<open>A matched name is the chopped one up to the optional newline, which stripping removes.\<close>

lemma is_ident_last: "is_ident s \<Longrightarrow> is_word (last s)"
  by (rule is_ident_word) (auto dest: is_ident_not_Nil)

lemma is_ident_hd: "is_ident s \<Longrightarrow> is_word (hd s)"
  by (rule is_ident_word) (auto dest: is_ident_not_Nil)

lemma strip_chopped:
  assumes "chop_newline s = t" "t \<noteq> []" "\<not> is_space (hd t)" "\<not> is_space (last t)"
  shows "py_strip s = t"
proof (cases "s \<noteq> [] \<and> last s = CHR 0x0A")
  case True
  then have "s = butlast s @ [CHR 0x0A]" by (metis append_butlast_last_id)
  moreover have "butlast s = t" using True assms(1) by (simp add: chop_newline_def)
  moreover have "list_all is_space [CHR 0x0A]" by (simp add: is_space_def ascii_code_def)
  ultimately show ?thesis
    using py_strip_pad [of "[]" "[CHR 0x0A]" t] assms(2-4) by simp
next
  case False
  then have "s = t" using assms(1) by (auto simp: chop_newline_def)
  then show ?thesis
    using py_strip_pad [of "[]" "[]" t] assms(2-4) by simp
qed

lemma chop_newline_word [simp]: "is_word (last s) \<Longrightarrow> chop_newline s = s"
  by (auto simp: chop_newline_def)

lemma parse_compat_pair:
  assumes "match_pair V2_PREFIX (CHR ''/'') m = Some (service, handler)"
  shows "parse_compat (Some m) = Inr \<lparr>mn_service = service, mn_handler = handler\<rparr>"
proof -
  note f = match_pair_Some [OF assms]
  have "py_strip m = V2_PREFIX @ service @ ''/'' @ handler"
    using f is_word_not_space [OF is_ident_last [OF f(3)]] is_ident_not_Nil [OF f(3)]
    by (intro strip_chopped) (simp_all add: V2_PREFIX_def)
  then show ?thesis
    using f parse_compat_v2_body [of m 0 service handler]
    by (simp add: is_ident_not_Nil is_ident_sep)
qed

lemma dotted_facts:
  assumes "is_ident service" "is_ident handler"
  shows "legacy_dotted (service @ ''.'' @ handler) = service @ ''.'' @ handler"
    and "\<not> starts_with (service @ ''.'' @ handler) V2_PREFIX"
    and "hd (service @ ''.'' @ handler) \<noteq> CHR ''/''"
proof -
  have no: "CHR '':'' \<notin> set service \<union> set handler" "CHR ''/'' \<notin> set service \<union> set handler"
    using assms by (simp_all add: is_ident_sep)
  then show "legacy_dotted (service @ ''.'' @ handler) = service @ ''.'' @ handler"
    by (simp add: legacy_dotted_def)
  show "\<not> starts_with (service @ ''.'' @ handler) V2_PREFIX"
  proof
    assume "starts_with (service @ ''.'' @ handler) V2_PREFIX"
    then have "CHR ''/'' \<in> set (service @ ''.'' @ handler)"
      by (auto simp: starts_with_iff V2_PREFIX_def simp del: set_append)
    with no show False by simp
  qed
  show "hd (service @ ''.'' @ handler) \<noteq> CHR ''/''"
    using is_ident_hd [OF assms(1)] is_ident_not_Nil [OF assms(1)] by auto
qed

lemma parse_compat_dotted_pair:
  assumes "match_pair [] (CHR ''.'') m = Some (service, handler)"
  shows "parse_compat (Some m) = Inr \<lparr>mn_service = service, mn_handler = handler\<rparr>"
proof -
  note f = match_pair_Some [OF assms]
  note nn = is_ident_not_Nil [OF f(2)] is_ident_not_Nil [OF f(3)]
  have "py_strip m = service @ ''.'' @ handler"
    using f nn is_word_not_space [OF is_ident_last [OF f(3)]] is_word_not_space [OF is_ident_hd [OF f(2)]]
    by (intro strip_chopped) simp_all
  from parse_compat_dotted_body [OF this _ dotted_facts(3,2,1) [OF f(2,3)]] nn f(2) show ?thesis
    by (simp add: is_ident_sep)
qed

lemma parse_dotted:
  assumes "is_ident service" "is_ident handler"
  shows "parse_method_name (service @ ''.'' @ handler) =
     Some \<lparr>pm_protocol = ''v1'', pm_service = service, pm_handler = handler,
           pm_normalized = service @ ''.'' @ handler\<rparr>"
proof -
  have ch: "chop_newline (service @ ''.'' @ handler) = service @ ''.'' @ handler"
    using is_ident_last [OF assms(2)] is_ident_not_Nil [OF assms(2)] by simp
  then have "match_pair V2_PREFIX (CHR ''/'') (service @ ''.'' @ handler) = None"
    using dotted_facts(2) [OF assms] by (simp add: match_pair_def)
  moreover have "match_pair [] (CHR ''.'') (service @ ''.'' @ handler) = Some (service, handler)"
    using ch assms by (intro match_pair_intro) simp_all
  ultimately show ?thesis by (simp add: parse_method_name_def)
qed

lemma not_v2_prefix:
  assumes "is_ident svc" "\<not> is_word sep" "sep \<noteq> CHR ''.''"
  shows "\<not> starts_with (svc @ sep # t) V2_PREFIX"
proof
  assume "starts_with (svc @ sep # t) V2_PREFIX"
  then obtain u where u: "svc @ sep # t = ''rpc'' @ CHR ''.'' # ''v2/'' @ u"
    by (auto simp: starts_with_iff V2_PREFIX_def)
  have "dropWhile is_word (svc @ sep # t) = sep # t"
    using assms(1,2) is_ident_word by (subst dropWhile_append2) auto
  moreover have "dropWhile is_word (''rpc'' @ CHR ''.'' # ''v2/'' @ u) = CHR ''.'' # ''v2/'' @ u"
    by (simp add: is_word_def is_alpha_def is_digit_def ascii_code_def)
  ultimately show False using u assms(3) by simp
qed

lemma parse_compat_legacy:
  assumes "is_ident svc" "\<not> is_word sep" "sep \<noteq> CHR ''.''" "t \<noteq> []" "is_word (last t)"
    and "legacy_dotted (svc @ sep # t) = service @ ''.'' @ handler"
    and "CHR ''.'' \<notin> set service" "service \<noteq> []" "handler \<noteq> []"
  shows "parse_compat (Some (svc @ sep # t)) = Inr \<lparr>mn_service = service, mn_handler = handler\<rparr>"
proof -
  have hd: "is_word (hd (svc @ sep # t))"
    using is_ident_hd [OF assms(1)] is_ident_not_Nil [OF assms(1)] by simp
  then have "py_strip (svc @ sep # t) = svc @ sep # t"
    using assms(4,5) py_strip_pad [of "[]" "[]" "svc @ sep # t"] by (simp add: is_word_not_space)
  moreover have "hd (svc @ sep # t) \<noteq> CHR ''/''"
    using hd by auto
  ultimately show ?thesis
    using parse_compat_dotted_body [OF _ _ _ not_v2_prefix [OF assms(1-3)] assms(6-9)] by simp
qed

section \<open>Properties\<close>

text \<open>
  C5. A name formatted for the wire is read back exactly, for any service
  without a slash and any handler that does not end in white space (dotted handlers and
  handlers with slashes included), also when a router left slashes in front of it or white space around it.
\<close>

theorem method_name_round_trip:
  assumes "format_v2 service handler = Inr wire" "CHR ''/'' \<notin> set service"
    and "\<not> is_space (last handler)" "list_all is_space before" "list_all is_space after"
  shows "parse_compat (Some (before @ replicate n (CHR ''/'') @ wire @ after))
           = Inr \<lparr>mn_service = service, mn_handler = handler\<rparr>"
proof -
  have nn: "service \<noteq> []" "handler \<noteq> []" and wire: "wire = V2_PREFIX @ service @ ''/'' @ handler"
    using assms(1) by (auto simp: format_v2_def split: if_splits)
  have "py_strip (before @ (replicate n (CHR ''/'') @ wire) @ after) = replicate n (CHR ''/'') @ wire"
    using assms(3-5) nn by (intro py_strip_pad) (simp_all add: wire V2_PREFIX_def hd_append)
  then show ?thesis
    using parse_compat_v2_body [OF _ assms(2) nn] by (simp add: wire)
qed

theorem method_name_round_trip_witness:
  "parse_compat (Some (''  //rpc.v2/users/UserService.get ''))
     = Inr \<lparr>mn_service = ''users'', mn_handler = ''UserService.get''\<rparr>"
  using method_name_round_trip [of "''users''" "''UserService.get''"
      "''rpc.v2/users/UserService.get''" "''  ''" "'' ''" 2]
  by (simp add: format_v2_def V2_PREFIX_def is_space_def ascii_code_def numeral_2_eq_2)

text \<open>
  Whatever the strict parser accepts, the tolerant parser of the executor
  accepts too, with the same service and handler; and normalising twice is normalising once,
  whichever protocol comes first, up to the trailing newline the pattern lets through.
\<close>

theorem strict_parse_agrees:
  assumes "parse_method_name m = Some p"
  shows "parse_compat (Some m) = Inr \<lparr>mn_service = pm_service p, mn_handler = pm_handler p\<rparr>
    \<and> normalize_method_name m ''v1'' = Some (pm_service p @ ''.'' @ pm_handler p)
    \<and> normalize_method_name (pm_service p @ ''.'' @ pm_handler p) ''v2''
        = Some (V2_PREFIX @ pm_service p @ ''/'' @ pm_handler p)
    \<and> map_option chop_newline (normalize_method_name m ''v2'')
        = Some (V2_PREFIX @ pm_service p @ ''/'' @ pm_handler p)"
proof (cases "match_pair V2_PREFIX (CHR ''/'') m")
  case (Some sh)
  obtain service handler where sh: "sh = (service, handler)" by (cases sh)
  with Some assms have p: "p = \<lparr>pm_protocol = ''v2'', pm_service = service, pm_handler = handler,
      pm_normalized = m\<rparr>" by (simp add: parse_method_name_def)
  note f = match_pair_Some [OF Some [unfolded sh]]
  show ?thesis
    using parse_compat_pair [OF Some [unfolded sh]] f(1) parse_dotted [OF f(2,3)] assms
    by (simp add: p normalize_method_name_def V2_PREFIX_def)
next
  case None
  then obtain service handler where d: "match_pair [] (CHR ''.'') m = Some (service, handler)"
    using assms by (auto simp: parse_method_name_def split: option.splits prod.splits)
  with None assms have p: "p = \<lparr>pm_protocol = ''v1'', pm_service = service, pm_handler = handler,
      pm_normalized = service @ ''.'' @ handler\<rparr>" by (simp add: parse_method_name_def)
  note f = match_pair_Some [OF d]
  show ?thesis
    using parse_compat_dotted_pair [OF d] parse_dotted [OF f(2,3)] assms is_ident_last [OF f(3)]
      is_ident_not_Nil [OF f(3)]
    by (simp add: p normalize_method_name_def V2_PREFIX_def)
qed

theorem strict_parse_agrees_witness:
  "parse_compat (Some ''users.get'') = Inr \<lparr>mn_service = ''users'', mn_handler = ''get''\<rparr>
   \<and> normalize_method_name ''users.get'' ''v2'' = Some ''rpc.v2/users/get''"
proof -
  have "parse_method_name (''users'' @ ''.'' @ ''get'') = Some \<lparr>pm_protocol = ''v1'',
      pm_service = ''users'', pm_handler = ''get'', pm_normalized = ''users'' @ ''.'' @ ''get''\<rparr>"
    by (rule parse_dotted) (simp_all add: is_ident_def is_alpha_def is_word_def ascii_code_def)
  from strict_parse_agrees [OF this] show ?thesis by (simp add: V2_PREFIX_def)
qed

text \<open>
  Of the legacy separators only the colon splits a dotted tail the way the
  documentation says: \<open>Svc:Cls.m\<close> names handler \<open>Cls.m\<close> of \<open>Svc\<close>, but \<open>Svc/Cls.m\<close> is
  read as handler \<open>m\<close> of a service called \<open>Svc/Cls\<close>; without a dot the slash works.
\<close>

theorem legacy_separators:
  assumes "is_ident svc" "is_ident cls" "is_ident m"
  shows "parse_compat (Some (svc @ '':'' @ cls @ ''.'' @ m))
      = Inr \<lparr>mn_service = svc, mn_handler = cls @ ''.'' @ m\<rparr>
    \<and> parse_compat (Some (svc @ ''/'' @ cls @ ''.'' @ m))
      = Inr \<lparr>mn_service = svc @ ''/'' @ cls, mn_handler = m\<rparr>
    \<and> parse_compat (Some (svc @ ''/'' @ m)) = Inr \<lparr>mn_service = svc, mn_handler = m\<rparr>"
proof (intro conjI)
  note nn = is_ident_not_Nil [OF assms(1)] is_ident_not_Nil [OF assms(2)] is_ident_not_Nil [OF assms(3)]
  note last = is_ident_last [OF assms(3)]
  have no: "c \<notin> set svc" "c \<notin> set cls" "c \<notin> set m" if "\<not> is_word c" for c
    using that assms by (simp_all add: is_ident_sep)
  show "parse_compat (Some (svc @ '':'' @ cls @ ''.'' @ m))
      = Inr \<lparr>mn_service = svc, mn_handler = cls @ ''.'' @ m\<rparr>"
    using parse_compat_legacy [OF assms(1), of "CHR '':''" "cls @ ''.'' @ m"] no nn last
    by (simp add: legacy_dotted_def dot_first_def py_partition_append)
  show "parse_compat (Some (svc @ ''/'' @ cls @ ''.'' @ m))
      = Inr \<lparr>mn_service = svc @ ''/'' @ cls, mn_handler = m\<rparr>"
    using parse_compat_legacy [OF assms(1), of "CHR ''/''" "cls @ ''.'' @ m" "svc @ ''/'' @ cls" m] no nn last
    by (simp add: legacy_dotted_def)
  show "parse_compat (Some (svc @ ''/'' @ m)) = Inr \<lparr>mn_service = svc, mn_handler = m\<rparr>"
    using parse_compat_legacy [OF assms(1), of "CHR ''/''" m svc m] no nn last
    by (simp add: legacy_dotted_def dot_first_def py_partition_append)
qed

theorem legacy_separators_witness:
  "parse_compat (Some ''Svc/Cls.m'') = Inr \<lparr>mn_service = ''Svc/Cls'', mn_handler = ''m''\<rparr>"
  using legacy_separators [of "''Svc''" "''Cls''" "''m''"]
  by (simp add: is_ident_def is_alpha_def is_word_def ascii_code_def)

end
