(* ===== verification/Grpc_Codec.thy ===== *)
theory Grpc_Codec
  imports Messages
begin

text \<open>
  The gRPC codec (\<open>utils/grpc_v2_utils.py\<close>): \<open>ToProto\<close> builds protocol buffer messages from
  the models, \<open>FromProto\<close> models from messages. A message is a record with the fields of
  \<open>proto/aduib_rpc_v2.proto\<close>: an \<open>optional\<close> or message field is an option (\<open>HasField\<close>), a
  repeated field a list, a map field a dictionary (whose order the wire does not keep).
  Protocol buffers themselves are a library: what it does with \<open>Struct\<close> and \<open>Value\<close> is the
  record \<open>pb_lib\<close> of parameters, and integers outside a field's type raise \<open>ValueError\<close>.
\<close>

section \<open>The library\<close>

text \<open>
  The functions on a \<open>Struct\<close> field take the field (\<open>None\<close> while it is absent) and return
  whether they succeeded and the field afterwards, since a failed call may leave entries behind.
  \<open>pb_other_str\<close> is \<open>str\<close> of floats, containers and other objects.
\<close>

record ('s, 'v) pb_lib =
  pb_parse_dict :: "pyval \<Rightarrow> 's option \<Rightarrow> bool \<times> 's option"
  pb_update :: "pyval \<Rightarrow> 's option \<Rightarrow> bool \<times> 's option"
  pb_setitem :: "string \<Rightarrow> pyval \<Rightarrow> 's option \<Rightarrow> bool \<times> 's option"
  pb_to_dict :: "'s \<Rightarrow> pyval"
  pb_parse_value :: "pyval \<Rightarrow> exn + 'v"
  pb_value_to_py :: "'v \<Rightarrow> pyval"
  pb_other_str :: "pyval \<Rightarrow> string"

fun digits_of :: "nat \<Rightarrow> string" where
  "digits_of n = (if n < 10 then [char_of (48 + n)] else digits_of (n div 10) @ [char_of (48 + n mod 10)])"

definition py_str :: "(pyval \<Rightarrow> string) \<Rightarrow> pyval \<Rightarrow> string" where
  "py_str other v =
     (case v of
        PNone \<Rightarrow> ''None''
      | PBool b \<Rightarrow> if b then ''True'' else ''False''
      | PInt i \<Rightarrow> if i < 0 then CHR ''-'' # digits_of (nat (- i)) else digits_of (nat i)
      | PStr s \<Rightarrow> s
      | _ \<Rightarrow> other v)"

definition int_field :: "nat \<Rightarrow> int \<Rightarrow> exn + int" where
  "int_field bits v =
     (if fits bits v then Inr v
      else Inl (Exn ValueError 0 ''Value out of range'' PNone None))"

section \<open>Messages\<close>

record pb_trace_context =
  ptc_trace_id :: string
  ptc_span_id :: string
  ptc_parent_span_id :: "string option"
  ptc_sampled :: bool
  ptc_baggage :: "(string, string) dict"

record pb_auth_context =
  pac_scheme :: int
  pac_credentials :: "string option"
  pac_principal :: "string option"
  pac_roles :: "string list"

record pb_request_metadata =
  prm_timestamp_ms :: int
  prm_client_id :: "string option"
  prm_client_version :: "string option"
  prm_auth :: "pb_auth_context option"
  prm_tenant_id :: "string option"
  prm_headers :: "(string, string) dict"
  prm_long_task :: "bool option"
  prm_long_task_method :: "string option"
  prm_long_task_timeout :: "int option"

record pb_response_metadata =
  psm_timestamp_ms :: int
  psm_duration_ms :: int
  psm_server_id :: "string option"
  psm_server_version :: "string option"

record pb_retry_config =
  prc_max_attempts :: int
  prc_initial_delay_ms :: int
  prc_max_delay_ms :: int
  prc_backoff_multiplier :: rat
  prc_retryable_codes :: "int list"

record pb_qos_config =
  pqc_priority :: int
  pqc_timeout_ms :: "int option"
  pqc_retry :: "pb_retry_config option"
  pqc_idempotency_key :: "string option"

record 's pb_request =
  prq_aduib_rpc :: string
  prq_id :: string
  prq_method :: string
  prq_name :: "string option"
  prq_data :: "'s option"
  prq_trace_context :: "pb_trace_context option"
  prq_metadata :: "pb_request_metadata option"
  prq_qos :: "pb_qos_config option"

record pb_error_detail =
  ped_type :: string
  ped_field :: "string option"
  ped_reason :: string
  ped_metadata :: "(string, string) dict"

record pb_debug_info =
  pdi_stack_trace :: "string option"
  pdi_internal_message :: "string option"
  pdi_timestamp_ms :: int

record pb_rpc_error =
  pre_code :: int
  pre_name :: string
  pre_message :: string
  pre_details :: "pb_error_detail list"
  pre_debug :: "pb_debug_info option"

datatype 'v pb_payload = PbNothing | PbResult 'v | PbError pb_rpc_error

record 'v pb_response =
  prs_aduib_rpc :: string
  prs_id :: string
  prs_status :: int
  prs_payload :: "'v pb_payload"
  prs_trace_context :: "pb_trace_context option"
  prs_metadata :: "pb_response_metadata option"

record pb_task_progress =
  ptp_current :: int
  ptp_total :: int
  ptp_message :: "string option"
  ptp_percentage :: "rat option"

record 'v pb_task_record =
  ptr_task_id :: string
  ptr_parent_task_id :: "string option"
  ptr_status :: int
  ptr_priority :: int
  ptr_created_at_ms :: int
  ptr_scheduled_at_ms :: "int option"
  ptr_started_at_ms :: "int option"
  ptr_completed_at_ms :: "int option"
  ptr_attempt :: int
  ptr_max_attempts :: int
  ptr_next_retry_at_ms :: "int option"
  ptr_result :: "'v option"
  ptr_error :: "pb_rpc_error option"
  ptr_progress :: "pb_task_progress option"
  ptr_metadata :: "(string, string) dict"
  ptr_tags :: "string list"

record 's pb_task_submit_request =
  pts_target_method :: string
  pts_params :: "'s option"
  pts_priority :: int

section \<open>\<open>ToProto\<close>\<close>

definition trace_context_to_proto :: "trace_context \<Rightarrow> pb_trace_context" where
  "trace_context_to_proto value =
     \<lparr>ptc_trace_id = tc_trace_id value, ptc_span_id = tc_span_id value,
      ptc_parent_span_id = tc_parent_span_id value, ptc_sampled = tc_sampled value,
      ptc_baggage = or_empty (tc_baggage value)\<rparr>"

definition auth_context_to_proto :: "auth_context \<Rightarrow> pb_auth_context" where
  "auth_context_to_proto value =
     \<lparr>pac_scheme = auth_scheme_to_wire (Member (ac_scheme value)),
      pac_credentials = ac_credentials value, pac_principal = ac_principal value,
      pac_roles = or_empty (ac_roles value)\<rparr>"

definition request_metadata_to_proto :: "request_metadata \<Rightarrow> exn + pb_request_metadata" where
  "request_metadata_to_proto value =
     bind_ok (int_field 64 (rm_timestamp_ms value)) (\<lambda>ts.
     bind_ok (opt_ok (int_field 32) (rm_long_task_timeout value)) (\<lambda>timeout.
       Inr \<lparr>prm_timestamp_ms = ts, prm_client_id = rm_client_id value,
            prm_client_version = rm_client_version value,
            prm_auth = map_option auth_context_to_proto (rm_auth value),
            prm_tenant_id = rm_tenant_id value, prm_headers = or_empty (rm_headers value),
            prm_long_task = Some (rm_long_task value),
            prm_long_task_method = rm_long_task_method value, prm_long_task_timeout = timeout\<rparr>))"

definition response_metadata_to_proto :: "response_metadata \<Rightarrow> exn + pb_response_metadata" where
  "response_metadata_to_proto value =
     bind_ok (int_field 64 (sm_timestamp_ms value)) (\<lambda>ts.
     bind_ok (int_field 64 (case sm_duration_ms value of None \<Rightarrow> 0 | Some d \<Rightarrow> d)) (\<lambda>dur.
       Inr \<lparr>psm_timestamp_ms = ts, psm_duration_ms = dur, psm_server_id = sm_server_id value,
            psm_server_version = sm_server_version value\<rparr>))"

definition retry_config_to_proto :: "retry_policy \<Rightarrow> exn + pb_retry_config" where
  "retry_config_to_proto value =
     bind_ok (int_field 32 (rp_max_attempts value)) (\<lambda>att.
     bind_ok (int_field 64 (rp_initial_delay_ms value)) (\<lambda>init.
     bind_ok (int_field 64 (rp_max_delay_ms value)) (\<lambda>mx.
     bind_ok (list_ok (int_field 32) (or_empty (rp_retryable_codes value))) (\<lambda>codes.
       Inr \<lparr>prc_max_attempts = att, prc_initial_delay_ms = init, prc_max_delay_ms = mx,
            prc_backoff_multiplier = rp_backoff_multiplier value, prc_retryable_codes = codes\<rparr>))))"

definition qos_config_to_proto :: "qos_field \<Rightarrow> exn + pb_qos_config" where
  "qos_config_to_proto value =
     (case value of
        RawQos v \<Rightarrow> Inl (no_attribute ''priority'')
      | Qos q \<Rightarrow>
          bind_ok (opt_ok (int_field 64) (qc_timeout_ms q)) (\<lambda>timeout.
          bind_ok (opt_ok retry_config_to_proto (qc_retry q)) (\<lambda>retry.
            Inr \<lparr>pqc_priority = priority_to_wire (qc_priority q), pqc_timeout_ms = timeout,
                 pqc_retry = retry, pqc_idempotency_key = qc_idempotency_key q\<rparr>)))"

text \<open>The loop that sets the items of a dictionary, left at the first failure.\<close>

fun set_items :: "('s, 'v) pb_lib \<Rightarrow> (string, pyval) dict \<Rightarrow> 's option \<Rightarrow> 's option" where
  "set_items lib [] t = t"
| "set_items lib ((k, v) # d) t =
     (case pb_setitem lib k v t of (True, t') \<Rightarrow> set_items lib d t' | (False, t') \<Rightarrow> t')"

definition fill_dict :: "('s, 'v) pb_lib \<Rightarrow> (string, pyval) dict \<Rightarrow> 's option \<Rightarrow> 's option" where
  "fill_dict lib d t =
     (case pb_parse_dict lib (PDict d) t of
        (True, t1) \<Rightarrow> t1
      | (False, t1) \<Rightarrow>
          (case pb_update lib (PDict d) t1 of (True, t2) \<Rightarrow> t2 | (False, t2) \<Rightarrow> set_items lib d t2))"

definition fill_struct :: "('s, 'v) pb_lib \<Rightarrow> pyval \<Rightarrow> 's option \<Rightarrow> 's option" where
  "fill_struct lib payload t =
     (case payload of
        PNone \<Rightarrow> t
      | PDict d \<Rightarrow> fill_dict lib d t
      | _ \<Rightarrow> (case pb_parse_dict lib payload t of
                (True, t1) \<Rightarrow> t1
              | (False, t1) \<Rightarrow> fill_dict lib [(''value'', payload)] t1))"

definition opt_dict :: "(string, pyval) dict option \<Rightarrow> pyval" where
  "opt_dict d = (case d of None \<Rightarrow> PNone | Some d \<Rightarrow> PDict d)"

definition request_to_proto :: "('s, 'v) pb_lib \<Rightarrow> rpc_request \<Rightarrow> exn + 's pb_request" where
  "request_to_proto lib request =
     bind_ok (opt_ok request_metadata_to_proto (rq_metadata request)) (\<lambda>meta.
     bind_ok (opt_ok qos_config_to_proto (rq_qos request)) (\<lambda>qos.
       Inr \<lparr>prq_aduib_rpc = (if rq_aduib_rpc request = [] then ''2.0'' else rq_aduib_rpc request),
            prq_id = or_empty (rq_id request), prq_method = rq_method request,
            prq_name = rq_name request,
            prq_data = fill_struct lib (opt_dict (rq_data request)) None,
            prq_trace_context = map_option trace_context_to_proto (rq_trace_context request),
            prq_metadata = meta, prq_qos = qos\<rparr>))"

text \<open>Of an error a response carries only code, name and message.\<close>

definition response_to_proto :: "('s, 'v) pb_lib \<Rightarrow> rpc_response \<Rightarrow> exn + 'v pb_response" where
  "response_to_proto lib resp =
     bind_ok
       (if is_success resp then bind_ok (pb_parse_value lib (rs_result resp)) (\<lambda>v. Inr (PbResult v))
        else (case rs_error resp of
                None \<Rightarrow> Inr PbNothing
              | Some e \<Rightarrow> bind_ok (int_field 32 (err_code e)) (\<lambda>code.
                  Inr (PbError \<lparr>pre_code = code, pre_name = err_name e, pre_message = err_message e,
                                pre_details = [], pre_debug = None\<rparr>)))) (\<lambda>payload.
     bind_ok (opt_ok response_metadata_to_proto (rs_metadata resp)) (\<lambda>meta.
       Inr \<lparr>prs_aduib_rpc = rs_aduib_rpc resp, prs_id = or_empty (rs_id resp),
            prs_status = response_status_to_wire (Member (rs_status resp)), prs_payload = payload,
            prs_trace_context = map_option trace_context_to_proto (rs_trace_context resp),
            prs_metadata = meta\<rparr>))"

text \<open>Errors inside task records keep their details and debug information.\<close>

definition str_map :: "(pyval \<Rightarrow> string) \<Rightarrow> (string, pyval) dict \<Rightarrow> (string, string) dict" where
  "str_map other d = map (\<lambda>(k, v). (k, py_str other v)) d"

definition error_detail_to_proto :: "('s, 'v) pb_lib \<Rightarrow> error_detail \<Rightarrow> pb_error_detail" where
  "error_detail_to_proto lib item =
     \<lparr>ped_type = detail_type item, ped_field = detail_field item, ped_reason = detail_reason item,
      ped_metadata = str_map (pb_other_str lib) (or_empty (detail_metadata item))\<rparr>"

definition debug_info_to_proto :: "debug_info \<Rightarrow> exn + pb_debug_info" where
  "debug_info_to_proto debug =
     bind_ok (int_field 64 (debug_timestamp_ms debug)) (\<lambda>ts.
       Inr \<lparr>pdi_stack_trace = stack_trace debug, pdi_internal_message = internal_message debug,
            pdi_timestamp_ms = ts\<rparr>)"

definition or_unknown :: "string \<Rightarrow> string" where
  "or_unknown s = (if s = [] then ''UNKNOWN'' else s)"

definition rpc_error_to_proto :: "('s, 'v) pb_lib \<Rightarrow> rpc_error \<Rightarrow> exn + pb_rpc_error" where
  "rpc_error_to_proto lib err =
     bind_ok (int_field 32 (err_code err)) (\<lambda>code.
     bind_ok (opt_ok debug_info_to_proto (err_debug err)) (\<lambda>dbg.
       Inr \<lparr>pre_code = code, pre_name = or_unknown (err_name err), pre_message = err_message err,
            pre_details = map (error_detail_to_proto lib) (or_empty (err_details err)),
            pre_debug = dbg\<rparr>))"

definition task_progress_to_proto :: "task_progress \<Rightarrow> exn + pb_task_progress" where
  "task_progress_to_proto p =
     bind_ok (int_field 64 (tp_current p)) (\<lambda>cur.
     bind_ok (int_field 64 (tp_total p)) (\<lambda>tot.
       Inr \<lparr>ptp_current = cur, ptp_total = tot, ptp_message = tp_message p,
            ptp_percentage = tp_percentage p\<rparr>))"

text \<open>A result the library refuses is sent as its text.\<close>

definition result_to_proto :: "('s, 'v) pb_lib \<Rightarrow> pyval \<Rightarrow> exn + 'v option" where
  "result_to_proto lib v =
     (if v = PNone then Inr None
      else (case pb_parse_value lib v of
              Inr x \<Rightarrow> Inr (Some x)
            | Inl _ \<Rightarrow> bind_ok (pb_parse_value lib (PStr (py_str (pb_other_str lib) v))) (\<lambda>x. Inr (Some x))))"

definition task_record_to_proto :: "('s, 'v) pb_lib \<Rightarrow> task_record \<Rightarrow> exn + 'v pb_task_record" where
  "task_record_to_proto lib r =
     bind_ok (int_field 64 (created_at_ms r)) (\<lambda>created.
     bind_ok (int_field 32 (attempt r)) (\<lambda>att.
     bind_ok (int_field 32 (max_attempts r)) (\<lambda>max_att.
     bind_ok (opt_ok (int_field 64) (scheduled_at_ms r)) (\<lambda>scheduled.
     bind_ok (opt_ok (int_field 64) (started_at_ms r)) (\<lambda>started.
     bind_ok (opt_ok (int_field 64) (completed_at_ms r)) (\<lambda>completed.
     bind_ok (opt_ok (int_field 64) (next_retry_at_ms r)) (\<lambda>next_retry.
     bind_ok (result_to_proto lib (result r)) (\<lambda>res.
     bind_ok (opt_ok (rpc_error_to_proto lib) (task_error r)) (\<lambda>err.
     bind_ok (opt_ok task_progress_to_proto (progress r)) (\<lambda>prog.
       Inr \<lparr>ptr_task_id = task_id r, ptr_parent_task_id = parent_task_id r,
            ptr_status = task_status_to_wire (Member (status r)),
            ptr_priority = priority_to_wire (Member (task_priority r)),
            ptr_created_at_ms = created, ptr_scheduled_at_ms = scheduled,
            ptr_started_at_ms = started, ptr_completed_at_ms = completed, ptr_attempt = att,
            ptr_max_attempts = max_att, ptr_next_retry_at_ms = next_retry, ptr_result = res,
            ptr_error = err, ptr_progress = prog,
            ptr_metadata = str_map (pb_other_str lib) (or_empty (metadata r)),
            ptr_tags = or_empty (tags r)\<rparr>))))))))))"

text \<open>
  The priority of a submission goes through \<open>Priority.from_proto\<close> where the other messages use
  \<open>Priority.to_proto\<close>: the number written is the value of the member.
\<close>

definition task_submit_request_to_proto ::
  "('s, 'v) pb_lib \<Rightarrow> task_submit_request \<Rightarrow> 's pb_task_submit_request" where
  "task_submit_request_to_proto lib sub =
     \<lparr>pts_target_method = tsr_target_method sub,
      pts_params = fill_struct lib (opt_dict (tsr_params sub)) None,
      pts_priority = priority_value (priority_from_wire (tsr_priority sub))\<rparr>"

definition health_response_to_proto :: "health_check_response \<Rightarrow> int \<times> (string, int) dict" where
  "health_response_to_proto payload =
     (health_status_to_wire (Member (hcr_status payload)),
      map (\<lambda>(k, v). (k, health_status_to_wire (Member v))) (or_empty (hcr_services payload)))"

section \<open>\<open>FromProto\<close>\<close>

definition trace_context_from_proto :: "pb_trace_context \<Rightarrow> exn + trace_context" where
  "trace_context_from_proto value =
     new_trace_context (ptc_trace_id value) (ptc_span_id value) (ptc_parent_span_id value)
       (ptc_sampled value) (nonempty (ptc_baggage value))"

definition auth_context_from_proto :: "pb_auth_context \<Rightarrow> auth_context" where
  "auth_context_from_proto value =
     \<lparr>ac_scheme = auth_scheme_from_wire (Other (PInt (pac_scheme value))),
      ac_credentials = pac_credentials value, ac_principal = pac_principal value,
      ac_principal_type = None, ac_roles = nonempty (pac_roles value)\<rparr>"

definition request_metadata_from_proto :: "pb_request_metadata \<Rightarrow> request_metadata" where
  "request_metadata_from_proto value =
     \<lparr>rm_timestamp_ms = prm_timestamp_ms value, rm_client_id = prm_client_id value,
      rm_client_version = prm_client_version value,
      rm_auth = map_option auth_context_from_proto (prm_auth value),
      rm_tenant_id = prm_tenant_id value, rm_headers = nonempty (prm_headers value),
      rm_long_task = (case prm_long_task value of None \<Rightarrow> False | Some b \<Rightarrow> b),
      rm_long_task_method = prm_long_task_method value,
      rm_long_task_timeout = prm_long_task_timeout value\<rparr>"

definition response_metadata_from_proto :: "pb_response_metadata \<Rightarrow> response_metadata" where
  "response_metadata_from_proto value =
     \<lparr>sm_timestamp_ms = psm_timestamp_ms value, sm_duration_ms = Some (psm_duration_ms value),
      sm_server_id = psm_server_id value, sm_server_version = psm_server_version value\<rparr>"

definition retry_policy_from_proto :: "pb_retry_config \<Rightarrow> retry_policy" where
  "retry_policy_from_proto value =
     (let defaults = default_retry_policy in
      defaults\<lparr>rp_max_attempts := or_default (prc_max_attempts value) (rp_max_attempts defaults),
        rp_initial_delay_ms := or_default (prc_initial_delay_ms value) (rp_initial_delay_ms defaults),
        rp_max_delay_ms := or_default (prc_max_delay_ms value) (rp_max_delay_ms defaults),
        rp_backoff_multiplier :=
          or_default (prc_backoff_multiplier value) (rp_backoff_multiplier defaults),
        rp_retryable_codes := nonempty (prc_retryable_codes value)\<rparr>)"

definition qos_config_from_proto :: "pb_qos_config \<Rightarrow> qos_config" where
  "qos_config_from_proto value =
     default_qos_config\<lparr>
       qc_priority := Member (priority_from_wire (Other (PInt (pqc_priority value)))),
       qc_timeout_ms := pqc_timeout_ms value,
       qc_retry := map_option retry_policy_from_proto (pqc_retry value),
       qc_idempotency_key := pqc_idempotency_key value\<rparr>"

definition request_from_proto :: "('s, 'v) pb_lib \<Rightarrow> 's pb_request \<Rightarrow> exn + rpc_request" where
  "request_from_proto lib m =
     bind_ok (opt_ok trace_context_from_proto (prq_trace_context m)) (\<lambda>tc.
       new_request (prq_aduib_rpc m) (Some (prq_id m)) (prq_method m) (prq_name m)
         (case prq_data m of None \<Rightarrow> PNone | Some s \<Rightarrow> pb_to_dict lib s) tc
         (map_option request_metadata_from_proto (prq_metadata m))
         (map_option (\<lambda>q. Qos (qos_config_from_proto q)) (prq_qos m)) None)"

definition error_detail_from_proto :: "pb_error_detail \<Rightarrow> error_detail" where
  "error_detail_from_proto value =
     \<lparr>detail_type = ped_type value, detail_field = ped_field value, detail_reason = ped_reason value,
      detail_metadata = nonempty (map (\<lambda>(k, v). (k, PStr v)) (ped_metadata value))\<rparr>"

definition debug_info_from_proto :: "pb_debug_info \<Rightarrow> debug_info" where
  "debug_info_from_proto value =
     \<lparr>stack_trace = pdi_stack_trace value, internal_message = pdi_internal_message value,
      debug_timestamp_ms = pdi_timestamp_ms value\<rparr>"

definition rpc_error_from_proto :: "pb_rpc_error \<Rightarrow> rpc_error" where
  "rpc_error_from_proto value =
     \<lparr>err_code = pre_code value, err_name = or_unknown (pre_name value),
      err_message = pre_message value,
      err_details = nonempty (map error_detail_from_proto (pre_details value)),
      err_debug = map_option debug_info_from_proto (pre_debug value)\<rparr>"

definition response_from_proto :: "('s, 'v) pb_lib \<Rightarrow> 'v pb_response \<Rightarrow> exn + rpc_response" where
  "response_from_proto lib m =
     bind_ok (opt_ok trace_context_from_proto (prs_trace_context m)) (\<lambda>tc.
       new_response (if prs_aduib_rpc m = [] then ''2.0'' else prs_aduib_rpc m) (Some (prs_id m))
         (response_status_from_wire (Other (PInt (prs_status m))))
         (case prs_payload m of PbResult v \<Rightarrow> pb_value_to_py lib v | _ \<Rightarrow> PNone)
         (case prs_payload m of PbError e \<Rightarrow> Some (rpc_error_from_proto e) | _ \<Rightarrow> None)
         tc (map_option response_metadata_from_proto (prs_metadata m)))"

definition task_progress_from_proto :: "pb_task_progress \<Rightarrow> task_progress" where
  "task_progress_from_proto value =
     \<lparr>tp_current = ptp_current value, tp_total = ptp_total value, tp_message = ptp_message value,
      tp_percentage = ptp_percentage value\<rparr>"

definition task_record_from_proto :: "('s, 'v) pb_lib \<Rightarrow> 'v pb_task_record \<Rightarrow> task_record" where
  "task_record_from_proto lib m =
     \<lparr>task_id = ptr_task_id m, parent_task_id = ptr_parent_task_id m,
      status = task_status_from_wire (Other (PInt (ptr_status m))),
      task_priority = priority_from_wire (Other (PInt (ptr_priority m))),
      created_at_ms = ptr_created_at_ms m, scheduled_at_ms = ptr_scheduled_at_ms m,
      started_at_ms = ptr_started_at_ms m, completed_at_ms = ptr_completed_at_ms m,
      attempt = ptr_attempt m, max_attempts = ptr_max_attempts m,
      next_retry_at_ms = ptr_next_retry_at_ms m,
      result = (case ptr_result m of None \<Rightarrow> PNone | Some v \<Rightarrow> pb_value_to_py lib v),
      task_error = map_option rpc_error_from_proto (ptr_error m),
      progress = map_option task_progress_from_proto (ptr_progress m),
      metadata = nonempty (map (\<lambda>(k, v). (k, PStr v)) (ptr_metadata m)),
      tags = nonempty (ptr_tags m)\<rparr>"

definition task_submit_request_from_proto ::
  "('s, 'v) pb_lib \<Rightarrow> 's pb_task_submit_request \<Rightarrow> exn + task_submit_request" where
  "task_submit_request_from_proto lib m =
     new_task_submit_request (pts_target_method m)
       (case pts_params m of None \<Rightarrow> PNone | Some s \<Rightarrow> pb_to_dict lib s)
       (Member (priority_from_wire (Other (PInt (pts_priority m)))))"

text \<open>The remaining task and health messages: identifier and reason, events, service.\<close>

definition task_cancel_request_from_proto :: "string \<times> string option \<Rightarrow> task_cancel_request" where
  "task_cancel_request_from_proto m = \<lparr>tcr_task_id = fst m, tcr_reason = snd m\<rparr>"

definition task_subscribe_request_from_proto :: "string \<times> string list \<Rightarrow> task_subscribe_request" where
  "task_subscribe_request_from_proto m = \<lparr>tbr_task_id = fst m, tbr_events = nonempty (snd m)\<rparr>"

definition task_submit_response_from_proto :: "string \<times> int \<times> int \<Rightarrow> task_submit_response" where
  "task_submit_response_from_proto m =
     \<lparr>tss_task_id = fst m, tss_status = task_status_from_wire (Other (PInt (fst (snd m)))),
      tss_created_at_ms = snd (snd m)\<rparr>"

definition health_response_from_proto :: "int \<times> (string, int) dict \<Rightarrow> health_check_response" where
  "health_response_from_proto m =
     \<lparr>hcr_status = health_status_from_wire (Other (PInt (fst m))),
      hcr_services =
        nonempty (map (\<lambda>(k, v). (k, health_status_from_wire (Other (PInt v)))) (snd m))\<rparr>"

section \<open>Encoding and decoding\<close>

lemma int_field_fits [simp]: "fits bits v \<Longrightarrow> int_field bits v = Inr v"
  by (simp add: int_field_def)

lemma opt_int_fits [simp]: "opt_fits bits x \<Longrightarrow> opt_ok (int_field bits) x = Inr x"
  by (cases x) (simp_all add: opt_fits_def)

lemma opt_round_trip:
  assumes "\<And>v. x = Some v \<Longrightarrow> \<exists>p. enc v = Inr p \<and> dec p = view v"
  shows "\<exists>q. opt_ok enc x = Inr q \<and> map_option dec q = map_option view x"
  using assms by (cases x) auto

lemma trace_round_trip:
  "trace_ok t \<Longrightarrow> trace_context_from_proto (trace_context_to_proto t) = Inr (trace_view t)"
  by (simp add: trace_context_from_proto_def trace_context_to_proto_def new_trace_context_of_ok
      trace_view_def)

lemma opt_trace_round_trip:
  "(case x of None \<Rightarrow> True | Some t \<Rightarrow> trace_ok t) \<Longrightarrow>
     opt_ok trace_context_from_proto (map_option trace_context_to_proto x) = Inr (map_option trace_view x)"
  by (cases x) (simp_all add: trace_round_trip)

lemma auth_round_trip: "auth_context_from_proto (auth_context_to_proto a) = auth_view a"
  by (simp add: auth_context_from_proto_def auth_context_to_proto_def auth_view_def scheme_wire_view)

lemma metadata_round_trip:
  "fits 64 (rm_timestamp_ms m) \<Longrightarrow> opt_fits 32 (rm_long_task_timeout m) \<Longrightarrow>
     \<exists>p. request_metadata_to_proto m = Inr p \<and> request_metadata_from_proto p = metadata_view m"
  by (simp add: request_metadata_to_proto_def request_metadata_from_proto_def metadata_view_def
      option.map_comp comp_def auth_round_trip)

lemma response_metadata_round_trip:
  "fits 64 (sm_timestamp_ms m) \<Longrightarrow> opt_fits 64 (sm_duration_ms m) \<Longrightarrow>
     \<exists>p. response_metadata_to_proto m = Inr p
       \<and> response_metadata_from_proto p = response_metadata_view m"
  by (auto simp: response_metadata_to_proto_def response_metadata_from_proto_def
      response_metadata_view_def opt_fits_def fits_def split: option.splits)

lemma retry_round_trip:
  assumes "retry_fits p"
  shows "\<exists>m. retry_config_to_proto p = Inr m \<and> retry_policy_from_proto m = retry_view p"
proof -
  have "list_ok (int_field 32) (or_empty (rp_retryable_codes p)) = Inr (or_empty (rp_retryable_codes p))"
    using assms list_ok_map [of "or_empty (rp_retryable_codes p)" "int_field 32" "\<lambda>x. x"]
    by (simp add: retry_fits_def list_all_iff)
  with assms show ?thesis
    by (simp add: retry_config_to_proto_def retry_policy_from_proto_def retry_view_def retry_fits_def
        default_retry_policy_def Let_def)
qed

lemma qos_round_trip:
  assumes "opt_fits 64 (qc_timeout_ms q)" "case qc_retry q of None \<Rightarrow> True | Some p \<Rightarrow> retry_fits p"
  shows "\<exists>m. qos_config_to_proto (Qos q) = Inr m \<and> Qos (qos_config_from_proto m) = qos_field_view (Qos q)"
proof -
  have "\<exists>m. opt_ok retry_config_to_proto (qc_retry q) = Inr m
      \<and> map_option retry_policy_from_proto m = map_option retry_view (qc_retry q)"
    using assms(2) by (intro opt_round_trip) (auto dest: retry_round_trip)
  with assms(1) show ?thesis
    by (auto simp: qos_config_to_proto_def qos_config_from_proto_def qos_field_view_def qos_view_def)
qed

text \<open>
  What the library is relied on for: filling an absent \<open>Struct\<close> field with a dictionary makes
  it present, and it reads back as some dictionary (numbers may have become floats).
\<close>

definition data_carried ::
  "('s, 'v) pb_lib \<Rightarrow> (string, pyval) dict option \<Rightarrow> (string, pyval) dict option \<Rightarrow> bool" where
  "data_carried lib d d' =
     (case d of
        None \<Rightarrow> d' = None
      | Some x \<Rightarrow> (\<exists>s x'. pb_parse_dict lib (PDict x) None = (True, Some s)
                     \<and> pb_to_dict lib s = PDict x' \<and> d' = Some x'))"

lemma data_carried_fill:
  "data_carried lib d d' \<Longrightarrow>
     validate_data (case fill_struct lib (opt_dict d) None of None \<Rightarrow> PNone | Some s \<Rightarrow> pb_to_dict lib s)
       = Inr d'"
  by (auto simp: data_carried_def fill_struct_def fill_dict_def opt_dict_def validate_data_def
      split: option.splits)

lemma grpc_request_delivered:
  assumes "request_sendable r" "data_carried lib (rq_data r) d"
  shows "\<exists>m. request_to_proto lib r = Inr m \<and> request_from_proto lib m = Inr (request_view d r)"
proof -
  have "\<exists>m. opt_ok request_metadata_to_proto (rq_metadata r) = Inr m
      \<and> map_option request_metadata_from_proto m = map_option metadata_view (rq_metadata r)"
    using assms(1) by (intro opt_round_trip metadata_round_trip) (auto simp: request_sendable_def)
  then obtain meta where meta: "opt_ok request_metadata_to_proto (rq_metadata r) = Inr meta"
    "map_option request_metadata_from_proto meta = map_option metadata_view (rq_metadata r)" by blast
  have "\<exists>m. opt_ok qos_config_to_proto (rq_qos r) = Inr m
      \<and> map_option (\<lambda>q. Qos (qos_config_from_proto q)) m = map_option qos_field_view (rq_qos r)"
    using assms(1) qos_round_trip
    by (intro opt_round_trip) (auto simp: request_sendable_def split: qos_field.splits)
  then obtain qos where qos: "opt_ok qos_config_to_proto (rq_qos r) = Inr qos"
    "map_option (\<lambda>q. Qos (qos_config_from_proto q)) qos = map_option qos_field_view (rq_qos r)" by blast
  have tc: "opt_ok trace_context_from_proto (map_option trace_context_to_proto (rq_trace_context r))
      = Inr (map_option trace_view (rq_trace_context r))"
    using assms(1) by (intro opt_trace_round_trip) (simp add: request_sendable_def)
  show ?thesis
    using assms(1) data_carried_fill [OF assms(2)]
    by (simp add: request_to_proto_def request_from_proto_def meta qos tc new_request_def
        validate_version_def request_view_def request_sendable_def)
qed

text \<open>
  C10. A request the schema can carry is encoded without error, and the
  server decodes it to exactly \<open>request_view\<close> of it: method, name, identifiers, trace, metadata and QoS
  survive, up to what the schema has no place for (the principal's type, \<open>BASIC\<close>, \<open>enabled\<close>,
  \<open>idempotency_ttl_s\<close>, strategy and jitter, supported versions, \<open>meta\<close>) and zeros in retry settings.
\<close>

theorem grpc_request_round_trip:
  assumes "request_sendable r" "data_carried lib (rq_data r) d"
  shows "\<exists>m. request_to_proto lib r = Inr m \<and> request_from_proto lib m = Inr (request_view d r)"
  using assms by (rule grpc_request_delivered)

text \<open>A library that stores dictionaries and values as they are, for the witnesses.\<close>

definition plain_pb :: "((string, pyval) dict, pyval) pb_lib" where
  "plain_pb =
     \<lparr>pb_parse_dict = (\<lambda>v t. case v of PDict d \<Rightarrow> (True, Some (or_empty t @ d)) | _ \<Rightarrow> (False, t)),
      pb_update = (\<lambda>v t. case v of PDict d \<Rightarrow> (True, Some (or_empty t @ d)) | _ \<Rightarrow> (False, t)),
      pb_setitem = (\<lambda>k v t. (True, Some (AList.update k v (or_empty t)))),
      pb_to_dict = PDict, pb_parse_value = Inr, pb_value_to_py = (\<lambda>v. v),
      pb_other_str = (\<lambda>_. [])\<rparr>"

definition sample_trace :: trace_context where
  "sample_trace =
     \<lparr>tc_trace_id = replicate 32 (CHR ''a''), tc_span_id = replicate 16 (CHR ''7''),
      tc_parent_span_id = None, tc_sampled = True, tc_baggage = Some []\<rparr>"

definition sample_request :: rpc_request where
  "sample_request =
     \<lparr>rq_aduib_rpc = ''2.0'', rq_id = Some ''1'', rq_method = ''rpc.v2/Svc/add'', rq_name = None,
      rq_data = Some [(''x'', PInt 1)], rq_supported_versions = None,
      rq_trace_context = Some sample_trace,
      rq_metadata = Some \<lparr>rm_timestamp_ms = 5, rm_client_id = Some ''c'', rm_client_version = None,
        rm_auth = Some \<lparr>ac_scheme = BASIC, ac_credentials = Some ''s'', ac_principal = Some ''u'',
          ac_principal_type = Some ''service'', ac_roles = Some [''admin'']\<rparr>,
        rm_tenant_id = Some ''t'', rm_headers = None, rm_long_task = False,
        rm_long_task_method = None, rm_long_task_timeout = None\<rparr>,
      rq_qos = Some (Qos (default_qos_config\<lparr>qc_priority := Member HIGH, qc_retry := Some default_retry_policy\<rparr>)),
      rq_meta = None, rq_id_str = None\<rparr>"

lemma sample_sendable: "request_sendable sample_request"
  by (simp add: request_sendable_def sample_request_def sample_trace_def trace_ok_def hex_of_length_def
      list_all_iff is_hex_def is_digit_def ascii_code_def fits_def opt_fits_def retry_fits_def
      default_qos_config_def default_retry_policy_def Let_def)

theorem grpc_request_round_trip_witness:
  "\<exists>m r. request_to_proto plain_pb sample_request = Inr m \<and> request_from_proto plain_pb m = Inr r
     \<and> rq_data r = Some [(''x'', PInt 1)] \<and> rq_method r = ''rpc.v2/Svc/add''
     \<and> map_option rm_auth (rq_metadata r) = Some (Some \<lparr>ac_scheme = UNSPECIFIED,
         ac_credentials = Some ''s'', ac_principal = Some ''u'', ac_principal_type = None,
         ac_roles = Some [''admin'']\<rparr>)"
proof -
  have d: "data_carried plain_pb (rq_data sample_request) (Some [(''x'', PInt 1)])"
    by (simp add: data_carried_def sample_request_def plain_pb_def)
  from grpc_request_round_trip [OF sample_sendable d] show ?thesis
    by (auto simp: request_view_def metadata_view_def auth_view_def sample_request_def)
qed

text \<open>
  What a client sees of a response: identifier, status, trace and metadata
  are kept; a success brings its result; of an error only code, name and message arrive, never the
  details or the debug information; and a response that is neither a success nor has an error (a
  \<open>PARTIAL\<close> one) loses its result.
\<close>

theorem grpc_response_relay:
  assumes "response_sendable r"
    and "is_success r \<Longrightarrow> pb_parse_value lib (rs_result r) = Inr v \<and> pb_value_to_py lib v = res"
  shows "\<exists>m. response_to_proto lib r = Inr m \<and> response_from_proto lib m = Inr
    \<lparr>rs_aduib_rpc = ''2.0'', rs_id = Some (or_empty (rs_id r)), rs_status = rs_status r,
     rs_result = (if is_success r then res else PNone),
     rs_error = map_option (\<lambda>e. e\<lparr>err_name := or_unknown (err_name e), err_details := None, err_debug := None\<rparr>)
       (rs_error r),
     rs_negotiated_version = None,
     rs_trace_context = map_option trace_view (rs_trace_context r),
     rs_metadata = map_option response_metadata_view (rs_metadata r)\<rparr>"
proof -
  have "\<exists>m. opt_ok response_metadata_to_proto (rs_metadata r) = Inr m
      \<and> map_option response_metadata_from_proto m = map_option response_metadata_view (rs_metadata r)"
    using assms(1)
    by (intro opt_round_trip response_metadata_round_trip) (auto simp: response_sendable_def)
  then obtain meta where meta: "opt_ok response_metadata_to_proto (rs_metadata r) = Inr meta"
    "map_option response_metadata_from_proto meta = map_option response_metadata_view (rs_metadata r)"
    by blast
  have tc: "opt_ok trace_context_from_proto (map_option trace_context_to_proto (rs_trace_context r))
      = Inr (map_option trace_view (rs_trace_context r))"
    using assms(1) by (intro opt_trace_round_trip) (simp add: response_sendable_def)
  have st: "response_status_from_wire (Other (PInt (response_status_to_wire (Member s)))) = s" for s
    by (cases s) (simp_all add: response_status_wire_defs)
  note defs = response_to_proto_def response_from_proto_def meta tc st new_response_def
    validate_version_def validate_result_error_def rpc_error_from_proto_def
  show ?thesis
  proof (cases "rs_error r")
    case None
    with assms show ?thesis
      by (cases "is_success r") (simp_all add: defs response_sendable_def)
  next
    case (Some e)
    then have "\<not> is_success r" by (simp add: is_success_def)
    with assms(1) Some show ?thesis by (simp add: defs response_sendable_def)
  qed
qed

definition sample_response :: "response_status \<Rightarrow> rpc_error option \<Rightarrow> pyval \<Rightarrow> rpc_response" where
  "sample_response st err res =
     \<lparr>rs_aduib_rpc = ''2.0'', rs_id = Some ''1'', rs_status = st, rs_result = res, rs_error = err,
      rs_negotiated_version = None, rs_trace_context = None, rs_metadata = None\<rparr>"

theorem grpc_response_relay_witness:
  "(\<exists>m r. response_to_proto plain_pb (sample_response PARTIAL None (PInt 7)) = Inr m
      \<and> response_from_proto plain_pb m = Inr r \<and> rs_status r = PARTIAL \<and> rs_result r = PNone)
   \<and> (\<exists>m r. response_to_proto plain_pb (sample_response SUCCESS None (PInt 7)) = Inr m
      \<and> response_from_proto plain_pb m = Inr r \<and> rs_result r = PInt 7)"
proof -
  have s: "response_sendable (sample_response st None res)" for st res
    by (simp add: response_sendable_def sample_response_def)
  show ?thesis
    using grpc_response_relay [OF s, of PARTIAL "PInt 7" plain_pb]
      grpc_response_relay [OF s, of SUCCESS "PInt 7" plain_pb "PInt 7" "PInt 7"]
    by (auto simp: is_success_def sample_response_def plain_pb_def)
qed

section \<open>Task messages\<close>

definition detail_view :: "(pyval \<Rightarrow> string) \<Rightarrow> error_detail \<Rightarrow> error_detail" where
  "detail_view other d =
     d\<lparr>detail_metadata :=
         nonempty (map (\<lambda>(k, v). (k, PStr (py_str other v))) (or_empty (detail_metadata d)))\<rparr>"

definition error_view :: "(pyval \<Rightarrow> string) \<Rightarrow> rpc_error \<Rightarrow> rpc_error" where
  "error_view other e =
     e\<lparr>err_name := or_unknown (err_name e),
       err_details := nonempty (map (detail_view other) (or_empty (err_details e)))\<rparr>"

definition record_fits :: "task_record \<Rightarrow> bool" where
  "record_fits r \<longleftrightarrow> fits 64 (created_at_ms r) \<and> fits 32 (attempt r) \<and> fits 32 (max_attempts r)
     \<and> opt_fits 64 (scheduled_at_ms r) \<and> opt_fits 64 (started_at_ms r)
     \<and> opt_fits 64 (completed_at_ms r) \<and> opt_fits 64 (next_retry_at_ms r)
     \<and> (case task_error r of None \<Rightarrow> True | Some e \<Rightarrow> fits 32 (err_code e)
         \<and> (case err_debug e of None \<Rightarrow> True | Some d \<Rightarrow> fits 64 (debug_timestamp_ms d)))
     \<and> (case progress r of None \<Rightarrow> True | Some p \<Rightarrow> fits 64 (tp_current p) \<and> fits 64 (tp_total p))"

definition record_view :: "(pyval \<Rightarrow> string) \<Rightarrow> pyval \<Rightarrow> task_record \<Rightarrow> task_record" where
  "record_view other res r =
     r\<lparr>result := res, task_error := map_option (error_view other) (task_error r),
       metadata := nonempty (map (\<lambda>(k, v). (k, PStr (py_str other v))) (or_empty (metadata r))),
       tags := nonempty (or_empty (tags r))\<rparr>"

lemma or_unknown_idem [simp]: "or_unknown (or_unknown s) = or_unknown s"
  by (simp add: or_unknown_def)

lemma detail_round_trip:
  "error_detail_from_proto (error_detail_to_proto lib d) = detail_view (pb_other_str lib) d"
  by (simp add: error_detail_from_proto_def error_detail_to_proto_def detail_view_def str_map_def
      comp_def case_prod_unfold)

lemma error_round_trip:
  assumes "fits 32 (err_code e)"
    "case err_debug e of None \<Rightarrow> True | Some d \<Rightarrow> fits 64 (debug_timestamp_ms d)"
  shows "\<exists>m. rpc_error_to_proto lib e = Inr m \<and> rpc_error_from_proto m = error_view (pb_other_str lib) e"
proof -
  have "\<exists>m. opt_ok debug_info_to_proto (err_debug e) = Inr m
      \<and> map_option debug_info_from_proto m = map_option (\<lambda>d. d) (err_debug e)"
    using assms(2) by (intro opt_round_trip) (simp add: debug_info_to_proto_def debug_info_from_proto_def)
  with assms(1) show ?thesis
    by (auto simp: rpc_error_to_proto_def rpc_error_from_proto_def error_view_def comp_def
        detail_round_trip option.map_ident)
qed

lemma progress_round_trip:
  "fits 64 (tp_current p) \<Longrightarrow> fits 64 (tp_total p) \<Longrightarrow>
     \<exists>m. task_progress_to_proto p = Inr m \<and> task_progress_from_proto m = p"
  by (simp add: task_progress_to_proto_def task_progress_from_proto_def)

text \<open>
  A task record reaches the client whole: status, priority, times, error
  with details and debug information, and progress are the same; metadata values arrive as text, and
  empty collections as \<open>None\<close>.
\<close>

theorem grpc_task_record_round_trip:
  assumes "record_fits r"
    and "if result r = PNone then res = PNone
         else \<exists>v. pb_parse_value lib (result r) = Inr v \<and> pb_value_to_py lib v = res"
  shows "\<exists>m. task_record_to_proto lib r = Inr m
    \<and> task_record_from_proto lib m = record_view (pb_other_str lib) res r"
proof -
  have "\<exists>m. opt_ok (rpc_error_to_proto lib) (task_error r) = Inr m
      \<and> map_option rpc_error_from_proto m = map_option (error_view (pb_other_str lib)) (task_error r)"
    using assms(1) by (intro opt_round_trip error_round_trip) (auto simp: record_fits_def)
  then obtain err where err: "opt_ok (rpc_error_to_proto lib) (task_error r) = Inr err"
    "map_option rpc_error_from_proto err = map_option (error_view (pb_other_str lib)) (task_error r)" by blast
  have "\<exists>m. opt_ok task_progress_to_proto (progress r) = Inr m
      \<and> map_option task_progress_from_proto m = map_option (\<lambda>p. p) (progress r)"
    using assms(1) by (intro opt_round_trip progress_round_trip) (auto simp: record_fits_def)
  then obtain prog where prog: "opt_ok task_progress_to_proto (progress r) = Inr prog"
    "map_option task_progress_from_proto prog = progress r" by (auto simp: option.map_ident)
  obtain rv where rv: "result_to_proto lib (result r) = Inr rv"
    "(case rv of None \<Rightarrow> PNone | Some v \<Rightarrow> pb_value_to_py lib v) = res"
    using assms(2) by (auto simp: result_to_proto_def split: if_splits)
  have wire: "task_status_from_wire (Other (PInt (task_status_to_wire (Member s)))) = s"
    "priority_from_wire (Other (PInt (priority_to_wire (Member q)))) = q" for s q
    by (rule task_status_codec.of_to priority_codec.of_to; simp)+
  show ?thesis
    using assms(1) by (simp add: task_record_to_proto_def task_record_from_proto_def err prog rv wire
        record_fits_def record_view_def str_map_def comp_def case_prod_unfold)
qed

theorem grpc_task_record_round_trip_witness:
  "\<exists>m. task_record_to_proto plain_pb ((new_record ''t'' 5)\<lparr>status := SUCCEEDED, result := PInt 3\<rparr>) = Inr m
    \<and> task_record_from_proto plain_pb m = (new_record ''t'' 5)\<lparr>status := SUCCEEDED, result := PInt 3\<rparr>"
proof -
  let ?r = "(new_record ''t'' 5)\<lparr>status := SUCCEEDED, result := PInt 3\<rparr>"
  have "record_fits ?r" by (simp add: record_fits_def new_record_def fits_def opt_fits_def)
  from grpc_task_record_round_trip [OF this, of "PInt 3" plain_pb] show ?thesis
    by (simp add: record_view_def new_record_def plain_pb_def)
qed

text \<open>
  A task submitted over gRPC does not arrive with its priority: \<open>HIGH\<close> and
  \<open>CRITICAL\<close> arrive one level lower, \<open>NORMAL\<close> (and the default) as \<open>LOW\<close>, and \<open>LOW\<close> as \<open>NORMAL\<close>;
  method and parameters arrive unchanged.
\<close>

theorem grpc_submit_priority:
  assumes "data_carried lib (tsr_params s) d"
  shows "task_submit_request_from_proto lib (task_submit_request_to_proto lib s) = Inr
    \<lparr>tsr_target_method = tsr_target_method s, tsr_params = d,
     tsr_priority = Member
       (case priority_from_wire (tsr_priority s) of LOW \<Rightarrow> NORMAL | NORMAL \<Rightarrow> LOW | HIGH \<Rightarrow> NORMAL
        | CRITICAL \<Rightarrow> HIGH)\<rparr>"
proof -
  have "priority_from_wire (Other (PInt (priority_value p))) =
      (case p of LOW \<Rightarrow> NORMAL | NORMAL \<Rightarrow> LOW | HIGH \<Rightarrow> NORMAL | CRITICAL \<Rightarrow> HIGH)" for p
    by (cases p) (simp_all add: priority_wire_defs)
  with data_carried_fill [OF assms] show ?thesis
    by (simp add: task_submit_request_from_proto_def task_submit_request_to_proto_def
        new_task_submit_request_def)
qed

theorem grpc_submit_priority_witness:
  "task_submit_request_from_proto plain_pb (task_submit_request_to_proto plain_pb
       \<lparr>tsr_target_method = ''m'', tsr_params = None, tsr_priority = default_submit_priority\<rparr>)
     = Inr \<lparr>tsr_target_method = ''m'', tsr_params = None, tsr_priority = Member LOW\<rparr>"
  using grpc_submit_priority [of plain_pb
      "\<lparr>tsr_target_method = ''m'', tsr_params = None, tsr_priority = default_submit_priority\<rparr>" None]
  by (simp add: data_carried_def default_submit_priority_def priority_from_wire_def wire_dispatch_def
      number_or_def getattr_value_def)

end
