(* ===== verification/Server_Interceptors.thy ===== *)
theory Server_Interceptors
  imports Interceptor_Chain Method_Names Grpc_Codec
begin

text \<open>
  The interceptors that decide about a request: security (\<open>server/interceptors/security.py\<close>
  with the default validator of \<open>security/validators.py\<close>), version negotiation
  (\<open>server/interceptors/version_negotiation.py\<close>) and tenant scoping
  (\<open>server/interceptors/tenant.py\<close>).
\<close>

section \<open>Security\<close>

record security_config =
  sc_rbac_enabled :: bool
  sc_audit_enabled :: bool
  sc_default_role :: string
  sc_superadmin_role :: "string option"
  sc_require_auth :: bool
  sc_anonymous_methods :: "string list"

definition default_security_config :: security_config where
  "default_security_config =
     \<lparr>sc_rbac_enabled = True, sc_audit_enabled = True, sc_default_role = ''anonymous'',
      sc_superadmin_role = Some ''admin'', sc_require_auth = False,
      sc_anonymous_methods = [''health'', ''metrics'', ''ping'']\<rparr>"

record security_event =
  se_type :: string
  se_tenant_id :: "string option"
  se_request_id :: "string option"
  se_trace_id :: "string option"
  se_principal :: pyval
  se_details :: "(string, pyval) dict"

text \<open>How a service function declares its permission: an object, or any other value.\<close>

datatype permission_decl = PermObject permission | PermValue pyval

text \<open>
  The collaborators: the token and permission validators, the audit logger, the registered
  functions with their declared permissions, and \<open>str()\<close> of other values.
\<close>

record 'w security =
  sx_config :: security_config
  sx_validate :: "string \<Rightarrow> string \<Rightarrow> 'w ctx \<Rightarrow> exn + principal option"
  sx_check :: "principal \<Rightarrow> permission \<Rightarrow> string \<Rightarrow> 'w ctx \<Rightarrow> bool"
  sx_log :: "security_event \<Rightarrow> 'w \<Rightarrow> 'w"
  sx_funcs :: "(string, permission_decl) dict"
  sx_str :: "pyval \<Rightarrow> string"

text \<open>\<open>MetadataTokenValidator.validate\<close>: it looks at the metadata only.\<close>

definition metadata_validate :: "string \<Rightarrow> string \<Rightarrow> 'w ctx \<Rightarrow> exn + principal option" where
  "metadata_validate token method c =
     (case rq_metadata (cx_request c) of
        Some m \<Rightarrow>
          (case rm_auth m of
             Some a \<Rightarrow>
               (case ac_principal a of
                  Some (x # xs) \<Rightarrow>
                    Inr (Some \<lparr>pr_id = PStr (x # xs),
                               pr_type = PStr (if or_empty (ac_principal_type a) = [] then ''user''
                                               else or_empty (ac_principal_type a)),
                               pr_roles = or_empty (ac_roles a), pr_metadata = []\<rparr>)
                | _ \<Rightarrow> Inl (new_rpc_exn InvalidTokenError None PNone None))
           | None \<Rightarrow> Inl (new_rpc_exn InvalidTokenError None PNone None))
      | None \<Rightarrow> Inl (new_rpc_exn InvalidTokenError None PNone None))"

text \<open>
  The policy the interceptor builds when it is given none; the superadmin role is set on any
  policy when the configuration names one.
\<close>

definition default_policy :: "security_config \<Rightarrow> rbac_policy" where
  "default_policy cfg =
     new_policy [\<lparr>role_name = ''admin'', role_permissions = [\<lparr>pm_resource = ''*'', pm_action = ''*''\<rparr>],
                  role_allowed = [''*''], role_denied = [], role_metadata = []\<rparr>]
       (Some (sc_default_role cfg)) False"

definition configured_policy :: "security_config \<Rightarrow> rbac_policy option \<Rightarrow> rbac_policy" where
  "configured_policy cfg given =
     (let po = (case given of Some po \<Rightarrow> po | None \<Rightarrow> default_policy cfg) in
      case sc_superadmin_role cfg of
        Some (x # xs) \<Rightarrow> set_superadmin_role (x # xs) po
      | _ \<Rightarrow> po)"

definition is_anonymous_method :: "security_config \<Rightarrow> string \<Rightarrow> bool" where
  "is_anonymous_method cfg method =
     ((\<exists>pat \<in> set (sc_anonymous_methods cfg).
         ends_with (py_lower method) (py_lower pat)
         \<or> contains_str (py_lower method) (CHR ''.'' # py_lower pat))
      \<or> (case parse_compat (Some method) of
           Inl _ \<Rightarrow> False
         | Inr n \<Rightarrow> (\<exists>pat \<in> set (sc_anonymous_methods cfg).
             starts_with (py_lower (mn_service n)) (py_lower pat)
             \<or> starts_with (py_lower (mn_handler n)) (py_lower pat))))"

definition extract_principal :: "security_config \<Rightarrow> 'w ctx \<Rightarrow> exn + principal" where
  "extract_principal cfg c =
     (case cx_principal c of
        Some p \<Rightarrow> Inr p
      | None \<Rightarrow>
          (case rq_metadata (cx_request c) of
             None \<Rightarrow> Inl (no_attribute ''auth'')
           | Some m \<Rightarrow>
               (case rm_auth m of
                  Some a \<Rightarrow>
                    Inr \<lparr>pr_id = (case ac_principal a of None \<Rightarrow> PNone | Some p \<Rightarrow> PStr p),
                         pr_type = PStr (if or_empty (ac_principal_type a) = [] then ''user''
                                         else or_empty (ac_principal_type a)),
                         pr_roles = or_empty (ac_roles a), pr_metadata = []\<rparr>
                | None \<Rightarrow>
                    (let pid = dict_get (cx_meta c) ''principal_id'' PNone in
                     if py_truthy pid
                     then Inr \<lparr>pr_id = pid, pr_type = dict_get (cx_meta c) ''principal_type'' (PStr ''user''),
                               pr_roles = [], pr_metadata = []\<rparr>
                     else Inr \<lparr>pr_id = PStr ''anonymous'', pr_type = PStr ''anonymous'',
                               pr_roles = (if sc_default_role cfg = [] then [] else [sc_default_role cfg]),
                               pr_metadata = []\<rparr>))))"

definition extract_token :: "(pyval \<Rightarrow> string) \<Rightarrow> 'w ctx \<Rightarrow> string option" where
  "extract_token other c =
     (case or_empty (Option.bind (Option.bind (rq_metadata (cx_request c)) rm_auth) ac_credentials) of
        x # xs \<Rightarrow> Some (x # xs)
      | [] \<Rightarrow>
          (case map_of (cx_state c) ''auth'' of
             Some (PDict d) \<Rightarrow>
               (let token = py_or (dict_get d ''token'' PNone) (dict_get d ''api_key'' PNone) in
                if py_truthy token then Some (py_str other token) else None)
           | _ \<Rightarrow> None))"

definition normalize_permission_data :: "(pyval \<Rightarrow> string) \<Rightarrow> permission_decl \<Rightarrow> permission option" where
  "normalize_permission_data other v =
     (case v of
        PermObject p \<Rightarrow> Some p
      | PermValue (PDict d) \<Rightarrow>
          (let resource = dict_get d ''resource'' PNone; action = dict_get d ''action'' PNone in
           if resource = PNone \<or> action = PNone then None
           else Some \<lparr>pm_resource = py_str other resource, pm_action = py_str other action\<rparr>)
      | PermValue (PList [r, a]) \<Rightarrow> Some \<lparr>pm_resource = py_str other r, pm_action = py_str other a\<rparr>
      | _ \<Rightarrow> None)"

definition permission_for_method :: "'w security \<Rightarrow> string \<Rightarrow> permission option" where
  "permission_for_method s method =
     (case parse_compat (Some method) of
        Inl _ \<Rightarrow> None
      | Inr n \<Rightarrow>
          (case map_of (sx_funcs s) (mn_handler n) of
             Some d \<Rightarrow> normalize_permission_data (sx_str s) d
           | None \<Rightarrow>
               (case map_of (sx_funcs s) (mn_service n @ CHR ''.'' # mn_handler n) of
                  Some d \<Rightarrow> normalize_permission_data (sx_str s) d
                | None \<Rightarrow> None)))"

definition opt_pystr :: "string option \<Rightarrow> pyval" where
  "opt_pystr x = (case x of None \<Rightarrow> PNone | Some s \<Rightarrow> PStr s)"

definition log_security_event ::
  "'w security \<Rightarrow> string \<Rightarrow> principal \<Rightarrow> (string, pyval) dict \<Rightarrow> 'w ctx \<Rightarrow> 'w ctx" where
  "log_security_event s ty p extra c =
     (let r = cx_request c in
      c\<lparr>cx_world := sx_log s
          \<lparr>se_type = ty, se_tenant_id = Option.bind (rq_metadata r) rm_tenant_id,
           se_request_id = rq_id r, se_trace_id = map_option tc_trace_id (rq_trace_context r),
           se_principal = pr_id p,
           se_details = [(''request_id'', opt_pystr (rq_id r)), (''method'', PStr (rq_method r)),
                         (''roles'', PList (map PStr (pr_roles p)))] @ extra\<rparr> (cx_world c)\<rparr>)"

definition audit_if :: "'w security \<Rightarrow> string \<Rightarrow> principal \<Rightarrow> (string, pyval) dict \<Rightarrow> 'w ctx \<Rightarrow> 'w ctx" where
  "audit_if s ty p extra c =
     (if sc_audit_enabled (sx_config s) then log_security_event s ty p extra c else c)"

definition deny_permission :: "'w security \<Rightarrow> principal \<Rightarrow> permission option \<Rightarrow> string \<Rightarrow> 'w ctx \<Rightarrow> 'w ctx" where
  "deny_permission s p perm reason c =
     abort (error_payload PERMISSION_DENIED (''Access denied to method: '' @ rq_method (cx_request c))
        (case perm of
           None \<Rightarrow> None
         | Some q \<Rightarrow> Some [\<lparr>detail_type = ''aduib.rpc/permission_denied'', detail_field = Some ''permission'',
             detail_reason = reason,
             detail_metadata = Some [(''principal_id'', pr_id p), (''resource'', PStr (pm_resource q)),
                                     (''action'', PStr (pm_action q))]\<rparr>]))
       (audit_if s ''access_denied'' p [(''reason'', PStr reason)] c)"

text \<open>The principal: from the token, or from the request when no token is needed.\<close>

definition resolve_principal ::
  "'w security \<Rightarrow> 'w ctx \<Rightarrow> exn + (rpc_error + principal)" where
  "resolve_principal s c =
     (let cfg = sx_config s; fallback = bind_ok (extract_principal cfg c) (\<lambda>p. Inr (Inr p)) in
      case extract_token (sx_str s) c of
        None \<Rightarrow>
          (if sc_require_auth cfg \<or> sc_rbac_enabled cfg
           then Inr (Inl (error_payload UNAUTHENTICATED ''Unauthenticated'' None)) else fallback)
      | Some token \<Rightarrow>
          (case sx_validate s token (rq_method (cx_request c)) c of
             Inr (Some p) \<Rightarrow> Inr (Inr p)
           | Inr None \<Rightarrow> fallback
           | Inl e \<Rightarrow>
               if isinstance_exn e TokenExpiredError
               then Inr (Inl (error_payload TOKEN_EXPIRED ''Token expired'' None))
               else if isinstance_exn e InvalidTokenError
               then Inr (Inl (error_payload INVALID_TOKEN ''Invalid token'' None))
               else if isinstance_exn e UnauthenticatedError
               then Inr (Inl (error_payload UNAUTHENTICATED ''Unauthenticated'' None))
               else if isinstance_exn e PyException
               then Inr (Inl (error_payload INVALID_TOKEN ''Invalid token'' None))
               else Inl e))"

definition set_principal :: "principal \<Rightarrow> 'w ctx \<Rightarrow> 'w ctx" where
  "set_principal p c =
     c\<lparr>cx_principal := Some p,
       cx_meta := AList.update ''principal_type'' (pr_type p) (AList.update ''principal_id'' (pr_id p) (cx_meta c))\<rparr>"

definition security_enter ::
  "'w security \<Rightarrow> 'w ctx \<Rightarrow> exn option \<times> ('w stream_handler \<Rightarrow> 'w stream_handler) list \<times> 'w ctx" where
  "security_enter s c =
     (let cfg = sx_config s; method = rq_method (cx_request c) in
      if is_anonymous_method cfg method then (None, [], c)
      else
        (let perm = permission_for_method s method in
         case resolve_principal s c of
           Inl e \<Rightarrow> (Some e, [], c)
         | Inr (Inl err) \<Rightarrow> (None, [], abort err c)
         | Inr (Inr p) \<Rightarrow>
             (let c1 = audit_if s ''access_attempt'' p [] (set_principal p c) in
              if sc_rbac_enabled cfg then
                (case perm of
                   None \<Rightarrow> (None, [], deny_permission s p perm ''permission_not_defined'' c1)
                 | Some q \<Rightarrow>
                     if sx_check s p q method c1
                     then (None, [], audit_if s ''access_granted'' p [] c1)
                     else (None, [], deny_permission s p perm ''insufficient_permissions'' c1))
              else (None, [], audit_if s ''access_granted'' p [] c1))))"

definition security_interceptor :: "'w security \<Rightarrow> 'w interceptor" where
  "security_interceptor s = \<lparr>ic_order = 0, ic_enter = security_enter s, ic_exit = (\<lambda>e c. (e, c))\<rparr>"

text \<open>The interceptor as \<open>SecurityInterceptor(config)\<close> builds it, with its default validators.\<close>

definition default_security ::
  "security_config \<Rightarrow> rbac_policy option \<Rightarrow> (security_event \<Rightarrow> 'w \<Rightarrow> 'w) \<Rightarrow> (string, permission_decl) dict
     \<Rightarrow> (pyval \<Rightarrow> string) \<Rightarrow> 'w security" where
  "default_security cfg given lg funcs other =
     \<lparr>sx_config = cfg, sx_validate = metadata_validate,
      sx_check = (\<lambda>p q method _. fst (rbac_check (configured_policy cfg given) p q method [])),
      sx_log = lg, sx_funcs = funcs, sx_str = other\<rparr>"

section \<open>Version negotiation and tenants\<close>

text \<open>
  A request model is always version 2.0. After its \<open>yield\<close> the interceptor catches an exception
  of the body and yields once more, which \<open>asynccontextmanager\<close> answers with a \<open>RuntimeError\<close>.
\<close>

definition generator_did_not_stop :: exn where
  "generator_did_not_stop = Exn RuntimeError 0 ''generator didn't stop after athrow()'' PNone None"

definition version_interceptor :: "string \<Rightarrow> 'w interceptor" where
  "version_interceptor default_version =
     \<lparr>ic_order = 2,
      ic_enter = (\<lambda>c. (None, [], c\<lparr>cx_state :=
        AList.update ''negotiated_version'' (PStr default_version)
          (AList.update ''protocol_version'' (PStr ''2.0'') (cx_state c))\<rparr>)),
      ic_exit = (\<lambda>e c.
        (case e of
           None \<Rightarrow> None
         | Some x \<Rightarrow> Some (if isinstance_exn x PyException then generator_did_not_stop else x), c))\<rparr>"

fun first_supported :: "string list \<Rightarrow> string list \<Rightarrow> string" where
  "first_supported [] server = ''2.0''"
| "first_supported (v # vs) server = (if v \<in> set server then v else first_supported vs server)"

definition negotiate_client_version :: "string list option \<Rightarrow> string list option \<Rightarrow> string" where
  "negotiate_client_version client server =
     first_supported (case client of None \<Rightarrow> [''2.0''] | Some vs \<Rightarrow> vs)
       (case server of None \<Rightarrow> [''2.0''] | Some vs \<Rightarrow> vs)"

text \<open>
  The tenant of the runtime while the request runs: \<open>get\<close> and \<open>put\<close> are the context variable
  that \<open>with_tenant\<close> sets and restores, a part of the world.
\<close>

definition extract_tenant_id :: "(pyval \<Rightarrow> string) \<Rightarrow> string \<Rightarrow> 'w ctx \<Rightarrow> string" where
  "extract_tenant_id other fallback c =
     (case map_of (cx_state c) ''tenant_id'' of Some v \<Rightarrow> py_str other v | None \<Rightarrow> fallback)"

section \<open>Facts\<close>

lemma log_same [simp]:
  "cx_aborted (audit_if s ty p ex c) = cx_aborted c" "cx_principal (audit_if s ty p ex c) = cx_principal c"
  "cx_request (audit_if s ty p ex c) = cx_request c"
  by (simp_all add: audit_if_def log_security_event_def Let_def)

lemma set_principal_same [simp]:
  "cx_aborted (set_principal p c) = cx_aborted c" "cx_principal (set_principal p c) = Some p"
  "cx_request (set_principal p c) = cx_request c" "cx_world (set_principal p c) = cx_world c"
  by (simp_all add: set_principal_def)

lemma abort_same [simp]:
  "cx_aborted (abort e c)" "cx_abort_error (abort e c) = Some e" "cx_principal (abort e c) = cx_principal c"
  "cx_world (abort e c) = cx_world c"
  by (simp_all add: abort_def)

lemma deny_aborts [simp]: "cx_aborted (deny_permission s p perm reason c)"
  by (simp add: deny_permission_def)

lemma no_permission_unparsed: "parse_compat (Some method) = Inl e \<Longrightarrow> permission_for_method s method = None"
  by (simp add: permission_for_method_def)

lemma security_admits:
  assumes "security_enter s c = (None, ws, c')" "\<not> cx_aborted c'" "\<not> cx_aborted c"
    and "sc_rbac_enabled (sx_config s)" "\<not> is_anonymous_method (sx_config s) (rq_method (cx_request c))"
  shows "\<exists>token p q. extract_token (sx_str s) c = Some token
    \<and> (sx_validate s token (rq_method (cx_request c)) c = Inr (Some p)
       \<or> (sx_validate s token (rq_method (cx_request c)) c = Inr None \<and> extract_principal (sx_config s) c = Inr p))
    \<and> cx_principal c' = Some p
    \<and> permission_for_method s (rq_method (cx_request c)) = Some q
    \<and> sx_check s p q (rq_method (cx_request c))
          (audit_if s ''access_attempt'' p [] (set_principal p c))"
proof -
  obtain r where r: "resolve_principal s c = Inr r"
    using assms(1,5) by (auto simp: security_enter_def Let_def split: sum.splits)
  obtain p where p: "r = Inr p"
    using assms(1,2,5) r by (auto simp: security_enter_def Let_def split: sum.splits)
  let ?c1 = "audit_if s ''access_attempt'' p [] (set_principal p c)"
  obtain q where q: "permission_for_method s (rq_method (cx_request c)) = Some q"
    "sx_check s p q (rq_method (cx_request c)) ?c1" "c' = audit_if s ''access_granted'' p [] ?c1"
    using assms r p by (auto simp: security_enter_def Let_def split: option.splits if_splits)
  obtain token where token: "extract_token (sx_str s) c = Some token"
    using assms(4) r p by (cases "extract_token (sx_str s) c") (auto simp: resolve_principal_def Let_def)
  have "sx_validate s token (rq_method (cx_request c)) c = Inr (Some p)
      \<or> (sx_validate s token (rq_method (cx_request c)) c = Inr None \<and> extract_principal (sx_config s) c = Inr p)"
    using r p token by (auto simp: resolve_principal_def Let_def bind_ok_Inr split: sum.splits option.splits if_splits)
  with token q show ?thesis by auto
qed

section \<open>Properties\<close>


text \<open>Requests for the witnesses: a claimed administrator with an arbitrary credential.\<close>

definition claim_request :: "string \<Rightarrow> string \<Rightarrow> rpc_request" where
  "claim_request method cred =
     \<lparr>rq_aduib_rpc = ''2.0'', rq_id = Some ''1'', rq_method = method, rq_name = None, rq_data = None,
      rq_supported_versions = None, rq_trace_context = None,
      rq_metadata = Some \<lparr>rm_timestamp_ms = 0, rm_client_id = None, rm_client_version = None,
        rm_auth = Some \<lparr>ac_scheme = BEARER, ac_credentials = Some cred, ac_principal = Some ''eve'',
          ac_principal_type = None, ac_roles = Some [''admin'']\<rparr>,
        rm_tenant_id = None, rm_headers = None, rm_long_task = False, rm_long_task_method = None,
        rm_long_task_timeout = None\<rparr>,
      rq_qos = None, rq_meta = None, rq_id_str = None\<rparr>"

definition sample_security :: "security_event list security" where
  "sample_security = default_security default_security_config None (\<lambda>e w. w @ [e])
     [(''charge'', PermObject \<lparr>pm_resource = ''billing'', pm_action = ''write''\<rparr>)] (\<lambda>_. [])"

lemma charge_not_anonymous:
  "\<not> is_anonymous_method default_security_config ''rpc.v2/Billing/charge''"
  "parse_compat (Some ''rpc.v2/Billing/charge'') = Inr \<lparr>mn_service = ''Billing'', mn_handler = ''charge''\<rparr>"
proof -
  show p: "parse_compat (Some ''rpc.v2/Billing/charge'') = Inr \<lparr>mn_service = ''Billing'', mn_handler = ''charge''\<rparr>"
    by (simp add: parse_compat_def Let_def py_strip_def is_space_def ascii_code_def V2_PREFIX_def py_partition_def)
  show "\<not> is_anonymous_method default_security_config ''rpc.v2/Billing/charge''"
    unfolding is_anonymous_method_def p
    by (simp add: default_security_config_def py_lower_def lower_char_def ascii_code_def ends_with_def)
qed

text \<open>
  The default validators take the client's word: a request with any non-empty
  credential that calls itself an administrator passes for every method that declares a
  permission, whatever the credential is.
\<close>

theorem self_asserted_admin:
  assumes "cred \<noteq> []" "permission_for_method s method = Some q" "\<not> is_anonymous_method default_security_config method"
    and "s = default_security default_security_config None lg funcs other"
    and "cx_request c = claim_request method cred" "\<not> cx_aborted c"
  shows "\<exists>c'. security_enter s c = (None, [], c') \<and> \<not> cx_aborted c'
    \<and> map_option pr_roles (cx_principal c') = Some [''admin'']"
proof -
  let ?p = "\<lparr>pr_id = PStr ''eve'', pr_type = PStr ''user'', pr_roles = [''admin''], pr_metadata = []\<rparr>"
  have token: "extract_token (sx_str s) c = Some cred"
    using assms(1,5) by (cases cred) (simp_all add: extract_token_def claim_request_def)
  have p: "resolve_principal s c = Inr (Inr ?p)"
    using token assms(4,5) by (simp add: resolve_principal_def default_security_def metadata_validate_def
        claim_request_def default_security_config_def Let_def)
  have sup: "is_superadmin (configured_policy default_security_config None) ?p"
    by (simp add: is_superadmin_def configured_policy_def default_security_config_def set_superadmin_role_def
        has_role_def)
  have "fst (rbac_check (configured_policy default_security_config None) ?p q method [])"
    using sup by (simp add: rbac_check_def can_invoke_method_def has_permission_def has_permission_no_audit_def)
  then have ok: "sx_check s ?p q method c1" for c1
    using assms(4) by (simp add: default_security_def)
  have m: "rq_method (cx_request c) = method" "sx_config s = default_security_config"
    using assms(4,5) by (simp_all add: claim_request_def default_security_def)
  show ?thesis
    using p ok assms(2,3,6) m by (simp add: security_enter_def Let_def)
qed

theorem self_asserted_admin_witness:
  "\<exists>c'. security_enter sample_security (new_ctx (claim_request ''rpc.v2/Billing/charge'' ''x'') [] None [] False [])
      = (None, [], c') \<and> \<not> cx_aborted c' \<and> map_option pr_roles (cx_principal c') = Some [''admin'']"
proof (rule self_asserted_admin)
  show "permission_for_method sample_security ''rpc.v2/Billing/charge'' =
      Some \<lparr>pm_resource = ''billing'', pm_action = ''write''\<rparr>"
    by (simp add: permission_for_method_def charge_not_anonymous sample_security_def default_security_def
        normalize_permission_data_def)
qed (simp_all add: sample_security_def charge_not_anonymous new_ctx_def)


text \<open>
  Every method whose name ends in an anonymous pattern is open, not only the
  method of that name: with the default configuration the security interceptor lets any request for
  \<open>.../shipping\<close> or \<open>.../mapping\<close> through untouched, because they end in \<open>ping\<close>.
\<close>

theorem anonymous_suffix_bypass:
  assumes "pat \<in> set (sc_anonymous_methods (sx_config s))"
    and "ends_with (py_lower (rq_method (cx_request c))) (py_lower pat)"
  shows "security_enter s c = (None, [], c)"
proof -
  have "is_anonymous_method (sx_config s) (rq_method (cx_request c))"
    using assms by (auto simp: is_anonymous_method_def)
  then show ?thesis by (simp add: security_enter_def Let_def)
qed

theorem anonymous_suffix_bypass_witness:
  "security_enter sample_security (new_ctx (claim_request ''rpc.v2/Store/shipping'' []) [] None [] False [])
     = (None, [], new_ctx (claim_request ''rpc.v2/Store/shipping'' []) [] None [] False [])"
  by (rule anonymous_suffix_bypass [of "''ping''"])
    (simp_all add: sample_security_def default_security_def default_security_config_def new_ctx_def
      claim_request_def ends_with_def py_lower_def lower_char_def ascii_code_def)

text \<open>
  Under the version interceptor, which \<open>app.py\<close> installs by default, an exception of the
  handler never reaches the caller: whatever the handler raised before its first response comes
  out as a \<open>RuntimeError\<close>, so its code is \<open>INTERNAL_ERROR\<close> where the exception itself had
  another; only cancellation and the like pass.
\<close>

theorem version_masks_errors:
  assumes "handler = (\<lambda>c. (([], Some e), c))" "isinstance_exn e PyException" "\<not> cx_aborted c"
  shows "\<exists>x. fst (chain_execute first tick uuid [version_interceptor v] handler c) = ([], Some x)
    \<and> map_exception_to_error_code x = error_code_value INTERNAL_ERROR \<and> isinstance_exn x RuntimeError"
  using assms by (auto simp: chain_execute_def new_chain_def version_interceptor_def chain_body_def
      apply_wrappers_def consume_def generator_did_not_stop_def map_exception_to_error_code_def
      STANDARD_EXCEPTION_MAPPING_def is_subclass_def)

theorem version_masks_errors_witness:
  "\<exists>x. fst (chain_execute True (\<lambda>_. (0, 0)) [] [version_interceptor ''2.0'']
        (\<lambda>c. (([], Some (new_rpc_exn InvalidParamsError None PNone None)), c))
        (new_ctx (claim_request ''m'' []) [] None [] False ())) = ([], Some x)
     \<and> map_exception_to_error_code x = 5000
     \<and> map_exception_to_error_code (new_rpc_exn InvalidParamsError None PNone None) = 2001"
proof -
  let ?e = "new_rpc_exn InvalidParamsError None PNone None"
  have "isinstance_exn ?e PyException" "map_exception_to_error_code ?e = 2001"
    by (simp_all add: new_rpc_exn_def rpc_defaults_def isinstance_exn_def is_subclass_def
        map_exception_to_error_code_def)
  with version_masks_errors [OF refl this(1), of "new_ctx (claim_request ''m'' []) [] None [] False ()"
      True "\<lambda>_. (0, 0)" "[]" "''2.0''"]
  show ?thesis by (auto simp: new_ctx_def)
qed

end
