(* ===== verification/Runtime_Scopes.thy ===== *)
theory Runtime_Scopes
  imports Discovery Server_Interceptors
begin

text \<open>
  Runtime scopes (\<open>server/rpc_execution/runtime.py\<close>) and the interceptor that opens one for the
  request's tenant (\<open>server/interceptors/tenant.py\<close>). Scopes are mutable objects that refer to their
  parents, so they live in a heap, a list indexed by their numbers; the context variable holds the
  number of the current one. Interceptors, providers, schemes and configurations are opaque objects.
\<close>

section \<open>Scopes\<close>

type_synonym obj = nat

datatype client_interceptor = AuthInterceptor obj | OtherInterceptor obj

record 'f scope =
  sp_tenant_id :: string
  sp_service_funcs :: "(string, 'f) dict"
  sp_client_funcs :: "(string, 'f) dict"
  sp_interceptors :: "client_interceptor list"
  sp_parent :: "nat option"
  sp_service_instances :: "(string, string) dict"
  sp_client_instances :: "(string, string) dict"
  sp_service_info :: "service_instance option"
  sp_credentials_provider :: "obj option"
  sp_auth_scheme :: "obj option"
  sp_security_scheme :: "obj option"
  sp_config :: "obj option"

text \<open>The instance registries hold classes, here by name.\<close>

datatype scope_factory = BindRuntime nat | BindTenant string

record runtime_scope =
  rsc_factory :: scope_factory
  rsc_token :: "nat option"

text \<open>\<open>rt_open\<close> are the scopes the suspended context managers hold, \<open>rt_fresh\<close> the next new object.\<close>

record 'f runtimes =
  rt_heap :: "'f scope list"
  rt_current :: nat
  rt_fresh :: obj
  rt_open :: "runtime_scope list"

definition new_scope :: "'f scope" where
  "new_scope =
     \<lparr>sp_tenant_id = ''default'', sp_service_funcs = [], sp_client_funcs = [], sp_interceptors = [],
      sp_parent = None, sp_service_instances = [], sp_client_instances = [], sp_service_info = None,
      sp_credentials_provider = None, sp_auth_scheme = None, sp_security_scheme = None, sp_config = None\<rparr>"

definition initial_runtimes :: "'f runtimes" where
  "initial_runtimes = \<lparr>rt_heap = [new_scope], rt_current = 0, rt_fresh = 0, rt_open = []\<rparr>"

abbreviation the_scope :: "('f, 'z) runtimes_scheme \<Rightarrow> nat \<Rightarrow> 'f scope" where
  "the_scope st s \<equiv> rt_heap st ! s"

definition on_scope :: "nat \<Rightarrow> ('f scope \<Rightarrow> 'f scope) \<Rightarrow> ('f, 'z) runtimes_scheme \<Rightarrow> ('f, 'z) runtimes_scheme" where
  "on_scope s g st = st\<lparr>rt_heap := (rt_heap st)[s := g (rt_heap st ! s)]\<rparr>"

definition allocate :: "'f scope \<Rightarrow> ('f, 'z) runtimes_scheme \<Rightarrow> nat \<times> ('f, 'z) runtimes_scheme" where
  "allocate sc st = (length (rt_heap st), st\<lparr>rt_heap := rt_heap st @ [sc]\<rparr>)"

definition create_runtime :: "('f, 'z) runtimes_scheme \<Rightarrow> nat \<times> ('f, 'z) runtimes_scheme" where
  "create_runtime st = allocate new_scope st"

text \<open>\<open>ScopedRuntime.child\<close> passes everything but the configuration.\<close>

definition child_scope :: "string option \<Rightarrow> nat \<Rightarrow> 'f scope \<Rightarrow> 'f scope" where
  "child_scope tenant_id s sc =
     sc\<lparr>sp_tenant_id := (case tenant_id of None \<Rightarrow> sp_tenant_id sc | Some t \<Rightarrow> if t = [] then sp_tenant_id sc else t),
        sp_parent := Some s, sp_config := None\<rparr>"

definition child :: "string option \<Rightarrow> nat \<Rightarrow> ('f, 'z) runtimes_scheme \<Rightarrow> nat \<times> ('f, 'z) runtimes_scheme" where
  "child tenant_id s st = allocate (child_scope tenant_id s (the_scope st s)) st"

section \<open>Registries\<close>

definition register_entry ::
  "('f scope \<Rightarrow> (string, 'v) dict) \<Rightarrow> ((string, 'v) dict \<Rightarrow> 'f scope \<Rightarrow> 'f scope) \<Rightarrow> string
     \<Rightarrow> nat \<Rightarrow> string \<Rightarrow> 'v \<Rightarrow> ('f, 'z) runtimes_scheme \<Rightarrow> (exn + unit) \<times> ('f, 'z) runtimes_scheme" where
  "register_entry sel put kind s name v st =
     (if map_of (sel (the_scope st s)) name \<noteq> None
      then (Inl (Exn ValueError 0 (kind @ '' '' @ CHR 0x27 # name @ CHR 0x27 # '' is already registered in the current scope.'') PNone None), st)
      else (Inr (), on_scope s (\<lambda>sc. put (AList.update name v (sel sc)) sc) st))"

abbreviation put_service_funcs :: "(string, 'f) dict \<Rightarrow> 'f scope \<Rightarrow> 'f scope" where
  "put_service_funcs d sc \<equiv> sc\<lparr>sp_service_funcs := d\<rparr>"

abbreviation put_client_funcs :: "(string, 'f) dict \<Rightarrow> 'f scope \<Rightarrow> 'f scope" where
  "put_client_funcs d sc \<equiv> sc\<lparr>sp_client_funcs := d\<rparr>"

abbreviation put_service_instances :: "(string, string) dict \<Rightarrow> 'f scope \<Rightarrow> 'f scope" where
  "put_service_instances d sc \<equiv> sc\<lparr>sp_service_instances := d\<rparr>"

abbreviation put_client_instances :: "(string, string) dict \<Rightarrow> 'f scope \<Rightarrow> 'f scope" where
  "put_client_instances d sc \<equiv> sc\<lparr>sp_client_instances := d\<rparr>"

definition register_service_func ::
  "nat \<Rightarrow> string \<Rightarrow> 'f \<Rightarrow> ('f, 'z) runtimes_scheme \<Rightarrow> (exn + unit) \<times> ('f, 'z) runtimes_scheme" where
  "register_service_func = register_entry sp_service_funcs put_service_funcs ''Service function''"

definition register_client ::
  "nat \<Rightarrow> string \<Rightarrow> 'f \<Rightarrow> ('f, 'z) runtimes_scheme \<Rightarrow> (exn + unit) \<times> ('f, 'z) runtimes_scheme" where
  "register_client = register_entry sp_client_funcs put_client_funcs ''Client function''"

definition register_service_instance ::
  "nat \<Rightarrow> string \<Rightarrow> string \<Rightarrow> ('f, 'z) runtimes_scheme \<Rightarrow> (exn + unit) \<times> ('f, 'z) runtimes_scheme" where
  "register_service_instance = register_entry sp_service_instances put_service_instances ''Service instance''"

definition register_client_instance ::
  "nat \<Rightarrow> string \<Rightarrow> string \<Rightarrow> ('f, 'z) runtimes_scheme \<Rightarrow> (exn + unit) \<times> ('f, 'z) runtimes_scheme" where
  "register_client_instance = register_entry sp_client_instances put_client_instances ''Client instance''"

definition register_interceptor ::
  "nat \<Rightarrow> client_interceptor \<Rightarrow> ('f, 'z) runtimes_scheme \<Rightarrow> ('f, 'z) runtimes_scheme" where
  "register_interceptor s i st = on_scope s (\<lambda>sc. sc\<lparr>sp_interceptors := sp_interceptors sc @ [i]\<rparr>) st"

definition register_parent ::
  "nat \<Rightarrow> nat \<Rightarrow> ('f, 'z) runtimes_scheme \<Rightarrow> (exn + unit) \<times> ('f, 'z) runtimes_scheme" where
  "register_parent s parent st =
     (if sp_parent (the_scope st s) \<noteq> None
      then (Inl (Exn ValueError 0 ''Parent runtime is already set.'' PNone None), st)
      else (Inr (), on_scope s (\<lambda>sc. sc\<lparr>sp_parent := Some parent\<rparr>) st))"

definition clear_parent :: "nat \<Rightarrow> ('f, 'z) runtimes_scheme \<Rightarrow> ('f, 'z) runtimes_scheme" where
  "clear_parent s st = on_scope s (\<lambda>sc. sc\<lparr>sp_parent := None\<rparr>) st"

text \<open>
  The four lookups are one recursion over the parents; \<open>None\<close> is a recursion that does not end
  (\<open>RecursionError\<close> in Python), \<open>Some None\<close> a name no scope knows.
\<close>

partial_function (option) lookup_up ::
  "('f scope \<Rightarrow> (string, 'v) dict) \<Rightarrow> 'f scope list \<Rightarrow> nat \<Rightarrow> string \<Rightarrow> 'v option option" where
  "lookup_up sel h s name =
     (case map_of (sel (h ! s)) name of
        Some v \<Rightarrow> Some (Some v)
      | None \<Rightarrow> (case sp_parent (h ! s) of None \<Rightarrow> Some None | Some p \<Rightarrow> lookup_up sel h p name))"

definition get_service :: "'f scope list \<Rightarrow> nat \<Rightarrow> string \<Rightarrow> 'f option option" where
  "get_service = lookup_up sp_service_funcs"

definition get_client :: "'f scope list \<Rightarrow> nat \<Rightarrow> string \<Rightarrow> 'f option option" where
  "get_client = lookup_up sp_client_funcs"

definition get_service_instance :: "'f scope list \<Rightarrow> nat \<Rightarrow> string \<Rightarrow> string option option" where
  "get_service_instance = lookup_up sp_service_instances"

definition get_client_instance :: "'f scope list \<Rightarrow> nat \<Rightarrow> string \<Rightarrow> string option option" where
  "get_client_instance = lookup_up sp_client_instances"

text \<open>\<open>to_descriptor\<close> is that method of the registered object, if it has one.\<close>

definition named_descriptor :: "string \<Rightarrow> method_descriptor" where
  "named_descriptor name =
     \<lparr>md_name = name, md_full_name = None, md_description = None, md_client_stream = False,
      md_server_stream = False, md_bidirectional_stream = False, md_deprecated = False, md_version = None\<rparr>"

definition batch_to_method_descriptors ::
  "('f \<Rightarrow> method_descriptor option) \<Rightarrow> 'f scope \<Rightarrow> method_descriptor list" where
  "batch_to_method_descriptors to_descriptor sc =
     map (\<lambda>(name, func). case to_descriptor func of Some d \<Rightarrow> d | None \<Rightarrow> named_descriptor name) (sp_service_funcs sc)"

partial_function (option) set_config :: "obj \<Rightarrow> nat \<Rightarrow> 'f scope list \<Rightarrow> 'f scope list option" where
  "set_config cfg s h =
     (case sp_parent (h ! s) of
        None \<Rightarrow> Some (h[s := (h ! s)\<lparr>sp_config := Some cfg\<rparr>])
      | Some p \<Rightarrow> set_config cfg p (h[s := (h ! s)\<lparr>sp_config := Some cfg\<rparr>]))"

definition reset_runtime :: "nat \<Rightarrow> ('f, 'z) runtimes_scheme \<Rightarrow> ('f, 'z) runtimes_scheme" where
  "reset_runtime s st = on_scope s (\<lambda>sc.
     sc\<lparr>sp_service_instances := [], sp_client_instances := [], sp_service_funcs := [], sp_client_funcs := [],
        sp_interceptors := [], sp_credentials_provider := None, sp_auth_scheme := None,
        sp_security_scheme := None\<rparr>) st"

definition is_auth :: "client_interceptor \<Rightarrow> bool" where
  "is_auth i = (case i of AuthInterceptor _ \<Rightarrow> True | OtherInterceptor _ \<Rightarrow> False)"

definition ensure_provider :: "nat \<Rightarrow> ('f, 'z) runtimes_scheme \<Rightarrow> ('f, 'z) runtimes_scheme" where
  "ensure_provider s st =
     (if sp_credentials_provider (the_scope st s) = None
      then (on_scope s (\<lambda>sc. sc\<lparr>sp_credentials_provider := Some (rt_fresh st)\<rparr>) st)\<lparr>rt_fresh := rt_fresh st + 1\<rparr>
      else st)"

definition enable_auth :: "nat \<Rightarrow> ('f, 'z) runtimes_scheme \<Rightarrow> ('f, 'z) runtimes_scheme" where
  "enable_auth s st =
     (let st1 = ensure_provider s st; sc = the_scope st1 s in
      if \<exists>i \<in> set (sp_interceptors sc). is_auth i then st1
      else (case sp_credentials_provider sc of
              Some p \<Rightarrow> register_interceptor s (AuthInterceptor p) st1
            | None \<Rightarrow> st1))"

definition set_credentials_provider :: "obj option \<Rightarrow> nat \<Rightarrow> ('f, 'z) runtimes_scheme \<Rightarrow> ('f, 'z) runtimes_scheme" where
  "set_credentials_provider provider s st = on_scope s (\<lambda>sc. sc\<lparr>sp_credentials_provider := provider\<rparr>) st"

definition set_service_info :: "service_instance \<Rightarrow> ('f, 'z) runtimes_scheme \<Rightarrow> ('f, 'z) runtimes_scheme" where
  "set_service_info info st = on_scope (rt_current st) (\<lambda>sc. sc\<lparr>sp_service_info := Some info\<rparr>) st"

definition get_service_info :: "('f, 'z) runtimes_scheme \<Rightarrow> service_instance option" where
  "get_service_info st = sp_service_info (the_scope st (rt_current st))"

section \<open>The current scope\<close>

definition update_runtime :: "nat \<Rightarrow> ('f, 'z) runtimes_scheme \<Rightarrow> ('f, 'z) runtimes_scheme" where
  "update_runtime s st = st\<lparr>rt_current := s\<rparr>"

definition make_runtime :: "scope_factory \<Rightarrow> ('f, 'z) runtimes_scheme \<Rightarrow> nat \<times> ('f, 'z) runtimes_scheme" where
  "make_runtime factory st =
     (case factory of BindRuntime s \<Rightarrow> (s, st) | BindTenant t \<Rightarrow> child (Some t) (rt_current st) st)"

definition enter_scope :: "runtime_scope \<Rightarrow> ('f, 'z) runtimes_scheme \<Rightarrow> nat \<times> runtime_scope \<times> ('f, 'z) runtimes_scheme" where
  "enter_scope rs st =
     (let (s, st1) = make_runtime (rsc_factory rs) st
      in (s, rs\<lparr>rsc_token := Some (rt_current st1)\<rparr>, st1\<lparr>rt_current := s\<rparr>))"

definition exit_scope :: "runtime_scope \<Rightarrow> ('f, 'z) runtimes_scheme \<Rightarrow> runtime_scope \<times> ('f, 'z) runtimes_scheme" where
  "exit_scope rs st =
     (rs\<lparr>rsc_token := None\<rparr>, (case rsc_token rs of None \<Rightarrow> st | Some t \<Rightarrow> st\<lparr>rt_current := t\<rparr>))"

definition with_runtime :: "nat \<Rightarrow> runtime_scope" where
  "with_runtime s = \<lparr>rsc_factory = BindRuntime s, rsc_token = None\<rparr>"

definition with_tenant :: "string \<Rightarrow> runtime_scope" where
  "with_tenant t = \<lparr>rsc_factory = BindTenant t, rsc_token = None\<rparr>"

text \<open>\<open>_RuntimeScope\<close> as a decorator: a new scope object around each call, whose outcome it passes on.\<close>

definition scoped_call ::
  "runtime_scope \<Rightarrow> (('f, 'z) runtimes_scheme, 'e, 'a) comp \<Rightarrow> (('f, 'z) runtimes_scheme, 'e, 'a) comp" where
  "scoped_call rs f st =
     (let (_, rs1, st1) = enter_scope \<lparr>rsc_factory = rsc_factory rs, rsc_token = None\<rparr> st;
          (r, st2) = f st1
      in (r, snd (exit_scope rs1 st2)))"

section \<open>The tenant interceptor\<close>

definition tenant_enter ::
  "(pyval \<Rightarrow> string) \<Rightarrow> string \<Rightarrow> ('f, 'z) runtimes_scheme ctx \<Rightarrow> ('f, 'z) runtimes_scheme ctx" where
  "tenant_enter other fallback c =
     (let (_, rs, st) = enter_scope (with_tenant (extract_tenant_id other fallback c)) (cx_world c)
      in c\<lparr>cx_world := st\<lparr>rt_open := rs # rt_open st\<rparr>\<rparr>)"

definition tenant_exit :: "('f, 'z) runtimes_scheme ctx \<Rightarrow> ('f, 'z) runtimes_scheme ctx" where
  "tenant_exit c =
     (case rt_open (cx_world c) of
        [] \<Rightarrow> c
      | rs # rest \<Rightarrow> c\<lparr>cx_world := (snd (exit_scope rs (cx_world c)))\<lparr>rt_open := rest\<rparr>\<rparr>)"

definition tenant_interceptor ::
  "(pyval \<Rightarrow> string) \<Rightarrow> string \<Rightarrow> ('f, 'z) runtimes_scheme interceptor" where
  "tenant_interceptor other fallback =
     \<lparr>ic_order = 1, ic_enter = (\<lambda>c. (None, [], tenant_enter other fallback c)),
      ic_exit = (\<lambda>exc c. (exc, tenant_exit c))\<rparr>"

section \<open>Chains of parents\<close>

inductive scope_chain :: "'f scope list \<Rightarrow> nat \<Rightarrow> nat list \<Rightarrow> bool" for h where
  top: "sp_parent (h ! s) = None \<Longrightarrow> scope_chain h s [s]"
| up: "sp_parent (h ! s) = Some p \<Longrightarrow> scope_chain h p xs \<Longrightarrow> scope_chain h s (s # xs)"

fun first_hit :: "('a \<Rightarrow> 'b option) \<Rightarrow> 'a list \<Rightarrow> 'b option" where
  "first_hit f [] = None"
| "first_hit f (x # xs) = (case f x of Some v \<Rightarrow> Some v | None \<Rightarrow> first_hit f xs)"

definition parent_rel :: "'f scope list \<Rightarrow> (nat \<times> nat) set" where
  "parent_rel h = {(c, p). c < length h \<and> sp_parent (h ! c) = Some p}"

definition scopes_ok :: "'f scope list \<Rightarrow> bool" where
  "scopes_ok h = (parent_rel h \<subseteq> {..<length h} \<times> {..<length h} \<and> acyclic (parent_rel h))"

lemma lookup_chain:
  "scope_chain h s xs \<Longrightarrow> lookup_up sel h s name = Some (first_hit (\<lambda>a. map_of (sel (h ! a)) name) xs)"
  by (induction rule: scope_chain.induct) (subst lookup_up.simps, simp split: option.splits)+

lemma chain_exists:
  assumes "scopes_ok h" "s < length h"
  shows "\<exists>xs. scope_chain h s xs \<and> distinct xs \<and> set xs = {a. (s, a) \<in> (parent_rel h)\<^sup>*}"
proof -
  have sub: "parent_rel h \<subseteq> {..<length h} \<times> {..<length h}" and ac: "acyclic (parent_rel h)"
    using assms(1) by (auto simp: scopes_ok_def)
  have "finite (parent_rel h)" using sub finite_subset by blast
  then have "wf ((parent_rel h)\<inverse>)" using ac by (rule finite_acyclic_wf_converse)
  then show ?thesis using assms(2)
  proof (induction s rule: wf_induct_rule)
    case (less s)
    show ?case
    proof (cases "sp_parent (h ! s)")
      case None
      then have "{a. (s, a) \<in> (parent_rel h)\<^sup>*} = {s}"
        by (auto simp: parent_rel_def elim: converse_rtranclE)
      with None show ?thesis by (intro exI [of _ "[s]"]) (auto intro: scope_chain.top)
    next
      case (Some p)
      with less.prems have sp: "(s, p) \<in> parent_rel h" by (simp add: parent_rel_def)
      with sub less.IH [of p] obtain xs where xs: "scope_chain h p xs" "distinct xs"
        "set xs = {a. (p, a) \<in> (parent_rel h)\<^sup>*}" by auto
      have "s \<notin> set xs"
        using sp ac xs(3) by (auto simp: acyclic_def dest: rtrancl_into_trancl2)
      moreover have "{a. (s, a) \<in> (parent_rel h)\<^sup>*} = insert s (set xs)"
        using sp Some xs(3) by (auto simp: parent_rel_def elim: converse_rtranclE intro: converse_rtrancl_into_rtrancl)
      ultimately show ?thesis
        using xs Some by (intro exI [of _ "s # xs"]) (auto intro: scope_chain.up)
    qed
  qed
qed

lemma chain_cong:
  "scope_chain h s xs \<Longrightarrow> \<forall>a \<in> set xs. sp_parent (h' ! a) = sp_parent (h ! a) \<Longrightarrow> scope_chain h' s xs"
  by (induction rule: scope_chain.induct) (auto intro: scope_chain.intros)

lemma set_config_chain:
  "scope_chain h s xs \<Longrightarrow> \<forall>a \<in> set xs. sp_parent (h' ! a) = sp_parent (h ! a) \<Longrightarrow>
    set xs \<subseteq> {..<length h'} \<Longrightarrow>
    \<exists>h''. set_config cfg s h' = Some h'' \<and> length h'' = length h'
      \<and> (\<forall>a < length h'. h'' ! a = (if a \<in> set xs then (h' ! a)\<lparr>sp_config := Some cfg\<rparr> else h' ! a))"
proof (induction arbitrary: h' rule: scope_chain.induct)
  case (top s)
  then show ?case by (subst set_config.simps) auto
next
  case (up s p xs)
  let ?h = "h'[s := (h' ! s)\<lparr>sp_config := Some cfg\<rparr>]"
  have "\<forall>a \<in> set xs. sp_parent (?h ! a) = sp_parent (h ! a)"
    using up.prems by (auto simp: nth_list_update)
  with up.IH [of ?h] up.prems obtain h'' where h'': "set_config cfg p ?h = Some h''" "length h'' = length h'"
    "\<forall>a < length h'. h'' ! a = (if a \<in> set xs then (?h ! a)\<lparr>sp_config := Some cfg\<rparr> else ?h ! a)"
    by auto
  have "set_config cfg s h' = Some h''"
    using up.prems up.hyps(1) h''(1) by (subst set_config.simps) simp
  with h''(2,3) up.prems show ?case by (auto simp: nth_list_update)
qed

text \<open>A set of scopes closed under parents, none of which knows the name, is searched forever.\<close>

lemma lookup_forever:
  assumes "s \<in> C" "\<And>a. a \<in> C \<Longrightarrow> map_of (sel (h ! a)) name = None \<and> (\<exists>p \<in> C. sp_parent (h ! a) = Some p)"
  shows "lookup_up sel h s name = None"
proof -
  have "lookup_up sel h s name = Some r \<Longrightarrow>
      s \<in> C \<longrightarrow> (\<forall>a \<in> C. map_of (sel (h ! a)) name = None \<and> (\<exists>p \<in> C. sp_parent (h ! a) = Some p)) \<longrightarrow> False" for r
  proof (erule lookup_up.raw_induct
      [where P = "\<lambda>sel h s name r. s \<in> C \<longrightarrow> (\<forall>a \<in> C. map_of (sel (h ! a)) name = None
        \<and> (\<exists>p \<in> C. sp_parent (h ! a) = Some p)) \<longrightarrow> False", rotated])
  qed (fastforce split: option.splits)
  with assms show ?thesis by (cases "lookup_up sel h s name") auto
qed

section \<open>The heap\<close>

lemma parent_rel_list_update:
  "s < length h \<Longrightarrow> parent_rel (h[s := sc]) =
     {(c, p) \<in> parent_rel h. c \<noteq> s} \<union> {(c, p). c = s \<and> sp_parent sc = Some p}"
  by (auto simp: parent_rel_def nth_list_update split: if_splits)

lemma scopes_ok_sub:
  "scopes_ok h \<Longrightarrow> s < length h \<Longrightarrow> sp_parent sc \<in> {None, sp_parent (h ! s)} \<Longrightarrow> scopes_ok (h[s := sc])"
proof -
  assume a: "scopes_ok h" "s < length h" "sp_parent sc \<in> {None, sp_parent (h ! s)}"
  then have "parent_rel (h[s := sc]) \<subseteq> parent_rel h"
    by (auto simp: parent_rel_list_update) (auto simp: parent_rel_def)
  with a(1) show ?thesis by (auto simp: scopes_ok_def intro: acyclic_subset)
qed

lemma scopes_ok_link:
  assumes "scopes_ok h" "s < length h" "sp_parent (h ! s) = None" "sp_parent sc = Some p" "p < length h"
    "(p, s) \<notin> (parent_rel h)\<^sup>*"
  shows "scopes_ok (h[s := sc])"
proof -
  have "parent_rel (h[s := sc]) = insert (s, p) (parent_rel h)"
    using assms(2,3,4) unfolding parent_rel_list_update [OF assms(2)] by (auto simp: parent_rel_def)
  with assms show ?thesis by (auto simp: scopes_ok_def)
qed

lemma parent_rel_append:
  "parent_rel (h @ [sc]) = parent_rel h \<union> {(c, p). c = length h \<and> sp_parent sc = Some p}"
  by (auto simp: parent_rel_def nth_append less_Suc_eq)

lemma reach_in_heap:
  "R \<subseteq> {..<n} \<times> {..<n} \<Longrightarrow> (a, b) \<in> R\<^sup>* \<Longrightarrow> a < n \<Longrightarrow> b < (n :: nat)"
  by (erule rtranclE) auto

lemma scopes_ok_append:
  assumes "scopes_ok h" "sp_parent sc = None \<or> (\<exists>p < length h. sp_parent sc = Some p)"
  shows "scopes_ok (h @ [sc])"
proof -
  have sub: "parent_rel h \<subseteq> {..<length h} \<times> {..<length h}" and ac: "acyclic (parent_rel h)"
    using assms(1) by (auto simp: scopes_ok_def)
  have sub': "parent_rel h \<subseteq> {..<length (h @ [sc])} \<times> {..<length (h @ [sc])}"
    using sub by force
  show ?thesis
  proof (cases "sp_parent sc")
    case None
    then have "parent_rel (h @ [sc]) = parent_rel h" by (simp add: parent_rel_append)
    with sub' ac show ?thesis by (simp add: scopes_ok_def)
  next
    case (Some p)
    with assms(2) have p: "p < length h" by simp
    have "(p, length h) \<notin> (parent_rel h)\<^sup>*"
      using reach_in_heap [OF sub] p by blast
    with ac have "acyclic (insert (length h, p) (parent_rel h))" by simp
    moreover have "parent_rel (h @ [sc]) = insert (length h, p) (parent_rel h)"
      using Some by (auto simp: parent_rel_append)
    ultimately show ?thesis using sub' p by (simp add: scopes_ok_def)
  qed
qed

lemma chain_append:
  assumes "scope_chain h s xs" "set xs \<subseteq> {..<length h}"
  shows "scope_chain (h @ [sc]) s xs"
proof (rule chain_cong [OF assms(1)])
  show "\<forall>a \<in> set xs. sp_parent ((h @ [sc]) ! a) = sp_parent (h ! a)"
    using assms(2) by (auto simp: nth_append)
qed

lemma chain_in_heap:
  assumes "scopes_ok h" "s < length h"
  obtains xs where "scope_chain h s xs" "distinct xs" "set xs = {a. (s, a) \<in> (parent_rel h)\<^sup>*}" "set xs \<subseteq> {..<length h}"
proof -
  obtain xs where xs: "scope_chain h s xs" "distinct xs" "set xs = {a. (s, a) \<in> (parent_rel h)\<^sup>*}"
    using chain_exists [OF assms] by blast
  moreover have "set xs \<subseteq> {..<length h}"
    unfolding xs(3) using assms reach_in_heap by (auto simp: scopes_ok_def)
  ultimately show ?thesis using that by blast
qed

lemma lookup_append:
  assumes "scopes_ok h" "s < length h"
  shows "lookup_up sel (h @ [sc]) s name = lookup_up sel h s name"
proof -
  obtain xs where xs: "scope_chain h s xs" "set xs \<subseteq> {..<length h}"
    using chain_in_heap [OF assms] by metis
  have "first_hit (\<lambda>a. map_of (sel ((h @ [sc]) ! a)) name) xs = first_hit (\<lambda>a. map_of (sel (h ! a)) name) xs"
    using xs(2) by (induction xs) (auto simp: nth_append split: option.splits)
  with xs show ?thesis by (simp add: lookup_chain [OF chain_append] lookup_chain)
qed

section \<open>Registries of scopes\<close>

text \<open>A registry: the field of a scope it is kept in; children get a copy of it.\<close>

locale scope_registry =
  fixes sel :: "'f scope \<Rightarrow> (string, 'v) dict" and put :: "(string, 'v) dict \<Rightarrow> 'f scope \<Rightarrow> 'f scope"
  assumes sel_put: "sel (put d sc) = d"
    and parent_put: "sp_parent (put d sc) = sp_parent sc"
    and sel_child: "sel (child_scope t s sc) = sel sc"
begin

lemma child_lookup:
  assumes "scopes_ok h" "s < length h"
  shows "lookup_up sel (h @ [child_scope t s (h ! s)]) (length h) name = lookup_up sel h s name"
proof (cases "map_of (sel (h ! s)) name")
  case None
  have "sp_parent (child_scope t s (h ! s)) = Some s" by (simp add: child_scope_def)
  with None have "lookup_up sel (h @ [child_scope t s (h ! s)]) (length h) name =
      lookup_up sel (h @ [child_scope t s (h ! s)]) s name"
    by (subst lookup_up.simps) (simp add: sel_child)
  with assms show ?thesis by (simp add: lookup_append)
next
  case (Some v)
  then show ?thesis by (simp add: lookup_up.simps [of _ _ "length h"] lookup_up.simps [of _ h s] sel_child)
qed

lemma register_cases:
  assumes "register_entry sel put kind s name v st = (r, st')" "s < length (rt_heap st)"
  obtains e where "r = Inl e" "st' = st" "map_of (sel (the_scope st s)) name \<noteq> None"
  | "r = Inr ()" "map_of (sel (the_scope st s)) name = None"
    "rt_heap st' = (rt_heap st)[s := put (AList.update name v (sel (the_scope st s))) (the_scope st s)]"
    "st' = st\<lparr>rt_heap := rt_heap st'\<rparr>"
proof (cases "map_of (sel (the_scope st s)) name")
  case None
  with assms(1) have "r = Inr ()"
    "st' = st\<lparr>rt_heap := (rt_heap st)[s := put (AList.update name v (sel (the_scope st s))) (the_scope st s)]\<rparr>"
    by (auto simp: register_entry_def on_scope_def)
  with None that(2) show ?thesis by simp
next
  case (Some v')
  with assms(1) that(1) show ?thesis by (auto simp: register_entry_def)
qed

lemma registered_found:
  assumes "register_entry sel put kind s name v st = (Inr (), st')" "s < length (rt_heap st)"
  shows "lookup_up sel (rt_heap st') s name = Some (Some v)"
  by (rule register_cases [OF assms]) (use assms(2) in \<open>simp_all add: lookup_up.simps [of _ _ s] sel_put\<close>)

lemma register_elsewhere:
  assumes "register_entry sel put kind s name v st = (r, st')" "s < length (rt_heap st)"
    and "scopes_ok (rt_heap st)" "a < length (rt_heap st)" "(a, s) \<notin> (parent_rel (rt_heap st))\<^sup>*"
  shows "lookup_up sel (rt_heap st') a n = lookup_up sel (rt_heap st) a n"
  using assms(1,2)
proof (rule register_cases)
  assume h: "rt_heap st' = (rt_heap st)[s := put (AList.update name v (sel (the_scope st s))) (the_scope st s)]"
  obtain xs where xs: "scope_chain (rt_heap st) a xs" "set xs = {b. (a, b) \<in> (parent_rel (rt_heap st))\<^sup>*}"
    using chain_in_heap [OF assms(3,4)] by metis
  with assms(5) have "s \<notin> set xs" by simp
  then have same: "\<forall>b \<in> set xs. rt_heap st' ! b = rt_heap st ! b" by (metis h nth_list_update_neq)
  then have "first_hit (\<lambda>b. map_of (sel (rt_heap st' ! b)) n) xs = first_hit (\<lambda>b. map_of (sel (rt_heap st ! b)) n) xs"
    by (induction xs) (auto split: option.splits)
  moreover have "scope_chain (rt_heap st') a xs"
    using chain_cong [OF xs(1), of "rt_heap st'"] same by simp
  ultimately show ?thesis using xs(1) by (simp add: lookup_chain)
qed simp

end

interpretation service_funcs: scope_registry sp_service_funcs put_service_funcs
  by unfold_locales (simp_all add: child_scope_def)

interpretation client_funcs: scope_registry sp_client_funcs put_client_funcs
  by unfold_locales (simp_all add: child_scope_def)

interpretation service_instances: scope_registry sp_service_instances put_service_instances
  by unfold_locales (simp_all add: child_scope_def)

interpretation client_instances: scope_registry sp_client_instances put_client_instances
  by unfold_locales (simp_all add: child_scope_def)

section \<open>Everything the program does with scopes\<close>

definition factory_ok :: "nat \<Rightarrow> scope_factory \<Rightarrow> bool" where
  "factory_ok n factory = (case factory of BindRuntime s \<Rightarrow> s < n | BindTenant t \<Rightarrow> True)"

inductive rt_step :: "'f runtimes \<Rightarrow> 'f runtimes \<Rightarrow> bool" where
  create: "rt_step st (snd (create_runtime st))"
| child: "s < length (rt_heap st) \<Longrightarrow> rt_step st (snd (child t s st))"
| service_func: "s < length (rt_heap st) \<Longrightarrow> register_service_func s name f st = (r, st') \<Longrightarrow> rt_step st st'"
| client_func: "s < length (rt_heap st) \<Longrightarrow> register_client s name f st = (r, st') \<Longrightarrow> rt_step st st'"
| service_instance: "s < length (rt_heap st) \<Longrightarrow> register_service_instance s name i st = (r, st') \<Longrightarrow> rt_step st st'"
| client_instance: "s < length (rt_heap st) \<Longrightarrow> register_client_instance s name i st = (r, st') \<Longrightarrow> rt_step st st'"
| interceptor: "s < length (rt_heap st) \<Longrightarrow> rt_step st (register_interceptor s ic st)"
| link: "s < length (rt_heap st) \<Longrightarrow> p < length (rt_heap st) \<Longrightarrow> (p, s) \<notin> (parent_rel (rt_heap st))\<^sup>* \<Longrightarrow>
    register_parent s p st = (r, st') \<Longrightarrow> rt_step st st'"
| unlink: "s < length (rt_heap st) \<Longrightarrow> rt_step st (clear_parent s st)"
| reset: "s < length (rt_heap st) \<Longrightarrow> rt_step st (reset_runtime s st)"
| auth: "s < length (rt_heap st) \<Longrightarrow> rt_step st (enable_auth s st)"
| provider: "s < length (rt_heap st) \<Longrightarrow> rt_step st (set_credentials_provider p s st)"
| info: "rt_step st (set_service_info i st)"
| config: "s < length (rt_heap st) \<Longrightarrow> set_config cfg s (rt_heap st) = Some h \<Longrightarrow> rt_step st (st\<lparr>rt_heap := h\<rparr>)"
| update: "s < length (rt_heap st) \<Longrightarrow> rt_step st (update_runtime s st)"
| enter: "factory_ok (length (rt_heap st)) (rsc_factory rs) \<Longrightarrow> enter_scope rs st = (s, rs', st') \<Longrightarrow>
    rt_step st (st'\<lparr>rt_open := rs' # rt_open st'\<rparr>)"
| leave: "rt_open st = rs # rest \<Longrightarrow> rt_step st ((snd (exit_scope rs st))\<lparr>rt_open := rest\<rparr>)"

inductive rt_reachable :: "'f runtimes \<Rightarrow> bool" where
  start: "rt_reachable initial_runtimes"
| more: "rt_reachable st \<Longrightarrow> rt_step st st' \<Longrightarrow> rt_reachable st'"

definition rt_ok :: "'f runtimes \<Rightarrow> bool" where
  "rt_ok st = (scopes_ok (rt_heap st) \<and> rt_current st < length (rt_heap st)
     \<and> (\<forall>rs \<in> set (rt_open st). \<forall>t. rsc_token rs = Some t \<longrightarrow> t < length (rt_heap st)))"

lemma rt_ok_append:
  "rt_ok st \<Longrightarrow> sp_parent sc = None \<or> (\<exists>p < length (rt_heap st). sp_parent sc = Some p) \<Longrightarrow>
    rt_ok (st\<lparr>rt_heap := rt_heap st @ [sc]\<rparr>)"
  by (auto simp: rt_ok_def scopes_ok_append less_Suc_eq)

lemma rt_ok_update:
  "rt_ok st \<Longrightarrow> s < length (rt_heap st) \<Longrightarrow> sp_parent sc \<in> {None, sp_parent (rt_heap st ! s)} \<Longrightarrow>
    rt_ok (st\<lparr>rt_heap := (rt_heap st)[s := sc]\<rparr>)"
  using scopes_ok_sub [of "rt_heap st" s sc] by (auto simp: rt_ok_def)

lemma rt_ok_on_scope:
  "rt_ok st \<Longrightarrow> s < length (rt_heap st) \<Longrightarrow> sp_parent (g (rt_heap st ! s)) \<in> {None, sp_parent (rt_heap st ! s)} \<Longrightarrow>
    rt_ok (on_scope s g st)"
  by (simp only: on_scope_def rt_ok_update)

lemma rt_ok_fresh [simp]: "rt_ok (st\<lparr>rt_fresh := n\<rparr>) = rt_ok st"
  by (simp add: rt_ok_def)

lemma rt_ok_register:
  assumes "\<And>d sc. sp_parent (put d sc) = sp_parent sc" "rt_ok st" "s < length (rt_heap st)"
    "register_entry sel put kind s name v st = (r, st')"
  shows "rt_ok st'"
  using assms rt_ok_on_scope [of st s] by (auto simp: register_entry_def split: if_splits)

lemma rt_ok_auth:
  assumes "rt_ok st" "s < length (rt_heap st)"
  shows "rt_ok (enable_auth s st)"
proof -
  have "rt_ok (ensure_provider s st)" "length (rt_heap (ensure_provider s st)) = length (rt_heap st)"
    using assms by (auto simp: ensure_provider_def rt_ok_on_scope) (simp add: on_scope_def)
  with assms show ?thesis
    by (auto simp: enable_auth_def register_interceptor_def rt_ok_on_scope Let_def split: option.splits)
qed

lemma parent_rel_cong:
  "length h' = length h \<Longrightarrow> \<forall>a < length h. sp_parent (h' ! a) = sp_parent (h ! a) \<Longrightarrow> parent_rel h' = parent_rel h"
  by (auto simp: parent_rel_def)

lemma set_config_total:
  assumes "scopes_ok h" "s < length h"
  shows "\<exists>h'. set_config cfg s h = Some h' \<and> length h' = length h
    \<and> (\<forall>a < length h. h' ! a = (if (s, a) \<in> (parent_rel h)\<^sup>* then (h ! a)\<lparr>sp_config := Some cfg\<rparr> else h ! a))"
proof -
  obtain xs where "scope_chain h s xs" "set xs = {a. (s, a) \<in> (parent_rel h)\<^sup>*}" "set xs \<subseteq> {..<length h}"
    using chain_in_heap [OF assms] by metis
  with set_config_chain [of h s xs h cfg] show ?thesis by simp
qed

lemma rt_ok_config:
  assumes "rt_ok st" "s < length (rt_heap st)" "set_config cfg s (rt_heap st) = Some h"
  shows "rt_ok (st\<lparr>rt_heap := h\<rparr>)"
proof -
  from set_config_total [of "rt_heap st" s cfg] assms have len: "length h = length (rt_heap st)"
    and "\<forall>a < length (rt_heap st). sp_parent (h ! a) = sp_parent (rt_heap st ! a)"
    by (auto simp: rt_ok_def)
  with parent_rel_cong [of h "rt_heap st"] assms(1) show ?thesis by (simp add: rt_ok_def scopes_ok_def)
qed

lemma rt_ok_current: "rt_ok st \<Longrightarrow> s < length (rt_heap st) \<Longrightarrow> rt_ok (st\<lparr>rt_current := s\<rparr>)"
  by (simp add: rt_ok_def)

lemma rt_ok_child: "rt_ok st \<Longrightarrow> s < length (rt_heap st) \<Longrightarrow> rt_ok (snd (child t s st))"
  by (simp add: child_def allocate_def rt_ok_append child_scope_def)

lemma rt_ok_enter:
  assumes "rt_ok st" "factory_ok (length (rt_heap st)) (rsc_factory rs)" "enter_scope rs st = (s, rs', st')"
  shows "rt_ok (st'\<lparr>rt_open := rs' # rt_open st'\<rparr>)"
proof -
  obtain st1 where m: "make_runtime (rsc_factory rs) st = (s, st1)" "rs' = rs\<lparr>rsc_token := Some (rt_current st1)\<rparr>"
    "st' = st1\<lparr>rt_current := s\<rparr>"
    using assms(3) by (auto simp: enter_scope_def Let_def split: prod.splits)
  have "rt_ok st1 \<and> s < length (rt_heap st1)"
    using m(1) assms(1,2) rt_ok_child [of st "rt_current st"]
    by (auto simp: make_runtime_def factory_ok_def child_def allocate_def rt_ok_def split: scope_factory.splits)
  then show ?thesis by (auto simp: m(2,3) rt_ok_def)
qed

lemma rt_ok_step: "rt_step st st' \<Longrightarrow> rt_ok st \<Longrightarrow> rt_ok st'"
proof (induction rule: rt_step.induct)
  case (link s st p r st')
  then show ?case
    using scopes_ok_link [of "rt_heap st" s "(rt_heap st ! s)\<lparr>sp_parent := Some p\<rparr>" p]
    by (auto simp: register_parent_def on_scope_def rt_ok_def split: if_splits)
next
  case (enter st rs s rs' st')
  then show ?case by (rule rt_ok_enter [rotated])
next
  case (config s st cfg h)
  then show ?case by (rule rt_ok_config [rotated])
next
  case (service_func s st name f r st')
  from this(3,1,2) show ?case
    unfolding register_service_func_def by (rule rt_ok_register [rotated]) simp
next
  case (client_func s st name f r st')
  from this(3,1,2) show ?case
    unfolding register_client_def by (rule rt_ok_register [rotated]) simp
next
  case (service_instance s st name f r st')
  from this(3,1,2) show ?case
    unfolding register_service_instance_def by (rule rt_ok_register [rotated]) simp
next
  case (client_instance s st name f r st')
  from this(3,1,2) show ?case
    unfolding register_client_instance_def by (rule rt_ok_register [rotated]) simp
next
  case (info st i)
  then have "rt_current st < length (rt_heap st)" by (simp add: rt_ok_def)
  with info show ?case by (simp add: set_service_info_def rt_ok_on_scope)
next
  case (leave st rs rest)
  then show ?case by (auto simp: exit_scope_def rt_ok_def split: option.splits)
qed (simp_all add: create_runtime_def allocate_def rt_ok_append new_scope_def rt_ok_child register_interceptor_def
    clear_parent_def reset_runtime_def rt_ok_auth set_credentials_provider_def set_service_info_def
    update_runtime_def rt_ok_current rt_ok_on_scope)

lemma parent_rel_new [simp]: "parent_rel [new_scope] = {}"
  using parent_rel_append [of "[]" new_scope] by (simp add: parent_rel_def new_scope_def)

lemma reachable_ok: "rt_reachable st \<Longrightarrow> rt_ok st"
proof (induction rule: rt_reachable.induct)
  case start
  show ?case by (simp add: initial_runtimes_def rt_ok_def scopes_ok_def acyclic_def)
qed (rule rt_ok_step)

section \<open>Properties\<close>



text \<open>Nothing stops a program from making a scope its own parent: then names it lacks are sought forever.\<close>

theorem parent_cycle_diverges:
  "fst (register_parent 0 0 (initial_runtimes :: 'f runtimes)) = Inr ()
   \<and> get_service (rt_heap (snd (register_parent 0 0 (initial_runtimes :: 'f runtimes)))) 0 name = None"
proof -
  have "lookup_up sp_service_funcs [(new_scope :: 'f scope)\<lparr>sp_parent := Some 0\<rparr>] 0 name = None"
    by (rule lookup_forever [of 0 "{0}"]) (simp_all add: new_scope_def)
  then show ?thesis by (simp add: register_parent_def initial_runtimes_def on_scope_def get_service_def new_scope_def)
qed

lemma tenant_enter_world:
  fixes other :: "pyval \<Rightarrow> string" and fb :: string
  assumes "rt_ok (cx_world c)"
  defines "outer \<equiv> rt_current (cx_world c)" and "t \<equiv> extract_tenant_id other fb c"
  shows "cx_world (tenant_enter other fb c) =
     (cx_world c)\<lparr>rt_heap := rt_heap (cx_world c) @ [child_scope (Some t) outer (the_scope (cx_world c) outer)],
        rt_current := length (rt_heap (cx_world c)),
        rt_open := \<lparr>rsc_factory = BindTenant t, rsc_token = Some outer\<rparr> # rt_open (cx_world c)\<rparr>"
  by (simp add: tenant_enter_def enter_scope_def with_tenant_def make_runtime_def child_def allocate_def Let_def
      outer_def t_def)

text \<open>
  C21. A request with the tenant interceptor runs in a scope of its tenant (of the outer
  tenant, when the name is empty): in it every service of the outer scope is found, what it registers
  is found in it and leaves all lookups outside as they were, and when it ends, with whatever exception
  and whatever scope it made current, the outer scope is current again.
\<close>

theorem tenant_scoped:
  assumes "rt_reachable (cx_world c)" "ic_enter (tenant_interceptor other fb) c = (None, ws, c1)"
  defines "outer \<equiv> rt_current (cx_world c)" and "inner \<equiv> rt_current (cx_world c1)" and "t \<equiv> extract_tenant_id other fb c"
  shows "sp_tenant_id (the_scope (cx_world c1) inner) = (if t = [] then sp_tenant_id (the_scope (cx_world c) outer) else t)
    \<and> get_service (rt_heap (cx_world c1)) inner name = get_service (rt_heap (cx_world c)) outer name
    \<and> (\<forall>n f st. register_service_func inner n f (cx_world c1) = (Inr (), st) \<longrightarrow>
         get_service (rt_heap st) inner n = Some (Some f)
         \<and> (\<forall>a < length (rt_heap (cx_world c)). get_service (rt_heap st) a name = get_service (rt_heap (cx_world c)) a name))
    \<and> (\<forall>c2 exc. rt_open (cx_world c2) = rt_open (cx_world c1) \<longrightarrow>
         (\<exists>c3. ic_exit (tenant_interceptor other fb) exc c2 = (exc, c3) \<and> rt_current (cx_world c3) = outer))"
proof -
  have c1: "c1 = tenant_enter other fb c" using assms(2) by (simp add: tenant_interceptor_def)
  have ok: "rt_ok (cx_world c)" by (rule reachable_ok [OF assms(1)])
  then have h: "scopes_ok (rt_heap (cx_world c))" "outer < length (rt_heap (cx_world c))"
    by (simp_all add: rt_ok_def outer_def)
  let ?child = "child_scope (Some t) outer (the_scope (cx_world c) outer)"
  have w: "rt_heap (cx_world c1) = rt_heap (cx_world c) @ [?child]" "inner = length (rt_heap (cx_world c))"
    "rt_open (cx_world c1) = \<lparr>rsc_factory = BindTenant t, rsc_token = Some outer\<rparr> # rt_open (cx_world c)"
    unfolding inner_def c1 tenant_enter_world [OF ok] by (simp_all add: t_def outer_def)
  have h1: "scopes_ok (rt_heap (cx_world c1))"
    unfolding w(1) using h by (intro scopes_ok_append) (auto simp: child_scope_def)
  have reach: "(a, inner) \<notin> (parent_rel (rt_heap (cx_world c1)))\<^sup>*" if "a < length (rt_heap (cx_world c))" for a
  proof
    have "parent_rel (rt_heap (cx_world c1)) \<subseteq> UNIV \<times> {..<inner}"
      using h w by (auto simp: scopes_ok_def parent_rel_append child_scope_def)
    moreover assume "(a, inner) \<in> (parent_rel (rt_heap (cx_world c1)))\<^sup>*"
    ultimately show False using that w(2) by (auto elim: rtranclE)
  qed
  have "sp_tenant_id (the_scope (cx_world c1) inner) = (if t = [] then sp_tenant_id (the_scope (cx_world c) outer) else t)"
    by (simp add: w child_scope_def)
  moreover have "get_service (rt_heap (cx_world c1)) inner name = get_service (rt_heap (cx_world c)) outer name"
    unfolding get_service_def w by (rule service_funcs.child_lookup [OF h])
  moreover have "get_service (rt_heap st) inner n = Some (Some f)
      \<and> (\<forall>a < length (rt_heap (cx_world c)). get_service (rt_heap st) a name = get_service (rt_heap (cx_world c)) a name)"
    if r: "register_service_func inner n f (cx_world c1) = (Inr (), st)" for n f st
  proof -
    note r' = r [unfolded register_service_func_def]
    have len: "inner < length (rt_heap (cx_world c1))" by (simp add: w)
    have "lookup_up sp_service_funcs (rt_heap st) a name = lookup_up sp_service_funcs (rt_heap (cx_world c)) a name"
      if "a < length (rt_heap (cx_world c))" for a
      using service_funcs.register_elsewhere [OF r' len h1 _ reach [OF that]] that h(1) by (simp add: w lookup_append)
    with service_funcs.registered_found [OF r' len] show ?thesis by (simp add: get_service_def)
  qed
  moreover have "\<exists>c3. ic_exit (tenant_interceptor other fb) exc c2 = (exc, c3) \<and> rt_current (cx_world c3) = outer"
    if "rt_open (cx_world c2) = rt_open (cx_world c1)" for c2 exc
    using that by (simp add: tenant_interceptor_def tenant_exit_def w exit_scope_def)
  ultimately show ?thesis by blast
qed

definition sample_tenant_ctx :: "nat runtimes ctx" where
  "sample_tenant_ctx = new_ctx empty_request [(''tenant_id'', PStr ''acme'')] None [] False initial_runtimes"

theorem tenant_scoped_witness:
  "sp_tenant_id (the_scope (cx_world (tenant_enter (\<lambda>_. []) ''default'' sample_tenant_ctx)) 1) = ''acme''"
proof -
  have r: "rt_reachable (cx_world sample_tenant_ctx)"
    by (simp add: sample_tenant_ctx_def new_ctx_def rt_reachable.start)
  have e: "ic_enter (tenant_interceptor (\<lambda>_. []) ''default'') sample_tenant_ctx =
      (None, [], tenant_enter (\<lambda>_. []) ''default'' sample_tenant_ctx)" by (simp add: tenant_interceptor_def)
  have "sp_tenant_id (the_scope (cx_world (tenant_enter (\<lambda>_. []) ''default'' sample_tenant_ctx))
      (rt_current (cx_world (tenant_enter (\<lambda>_. []) ''default'' sample_tenant_ctx)))) = ''acme''"
    using conjunct1 [OF tenant_scoped [OF r e]]
    by (simp add: extract_tenant_id_def py_str_def sample_tenant_ctx_def new_ctx_def)
  then show ?thesis
    by (simp add: tenant_enter_def enter_scope_def with_tenant_def make_runtime_def child_def allocate_def Let_def
      sample_tenant_ctx_def new_ctx_def initial_runtimes_def)
qed

text \<open>
  The scope opened for a tenant does not inherit the configuration, it has none; and
  a configuration set in it is set in the outer scope and in all its ancestors as well, so one tenant
  sets it for all.
\<close>

theorem tenant_config_leaks:
  assumes "rt_reachable (cx_world c)" "ic_enter (tenant_interceptor other fb) c = (None, ws, c1)"
  shows "sp_config (the_scope (cx_world c1) (rt_current (cx_world c1))) = None
    \<and> (\<exists>h. set_config cfg (rt_current (cx_world c1)) (rt_heap (cx_world c1)) = Some h
         \<and> (\<forall>a. (rt_current (cx_world c), a) \<in> (parent_rel (rt_heap (cx_world c)))\<^sup>* \<longrightarrow> sp_config (h ! a) = Some cfg))"
proof -
  let ?h = "rt_heap (cx_world c)" and ?s = "rt_current (cx_world c)"
  let ?child = "child_scope (Some (extract_tenant_id other fb c)) ?s (?h ! ?s)"
  have c1: "c1 = tenant_enter other fb c" using assms(2) by (simp add: tenant_interceptor_def)
  have ok: "rt_ok (cx_world c)" by (rule reachable_ok [OF assms(1)])
  then have h: "scopes_ok ?h" "?s < length ?h" by (simp_all add: rt_ok_def)
  have w: "rt_heap (cx_world c1) = ?h @ [?child]" "rt_current (cx_world c1) = length ?h"
    unfolding c1 tenant_enter_world [OF ok] by simp_all
  obtain xs where xs: "scope_chain ?h ?s xs" "set xs = {a. (?s, a) \<in> (parent_rel ?h)\<^sup>*}" "set xs \<subseteq> {..<length ?h}"
    using chain_in_heap [OF h] by metis
  have "scope_chain (?h @ [?child]) (length ?h) (length ?h # xs)"
    using chain_append [OF xs(1,3)] by (intro scope_chain.up [where p = ?s]) (simp_all add: child_scope_def)
  moreover have "set (length ?h # xs) \<subseteq> {..<length (?h @ [?child])}" using xs(3) by auto
  ultimately obtain h' where h': "set_config cfg (length ?h) (?h @ [?child]) = Some h'"
    "\<forall>a < length (?h @ [?child]). h' ! a = (if a \<in> set (length ?h # xs)
        then ((?h @ [?child]) ! a)\<lparr>sp_config := Some cfg\<rparr> else (?h @ [?child]) ! a)"
    using set_config_chain [of "?h @ [?child]" "length ?h" "length ?h # xs" "?h @ [?child]" cfg] by blast
  have "sp_config (h' ! a) = Some cfg" if "a \<in> set xs" for a
    using h'(2) that xs(3) by (auto simp: less_Suc_eq)
  with h'(1) show ?thesis by (simp add: w child_scope_def xs(2))
qed

theorem tenant_config_leaks_witness:
  "\<exists>h. set_config 7 1 (rt_heap (cx_world (tenant_enter (\<lambda>_. []) ''default'' sample_tenant_ctx))) = Some h
     \<and> sp_config (h ! 0) = Some 7"
proof -
  have "rt_reachable (cx_world sample_tenant_ctx)"
    by (simp add: sample_tenant_ctx_def new_ctx_def rt_reachable.start)
  moreover have "ic_enter (tenant_interceptor (\<lambda>_. []) ''default'') sample_tenant_ctx =
      (None, [], tenant_enter (\<lambda>_. []) ''default'' sample_tenant_ctx)" by (simp add: tenant_interceptor_def)
  moreover have "rt_current (cx_world (tenant_enter (\<lambda>_. []) ''default'' sample_tenant_ctx)) = 1"
    "rt_current (cx_world sample_tenant_ctx) = 0"
    by (simp_all add: tenant_enter_def enter_scope_def with_tenant_def make_runtime_def child_def allocate_def Let_def
      sample_tenant_ctx_def new_ctx_def initial_runtimes_def)
  ultimately show ?thesis
    using tenant_config_leaks [where c = sample_tenant_ctx and other = "\<lambda>_. []" and fb = "''default''" and cfg = 7] by auto
qed

end
