(* ===== verification/Service_Call.thy ===== *)
theory Service_Call
  imports Runtime_Scopes
begin

text \<open>
  Service functions and their callers (\<open>server/rpc_execution/service_call.py\<close>,
  \<open>server/rpc_execution/service_func.py\<close>): the decorators that register the functions of a class,
  the metadata they attach, the binding and pre-parsing of arguments, and the call with its
  wrappers. Functions are references; what they do is in the environment \<open>call_env\<close>, as are
  pydantic's validation and the JSON parser.
\<close>

section \<open>Function metadata\<close>

record func_meta =
  fm_client_stream :: bool
  fm_server_stream :: bool
  fm_bidirectional_stream :: bool
  fm_idempotent_key :: "string option"
  fm_timeout :: "int option"
  fm_long_running :: bool
  fm_permission :: "permission option"

text \<open>A permission as given to \<open>@function\<close>: an object, or a value (a tuple is a list here).\<close>

definition normalize_permission :: "(pyval \<Rightarrow> string) \<Rightarrow> permission_decl \<Rightarrow> exn + permission option" where
  "normalize_permission other v =
     (case v of
        PermValue PNone \<Rightarrow> Inr None
      | PermObject p \<Rightarrow> Inr (Some p)
      | PermValue (PDict d) \<Rightarrow>
          (let resource = dict_get d ''resource'' PNone; action = dict_get d ''action'' PNone in
           if resource = PNone \<or> action = PNone
           then Inl (Exn ValueError 0 (''permission dict must include '' @ CHR 0x27 # ''resource'' @ CHR 0x27 # '' and '' @ CHR 0x27 # ''action'' @ [CHR 0x27]) PNone None)
           else Inr (Some \<lparr>pm_resource = py_str other resource, pm_action = py_str other action\<rparr>))
      | PermValue (PList [r, a]) \<Rightarrow> Inr (Some \<lparr>pm_resource = py_str other r, pm_action = py_str other a\<rparr>)
      | _ \<Rightarrow> Inl (Exn ValueError 0 ''permission must be Permission, (resource, action), dict, or None'' PNone None))"

definition function_decorator ::
  "(pyval \<Rightarrow> string) \<Rightarrow> string option \<Rightarrow> int option \<Rightarrow> bool \<Rightarrow> bool \<Rightarrow> bool \<Rightarrow> bool \<Rightarrow> permission_decl \<Rightarrow> exn + func_meta" where
  "function_decorator other idempotent_key timeout client_stream server_stream bidirectional long_running permission =
     bind_ok (normalize_permission other permission) (\<lambda>p.
       Inr \<lparr>fm_client_stream = client_stream \<or> bidirectional, fm_server_stream = server_stream \<or> bidirectional,
            fm_bidirectional_stream = bidirectional, fm_idempotent_key = idempotent_key, fm_timeout = timeout,
            fm_long_running = long_running, fm_permission = p\<rparr>)"

definition no_func_meta :: func_meta where
  "no_func_meta =
     \<lparr>fm_client_stream = False, fm_server_stream = False, fm_bidirectional_stream = False,
      fm_idempotent_key = None, fm_timeout = None, fm_long_running = False, fm_permission = None\<rparr>"

definition permission_value :: "permission option \<Rightarrow> pyval" where
  "permission_value p =
     (case p of None \<Rightarrow> PNone
      | Some q \<Rightarrow> PDict [(''resource'', PStr (pm_resource q)), (''action'', PStr (pm_action q))])"

definition meta_dict :: "func_meta \<Rightarrow> (string, pyval) dict" where
  "meta_dict m =
     [(''client_stream'', PBool (fm_client_stream m)), (''server_stream'', PBool (fm_server_stream m)),
      (''bidirectional_stream'', PBool (fm_bidirectional_stream m)),
      (''idempotent_key'', opt_pystr (fm_idempotent_key m)), (''timeout'', opt_val PInt (fm_timeout m)),
      (''long_running'', PBool (fm_long_running m)), (''permission'', permission_value (fm_permission m))]"

section \<open>Functions\<close>

datatype py_arg = Val pyval | Inst obj

record param =
  prm_name :: string
  prm_default :: "py_arg option"

record py_func =
  pf_ref :: nat
  pf_name :: string
  pf_params :: "param list"
  pf_async :: bool
  pf_doc :: "string option"
  pf_meta :: "func_meta option"

definition get_func_metadata :: "py_func \<Rightarrow> func_meta" where
  "get_func_metadata f = (case pf_meta f of Some m \<Rightarrow> m | None \<Rightarrow> no_func_meta)"

record service_func =
  sf_fn :: nat
  sf_params :: "param list"
  sf_name :: string
  sf_full_name :: string
  sf_description :: string
  sf_is_async :: bool
  sf_version :: string
  sf_deprecated :: bool
  sf_deprecation_message :: string
  sf_replaced_by :: "string option"
  sf_idempotent_key :: "string option"
  sf_timeout :: "int option"
  sf_long_running :: bool
  sf_metadata :: "(string, pyval) dict"
  sf_client_stream :: bool
  sf_server_stream :: bool
  sf_bidirectional_stream :: bool

record service_opts =
  so_name :: "string option"
  so_version :: string
  so_deprecated :: bool
  so_deprecation_message :: string
  so_replaced_by :: "string option"
  so_metadata :: "(string, pyval) dict option"

definition merge_dicts :: "('k, 'v) dict \<Rightarrow> ('k, 'v) dict \<Rightarrow> ('k, 'v) dict" where
  "merge_dicts a b = fold (\<lambda>(k, v). AList.update k v) b a"

text \<open>
  \<open>ServiceFunc.from_function\<close>: \<open>func_metadata\<close> refuses parameters whose names start with an
  underscore; that pydantic can build the models of the annotations is taken for granted.
\<close>

definition from_function ::
  "py_func \<Rightarrow> string \<Rightarrow> string \<Rightarrow> service_opts \<Rightarrow> exn + service_func" where
  "from_function f name full_name opts =
     (case List.find (\<lambda>p. starts_with (prm_name p) ''_'') (pf_params f) of
        Some p \<Rightarrow> Inl (Exn RuntimeError 0 (''Parameter '' @ prm_name p @ '' of '' @ pf_name f @ '' cannot start with '' @ CHR 0x27 # ''_'' @ [CHR 0x27]) PNone None)
      | None \<Rightarrow>
          (let m = get_func_metadata f in
           Inr \<lparr>sf_fn = pf_ref f, sf_params = pf_params f, sf_name = name, sf_full_name = full_name,
                sf_description = or_empty (pf_doc f), sf_is_async = pf_async f, sf_version = so_version opts,
                sf_deprecated = so_deprecated opts, sf_deprecation_message = so_deprecation_message opts,
                sf_replaced_by = so_replaced_by opts, sf_idempotent_key = fm_idempotent_key m,
                sf_timeout = fm_timeout m, sf_long_running = fm_long_running m,
                sf_metadata = merge_dicts (case so_metadata opts of None \<Rightarrow> [] | Some d \<Rightarrow> d) (meta_dict m),
                sf_client_stream = fm_client_stream m, sf_server_stream = fm_server_stream m,
                sf_bidirectional_stream = fm_bidirectional_stream m\<rparr>))"

definition to_descriptor :: "service_func \<Rightarrow> method_descriptor" where
  "to_descriptor sf =
     \<lparr>md_name = sf_name sf, md_full_name = Some (sf_full_name sf), md_description = Some (sf_description sf),
      md_client_stream = sf_client_stream sf, md_server_stream = sf_server_stream sf,
      md_bidirectional_stream = sf_bidirectional_stream sf, md_deprecated = sf_deprecated sf,
      md_version = Some (sf_version sf)\<rparr>"

section \<open>The decorators of classes\<close>

text \<open>
  \<open>pc_members\<close> are the functions \<open>inspect.getmembers\<close> finds in the class, in order of their names:
  all functions defined in it or inherited from Python classes, dunder and private ones included.
\<close>

record py_class =
  pc_name :: string
  pc_ref :: string
  pc_members :: "(string \<times> py_func) list"

definition get_service_exn ::
  "nat \<Rightarrow> string \<Rightarrow> ('f, 'z) runtimes_scheme \<Rightarrow> exn + 'f option" where
  "get_service_exn s name st =
     (case get_service (rt_heap st) s name of
        None \<Rightarrow> Inl (Exn RuntimeError 0 ''maximum recursion depth exceeded'' PNone None)
      | Some r \<Rightarrow> Inr r)"

definition full_name_of :: "string \<Rightarrow> string \<Rightarrow> exn + string" where
  "full_name_of service handler =
     (case format_v2 service handler of
        Inl _ \<Rightarrow> Inl (Exn ValueError 0 ''service must not be empty'' PNone None)
      | Inr m \<Rightarrow> Inr m)"

definition register_member ::
  "service_opts \<Rightarrow> nat \<Rightarrow> string \<Rightarrow> string \<times> py_func
     \<Rightarrow> (service_func, 'z) runtimes_scheme \<Rightarrow> (exn + unit) \<times> (service_func, 'z) runtimes_scheme" where
  "register_member opts s service_name m st =
     (let handler = service_name @ CHR ''.'' # fst m in
      case get_service_exn s handler st of
        Inl e \<Rightarrow> (Inl e, st)
      | Inr (Some _) \<Rightarrow> (Inr (), st)
      | Inr None \<Rightarrow>
          (case sp_service_info (the_scope st s) of
             None \<Rightarrow> (Inl (no_attribute ''service_name''), st)
           | Some info \<Rightarrow>
               (case full_name_of (si_service_name info) handler of
                  Inl e \<Rightarrow> (Inl e, st)
                | Inr full \<Rightarrow>
                    (case from_function (snd m) handler full opts of
                       Inl e \<Rightarrow> (Inl e, st)
                     | Inr sf \<Rightarrow> register_service_func s handler sf st))))"

fun register_members ::
  "service_opts \<Rightarrow> nat \<Rightarrow> string \<Rightarrow> (string \<times> py_func) list
     \<Rightarrow> (service_func, 'z) runtimes_scheme \<Rightarrow> (exn + unit) \<times> (service_func, 'z) runtimes_scheme" where
  "register_members opts s service_name [] st = (Inr (), st)"
| "register_members opts s service_name (m # ms) st =
     (case register_member opts s service_name m st of
        (Inl e, st1) \<Rightarrow> (Inl e, st1)
      | (Inr _, st1) \<Rightarrow> register_members opts s service_name ms st1)"

definition advertise ::
  "nat \<Rightarrow> string \<Rightarrow> string \<Rightarrow> (service_func, 'z) runtimes_scheme \<Rightarrow> (service_func, 'z) runtimes_scheme" where
  "advertise s service_name cls st =
     (case sp_service_info (the_scope st s) of
        None \<Rightarrow> st
      | Some info \<Rightarrow>
          if si_service_name info \<noteq> [] \<and> si_service_name info \<noteq> service_name
             \<and> map_of (sp_service_instances (the_scope st s)) (si_service_name info) = None
          then on_scope s (\<lambda>sc. sc\<lparr>sp_service_instances := AList.update (si_service_name info) cls (sp_service_instances sc)\<rparr>) st
          else st)"

definition service_decorator ::
  "service_opts \<Rightarrow> nat \<Rightarrow> py_class
     \<Rightarrow> (service_func, 'z) runtimes_scheme \<Rightarrow> (exn + unit) \<times> (service_func, 'z) runtimes_scheme" where
  "service_decorator opts s cls st =
     (let service_name = (case so_name opts of None \<Rightarrow> pc_name cls | Some n \<Rightarrow> if n = [] then pc_name cls else n) in
      case register_members opts s service_name (pc_members cls) st of
        (Inl e, st1) \<Rightarrow> (Inl e, st1)
      | (Inr _, st1) \<Rightarrow>
          (case register_service_instance s service_name (pc_ref cls) st1 of
             (Inl e, st2) \<Rightarrow> (Inl e, st2)
           | (Inr _, st2) \<Rightarrow> (Inr (), advertise s service_name (pc_ref cls) st2)))"

definition is_dunder :: "string \<Rightarrow> bool" where
  "is_dunder n = (starts_with n ''__'' \<and> ends_with n ''__'')"

text \<open>\<open>client_function\<close> looks the handler up before it wraps the function.\<close>

definition client_function ::
  "nat \<Rightarrow> string \<Rightarrow> (service_func, 'z) runtimes_scheme \<Rightarrow> exn + service_func" where
  "client_function s handler st =
     (case map_of (sp_client_funcs (the_scope st s)) handler of
        None \<Rightarrow> Inl (Exn ValueError 0 (''Client function '' @ CHR 0x27 # handler @ CHR 0x27 # '' is not registered in the runtime.'') PNone None)
      | Some sf \<Rightarrow> Inr sf)"

definition get_client_exn ::
  "nat \<Rightarrow> string \<Rightarrow> ('f, 'z) runtimes_scheme \<Rightarrow> exn + 'f option" where
  "get_client_exn s name st =
     (case get_client (rt_heap st) s name of
        None \<Rightarrow> Inl (Exn RuntimeError 0 ''maximum recursion depth exceeded'' PNone None)
      | Some r \<Rightarrow> Inr r)"

fun client_members ::
  "service_opts \<Rightarrow> nat \<Rightarrow> string \<Rightarrow> string \<Rightarrow> (string \<times> py_func) list
     \<Rightarrow> (service_func, 'z) runtimes_scheme \<Rightarrow> (exn + unit) \<times> (service_func, 'z) runtimes_scheme" where
  "client_members opts s service_name cls [] st = (Inr (), st)"
| "client_members opts s service_name cls (m # ms) st =
     (if is_dunder (fst m) then client_members opts s service_name cls ms st
      else
        (let handler = (if cls = [] then fst m else cls @ CHR ''.'' # fst m) in
         case get_client_exn s handler st of
           Inl e \<Rightarrow> (Inl e, st)
         | Inr (Some _) \<Rightarrow> client_members opts s service_name cls ms st
         | Inr None \<Rightarrow>
             (case full_name_of service_name handler of
                Inl e \<Rightarrow> (Inl e, st)
              | Inr full \<Rightarrow>
                  (case client_function s handler st of
                     Inl e \<Rightarrow> (Inl e, st)
                   | Inr _ \<Rightarrow>
                       (case from_function (snd m) handler full opts of
                          Inl e \<Rightarrow> (Inl e, st)
                        | Inr sf \<Rightarrow>
                            (case register_client s handler sf st of
                               (Inl e, st1) \<Rightarrow> (Inl e, st1)
                             | (Inr _, st1) \<Rightarrow> client_members opts s service_name cls ms st1))))))"

definition client_decorator ::
  "service_opts \<Rightarrow> nat \<Rightarrow> string \<Rightarrow> py_class
     \<Rightarrow> (service_func, 'z) runtimes_scheme \<Rightarrow> (exn + unit) \<times> (service_func, 'z) runtimes_scheme" where
  "client_decorator opts s service_name cls st =
     (case client_members opts s service_name (pc_name cls) (pc_members cls) st of
        (Inl e, st1) \<Rightarrow> (Inl e, st1)
      | (Inr _, st1) \<Rightarrow> register_client_instance s (pc_name cls) (pc_ref cls) st1)"

section \<open>Arguments\<close>

text \<open>
  \<open>args_to_dict\<close>: the signature's binding for ordinary parameters. Its own first parameter is
  called \<open>func\<close>, so no keyword of that name can be passed. The messages of the TypeErrors are left out.
\<close>

definition type_error :: exn where
  "type_error = Exn TypeError 0 [] PNone None"

definition bind_args :: "param list \<Rightarrow> py_arg list \<Rightarrow> (string, py_arg) dict \<Rightarrow> exn + (string, py_arg) dict" where
  "bind_args params args kwargs =
     (let names = map prm_name params; pos = zip names args;
          given = (\<lambda>p. case map_of pos (prm_name p) of
                          Some v \<Rightarrow> Some v
                        | None \<Rightarrow> (case map_of kwargs (prm_name p) of Some v \<Rightarrow> Some v | None \<Rightarrow> prm_default p))
      in if length args > length params then Inl type_error
         else if (\<exists>k \<in> set (dict_keys kwargs). k \<in> set (dict_keys pos) \<or> k \<notin> set names) then Inl type_error
         else if (\<exists>p \<in> set params. given p = None) then Inl type_error
         else Inr (map (\<lambda>p. (prm_name p, the (given p))) params))"

definition args_to_dict :: "param list \<Rightarrow> py_arg list \<Rightarrow> (string, py_arg) dict \<Rightarrow> exn + (string, py_arg) dict" where
  "args_to_dict params args kwargs =
     (if ''func'' \<in> set (dict_keys kwargs) then Inl type_error else bind_args params args kwargs)"

text \<open>\<open>loads\<close> is \<open>json.loads\<close>, \<open>None\<close> its \<open>JSONDecodeError\<close>; a bool is an int.\<close>

definition pre_parse_value :: "(string \<Rightarrow> pyval option) \<Rightarrow> py_arg \<Rightarrow> py_arg" where
  "pre_parse_value loads v =
     (case v of
        Val (PStr s) \<Rightarrow>
          (case loads s of
             None \<Rightarrow> v
           | Some j \<Rightarrow>
               (case j of PStr _ \<Rightarrow> v | PInt _ \<Rightarrow> v | PBool _ \<Rightarrow> v | PFloat _ \<Rightarrow> v | _ \<Rightarrow> Val j))
      | _ \<Rightarrow> v)"

definition pre_parse_json ::
  "(string \<Rightarrow> pyval option) \<Rightarrow> string list \<Rightarrow> (string, py_arg) dict \<Rightarrow> (string, py_arg) dict" where
  "pre_parse_json loads names data =
     map (\<lambda>(k, v). (k, if k \<in> set names then pre_parse_value loads v else v)) data"

section \<open>The call\<close>

text \<open>A result is a value or an object of the protocol; an async generator's items come with its end.\<close>

datatype py_result = RValue pyval | RResponse rpc_response | RError rpc_error

datatype fn_result = Value py_result | AsyncGen "py_result list" "exn option"

record 'w call_env =
  ce_loads :: "string \<Rightarrow> pyval option"
  ce_validate :: "nat \<Rightarrow> (string, py_arg) dict \<Rightarrow> exn + (string, py_arg) dict"
  ce_body :: "nat \<Rightarrow> (string, py_arg) dict \<Rightarrow> ('w, exn, fn_result) comp"
  ce_new :: "string \<Rightarrow> ('w, exn, obj) comp"
  ce_pool_key :: "string \<Rightarrow> string"

definition async_wrapper ::
  "('w, exn, 'r) comp option \<Rightarrow> ('w, exn, 'r) comp \<Rightarrow> ('w, exn, 'r) comp" where
  "async_wrapper fallback f w =
     (case f w of
        (Inr v, w1) \<Rightarrow> (Inr v, w1)
      | (Inl e, w1) \<Rightarrow>
          if isinstance_exn e CancelledError \<or> isinstance_exn e PyException
          then (case fallback of Some g \<Rightarrow> g w1 | None \<Rightarrow> (Inl e, w1))
          else (Inl e, w1))"

definition sync_wrapper ::
  "('w, exn, fn_result) comp option \<Rightarrow> ('w, exn, fn_result) comp \<Rightarrow> ('w, exn, fn_result) comp" where
  "sync_wrapper fallback f w =
     (case f w of
        (Inr (Value v), w1) \<Rightarrow> (Inr (Value v), w1)
      | (Inr (AsyncGen xs e), w1) \<Rightarrow> (case fallback of Some g \<Rightarrow> g w1 | None \<Rightarrow> (Inl type_error, w1))
      | (Inl e, w1) \<Rightarrow>
          if isinstance_exn e PyException
          then (case fallback of Some g \<Rightarrow> g w1 | None \<Rightarrow> (Inl e, w1))
          else (Inl e, w1))"

definition call_fn_with_arg_validation ::
  "'w call_env \<Rightarrow> service_func \<Rightarrow> (string, py_arg) dict \<Rightarrow> ('w, exn, fn_result) comp" where
  "call_fn_with_arg_validation env sf args w =
     (case ce_validate env (sf_fn sf) (pre_parse_json (ce_loads env) (map prm_name (sf_params sf)) args) of
        Inl e \<Rightarrow> (Inl e, w)
      | Inr d \<Rightarrow>
          if sf_is_async sf then async_wrapper None (ce_body env (sf_fn sf) d) w
          else sync_wrapper None (ce_body env (sf_fn sf) d) w)"

definition run :: "'w call_env \<Rightarrow> service_func \<Rightarrow> (string, py_arg) dict \<Rightarrow> ('w, exn, fn_result) comp" where
  "run env sf args w =
     (case call_fn_with_arg_validation env sf args w of
        (Inr v, w1) \<Rightarrow> (Inr v, w1)
      | (Inl e, w1) \<Rightarrow>
          (Inl (if isinstance_exn e PyException
                then Exn RuntimeError 0 (''Error executing tool '' @ sf_name sf) PNone None else e), w1))"

text \<open>The pool of service instances, one per module and class name.\<close>

record call_world = "service_func runtimes" +
  cw_pool :: "(string, obj) dict"

definition get_or_create ::
  "'z call_world_scheme call_env \<Rightarrow> string \<Rightarrow> ('z call_world_scheme, exn, obj) comp" where
  "get_or_create env cls w =
     (case map_of (cw_pool w) (ce_pool_key env cls) of
        Some i \<Rightarrow> (Inr i, w)
      | None \<Rightarrow>
          (case ce_new env cls w of
             (Inl e, w1) \<Rightarrow> (Inl e, w1)
           | (Inr i, w1) \<Rightarrow> (Inr i, w1\<lparr>cw_pool := AList.update (ce_pool_key env cls) i (cw_pool w1)\<rparr>)))"

definition clear_pool :: "'z call_world_scheme \<Rightarrow> 'z call_world_scheme" where
  "clear_pool w = w\<lparr>cw_pool := []\<rparr>"

text \<open>
  \<open>ServiceCaller\<close> in the current scope. The keywords \<open>self\<close> and \<open>func_name\<close> collide with the
  parameters of \<open>call\<close> itself.
\<close>

definition not_registered :: "string \<Rightarrow> string \<Rightarrow> exn" where
  "not_registered kind name = Exn ValueError 0 (kind @ '' '' @ CHR 0x27 # name @ CHR 0x27 # '' is not registered.'') PNone None"

definition service_call ::
  "'z call_world_scheme call_env \<Rightarrow> string \<Rightarrow> string \<Rightarrow> (string, py_arg) dict
     \<Rightarrow> ('z call_world_scheme, exn, fn_result) comp" where
  "service_call env service_name func_name kwargs w =
     (let sc = the_scope w (rt_current w); cls = map_of (sp_service_instances sc) service_name in
      if (\<exists>k \<in> {''self'', ''func_name''}. k \<in> set (dict_keys kwargs)) then (Inl type_error, w)
      else
        (case map_of (sp_service_funcs sc) func_name of
           None \<Rightarrow> (Inl (not_registered ''Service function'' func_name), w)
         | Some sf \<Rightarrow>
             (case cls of
                None \<Rightarrow> (Inl (not_registered ''Service'' service_name), w)
              | Some c \<Rightarrow>
                  (case get_or_create env c w of
                     (Inl e, w1) \<Rightarrow> (Inl e, w1)
                   | (Inr i, w1) \<Rightarrow>
                       (case args_to_dict (sf_params sf) [Inst i] kwargs of
                          Inl e \<Rightarrow> (Inl e, w1)
                        | Inr d \<Rightarrow> run env sf d w1)))))"

section \<open>Helpers of the client\<close>

definition normalize_auth_scheme :: "(pyval \<Rightarrow> string) \<Rightarrow> pyval + auth_scheme \<Rightarrow> auth_scheme" where
  "normalize_auth_scheme other v =
     (case v of
        Inr s \<Rightarrow> s
      | Inl PNone \<Rightarrow> UNSPECIFIED
      | Inl x \<Rightarrow>
          (let raw = py_lower (py_strip (py_str other x)) in
           case List.find (\<lambda>s. py_lower (auth_scheme_name s) = raw)
                  [UNSPECIFIED, BEARER, API_KEY, MTLS, BASIC] of
             Some s \<Rightarrow> s
           | None \<Rightarrow> UNSPECIFIED))"

definition build_auth_context ::
  "(pyval \<Rightarrow> string) \<Rightarrow> pyval + auth_context \<Rightarrow> (pyval + auth_scheme) option \<Rightarrow> auth_context option" where
  "build_auth_context other token scheme =
     (case token of
        Inr a \<Rightarrow> Some a
      | Inl PNone \<Rightarrow> None
      | Inl t \<Rightarrow>
          Some \<lparr>ac_scheme = (case scheme of None \<Rightarrow> BEARER | Some s \<Rightarrow> normalize_auth_scheme other s),
                ac_credentials = Some (py_str other t), ac_principal = None, ac_principal_type = None,
                ac_roles = None\<rparr>)"

text \<open>\<open>stream\<close> says which values are async iterables; the dictionary loses the source.\<close>

definition extract_stream_source ::
  "('a \<Rightarrow> bool) \<Rightarrow> (string, 'a) dict \<Rightarrow> exn + 'a option \<times> (string, 'a) dict" where
  "extract_stream_source stream data =
     (if length data > 1
      then Inl (Exn ValueError 0 ''When using client streaming or bidirectional streaming, only one stream source is allowed.'' PNone None)
      else (case List.find (\<lambda>(k, v). stream v) data of
              Some (k, v) \<Rightarrow> Inr (Some v, AList.delete k data)
            | None \<Rightarrow> Inr (None, data)))"

definition raise_for_rpc_error :: "(rpc_error \<Rightarrow> pyval) \<Rightarrow> string option \<Rightarrow> py_result \<Rightarrow> exn option" where
  "raise_for_rpc_error dump msg v =
     (case (case v of RError e \<Rightarrow> Some e | RResponse r \<Rightarrow> rs_error r | RValue _ \<Rightarrow> None) of
        None \<Rightarrow> None
      | Some e \<Rightarrow>
          (let m = (if err_message e \<noteq> [] then err_message e
                    else (case msg of Some x \<Rightarrow> if x = [] then ''RPC error'' else x | None \<Rightarrow> ''RPC error''))
           in Some (exception_from_code (err_code e) (Some m) (dump e))))"

section \<open>A client's call\<close>

text \<open>
  \<open>_client_call\<close> once the service is resolved: the checks, and the request it sends. \<open>uuid\<close> and \<open>now\<close>
  are the request's identifier and time, \<open>is_stream\<close> tells asynchronous iterables, \<open>dump\<close> is
  \<open>model_dump\<close>; for client streams the request stands for the one made of every item.
\<close>

record client_app =
  ca_resolver_policy :: lb_policy
  ca_retry :: "retry_policy option"
  ca_client_id :: string

definition chosen_policy :: "lb_policy \<Rightarrow> pyval \<Rightarrow> lb_policy" where
  "chosen_policy app v =
     (case (if v = PNone then None else py_int v) of
        Some i \<Rightarrow>
          (case map_of [(0, Random), (1, WeightedRoundRobin), (2, CONSISTENT_HASHING)] i of
             Some p \<Rightarrow> if p = Random then app else p
           | None \<Rightarrow> app)
      | None \<Rightarrow> app)"

definition client_method_name :: "service_func \<Rightarrow> string \<Rightarrow> exn + string" where
  "client_method_name sf service_name =
     (case sf_replaced_by sf of
        Some (x # xs) \<Rightarrow> full_name_of service_name (x # xs)
      | _ \<Rightarrow> Inr (sf_full_name sf))"

definition check_capabilities :: "service_func \<Rightarrow> service_instance \<Rightarrow> exn option" where
  "check_capabilities sf inst =
     (let err = (\<lambda>what. Some (Exn RuntimeError 0 (''Service '' @ CHR 0x27 # si_service_name inst @ CHR 0x27 # '' does not support '' @ what) PNone None)) in
      if \<not> (sf_bidirectional_stream sf \<or> sf_client_stream sf \<or> sf_server_stream sf) then None
      else (case si_capabilities inst of
              None \<Rightarrow> Some (no_attribute (if sf_bidirectional_stream sf then ''bidirectional'' else ''streaming''))
            | Some c \<Rightarrow>
                if sf_bidirectional_stream sf \<and> \<not> scap_bidirectional c then err ''bidirectional streaming''
                else if sf_client_stream sf \<and> \<not> scap_streaming c then err ''client streaming''
                else if sf_server_stream sf \<and> \<not> scap_streaming c then err ''server streaming''
                else None))"

datatype client_action =
    CallUnary rpc_request | CallServerStream rpc_request | CallClientStream rpc_request
  | CallBidirectional rpc_request | SubmitTask task_submit_request

definition client_metadata :: "client_app \<Rightarrow> int \<Rightarrow> string \<Rightarrow> auth_context option \<Rightarrow> service_func \<Rightarrow> request_metadata" where
  "client_metadata app now tenant auth sf =
     create_request_metadata now tenant (ca_client_id app) auth None (sf_long_running sf)
       (if sf_long_running sf then Some ''task/submit'' else None) None"

definition client_qos :: "client_app \<Rightarrow> service_func \<Rightarrow> (string, pyval) dict \<Rightarrow> exn + qos_config" where
  "client_qos app sf data =
     bind_ok (if sf_idempotent_key sf \<in> {None, Some []} then Inr None
              else opt_str_field (dict_get data ''idempotency_key'' PNone)) (\<lambda>key.
       Inr (default_qos_config\<lparr>qc_timeout_ms := sf_timeout sf, qc_idempotency_key := key, qc_retry := ca_retry app\<rparr>))"

definition client_plan ::
  "(pyval \<Rightarrow> bool) \<Rightarrow> (rpc_request \<Rightarrow> pyval) \<Rightarrow> string \<Rightarrow> int \<Rightarrow> client_app \<Rightarrow> service_func \<Rightarrow> string \<Rightarrow> string
     \<Rightarrow> service_instance \<Rightarrow> auth_context option \<Rightarrow> trace_context option \<Rightarrow> (string, pyval) dict
     \<Rightarrow> exn + client_action" where
  "client_plan is_stream dump uuid now app sf service_name tenant inst auth tc data =
     bind_ok (client_method_name sf service_name) (\<lambda>method.
     bind_ok (case check_capabilities sf inst of Some e \<Rightarrow> Inl e | None \<Rightarrow> Inr ()) (\<lambda>_.
     bind_ok (client_qos app sf data) (\<lambda>qos.
       (let meta = client_metadata app now tenant auth sf;
            extra = map_option (map (\<lambda>(k, v). (k, PStr v))) (si_metadata inst);
            request = (\<lambda>d. create_request uuid service_name method d extra tc (Some (Qos qos)) (Some meta))
        in if sf_long_running sf then
             (if sf_client_stream sf \<or> sf_bidirectional_stream sf
              then Inl (Exn RuntimeError 0 ''long_running cannot be combined with client/bidirectional streaming.'' PNone None)
              else bind_ok (request (PDict data)) (\<lambda>r.
                     bind_ok (new_task_submit_request ''task/submit'' (dump r) default_submit_priority)
                       (\<lambda>t. Inr (SubmitTask t))))
           else if sf_client_stream sf \<or> sf_bidirectional_stream sf then
             bind_ok (extract_stream_source is_stream data) (\<lambda>_.
             bind_ok (request PNone) (\<lambda>r.
               Inr (if sf_bidirectional_stream sf then CallBidirectional r else CallClientStream r)))
           else if sf_server_stream sf then
             bind_ok (request (PDict data)) (\<lambda>r. Inr (CallServerStream r))
           else bind_ok (request (PDict data)) (\<lambda>r. Inr (CallUnary r))))))"

section \<open>Facts\<close>

lemma full_name_ok: "full_name_of service (h @ CHR ''.'' # t) = Inr m \<longleftrightarrow> service \<noteq> [] \<and> m = V2_PREFIX @ service @ ''/'' @ h @ CHR ''.'' # t"
  by (auto simp: full_name_of_def format_v2_def)

lemma map_of_merge: "map_of (merge_dicts a b) = map_of a ++ map_of (rev b)"
  unfolding merge_dicts_def
proof (induction b arbitrary: a)
  case (Cons x b)
  then show ?case by (cases x) (auto simp: map_add_def fun_eq_iff split: option.splits)
qed simp

lemma from_function_fields:
  "from_function f name full opts = Inr sf \<Longrightarrow>
    sf_fn sf = pf_ref f \<and> sf_params sf = pf_params f \<and> sf_name sf = name
    \<and> map_of (sf_metadata sf) ''permission'' = Some (permission_value (fm_permission (get_func_metadata f)))"
  by (auto simp: from_function_def map_of_merge meta_dict_def Let_def split: option.splits)

text \<open>Registering one name leaves the lookups of the others as they were.\<close>

lemma lookup_other_name:
  assumes "scopes_ok (rt_heap st)" "s < length (rt_heap st)" "register_service_func s n f st = (r, st')" "n' \<noteq> n"
    "a < length (rt_heap st)"
  shows "get_service (rt_heap st') a n' = get_service (rt_heap st) a n'"
  using assms(3)[unfolded register_service_func_def] assms(2)
proof (rule service_funcs.register_cases)
  assume h: "rt_heap st' = (rt_heap st)[s := put_service_funcs (AList.update n f (sp_service_funcs (the_scope st s))) (the_scope st s)]"
  have same: "sp_parent (rt_heap st' ! b) = sp_parent (rt_heap st ! b)"
    "map_of (sp_service_funcs (rt_heap st' ! b)) n' = map_of (sp_service_funcs (rt_heap st ! b)) n'" for b
    using assms(2,4) by (auto simp: h nth_list_update_neq nth_list_update split: if_splits)
  obtain xs where "scope_chain (rt_heap st) a xs" using chain_in_heap [OF assms(1,5)] by metis
  moreover from chain_cong [OF this, of "rt_heap st'"] same have "scope_chain (rt_heap st') a xs" by simp
  ultimately show ?thesis by (simp add: get_service_def lookup_chain same)
qed simp

lemma register_keeps_ok:
  assumes "scopes_ok (rt_heap st)" "s < length (rt_heap st)" "register_service_func s n f st = (r, st')"
  shows "scopes_ok (rt_heap st') \<and> length (rt_heap st') = length (rt_heap st)"
  using assms(3)[unfolded register_service_func_def] assms(2)
  by (rule service_funcs.register_cases) (use assms(1,2) in \<open>auto intro!: scopes_ok_sub\<close>)

lemma register_member_cases:
  assumes "register_member opts s svc m st = (Inr (), st')"
  obtains sf where "get_service (rt_heap st) s (svc @ CHR ''.'' # fst m) = Some (Some sf)" "st' = st"
  | sf full where "get_service (rt_heap st) s (svc @ CHR ''.'' # fst m) = Some None"
    "from_function (snd m) (svc @ CHR ''.'' # fst m) full opts = Inr sf"
    "register_service_func s (svc @ CHR ''.'' # fst m) sf st = (Inr (), st')"
  using assms
  by (auto simp: register_member_def get_service_exn_def Let_def split: sum.splits option.splits)

lemma registered_own:
  assumes "register_service_func s n f st = (Inr (), st')" "s < length (rt_heap st)"
  shows "map_of (sp_service_funcs (the_scope st' s)) = (map_of (sp_service_funcs (the_scope st s)))(n \<mapsto> f)"
  using assms(1)[unfolded register_service_func_def] assms(2)
  by (rule service_funcs.register_cases) (use assms(2) in simp_all)

text \<open>
  What registering members does to scope \<open>s\<close>: the names among \<open>ns\<close> that were unknown are now in the
  scope itself, with the function made from their member; other names are as before.
\<close>

definition members_done ::
  "service_opts \<Rightarrow> nat \<Rightarrow> string \<Rightarrow> (string \<times> py_func) list \<Rightarrow> (service_func, 'z) runtimes_scheme
     \<Rightarrow> (service_func, 'z) runtimes_scheme \<Rightarrow> bool" where
  "members_done opts s svc ms st st' =
     (scopes_ok (rt_heap st') \<and> length (rt_heap st') = length (rt_heap st)
      \<and> (\<forall>m \<in> set ms. get_service (rt_heap st) s (svc @ CHR ''.'' # fst m) = Some None \<longrightarrow>
           (\<exists>sf full. from_function (snd m) (svc @ CHR ''.'' # fst m) full opts = Inr sf
              \<and> map_of (sp_service_funcs (the_scope st' s)) (svc @ CHR ''.'' # fst m) = Some sf))
      \<and> (\<forall>n. n \<notin> (\<lambda>m. svc @ CHR ''.'' # fst m) ` set ms \<longrightarrow>
           get_service (rt_heap st') s n = get_service (rt_heap st) s n
           \<and> map_of (sp_service_funcs (the_scope st' s)) n = map_of (sp_service_funcs (the_scope st s)) n))"

lemma register_member_done:
  assumes ok: "scopes_ok (rt_heap st)" "s < length (rt_heap st)" and r: "register_member opts s svc m st = (Inr (), st')"
  shows "members_done opts s svc [m] st st'"
  using r
proof (rule register_member_cases)
  fix sf full
  assume a: "register_service_func s (svc @ CHR ''.'' # fst m) sf st = (Inr (), st')"
    "from_function (snd m) (svc @ CHR ''.'' # fst m) full opts = Inr sf"
  from a(2) register_keeps_ok [OF ok a(1)] lookup_other_name [OF ok a(1) _ ok(2)] registered_own [OF a(1) ok(2)]
  show ?thesis by (auto simp: members_done_def)
qed (use ok in \<open>auto simp: members_done_def\<close>)

lemma members_done_Cons:
  assumes "members_done opts s svc [m] st st1" "members_done opts s svc ms st1 st'" "fst m \<notin> fst ` set ms"
  shows "members_done opts s svc (m # ms) st st'"
proof -
  have n: "svc @ CHR ''.'' # fst m \<notin> (\<lambda>m. svc @ CHR ''.'' # fst m) ` set ms" using assms(3) by (auto simp: image_iff)
  have "get_service (rt_heap st1) s (svc @ CHR ''.'' # fst m') = get_service (rt_heap st) s (svc @ CHR ''.'' # fst m')"
    if "m' \<in> set ms" for m'
  proof -
    have "fst m' \<noteq> fst m" using assms(3) that by (metis image_eqI)
    with assms(1) show ?thesis by (simp add: members_done_def)
  qed
  with n assms(1,2) show ?thesis by (simp add: members_done_def)
qed

lemma register_members_done:
  "register_members opts s svc ms st = (Inr (), st') \<Longrightarrow> scopes_ok (rt_heap st) \<Longrightarrow> s < length (rt_heap st) \<Longrightarrow>
    distinct (map fst ms) \<Longrightarrow> members_done opts s svc ms st st'"
proof (induction ms arbitrary: st)
  case (Cons m ms)
  obtain st1 where s1: "register_member opts s svc m st = (Inr (), st1)" "register_members opts s svc ms st1 = (Inr (), st')"
    using Cons.prems(1) by (auto split: prod.splits sum.splits)
  note d = register_member_done [OF Cons.prems(2,3) s1(1)]
  then have "scopes_ok (rt_heap st1)" "s < length (rt_heap st1)" using Cons.prems(3) by (simp_all add: members_done_def)
  with Cons.IH [OF s1(2)] Cons.prems(4) d show ?case by (intro members_done_Cons [OF d]) simp_all
qed (simp add: members_done_def)

lemma instances_leave_funcs:
  "register_service_instance s n c st = (r, st1) \<Longrightarrow> s < length (rt_heap st) \<Longrightarrow>
     sp_service_funcs (the_scope st1 s) = sp_service_funcs (the_scope st s)"
  "s < length (rt_heap st) \<Longrightarrow> sp_service_funcs (the_scope (advertise s svc c st) s) = sp_service_funcs (the_scope st s)"
  by (auto simp: register_service_instance_def register_entry_def advertise_def on_scope_def split: if_splits option.splits)

lemma registered_instance:
  "register_service_instance s n c st = (Inr (), st1) \<Longrightarrow> s < length (rt_heap st) \<Longrightarrow>
     s < length (rt_heap st1) \<and> map_of (sp_service_instances (the_scope st1 s)) n = Some c"
  "map_of (sp_service_instances (the_scope st s)) svc = Some c' \<Longrightarrow> s < length (rt_heap st) \<Longrightarrow>
     map_of (sp_service_instances (the_scope (advertise s svc c st) s)) svc = Some c'"
  by (auto simp: register_service_instance_def register_entry_def advertise_def on_scope_def split: if_splits option.splits)

lemma get_client_own: "get_client h s n = Some None \<Longrightarrow> map_of (sp_client_funcs (h ! s)) n = None"
  by (auto simp: get_client_def lookup_up.simps [of _ h s] split: option.splits)

section \<open>Properties\<close>

text \<open>What the security interceptor sees of a scope's functions.\<close>

definition function_permissions :: "(string, service_func) dict \<Rightarrow> (string, permission_decl) dict" where
  "function_permissions fs = map (\<lambda>(n, sf). (n, PermValue (dict_get (sf_metadata sf) ''permission'' PNone))) fs"

lemma map_of_permissions:
  "map_of (function_permissions fs) n =
     map_option (\<lambda>sf. PermValue (dict_get (sf_metadata sf) ''permission'' PNone)) (map_of fs n)"
  by (induction fs) (auto simp: function_permissions_def)

text \<open>
  The decorator \<open>@service\<close>, when it succeeds, makes every function of the class
  callable under its service's name, unless that name was taken: constructors and private helpers as
  much as the methods meant to be called. The permission the security interceptor then demands for it is
  the one declared with \<open>@function\<close>; one given in the metadata of \<open>@service\<close> never counts.
\<close>

theorem service_registers:
  assumes "service_decorator opts s cls st = (Inr (), st')" "so_name opts = Some svc" "svc \<noteq> []"
    and "scopes_ok (rt_heap st)" "s < length (rt_heap st)" "distinct (map fst (pc_members cls))"
    and "m \<in> set (pc_members cls)" "get_service (rt_heap st) s (svc @ CHR ''.'' # fst m) = Some None"
  shows "\<exists>sf. map_of (sp_service_funcs (the_scope st' s)) (svc @ CHR ''.'' # fst m) = Some sf
    \<and> sf_fn sf = pf_ref (snd m) \<and> sf_params sf = pf_params (snd m)
    \<and> map_of (sp_service_instances (the_scope st' s)) svc = Some (pc_ref cls)
    \<and> (\<forall>x method n. sx_funcs x = function_permissions (sp_service_funcs (the_scope st' s))
         \<and> parse_compat (Some method) = Inr n \<and> mn_handler n = svc @ CHR ''.'' # fst m \<longrightarrow>
           permission_for_method x method = fm_permission (get_func_metadata (snd m)))"
proof -
  obtain st1 st2 where steps: "register_members opts s svc (pc_members cls) st = (Inr (), st1)"
    "register_service_instance s svc (pc_ref cls) st1 = (Inr (), st2)" "st' = advertise s svc (pc_ref cls) st2"
    using assms(1-3) by (auto simp: service_decorator_def Let_def split: prod.splits sum.splits)
  have d: "members_done opts s svc (pc_members cls) st st1"
    using register_members_done [OF steps(1) assms(4,5,6)] .
  then have len: "s < length (rt_heap st1)" using assms(5) by (simp add: members_done_def)
  note inst = registered_instance(1) [OF steps(2) len]
  from d assms(7,8) obtain sf full where sf: "from_function (snd m) (svc @ CHR ''.'' # fst m) full opts = Inr sf"
    "map_of (sp_service_funcs (the_scope st1 s)) (svc @ CHR ''.'' # fst m) = Some sf"
    by (auto simp: members_done_def)
  have own: "map_of (sp_service_funcs (the_scope st' s)) (svc @ CHR ''.'' # fst m) = Some sf"
    using sf(2) instances_leave_funcs(1) [OF steps(2) len] instances_leave_funcs(2) [of s st2] inst by (simp add: steps(3))
  have fields: "sf_fn sf = pf_ref (snd m)" "sf_params sf = pf_params (snd m)"
    "map_of (sf_metadata sf) ''permission'' = Some (permission_value (fm_permission (get_func_metadata (snd m))))"
    using from_function_fields [OF sf(1)] by simp_all
  have "map_of (sp_service_instances (the_scope st' s)) svc = Some (pc_ref cls)"
    using registered_instance(2) [of st2 s svc "pc_ref cls"] inst by (simp add: steps(3))
  with own fields show ?thesis
    by (auto simp: permission_for_method_def map_of_permissions dict_get_def permission_value_def normalize_permission_data_def
        py_str_def split: option.splits)
qed

definition sample_class :: py_class where
  "sample_class = \<lparr>pc_name = ''Calc'', pc_ref = ''app.Calc'',
     pc_members = [(''__init__'', \<lparr>pf_ref = 1, pf_name = ''__init__'', pf_params = [\<lparr>prm_name = ''self'', prm_default = None\<rparr>],
       pf_async = False, pf_doc = None, pf_meta = None\<rparr>)]\<rparr>"

definition sample_opts :: service_opts where
  "sample_opts = \<lparr>so_name = Some ''Calc'', so_version = ''1.0.0'', so_deprecated = False, so_deprecation_message = [],
     so_replaced_by = None, so_metadata = None\<rparr>"

definition sample_world :: "service_func runtimes" where
  "sample_world = set_service_info (plain_instance ''a'' 1) initial_runtimes"

lemma sample_world_ok: "scopes_ok (rt_heap sample_world)" "0 < length (rt_heap sample_world)"
proof -
  have "rt_reachable sample_world"
    unfolding sample_world_def by (rule rt_reachable.more [OF rt_reachable.start rt_step.info])
  from reachable_ok [OF this] show "scopes_ok (rt_heap sample_world)" "0 < length (rt_heap sample_world)"
    by (auto simp: rt_ok_def)
qed

lemma sample_unknown: "get_service (rt_heap sample_world) 0 n = Some None" "get_client (rt_heap sample_world) 0 n = Some None"
  by (simp_all add: get_service_def get_client_def lookup_up.simps sample_world_def set_service_info_def initial_runtimes_def new_scope_def
      on_scope_def)

theorem service_registers_witness:
  "\<exists>sf. map_of (sp_service_funcs (the_scope (snd (service_decorator sample_opts 0 sample_class sample_world)) 0))
      ''Calc.__init__'' = Some sf \<and> sf_fn sf = 1"
proof -
  have ok: "fst (service_decorator sample_opts 0 sample_class sample_world) = Inr ()"
    by (simp add: service_decorator_def sample_opts_def sample_class_def register_member_def get_service_exn_def
        sample_unknown Let_def)
      (simp add: sample_world_def set_service_info_def initial_runtimes_def new_scope_def on_scope_def plain_instance_def
        full_name_of_def format_v2_def from_function_def get_func_metadata_def
        register_service_func_def register_service_instance_def register_entry_def)
  have m: "(''__init__'', \<lparr>pf_ref = 1, pf_name = ''__init__'', pf_params = [\<lparr>prm_name = ''self'', prm_default = None\<rparr>],
       pf_async = False, pf_doc = None, pf_meta = None\<rparr>) \<in> set (pc_members sample_class)" by (simp add: sample_class_def)
  have "service_decorator sample_opts 0 sample_class sample_world =
      (Inr (), snd (service_decorator sample_opts 0 sample_class sample_world))"
    using ok by (metis prod.collapse)
  moreover have "so_name sample_opts = Some ''Calc''" "distinct (map fst (pc_members sample_class))"
    by (simp_all add: sample_opts_def sample_class_def)
  ultimately show ?thesis
    using service_registers [of sample_opts 0 sample_class sample_world
        "snd (service_decorator sample_opts 0 sample_class sample_world)" "''Calc''", OF _ _ _ sample_world_ok _ m]
    by (auto simp: sample_unknown)
qed

lemma client_members_fail:
  "m \<in> set ms \<Longrightarrow> \<not> is_dunder (fst m) \<Longrightarrow> svc \<noteq> [] \<Longrightarrow> cls \<noteq> [] \<Longrightarrow>
    (\<And>m. m \<in> set ms \<Longrightarrow> get_client (rt_heap st) s (cls @ CHR ''.'' # fst m) = Some None) \<Longrightarrow>
    \<exists>h. client_members opts s svc cls ms st =
      (Inl (Exn ValueError 0 (''Client function '' @ CHR 0x27 # h @ CHR 0x27 # '' is not registered in the runtime.'') PNone None), st)"
proof (induction ms)
  case (Cons x ms)
  then have "get_client (rt_heap st) s (cls @ CHR ''.'' # fst x) = Some None" by simp
  with get_client_own [OF this] Cons show ?case
    by (auto simp: get_client_exn_def client_function_def full_name_of_def format_v2_def Let_def)
qed simp

text \<open>
  The decorator \<open>@client\<close> cannot be applied: for a class with any method that is
  not a dunder, none registered before, it raises ValueError, because it looks the first such method up
  among the registered client functions before it registers it; nothing is registered.
\<close>

theorem client_decorator_fails:
  assumes "m \<in> set (pc_members cls)" "\<not> is_dunder (fst m)" "svc \<noteq> []" "pc_name cls \<noteq> []"
    and "\<And>m. m \<in> set (pc_members cls) \<Longrightarrow> get_client (rt_heap st) s (pc_name cls @ CHR ''.'' # fst m) = Some None"
  shows "\<exists>e. client_decorator opts s svc cls st = (Inl e, st) \<and> exn_class e = ValueError"
  using client_members_fail [of m "pc_members cls" svc "pc_name cls" st s opts] assms
  by (auto simp: client_decorator_def)

theorem client_decorator_fails_witness:
  "\<exists>e. client_decorator sample_opts 0 ''svc''
     (sample_class\<lparr>pc_members := [(''add'', snd (hd (pc_members sample_class)))]\<rparr>) sample_world = (Inl e, sample_world)
     \<and> exn_class e = ValueError"
  by (rule client_decorator_fails [of "(''add'', snd (hd (pc_members sample_class)))"])
    (simp_all add: is_dunder_def sample_class_def sample_unknown)

text \<open>
  Whatever exception a service function raises, and whatever code an RpcException of it
  carries, the caller gets a RuntimeError that only names the function, which is reported as an internal
  error; arguments that do not validate are reported so too. Only what is not an Exception, like
  cancellation, passes.
\<close>

theorem run_masks_errors:
  assumes "run env sf args w = (Inl e, w')"
  shows "(isinstance_exn e PyException \<and> e = Exn RuntimeError 0 (''Error executing tool '' @ sf_name sf) PNone None
      \<and> map_exception_to_error_code e = error_code_value INTERNAL_ERROR)
    \<or> (\<not> isinstance_exn e PyException \<and> call_fn_with_arg_validation env sf args w = (Inl e, w'))"
proof -
  obtain e0 where e0: "call_fn_with_arg_validation env sf args w = (Inl e0, w')"
    "e = (if isinstance_exn e0 PyException then Exn RuntimeError 0 (''Error executing tool '' @ sf_name sf) PNone None else e0)"
    using assms by (auto simp: run_def split: prod.splits sum.splits if_splits)
  have "isinstance_exn (Exn RuntimeError 0 m PNone None) PyException"
    "map_exception_to_error_code (Exn RuntimeError 0 m PNone None) = error_code_value INTERNAL_ERROR" for m
    by (simp_all add: map_exception_to_error_code_def STANDARD_EXCEPTION_MAPPING_def is_subclass_def)
  with e0 show ?thesis by (cases "isinstance_exn e0 PyException") simp_all
qed

definition failing_env :: "unit call_env" where
  "failing_env = \<lparr>ce_loads = (\<lambda>_. None), ce_validate = (\<lambda>_ d. Inr d),
     ce_body = (\<lambda>_ _ w. (Inl (Exn PermissionDeniedError 403 [] PNone None), w)),
     ce_new = (\<lambda>_ w. (Inr 0, w)), ce_pool_key = (\<lambda>c. c)\<rparr>"

definition sample_func :: service_func where
  "sample_func =
     \<lparr>sf_fn = 0, sf_params = [], sf_name = ''Calc.add'', sf_full_name = [], sf_description = [], sf_is_async = True,
      sf_version = ''1.0.0'', sf_deprecated = False, sf_deprecation_message = [], sf_replaced_by = None,
      sf_idempotent_key = None, sf_timeout = None, sf_long_running = False, sf_metadata = [], sf_client_stream = False,
      sf_server_stream = False, sf_bidirectional_stream = False\<rparr>"

theorem run_masks_errors_witness:
  "\<exists>e. fst (run failing_env sample_func [] ()) = Inl e \<and> map_exception_to_error_code e = error_code_value INTERNAL_ERROR"
proof -
  obtain e w' where r: "run failing_env sample_func [] () = (Inl e, w')" "isinstance_exn e PyException"
    by (auto simp: run_def call_fn_with_arg_validation_def failing_env_def sample_func_def async_wrapper_def
        pre_parse_json_def new_rpc_exn_def is_subclass_def)
  with run_masks_errors [OF r(1)] show ?thesis by auto
qed

end
