(* ===== verification/Request_Handler.thy ===== *)
theory Request_Handler
  imports Service_Call Task_Manager
begin

text \<open>
  The default request handler (\<open>server/request_handlers/default_request_handler.py\<close>) with the request
  context and the executors it uses (\<open>server/rpc_execution/context.py\<close>,
  \<open>server/rpc_execution/request_executor.py\<close>): dispatch of unary and streaming requests through the
  chain of interceptors, and of the requests about long tasks.
\<close>

section \<open>State\<close>

text \<open>What a transport passes with a request; a submitted task keeps both until its runner runs.\<close>

record server_context =
  sc_state :: "(string, pyval) dict"
  sc_principal :: "principal option"
  sc_meta :: "(string, pyval) dict"

definition empty_server_context :: server_context where
  "empty_server_context = \<lparr>sc_state = [], sc_principal = None, sc_meta = []\<rparr>"

record rpc_server = call_world +
  sv_tasks :: task_manager
  sv_runners :: "(string \<times> rpc_request \<times> server_context) list"

text \<open>The clock and the identifiers generated while one request is handled.\<close>

record moment =
  mo_now :: int
  mo_context_id :: string
  mo_request_id :: string
  mo_task_id :: string
  mo_chain_id :: string
  mo_tick :: "nat \<Rightarrow> int \<times> rat"

section \<open>The request context\<close>

record request_context =
  rc_request :: rpc_request
  rc_server_context :: server_context
  rc_request_id :: string
  rc_context_id :: string
  rc_model_name :: pyval
  rc_method :: string
  rc_stream :: bool
  rc_metadata :: "(string, pyval) dict option"

definition meta_of :: "rpc_request \<Rightarrow> (string, pyval) dict" where
  "meta_of r = (case rq_meta r of None \<Rightarrow> [] | Some d \<Rightarrow> d)"

definition request_data :: "rpc_request \<Rightarrow> (string, pyval) dict" where
  "request_data r = (case rq_data r of None \<Rightarrow> [] | Some d \<Rightarrow> d)"

definition new_request_context ::
  "rpc_request \<Rightarrow> server_context \<Rightarrow> string \<Rightarrow> string \<Rightarrow> request_context" where
  "new_request_context r sc request_id context_id =
     \<lparr>rc_request = r, rc_server_context = sc, rc_request_id = request_id, rc_context_id = context_id,
      rc_model_name = dict_get (meta_of r) ''model'' PNone, rc_method = rq_method r,
      rc_stream = (dict_get (meta_of r) ''stream'' PNone = PStr ''true''), rc_metadata = rq_meta r\<rparr>"

text \<open>A request without identifier is given one; an empty one is replaced in the context only.\<close>

definition setup_request_context ::
  "moment \<Rightarrow> rpc_request \<Rightarrow> server_context \<Rightarrow> request_context" where
  "setup_request_context mo r sc =
     (let rid = (case rq_id r of Some (x # xs) \<Rightarrow> x # xs | _ \<Rightarrow> mo_request_id mo);
          r' = (if rq_id r = None then r\<lparr>rq_id := Some rid\<rparr> else r)
      in new_request_context r' sc rid (mo_context_id mo))"

section \<open>Executors\<close>

text \<open>What \<open>execute\<close> returns: a result, or a coroutine that yields one when it is awaited.\<close>

datatype 'w exec_outcome = Direct fn_result | Awaitable "('w, exn, fn_result) comp"

text \<open>
  \<open>REQUEST_EXECUTIONS\<close> is a dictionary of references; what the executors do is in the environment,
  as are the validation of submitted parameters, values for results that are objects, and the events
  that arrive on a subscription, each with the record as it is then.
\<close>

record 'w handler_env =
  he_call :: "'w call_env"
  he_executors :: "(string, nat) dict"
  he_execute :: "nat \<Rightarrow> request_context \<Rightarrow> ('w, exn, 'w exec_outcome) comp"
  he_object :: "'w exec_outcome \<Rightarrow> pyval"
  he_validate_request :: "(string, pyval) dict option \<Rightarrow> exn + rpc_request"
  he_arrivals :: "string \<Rightarrow> (string \<times> task_record) list"
  he_dump_record :: "task_record \<Rightarrow> pyval"
  he_dump_error :: "rpc_error \<Rightarrow> pyval"
  he_str :: "pyval \<Rightarrow> string"

definition add_request_executor :: "string \<Rightarrow> nat \<Rightarrow> (string, nat) dict \<Rightarrow> (string, nat) dict" where
  "add_request_executor method executor d =
     (if map_of d method \<noteq> None then d else AList.update method executor d)"

definition request_execution :: "string \<Rightarrow> nat \<Rightarrow> (string, nat) dict \<Rightarrow> (string, nat) dict" where
  "request_execution method executor d =
     (if method = [] then d else add_request_executor method executor d)"

definition get_request_executor :: "string \<Rightarrow> (string, nat) dict \<Rightarrow> nat option" where
  "get_request_executor method d = (if method = [] then None else map_of d method)"

section \<open>Responses\<close>

definition error_response :: "string \<Rightarrow> error_code \<Rightarrow> string \<Rightarrow> error_detail list option \<Rightarrow> rpc_response" where
  "error_response rid code message details =
     \<lparr>rs_aduib_rpc = ''2.0'', rs_id = Some rid, rs_status = ERROR, rs_result = PNone,
      rs_error = Some (error_payload code message details), rs_negotiated_version = None,
      rs_trace_context = None, rs_metadata = None\<rparr>"

definition success_response :: "string \<Rightarrow> pyval \<Rightarrow> rpc_response" where
  "success_response rid v =
     \<lparr>rs_aduib_rpc = ''2.0'', rs_id = Some rid, rs_status = SUCCESS, rs_result = v, rs_error = None,
      rs_negotiated_version = None, rs_trace_context = None, rs_metadata = None\<rparr>"

definition no_response :: "string option \<Rightarrow> rpc_response" where
  "no_response rid =
     \<lparr>rs_aduib_rpc = ''2.0'', rs_id = rid, rs_status = ERROR, rs_result = PNone,
      rs_error = Some (error_payload INTERNAL_ERROR ''No response'' None), rs_negotiated_version = None,
      rs_trace_context = None, rs_metadata = None\<rparr>"

definition coerce_stream_item :: "string \<Rightarrow> py_result \<Rightarrow> rpc_response" where
  "coerce_stream_item rid item =
     (case item of
        RResponse r \<Rightarrow> if rs_id r = None then r\<lparr>rs_id := Some rid\<rparr> else r
      | RError e \<Rightarrow> (success_response rid PNone)\<lparr>rs_status := ERROR, rs_error := Some e\<rparr>
      | RValue v \<Rightarrow> success_response rid v)"

definition iter_stream_result :: "string \<Rightarrow> fn_result \<Rightarrow> stream_end" where
  "iter_stream_result rid res =
     (case res of
        Value v \<Rightarrow> ([coerce_stream_item rid v], None)
      | AsyncGen items exc \<Rightarrow> (map (coerce_stream_item rid) items, exc))"

definition raise_for_error :: "(rpc_error \<Rightarrow> pyval) \<Rightarrow> string \<Rightarrow> rpc_response \<Rightarrow> exn option" where
  "raise_for_error dump message r =
     (if is_success r then None
      else (case rs_error r of
              None \<Rightarrow> Some (Exn RpcException (error_code_value INTERNAL_ERROR) message PNone None)
            | Some e \<Rightarrow> Some (Exn RpcException (err_code e) (err_message e) (dump e) None)))"

section \<open>Tasks\<close>

definition or_int :: "int option list \<Rightarrow> int \<Rightarrow> int" where
  "or_int xs d = (case List.find (\<lambda>x. x \<noteq> None \<and> x \<noteq> Some 0) xs of Some (Some i) \<Rightarrow> i | _ \<Rightarrow> d)"

definition updated_at :: "task_record \<Rightarrow> int" where
  "updated_at r = or_int [completed_at_ms r, started_at_ms r] (created_at_ms r)"

definition map_task_status :: "(pyval \<Rightarrow> string) \<Rightarrow> pyval \<Rightarrow> task_status" where
  "map_task_status other st =
     (let raw = getattr_value st; value = (if raw = PNone then [] else py_lower (py_str other raw)) in
      case map_of
        [(''queued'', PENDING), (''pending'', PENDING), (''scheduled'', SCHEDULED), (''running'', RUNNING),
         (''retrying'', RETRYING), (''succeeded'', SUCCEEDED), (''failed'', FAILED), (''canceled'', CANCELED),
         (''expired'', FAILED)] value of
        Some s \<Rightarrow> s
      | None \<Rightarrow> PENDING)"

definition status_value :: "task_status \<Rightarrow> pyval" where
  "status_value s = PEnum ''TaskStatus'' (PStr (task_status_name s))"

definition priority_from_manager :: "pyval \<Rightarrow> priority" where
  "priority_from_manager v =
     (case py_int v of
        None \<Rightarrow> NORMAL
      | Some n \<Rightarrow> if n \<le> 0 then LOW else if n = 1 then NORMAL else if n = 2 then HIGH else CRITICAL)"

text \<open>Records have neither \<open>priority\<close> of the old kind nor retry counters: attempts are always one.\<close>

definition task_record_from_manager :: "(pyval \<Rightarrow> string) \<Rightarrow> task_record \<Rightarrow> task_record" where
  "task_record_from_manager other r =
     \<lparr>task_id = task_id r, parent_task_id = None, status = map_task_status other (status_value (status r)),
      task_priority = priority_from_manager (PInt (priority_value (task_priority r))),
      created_at_ms = created_at_ms r, scheduled_at_ms = None, started_at_ms = started_at_ms r,
      completed_at_ms = completed_at_ms r, attempt = 1, max_attempts = 1, next_retry_at_ms = None,
      result = result r, task_error = task_error r, progress = None, metadata = metadata r, tags = None\<rparr>"

definition task_base :: "task_record \<Rightarrow> (string \<times> pyval) list" where
  "task_base r =
     [(''task_id'', PStr (task_id r)), (''status'', PStr (task_status_name (status r))),
      (''created_at_ms'', PInt (created_at_ms r)), (''updated_at_ms'', PInt (updated_at r))]"

definition error_item :: "(rpc_error \<Rightarrow> pyval) \<Rightarrow> task_record \<Rightarrow> (string \<times> pyval) list" where
  "error_item dump r = (case task_error r of None \<Rightarrow> [] | Some e \<Rightarrow> [(''error'', dump e)])"

definition status_payload :: "(rpc_error \<Rightarrow> pyval) \<Rightarrow> task_record \<Rightarrow> pyval" where
  "status_payload dump r = PDict (task_base r @ error_item dump r)"

definition result_payload :: "(rpc_error \<Rightarrow> pyval) \<Rightarrow> task_record \<Rightarrow> pyval" where
  "result_payload dump r =
     PDict (task_base r @ (if status r = SUCCEEDED then [(''value'', result r)] else error_item dump r))"

definition event_payload :: "(rpc_error \<Rightarrow> pyval) \<Rightarrow> string \<Rightarrow> task_record \<Rightarrow> pyval" where
  "event_payload dump ev r =
     PDict [(''event'', PStr ev),
            (''task'', PDict (task_base r @ error_item dump r @ (if status r = SUCCEEDED then [(''value'', result r)] else [])))]"

text \<open>A subscription's events up to the one that ends it.\<close>

fun relay_events :: "(rpc_error \<Rightarrow> pyval) \<Rightarrow> string \<Rightarrow> (string \<times> task_record) list \<Rightarrow> rpc_response list" where
  "relay_events dump rid [] = []"
| "relay_events dump rid ((ev, r) # evs) =
     success_response rid (event_payload dump ev r)
     # (if ev = ''completed'' \<or> status r \<in> {SUCCEEDED, FAILED, CANCELED} then [] else relay_events dump rid evs)"

definition missing_task_id :: "string \<Rightarrow> rpc_response" where
  "missing_task_id rid = error_response rid MISSING_REQUIRED_FIELD ''task_id is required'' None"

definition unknown_task :: "string \<Rightarrow> pyval \<Rightarrow> rpc_response" where
  "unknown_task rid tid =
     error_response rid RESOURCE_NOT_FOUND ''task not found''
       (Some [\<lparr>detail_type = ''aduib.rpc/task'', detail_field = Some ''task_id'', detail_reason = ''not found'',
               detail_metadata = Some [(''task_id'', tid)]\<rparr>])"

definition submit_task ::
  "moment \<Rightarrow> request_context \<Rightarrow> int option \<Rightarrow> 'z rpc_server_scheme \<Rightarrow> (exn + task_record) \<times> 'z rpc_server_scheme" where
  "submit_task mo rc ttl w =
     (case submit (mo_now mo) (mo_task_id mo) ttl None (sv_tasks w) of
        (Inl e, m) \<Rightarrow> (Inl e, w\<lparr>sv_tasks := m\<rparr>)
      | (Inr (r, started), m) \<Rightarrow>
          (Inr (store m ! r),
           w\<lparr>sv_tasks := m,
             sv_runners := sv_runners w @
               (if started then [(task_id (store m ! r), rc_request rc, rc_server_context rc)] else [])\<rparr>))"

definition task_cancel ::
  "moment \<Rightarrow> string \<Rightarrow> 'z rpc_server_scheme \<Rightarrow> (string \<times> task_status \<times> bool) \<times> 'z rpc_server_scheme" where
  "task_cancel mo tid w =
     (case get_task (mo_now mo) tid (sv_tasks w) of
        (Inr r, m) \<Rightarrow> ((tid, status (store m ! r), False), w\<lparr>sv_tasks := m\<rparr>)
      | (Inl e, m) \<Rightarrow> ((tid, FAILED, False), w\<lparr>sv_tasks := m\<rparr>))"

definition task_query ::
  "(pyval \<Rightarrow> string) \<Rightarrow> moment \<Rightarrow> string \<Rightarrow> 'z rpc_server_scheme \<Rightarrow> (exn + task_record) \<times> 'z rpc_server_scheme" where
  "task_query other mo tid w =
     (case get_task (mo_now mo) tid (sv_tasks w) of
        (Inr r, m) \<Rightarrow> (Inr (task_record_from_manager other (store m ! r)), w\<lparr>sv_tasks := m\<rparr>)
      | (Inl e, m) \<Rightarrow>
          (Inl (Exn RpcException (error_code_value RESOURCE_NOT_FOUND) ''task not found''
                  (PDict [(''task_id'', PStr tid)]) (Some e)), w\<lparr>sv_tasks := m\<rparr>))"

text \<open>The branches of \<open>_handle_task_method\<close> that look a task up, given what they answer with.\<close>

definition with_task ::
  "'w handler_env \<Rightarrow> moment \<Rightarrow> request_context \<Rightarrow> (task_record \<Rightarrow> rpc_response) \<Rightarrow> 'z rpc_server_scheme
     \<Rightarrow> stream_end \<times> 'z rpc_server_scheme" where
  "with_task env mo rc answer w =
     (let rid = rc_request_id rc; tid = dict_get (request_data (rc_request rc)) ''task_id'' PNone in
      if \<not> py_truthy tid then (([missing_task_id rid], None), w)
      else (case get_task (mo_now mo) (py_str (he_str env) tid) (sv_tasks w) of
              (Inl e, m) \<Rightarrow> (([unknown_task rid tid], None), w\<lparr>sv_tasks := m\<rparr>)
            | (Inr r, m) \<Rightarrow> (([answer (store m ! r)], None), w\<lparr>sv_tasks := m\<rparr>)))"

definition task_method_of :: "request_context \<Rightarrow> string" where
  "task_method_of rc =
     (case Option.bind (rq_metadata (rc_request rc)) rm_long_task_method of
        Some (x # xs) \<Rightarrow> x # xs
      | _ \<Rightarrow> rc_method rc)"

definition handle_submit ::
  "moment \<Rightarrow> request_context \<Rightarrow> 'z rpc_server_scheme \<Rightarrow> stream_end \<times> 'z rpc_server_scheme" where
  "handle_submit mo rc w =
     (case submit_task mo rc (Option.bind (rq_metadata (rc_request rc)) rm_long_task_timeout) w of
        (Inl e, w1) \<Rightarrow> (([], Some e), w1)
      | (Inr r, w1) \<Rightarrow>
          (([success_response (rc_request_id rc)
               (PDict [(''task_id'', PStr (task_id r)), (''status'', PStr (task_status_name (status r))),
                       (''created_at_ms'', PInt (created_at_ms r))])], None), w1))"

definition handle_cancel ::
  "'w handler_env \<Rightarrow> moment \<Rightarrow> request_context \<Rightarrow> 'z rpc_server_scheme \<Rightarrow> stream_end \<times> 'z rpc_server_scheme" where
  "handle_cancel env mo rc w =
     (let rid = rc_request_id rc; tid = dict_get (request_data (rc_request rc)) ''task_id'' PNone in
      if \<not> py_truthy tid then (([missing_task_id rid], None), w)
      else (let ((t, s, c), w1) = task_cancel mo (py_str (he_str env) tid) w in
            (([success_response rid (PDict [(''task_id'', PStr t), (''status'', status_value s), (''canceled'', PBool c)])], None), w1)))"

definition handle_subscribe ::
  "'w handler_env \<Rightarrow> moment \<Rightarrow> request_context \<Rightarrow> 'z rpc_server_scheme \<Rightarrow> stream_end \<times> 'z rpc_server_scheme" where
  "handle_subscribe env mo rc w =
     (let rid = rc_request_id rc; tid = dict_get (request_data (rc_request rc)) ''task_id'' PNone;
          t = py_str (he_str env) tid in
      if \<not> py_truthy tid then (([missing_task_id rid], None), w)
      else (case subscribe (mo_now mo) t (sv_tasks w) of
              (Inl e, m) \<Rightarrow> (([unknown_task rid tid], None), w\<lparr>sv_tasks := m\<rparr>)
            | (Inr q, m) \<Rightarrow>
                ((relay_events (he_dump_error env) rid (he_arrivals env t), None),
                 w\<lparr>sv_tasks := unsubscribe t q m\<rparr>)))"

definition handle_task_method ::
  "'w handler_env \<Rightarrow> moment \<Rightarrow> request_context \<Rightarrow> 'z rpc_server_scheme \<Rightarrow> stream_end \<times> 'z rpc_server_scheme" where
  "handle_task_method env mo rc w =
     (let method = task_method_of rc; rid = rc_request_id rc in
      if method = ''task/submit'' then handle_submit mo rc w
      else if method = ''task/status'' then
        with_task env mo rc (\<lambda>r. success_response rid (status_payload (he_dump_error env) r)) w
      else if method = ''task/result'' then
        with_task env mo rc (\<lambda>r. success_response rid (result_payload (he_dump_error env) r)) w
      else if method = ''task/query'' then
        with_task env mo rc (\<lambda>r. success_response rid
          (PDict [(''task'', he_dump_record env (task_record_from_manager (he_str env) r))])) w
      else if method = ''task/cancel'' then handle_cancel env mo rc w
      else if method = ''task/subscribe'' then handle_subscribe env mo rc w
      else (([error_response rid METHOD_NOT_FOUND (''Unknown task method: '' @ method) None], None), w))"

section \<open>Dispatch\<close>

definition is_long_task :: "rpc_request \<Rightarrow> bool" where
  "is_long_task r = (case rq_metadata r of None \<Rightarrow> False | Some m \<Rightarrow> rm_long_task m)"

definition call_service ::
  "'z rpc_server_scheme handler_env \<Rightarrow> rpc_request \<Rightarrow> ('z rpc_server_scheme, exn, fn_result) comp" where
  "call_service env r w =
     (case parse_compat (Some (rq_method r)) of
        Inl _ \<Rightarrow> (Inl (Exn ValueError 0 [] PNone None), w)
      | Inr n \<Rightarrow>
          service_call (he_call env) (mn_service n) (mn_handler n)
            (map (\<lambda>(k, v). (k, Val v)) (request_data r)) w)"

definition as_result :: "('w exec_outcome \<Rightarrow> pyval) \<Rightarrow> 'w exec_outcome \<Rightarrow> pyval" where
  "as_result object res = (case res of Direct (Value (RValue v)) \<Rightarrow> v | _ \<Rightarrow> object res)"

definition dispatch_unary ::
  "'z rpc_server_scheme handler_env \<Rightarrow> moment \<Rightarrow> request_context \<Rightarrow> ('z rpc_server_scheme, exn, rpc_response) comp" where
  "dispatch_unary env mo rc w =
     (let r = rc_request rc; rid = rc_request_id rc in
      if is_long_task r then
        (let ((rs, exc), w1) = handle_task_method env mo rc w in
         ((case rs of
             x # _ \<Rightarrow> Inr x
           | [] \<Rightarrow> (case exc of Some e \<Rightarrow> Inl e | None \<Rightarrow> Inr (no_response (Some rid)))), w1))
      else
        (case get_request_executor (rc_method rc) (he_executors env) of
           None \<Rightarrow>
             (case call_service env r w of
                (Inl e, w1) \<Rightarrow> (Inl e, w1)
              | (Inr v, w1) \<Rightarrow> (Inr (success_response rid (as_result (he_object env) (Direct v))), w1))
         | Some x \<Rightarrow>
             (case he_execute env x rc w of
                (Inl e, w1) \<Rightarrow> (Inl e, w1)
              | (Inr v, w1) \<Rightarrow> (Inr (success_response rid (as_result (he_object env) v)), w1))))"

definition stream_of :: "string \<Rightarrow> (exn + fn_result) \<times> 'w \<Rightarrow> stream_end \<times> 'w" where
  "stream_of rid res =
     (case res of (Inl e, w) \<Rightarrow> (([], Some e), w) | (Inr v, w) \<Rightarrow> (iter_stream_result rid v, w))"

definition dispatch_stream ::
  "'z rpc_server_scheme handler_env \<Rightarrow> moment \<Rightarrow> request_context \<Rightarrow> 'z rpc_server_scheme
     \<Rightarrow> stream_end \<times> 'z rpc_server_scheme" where
  "dispatch_stream env mo rc w =
     (let r = rc_request rc; rid = rc_request_id rc in
      case parse_compat (Some (rq_method r)) of
        Inl _ \<Rightarrow> (([], Some (Exn ValueError 0 [] PNone None)), w)
      | Inr _ \<Rightarrow>
          if is_long_task r then handle_task_method env mo rc w
          else
            (case get_request_executor (rc_method rc) (he_executors env) of
               None \<Rightarrow> stream_of rid (call_service env r w)
             | Some x \<Rightarrow>
                 (case he_execute env x rc w of
                    (Inl e, w1) \<Rightarrow> (([], Some e), w1)
                  | (Inr (Direct v), w1) \<Rightarrow> (iter_stream_result rid v, w1)
                  | (Inr (Awaitable f), w1) \<Rightarrow> stream_of rid (f w1))))"

text \<open>The handlers under the chain; the request may have got its identifier meanwhile.\<close>

definition context_of :: "'w ctx \<Rightarrow> server_context" where
  "context_of c = \<lparr>sc_state = cx_state c, sc_principal = cx_principal c, sc_meta = cx_meta c\<rparr>"

definition handle_unary ::
  "'z rpc_server_scheme handler_env \<Rightarrow> moment \<Rightarrow> 'z rpc_server_scheme stream_handler" where
  "handle_unary env mo c =
     (let rc = setup_request_context mo (cx_request c) (context_of c);
          (res, w) = dispatch_unary env mo rc (cx_world c);
          c1 = c\<lparr>cx_request := rc_request rc, cx_world := w\<rparr>
      in (case res of Inl e \<Rightarrow> (([], Some e), c1) | Inr r \<Rightarrow> (([r], None), c1)))"

definition handle_stream ::
  "'z rpc_server_scheme handler_env \<Rightarrow> moment \<Rightarrow> 'z rpc_server_scheme stream_handler" where
  "handle_stream env mo c =
     (let rc = setup_request_context mo (cx_request c) (context_of c);
          (res, w) = dispatch_stream env mo rc (cx_world c)
      in (res, c\<lparr>cx_request := rc_request rc, cx_world := w\<rparr>))"

definition on_message ::
  "'z rpc_server_scheme handler_env \<Rightarrow> 'z rpc_server_scheme interceptor list \<Rightarrow> moment \<Rightarrow> rpc_request \<Rightarrow> server_context
     \<Rightarrow> ('z rpc_server_scheme, exn, rpc_response) comp" where
  "on_message env is mo r sc w =
     (let ((rs, exc), c) = chain_execute True (mo_tick mo) (mo_chain_id mo) is (handle_unary env mo)
            (new_ctx r (sc_state sc) (sc_principal sc) (sc_meta sc) False w)
      in ((case rs of
             x # _ \<Rightarrow> Inr x
           | [] \<Rightarrow> (case exc of Some e \<Rightarrow> Inl e | None \<Rightarrow> Inr (no_response (rq_id (cx_request c))))), cx_world c))"

definition on_stream_message ::
  "'z rpc_server_scheme handler_env \<Rightarrow> 'z rpc_server_scheme interceptor list \<Rightarrow> moment \<Rightarrow> rpc_request \<Rightarrow> server_context
     \<Rightarrow> 'z rpc_server_scheme \<Rightarrow> stream_end \<times> 'z rpc_server_scheme" where
  "on_stream_message env is mo r sc w =
     (let (res, c) = chain_execute False (mo_tick mo) (mo_chain_id mo) is (handle_stream env mo)
            (new_ctx r (sc_state sc) (sc_principal sc) (sc_meta sc) True w)
      in (res, cx_world c))"

text \<open>The runner of a submitted task: its coroutine is \<open>on_message\<close> of the very request.\<close>

definition run_task ::
  "'z rpc_server_scheme handler_env \<Rightarrow> 'z rpc_server_scheme interceptor list \<Rightarrow> (rpc_response \<Rightarrow> pyval) \<Rightarrow> moment
     \<Rightarrow> 'z rpc_server_scheme \<Rightarrow> 'z rpc_server_scheme" where
  "run_task env is value mo w =
     (case sv_runners w of
        [] \<Rightarrow> w
      | (tid, r, sc) # rest \<Rightarrow>
          (let w1 = w\<lparr>sv_tasks := set_status (mo_now mo) tid RUNNING (sv_tasks w), sv_runners := rest\<rparr>;
               (res, w2) = on_message env is mo r sc w1
           in w2\<lparr>sv_tasks := runner_finish (mo_now mo) tid (map_sum id value res) (sv_tasks w2)\<rparr>))"

definition task_submit ::
  "'z rpc_server_scheme handler_env \<Rightarrow> moment \<Rightarrow> (string, pyval) dict option \<Rightarrow> server_context
     \<Rightarrow> ('z rpc_server_scheme, exn, task_submit_response option) comp" where
  "task_submit env mo params sc w =
     (case he_validate_request env params of
        Inl e \<Rightarrow> (Inl e, w)
      | Inr r \<Rightarrow>
          (let ((rs, exc), w1) = handle_task_method env mo (setup_request_context mo r sc) w in
           ((case rs of
               [] \<Rightarrow> (case exc of Some e \<Rightarrow> Inl e | None \<Rightarrow> Inr None)
             | x # _ \<Rightarrow>
                 (case raise_for_error (he_dump_error env) ''task/submit failed'' x of
                    Some e \<Rightarrow> Inl e
                  | None \<Rightarrow>
                      (let d = (case rs_result x of PDict d \<Rightarrow> d | _ \<Rightarrow> []) in
                       Inr (Some \<lparr>tss_task_id = py_str (he_str env) (dict_get d ''task_id'' (PStr [])),
                                  tss_status = map_task_status (he_str env) (dict_get d ''status'' PNone),
                                  tss_created_at_ms = (case py_int (dict_get d ''created_at_ms'' PNone) of Some i \<Rightarrow> i | None \<Rightarrow> 0)\<rparr>)))), w1)))"

definition health_check :: "string option \<Rightarrow> health_check_response" where
  "health_check service =
     \<lparr>hcr_status = HEALTHY,
      hcr_services = (if or_empty service = [] then None else Some [(or_empty service, HEALTHY)])\<rparr>"

section \<open>Streams of requests and subscriptions\<close>

text \<open>
  \<open>_collect_stream_request\<close>: the first request carries the data of the others as \<open>stream_items\<close>; a
  value it already has there must be a list.
\<close>

definition item_data :: "rpc_request \<Rightarrow> pyval" where
  "item_data r = PDict (request_data r)"

definition extend_items :: "pyval list \<Rightarrow> (string, pyval) dict \<Rightarrow> exn + (string, pyval) dict" where
  "extend_items items d =
     (case dict_get d ''stream_items'' (PList []) of
        PList xs \<Rightarrow> Inr (AList.update ''stream_items'' (PList (xs @ items)) d)
      | _ \<Rightarrow> Inl (no_attribute ''extend''))"

definition collect_stream_request :: "rpc_request list \<Rightarrow> exn + rpc_request" where
  "collect_stream_request rs =
     (case rs of
        [] \<Rightarrow> Inl (Exn ValueError 0 ''request stream is empty'' PNone None)
      | [r] \<Rightarrow> Inr r
      | r # rest \<Rightarrow>
          bind_ok (extend_items (map item_data rest)
              (case rq_data r of Some d \<Rightarrow> d | None \<Rightarrow> [(''_data'', PNone)]))
            (\<lambda>d. Inr (r\<lparr>rq_data := Some d\<rparr>)))"

definition call_client_stream ::
  "'z rpc_server_scheme handler_env \<Rightarrow> 'z rpc_server_scheme interceptor list \<Rightarrow> moment \<Rightarrow> rpc_request list \<Rightarrow> server_context
     \<Rightarrow> ('z rpc_server_scheme, exn, rpc_response) comp" where
  "call_client_stream env is mo rs sc w =
     (case collect_stream_request rs of Inl e \<Rightarrow> (Inl e, w) | Inr r \<Rightarrow> on_message env is mo r sc w)"

definition call_bidirectional ::
  "'z rpc_server_scheme handler_env \<Rightarrow> 'z rpc_server_scheme interceptor list \<Rightarrow> moment \<Rightarrow> rpc_request list \<Rightarrow> server_context
     \<Rightarrow> 'z rpc_server_scheme \<Rightarrow> stream_end \<times> 'z rpc_server_scheme" where
  "call_bidirectional env is mo rs sc w =
     (case collect_stream_request rs of Inl e \<Rightarrow> (([], Some e), w) | Inr r \<Rightarrow> on_stream_message env is mo r sc w)"

text \<open>
  \<open>task_subscribe\<close> on the events that arrive, each with the record as it is then: what it yields, and
  whether it has ended. An event that is filtered out is not looked at further.
\<close>

fun subscription ::
  "(pyval \<Rightarrow> string) \<Rightarrow> string list \<Rightarrow> (string \<times> task_record) list \<Rightarrow> (string \<times> task_record) list \<times> bool" where
  "subscription other events [] = ([], False)"
| "subscription other events ((ev, r) # evs) =
     (if events \<noteq> [] \<and> ev \<notin> set events then subscription other events evs
      else
        (let record = task_record_from_manager other r;
             (out, fin) = (if ev = ''completed'' \<or> is_terminal record then ([], True) else subscription other events evs)
         in ((ev, record) # out, fin)))"

section \<open>Facts\<close>

lemma make_room_ok: "tm_inv m \<Longrightarrow> \<exists>m'. make_room now m = Inr m'"
proof -
  assume inv: "tm_inv m"
  have "tasks (gc_locked now True m) \<noteq> []" if "int (length (tasks (gc_locked now True m))) \<ge> max_tasks (gc_locked now True m)"
    using that inv shrinks_gc [of m now True] by (auto simp: tm_inv_def shrinks_def)
  then show ?thesis by (auto simp: make_room_def Let_def split: option.splits)
qed

lemma keys_shrink: "shrinks m m' \<Longrightarrow> set (dict_keys (tasks m')) \<subseteq> set (dict_keys (tasks m))"
  by (auto simp: shrinks_def)

lemma submit_fresh:
  assumes "tm_inv m" "uuid \<notin> set (dict_keys (tasks m))"
  shows "\<exists>r m'. submit now uuid ttl None m = (Inr (r, True), m') \<and> tm_inv m' \<and> task_id (store m' ! r) = uuid
    \<and> set (dict_keys (tasks m')) \<subseteq> insert uuid (set (dict_keys (tasks m)))"
proof -
  let ?g = "gc_locked now False m"
  have g: "shrinks m ?g" "tm_inv ?g" using shrinks_gc tm_inv_shrinks [OF assms(1) shrinks_gc] by simp_all
  obtain m2 where m2: "make_room now ?g = Inr m2" using make_room_ok [OF g(2)] by blast
  then have s: "shrinks ?g m2" using make_room_facts [of ?g now m2] g(2) by (simp add: tm_inv_def)
  have new: "map_of (tasks ?g) uuid = None"
    using keys_shrink [OF g(1)] assms(2) by (auto simp: map_of_eq_None_iff)
  have keys: "set (dict_keys (tasks m2)) \<subseteq> set (dict_keys (tasks m))"
    using keys_shrink [OF s] keys_shrink [OF g(1)] by blast
  obtain m' where m': "submit now uuid ttl None m = (Inr (length (store m2), True), m')"
    "store m' = store m2 @ [new_record uuid now]" "tasks m' = AList.update uuid (length (store m2)) (tasks m2)"
    using new m2 by (auto simp: submit_def Let_def simp del: dict_opaque)
  have "set (dict_keys (tasks m')) \<subseteq> insert uuid (set (dict_keys (tasks m)))"
    unfolding m'(3) keys_dict_update using keys by blast
  with m' have "\<exists>m'. submit now uuid ttl None m = (Inr (length (store m2), True), m')
      \<and> task_id (store m' ! length (store m2)) = uuid \<and> set (dict_keys (tasks m')) \<subseteq> insert uuid (set (dict_keys (tasks m)))"
    by (simp add: new_record_def)
  moreover from this have "tm_inv (snd (submit now uuid ttl None m))" using submit_inv [OF assms(1)] by simp
  ultimately show ?thesis by auto
qed

text \<open>Without interceptors a unary message is dispatched, and its response gets its metadata.\<close>

lemma on_message_plain:
  "on_message env [] mo r sc w =
     (case dispatch_unary env mo (setup_request_context mo r sc) w of
        (Inl e, w1) \<Rightarrow> (Inl e, w1)
      | (Inr x, w1) \<Rightarrow> (attach_response_metadata (fst (mo_tick mo 0)) (snd (mo_tick mo 0)) (sc_meta sc) x, w1))"
proof -
  have c: "context_of (new_ctx r (sc_state sc) (sc_principal sc) (sc_meta sc) False w) = sc"
    by (simp add: context_of_def new_ctx_def)
  have f: "cx_request (new_ctx r s p m b w) = r" "cx_world (new_ctx r s p m b w) = w" "cx_meta (new_ctx r s p m b w) = m"
    "\<not> cx_aborted (new_ctx r s p m b w)" for s p m b
    by (simp_all add: new_ctx_def)
  show ?thesis
    by (auto simp: on_message_def chain_execute_def new_chain_def chain_body_def apply_wrappers_def handle_unary_def c f
        consume_def Let_def split: sum.splits prod.splits)
qed

lemma attach_keeps:
  "attach_response_metadata now el meta x = Inr y \<Longrightarrow> y = x\<lparr>rs_metadata := rs_metadata y\<rparr>"
  by (auto simp: attach_response_metadata_def Let_def bind_ok_def split: if_splits sum.splits)

section \<open>Properties\<close>

text \<open>A request that submits a long task, as the client makes it: it carries its identifier.\<close>

definition submits :: "rpc_request \<Rightarrow> bool" where
  "submits r = (is_long_task r \<and> Option.bind (rq_metadata r) rm_long_task_method = Some ''task/submit'' \<and> rq_id r \<noteq> None)"

lemma setup_submits: "submits r \<Longrightarrow> rc_request (setup_request_context mo r sc) = r"
  "rc_server_context (setup_request_context mo r sc) = sc"
  by (auto simp: submits_def setup_request_context_def new_request_context_def Let_def)

lemma dispatch_submits:
  assumes "submits r" "tm_inv (sv_tasks w)" "mo_task_id mo \<notin> set (dict_keys (tasks (sv_tasks w)))"
  shows "\<exists>m x. dispatch_unary env mo (setup_request_context mo r sc) w =
      (Inr x, w\<lparr>sv_tasks := m, sv_runners := sv_runners w @ [(mo_task_id mo, r, sc)]\<rparr>)
    \<and> tm_inv m \<and> set (dict_keys (tasks m)) \<subseteq> insert (mo_task_id mo) (set (dict_keys (tasks (sv_tasks w))))
    \<and> (\<forall>env'. dispatch_unary env' mo (setup_request_context mo r sc) w = dispatch_unary env mo (setup_request_context mo r sc) w)"
proof -
  let ?rc = "setup_request_context mo r sc"
  have m: "task_method_of ?rc = ''task/submit''"
    using assms(1) by (simp add: task_method_of_def setup_submits submits_def)
  have d: "dispatch_unary env' mo ?rc w =
      (let ((rs, exc), w1) = handle_submit mo ?rc w in
       ((case rs of x # _ \<Rightarrow> Inr x | [] \<Rightarrow> (case exc of Some e \<Rightarrow> Inl e | None \<Rightarrow> Inr (no_response (Some (rc_request_id ?rc))))), w1))" for env'
    using assms(1) m by (simp add: dispatch_unary_def handle_task_method_def setup_submits submits_def Let_def)
  obtain q m' where s: "submit (mo_now mo) (mo_task_id mo) (Option.bind (rq_metadata r) rm_long_task_timeout) None (sv_tasks w) = (Inr (q, True), m')"
    "tm_inv m'" "task_id (store m' ! q) = mo_task_id mo"
    "set (dict_keys (tasks m')) \<subseteq> insert (mo_task_id mo) (set (dict_keys (tasks (sv_tasks w))))"
    using submit_fresh [OF assms(2,3), of "mo_now mo" "Option.bind (rq_metadata r) rm_long_task_timeout"] by blast
  have "\<exists>x. dispatch_unary env mo ?rc w =
      (Inr x, w\<lparr>sv_tasks := m', sv_runners := sv_runners w @ [(mo_task_id mo, r, sc)]\<rparr>)"
    by (simp add: d handle_submit_def submit_task_def setup_submits assms(1) s(1,3))
  with s(2,4) d show ?thesis by auto
qed

lemma run_task_submits:
  assumes "submits r" "sv_runners w = [(tid, r, sc)]" "tm_inv (sv_tasks w)" "mo_task_id mo \<notin> set (dict_keys (tasks (sv_tasks w)))"
  shows "\<exists>m. run_task env [] conv mo w = w\<lparr>sv_tasks := m, sv_runners := [(mo_task_id mo, r, sc)]\<rparr>
    \<and> tm_inv m \<and> set (dict_keys (tasks m)) \<subseteq> insert (mo_task_id mo) (set (dict_keys (tasks (sv_tasks w))))
    \<and> (\<forall>env'. run_task env' [] conv mo w = run_task env [] conv mo w)"
proof -
  let ?w = "w\<lparr>sv_tasks := set_status (mo_now mo) tid RUNNING (sv_tasks w), sv_runners := []\<rparr>"
  have inv: "tm_inv (sv_tasks ?w)" using assms(3) by (simp add: tm_inv_def rpc_inv)
  have fresh: "mo_task_id mo \<notin> set (dict_keys (tasks (sv_tasks ?w)))" using assms(4) by simp
  from dispatch_submits [OF assms(1) inv fresh, where env = env and sc = sc] obtain m x where
    d: "dispatch_unary env mo (setup_request_context mo r sc) ?w =
          (Inr x, ?w\<lparr>sv_tasks := m, sv_runners := sv_runners ?w @ [(mo_task_id mo, r, sc)]\<rparr>)"
    "tm_inv m" "set (dict_keys (tasks m)) \<subseteq> insert (mo_task_id mo) (set (dict_keys (tasks (sv_tasks ?w))))"
    "\<forall>env'. dispatch_unary env' mo (setup_request_context mo r sc) ?w = dispatch_unary env mo (setup_request_context mo r sc) ?w"
    by blast
  let ?res = "attach_response_metadata (fst (mo_tick mo 0)) (snd (mo_tick mo 0)) (sc_meta sc) x"
  have run: "run_task env' [] conv mo w =
      w\<lparr>sv_tasks := runner_finish (mo_now mo) tid (map_sum id conv ?res) m, sv_runners := [(mo_task_id mo, r, sc)]\<rparr>" for env'
    using d(1) d(4) [rule_format, of env'] by (simp add: run_task_def assms(2) on_message_plain Let_def)
  have "tm_inv (runner_finish (mo_now mo) tid (map_sum id conv ?res) m)" using d(2) by (simp add: tm_inv_def rpc_inv)
  with run d(3) show ?thesis
    by (intro exI [of _ "runner_finish (mo_now mo) tid (map_sum id conv ?res) m"]) simp
qed

lemma fresh_stay:
  assumes "K' \<subseteq> insert (f a) K" "distinct (map f (a # as))" "f ` set (a # as) \<inter> K = {}"
  shows "f ` set as \<inter> K' = {}"
proof (rule equals0I)
  fix x assume x: "x \<in> f ` set as \<inter> K'"
  with assms(1) have "x = f a \<or> x \<in> K" by blast
  moreover have "f a \<notin> f ` set as" using assms(2) by simp
  then have "x \<noteq> f a" using x by blast
  moreover have "x \<notin> K" using x assms(3) by auto
  ultimately show False by blast
qed

lemma run_tasks_submit:
  "submits r \<Longrightarrow> sv_runners w = [(tid, r, sc)] \<Longrightarrow> tm_inv (sv_tasks w) \<Longrightarrow> distinct (map mo_task_id mos) \<Longrightarrow>
    mo_task_id ` set mos \<inter> set (dict_keys (tasks (sv_tasks w))) = {} \<Longrightarrow>
    (\<exists>m tid'. fold (run_task env [] conv) mos w = w\<lparr>sv_tasks := m, sv_runners := [(tid', r, sc)]\<rparr>)
    \<and> fold (run_task env' [] conv) mos w = fold (run_task env [] conv) mos w"
proof (induction mos arbitrary: w tid)
  case Nil
  have w: "w = w\<lparr>sv_tasks := sv_tasks w, sv_runners := [(tid, r, sc)]\<rparr>" using Nil.prems(2) by simp
  have "\<exists>m tid'. w = w\<lparr>sv_tasks := m, sv_runners := [(tid', r, sc)]\<rparr>" by (rule exI, rule exI, rule w)
  then show ?case by simp
next
  case (Cons mo mos)
  then have "mo_task_id mo \<notin> set (dict_keys (tasks (sv_tasks w)))" by auto
  from run_task_submits [OF Cons.prems(1-3) this, where env = env and conv = conv] obtain m where
    r: "run_task env [] conv mo w = w\<lparr>sv_tasks := m, sv_runners := [(mo_task_id mo, r, sc)]\<rparr>" "tm_inv m"
    "set (dict_keys (tasks m)) \<subseteq> insert (mo_task_id mo) (set (dict_keys (tasks (sv_tasks w))))"
    "run_task env' [] conv mo w = run_task env [] conv mo w" by blast
  let ?w = "w\<lparr>sv_tasks := m, sv_runners := [(mo_task_id mo, r, sc)]\<rparr>"
  have fresh: "mo_task_id ` set mos \<inter> set (dict_keys (tasks (sv_tasks ?w))) = {}"
    using fresh_stay [OF r(3) Cons.prems(4,5)] by simp
  have w: "sv_runners ?w = [(mo_task_id mo, r, sc)]" "tm_inv (sv_tasks ?w)" "distinct (map mo_task_id mos)"
    using r(2) Cons.prems(4) by simp_all
  note IH = Cons.IH [OF Cons.prems(1) w fresh]
  have "\<exists>m' tid'. fold (run_task env [] conv) mos ?w = w\<lparr>sv_tasks := m', sv_runners := [(tid', r, sc)]\<rparr>"
    using conjunct1 [OF IH] by simp
  moreover have "fold (run_task env' [] conv) mos ?w = fold (run_task env [] conv) mos ?w"
    by (rule conjunct2 [OF IH])
  ultimately show ?case by (simp only: fold_simps r(1,4) simp_thms)
qed

text \<open>
  A long task never runs its service function. The coroutine of a task submitted by
  request is the handling of that same request, which submits it again: after any number of finished
  runners there is one runner left, for the same request and under a new identifier, and nothing but the
  table of tasks has changed, whatever the service functions and executors would do.
\<close>

theorem long_task_resubmits:
  fixes sc :: server_context and conv :: "rpc_response \<Rightarrow> pyval"
  assumes "submits r" "sv_runners w = []" "tm_inv (sv_tasks w)"
    and "distinct (map mo_task_id (mo # mos))" "mo_task_id ` set (mo # mos) \<inter> set (dict_keys (tasks (sv_tasks w))) = {}"
  defines "after \<equiv> (\<lambda>env. fold (run_task env [] conv) mos (snd (on_message env [] mo r sc w)))"
  shows "\<exists>m tid. after env = w\<lparr>sv_tasks := m, sv_runners := [(tid, r, sc)]\<rparr> \<and> after env' = after env"
proof -
  have fresh: "mo_task_id mo \<notin> set (dict_keys (tasks (sv_tasks w)))" using assms(5) by auto
  from dispatch_submits [OF assms(1,3) fresh, where env = env and sc = sc] obtain m x where
    d: "dispatch_unary env mo (setup_request_context mo r sc) w =
          (Inr x, w\<lparr>sv_tasks := m, sv_runners := sv_runners w @ [(mo_task_id mo, r, sc)]\<rparr>)"
    "tm_inv m" "set (dict_keys (tasks m)) \<subseteq> insert (mo_task_id mo) (set (dict_keys (tasks (sv_tasks w))))"
    "\<forall>env'. dispatch_unary env' mo (setup_request_context mo r sc) w = dispatch_unary env mo (setup_request_context mo r sc) w"
    by blast
  let ?w = "w\<lparr>sv_tasks := m, sv_runners := [(mo_task_id mo, r, sc)]\<rparr>"
  have on: "snd (on_message e [] mo r sc w) = ?w" for e
    using d(1,4) assms(2) by (simp add: on_message_plain)
  have "mo_task_id ` set mos \<inter> set (dict_keys (tasks (sv_tasks ?w))) = {}"
    using fresh_stay [OF d(3) assms(4,5)] by simp
  from run_tasks_submit [OF assms(1) _ _ _ this, of "mo_task_id mo" sc env conv env'] d(2) assms(4)
  have IH: "\<exists>m' tid'. fold (run_task env [] conv) mos ?w = ?w\<lparr>sv_tasks := m', sv_runners := [(tid', r, sc)]\<rparr>"
    "fold (run_task env' [] conv) mos ?w = fold (run_task env [] conv) mos ?w" by auto
  from IH(1) have "\<exists>m' tid'. fold (run_task env [] conv) mos ?w = w\<lparr>sv_tasks := m', sv_runners := [(tid', r, sc)]\<rparr>" by simp
  with IH(2) show ?thesis by (simp only: after_def on simp_thms)
qed

definition sample_call_env :: "'w call_env" where
  "sample_call_env = \<lparr>ce_loads = (\<lambda>_. None), ce_validate = (\<lambda>_ d. Inr d),
     ce_body = (\<lambda>_ d w. (Inr (Value (RValue (PInt (int (length d))))), w)),
     ce_new = (\<lambda>_ w. (Inr 0, w)), ce_pool_key = (\<lambda>c. c)\<rparr>"

definition sample_handler_env :: "'w handler_env" where
  "sample_handler_env = \<lparr>he_call = sample_call_env, he_executors = [], he_execute = (\<lambda>_ _ w. (Inr (Direct (Value (RValue PNone))), w)),
     he_object = (\<lambda>_. PNone), he_validate_request = (\<lambda>_. Inr empty_request), he_arrivals = (\<lambda>_. []),
     he_dump_record = (\<lambda>_. PNone), he_dump_error = (\<lambda>_. PNone), he_str = (\<lambda>_. [])\<rparr>"

definition long_request :: rpc_request where
  "long_request = empty_request\<lparr>rq_id := Some ''1'', rq_metadata := Some
     \<lparr>rm_timestamp_ms = 0, rm_client_id = None, rm_client_version = None, rm_auth = None, rm_tenant_id = None,
      rm_headers = None, rm_long_task = True, rm_long_task_method = Some ''task/submit'', rm_long_task_timeout = None\<rparr>\<rparr>"

definition sample_server :: rpc_server where
  "sample_server = \<lparr>rt_heap = [new_scope\<lparr>sp_service_funcs := [(''S.f'', sample_func\<lparr>sf_params := [\<lparr>prm_name = ''self'', prm_default = None\<rparr>]\<rparr>)], sp_service_instances := [(''A'', ''app.S'')]\<rparr>],
     rt_current = 0, rt_fresh = 0, rt_open = [], cw_pool = [(''app.S'', 7)], sv_tasks = new_task_manager None, sv_runners = []\<rparr>"

definition sample_moment :: "string \<Rightarrow> moment" where
  "sample_moment t = \<lparr>mo_now = 0, mo_context_id = ''c'', mo_request_id = ''r'', mo_task_id = t, mo_chain_id = ''u'', mo_tick = (\<lambda>_. (0, 0))\<rparr>"

theorem long_task_resubmits_witness:
  "length (sv_runners (run_task sample_handler_env [] (\<lambda>_. PNone) (sample_moment ''t2'')
     (snd (on_message sample_handler_env [] (sample_moment ''t1'') long_request empty_server_context sample_server)))) = 1"
proof -
  have "submits long_request" by (simp add: submits_def long_request_def is_long_task_def)
  moreover have "sv_runners sample_server = []" "tm_inv (sv_tasks sample_server)" "tasks (sv_tasks sample_server) = []"
    by (simp_all add: sample_server_def tm_inv_def tm_wf_def new_task_manager_def)
  moreover have "mo_task_id (sample_moment t) = t" for t by (simp add: sample_moment_def)
  ultimately obtain m tid where "fold (run_task sample_handler_env [] (\<lambda>_. PNone)) [sample_moment ''t2'']
      (snd (on_message sample_handler_env [] (sample_moment ''t1'') long_request empty_server_context sample_server))
      = sample_server\<lparr>sv_tasks := m, sv_runners := [(tid, long_request, empty_server_context)]\<rparr>"
    using long_task_resubmits [of long_request sample_server "sample_moment ''t1''" "[sample_moment ''t2'']" sample_handler_env
        "\<lambda>_. PNone" empty_server_context sample_handler_env] by auto
  then show ?thesis by simp
qed

text \<open>
  C23. An ordinary unary request for a registered function: the caller gets the function's value
  in a successful response with the request's identifier, or one made for it; when the function raises
  an exception the handler raises, whatever it was, the RuntimeError of the failed call. The world is as
  the function left it.
\<close>

theorem unary_call:
  fixes w :: "'z rpc_server_scheme" and env :: "'z rpc_server_scheme handler_env" and r :: rpc_request
  assumes "\<not> is_long_task r" "get_request_executor (rq_method r) (he_executors env) = None"
    and "parse_compat (Some (rq_method r)) = Inr n"
    and "map_of (sp_service_funcs (the_scope w (rt_current w))) (mn_handler n) = Some sf"
    and "map_of (sp_service_instances (the_scope w (rt_current w))) (mn_service n) = Some c"
    and "map_of (cw_pool w) (ce_pool_key (he_call env) c) = Some i"
    and "\<forall>k \<in> {''self'', ''func_name'', ''func''}. k \<notin> set (dict_keys (request_data r))"
    and "bind_args (sf_params sf) [Inst i] (map (\<lambda>(k, v). (k, Val v)) (request_data r)) = Inr d"
    and "ce_validate (he_call env) (sf_fn sf) (pre_parse_json (ce_loads (he_call env)) (map prm_name (sf_params sf)) d) = Inr d'"
    and "ce_body (he_call env) (sf_fn sf) d' w = (out, w')"
    and "sc_meta sc = []"
  shows "(\<forall>v. out = Inr (Value (RValue v)) \<longrightarrow>
      (\<exists>x. on_message env [] mo r sc w = (Inr x, w') \<and> rs_status x = SUCCESS \<and> rs_result x = v \<and> rs_error x = None
         \<and> rs_id x = Some (case rq_id r of Some (a # as) \<Rightarrow> a # as | _ \<Rightarrow> mo_request_id mo)))
    \<and> (\<forall>e. out = Inl e \<and> isinstance_exn e PyException \<longrightarrow>
         on_message env [] mo r sc w = (Inl (Exn RuntimeError 0 (''Error executing tool '' @ sf_name sf) PNone None), w'))"
proof -
  let ?rc = "setup_request_context mo r sc" and ?kw = "map (\<lambda>(k, v). (k, Val v)) (request_data r)"
  have rc: "request_data (rc_request ?rc) = request_data r" "rq_method (rc_request ?rc) = rq_method r" "rc_method ?rc = rq_method r"
    "is_long_task (rc_request ?rc) = is_long_task r"
    "rc_request_id ?rc = (case rq_id r of Some (a # as) \<Rightarrow> a # as | _ \<Rightarrow> mo_request_id mo)"
    by (auto simp: setup_request_context_def new_request_context_def request_data_def is_long_task_def Let_def)
  have keys: "dict_keys ?kw = dict_keys (request_data r)" by (simp add: case_prod_unfold comp_def)
  have call: "call_service env (rc_request ?rc) w = run (he_call env) sf d w"
    using assms(3-8) by (simp add: call_service_def service_call_def rc keys get_or_create_def args_to_dict_def del: map_map)
  have attach: "\<exists>y. attach_response_metadata now el [] (success_response rid v) = Inr y
      \<and> rs_status y = SUCCESS \<and> rs_result y = v \<and> rs_error y = None \<and> rs_id y = Some rid" for now el rid v
    by (simp add: attach_response_metadata_def success_response_def dict_get_def py_or_def opt_str_field_def Let_def)
  have d1: "dispatch_unary env mo ?rc w =
      (case run (he_call env) sf d w of
         (Inl e, w1) \<Rightarrow> (Inl e, w1)
       | (Inr v, w1) \<Rightarrow> (Inr (success_response (rc_request_id ?rc) (as_result (he_object env) (Direct v))), w1))"
    using assms(1,2) by (simp add: dispatch_unary_def rc(1-4) call)
  show ?thesis
  proof (intro conjI allI impI)
    fix v assume out: "out = Inr (Value (RValue v))"
    have "run (he_call env) sf d w = (Inr (Value (RValue v)), w')"
      using assms(9,10) out by (simp add: run_def call_fn_with_arg_validation_def async_wrapper_def sync_wrapper_def)
    with attach [of "fst (mo_tick mo 0)" "snd (mo_tick mo 0)" "rc_request_id ?rc" v] show
      "\<exists>x. on_message env [] mo r sc w = (Inr x, w') \<and> rs_status x = SUCCESS \<and> rs_result x = v \<and> rs_error x = None
         \<and> rs_id x = Some (case rq_id r of Some (a # as) \<Rightarrow> a # as | _ \<Rightarrow> mo_request_id mo)"
      by (auto simp: on_message_plain d1 as_result_def assms(11) rc)
  next
    fix e assume out: "out = Inl e \<and> isinstance_exn e PyException"
    have "run (he_call env) sf d w = (Inl (Exn RuntimeError 0 (''Error executing tool '' @ sf_name sf) PNone None), w')"
      using assms(9,10) out by (auto simp: run_def call_fn_with_arg_validation_def async_wrapper_def sync_wrapper_def)
    then show "on_message env [] mo r sc w = (Inl (Exn RuntimeError 0 (''Error executing tool '' @ sf_name sf) PNone None), w')"
      by (simp add: on_message_plain d1)
  qed
qed

definition plain_request :: rpc_request where
  "plain_request = empty_request\<lparr>rq_id := None, rq_method := ''rpc.v2/A/S.f''\<rparr>"

lemma plain_parsed: "parse_compat (Some (rq_method plain_request)) = Inr \<lparr>mn_service = ''A'', mn_handler = ''S.f''\<rparr>"
proof -
  have "parse_compat (Some ''rpc.v2/A/S.f'') = Inr \<lparr>mn_service = ''A'', mn_handler = ''S.f''\<rparr>" by code_simp
  moreover have "rq_method plain_request = ''rpc.v2/A/S.f''" by (simp add: plain_request_def)
  ultimately show ?thesis by (simp only:)
qed

theorem unary_call_witness:
  "\<exists>x. fst (on_message sample_handler_env [] (sample_moment ''t'') plain_request empty_server_context sample_server) = Inr x
     \<and> rs_result x = PInt 1 \<and> rs_id x = Some ''r''"
proof -
  let ?env = "sample_handler_env :: rpc_server handler_env"
  let ?sf = "sample_func\<lparr>sf_params := [\<lparr>prm_name = ''self'', prm_default = None\<rparr>]\<rparr>"
  note defs = sample_handler_env_def sample_call_env_def sample_server_def plain_request_def empty_request_def
  have h: "\<not> is_long_task plain_request" "get_request_executor (rq_method plain_request) (he_executors ?env) = None"
    "map_of (sp_service_funcs (the_scope sample_server (rt_current sample_server))) ''S.f'' = Some ?sf"
    "map_of (sp_service_instances (the_scope sample_server (rt_current sample_server))) ''A'' = Some ''app.S''"
    "map_of (cw_pool sample_server) (ce_pool_key (he_call ?env) ''app.S'') = Some 7"
    "request_data plain_request = []" "rq_id plain_request = None" "mo_request_id (sample_moment ''t'') = ''r''"
    "sc_meta empty_server_context = []"
    by (simp_all add: defs is_long_task_def get_request_executor_def request_data_def sample_moment_def empty_server_context_def)
  have b: "bind_args (sf_params ?sf) [Inst 7] [] = Inr [(''self'', Inst 7)]" by (simp add: bind_args_def)
  have v: "ce_validate (he_call ?env) (sf_fn ?sf) (pre_parse_json (ce_loads (he_call ?env)) (map prm_name (sf_params ?sf)) [(''self'', Inst 7)])
      = Inr [(''self'', Inst 7)]"
    by (simp add: defs pre_parse_json_def pre_parse_value_def)
  have c: "ce_body (he_call ?env) (sf_fn ?sf) [(''self'', Inst 7)] sample_server = (Inr (Value (RValue (PInt 1))), sample_server)"
    by (simp add: defs)
  from unary_call [where r = plain_request and sf = ?sf and c = "''app.S''" and i = 7 and w = sample_server and env = ?env
      and d = "[(''self'', Inst 7)]" and mo = "sample_moment ''t''" and sc = empty_server_context, OF h(1,2) plain_parsed _ _ h(5) _ _ v c h(9)]
    h b show ?thesis by auto
qed

lemma on_stream_plain:
  "on_stream_message env [] mo r sc w =
     (let ((rs, exc), w1) = dispatch_stream env mo (setup_request_context mo r sc) w;
          (out, e) = attach_all (mo_tick mo) (sc_meta sc) 0 rs
      in ((out, case e of Some x \<Rightarrow> Some x | None \<Rightarrow> exc), w1))"
proof -
  have c: "context_of (new_ctx r (sc_state sc) (sc_principal sc) (sc_meta sc) True w) = sc"
    by (simp add: context_of_def new_ctx_def)
  have f: "cx_request (new_ctx r s p m b w) = r" "cx_world (new_ctx r s p m b w) = w" "cx_meta (new_ctx r s p m b w) = m"
    "\<not> cx_aborted (new_ctx r s p m b w)" for s p m b
    by (simp_all add: new_ctx_def)
  show ?thesis
    by (auto simp: on_stream_message_def chain_execute_def new_chain_def chain_body_def apply_wrappers_def handle_stream_def c f
        consume_def Let_def split: prod.splits option.splits list.splits)
qed



text \<open>
  Cancelling a task cancels nothing: the manager has no such operation, so the answer is
  always that it was not cancelled, no record changes, every runner that was to run still runs, and a
  task the manager does not know is reported as failed.
\<close>

theorem cancel_never_cancels:
  "case task_cancel mo tid w of ((t, s, canceled), w') \<Rightarrow>
     t = tid \<and> \<not> canceled \<and> store (sv_tasks w') = store (sv_tasks w) \<and> sv_runners w' = sv_runners w
     \<and> set (tasks (sv_tasks w')) \<subseteq> set (tasks (sv_tasks w))
     \<and> (map_of (tasks (sv_tasks w)) tid = None \<longrightarrow> s = FAILED)"
proof -
  let ?g = "gc_locked (mo_now mo) False (sv_tasks w)"
  have g: "shrinks (sv_tasks w) ?g" by (rule shrinks_gc)
  then have "map_of (tasks (sv_tasks w)) tid = None \<Longrightarrow> map_of (tasks ?g) tid = None"
    using keys_shrink [OF g] by (auto simp: map_of_eq_None_iff)
  with g show ?thesis
    by (auto simp: task_cancel_def get_task_def Let_def shrinks_def simp del: dict_opaque split: option.splits)
qed

theorem cancel_never_cancels_witness:
  "fst (task_cancel (sample_moment ''t'') ''x'' sample_server) = (''x'', FAILED, False)"
  using cancel_never_cancels [where mo = "sample_moment ''t''" and tid = "''x''" and w = sample_server]
  by (auto simp: sample_server_def new_task_manager_def split: prod.splits)

lemma status_kept: "map_task_status other (status_value s) = s"
  by (cases s) (simp_all add: map_task_status_def status_value_def getattr_value_def py_str_def task_status_name_def py_lower_def lower_char_def
      ascii_code_def)

lemma record_status [simp]: "status (task_record_from_manager other r) = status r"
  "is_terminal (task_record_from_manager other r) = is_terminal r"
  by (simp_all add: task_record_from_manager_def status_kept is_terminal_def)

definition wanted :: "string list \<Rightarrow> string \<times> task_record \<Rightarrow> bool" where
  "wanted events p = (events = [] \<or> fst p \<in> set events)"

definition seen :: "string \<times> task_record \<Rightarrow> string \<times> task_status" where
  "seen p = (fst p, status (snd p))"

lemma subscription_Cons:
  "subscription other events (p # evs) =
     (if wanted events p
      then (let record = task_record_from_manager other (snd p);
                (out, fin) = (if fst p = ''completed'' \<or> is_terminal record then ([], True) else subscription other events evs)
            in ((fst p, record) # out, fin))
      else subscription other events evs)"
  by (cases p) (simp add: wanted_def)



text \<open>
  A client stream reaches the service function as one call: the arguments of its first
  request, and the data of all the others, in order, as the list \<open>stream_items\<close>, which a stream of one
  request does not have. When the first request has no data the call can only fail: the argument made up
  for it is one no service function has.
\<close>

theorem client_stream_items:
  assumes "rest \<noteq> []" "map_of (request_data r) ''stream_items'' = None"
  shows "\<exists>c. collect_stream_request (r # rest) = Inr c
    \<and> map_of (request_data c) ''stream_items'' = Some (PList (map item_data rest))
    \<and> (\<forall>k. k \<noteq> ''stream_items'' \<and> rq_data r \<noteq> None \<longrightarrow> map_of (request_data c) k = map_of (request_data r) k)
    \<and> (rq_data r = None \<longrightarrow>
         (\<forall>f name full opts sf args. from_function f name full opts = Inr sf \<longrightarrow>
            bind_args (sf_params sf) args (map (\<lambda>(k, v). (k, Val v)) (request_data c)) = Inl type_error))
    \<and> collect_stream_request [r] = Inr r"
proof -
  obtain x xs where rest: "rest = x # xs" using assms(1) by (cases rest) auto
  let ?d = "case rq_data r of Some d \<Rightarrow> d | None \<Rightarrow> [(''_data'', PNone)]"
  have d: "map_of ?d ''stream_items'' = None" using assms(2) by (auto simp: request_data_def split: option.splits)
  let ?c = "r\<lparr>rq_data := Some (AList.update ''stream_items'' (PList (map item_data rest)) ?d)\<rparr>"
  have c: "collect_stream_request (r # rest) = Inr ?c"
    using d by (simp add: collect_stream_request_def rest extend_items_def dict_get_def del: dict_opaque)
  have fail: "bind_args (sf_params sf) args (map (\<lambda>(k, v). (k, Val v)) (request_data ?c)) = Inl type_error"
    if "rq_data r = None" "from_function f name full opts = Inr sf" for f name full opts sf args
  proof -
    have "\<forall>p \<in> set (pf_params f). \<not> starts_with (prm_name p) ''_''"
      using that(2) by (auto simp: from_function_def find_None_iff Let_def split: option.splits)
    moreover have "starts_with ''_data'' ''_''" by simp
    ultimately have "''_data'' \<notin> prm_name ` set (sf_params sf)"
      using from_function_fields [OF that(2)] by (metis imageE)
    with that(1) show ?thesis by (force simp: bind_args_def request_data_def Let_def)
  qed
  show ?thesis
  proof (rule exI [of _ ?c], intro conjI allI impI)
    fix f name full opts sf args assume "rq_data r = None" "from_function f name full opts = Inr sf"
    then show "bind_args (sf_params sf) args (map (\<lambda>(k, v). (k, Val v)) (request_data ?c)) = Inl type_error" by (rule fail)
  qed (use c in \<open>auto simp: request_data_def collect_stream_request_def split: option.splits\<close>)
qed

theorem client_stream_items_witness:
  "\<exists>c. collect_stream_request [plain_request, plain_request] = Inr c
     \<and> map_of (request_data c) ''stream_items'' = Some (PList [PDict []])"
proof -
  have "map_of (request_data plain_request) ''stream_items'' = None" "item_data plain_request = PDict []"
    by (simp_all add: request_data_def plain_request_def empty_request_def item_data_def)
  then show ?thesis using client_stream_items [of "[plain_request]" plain_request] by auto
qed

text \<open>A response as the protocol wants it: a result, or an error with a standard code.\<close>

definition shaped :: "string \<Rightarrow> rpc_response \<Rightarrow> bool" where
  "shaped rid x =
     (rs_aduib_rpc x = ''2.0'' \<and> rs_id x = Some rid
      \<and> ((rs_status x = SUCCESS \<and> rs_error x = None)
         \<or> (rs_status x = ERROR \<and> rs_result x = PNone
            \<and> (\<exists>code e. rs_error x = Some e \<and> err_code e = error_code_value code \<and> err_name e = error_code_name code))))"

lemma shaped_success: "shaped rid (success_response rid v)"
  by (simp add: shaped_def success_response_def)

lemma shaped_error: "shaped rid (error_response rid code m ds)"
  by (auto simp: shaped_def error_response_def error_payload_def dict_get_def)

lemma shaped_relay: "x \<in> set (relay_events dump rid evs) \<Longrightarrow> shaped rid x"
  by (induction dump rid evs rule: relay_events.induct) (auto simp: shaped_success split: if_splits)

lemma shaped_with_task:
  assumes "with_task env mo rc answer w = ((rs, exc), w')" "\<And>t. shaped (rc_request_id rc) (answer t)" "x \<in> set rs"
  shows "shaped (rc_request_id rc) x"
  using assms by (auto simp: with_task_def Let_def shaped_error missing_task_id_def unknown_task_def split: if_splits prod.splits sum.splits)

lemma shaped_task:
  assumes "handle_task_method env mo rc w = ((rs, exc), w')" "x \<in> set rs"
  shows "shaped (rc_request_id rc) x"
proof -
  let ?m = "task_method_of rc"
  consider "?m = ''task/submit''" | "?m = ''task/status''" | "?m = ''task/result''" | "?m = ''task/query''"
    | "?m = ''task/cancel''" | "?m = ''task/subscribe''"
    | "?m \<notin> {''task/submit'', ''task/status'', ''task/result'', ''task/query'', ''task/cancel'', ''task/subscribe''}" by blast
  then show ?thesis
  proof cases
    case 1
    with assms show ?thesis
      by (auto simp: handle_task_method_def handle_submit_def shaped_success split: prod.splits sum.splits)
  next
    case 2
    with assms show ?thesis by (auto simp: handle_task_method_def shaped_success intro: shaped_with_task)
  next
    case 3
    with assms show ?thesis by (auto simp: handle_task_method_def shaped_success intro: shaped_with_task)
  next
    case 4
    with assms show ?thesis by (auto simp: handle_task_method_def shaped_success intro: shaped_with_task)
  next
    case 5
    with assms show ?thesis
      by (auto simp: handle_task_method_def handle_cancel_def shaped_success shaped_error missing_task_id_def Let_def
          split: if_splits prod.splits)
  next
    case 6
    with assms show ?thesis
      by (auto simp: handle_task_method_def handle_subscribe_def shaped_relay shaped_error missing_task_id_def unknown_task_def Let_def
          split: if_splits prod.splits sum.splits)
  next
    case 7
    with assms show ?thesis by (auto simp: handle_task_method_def shaped_error Let_def)
  qed
qed



end
