(* ===== verification/Thrift_Codec.thy ===== *)
theory Thrift_Codec
  imports Grpc_Codec
begin

text \<open>
  The Thrift codec (\<open>utils/thrift_v2_utils.py\<close>): \<open>ToThrift\<close> builds the structs of
  \<open>thrift_v2/ttypes.py\<close> from the models, \<open>FromThrift\<close> models from structs. Every field of a
  struct may be unset (\<open>None\<close>). Payloads travel as JSON text; \<open>json.dumps\<close> and \<open>json.loads\<close>
  are parameters, as is \<open>str\<close> of floats and objects.
\<close>

record json_lib =
  js_dumps :: "pyval \<Rightarrow> string option"
  js_loads :: "string \<Rightarrow> pyval option"
  js_other_str :: "pyval \<Rightarrow> string"

section \<open>Structs\<close>

record th_trace_context =
  tht_trace_id :: "string option"
  tht_span_id :: "string option"
  tht_parent_span_id :: "string option"
  tht_sampled :: "bool option"
  tht_baggage :: "(string, string) dict option"

record th_auth_context =
  tha_scheme :: "int option"
  tha_credentials :: "string option"
  tha_principal :: "string option"
  tha_roles :: "string list option"

record th_request_metadata =
  thm_timestamp_ms :: "int option"
  thm_client_id :: "string option"
  thm_client_version :: "string option"
  thm_auth :: "th_auth_context option"
  thm_tenant_id :: "string option"
  thm_headers :: "(string, string) dict option"
  thm_long_task :: "bool option"
  thm_long_task_method :: "string option"
  thm_long_task_timeout :: "int option"

record th_response_metadata =
  ths_timestamp_ms :: "int option"
  ths_duration_ms :: "int option"
  ths_server_id :: "string option"
  ths_server_version :: "string option"

record th_retry_config =
  thr_max_attempts :: "int option"
  thr_initial_delay_ms :: "int option"
  thr_max_delay_ms :: "int option"
  thr_backoff_multiplier :: "rat option"
  thr_retryable_codes :: "int list option"

record th_qos_config =
  thq_priority :: "int option"
  thq_timeout_ms :: "int option"
  thq_retry_config :: "th_retry_config option"
  thq_idempotency_key :: "string option"

record th_request =
  thrq_aduib_rpc :: "string option"
  thrq_id :: "string option"
  thrq_method :: "string option"
  thrq_name :: "string option"
  thrq_data_json :: "string option"
  thrq_trace_context :: "th_trace_context option"
  thrq_metadata :: "th_request_metadata option"
  thrq_qos :: "th_qos_config option"

record th_error_detail =
  thd_type :: "string option"
  thd_field :: "string option"
  thd_reason :: "string option"
  thd_metadata :: "(string, string) dict option"

record th_debug_info =
  thi_stack_trace :: "string option"
  thi_internal_message :: "string option"
  thi_timestamp_ms :: "int option"

record th_rpc_error =
  the_code :: "int option"
  the_name :: "string option"
  the_message :: "string option"
  the_details :: "th_error_detail list option"
  the_debug :: "th_debug_info option"

record th_response_payload =
  thp_result_json :: "string option"
  thp_error :: "th_rpc_error option"

record th_response =
  thrs_aduib_rpc :: "string option"
  thrs_id :: "string option"
  thrs_status :: "int option"
  thrs_payload :: "th_response_payload option"
  thrs_trace_context :: "th_trace_context option"
  thrs_metadata :: "th_response_metadata option"

record th_task_progress =
  thg_current :: "int option"
  thg_total :: "int option"
  thg_message :: "string option"
  thg_percentage :: "rat option"

record th_task_record =
  thk_task_id :: "string option"
  thk_parent_task_id :: "string option"
  thk_status :: "int option"
  thk_priority :: "int option"
  thk_created_at_ms :: "int option"
  thk_scheduled_at_ms :: "int option"
  thk_started_at_ms :: "int option"
  thk_completed_at_ms :: "int option"
  thk_attempt :: "int option"
  thk_max_attempts :: "int option"
  thk_next_retry_at_ms :: "int option"
  thk_result :: "string option"
  thk_error :: "th_rpc_error option"
  thk_progress :: "th_task_progress option"
  thk_metadata :: "(string, string) dict option"
  thk_tags :: "string list option"

record th_task_submit_request =
  thb_target_method :: "string option"
  thb_params_json :: "string option"
  thb_priority :: "int option"

section \<open>\<open>ToThrift\<close>\<close>

definition json_dumps_safe :: "json_lib \<Rightarrow> pyval \<Rightarrow> string" where
  "json_dumps_safe js obj =
     (case js_dumps js obj of
        Some s \<Rightarrow> s
      | None \<Rightarrow> (case js_dumps js (PDict [(''_unserializable'', PBool True)]) of Some s \<Rightarrow> s | None \<Rightarrow> []))"

definition trace_context_to_thrift :: "trace_context \<Rightarrow> th_trace_context" where
  "trace_context_to_thrift value =
     \<lparr>tht_trace_id = Some (tc_trace_id value), tht_span_id = Some (tc_span_id value),
      tht_parent_span_id = tc_parent_span_id value, tht_sampled = Some (tc_sampled value),
      tht_baggage = Some (or_empty (tc_baggage value))\<rparr>"

definition auth_context_to_thrift :: "auth_context \<Rightarrow> th_auth_context" where
  "auth_context_to_thrift value =
     \<lparr>tha_scheme = Some (auth_scheme_to_wire (Member (ac_scheme value))),
      tha_credentials = ac_credentials value, tha_principal = ac_principal value,
      tha_roles = nonempty (or_empty (ac_roles value))\<rparr>"

definition request_metadata_to_thrift :: "request_metadata \<Rightarrow> th_request_metadata" where
  "request_metadata_to_thrift value =
     \<lparr>thm_timestamp_ms = Some (rm_timestamp_ms value), thm_client_id = rm_client_id value,
      thm_client_version = rm_client_version value,
      thm_auth = map_option auth_context_to_thrift (rm_auth value),
      thm_tenant_id = rm_tenant_id value, thm_headers = nonempty (or_empty (rm_headers value)),
      thm_long_task = Some (rm_long_task value), thm_long_task_method = rm_long_task_method value,
      thm_long_task_timeout = rm_long_task_timeout value\<rparr>"

definition response_metadata_to_thrift :: "response_metadata \<Rightarrow> th_response_metadata" where
  "response_metadata_to_thrift value =
     \<lparr>ths_timestamp_ms = Some (sm_timestamp_ms value),
      ths_duration_ms = Some (case sm_duration_ms value of None \<Rightarrow> 0 | Some d \<Rightarrow> d),
      ths_server_id = sm_server_id value, ths_server_version = sm_server_version value\<rparr>"

definition retry_config_to_thrift :: "retry_policy \<Rightarrow> th_retry_config" where
  "retry_config_to_thrift value =
     \<lparr>thr_max_attempts = Some (rp_max_attempts value),
      thr_initial_delay_ms = Some (rp_initial_delay_ms value),
      thr_max_delay_ms = Some (rp_max_delay_ms value),
      thr_backoff_multiplier = Some (rp_backoff_multiplier value),
      thr_retryable_codes = nonempty (or_empty (rp_retryable_codes value))\<rparr>"

definition qos_config_to_thrift :: "qos_field \<Rightarrow> exn + th_qos_config" where
  "qos_config_to_thrift value =
     (case value of
        RawQos v \<Rightarrow> Inl (no_attribute ''priority'')
      | Qos q \<Rightarrow>
          Inr \<lparr>thq_priority = Some (priority_to_wire (qc_priority q)),
               thq_timeout_ms = qc_timeout_ms q,
               thq_retry_config = map_option retry_config_to_thrift (qc_retry q),
               thq_idempotency_key = qc_idempotency_key q\<rparr>)"

definition request_to_thrift :: "json_lib \<Rightarrow> rpc_request \<Rightarrow> exn + th_request" where
  "request_to_thrift js request =
     (let data_json = json_dumps_safe js (PDict (or_empty (rq_data request))) in
      bind_ok (opt_ok qos_config_to_thrift (rq_qos request)) (\<lambda>qos.
        Inr \<lparr>thrq_aduib_rpc =
               Some (if rq_aduib_rpc request = [] then ''2.0'' else rq_aduib_rpc request),
             thrq_id = Some (or_empty (rq_id request)), thrq_method = Some (rq_method request),
             thrq_name = rq_name request,
             thrq_data_json = Some (if data_json = [] then ''{}'' else data_json),
             thrq_trace_context = map_option trace_context_to_thrift (rq_trace_context request),
             thrq_metadata = map_option request_metadata_to_thrift (rq_metadata request),
             thrq_qos = qos\<rparr>))"

text \<open>
  \<open>error_detail\<close> and \<open>debug_info\<close> take a model, or an object without \<open>model_dump\<close> whose
  attributes they read. \<open>rpc_error\<close> hands them the parts of a dumped error, which are
  dictionaries: those have none of the attributes.
\<close>

datatype 'a dumped = AsModel 'a | AsDict 'a

definition error_detail_to_thrift :: "json_lib \<Rightarrow> error_detail dumped \<Rightarrow> th_error_detail" where
  "error_detail_to_thrift js x =
     (case x of
        AsModel d \<Rightarrow>
          \<lparr>thd_type = Some (detail_type d), thd_field = detail_field d,
           thd_reason = Some (detail_reason d),
           thd_metadata = Some (str_map (js_other_str js) (or_empty (detail_metadata d)))\<rparr>
      | AsDict _ \<Rightarrow> \<lparr>thd_type = Some [], thd_field = None, thd_reason = Some [], thd_metadata = Some []\<rparr>)"

definition debug_info_to_thrift :: "debug_info dumped \<Rightarrow> th_debug_info" where
  "debug_info_to_thrift x =
     (case x of
        AsModel d \<Rightarrow>
          \<lparr>thi_stack_trace = stack_trace d, thi_internal_message = internal_message d,
           thi_timestamp_ms = Some (debug_timestamp_ms d)\<rparr>
      | AsDict _ \<Rightarrow> \<lparr>thi_stack_trace = None, thi_internal_message = None, thi_timestamp_ms = Some 0\<rparr>)"

definition rpc_error_to_thrift :: "json_lib \<Rightarrow> rpc_error \<Rightarrow> th_rpc_error" where
  "rpc_error_to_thrift js err =
     \<lparr>the_code = Some (err_code err), the_name = Some (err_name err),
      the_message = Some (err_message err),
      the_details =
        nonempty (map (\<lambda>d. error_detail_to_thrift js (AsDict d)) (or_empty (err_details err))),
      the_debug = map_option (\<lambda>d. debug_info_to_thrift (AsDict d)) (err_debug err)\<rparr>"

definition task_progress_to_thrift :: "task_progress \<Rightarrow> th_task_progress" where
  "task_progress_to_thrift p =
     \<lparr>thg_current = Some (tp_current p), thg_total = Some (tp_total p), thg_message = tp_message p,
      thg_percentage = tp_percentage p\<rparr>"

definition task_record_to_thrift :: "json_lib \<Rightarrow> task_record \<Rightarrow> th_task_record" where
  "task_record_to_thrift js r =
     \<lparr>thk_task_id = Some (task_id r), thk_parent_task_id = parent_task_id r,
      thk_status = Some (task_status_to_wire (Member (status r))),
      thk_priority = Some (priority_to_wire (Member (task_priority r))),
      thk_created_at_ms = Some (created_at_ms r), thk_scheduled_at_ms = scheduled_at_ms r,
      thk_started_at_ms = started_at_ms r, thk_completed_at_ms = completed_at_ms r,
      thk_attempt = Some (attempt r), thk_max_attempts = Some (max_attempts r),
      thk_next_retry_at_ms = next_retry_at_ms r,
      thk_result = (if result r = PNone then None else Some (json_dumps_safe js (result r))),
      thk_error = map_option (rpc_error_to_thrift js) (task_error r),
      thk_progress = map_option task_progress_to_thrift (progress r),
      thk_metadata = nonempty (str_map (js_other_str js) (or_empty (metadata r))),
      thk_tags = nonempty (or_empty (tags r))\<rparr>"

definition response_payload_to_thrift :: "json_lib \<Rightarrow> rpc_response \<Rightarrow> th_response_payload" where
  "response_payload_to_thrift js resp =
     (if is_success resp
      then \<lparr>thp_result_json = Some (json_dumps_safe js (rs_result resp)), thp_error = None\<rparr>
      else (let err = (case rs_error resp of
                         Some e \<Rightarrow> e
                       | None \<Rightarrow> \<lparr>err_code = 0, err_name = ''UNKNOWN'', err_message = [],
                                  err_details = None, err_debug = None\<rparr>)
            in \<lparr>thp_result_json = None, thp_error = Some (rpc_error_to_thrift js err)\<rparr>))"

definition response_to_thrift :: "json_lib \<Rightarrow> rpc_response \<Rightarrow> th_response" where
  "response_to_thrift js resp =
     \<lparr>thrs_aduib_rpc = Some (rs_aduib_rpc resp), thrs_id = Some (or_empty (rs_id resp)),
      thrs_status = Some (response_status_to_wire (Member (rs_status resp))),
      thrs_payload = Some (response_payload_to_thrift js resp),
      thrs_trace_context = map_option trace_context_to_thrift (rs_trace_context resp),
      thrs_metadata = map_option response_metadata_to_thrift (rs_metadata resp)\<rparr>"

definition health_response_to_thrift :: "health_check_response \<Rightarrow> int \<times> (string, int) dict" where
  "health_response_to_thrift payload =
     (health_status_to_wire (Member (hcr_status payload)),
      map (\<lambda>(k, v). (k, health_status_to_wire (Member v))) (or_empty (hcr_services payload)))"

section \<open>\<open>FromThrift\<close>\<close>

definition or_zero :: "'a::zero option \<Rightarrow> 'a" where
  "or_zero x = (case x of None \<Rightarrow> 0 | Some v \<Rightarrow> v)"

definition opt_wire :: "int option \<Rightarrow> 'e wire_arg" where
  "opt_wire x = Other (case x of None \<Rightarrow> PNone | Some n \<Rightarrow> PInt n)"

definition safe_json_loads :: "json_lib \<Rightarrow> string option \<Rightarrow> pyval" where
  "safe_json_loads js value =
     (case value of
        None \<Rightarrow> PDict []
      | Some s \<Rightarrow> if s = [] then PDict []
                  else (case js_loads js s of None \<Rightarrow> PDict [] | Some v \<Rightarrow> v))"

definition trace_context_from_thrift :: "th_trace_context \<Rightarrow> exn + trace_context" where
  "trace_context_from_thrift value =
     new_trace_context (or_empty (tht_trace_id value)) (or_empty (tht_span_id value))
       (tht_parent_span_id value) (tht_sampled value = Some True)
       (nonempty (or_empty (tht_baggage value)))"

definition auth_context_from_thrift :: "th_auth_context \<Rightarrow> auth_context" where
  "auth_context_from_thrift value =
     \<lparr>ac_scheme = auth_scheme_from_wire (opt_wire (tha_scheme value)),
      ac_credentials = tha_credentials value, ac_principal = tha_principal value,
      ac_principal_type = None, ac_roles = nonempty (or_empty (tha_roles value))\<rparr>"

definition request_metadata_from_thrift :: "th_request_metadata \<Rightarrow> request_metadata" where
  "request_metadata_from_thrift value =
     \<lparr>rm_timestamp_ms = or_zero (thm_timestamp_ms value), rm_client_id = thm_client_id value,
      rm_client_version = thm_client_version value,
      rm_auth = map_option auth_context_from_thrift (thm_auth value),
      rm_tenant_id = thm_tenant_id value, rm_headers = nonempty (or_empty (thm_headers value)),
      rm_long_task = (thm_long_task value = Some True),
      rm_long_task_method = thm_long_task_method value,
      rm_long_task_timeout = thm_long_task_timeout value\<rparr>"

definition response_metadata_from_thrift :: "th_response_metadata \<Rightarrow> response_metadata" where
  "response_metadata_from_thrift value =
     \<lparr>sm_timestamp_ms = or_zero (ths_timestamp_ms value),
      sm_duration_ms = Some (or_zero (ths_duration_ms value)),
      sm_server_id = ths_server_id value, sm_server_version = ths_server_version value\<rparr>"

definition retry_policy_from_thrift :: "th_retry_config \<Rightarrow> retry_policy" where
  "retry_policy_from_thrift value =
     (let defaults = default_retry_policy in
      defaults\<lparr>rp_max_attempts := or_default (or_zero (thr_max_attempts value)) (rp_max_attempts defaults),
        rp_initial_delay_ms :=
          or_default (or_zero (thr_initial_delay_ms value)) (rp_initial_delay_ms defaults),
        rp_max_delay_ms := or_default (or_zero (thr_max_delay_ms value)) (rp_max_delay_ms defaults),
        rp_backoff_multiplier :=
          or_default (or_zero (thr_backoff_multiplier value)) (rp_backoff_multiplier defaults),
        rp_retryable_codes := nonempty (or_empty (thr_retryable_codes value))\<rparr>)"

definition qos_config_from_thrift :: "th_qos_config \<Rightarrow> qos_config" where
  "qos_config_from_thrift value =
     default_qos_config\<lparr>
       qc_priority := Member (priority_from_wire (opt_wire (thq_priority value))),
       qc_timeout_ms := thq_timeout_ms value,
       qc_retry := map_option retry_policy_from_thrift (thq_retry_config value),
       qc_idempotency_key := thq_idempotency_key value\<rparr>"

text \<open>A missing method is a \<open>ValidationError\<close> (the field is not optional).\<close>

definition request_from_thrift :: "json_lib \<Rightarrow> th_request \<Rightarrow> exn + rpc_request" where
  "request_from_thrift js task =
     bind_ok (opt_ok trace_context_from_thrift (thrq_trace_context task)) (\<lambda>tc.
       case thrq_method task of
         None \<Rightarrow> Inl (validation_error ''Input should be a valid string'')
       | Some method \<Rightarrow>
           new_request (if or_empty (thrq_aduib_rpc task) = [] then ''2.0'' else or_empty (thrq_aduib_rpc task))
             (thrq_id task) method (thrq_name task) (safe_json_loads js (thrq_data_json task)) tc
             (map_option request_metadata_from_thrift (thrq_metadata task))
             (map_option (\<lambda>q. Qos (qos_config_from_thrift q)) (thrq_qos task)) None)"

definition error_detail_from_thrift :: "th_error_detail \<Rightarrow> error_detail" where
  "error_detail_from_thrift value =
     \<lparr>detail_type = or_empty (thd_type value), detail_field = thd_field value,
      detail_reason = or_empty (thd_reason value),
      detail_metadata = nonempty (map (\<lambda>(k, v). (k, PStr v)) (or_empty (thd_metadata value)))\<rparr>"

definition debug_info_from_thrift :: "th_debug_info \<Rightarrow> debug_info" where
  "debug_info_from_thrift value =
     \<lparr>stack_trace = thi_stack_trace value, internal_message = thi_internal_message value,
      debug_timestamp_ms = or_zero (thi_timestamp_ms value)\<rparr>"

definition rpc_error_from_thrift :: "th_rpc_error \<Rightarrow> rpc_error" where
  "rpc_error_from_thrift value =
     \<lparr>err_code = or_zero (the_code value), err_name = or_unknown (or_empty (the_name value)),
      err_message = or_empty (the_message value),
      err_details = nonempty (map error_detail_from_thrift (or_empty (the_details value))),
      err_debug = map_option debug_info_from_thrift (the_debug value)\<rparr>"

definition response_from_thrift :: "json_lib \<Rightarrow> th_response \<Rightarrow> exn + rpc_response" where
  "response_from_thrift js m =
     (let (res, err) =
        (case thrs_payload m of
           None \<Rightarrow> (PNone, None)
         | Some p \<Rightarrow>
             (case thp_error p of
                Some e \<Rightarrow> (PNone, Some (rpc_error_from_thrift e))
              | None \<Rightarrow> (if thp_result_json p = None then PNone else safe_json_loads js (thp_result_json p), None)))
      in bind_ok (opt_ok trace_context_from_thrift (thrs_trace_context m)) (\<lambda>tc.
           new_response
             (if or_empty (thrs_aduib_rpc m) = [] then ''2.0'' else or_empty (thrs_aduib_rpc m))
             (thrs_id m) (response_status_from_wire (opt_wire (thrs_status m))) res err tc
             (map_option response_metadata_from_thrift (thrs_metadata m))))"

definition task_progress_from_thrift :: "th_task_progress \<Rightarrow> task_progress" where
  "task_progress_from_thrift value =
     \<lparr>tp_current = or_zero (thg_current value), tp_total = or_zero (thg_total value),
      tp_message = thg_message value, tp_percentage = thg_percentage value\<rparr>"

definition task_record_from_thrift :: "json_lib \<Rightarrow> th_task_record \<Rightarrow> task_record" where
  "task_record_from_thrift js m =
     \<lparr>task_id = or_empty (thk_task_id m), parent_task_id = thk_parent_task_id m,
      status = task_status_from_wire (opt_wire (thk_status m)),
      task_priority = priority_from_wire (opt_wire (thk_priority m)),
      created_at_ms = or_zero (thk_created_at_ms m), scheduled_at_ms = thk_scheduled_at_ms m,
      started_at_ms = thk_started_at_ms m, completed_at_ms = thk_completed_at_ms m,
      attempt = or_zero (thk_attempt m), max_attempts = or_zero (thk_max_attempts m),
      next_retry_at_ms = thk_next_retry_at_ms m,
      result = (if thk_result m = None then PNone else safe_json_loads js (thk_result m)),
      task_error = map_option rpc_error_from_thrift (thk_error m),
      progress = map_option task_progress_from_thrift (thk_progress m),
      metadata = nonempty (map (\<lambda>(k, v). (k, PStr v)) (or_empty (thk_metadata m))),
      tags = nonempty (or_empty (thk_tags m))\<rparr>"

definition task_submit_request_from_thrift ::
  "json_lib \<Rightarrow> th_task_submit_request \<Rightarrow> exn + task_submit_request" where
  "task_submit_request_from_thrift js m =
     new_task_submit_request (or_empty (thb_target_method m))
       (if or_empty (thb_params_json m) = [] then PNone else safe_json_loads js (thb_params_json m))
       (case thb_priority m of
          None \<Rightarrow> default_submit_priority
        | Some n \<Rightarrow> Member (priority_from_wire (Other (PInt n))))"

definition health_response_from_thrift :: "int option \<times> (string, int) dict option \<Rightarrow> health_check_response" where
  "health_response_from_thrift m =
     \<lparr>hcr_status = health_status_from_wire (opt_wire (fst m)),
      hcr_services =
        nonempty (map (\<lambda>(k, v). (k, health_status_from_wire (Other (PInt v)))) (or_empty (snd m)))\<rparr>"

section \<open>Properties\<close>

lemma or_zero_Some [simp]: "or_zero (Some v) = v"
  by (simp add: or_zero_def)

lemma opt_wire_Some [simp]: "opt_wire (Some n) = Other (PInt n)"
  by (simp add: opt_wire_def)

lemma trace_thrift_round_trip:
  "trace_ok t \<Longrightarrow> trace_context_from_thrift (trace_context_to_thrift t) = Inr (trace_view t)"
  by (simp add: trace_context_from_thrift_def trace_context_to_thrift_def new_trace_context_of_ok
      trace_view_def)

lemma auth_thrift_round_trip: "auth_context_from_thrift (auth_context_to_thrift a) = auth_view a"
  by (simp add: auth_context_from_thrift_def auth_context_to_thrift_def auth_view_def scheme_wire_view)

lemma metadata_thrift_round_trip:
  "request_metadata_from_thrift (request_metadata_to_thrift m) = metadata_view m"
  by (simp add: request_metadata_from_thrift_def request_metadata_to_thrift_def metadata_view_def
      option.map_comp comp_def auth_thrift_round_trip)

lemma retry_thrift_round_trip: "retry_policy_from_thrift (retry_config_to_thrift p) = retry_view p"
  by (simp add: retry_policy_from_thrift_def retry_config_to_thrift_def retry_view_def
      default_retry_policy_def Let_def)

lemma qos_thrift_round_trip:
  "f \<noteq> RawQos v \<Longrightarrow> (\<forall>w. f \<noteq> RawQos w) \<Longrightarrow>
     \<exists>m. qos_config_to_thrift f = Inr m \<and> Qos (qos_config_from_thrift m) = qos_field_view f"
  by (cases f) (auto simp: qos_config_to_thrift_def qos_config_from_thrift_def qos_field_view_def
      qos_view_def option.map_comp comp_def retry_thrift_round_trip)

text \<open>What JSON is relied on for: the payload has a text that reads back as some dictionary.\<close>

definition json_carried ::
  "json_lib \<Rightarrow> (string, pyval) dict option \<Rightarrow> (string, pyval) dict option \<Rightarrow> bool" where
  "json_carried js d d' \<longleftrightarrow>
     (\<exists>s x'. js_dumps js (PDict (or_empty d)) = Some s \<and> s \<noteq> [] \<and> js_loads js s = Some (PDict x')
        \<and> d' = Some x')"

lemma thrift_request_round_trip:
  assumes "request_sendable r" "json_carried js (rq_data r) d"
  shows "\<exists>m. request_to_thrift js r = Inr m \<and> request_from_thrift js m = Inr (request_view d r)"
proof -
  have "\<exists>m. opt_ok qos_config_to_thrift (rq_qos r) = Inr m
      \<and> map_option (\<lambda>q. Qos (qos_config_from_thrift q)) m = map_option qos_field_view (rq_qos r)"
    using assms(1) qos_thrift_round_trip
    by (intro opt_round_trip) (auto simp: request_sendable_def split: qos_field.splits)
  then obtain qos where qos: "opt_ok qos_config_to_thrift (rq_qos r) = Inr qos"
    "map_option (\<lambda>q. Qos (qos_config_from_thrift q)) qos = map_option qos_field_view (rq_qos r)" by blast
  have tc: "opt_ok trace_context_from_thrift (map_option trace_context_to_thrift (rq_trace_context r))
      = Inr (map_option trace_view (rq_trace_context r))"
    using assms(1) by (cases "rq_trace_context r")
      (simp_all add: request_sendable_def trace_thrift_round_trip)
  show ?thesis
    using assms by (auto simp: request_to_thrift_def request_from_thrift_def qos tc new_request_def
        validate_version_def request_view_def request_sendable_def json_carried_def json_dumps_safe_def
        safe_json_loads_def validate_data_def option.map_comp comp_def metadata_thrift_round_trip)
qed

text \<open>
  A server cannot tell which binary transport a request came by: gRPC and
  Thrift decode what they encoded to the same request, the one \<open>request_view\<close> describes, whenever both
  carry its payload faithfully.
\<close>

theorem binary_transports_agree:
  assumes "request_sendable r" "data_carried lib (rq_data r) (Some d)" "json_carried js (rq_data r) (Some d)"
  shows "\<exists>m t r'. request_to_proto lib r = Inr m \<and> request_to_thrift js r = Inr t
    \<and> request_from_proto lib m = Inr r' \<and> request_from_thrift js t = Inr r'
    \<and> r' = request_view (Some d) r"
  using grpc_request_delivered [OF assms(1,2)] thrift_request_round_trip [OF assms(1,3)] by blast

text \<open>For the witnesses: a JSON whose only texts are those of two payloads.\<close>

definition tiny_json :: json_lib where
  "tiny_json =
     \<lparr>js_dumps = (\<lambda>v. if v = PDict [(''x'', PInt 1)] then Some ''{\"x\": 1}''
                    else if v = PInt 7 then Some ''7'' else None),
      js_loads = (\<lambda>s. if s = ''{\"x\": 1}'' then Some (PDict [(''x'', PInt 1)])
                    else if s = ''7'' then Some (PInt 7) else None),
      js_other_str = (\<lambda>_. [])\<rparr>"

theorem binary_transports_agree_witness:
  "\<exists>m t r'. request_to_proto plain_pb sample_request = Inr m \<and> request_to_thrift tiny_json sample_request = Inr t
    \<and> request_from_proto plain_pb m = Inr r' \<and> request_from_thrift tiny_json t = Inr r'
    \<and> rq_data r' = Some [(''x'', PInt 1)] \<and> rq_method r' = ''rpc.v2/Svc/add''"
proof -
  have "data_carried plain_pb (rq_data sample_request) (Some [(''x'', PInt 1)])"
    by (simp add: data_carried_def sample_request_def plain_pb_def)
  moreover have "json_carried tiny_json (rq_data sample_request) (Some [(''x'', PInt 1)])"
    by (simp add: json_carried_def sample_request_def tiny_json_def)
  ultimately show ?thesis
    using binary_transports_agree [OF sample_sendable, of plain_pb "[(''x'', PInt 1)]" tiny_json]
    by (auto simp: request_view_def sample_request_def)
qed

text \<open>
  What a client sees of a response over Thrift: as over gRPC, but the details of
  an error arrive in their number and all blank, its debug information arrives emptied, and a
  response without result or error (a \<open>PARTIAL\<close> one) arrives with an error of code 0.
\<close>

theorem thrift_response_relay:
  assumes "response_sendable r"
    and "is_success r \<Longrightarrow> js_dumps js (rs_result r) = Some s \<and> s \<noteq> [] \<and> js_loads js s = Some res"
  shows "response_from_thrift js (response_to_thrift js r) = Inr
    \<lparr>rs_aduib_rpc = ''2.0'', rs_id = Some (or_empty (rs_id r)), rs_status = rs_status r,
     rs_result = (if is_success r then res else PNone),
     rs_error = (if is_success r then None else Some
       (case rs_error r of
          None \<Rightarrow> \<lparr>err_code = 0, err_name = ''UNKNOWN'', err_message = [], err_details = None, err_debug = None\<rparr>
        | Some e \<Rightarrow> e\<lparr>err_name := or_unknown (err_name e),
            err_details := nonempty (map (\<lambda>_. \<lparr>detail_type = [], detail_field = None,
              detail_reason = [], detail_metadata = None\<rparr>) (or_empty (err_details e))),
            err_debug := map_option (\<lambda>_. \<lparr>stack_trace = None, internal_message = None,
              debug_timestamp_ms = 0\<rparr>) (err_debug e)\<rparr>)),
     rs_negotiated_version = None,
     rs_trace_context = map_option trace_view (rs_trace_context r),
     rs_metadata = map_option response_metadata_view (rs_metadata r)\<rparr>"
proof -
  have tc: "opt_ok trace_context_from_thrift (map_option trace_context_to_thrift (rs_trace_context r))
      = Inr (map_option trace_view (rs_trace_context r))"
    using assms(1) by (cases "rs_trace_context r")
      (simp_all add: response_sendable_def trace_thrift_round_trip)
  have st: "response_status_from_wire (Other (PInt (response_status_to_wire (Member s)))) = s" for s
    by (cases s) (simp_all add: response_status_wire_defs)
  have meta: "map_option response_metadata_from_thrift (map_option response_metadata_to_thrift m)
      = map_option response_metadata_view m" for m
    by (cases m) (simp_all add: response_metadata_from_thrift_def response_metadata_to_thrift_def
        response_metadata_view_def)
  have err: "rpc_error_from_thrift (rpc_error_to_thrift js e) = e\<lparr>err_name := or_unknown (err_name e),
      err_details := nonempty (map (\<lambda>_. \<lparr>detail_type = [], detail_field = None,
        detail_reason = [], detail_metadata = None\<rparr>) (or_empty (err_details e))),
      err_debug := map_option (\<lambda>_. \<lparr>stack_trace = None, internal_message = None,
        debug_timestamp_ms = 0\<rparr>) (err_debug e)\<rparr>" for e
    by (simp add: rpc_error_from_thrift_def rpc_error_to_thrift_def error_detail_from_thrift_def
        error_detail_to_thrift_def debug_info_from_thrift_def debug_info_to_thrift_def
        option.map_comp comp_def)
  note defs = response_to_thrift_def response_from_thrift_def response_payload_to_thrift_def tc st meta
    new_response_def validate_version_def validate_result_error_def
  show ?thesis
  proof (cases "is_success r")
    case True
    with assms show ?thesis
      by (simp add: defs response_sendable_def json_dumps_safe_def safe_json_loads_def)
  next
    case False
    with assms(1) show ?thesis
      by (cases "rs_error r") (simp_all add: defs err response_sendable_def or_unknown_def Let_def)
  qed
qed

theorem thrift_response_relay_witness:
  "\<exists>r. response_from_thrift tiny_json (response_to_thrift tiny_json (sample_response ERROR
       (Some \<lparr>err_code = 2001, err_name = ''INVALID_PARAMS'', err_message = ''bad'',
          err_details = Some [\<lparr>detail_type = ''t'', detail_field = Some ''x'', detail_reason = ''why'',
            detail_metadata = None\<rparr>], err_debug = None\<rparr>) PNone)) = Inr r
     \<and> map_option err_code (rs_error r) = Some 2001
     \<and> map_option err_details (rs_error r) = Some (Some [\<lparr>detail_type = [], detail_field = None,
          detail_reason = [], detail_metadata = None\<rparr>])"
proof -
  let ?e = "\<lparr>err_code = 2001, err_name = ''INVALID_PARAMS'', err_message = ''bad'',
      err_details = Some [\<lparr>detail_type = ''t'', detail_field = Some ''x'', detail_reason = ''why'',
        detail_metadata = None\<rparr>], err_debug = None\<rparr>"
  have "response_sendable (sample_response ERROR (Some ?e) PNone)"
    by (simp add: response_sendable_def sample_response_def fits_def)
  from thrift_response_relay [OF this, of tiny_json] show ?thesis
    by (simp add: is_success_def sample_response_def)
qed

end
