(* ===== verification/Endpoints.thy ===== *)
theory Endpoints
  imports Request_Handler Grpc_Codec Thrift_Codec
begin

text \<open>
  What the protocol endpoints of a server share: the abstract request handler they call
  (\<open>server/request_handlers/request_handler.py\<close>) with the default handler as an instance of it, their
  \<open>try ... except Exception\<close> around one call, and the contract of an endpoint, a locale: it decodes
  a wire message, calls the handler, encodes the response, and answers any exception with an error of its
  protocol.
\<close>

section \<open>Steps that may raise\<close>

text \<open>A step on values only, two computations in sequence, and \<open>try ... except Exception\<close>.\<close>

definition of_value :: "'e + 'a \<Rightarrow> ('w, 'e, 'a) comp" where
  "of_value r w = (r, w)"

definition and_then :: "('w, 'e, 'a) comp \<Rightarrow> ('a \<Rightarrow> ('w, 'e, 'b) comp) \<Rightarrow> ('w, 'e, 'b) comp" where
  "and_then f g w = (case f w of (Inl e, w1) \<Rightarrow> (Inl e, w1) | (Inr x, w1) \<Rightarrow> g x w1)"

definition catching :: "(exn \<Rightarrow> exn + 'a) \<Rightarrow> ('w, exn, 'a) comp \<Rightarrow> ('w, exn, 'a) comp" where
  "catching h f w =
     (case f w of
        (Inl e, w1) \<Rightarrow> (if isinstance_exn e PyException then h e else Inl e, w1)
      | (Inr x, w1) \<Rightarrow> (Inr x, w1))"

text \<open>
  A generator's items and how it ends. An item is converted as it comes, and the first conversion that
  raises ends the stream; \<open>except Exception\<close> around the loop adds what it yields after the items.
\<close>

type_synonym 'a stream = "'a list \<times> exn option"

fun map_until :: "('a \<Rightarrow> exn + 'b) \<Rightarrow> 'a list \<Rightarrow> exn option \<Rightarrow> 'b stream" where
  "map_until f [] exc = ([], exc)"
| "map_until f (x # xs) exc =
     (case f x of
        Inl e \<Rightarrow> ([], Some e)
      | Inr y \<Rightarrow> (let (ys, ex) = map_until f xs exc in (y # ys, ex)))"

definition catching_stream :: "(exn \<Rightarrow> exn + 'a) \<Rightarrow> 'a stream \<Rightarrow> 'a stream" where
  "catching_stream h s =
     (case snd s of
        None \<Rightarrow> s
      | Some e \<Rightarrow>
          if isinstance_exn e PyException
          then (case h e of Inr x \<Rightarrow> (fst s @ [x], None) | Inl e' \<Rightarrow> (fst s, Some e'))
          else s)"

text \<open>A coroutine that makes a list of a stream: what was collected is lost when the stream raises.\<close>

definition collected :: "'a stream \<Rightarrow> exn + 'a list" where
  "collected s = (case snd s of None \<Rightarrow> Inr (fst s) | Some e \<Rightarrow> Inl e)"

section \<open>The request handler\<close>

text \<open>
  The methods of \<open>RequestHandler\<close>. The requests of a client stream arrive one by one, and the last may
  raise; a task event carries its name, the record and a time.
\<close>

type_synonym wire_task_event = "string \<times> task_record \<times> int"

record 'w request_handler =
  rh_on_message :: "rpc_request \<Rightarrow> server_context option \<Rightarrow> ('w, exn, rpc_response) comp"
  rh_on_stream :: "rpc_request \<Rightarrow> server_context option \<Rightarrow> 'w \<Rightarrow> rpc_response stream \<times> 'w"
  rh_client_stream :: "rpc_request stream \<Rightarrow> server_context option \<Rightarrow> ('w, exn, rpc_response) comp"
  rh_bidirectional :: "rpc_request stream \<Rightarrow> server_context option \<Rightarrow> 'w \<Rightarrow> rpc_response stream \<times> 'w"
  rh_submit :: "task_submit_request \<Rightarrow> server_context option \<Rightarrow> ('w, exn, task_submit_response option) comp"
  rh_query :: "string \<Rightarrow> server_context option \<Rightarrow> ('w, exn, task_record) comp"
  rh_cancel :: "task_cancel_request \<Rightarrow> server_context option \<Rightarrow> ('w, exn, string \<times> task_status \<times> bool) comp"
  rh_subscribe :: "task_subscribe_request \<Rightarrow> server_context option \<Rightarrow> 'w \<Rightarrow> wire_task_event stream \<times> 'w"
  rh_check :: "string option \<Rightarrow> server_context option \<Rightarrow> ('w, exn, health_check_response) comp"
  rh_watch :: "string option \<Rightarrow> server_context option \<Rightarrow> 'w \<Rightarrow> health_check_response stream \<times> 'w"

text \<open>\<open>_collect_stream_request\<close> on requests that arrive.\<close>

definition collect_arriving :: "rpc_request stream \<Rightarrow> exn + rpc_request" where
  "collect_arriving s = bind_ok (collected s) collect_stream_request"

section \<open>The default handler\<close>

definition or_context :: "server_context option \<Rightarrow> server_context" where
  "or_context sc = (case sc of None \<Rightarrow> empty_server_context | Some c \<Rightarrow> c)"

text \<open>
  \<open>task_subscribe\<close>: subscribing may raise; then the events that arrive, with a time from the record, or
  the clock when it has none. When no more event arrives the generator is left waiting.
\<close>

definition subscribe_task ::
  "'w handler_env \<Rightarrow> moment \<Rightarrow> task_subscribe_request \<Rightarrow> 'z rpc_server_scheme \<Rightarrow> wire_task_event stream \<times> 'z rpc_server_scheme" where
  "subscribe_task env mo req w =
     (let tid = tbr_task_id req in
      case subscribe (mo_now mo) tid (sv_tasks w) of
        (Inl e, m) \<Rightarrow> (([], Some e), w\<lparr>sv_tasks := m\<rparr>)
      | (Inr q, m) \<Rightarrow>
          (let (evs, fin) = subscription (he_str env) (or_empty (tbr_events req)) (he_arrivals env tid) in
           ((map (\<lambda>(ev, r). (ev, r, or_int [completed_at_ms r, started_at_ms r, Some (created_at_ms r)] (mo_now mo))) evs,
             None), w\<lparr>sv_tasks := unsubscribe tid q m\<rparr>)))"

definition default_request_handler ::
  "'z rpc_server_scheme handler_env \<Rightarrow> 'z rpc_server_scheme interceptor list \<Rightarrow> moment
     \<Rightarrow> 'z rpc_server_scheme request_handler" where
  "default_request_handler env is mo =
     \<lparr>rh_on_message = (\<lambda>r sc. on_message env is mo r (or_context sc)),
      rh_on_stream = (\<lambda>r sc. on_stream_message env is mo r (or_context sc)),
      rh_client_stream =
        (\<lambda>rs sc. and_then (of_value (collect_arriving rs)) (\<lambda>r. on_message env is mo r (or_context sc))),
      rh_bidirectional =
        (\<lambda>rs sc w. case collect_arriving rs of
                     Inl e \<Rightarrow> (([], Some e), w)
                   | Inr r \<Rightarrow> on_stream_message env is mo r (or_context sc) w),
      rh_submit = (\<lambda>req sc. task_submit env mo (tsr_params req) (or_context sc)),
      rh_query = (\<lambda>tid sc. task_query (he_str env) mo tid),
      rh_cancel = (\<lambda>req sc w. let (x, w1) = task_cancel mo (tcr_task_id req) w in (Inr x, w1)),
      rh_subscribe = (\<lambda>req sc. subscribe_task env mo req),
      rh_check = (\<lambda>service sc. of_value (Inr (health_check service))),
      rh_watch = (\<lambda>service sc w. (([health_check service], None), w))\<rparr>"

section \<open>Errors for the wire\<close>

text \<open>
  \<open>exception_to_error\<close> as the endpoints call it. Its first call fixes the debug gate for the life of the
  process; the surroundings it reads are the environment's, so every call finds the same gate.
\<close>

record error_env =
  ee_format :: "exn \<Rightarrow> string"
  ee_module :: "exn_class \<Rightarrow> string"
  ee_env :: "string \<rightharpoonup> string"
  ee_tracing :: bool
  ee_debug :: debug_cache

definition wire_error :: "error_env \<Rightarrow> exn \<Rightarrow> rpc_error" where
  "wire_error ee e =
     fst (exception_to_error (ee_format ee) (ee_module ee) (ee_env ee) (ee_tracing ee) e None (ee_debug ee))"

definition wire_error_coded :: "error_env \<Rightarrow> exn \<Rightarrow> error_code \<Rightarrow> rpc_error" where
  "wire_error_coded ee e code =
     fst (exception_to_error (ee_format ee) (ee_module ee) (ee_env ee) (ee_tracing ee) e
            (Some (error_code_value code)) (ee_debug ee))"

text \<open>The response the endpoints build for an error of their own.\<close>

definition failed_response :: "string option \<Rightarrow> rpc_error \<Rightarrow> rpc_response" where
  "failed_response rid err =
     \<lparr>rs_aduib_rpc = ''2.0'', rs_id = rid, rs_status = ERROR, rs_result = PNone, rs_error = Some err,
      rs_negotiated_version = None, rs_trace_context = None, rs_metadata = None\<rparr>"

section \<open>Tenants\<close>

text \<open>The first of some headers with a value, the way a chain of \<open>headers.get(..) or\<close> finds it.\<close>

definition first_header :: "(string, string) dict \<Rightarrow> string list \<Rightarrow> string" where
  "first_header hs ks = (case List.find (\<lambda>k. dict_get hs k [] \<noteq> []) ks of Some k \<Rightarrow> dict_get hs k [] | None \<Rightarrow> [])"

definition tenant_headers :: "string list" where
  "tenant_headers = [''X-Tenant-ID'', ''x-tenant-id'', ''X-Tenant'', ''x-tenant'']"

definition attach_tenant :: "string \<Rightarrow> (string, pyval) dict \<Rightarrow> (string, pyval) dict" where
  "attach_tenant t st = (if t = [] then st else AList.update ''tenant_id'' (PStr t) st)"

definition header_dict :: "(string \<times> string) list \<Rightarrow> (string, string) dict" where
  "header_dict pairs = fold (\<lambda>(k, v). AList.update k v) pairs []"

definition str_dict :: "(string, string) dict \<Rightarrow> (string, pyval) dict" where
  "str_dict d = map (\<lambda>(k, v). (k, PStr v)) d"

section \<open>Facts\<close>

lemma catching_simps [simp]:
  "f w = (Inr x, w1) \<Longrightarrow> catching h f w = (Inr x, w1)"
  "f w = (Inl e, w1) \<Longrightarrow> isinstance_exn e PyException \<Longrightarrow> catching h f w = (h e, w1)"
  "f w = (Inl e, w1) \<Longrightarrow> \<not> isinstance_exn e PyException \<Longrightarrow> catching h f w = (Inl e, w1)"
  by (simp_all add: catching_def)

lemma and_then_simps [simp]:
  "f w = (Inr x, w1) \<Longrightarrow> and_then f g w = g x w1"
  "f w = (Inl e, w1) \<Longrightarrow> and_then f g w = (Inl e, w1)"
  by (simp_all add: and_then_def)

lemma of_value_then [simp]:
  "and_then (of_value (Inr x)) g = g x"
  "and_then (of_value (Inl e)) g w = (Inl e, w)"
  by (simp_all add: and_then_def of_value_def fun_eq_iff)

lemma map_until_ok: "(\<And>x. x \<in> set xs \<Longrightarrow> f x = Inr (g x)) \<Longrightarrow> map_until f xs exc = (map g xs, exc)"
  by (induction xs) auto

lemma map_until_raises: "f x = Inl e \<Longrightarrow> (\<And>y. y \<in> set xs \<Longrightarrow> f y = Inr (g y)) \<Longrightarrow> map_until f (xs @ x # ys) exc = (map g xs, Some e)"
  by (induction xs) auto

lemma catching_stream_simps [simp]:
  "catching_stream h (xs, None) = (xs, None)"
  "isinstance_exn e PyException \<Longrightarrow> h e = Inr x \<Longrightarrow> catching_stream h (xs, Some e) = (xs @ [x], None)"
  "\<not> isinstance_exn e PyException \<Longrightarrow> catching_stream h (xs, Some e) = (xs, Some e)"
  by (simp_all add: catching_stream_def)

lemma wire_error_code [simp]: "err_code (wire_error ee e) = map_exception_to_error_code e"
  by (simp add: wire_error_def exception_to_error_def exception_to_rpc_error_def Let_def split: prod.split)

lemma wire_error_message [simp]:
  "err_message (wire_error ee e) = (if exn_message e \<noteq> [] then exn_message e else class_name (exn_class e))"
  by (simp add: wire_error_def exception_to_error_def exception_to_rpc_error_def Let_def split: prod.split)

lemma wire_error_name [simp]:
  "err_name (wire_error ee e) = dict_get ERROR_CODE_NAMES (map_exception_to_error_code e) ''UNKNOWN''"
  by (simp add: wire_error_def exception_to_error_def exception_to_rpc_error_def Let_def split: prod.split)

section \<open>The contract of an endpoint\<close>

text \<open>
  A unary endpoint: \<open>answer\<close> is its method. It decodes the message, calls the handler with the context it
  makes of the message, and encodes the response; \<open>refuse\<close> is its answer to an exception.
\<close>

locale unary_endpoint =
  fixes decode :: "'q \<Rightarrow> exn + rpc_request"
    and context_for :: "'q \<Rightarrow> rpc_request \<Rightarrow> server_context option"
    and encode :: "'q \<Rightarrow> rpc_response \<Rightarrow> exn + 'p"
    and refuse :: "'q \<Rightarrow> exn \<Rightarrow> exn + 'p"
    and answer :: "'w request_handler \<Rightarrow> 'q \<Rightarrow> ('w, exn, 'p) comp"
  assumes answer_law:
    "answer h q = catching (refuse q) (and_then (of_value (decode q)) (\<lambda>r.
       and_then (rh_on_message h r (context_for q r)) (\<lambda>x. of_value (encode q x))))"
begin

lemma answers:
  assumes "decode q = Inr r" "rh_on_message h r (context_for q r) w = (Inr x, w1)" "encode q x = Inr p"
  shows "answer h q w = (Inr p, w1)"
proof -
  have "and_then (of_value (decode q)) (\<lambda>r. and_then (rh_on_message h r (context_for q r)) (\<lambda>x. of_value (encode q x))) w
      = (Inr p, w1)"
    using assms by (simp add: of_value_def)
  then show ?thesis by (simp add: answer_law)
qed

lemma undecodable:
  assumes "decode q = Inl e" "isinstance_exn e PyException"
  shows "answer h q w = (refuse q e, w)"
  using assms by (simp add: answer_law)

lemma handler_raises:
  assumes "decode q = Inr r" "rh_on_message h r (context_for q r) w = (Inl e, w1)" "isinstance_exn e PyException"
  shows "answer h q w = (refuse q e, w1)"
  using assms by (simp add: answer_law)

text \<open>Only what the handler does to the world is done, and only what is not an exception of Python escapes.\<close>

lemma world_of_handler:
  "snd (answer h q w) = (case decode q of Inl e \<Rightarrow> w | Inr r \<Rightarrow> snd (rh_on_message h r (context_for q r) w))"
  by (auto simp: answer_law catching_def and_then_def of_value_def split: sum.split prod.split)

lemma contained:
  assumes "\<And>e. isinstance_exn e PyException \<Longrightarrow> \<exists>p. refuse q e = Inr p"
    and "fst (answer h q w) = Inl e"
  shows "\<not> isinstance_exn e PyException"
  using assms(2) assms(1)
  by (auto simp: answer_law catching_def and_then_def of_value_def split: sum.splits prod.splits if_splits)
    (metis Inl_Inr_False assms(1))+

end

text \<open>A streaming endpoint relays the items it can encode, and ends the stream with its refusal.\<close>

locale stream_endpoint =
  fixes decode :: "'q \<Rightarrow> exn + rpc_request"
    and context_for :: "'q \<Rightarrow> rpc_request \<Rightarrow> server_context option"
    and encode :: "'q \<Rightarrow> rpc_response \<Rightarrow> exn + 'p"
    and refuse :: "'q \<Rightarrow> exn \<Rightarrow> exn + 'p"
    and relay :: "'w request_handler \<Rightarrow> 'q \<Rightarrow> 'w \<Rightarrow> 'p stream \<times> 'w"
  assumes relay_law:
    "relay h q w =
       (case decode q of
          Inl e \<Rightarrow> (catching_stream (refuse q) ([], Some e), w)
        | Inr r \<Rightarrow>
            (let (s, w1) = rh_on_stream h r (context_for q r) w in
             (catching_stream (refuse q) (map_until (encode q) (fst s) (snd s)), w1)))"
begin

lemma relays:
  assumes "decode q = Inr r" "rh_on_stream h r (context_for q r) w = ((xs, None), w1)"
    and "\<And>x. x \<in> set xs \<Longrightarrow> encode q x = Inr (g x)"
  shows "relay h q w = ((map g xs, None), w1)"
  using assms map_until_ok [of xs "encode q" g None] by (simp add: relay_law)

lemma relays_failure:
  assumes "decode q = Inr r" "rh_on_stream h r (context_for q r) w = ((xs, Some e), w1)"
    and "\<And>x. x \<in> set xs \<Longrightarrow> encode q x = Inr (g x)"
    and "isinstance_exn e PyException" "refuse q e = Inr p"
  shows "relay h q w = ((map g xs @ [p], None), w1)"
  using assms map_until_ok [of xs "encode q" g "Some e"] by (simp add: relay_law)

end

end
