(* ===== verification/Client_Calls.thy ===== *)
theory Client_Calls
  imports Endpoints
begin

text \<open>
  The client above its transports: contexts and the base client (\<open>client/midwares.py\<close>,
  \<open>client/base_client.py\<close>), credentials and the interceptor that adds them (\<open>client/auth/\<close>), call
  options (\<open>client/call_options.py\<close>), errors (\<open>client/errors.py\<close>), the factory with the connection
  pools (\<open>client/client_factory.py\<close>, \<open>client/pool.py\<close>), and the interface of a transport
  (\<open>client/transports/base.py\<close>).
\<close>

section \<open>Errors\<close>

definition client_error :: "string \<Rightarrow> exn_class" where
  "client_error name = Custom name (Custom ''ClientError'' PyException)"

text \<open>The code of an HTTP error is its status.\<close>

definition client_http_error :: "int \<Rightarrow> string \<Rightarrow> exn" where
  "client_http_error st msg = Exn (client_error ''ClientHTTPError'') st msg PNone None"

definition client_json_error :: "string \<Rightarrow> exn" where
  "client_json_error msg = Exn (client_error ''ClientJSONError'') 0 msg PNone None"

section \<open>Configuration and context\<close>

text \<open>A float is a rational, or \<open>None\<close> inside for infinities and not-a-number.\<close>

record client_config =
  cf_httpx_client :: "nat option"
  cf_channel_factory :: bool
  cf_transports :: "string list"
  cf_pooling :: bool
  cf_http_timeout :: "rat option option"
  cf_grpc_timeout :: "rat option option"

definition default_client_config :: client_config where
  "default_client_config =
     \<lparr>cf_httpx_client = None, cf_channel_factory = False, cf_transports = [], cf_pooling = True,
      cf_http_timeout = Some (Some 60), cf_grpc_timeout = Some (Some 60)\<rparr>"

text \<open>The state of a context, and the configuration object that is put into it under \<open>config\<close>.\<close>

record client_context =
  cc_state :: "(string, pyval) dict"
  cc_config :: "client_config option"

datatype security_scheme = SchemeAPIKey | SchemeOAuth2 | SchemeOpenIDConnect

definition security_to_original :: "pyval \<Rightarrow> exn + security_scheme" where
  "security_to_original v =
     (if v = PNone then Inr SchemeAPIKey
      else if v = PStr ''APIKey'' then Inr SchemeAPIKey
      else if v = PStr ''OAuth2'' then Inr SchemeOAuth2
      else if v = PStr ''OpenIDConnect'' then Inr SchemeOpenIDConnect
      else Inl (Exn ValueError 0 ''Unsupported security scheme'' PNone None))"

definition get_schema :: "client_context \<Rightarrow> exn + security_scheme" where
  "get_schema c = security_to_original (dict_get (cc_state c) ''security_schema'' PNone)"

definition get_session_id :: "client_context \<Rightarrow> pyval" where
  "get_session_id c = dict_get (cc_state c) ''session_id'' PNone"

text \<open>\<open>_prepare_context\<close>: any meta replaces the scheme the context had.\<close>

definition prepare_context :: "client_config \<Rightarrow> client_context option \<Rightarrow> (string, pyval) dict option \<Rightarrow> client_context" where
  "prepare_context cfg ctx meta =
     (let st = (case ctx of None \<Rightarrow> [] | Some c \<Rightarrow> cc_state c);
          m = (case meta of None \<Rightarrow> [] | Some d \<Rightarrow> d);
          kwargs = (case map_of m ''headers'' of
                      Some hs \<Rightarrow> PDict [(''headers'', hs)]
                    | None \<Rightarrow> dict_get st ''http_kwargs'' PNone);
          st1 = AList.update ''http_kwargs'' kwargs st;
          schema = (if m \<noteq> [] then dict_get m ''security_schema'' PNone else dict_get st1 ''security_schema'' PNone)
      in \<lparr>cc_state = AList.update ''security_schema'' schema st1, cc_config = Some cfg\<rparr>)"

section \<open>Credentials\<close>

text \<open>Sessions (\<open>None\<close> is one of them) to schemes to credentials.\<close>

type_synonym credential_store = "(pyval, (string, string) dict) dict"

definition scheme_name :: "security_scheme \<Rightarrow> string" where
  "scheme_name s = (case s of SchemeAPIKey \<Rightarrow> ''APIKey'' | SchemeOAuth2 \<Rightarrow> ''OAuth2'' | SchemeOpenIDConnect \<Rightarrow> ''OpenIDConnect'')"

definition get_credentials :: "string \<Rightarrow> pyval \<Rightarrow> credential_store \<Rightarrow> string option" where
  "get_credentials scheme session s = (case map_of s session of None \<Rightarrow> None | Some b \<Rightarrow> map_of b scheme)"

definition set_credentials :: "string \<Rightarrow> string \<Rightarrow> pyval \<Rightarrow> credential_store \<Rightarrow> credential_store" where
  "set_credentials scheme cred session s =
     AList.update session (AList.update scheme cred (dict_get s session [])) s"

text \<open>
  \<open>AuthInterceptor.intercept_request\<close> on the keyword arguments of the request. A context without a
  session raises \<open>KeyError\<close>; no credentials are written as \<open>None\<close>, which a bearer header has as a word.
\<close>

definition with_header :: "string \<Rightarrow> pyval \<Rightarrow> (string, pyval) dict \<Rightarrow> exn + (string, pyval) dict" where
  "with_header k v kwargs =
     (case dict_get kwargs ''headers'' (PDict []) of
        PDict hs \<Rightarrow> Inr (AList.update ''headers'' (PDict (AList.update k v hs)) kwargs)
      | _ \<Rightarrow> Inl (Exn TypeError 0 ''object does not support item assignment'' PNone None))"

definition auth_intercept ::
  "credential_store \<Rightarrow> client_context \<Rightarrow> security_scheme \<Rightarrow> (string, pyval) dict \<Rightarrow> exn + (string, pyval) dict" where
  "auth_intercept s c schema kwargs =
     (case map_of (cc_state c) ''session_id'' of
        None \<Rightarrow> Inl (Exn KeyError 0 ''session_id'' PNone None)
      | Some session \<Rightarrow>
          (let token = get_credentials (scheme_name schema) session s in
           case schema of
             SchemeAPIKey \<Rightarrow> with_header ''X-API-Key'' (case token of None \<Rightarrow> PNone | Some t \<Rightarrow> PStr t) kwargs
           | SchemeOAuth2 \<Rightarrow>
               with_header ''Authorization'' (PStr (''Bearer '' @ (case token of None \<Rightarrow> ''None'' | Some t \<Rightarrow> t))) kwargs
           | SchemeOpenIDConnect \<Rightarrow> Inl (Exn ValueError 0 ''Unsupported security scheme'' PNone None)))"

text \<open>
  A request interceptor takes and returns payload and keyword arguments; the scheme is looked up for each
  of them.
\<close>

type_synonym request_interceptor =
  "string \<Rightarrow> pyval \<times> (string, pyval) dict \<Rightarrow> client_context \<Rightarrow> security_scheme \<Rightarrow> exn + pyval \<times> (string, pyval) dict"

definition auth_interceptor :: "credential_store \<Rightarrow> request_interceptor" where
  "auth_interceptor s method pk c schema =
     bind_ok (auth_intercept s c schema (snd pk)) (\<lambda>kw. Inr (fst pk, kw))"

fun apply_interceptors ::
  "request_interceptor list \<Rightarrow> string \<Rightarrow> client_context \<Rightarrow> pyval \<times> (string, pyval) dict \<Rightarrow> exn + pyval \<times> (string, pyval) dict" where
  "apply_interceptors [] method c pk = Inr pk"
| "apply_interceptors (i # is) method c pk =
     bind_ok (get_schema c) (\<lambda>schema. bind_ok (i method pk c schema) (apply_interceptors is method c))"

definition http_args :: "client_context \<Rightarrow> (string, pyval) dict" where
  "http_args c = (case dict_get (cc_state c) ''http_kwargs'' PNone of PDict d \<Rightarrow> d | _ \<Rightarrow> [])"

section \<open>Timeouts\<close>

text \<open>\<open>float()\<close>; what a string denotes is a parameter, \<open>None\<close> stands for the exception.\<close>

definition py_float :: "(string \<Rightarrow> rat option option) \<Rightarrow> pyval \<Rightarrow> rat option option" where
  "py_float of_str v =
     (case v of
        PBool b \<Rightarrow> Some (Some (if b then 1 else 0))
      | PInt i \<Rightarrow> Some (Some (of_int i))
      | PFloat r \<Rightarrow> Some r
      | PStr s \<Rightarrow> of_str s
      | _ \<Rightarrow> None)"

definition present :: "(string, pyval) dict \<Rightarrow> string \<Rightarrow> pyval option" where
  "present d k = (case map_of d k of None \<Rightarrow> None | Some v \<Rightarrow> if v = PNone then None else Some v)"

definition resolve_timeout_s ::
  "(string \<Rightarrow> rat option option) \<Rightarrow> rat option option \<Rightarrow> (string, pyval) dict option \<Rightarrow> (string, pyval) dict option
     \<Rightarrow> rat option option" where
  "resolve_timeout_s of_str config meta kwargs =
     (let or_config = (\<lambda>x. case x of None \<Rightarrow> config | Some f \<Rightarrow> Some f);
          kw = (case kwargs of None \<Rightarrow> [] | Some d \<Rightarrow> d);
          m = (case meta of None \<Rightarrow> [] | Some d \<Rightarrow> d)
      in case present kw ''timeout'' of
           Some t \<Rightarrow> or_config (py_float of_str t)
         | None \<Rightarrow>
             (case present m ''timeout_ms'' of
                Some t \<Rightarrow> or_config (map_option (map_option (\<lambda>x. x / 1000)) (py_float of_str t))
              | None \<Rightarrow>
                  (case present m ''timeout_s'' of
                     Some t \<Rightarrow> or_config (py_float of_str t)
                   | None \<Rightarrow> config)))"

text \<open>
  What the HTTP transports take for the configured timeout: the attribute \<open>config\<close> of the context. The
  context has a state, in which the configuration is, and no such attribute. gRPC looks into the state.
\<close>

definition context_attributes :: "string list" where
  "context_attributes = [''state'', ''get_schema'', ''get_session_id'']"

definition http_config_timeout :: "client_context \<Rightarrow> rat option option" where
  "http_config_timeout c =
     (if ''config'' \<in> set context_attributes
      then (case cc_config c of None \<Rightarrow> None | Some cfg \<Rightarrow> cf_http_timeout cfg) else None)"

definition grpc_config_timeout :: "client_context \<Rightarrow> rat option option" where
  "grpc_config_timeout c = (case cc_config c of None \<Rightarrow> None | Some cfg \<Rightarrow> cf_grpc_timeout cfg)"

definition set_timeout :: "rat option option \<Rightarrow> (string, pyval) dict \<Rightarrow> (string, pyval) dict" where
  "set_timeout t kwargs = (case t of None \<Rightarrow> kwargs | Some f \<Rightarrow> AList.update ''timeout'' (PFloat f) kwargs)"

section \<open>HTTP\<close>

text \<open>What posting a payload comes to; a body of the other side has any type.\<close>

datatype 'j http_result =
  HttpOk 'j | ReadTimeout | HttpStatusError int string | BadJson string | NetworkError string

definition read_http :: "'j http_result \<Rightarrow> exn + 'j" where
  "read_http r =
     (case r of
        HttpOk j \<Rightarrow> Inr j
      | ReadTimeout \<Rightarrow> Inl (client_http_error 408 ''Client request timed out'')
      | HttpStatusError st msg \<Rightarrow> Inl (client_http_error st msg)
      | BadJson msg \<Rightarrow> Inl (client_json_error msg)
      | NetworkError msg \<Rightarrow> Inl (client_http_error 503 (''Network communication error: '' @ msg)))"

text \<open>The end of an event stream: an invalid event, an undecodable one, a broken connection, or none.\<close>

datatype sse_end = SseDone | SseError string | SseBadJson string | SseNetwork string

definition read_sse :: "'j list \<Rightarrow> sse_end \<Rightarrow> 'j stream" where
  "read_sse js end =
     (js, case end of
            SseDone \<Rightarrow> None
          | SseError msg \<Rightarrow> Some (client_http_error 400 (''Invalid SSE response or protocol error: '' @ msg))
          | SseBadJson msg \<Rightarrow> Some (client_json_error msg)
          | SseNetwork msg \<Rightarrow> Some (client_http_error 503 (''Network communication error: '' @ msg)))"

text \<open>The base URL of the HTTP transports.\<close>

definition transport_url :: "string option \<Rightarrow> exn + string" where
  "transport_url url =
     (case url of
        Some (c # cs) \<Rightarrow>
          (let u = (if last (c # cs) = CHR ''/'' then butlast (c # cs) else c # cs) in
           Inr (if ends_with u ''/aduib_rpc'' then u else u @ ''/aduib_rpc''))
      | _ \<Rightarrow> Inl (Exn ValueError 0 ''Must provide  url'' PNone None))"

section \<open>The interface of a transport\<close>

record 'w transport =
  tp_completion :: "rpc_request \<Rightarrow> client_context \<Rightarrow> ('w, exn, rpc_response) comp"
  tp_completion_stream :: "rpc_request \<Rightarrow> client_context \<Rightarrow> 'w \<Rightarrow> rpc_response stream \<times> 'w"
  tp_call :: "rpc_request \<Rightarrow> client_context \<Rightarrow> ('w, exn, rpc_response) comp"
  tp_server_stream :: "rpc_request \<Rightarrow> client_context \<Rightarrow> 'w \<Rightarrow> rpc_response stream \<times> 'w"
  tp_client_stream :: "rpc_request list \<Rightarrow> client_context \<Rightarrow> ('w, exn, rpc_response) comp"
  tp_bidirectional :: "rpc_request list \<Rightarrow> client_context \<Rightarrow> 'w \<Rightarrow> rpc_response stream \<times> 'w"

section \<open>The base client\<close>

definition base_call ::
  "client_config \<Rightarrow> 'w transport \<Rightarrow> rpc_request \<Rightarrow> client_context option \<Rightarrow> ('w, exn, rpc_response) comp" where
  "base_call cfg tp r ctx = tp_call tp r (prepare_context cfg ctx (rq_meta r))"

definition base_server_stream ::
  "client_config \<Rightarrow> 'w transport \<Rightarrow> rpc_request \<Rightarrow> client_context option \<Rightarrow> 'w \<Rightarrow> rpc_response stream \<times> 'w" where
  "base_server_stream cfg tp r ctx = tp_server_stream tp r (prepare_context cfg ctx (rq_meta r))"

definition base_client_stream ::
  "client_config \<Rightarrow> 'w transport \<Rightarrow> rpc_request list \<Rightarrow> client_context option \<Rightarrow> ('w, exn, rpc_response) comp" where
  "base_client_stream cfg tp rs ctx = tp_client_stream tp rs (prepare_context cfg ctx None)"

definition base_bidirectional ::
  "client_config \<Rightarrow> 'w transport \<Rightarrow> rpc_request list \<Rightarrow> client_context option \<Rightarrow> 'w \<Rightarrow> rpc_response stream \<times> 'w" where
  "base_bidirectional cfg tp rs ctx = tp_bidirectional tp rs (prepare_context cfg ctx None)"

text \<open>
  \<open>completion\<close> reads \<open>streaming\<close> of the configuration, first to write it into a meta that is not empty, then
  to choose between a call and a stream. The attributes of the configuration are its fields.
\<close>

definition config_attributes :: "string list" where
  "config_attributes =
     [''httpx_client'', ''grpc_channel_factory'', ''supported_transports'', ''pooling_enabled'',
      ''http_timeout'', ''grpc_timeout'']"

definition config_streaming :: "client_config \<Rightarrow> exn + bool" where
  "config_streaming cfg = (if ''streaming'' \<in> set config_attributes then Inr False else Inl (no_attribute ''streaming''))"

definition base_completion ::
  "client_config \<Rightarrow> 'w transport \<Rightarrow> string \<Rightarrow> string \<Rightarrow> string \<Rightarrow> pyval \<Rightarrow> (string, pyval) dict option
     \<Rightarrow> client_context option \<Rightarrow> 'w \<Rightarrow> rpc_response stream \<times> 'w" where
  "base_completion cfg tp uuid name method data meta ctx w =
     (let c = prepare_context cfg ctx meta;
          meta1 = (case meta of
                     Some (x # xs) \<Rightarrow>
                       bind_ok (config_streaming cfg) (\<lambda>b.
                         Inr (Some (AList.update ''stream'' (PStr (if b then ''true'' else ''false'')) (x # xs))))
                   | _ \<Rightarrow> Inr meta)
      in case bind_ok meta1 (\<lambda>m. bind_ok (new_request ''2.0'' (Some uuid) method (Some name) data None None None m) (\<lambda>r.
                bind_ok (config_streaming cfg) (\<lambda>b. Inr (r, b)))) of
           Inl e \<Rightarrow> (([], Some e), w)
         | Inr (r, True) \<Rightarrow> tp_completion_stream tp r c w
         | Inr (r, False) \<Rightarrow>
             (case tp_completion tp r c w of (Inl e, w1) \<Rightarrow> (([], Some e), w1) | (Inr x, w1) \<Rightarrow> (([x], None), w1)))"

section \<open>Connection pools and the factory\<close>

text \<open>
  A pool per kind: event loop, scheme and URL to a client; the fresh clients are numbered, with the timeout
  they were made with.
\<close>

record client_pool =
  cp_clients :: "(nat \<times> string \<times> string, nat) dict"
  cp_timeouts :: "rat option option list"

definition pool_get :: "nat \<Rightarrow> string \<Rightarrow> string \<Rightarrow> rat option option \<Rightarrow> client_pool \<Rightarrow> nat \<times> client_pool" where
  "pool_get loop scheme url timeout p =
     (case map_of (cp_clients p) (loop, scheme, url) of
        Some c \<Rightarrow> (c, p)
      | None \<Rightarrow>
          (let c = length (cp_timeouts p) in
           (c, p\<lparr>cp_clients := AList.update (loop, scheme, url) c (cp_clients p),
                 cp_timeouts := cp_timeouts p @ [timeout]\<rparr>)))"

text \<open>\<open>httpx.Timeout(config.http_timeout) if config.http_timeout else None\<close>.\<close>

definition httpx_timeout :: "client_config \<Rightarrow> rat option option" where
  "httpx_timeout cfg = (if cf_http_timeout cfg = Some (Some 0) then None else cf_http_timeout cfg)"

text \<open>The transports a configuration registers, and the choice of one for a server that prefers one.\<close>

definition registered_transports :: "client_config \<Rightarrow> string list" where
  "registered_transports cfg =
     (if ''jsonrpc'' \<in> set (cf_transports cfg) \<or> cf_transports cfg = [] then [''jsonrpc''] else [])
     @ filter (\<lambda>t. t \<in> set (cf_transports cfg)) [''http'', ''grpc'', ''thrift'']"

definition choose_transport :: "client_config \<Rightarrow> string \<Rightarrow> string \<Rightarrow> exn + string" where
  "choose_transport cfg url preferred =
     (let client_set = (if cf_transports cfg = [] then [''jsonrpc''] else cf_transports cfg) in
      if preferred \<notin> set client_set \<or> preferred = [] \<or> url = []
      then Inl (Exn ValueError 0 ''no compatible transports found.'' PNone None)
      else if preferred \<notin> set (registered_transports cfg)
      then Inl (Exn ValueError 0 (''no client available for '' @ preferred) PNone None)
      else Inr preferred)"

text \<open>The HTTP client of a transport: the caller's, the pool's, or a new one with the timeout.\<close>

datatype http_client = OwnClient nat | PoolClient nat | NewClient "rat option option"

definition http_client_for :: "client_config \<Rightarrow> nat \<Rightarrow> string \<Rightarrow> string \<Rightarrow> client_pool \<Rightarrow> http_client \<times> client_pool" where
  "http_client_for cfg loop scheme url p =
     (case cf_httpx_client cfg of
        Some c \<Rightarrow> (OwnClient c, p)
      | None \<Rightarrow>
          if cf_pooling cfg
          then (let (c, p1) = pool_get loop scheme url (httpx_timeout cfg) p in (PoolClient c, p1))
          else (NewClient (httpx_timeout cfg), p))"

text \<open>The timeout the client was made with; an own client's is its owner's affair.\<close>

definition client_timeout :: "client_pool \<Rightarrow> http_client \<Rightarrow> rat option option" where
  "client_timeout p c =
     (case c of OwnClient _ \<Rightarrow> None | PoolClient i \<Rightarrow> cp_timeouts p ! i | NewClient t \<Rightarrow> t)"

definition pool_ok :: "client_pool \<Rightarrow> bool" where
  "pool_ok p \<longleftrightarrow> (\<forall>k c. map_of (cp_clients p) k = Some c \<longrightarrow> c < length (cp_timeouts p))"

section \<open>Properties\<close>

lemma no_streaming [simp]: "config_streaming cfg = Inl (no_attribute ''streaming'')"
  by (simp add: config_streaming_def config_attributes_def)

text \<open>
  The method \<open>completion\<close> of the base client never sends anything: whatever
  the transport, the request and the configuration, its stream ends at once with an exception, an
  AttributeError when the payload is a dictionary or None, and the transport is not called.
\<close>

theorem completion_always_fails:
  "\<exists>e. base_completion cfg tp uuid name method data meta ctx w = (([], Some e), w)
     \<and> (\<forall>d. data = PNone \<or> data = PDict d \<longrightarrow> e = no_attribute ''streaming'')"
proof (cases "meta = None \<or> meta = Some []")
  case True
  then have m: "(case meta of Some (x # xs) \<Rightarrow>
      bind_ok (config_streaming cfg) (\<lambda>b. Inr (Some (AList.update ''stream'' (PStr (if b then ''true'' else ''false'')) (x # xs))))
    | _ \<Rightarrow> Inr meta) = Inr meta" by auto
  show ?thesis
  proof (cases "new_request ''2.0'' (Some uuid) method (Some name) data None None None meta")
    case (Inl e)
    moreover from this have "\<forall>d. data \<noteq> PNone \<and> data \<noteq> PDict d"
      by (auto simp: new_request_def validate_version_def validate_data_def)
    ultimately show ?thesis unfolding base_completion_def m by simp
  next
    case (Inr r)
    then show ?thesis unfolding base_completion_def m by simp
  qed
next
  case False
  then obtain x xs where "meta = Some (x # xs)" by (cases meta) (auto simp: neq_Nil_conv)
  then show ?thesis by (simp add: base_completion_def)
qed

text \<open>A transport that answers everything with one response.\<close>

definition echo_transport :: "rpc_response \<Rightarrow> nat transport" where
  "echo_transport x =
     \<lparr>tp_completion = (\<lambda>r c w. (Inr x, w + 1)), tp_completion_stream = (\<lambda>r c w. (([x], None), w + 1)),
      tp_call = (\<lambda>r c w. (Inr x, w + 1)), tp_server_stream = (\<lambda>r c w. (([x], None), w + 1)),
      tp_client_stream = (\<lambda>rs c w. (Inr x, w + 1)), tp_bidirectional = (\<lambda>rs c w. (([x], None), w + 1))\<rparr>"

theorem completion_always_fails_witness:
  "\<forall>x. base_completion default_client_config (echo_transport x) ''u1'' ''svc'' ''rpc.v2/svc/m'' (PDict [(''x'', PInt 1)]) None None 0
     = (([], Some (no_attribute ''streaming'')), 0)"
proof
  fix x
  show "base_completion default_client_config (echo_transport x) ''u1'' ''svc'' ''rpc.v2/svc/m'' (PDict [(''x'', PInt 1)]) None None 0
     = (([], Some (no_attribute ''streaming'')), 0)"
    using completion_always_fails [of default_client_config "echo_transport x" "''u1''" "''svc''" "''rpc.v2/svc/m''"
        "PDict [(''x'', PInt 1)]" None None 0] by auto
qed

text \<open>
  Metadata of a call silently replaces the security scheme the context was
  given: with any entry in it, and none for the scheme, a context set up for OAuth2 is used with the API-key
  scheme, so a session that has only a bearer token sends an empty API key in its place. Without metadata the
  token is sent.
\<close>

theorem meta_replaces_scheme:
  assumes "map_of (cc_state c) ''security_schema'' = Some (PStr ''OAuth2'')" "map_of (cc_state c) ''session_id'' = Some session"
    and "get_credentials ''OAuth2'' session s = Some token" "get_credentials ''APIKey'' session s = None"
    and "meta \<noteq> []" "map_of meta ''security_schema'' = None"
  shows "(\<exists>kw. apply_interceptors [auth_interceptor s] m (prepare_context cfg (Some c) (Some meta)) (p, []) = Inr (p, kw)
      \<and> map_of kw ''headers'' = Some (PDict [(''X-API-Key'', PNone)]))
    \<and> (\<exists>kw. apply_interceptors [auth_interceptor s] m (prepare_context cfg (Some c) None) (p, []) = Inr (p, kw)
      \<and> map_of kw ''headers'' = Some (PDict [(''Authorization'', PStr (''Bearer '' @ token))]))"
  using assms
  by (auto simp: auth_interceptor_def auth_intercept_def get_schema_def prepare_context_def security_to_original_def
      dict_get_def scheme_name_def with_header_def Let_def simp del: dict_opaque)

theorem meta_replaces_scheme_witness:
  "\<exists>kw. apply_interceptors [auth_interceptor [(PStr ''s1'', [(''OAuth2'', ''tok'')])]] ''svc/m''
      (prepare_context default_client_config
        (Some \<lparr>cc_state = [(''security_schema'', PStr ''OAuth2''), (''session_id'', PStr ''s1'')], cc_config = None\<rparr>)
        (Some [(''user'', PStr ''u1'')])) (PNone, []) = Inr (PNone, kw)
    \<and> map_of kw ''headers'' = Some (PDict [(''X-API-Key'', PNone)])"
  by (rule meta_replaces_scheme [where session = "PStr ''s1''" and token = "''tok''", THEN conjunct1])
    (simp_all add: get_credentials_def)

text \<open>The operations of a pool, and the timeout it was first asked to make a client with.\<close>

datatype pool_op = PoolGet "nat \<times> string \<times> string" "rat option option" | PoolCloseAll

definition pool_do :: "pool_op \<Rightarrow> client_pool \<Rightarrow> client_pool" where
  "pool_do op p =
     (case op of
        PoolGet k t \<Rightarrow> snd (pool_get (fst k) (fst (snd k)) (snd (snd k)) t p)
      | PoolCloseAll \<Rightarrow> p\<lparr>cp_clients := []\<rparr>)"

definition empty_pool :: client_pool where
  "empty_pool = \<lparr>cp_clients = [], cp_timeouts = []\<rparr>"

definition first_asked :: "nat \<times> string \<times> string \<Rightarrow> pool_op \<Rightarrow> rat option option option \<Rightarrow> rat option option option" where
  "first_asked k op acc =
     (case op of
        PoolGet k1 t \<Rightarrow> if k1 = k \<and> acc = None then Some t else acc
      | PoolCloseAll \<Rightarrow> None)"

lemma pool_get_ok [intro]: "pool_ok p \<Longrightarrow> pool_ok (snd (pool_get loop scheme url t p))"
  by (fastforce simp: pool_ok_def pool_get_def Let_def update_conv' split: option.splits if_splits)

lemma pool_get_timeout:
  assumes "pool_ok p"
  shows "map_option (\<lambda>c. cp_timeouts (snd (pool_get loop scheme url t p)) ! c)
      (map_of (cp_clients (snd (pool_get loop scheme url t p))) k)
    = first_asked k (PoolGet (loop, scheme, url) t) (map_option (\<lambda>c. cp_timeouts p ! c) (map_of (cp_clients p) k))"
proof (cases "map_of (cp_clients p) (loop, scheme, url)")
  case None
  have "c < length (cp_timeouts p)" if "map_of (cp_clients p) k = Some c" for c
    using assms that unfolding pool_ok_def by blast
  with None show ?thesis
    by (cases "map_of (cp_clients p) k") (auto simp: pool_get_def first_asked_def Let_def update_conv' nth_append)
next
  case (Some c)
  then show ?thesis by (auto simp: pool_get_def first_asked_def)
qed

lemma pool_run_timeouts:
  "pool_ok (fold pool_do ops empty_pool)
   \<and> map_option (\<lambda>c. cp_timeouts (fold pool_do ops empty_pool) ! c) (map_of (cp_clients (fold pool_do ops empty_pool)) k)
     = fold (first_asked k) ops None"
proof (induction ops rule: rev_induct)
  case Nil
  then show ?case by (simp add: pool_ok_def empty_pool_def)
next
  case (snoc op ops)
  then show ?case
  proof (cases op)
    case (PoolGet k1 t)
    with snoc show ?thesis
      by (cases k1) (simp add: pool_do_def pool_get_ok pool_get_timeout)
  next
    case PoolCloseAll
    with snoc show ?thesis by (simp add: pool_do_def pool_ok_def first_asked_def)
  qed
qed

text \<open>
  The pool of HTTP clients is keyed by loop, scheme and URL alone: after
  any sequence of requests for clients and of closings, a client is handed out with the timeout that was
  first asked for under its key since the pool was last closed, not with the one the configuration at hand has.
\<close>

theorem pool_keeps_first_timeout:
  "case pool_get loop scheme url t (fold pool_do ops empty_pool) of
     (c, p) \<Rightarrow> Some (client_timeout p (PoolClient c))
       = first_asked (loop, scheme, url) (PoolGet (loop, scheme, url) t) (fold (first_asked (loop, scheme, url)) ops None)"
proof -
  note run = pool_run_timeouts [of ops "(loop, scheme, url)"]
  obtain c p where g: "pool_get loop scheme url t (fold pool_do ops empty_pool) = (c, p)" by force
  then have "map_of (cp_clients p) (loop, scheme, url) = Some c"
    by (auto simp: pool_get_def Let_def update_conv' split: option.splits)
  with pool_get_timeout [OF run [THEN conjunct1], of loop scheme url t "(loop, scheme, url)"] run g
  show ?thesis by (simp add: client_timeout_def)
qed

end
