(* ===== verification/Telemetry.thy ===== *)
theory Telemetry
  imports Client_Calls Interceptor_Chain
begin

text \<open>
  Distributed tracing: the server's interceptor that opens a span for every request
  (\<open>server/interceptors/telemetry.py\<close>), the client's that sends the trace context
  (\<open>client/interceptors/otel_client.py\<close>), the same for gRPC metadata (\<open>telemetry/grpc_metadata.py\<close>) and the
  decorator for functions (\<open>telemetry/span_decorator.py\<close>). OpenTelemetry is outside the repository: that it is
  installed, what it reads from and writes to a carrier, and the context manager of a current span are parameters;
  of a span we keep what the code gives it.
\<close>

section \<open>Spans\<close>

record otel_span =
  sn_name :: string
  sn_context :: "(string, string) dict"
  sn_attributes :: "(string, pyval) dict"
  sn_status :: "(bool \<times> string) option"
  sn_recorded :: "exn list"
  sn_ends :: nat

type_synonym tracing = "otel_span list"

definition start_span :: "string \<Rightarrow> (string, string) dict \<Rightarrow> (string, pyval) dict \<Rightarrow> otel_span" where
  "start_span name parent attrs =
     \<lparr>sn_name = name, sn_context = parent, sn_attributes = attrs, sn_status = None, sn_recorded = [], sn_ends = 0\<rparr>"

text \<open>
  The request's state holds the span itself, here its number. \<open>to_str\<close> is \<open>str\<close> of a value and of an exception;
  \<open>from_carrier\<close> is \<open>propagate.extract\<close>.
\<close>

record otel_env =
  oe_installed :: bool
  oe_str :: "pyval \<Rightarrow> string"
  oe_exn_str :: "exn \<Rightarrow> string"
  oe_extract :: "(string, string) dict \<Rightarrow> (string, string) dict"

definition span_ref :: "nat \<Rightarrow> pyval" where
  "span_ref n = PEnum ''Span'' (PInt (int n))"

definition update_span :: "nat \<Rightarrow> (otel_span \<Rightarrow> otel_span) \<Rightarrow> tracing \<Rightarrow> tracing" where
  "update_span n g ss = (if n < length ss then ss[n := g (ss ! n)] else ss)"

section \<open>The server's interceptor\<close>

definition or_none :: "string option \<Rightarrow> pyval" where
  "or_none x = (case x of None \<Rightarrow> PNone | Some s \<Rightarrow> PStr s)"

definition request_carrier :: "otel_env \<Rightarrow> (string, pyval) dict \<Rightarrow> exn + (string, string) dict" where
  "request_carrier env st =
     (case map_of st ''headers'' of
        None \<Rightarrow> Inr []
      | Some (PDict d) \<Rightarrow> Inr (fold (\<lambda>(k, v). AList.update k (oe_str env v)) d [])
      | Some v \<Rightarrow> if py_truthy v then Inl (no_attribute ''items'') else Inr [])"

text \<open>Fields that are not there: an empty text when the object they belong to is missing, \<open>None\<close> when it is there.\<close>

definition span_attributes :: "rpc_request \<Rightarrow> (string, pyval) dict" where
  "span_attributes r =
     (let md = rq_metadata r; au = Option.bind md rm_auth; tc = rq_trace_context r in
      [(''rpc.method'', PStr (rq_method r)), (''rpc.request_id'', PStr (case rq_id r of None \<Rightarrow> [] | Some i \<Rightarrow> i)),
       (''rpc.system'', PStr ''aduib_rpc''), (''rpc.version'', PStr (rq_aduib_rpc r)),
       (''trace.id'', PStr (case tc of None \<Rightarrow> [] | Some t \<Rightarrow> tc_trace_id t)),
       (''span.id'', PStr (case tc of None \<Rightarrow> [] | Some t \<Rightarrow> tc_span_id t)),
       (''parent.span.id'', case tc of None \<Rightarrow> PStr [] | Some t \<Rightarrow> or_none (tc_parent_span_id t)),
       (''tenant.id'', case md of None \<Rightarrow> PStr [] | Some m \<Rightarrow> or_none (rm_tenant_id m)),
       (''enduser.id'', case au of None \<Rightarrow> PStr [] | Some a \<Rightarrow> or_none (ac_principal a)),
       (''enduser.roles'', PStr (case Option.bind au ac_roles of None \<Rightarrow> [] | Some rs \<Rightarrow> py_join (CHR '','') rs)),
       (''client_id'', case md of None \<Rightarrow> PStr [] | Some m \<Rightarrow> or_none (rm_client_id m)),
       (''client_version'', case md of None \<Rightarrow> PStr [] | Some m \<Rightarrow> or_none (rm_client_version m))])"

definition otel_enter ::
  "otel_env \<Rightarrow> tracing ctx \<Rightarrow> exn option \<times> (tracing stream_handler \<Rightarrow> tracing stream_handler) list \<times> tracing ctx" where
  "otel_enter env c =
     (if \<not> oe_installed env then (None, [], c)
      else
        (case request_carrier env (cx_state c) of
           Inl e \<Rightarrow> (Some e, [], c)
         | Inr carrier \<Rightarrow>
             (let sp = start_span (''rpc '' @ rq_method (cx_request c)) (oe_extract env carrier) (span_attributes (cx_request c))
              in (None, [], c\<lparr>cx_world := cx_world c @ [sp],
                              cx_state := AList.update ''otel_span'' (span_ref (length (cx_world c))) (cx_state c)\<rparr>))))"

definition finished_span :: "otel_env \<Rightarrow> response_status \<Rightarrow> exn option \<Rightarrow> otel_span \<Rightarrow> otel_span" where
  "finished_span env st err sp =
     (if st = ERROR then
        sp\<lparr>sn_status := Some (False, case err of None \<Rightarrow> ''error'' | Some e \<Rightarrow> oe_exn_str env e),
           sn_recorded := sn_recorded sp @ (case err of None \<Rightarrow> [] | Some e \<Rightarrow> [e]), sn_ends := Suc (sn_ends sp)\<rparr>
      else sp\<lparr>sn_status := Some (True, []), sn_ends := Suc (sn_ends sp)\<rparr>)"

text \<open>\<open>end_otel_span\<close>; ending does not raise, or what it raises is logged.\<close>

definition end_otel_span ::
  "otel_env \<Rightarrow> response_status \<Rightarrow> exn option \<Rightarrow> tracing ctx \<Rightarrow> tracing ctx" where
  "end_otel_span env st err c =
     (case map_of (cx_state c) ''otel_span'' of
        Some (PEnum k (PInt n)) \<Rightarrow>
          c\<lparr>cx_world := update_span (nat n) (finished_span env st err) (cx_world c),
            cx_state := AList.delete ''otel_span'' (cx_state c)\<rparr>
      | _ \<Rightarrow> c)"

definition otel_status :: "'w ctx \<Rightarrow> response_status" where
  "otel_status c =
     (case cx_response c of Some r \<Rightarrow> rs_status r | None \<Rightarrow> if cx_error c = None then SUCCESS else ERROR)"

definition otel_exit :: "otel_env \<Rightarrow> exn option \<Rightarrow> tracing ctx \<Rightarrow> exn option \<times> tracing ctx" where
  "otel_exit env exc c =
     (exc, if oe_installed env then end_otel_span env (otel_status c) (cx_error c) c else c)"

definition otel_interceptor :: "otel_env \<Rightarrow> tracing interceptor" where
  "otel_interceptor env = \<lparr>ic_order = 3, ic_enter = otel_enter env, ic_exit = otel_exit env\<rparr>"

section \<open>Clients\<close>

text \<open>\<open>inject\<close> is \<open>propagate.inject\<close> on the headers; the keyword arguments are copied.\<close>

definition otel_client_interceptor :: "bool \<Rightarrow> ((string, pyval) dict \<Rightarrow> (string, pyval) dict) \<Rightarrow> request_interceptor" where
  "otel_client_interceptor installed inject method pk c schema =
     (if \<not> installed then Inr pk
      else
        (case dict_get (snd pk) ''headers'' PNone of
           PDict hs \<Rightarrow> Inr (fst pk, AList.update ''headers'' (PDict (inject hs)) (snd pk))
         | v \<Rightarrow> if py_truthy v then Inl (Exn TypeError 0 ''object is not iterable'' PNone None)
                else Inr (fst pk, AList.update ''headers'' (PDict (inject [])) (snd pk))))"

definition inject_otel_to_grpc_metadata ::
  "bool \<Rightarrow> (string, string) dict \<Rightarrow> (string \<times> string) list \<Rightarrow> (string \<times> string) list" where
  "inject_otel_to_grpc_metadata installed injected md =
     (if installed then md @ map (\<lambda>(k, v). (py_lower k, v)) injected else md)"

text \<open>What the other side makes of metadata, for \<open>extract\<close>: a later entry replaces an earlier one of the same name.\<close>

definition grpc_carrier :: "(string \<times> string) list \<Rightarrow> (string, string) dict" where
  "grpc_carrier md = fold (\<lambda>(k, v). AList.update (py_lower k) v) md []"

definition otel_extract_from_grpc_metadata ::
  "bool \<Rightarrow> ((string, string) dict \<Rightarrow> (string, string) dict) \<Rightarrow> (string \<times> string) list option
     \<Rightarrow> (string, string) dict option" where
  "otel_extract_from_grpc_metadata installed extract md =
     (if installed then Some (extract (grpc_carrier (case md of None \<Rightarrow> [] | Some m \<Rightarrow> m))) else None)"

section \<open>The decorator\<close>

text \<open>
  \<open>leave\<close> is what the context manager of the current span does to it on leaving, with the exception that passes
  through it. Both wrappers of the code, for coroutines and for functions, do this.
\<close>

definition with_span ::
  "bool \<Rightarrow> (exn option \<Rightarrow> otel_span \<Rightarrow> otel_span) \<Rightarrow> string option \<Rightarrow> (string, pyval) dict \<Rightarrow> string \<Rightarrow> string
     \<Rightarrow> (tracing \<Rightarrow> (exn + 'a) \<times> tracing) \<Rightarrow> tracing \<Rightarrow> (exn + 'a) \<times> tracing" where
  "with_span installed leave name attrs func modname f ss =
     (if \<not> installed then f ss
      else
        (let span_name = (case name of Some (x # xs) \<Rightarrow> x # xs | _ \<Rightarrow> func);
             own = fold (\<lambda>(k, v). AList.update k v) attrs [(''code.function'', PStr func), (''code.namespace'', PStr modname)];
             n = length ss;
             (r, ss1) = f (ss @ [start_span span_name [] own])
         in case r of
              Inr v \<Rightarrow> (Inr v, update_span n (leave None) ss1)
            | Inl e \<Rightarrow>
                (Inl e, update_span n (leave (Some e))
                   (if isinstance_exn e PyException
                    then update_span n (\<lambda>sp. sp\<lparr>sn_recorded := sn_recorded sp @ [e],
                           sn_attributes := AList.update ''error'' (PBool True) (sn_attributes sp)\<rparr>) ss1
                    else ss1))))"

section \<open>Properties\<close>

text \<open>The span a request gets, and the context it goes on with.\<close>

definition request_span :: "otel_env \<Rightarrow> (string, string) dict \<Rightarrow> rpc_request \<Rightarrow> otel_span" where
  "request_span env carrier r = start_span (''rpc '' @ rq_method r) (oe_extract env carrier) (span_attributes r)"

definition traced :: "otel_env \<Rightarrow> (string, string) dict \<Rightarrow> tracing ctx \<Rightarrow> tracing ctx" where
  "traced env carrier c =
     c\<lparr>cx_world := cx_world c @ [request_span env carrier (cx_request c)],
       cx_state := AList.update ''otel_span'' (span_ref (length (cx_world c))) (cx_state c)\<rparr>"

lemma otel_enter_traced:
  "oe_installed env \<Longrightarrow> request_carrier env (cx_state c) = Inr carrier \<Longrightarrow> otel_enter env c = (None, [], traced env carrier c)"
  by (simp add: otel_enter_def traced_def request_span_def Let_def)

lemma otel_exit_ends:
  assumes "oe_installed env" "cx_world c = ss @ [sp]" "map_of (cx_state c) ''otel_span'' = Some (span_ref (length ss))"
  shows "otel_exit env exc c =
    (exc, c\<lparr>cx_world := ss @ [finished_span env (otel_status c) (cx_error c) sp],
            cx_state := AList.delete ''otel_span'' (cx_state c)\<rparr>)"
  using assms by (simp add: otel_exit_def end_otel_span_def span_ref_def update_span_def nth_append del: dict_opaque)

lemma finished_span_ends [simp]: "sn_ends (finished_span env st err sp) = Suc (sn_ends sp)"
  by (simp add: finished_span_def)

lemma nest_traced:
  assumes "oe_installed env" "\<not> cx_aborted c" "request_carrier env (cx_state c) = Inr carrier"
    and "nest is body ws (traced env carrier c) = ((rs, exc), c2)"
    and "cx_world c2 = cx_world (traced env carrier c)"
    and "map_of (cx_state c2) ''otel_span'' = map_of (cx_state (traced env carrier c)) ''otel_span''"
  shows "nest (otel_interceptor env # is) body ws c =
    ((rs, exc), c2\<lparr>cx_world := cx_world c @ [finished_span env (otel_status c2) (cx_error c2) (request_span env carrier (cx_request c))],
                  cx_state := AList.delete ''otel_span'' (cx_state c2)\<rparr>)"
proof -
  have "cx_aborted (traced env carrier c) = cx_aborted c" by (simp add: traced_def)
  moreover have "otel_exit env exc c2 = (exc, c2\<lparr>cx_world := cx_world c
      @ [finished_span env (otel_status c2) (cx_error c2) (request_span env carrier (cx_request c))],
      cx_state := AList.delete ''otel_span'' (cx_state c2)\<rparr>)"
    by (rule otel_exit_ends) (use assms(1,5,6) in \<open>simp_all add: traced_def\<close>)
  ultimately show ?thesis
    using assms(2,4) otel_enter_traced [OF assms(1,3)] by (simp add: otel_interceptor_def)
qed

text \<open>
  With tracing installed every request gets one span, which is ended exactly once whatever the
  interceptors after it and the handler do, with an error just when the response is one, or when there is none and
  the handler raised; responses and exceptions pass unchanged, and the request's state keeps nothing of it.
\<close>

theorem otel_span_closed:
  assumes "oe_installed env" "\<not> cx_aborted c" "request_carrier env (cx_state c) = Inr carrier"
    and "\<And>c1. cx_world (snd (nest is body ws c1)) = cx_world c1"
    and "\<And>c1. map_of (cx_state (snd (nest is body ws c1))) ''otel_span'' = map_of (cx_state c1) ''otel_span''"
  shows "\<exists>sp c2. nest is body ws (traced env carrier c) = (fst (nest is body ws (traced env carrier c)), c2)
    \<and> fst (nest (otel_interceptor env # is) body ws c) = fst (nest is body ws (traced env carrier c))
    \<and> cx_world (snd (nest (otel_interceptor env # is) body ws c)) = cx_world c @ [sp]
    \<and> sn_ends sp = 1 \<and> map_option fst (sn_status sp) = Some (otel_status c2 \<noteq> ERROR)
    \<and> map_of (cx_state (snd (nest (otel_interceptor env # is) body ws c))) ''otel_span'' = None"
proof -
  obtain rs exc c2 where n: "nest is body ws (traced env carrier c) = ((rs, exc), c2)" by (metis prod.collapse)
  have "nest (otel_interceptor env # is) body ws c =
    ((rs, exc), c2\<lparr>cx_world := cx_world c @ [finished_span env (otel_status c2) (cx_error c2) (request_span env carrier (cx_request c))],
                  cx_state := AList.delete ''otel_span'' (cx_state c2)\<rparr>)"
    by (rule nest_traced [OF assms(1-3) n]) (use assms(4,5) [of "traced env carrier c"] n in simp_all)
  then show ?thesis
    by (intro exI [of _ "finished_span env (otel_status c2) (cx_error c2) (request_span env carrier (cx_request c))"] exI [of _ c2])
      (simp add: n finished_span_def request_span_def start_span_def)
qed

definition sample_otel :: otel_env where
  "sample_otel = \<lparr>oe_installed = True, oe_str = (\<lambda>v. case v of PStr s \<Rightarrow> s | _ \<Rightarrow> []), oe_exn_str = exn_message, oe_extract = (\<lambda>d. d)\<rparr>"

definition traced_request :: rpc_request where
  "traced_request =
     \<lparr>rq_aduib_rpc = ''2.0'', rq_id = Some ''1'', rq_method = ''m'', rq_name = None, rq_data = None, rq_supported_versions = None,
      rq_trace_context = None, rq_metadata = None, rq_qos = None, rq_meta = None, rq_id_str = None\<rparr>"

definition otel_start :: "tracing ctx" where
  "otel_start = new_ctx traced_request [(''headers'', PDict [(''traceparent'', PStr ''00-1'')])] None [] False []"

lemma otel_start_fields [simp]:
  "oe_installed sample_otel" "cx_aborted otel_start = False" "cx_error otel_start = None" "cx_response otel_start = None"
  "cx_world otel_start = []" "request_carrier sample_otel (cx_state otel_start) = Inr [(''traceparent'', ''00-1'')]"
  by (simp_all add: otel_start_def new_ctx_def sample_otel_def request_carrier_def)

theorem otel_span_closed_witness:
  "\<exists>sp. cx_world (snd (nest [otel_interceptor sample_otel]
      (\<lambda>ws c. (([], Some (no_attribute ''y'')), c\<lparr>cx_error := Some (no_attribute ''y'')\<rparr>)) [] otel_start)) = [sp]
    \<and> sn_ends sp = 1 \<and> map_option fst (sn_status sp) = Some False"
  using otel_span_closed [of sample_otel otel_start "[(''traceparent'', ''00-1'')]" "[]"
      "\<lambda>ws c. (([], Some (no_attribute ''y'')), c\<lparr>cx_error := Some (no_attribute ''y'')\<rparr>)" "[]"]
  by (auto simp: otel_status_def traced_def)

text \<open>
  A request that a later interceptor turns away by raising gets a span with the status of a success.
\<close>

theorem otel_blind:
  assumes "oe_installed env" "\<not> cx_aborted c" "request_carrier env (cx_state c) = Inr carrier"
    and "cx_error c = None" "cx_response c = None" "\<And>c. ic_enter i c = (Some e, [], c)"
  shows "\<exists>sp. nest [otel_interceptor env, i] body ws c = (([], Some e), snd (nest [otel_interceptor env, i] body ws c))
    \<and> cx_world (snd (nest [otel_interceptor env, i] body ws c)) = cx_world c @ [sp] \<and> sn_status sp = Some (True, [])"
proof -
  have same: "cx_aborted (traced env carrier c) = cx_aborted c" "cx_error (traced env carrier c) = cx_error c"
    "cx_response (traced env carrier c) = cx_response c"
    by (simp_all add: traced_def)
  then have n: "nest [i] body ws (traced env carrier c) = (([], Some e), traced env carrier c)" using assms(2,6) by simp
  from nest_traced [OF assms(1-3) n refl refl] same assms(4,5) show ?thesis
    by (simp add: otel_status_def finished_span_def del: nest.simps)
qed

definition otel_refuses :: "tracing interceptor" where
  "otel_refuses = \<lparr>ic_order = 5, ic_enter = (\<lambda>c. (Some (no_attribute ''x''), [], c)), ic_exit = (\<lambda>exc c. (exc, c))\<rparr>"

theorem otel_blind_witness:
  "\<exists>sp. cx_world (snd (nest [otel_interceptor sample_otel, otel_refuses] (\<lambda>ws c. (([], None), c)) [] otel_start)) = [sp]
    \<and> sn_status sp = Some (True, [])"
  using otel_blind [of sample_otel otel_start "[(''traceparent'', ''00-1'')]" otel_refuses "no_attribute ''x''" "\<lambda>ws c. (([], None), c)" "[]"]
  by (auto simp: otel_refuses_def simp del: nest.simps)

section \<open>Trace context over gRPC\<close>

lemma lower_char_again: "lower_char (lower_char c) = lower_char c"
  by (simp add: lower_char_def ascii_code_def)

lemma py_lower_again: "py_lower (py_lower s) = py_lower s"
  by (simp add: py_lower_def lower_char_again)

lemma map_of_carrier_fold:
  "map_of (fold (\<lambda>(k, v). AList.update (py_lower k) v) md d) key =
     (case List.find (\<lambda>p. py_lower (fst p) = key) (rev md) of Some p \<Rightarrow> Some (snd p) | None \<Rightarrow> map_of d key)"
proof (induction md rule: rev_induct)
  case (snoc p md)
  then show ?case by (cases p) simp
qed simp

lemma find_append: "List.find P (xs @ ys) = (case List.find P xs of Some x \<Rightarrow> Some x | None \<Rightarrow> List.find P ys)"
  by (induction xs) auto

lemma find_lowered:
  "List.find (\<lambda>p. py_lower (fst p) = key) (map (\<lambda>(k, v). (py_lower k, v)) xs) =
     map_option (\<lambda>p. (py_lower (fst p), snd p)) (List.find (\<lambda>p. py_lower (fst p) = key) xs)"
  by (induction xs) (auto simp: py_lower_again)

text \<open>
  What the client injects is what the server extracts, whatever metadata the call had: of
  each name the injected value, the last one where names differ in case only, and of every other name what the
  metadata alone would give.
\<close>

theorem grpc_trace_round_trip:
  "map_of (grpc_carrier (inject_otel_to_grpc_metadata True injected md)) key =
     (case List.find (\<lambda>p. py_lower (fst p) = key) (rev injected) of
        Some p \<Rightarrow> Some (snd p)
      | None \<Rightarrow> map_of (grpc_carrier md) key)"
  by (simp add: grpc_carrier_def inject_otel_to_grpc_metadata_def map_of_carrier_fold find_append find_lowered
      rev_map split: option.split)

end
