(* ===== verification/Providers.thy ===== *)
theory Providers
  imports Runtime_Scopes
begin

text \<open>
  What an application is put together from: the search for a free port (\<open>utils/net_utils.py\<close>) and the addresses
  that rest on it (\<open>discover/service/service_factory.py\<close>, \<open>app.py\<close>), the factory of service registries
  (\<open>discover/registry/registry_factory.py\<close>), the provider of task managers (\<open>server/tasks/provider.py\<close>) and
  that of permissions (\<open>security/permission_provider.py\<close>). Whether a port can be bound, the machine's address and
  the constructors of registered classes are parameters.
\<close>

section \<open>Free ports\<close>

text \<open>
  The result and the number of ports tried. The loop is over the ports from \<open>start_port\<close> to \<open>max_port\<close>; for one that
  cannot be bound, the search is called again one past the start, its result is dropped and its exception is not.
\<close>

definition no_free_port :: exn where
  "no_free_port = Exn RuntimeError 0 ''no free port found'' PNone None"

function find_free_port :: "(int \<Rightarrow> bool) \<Rightarrow> int \<Rightarrow> int \<Rightarrow> (exn + int) \<times> nat"
  and try_ports :: "(int \<Rightarrow> bool) \<Rightarrow> int \<Rightarrow> int \<Rightarrow> int \<Rightarrow> (exn + int) \<times> nat" where
  "find_free_port free start m = (if start \<ge> m then (Inl no_free_port, 0) else try_ports free start start m)"
| "try_ports free start port m =
     (if port > m then (Inl no_free_port, 0)
      else if free port then (Inr port, 1)
      else
        (case find_free_port free (start + 1) m of
           (Inl e, n) \<Rightarrow> (Inl e, Suc n)
         | (Inr _, n) \<Rightarrow> (let (r, k) = try_ports free start (port + 1) m in (r, Suc (n + k)))))"
  by pat_completeness auto

termination
  by (relation "inv_image (less_than <*lex*> less_than)
        (\<lambda>x. case x of Inl (_, s, m) \<Rightarrow> (2 * nat (m - s), nat (m + 2 - s))
                     | Inr (_, s, p, m) \<Rightarrow> (max 1 (2 * nat (m - s)), nat (m + 1 - p)))") auto

declare find_free_port.simps [simp del] try_ports.simps [simp del]

text \<open>\<open>ip\<close> is what \<open>get_local_ip\<close> gives or raises.\<close>

definition get_ip_and_free_port ::
  "exn + string \<Rightarrow> (int \<Rightarrow> bool) \<Rightarrow> int \<Rightarrow> int \<Rightarrow> exn + string \<times> int" where
  "get_ip_and_free_port ip free start m =
     bind_ok ip (\<lambda>i. bind_ok (fst (find_free_port free start m)) (\<lambda>p. Inr (i, p)))"

definition allocate_host_port :: "exn + string \<Rightarrow> (int \<Rightarrow> bool) \<Rightarrow> string \<Rightarrow> int \<Rightarrow> exn + string \<times> int" where
  "allocate_host_port ip free host port =
     (if port \<noteq> 0 then Inr (host, port)
      else bind_ok (get_ip_and_free_port ip free 5002 6000) (\<lambda>(i, p). Inr (if host = [] then i else host, p)))"

text \<open>\<open>get_ip_port\<close> writes what it found to the instance.\<close>

definition get_ip_port ::
  "exn + string \<Rightarrow> (int \<Rightarrow> bool) \<Rightarrow> service_instance \<Rightarrow> exn + (string \<times> int) \<times> service_instance" where
  "get_ip_port ip free s =
     bind_ok (get_ip_and_free_port ip free 5002 6000) (\<lambda>(i, p).
       let s1 = (if i \<noteq> [] then s\<lparr>si_host := i\<rparr> else s);
           s2 = (if p \<noteq> 0 then s1\<lparr>si_port := p\<rparr> else s1)
       in Inr ((si_host s1, si_port s2), s2))"

section \<open>The factory of service registries\<close>

text \<open>
  A class is the parameters of its constructor but \<open>self\<close>, and the constructor on the arguments bound to them, which
  raises for one that is missing. Variadic parameters are not modelled.
\<close>

record 'r registry_class =
  rc_params :: "string list"
  rc_new :: "(string, pyval) dict \<Rightarrow> exn + 'r"

record 'r registry_factory =
  rf_classes :: "(string, 'r registry_class) dict"
  rf_instances :: "(string, 'r) dict"

definition register_registry :: "string \<Rightarrow> 'r registry_class \<Rightarrow> 'r registry_factory \<Rightarrow> 'r registry_factory" where
  "register_registry name k f = f\<lparr>rf_classes := AList.update name k (rf_classes f)\<rparr>"

text \<open>The decorator registers nothing without a name.\<close>

definition registry_decorator :: "string \<Rightarrow> 'r registry_class \<Rightarrow> 'r registry_factory \<Rightarrow> 'r registry_factory" where
  "registry_decorator name k f = (if name = [] then f else register_registry name k f)"

definition list_registries :: "'r registry_factory \<Rightarrow> 'r list" where
  "list_registries f = map snd (rf_instances f)"

text \<open>Keywords the signature has, and the positional arguments of the parameters no keyword names.\<close>

definition valid_kwargs :: "string list \<Rightarrow> (string, pyval) dict \<Rightarrow> (string, pyval) dict" where
  "valid_kwargs params kwargs = filter (\<lambda>p. fst p \<in> insert ''self'' (set params)) kwargs"

definition valid_args :: "string list \<Rightarrow> pyval list \<Rightarrow> (string, pyval) dict \<Rightarrow> pyval list" where
  "valid_args params args kwargs = map snd (filter (\<lambda>p. fst p \<notin> set (map fst kwargs)) (zip params args))"

text \<open>Python's call: positional arguments are bound from the first parameter on, a parameter given twice raises.\<close>

definition multiple_values :: exn where
  "multiple_values = Exn TypeError 0 ''got multiple values for argument'' PNone None"

definition bind_call :: "string list \<Rightarrow> pyval list \<Rightarrow> (string, pyval) dict \<Rightarrow> exn + (string, pyval) dict" where
  "bind_call params args kwargs =
     (if \<exists>p \<in> set (''self'' # take (length args) params). p \<in> set (map fst kwargs) then Inl multiple_values
      else Inr (zip params args @ kwargs))"

definition from_service_registry ::
  "string \<Rightarrow> pyval list \<Rightarrow> (string, pyval) dict \<Rightarrow> 'r registry_factory \<Rightarrow> (exn + 'r) \<times> 'r registry_factory" where
  "from_service_registry ty args kwargs f =
     (case map_of (rf_instances f) ty of
        Some r \<Rightarrow> (Inr r, f)
      | None \<Rightarrow>
          (case map_of (rf_classes f) ty of
             None \<Rightarrow> (Inl (Exn ValueError 0 (''Service registry '' @ ty @ '' not found.'') PNone None), f)
           | Some k \<Rightarrow>
               (let ks = valid_kwargs (rc_params k) kwargs; as = valid_args (rc_params k) args ks in
                case bind_ok (bind_call (rc_params k) as ks) (rc_new k) of
                  Inl e \<Rightarrow> (Inl e, f)
                | Inr r \<Rightarrow> (Inr r, f\<lparr>rf_instances := AList.update ty r (rf_instances f)\<rparr>))))"

section \<open>The provider of task managers\<close>

record ('t, 'k) task_provider =
  tp_classes :: "(string, 'k \<Rightarrow> exn + 't) dict"
  tp_instances :: "(string, 't) dict"

definition register_task_source_class ::
  "string \<Rightarrow> ('k \<Rightarrow> exn + 't) \<Rightarrow> ('t, 'k) task_provider \<Rightarrow> ('t, 'k) task_provider" where
  "register_task_source_class ty k p = p\<lparr>tp_classes := AList.update ty k (tp_classes p)\<rparr>"

definition task_manager_provider ::
  "string \<Rightarrow> ('k \<Rightarrow> exn + 't) \<Rightarrow> ('t, 'k) task_provider \<Rightarrow> exn option \<times> ('t, 'k) task_provider" where
  "task_manager_provider name k p =
     (if name = [] then (Some (Exn ValueError 0 ''Task manager provider name must be provided'' PNone None), p)
      else (None, register_task_source_class name k p))"

definition get_task_source_instance :: "string \<Rightarrow> ('t, 'k) task_provider \<Rightarrow> 't option" where
  "get_task_source_instance ty p = map_of (tp_instances p) ty"

definition from_task_source_instance ::
  "string \<Rightarrow> 'k \<Rightarrow> ('t, 'k) task_provider \<Rightarrow> (exn + 't) \<times> ('t, 'k) task_provider" where
  "from_task_source_instance ty kwargs p =
     (case map_of (tp_classes p) ty of
        None \<Rightarrow> (Inl (Exn ValueError 0 (''No task source class registered for '' @ ty) PNone None), p)
      | Some mk \<Rightarrow>
          (case mk kwargs of
             Inl e \<Rightarrow> (Inl e, p)
           | Inr t \<Rightarrow> (Inr t, p\<lparr>tp_instances := AList.update ty t (tp_instances p)\<rparr>)))"

section \<open>The provider of permissions\<close>

record permission_provider =
  pp_credentials_provider :: obj
  pp_token_validator :: obj
  pp_permission_validator :: obj
  pp_auth_scheme :: obj
  pp_security_scheme :: obj

text \<open>What it does to the runtime that is current; \<open>app\<close> is the application's own field.\<close>

definition apply_provider ::
  "permission_provider \<Rightarrow> permission_provider option \<times> 'f runtimes \<Rightarrow> permission_provider option \<times> 'f runtimes" where
  "apply_provider p = (\<lambda>(app, st).
     (Some p,
      on_scope (rt_current st) (\<lambda>sc. sc\<lparr>sp_auth_scheme := Some (pp_auth_scheme p), sp_security_scheme := Some (pp_security_scheme p)\<rparr>)
        (set_credentials_provider (Some (pp_credentials_provider p)) (rt_current st) st)))"

text \<open>Anything else than a provider, here \<open>None\<close>, raises.\<close>

definition set_permission_provider ::
  "permission_provider option \<Rightarrow> permission_provider option \<times> 'f runtimes
     \<Rightarrow> exn option \<times> permission_provider option \<times> 'f runtimes" where
  "set_permission_provider p w =
     (case p of
        None \<Rightarrow> (Some (Exn TypeError 0 ''provider must be a PermissionProvider'' PNone None), w)
      | Some p \<Rightarrow> (None, apply_provider p w))"

section \<open>The search for a port\<close>

text \<open>The number of tries when \<open>k\<close> ports are taken before the first free one.\<close>

fun port_tries :: "nat \<Rightarrow> nat" where
  "port_tries 0 = 1"
| "port_tries (Suc k) = Suc k * Suc (port_tries k) + 1"

definition first_free_after :: "(int \<Rightarrow> bool) \<Rightarrow> int \<Rightarrow> nat \<Rightarrow> bool" where
  "first_free_after free start k \<longleftrightarrow> free (start + int k) \<and> (\<forall>i < k. \<not> free (start + int i))"

lemma try_ports_found:
  assumes "first_free_after free start k" "start + int k < m" "j \<le> k"
    "k \<noteq> 0 \<Longrightarrow> find_free_port free (start + 1) m = (Inr (start + int k), n)"
  shows "try_ports free start (start + int (k - j)) m = (Inr (start + int k), j * Suc n + 1)"
  using assms(3)
proof (induction j)
  case 0
  then show ?case using assms(1,2) by (simp add: try_ports.simps [of _ _ "start + int k"] first_free_after_def)
next
  case (Suc j)
  then have "k - Suc j < k" by simp
  then have j: "k \<noteq> 0" "\<not> free (start + int (k - Suc j))"
    using assms(1) unfolding first_free_after_def by (linarith, blast)
  have next_port: "start + int (k - Suc j) + 1 = start + int (k - j)" using Suc.prems by simp
  have "\<not> start + int (k - Suc j) > m" using assms(2) by linarith
  with j Suc assms(4) show ?case
    by (simp only: try_ports.simps [of _ _ "start + int (k - Suc j)"] next_port) simp
qed

lemma find_free_port_found:
  "first_free_after free start k \<Longrightarrow> start + int k < m \<Longrightarrow> find_free_port free start m = (Inr (start + int k), port_tries k)"
proof (induction k arbitrary: start)
  case 0
  then show ?case using try_ports_found [of free start 0 m 0] by (simp add: find_free_port.simps)
next
  case (Suc k)
  have "first_free_after free (start + 1) k"
    using Suc.prems(1) by (auto simp: first_free_after_def algebra_simps dest: spec [of _ "Suc _"])
  then have "find_free_port free (start + 1) m = (Inr (start + int (Suc k)), port_tries k)"
    using Suc.IH [of "start + 1"] Suc.prems(2) by (simp add: algebra_simps)
  with Suc.prems show ?case
    using try_ports_found [of free start "Suc k" m "Suc k"] by (simp add: find_free_port.simps [of free start])
qed

lemma find_free_port_taken:
  "\<forall>p. start \<le> p \<and> p < m \<longrightarrow> \<not> free p \<Longrightarrow> find_free_port free start m = (Inl no_free_port, nat (m - start))"
proof (induction "nat (m - start)" arbitrary: start)
  case 0
  then show ?case by (simp add: find_free_port.simps)
next
  case (Suc n)
  then have "find_free_port free (start + 1) m = (Inl no_free_port, n)" by simp
  with Suc show ?case by (simp add: find_free_port.simps [of free start] try_ports.simps [of _ _ start])
qed

lemma find_upto_first:
  "List.find free [start..n] = Some p \<Longrightarrow> \<exists>k. p = start + int k \<and> first_free_after free start k \<and> p \<le> n"
proof (induction start n rule: upto.induct)
  case (1 i j)
  show ?case
  proof (cases "free i")
    case True
    with 1 have "p = i" "i \<le> j" by (auto simp: upto.simps [of i j] split: if_splits)
    with True show ?thesis by (intro exI [of _ 0]) (simp add: first_free_after_def)
  next
    case False
    with 1 have le: "i \<le> j" "List.find free [i + 1..j] = Some p" by (auto simp: upto.simps [of i j] split: if_splits)
    then obtain k where "p = i + 1 + int k" "first_free_after free (i + 1) k" "p \<le> j" using 1 by blast
    with False show ?thesis
      by (intro exI [of _ "Suc k"]) (auto simp: first_free_after_def algebra_simps less_Suc_eq_0_disj)
  qed
qed

text \<open>
  The nested search gives the first port that can be bound from the start up to, and never
  including, the maximum, and raises when there is none: the documented range's last port is never given.
\<close>

theorem find_free_port_first:
  "fst (find_free_port free start m) =
     (case List.find free [start..m - 1] of None \<Rightarrow> Inl no_free_port | Some p \<Rightarrow> Inr p)"
proof (cases "List.find free [start..m - 1]")
  case None
  then have "\<forall>p. start \<le> p \<and> p < m \<longrightarrow> \<not> free p" by (auto simp: find_None_iff)
  with None show ?thesis by (simp add: find_free_port_taken)
next
  case (Some p)
  then obtain k where "p = start + int k" "first_free_after free start k" "p \<le> m - 1"
    using find_upto_first by blast
  then show ?thesis using Some find_free_port_found [of free start k m] by simp
qed

lemma port_tries_fact: "fact k \<le> port_tries k"
proof (induction k)
  case (Suc k)
  then have "fact (Suc k) \<le> Suc k * Suc (port_tries k)" unfolding fact_Suc by (intro mult_le_mono) auto
  then show ?case by simp
qed simp

text \<open>
  When the first \<open>k\<close> ports are taken, the search tries at least \<open>k!\<close> ports before it gives the
  one after them.
\<close>

theorem port_search_cost:
  assumes "first_free_after free start k" "start + int k < m"
  shows "snd (find_free_port free start m) = port_tries k \<and> fact k \<le> port_tries k"
  using find_free_port_found [OF assms] port_tries_fact by simp

theorem port_search_cost_witness:
  "snd (find_free_port (\<lambda>p. 5006 \<le> p) 5002 6000) = 129 \<and> 24 \<le> port_tries 4"
proof -
  have "first_free_after (\<lambda>p. 5006 \<le> p) 5002 4" by (simp add: first_free_after_def)
  moreover have "port_tries 4 = 129" by (simp add: eval_nat_numeral)
  ultimately show ?thesis using port_search_cost [of "\<lambda>p. 5006 \<le> p" 5002 4 6000] by simp
qed

section \<open>What the factory passes on\<close>

lemma prefix_by_length: "ys = take n xs @ zs \<Longrightarrow> length ys = n \<Longrightarrow> n \<le> length xs \<Longrightarrow> ys = take n xs"
  by auto

lemma filter_prefix:
  assumes "length (filter P xs) = n" "\<forall>x \<in> set (take n xs). P x"
  shows "filter P xs = take n xs"
proof -
  have n: "n \<le> length xs" using length_filter_le [of P xs] assms(1) by simp
  have "filter P xs = filter P (take n xs) @ filter P (drop n xs)" by (simp flip: filter_append)
  also have "filter P (take n xs) = take n xs" using assms(2) by (rule filter_True)
  finally show ?thesis using assms(1) n by (rule prefix_by_length)
qed

text \<open>The parameters that get a value: by a keyword that the signature has, or by position.\<close>

lemma valid_args_positions:
  assumes "bind_call params (valid_args params args ks) ks = Inr b"
  shows "\<exists>n. valid_args params args ks = take n args \<and> b = zip params (take n args) @ ks
    \<and> (\<forall>i. i < length params \<and> i < length args \<and> params ! i \<notin> fst ` set ks \<longrightarrow> distinct params \<longrightarrow> i < n)"
proof -
  let ?P = "\<lambda>p. fst p \<notin> set (map fst ks)"
  obtain n where n: "length (filter ?P (zip params args)) = n" by blast
  then have len: "length (valid_args params args ks) = n" by (simp add: valid_args_def)
  have ok: "\<forall>p \<in> set (take n params). p \<notin> set (map fst ks)" and b: "b = zip params (valid_args params args ks) @ ks"
    using assms len by (auto simp: bind_call_def split: if_splits)
  have "fst x \<in> set (take n params)" if "x \<in> set (take n (zip params args))" for x
    using that by (metis take_zip prod.collapse set_zip_leftD)
  with ok have "\<forall>x \<in> set (take n (zip params args)). ?P x" by blast
  with n have f: "filter ?P (zip params args) = take n (zip params args)" by (rule filter_prefix)
  have le: "n \<le> length (zip params args)" using n length_filter_le [of ?P "zip params args"] by simp
  have "valid_args params args ks = map snd (take n (zip params args))" unfolding valid_args_def f ..
  also have "\<dots> = take n (map snd (zip params args))" by (rule take_map [symmetric])
  also have "\<dots> = take n args" using le by (simp add: map_snd_zip_take)
  finally have v: "valid_args params args ks = take n args" .
  have "i < n" if "i < length params" "i < length args" "params ! i \<notin> fst ` set ks" "distinct params" for i
  proof (rule ccontr)
    assume "\<not> i < n"
    have "(params ! i, args ! i) \<in> set (filter ?P (zip params args))"
      using that by (auto simp: in_set_conv_nth [of _ "zip params args"] intro!: exI [of _ i])
    then have "params ! i \<in> set (take n params)" unfolding f by (auto simp: take_zip dest: set_zip_leftD)
    with that \<open>\<not> i < n\<close> show False by (auto simp: in_set_conv_nth nth_eq_iff_index_eq)
  qed
  with v b show ?thesis by auto
qed

lemma map_of_filter_keys: "k \<in> K \<Longrightarrow> map_of (filter (\<lambda>p. fst p \<in> K) d) k = map_of d k"
  by (induction d) auto

lemma map_of_zip_index:
  "distinct ps \<Longrightarrow> i < length ps \<Longrightarrow> map_of (zip ps xs) (ps ! i) = (if i < length xs then Some (xs ! i) else None)"
proof (induction ps arbitrary: xs i)
  case (Cons p ps)
  then show ?case by (cases xs; cases i) (auto simp: nth_mem)
qed simp

text \<open>
  A call that constructs a registry gives every parameter its own value: the one of the keyword with
  its name, or else of the argument at its position, whatever other arguments and keywords are given. A call that
  would give it another raises instead.
\<close>

theorem registry_args:
  assumes "distinct params" "bind_call params (valid_args params args (valid_kwargs params kwargs)) (valid_kwargs params kwargs) = Inr b"
    "i < length params"
  shows "map_of b (params ! i) =
    (case map_of kwargs (params ! i) of Some v \<Rightarrow> Some v | None \<Rightarrow> if i < length args then Some (args ! i) else None)"
proof -
  let ?ks = "valid_kwargs params kwargs"
  obtain n where n: "valid_args params args ?ks = take n args" "b = zip params (take n args) @ ?ks"
    "\<forall>i. i < length params \<and> i < length args \<and> params ! i \<notin> fst ` set ?ks \<longrightarrow> distinct params \<longrightarrow> i < n"
    using valid_args_positions [OF assms(2)] by blast
  have ks: "map_of ?ks (params ! i) = map_of kwargs (params ! i)"
    unfolding valid_kwargs_def by (rule map_of_filter_keys) (use assms(3) in simp)
  have early: "params ! j \<notin> fst ` set ?ks" if "j < n" "j < length args" "j < length params" for j
    using assms(2) that by (auto simp: bind_call_def n(1) in_set_conv_nth split: if_splits)
  show ?thesis
  proof (cases "map_of kwargs (params ! i)")
    case (Some v)
    then have "params ! i \<in> fst ` set ?ks" using ks by (metis map_of_eq_None_iff option.distinct(1))
    then have "\<not> (i < n \<and> i < length args)" using early assms(3) by blast
    then have "map_of (zip params (take n args)) (params ! i) = None"
      using assms(1,3) by (auto simp: map_of_zip_index)
    with Some ks n(2) show ?thesis by (simp add: map_add_def)
  next
    case None
    then have "params ! i \<notin> fst ` set ?ks" using ks by (metis map_of_eq_None_iff)
    with n(3) assms(1,3) have "i < length args \<Longrightarrow> i < n" by blast
    with None ks n(2) assms(1,3) show ?thesis by (simp add: map_add_def map_of_zip_index)
  qed
qed

theorem registry_args_witness:
  "map_of [(''namespace'', PStr ''n''), (''policy'', PInt 2)] ''policy'' = Some (PInt 2)"
proof -
  let ?ks = "[(''policy'', PInt 2), (''verbose'', PBool True)]"
  have "bind_call [''namespace'', ''policy''] (valid_args [''namespace'', ''policy''] [PStr ''n''] (valid_kwargs [''namespace'', ''policy''] ?ks))
      (valid_kwargs [''namespace'', ''policy''] ?ks) = Inr [(''namespace'', PStr ''n''), (''policy'', PInt 2)]"
    by (simp add: bind_call_def valid_args_def valid_kwargs_def)
  from registry_args [OF _ this, of 1] show ?thesis by simp
qed

text \<open>Registries being registered and asked for, in any order.\<close>

inductive registry_step :: "'r registry_factory \<Rightarrow> 'r registry_factory \<Rightarrow> bool" where
  rs_register: "registry_step f (registry_decorator name k f)"
| rs_create: "registry_step f (snd (from_service_registry ty args kwargs f))"

lemma registry_step_keeps:
  "registry_step f g \<Longrightarrow> map_of (rf_instances f) ty = Some r \<Longrightarrow> map_of (rf_instances g) ty = Some r"
proof (induction rule: registry_step.induct)
  case (rs_register f name k)
  then show ?case by (simp add: registry_decorator_def register_registry_def)
next
  case (rs_create f ty' args kwargs)
  then show ?case
    by (cases "ty' = ty") (simp_all add: from_service_registry_def Let_def split: option.split sum.split)
qed

lemma from_service_registry_stores:
  "from_service_registry ty args kwargs f = (Inr r, g) \<Longrightarrow> map_of (rf_instances g) ty = Some r"
  by (auto simp: from_service_registry_def Let_def simp del: dict_opaque split: option.splits sum.splits)

text \<open>
  The registry that a type was first created as is the one given for that type ever after, with
  whatever arguments it is asked for and whatever is registered or created in between.
\<close>

theorem registry_kept:
  assumes "from_service_registry ty args kwargs f = (Inr r, g)" "registry_step\<^sup>*\<^sup>* g h"
  shows "from_service_registry ty args' kwargs' h = (Inr r, h)"
proof -
  have "map_of (rf_instances h) ty = Some r"
    using assms(2)
  proof (induction rule: rtranclp_induct)
    case base
    show ?case using assms(1) by (rule from_service_registry_stores)
  next
    case (step g h)
    then show ?case by (metis registry_step_keeps)
  qed
  then show ?thesis by (simp add: from_service_registry_def)
qed

definition sample_factory :: "pyval registry_factory" where
  "sample_factory =
     registry_decorator ''nacos'' \<lparr>rc_params = [''namespace''], rc_new = (\<lambda>d. Inr (dict_get d ''namespace'' (PStr ''public'')))\<rparr>
       \<lparr>rf_classes = [], rf_instances = []\<rparr>"

theorem registry_kept_witness:
  "fst (from_service_registry ''nacos'' [] [(''namespace'', PStr ''b'')]
      (snd (from_service_registry ''nacos'' [] [(''namespace'', PStr ''a'')] sample_factory))) = Inr (PStr ''a'')"
proof -
  have "from_service_registry ''nacos'' [] [(''namespace'', PStr ''a'')] sample_factory =
      (Inr (PStr ''a''), snd (from_service_registry ''nacos'' [] [(''namespace'', PStr ''a'')] sample_factory))"
    by (simp add: from_service_registry_def sample_factory_def registry_decorator_def register_registry_def
        valid_kwargs_def valid_args_def bind_call_def bind_ok_def dict_get_def)
  from registry_kept [OF this rtranclp.rtrancl_refl, of "[]" "[(''namespace'', PStr ''b'')]"] show ?thesis by simp
qed

section \<open>Providers and authentication\<close>

text \<open>
  The credentials of a permission provider are those of the calls made afterwards only when
  authentication was not enabled before: an interceptor that is there stays, with the provider it was made with.
\<close>

theorem provider_before_auth:
  assumes "rt_current st < length (rt_heap st)"
  shows "sp_interceptors (the_scope (enable_auth (rt_current st) (snd (apply_provider p (app, st)))) (rt_current st)) =
    (let is = sp_interceptors (the_scope st (rt_current st)) in
     if \<exists>i \<in> set is. is_auth i then is else is @ [AuthInterceptor (pp_credentials_provider p)])"
  using assms
  by (simp add: apply_provider_def enable_auth_def ensure_provider_def set_credentials_provider_def register_interceptor_def
      on_scope_def Let_def)

theorem provider_before_auth_witness:
  "sp_interceptors (the_scope (enable_auth 0 (snd (apply_provider
      \<lparr>pp_credentials_provider = 7, pp_token_validator = 1, pp_permission_validator = 2, pp_auth_scheme = 3, pp_security_scheme = 4\<rparr>
      (None, initial_runtimes :: nat runtimes)))) 0) = [AuthInterceptor 7]"
  using provider_before_auth [of "initial_runtimes :: nat runtimes"
      "\<lparr>pp_credentials_provider = 7, pp_token_validator = 1, pp_permission_validator = 2, pp_auth_scheme = 3, pp_security_scheme = 4\<rparr>" None]
  by (simp add: initial_runtimes_def new_scope_def)

end
