(* ===== verification/Health_Aware.thy ===== *)
theory Health_Aware
  imports Client_Calls Discovery Endpoints
begin

text \<open>
  Calls to healthy instances: the client transport that picks an instance for every call
  (\<open>client/transports/health_aware.py\<close>), the registry it may ask and its background loop
  (\<open>discover/registry/health_aware_registry.py\<close>), and the checker that calls a server's health service
  (\<open>discover/health/health_check.py\<close>). The registries' answers, the checks and the clock are what a call finds
  when it is made; the transports to the instances are parameters.
\<close>

section \<open>Refreshing and listing\<close>

definition is_stale :: "int \<Rightarrow> int \<Rightarrow> health_entry option \<Rightarrow> bool" where
  "is_stale ttl_ms now_ms e =
     (case Option.bind e he_last_check of None \<Rightarrow> True | Some r \<Rightarrow> now_ms - hr_checked_at_ms r \<ge> ttl_ms)"

text \<open>A check that raised counts as unhealthy for the transport; cancellation leaves the entry as it was.\<close>

definition failed_check :: "int \<Rightarrow> rat \<Rightarrow> string \<Rightarrow> health_result" where
  "failed_check now_ms latency msg =
     \<lparr>hr_status = UNHEALTHY, hr_latency_ms = latency, hr_message = Some msg, hr_checked_at_ms = now_ms\<rparr>"

record surroundings =
  su_now_ms :: int
  su_latency_ms :: rat
  su_show :: "int \<Rightarrow> string"
  su_registry :: "string \<Rightarrow> exn + service_instance list"
  su_base_registry :: "string \<Rightarrow> exn + service_instance list"
  su_check :: "service_instance \<Rightarrow> exn + health_result"
  su_registry_check :: "service_instance \<Rightarrow> exn + health_result"

definition own_check :: "surroundings \<Rightarrow> health_config \<Rightarrow> service_instance \<Rightarrow> health_cache \<Rightarrow> health_cache" where
  "own_check su cfg i c =
     (case su_check su i of
        Inr r \<Rightarrow> record_health cfg (si_instance_id i) i r c
      | Inl e \<Rightarrow>
          if isinstance_exn e PyException
          then record_health cfg (si_instance_id i) i (failed_check (su_now_ms su) (su_latency_ms su) (exn_message e)) c
          else c)"

text \<open>
  The instances that were stale when the call looked are checked (concurrently in the code, in the order of
  the list here).
\<close>

definition refresh_health_cache ::
  "surroundings \<Rightarrow> health_config \<Rightarrow> int \<Rightarrow> service_instance list \<Rightarrow> health_cache \<Rightarrow> health_cache" where
  "refresh_health_cache su cfg ttl_ms is cache =
     fold (own_check su cfg) (filter (\<lambda>i. is_stale ttl_ms (su_now_ms su) (map_of cache (si_instance_id i))) is) cache"

definition transport_instances ::
  "bool \<Rightarrow> health_cache \<Rightarrow> service_instance list \<Rightarrow> service_instance list" where
  "transport_instances allow cache is =
     healthy_or_all allow (\<lambda>i. is_cached_healthy (map_of cache (si_instance_id i))) is"

section \<open>The health-aware registry\<close>

record health_registry =
  hg_config :: health_config
  hg_allow :: bool
  hg_cache :: health_cache

text \<open>The registry's check passes an exception on and leaves the entry.\<close>

definition registry_check :: "surroundings \<Rightarrow> service_instance \<Rightarrow> health_registry \<Rightarrow> exn option \<times> health_registry" where
  "registry_check su i g =
     (case su_registry_check su i of
        Inl e \<Rightarrow> (Some e, g)
      | Inr r \<Rightarrow> (None, g\<lparr>hg_cache := record_health (hg_config g) (address_key (su_show su) i) i r (hg_cache g)\<rparr>))"

definition registry_healthy :: "surroundings \<Rightarrow> string \<Rightarrow> health_registry \<Rightarrow> exn + service_instance list" where
  "registry_healthy su name g =
     (case su_base_registry su name of
        Inl e \<Rightarrow> Inl e
      | Inr is \<Rightarrow> Inr (list_healthy_instances (su_show su) (hg_allow g) (hg_cache g) is))"

definition registry_discover :: "surroundings \<Rightarrow> string \<Rightarrow> health_registry \<Rightarrow> exn + service_instance option" where
  "registry_discover su name g =
     (case registry_healthy su name g of
        Inl e \<Rightarrow> Inl e
      | Inr [] \<Rightarrow> Inr None
      | Inr (i # _) \<Rightarrow> Inr (Some i))"

text \<open>\<open>_refresh_health_registry\<close>: exceptions are gathered and dropped, the age limit is the transport's.\<close>

definition refresh_health_registry :: "surroundings \<Rightarrow> int \<Rightarrow> service_instance list \<Rightarrow> health_registry \<Rightarrow> health_registry" where
  "refresh_health_registry su ttl_ms is g =
     fold (\<lambda>i g. snd (registry_check su i g))
       (filter (\<lambda>i. is_stale ttl_ms (su_now_ms su) (map_of (hg_cache g) (address_key (su_show su) i))) is) g"

text \<open>One pass of the loop: the services in turn, their instances in turn, until something is raised.\<close>

fun check_each :: "surroundings \<Rightarrow> service_instance list \<Rightarrow> health_registry \<Rightarrow> exn option \<times> health_registry" where
  "check_each su [] g = (None, g)"
| "check_each su (i # is) g =
     (case registry_check su i g of (Some e, g1) \<Rightarrow> (Some e, g1) | (None, g1) \<Rightarrow> check_each su is g1)"

fun check_services :: "surroundings \<Rightarrow> string list \<Rightarrow> health_registry \<Rightarrow> exn option \<times> health_registry" where
  "check_services su [] g = (None, g)"
| "check_services su (name # names) g =
     (case su_base_registry su name of
        Inl e \<Rightarrow> (Some e, g)
      | Inr is \<Rightarrow> (case check_each su is g of (Some e, g1) \<Rightarrow> (Some e, g1) | (None, g1) \<Rightarrow> check_services su names g1))"

datatype after_pass = SleepFor rat | LoopEnds

definition check_loop_pass :: "surroundings \<Rightarrow> string list \<Rightarrow> health_registry \<Rightarrow> after_pass \<times> health_registry" where
  "check_loop_pass su names g =
     (case check_services su names g of
        (None, g1) \<Rightarrow> (SleepFor (hc_interval_seconds (hg_config g)), g1)
      | (Some e, g1) \<Rightarrow> (if isinstance_exn e PyException then SleepFor 1 else LoopEnds, g1))"

section \<open>The transport\<close>

text \<open>\<open>'t\<close> is a transport to one address; caches are by instance identifier.\<close>

record 't health_transport =
  ha_factory :: "string \<Rightarrow> exn + 't"
  ha_default_url :: "string option"
  ha_instances :: "service_instance list option"
  ha_registry :: bool
  ha_health_registry :: "health_registry option"
  ha_checker :: bool
  ha_config :: health_config
  ha_cache_ttl_ms :: int
  ha_allow :: bool
  ha_balancer :: "(service_instance list \<Rightarrow> string option \<Rightarrow> service_instance option) option"
  ha_lb_key :: "string option"
  ha_cache :: health_cache
  ha_transports :: "(string, 't) dict"

definition new_health_transport ::
  "lb_lib \<Rightarrow> (string \<Rightarrow> exn + 't) \<Rightarrow> string option \<Rightarrow> service_instance list option \<Rightarrow> bool \<Rightarrow> health_registry option
     \<Rightarrow> bool \<Rightarrow> health_config option \<Rightarrow> rat option
     \<Rightarrow> (service_instance list \<Rightarrow> string option \<Rightarrow> service_instance option) option \<Rightarrow> lb_policy option \<Rightarrow> string option
     \<Rightarrow> bool \<Rightarrow> 't health_transport" where
  "new_health_transport lib factory default_url is registry hg checker cfg cache_ttl_s balancer policy lb_key allow =
     (let config = (case cfg of
                      Some c \<Rightarrow> c
                    | None \<Rightarrow> (case hg of Some g \<Rightarrow> hg_config g | None \<Rightarrow> default_health_config));
          ttl = (case cache_ttl_s of
                   Some t \<Rightarrow> if t \<noteq> 0 then t else hc_interval_seconds config
                 | None \<Rightarrow> hc_interval_seconds config)
      in \<lparr>ha_factory = factory, ha_default_url = default_url,
          ha_instances = (if is = Some [] then None else is), ha_registry = registry, ha_health_registry = hg,
          ha_checker = checker, ha_config = config, ha_cache_ttl_ms = py_trunc (ttl * 1000), ha_allow = allow,
          ha_balancer = (case balancer of Some b \<Rightarrow> Some b | None \<Rightarrow> map_option (select_instance lib) policy),
          ha_lb_key = lb_key, ha_cache = [], ha_transports = []\<rparr>)"

definition static_instances :: "'t health_transport \<Rightarrow> string option \<Rightarrow> service_instance list" where
  "static_instances t name =
     (case ha_instances t of
        None \<Rightarrow> []
      | Some is \<Rightarrow> (case name of None \<Rightarrow> is | Some n \<Rightarrow> filter (\<lambda>i. si_service_name i = n) is))"

definition known_instances :: "surroundings \<Rightarrow> 't health_transport \<Rightarrow> string option \<Rightarrow> exn + service_instance list" where
  "known_instances su t name =
     (case name of
        Some (c # cs) \<Rightarrow>
          if ha_registry t then su_registry su (c # cs)
          else if ha_health_registry t \<noteq> None then su_base_registry su (c # cs)
          else Inr (static_instances t name)
      | _ \<Rightarrow> Inr (static_instances t name))"

text \<open>\<open>_list_healthy_instances\<close>.\<close>

definition healthy_instances ::
  "surroundings \<Rightarrow> 't health_transport \<Rightarrow> string option \<Rightarrow> (exn + service_instance list) \<times> 't health_transport" where
  "healthy_instances su t name =
     (case known_instances su t name of
        Inl e \<Rightarrow> (Inl e, t)
      | Inr is \<Rightarrow>
          (case ha_health_registry t of
             Some g \<Rightarrow>
               (let g1 = (if is = [] then g else refresh_health_registry su (ha_cache_ttl_ms t) is g);
                    t1 = t\<lparr>ha_health_registry := Some g1\<rparr>
                in case registry_healthy su (case name of None \<Rightarrow> [] | Some n \<Rightarrow> n) g1 of
                     Inl e \<Rightarrow> (Inl e, t1)
                   | Inr healthy \<Rightarrow>
                       (Inr (if healthy \<noteq> [] then healthy else if ha_allow t \<and> is \<noteq> [] then is else []), t1))
           | None \<Rightarrow>
               if is = [] \<or> \<not> ha_checker t then (Inr is, t)
               else (let c = refresh_health_cache su (ha_config t) (ha_cache_ttl_ms t) is (ha_cache t)
                     in (Inr (transport_instances (ha_allow t) c is), t\<lparr>ha_cache := c\<rparr>))))"

definition transport_for ::
  "'t health_transport \<Rightarrow> string \<Rightarrow> string \<Rightarrow> (exn + 't) \<times> 't health_transport" where
  "transport_for t url key =
     (case map_of (ha_transports t) key of
        Some tp \<Rightarrow> (Inr tp, t)
      | None \<Rightarrow>
          (case ha_factory t url of
             Inl e \<Rightarrow> (Inl e, t)
           | Inr tp \<Rightarrow> (Inr tp, t\<lparr>ha_transports := AList.update key tp (ha_transports t)\<rparr>)))"

definition transport_for_instance ::
  "surroundings \<Rightarrow> 't health_transport \<Rightarrow> service_instance \<Rightarrow> (exn + 't) \<times> 't health_transport" where
  "transport_for_instance su t i = transport_for t (instance_url (su_show su) i) (si_instance_id i)"

definition no_instance :: exn where
  "no_instance = Exn ValueError 0 ''No healthy instance available and no default_url configured.'' PNone None"

definition default_transport :: "'t health_transport \<Rightarrow> (exn + 't) \<times> 't health_transport" where
  "default_transport t =
     (case ha_default_url t of
        Some (c # cs) \<Rightarrow> transport_for t (c # cs) ''__default__''
      | _ \<Rightarrow> (Inl no_instance, t))"

text \<open>The balancer may answer with no instance (all weights zero).\<close>

definition balanced :: "'t health_transport \<Rightarrow> service_instance list \<Rightarrow> service_instance option" where
  "balanced t is =
     (case is of
        [] \<Rightarrow> None
      | i # _ \<Rightarrow> (case ha_balancer t of None \<Rightarrow> Some i | Some select \<Rightarrow> select is (ha_lb_key t)))"

text \<open>\<open>_select_transport\<close>, for calls, and \<open>_select_transport_for_service\<close>, for tasks and health.\<close>

definition select_transport ::
  "surroundings \<Rightarrow> 't health_transport \<Rightarrow> string option \<Rightarrow> (exn + 't) \<times> 't health_transport" where
  "select_transport su t name =
     (case healthy_instances su t name of
        (Inl e, t1) \<Rightarrow> (Inl e, t1)
      | (Inr is, t1) \<Rightarrow>
          (case balanced t1 is of None \<Rightarrow> default_transport t1 | Some i \<Rightarrow> transport_for_instance su t1 i))"

definition select_transport_for_service ::
  "surroundings \<Rightarrow> 't health_transport \<Rightarrow> string option \<Rightarrow> (exn + 't) \<times> 't health_transport" where
  "select_transport_for_service su t name =
     (case healthy_instances su t name of
        (Inl e, t1) \<Rightarrow> (Inl e, t1)
      | (Inr [], t1) \<Rightarrow> default_transport t1
      | (Inr (i # is), t1) \<Rightarrow>
          (case balanced t1 (i # is) of
             None \<Rightarrow> (Inl (no_attribute ''instance_id''), t1)
           | Some j \<Rightarrow> transport_for_instance su t1 j))"

section \<open>Forwarding\<close>

text \<open>The transport to an address, with the calls for tasks and health.\<close>

record 'w full_transport = "'w transport" +
  tp_submit :: "task_submit_request \<Rightarrow> client_context \<Rightarrow> ('w, exn, task_submit_response) comp"
  tp_query :: "string \<Rightarrow> client_context \<Rightarrow> ('w, exn, task_record) comp"
  tp_cancel :: "task_cancel_request \<Rightarrow> client_context \<Rightarrow> ('w, exn, string \<times> task_status \<times> bool) comp"
  tp_subscribe :: "task_subscribe_request \<Rightarrow> client_context \<Rightarrow> 'w \<Rightarrow> wire_task_event stream \<times> 'w"
  tp_check :: "string option \<Rightarrow> client_context \<Rightarrow> ('w, exn, health_check_response) comp"
  tp_watch :: "string option \<Rightarrow> client_context \<Rightarrow> 'w \<Rightarrow> health_check_response stream \<times> 'w"

type_synonym 'w routed = "'w full_transport health_transport \<times> 'w"

definition forward ::
  "(exn + 't) \<times> 't health_transport \<Rightarrow> ('t \<Rightarrow> ('w, exn, 'a) comp) \<Rightarrow> 'w \<Rightarrow> (exn + 'a) \<times> 't health_transport \<times> 'w" where
  "forward sel f w =
     (case fst sel of
        Inl e \<Rightarrow> (Inl e, snd sel, w)
      | Inr tp \<Rightarrow> (case f tp w of (r, w1) \<Rightarrow> (r, snd sel, w1)))"

definition forward_stream ::
  "(exn + 't) \<times> 't health_transport \<Rightarrow> ('t \<Rightarrow> 'w \<Rightarrow> 'a stream \<times> 'w) \<Rightarrow> 'w \<Rightarrow> 'a stream \<times> 't health_transport \<times> 'w" where
  "forward_stream sel f w =
     (case fst sel of
        Inl e \<Rightarrow> (([], Some e), snd sel, w)
      | Inr tp \<Rightarrow> (case f tp w of (r, w1) \<Rightarrow> (r, snd sel, w1)))"

definition empty_stream_error :: exn where
  "empty_stream_error = Exn ValueError 0 ''request stream is empty'' PNone None"

definition ha_call :: "surroundings \<Rightarrow> rpc_request \<Rightarrow> client_context \<Rightarrow> ('w routed, exn, rpc_response) comp" where
  "ha_call su r c = (\<lambda>(t, w). forward (select_transport su t (rq_name r)) (\<lambda>tp. tp_call tp r c) w)"

definition ha_completion :: "surroundings \<Rightarrow> rpc_request \<Rightarrow> client_context \<Rightarrow> ('w routed, exn, rpc_response) comp" where
  "ha_completion su r c = (\<lambda>(t, w). forward (select_transport su t (rq_name r)) (\<lambda>tp. tp_completion tp r c) w)"

definition ha_completion_stream :: "surroundings \<Rightarrow> rpc_request \<Rightarrow> client_context \<Rightarrow> 'w routed \<Rightarrow> rpc_response stream \<times> 'w routed" where
  "ha_completion_stream su r c =
     (\<lambda>(t, w). forward_stream (select_transport su t (rq_name r)) (\<lambda>tp. tp_completion_stream tp r c) w)"

definition ha_server_stream :: "surroundings \<Rightarrow> rpc_request \<Rightarrow> client_context \<Rightarrow> 'w routed \<Rightarrow> rpc_response stream \<times> 'w routed" where
  "ha_server_stream su r c =
     (\<lambda>(t, w). forward_stream (select_transport su t (rq_name r)) (\<lambda>tp. tp_server_stream tp r c) w)"

text \<open>The first request of a stream chooses the instance; then all are replayed.\<close>

definition ha_client_stream :: "surroundings \<Rightarrow> rpc_request list \<Rightarrow> client_context \<Rightarrow> ('w routed, exn, rpc_response) comp" where
  "ha_client_stream su rs c =
     (\<lambda>(t, w). case rs of
        [] \<Rightarrow> (Inl empty_stream_error, t, w)
      | r # _ \<Rightarrow> forward (select_transport su t (rq_name r)) (\<lambda>tp. tp_client_stream tp rs c) w)"

definition ha_bidirectional :: "surroundings \<Rightarrow> rpc_request list \<Rightarrow> client_context \<Rightarrow> 'w routed \<Rightarrow> rpc_response stream \<times> 'w routed" where
  "ha_bidirectional su rs c =
     (\<lambda>(t, w). case rs of
        [] \<Rightarrow> (([], Some empty_stream_error), t, w)
      | r # _ \<Rightarrow> forward_stream (select_transport su t (rq_name r)) (\<lambda>tp. tp_bidirectional tp rs c) w)"

definition health_aware_transport :: "surroundings \<Rightarrow> 'w routed transport" where
  "health_aware_transport su =
     \<lparr>tp_completion = ha_completion su, tp_completion_stream = ha_completion_stream su, tp_call = ha_call su,
      tp_server_stream = ha_server_stream su, tp_client_stream = ha_client_stream su,
      tp_bidirectional = ha_bidirectional su\<rparr>"

text \<open>Requests about tasks are asked for a service under two names; these are their fields.\<close>

definition query_fields :: "string \<Rightarrow> (string, pyval) dict" where
  "query_fields tid = [(''task_id'', PStr tid)]"

definition cancel_fields :: "task_cancel_request \<Rightarrow> (string, pyval) dict" where
  "cancel_fields c = [(''task_id'', PStr (tcr_task_id c)), (''reason'', case tcr_reason c of None \<Rightarrow> PNone | Some r \<Rightarrow> PStr r)]"

definition subscribe_fields :: "task_subscribe_request \<Rightarrow> (string, pyval) dict" where
  "subscribe_fields s =
     [(''task_id'', PStr (tbr_task_id s)), (''events'', case tbr_events s of None \<Rightarrow> PNone | Some es \<Rightarrow> PList (map PStr es))]"

definition service_name_from_task_request :: "(string, pyval) dict \<Rightarrow> string option" where
  "service_name_from_task_request d =
     (let s = dict_get d ''service'' PNone;
          n = (if py_truthy s then s else dict_get d ''service_name'' PNone)
      in case n of PStr x \<Rightarrow> Some x | _ \<Rightarrow> None)"

definition submit_service :: "task_submit_request \<Rightarrow> string option" where
  "submit_service s =
     (case parse_compat (Some (tsr_target_method s)) of Inl _ \<Rightarrow> None | Inr m \<Rightarrow> Some (mn_service m))"

definition ha_submit :: "surroundings \<Rightarrow> task_submit_request \<Rightarrow> client_context \<Rightarrow> ('w routed, exn, task_submit_response) comp" where
  "ha_submit su s c = (\<lambda>(t, w). forward (select_transport_for_service su t (submit_service s)) (\<lambda>tp. tp_submit tp s c) w)"

definition ha_query :: "surroundings \<Rightarrow> string \<Rightarrow> client_context \<Rightarrow> ('w routed, exn, task_record) comp" where
  "ha_query su tid c =
     (\<lambda>(t, w). forward (select_transport_for_service su t (service_name_from_task_request (query_fields tid)))
       (\<lambda>tp. tp_query tp tid c) w)"

definition ha_cancel :: "surroundings \<Rightarrow> task_cancel_request \<Rightarrow> client_context \<Rightarrow> ('w routed, exn, string \<times> task_status \<times> bool) comp" where
  "ha_cancel su r c =
     (\<lambda>(t, w). forward (select_transport_for_service su t (service_name_from_task_request (cancel_fields r)))
       (\<lambda>tp. tp_cancel tp r c) w)"

definition ha_subscribe :: "surroundings \<Rightarrow> task_subscribe_request \<Rightarrow> client_context \<Rightarrow> 'w routed \<Rightarrow> wire_task_event stream \<times> 'w routed" where
  "ha_subscribe su r c =
     (\<lambda>(t, w). forward_stream (select_transport_for_service su t (service_name_from_task_request (subscribe_fields r)))
       (\<lambda>tp. tp_subscribe tp r c) w)"

definition ha_check :: "surroundings \<Rightarrow> string option \<Rightarrow> client_context \<Rightarrow> ('w routed, exn, health_check_response) comp" where
  "ha_check su service c = (\<lambda>(t, w). forward (select_transport_for_service su t service) (\<lambda>tp. tp_check tp service c) w)"

definition ha_watch :: "surroundings \<Rightarrow> string option \<Rightarrow> client_context \<Rightarrow> 'w routed \<Rightarrow> health_check_response stream \<times> 'w routed" where
  "ha_watch su service c =
     (\<lambda>(t, w). forward_stream (select_transport_for_service su t service) (\<lambda>tp. tp_watch tp service c) w)"

section \<open>The default checker\<close>

text \<open>\<open>'c\<close> is a client; the factory may be missing. \<open>dc_health\<close> is the status in the server's answer, if it has one.\<close>

record 'c checker_env =
  dc_factory :: "(string \<Rightarrow> Discovery.transport_scheme \<Rightarrow> exn + 'c) option"
  dc_create_client :: "string \<Rightarrow> Discovery.transport_scheme \<Rightarrow> exn + 'c"
  dc_health :: "'c \<Rightarrow> string option \<Rightarrow> exn + pyval"
  dc_str :: "pyval \<Rightarrow> string"
  dc_show :: "int \<Rightarrow> string"

definition to_health_status :: "string \<Rightarrow> health_status" where
  "to_health_status v =
     (case List.find (\<lambda>h. health_status_name h = v) [HEALTHY, UNHEALTHY, DEGRADED, UNKNOWN] of
        Some h \<Rightarrow> h
      | None \<Rightarrow> UNKNOWN)"

definition checker_client ::
  "'c checker_env \<Rightarrow> service_instance \<Rightarrow> (string, 'c) dict \<Rightarrow> (exn + 'c) \<times> (string, 'c) dict" where
  "checker_client env i clients =
     (let url = instance_url (dc_show env) i;
          key = (if si_instance_id i \<noteq> [] then si_instance_id i else url)
      in case map_of clients key of
           Some c \<Rightarrow> (Inr c, clients)
         | None \<Rightarrow>
             (let made = (case dc_factory env of
                            None \<Rightarrow> Inl (no_attribute ''create'')
                          | Some create \<Rightarrow> create url (si_scheme i));
                  got = (case made of
                           Inr c \<Rightarrow> Inr c
                         | Inl e \<Rightarrow>
                             if isinstance_exn e PyException \<and> si_scheme i \<in> {GRPC, GRPCS}
                             then dc_create_client env url GRPC else Inl e)
              in case got of Inl e \<Rightarrow> (Inl e, clients) | Inr c \<Rightarrow> (Inr c, AList.update key c clients)))"

definition status_of_answer :: "'c checker_env \<Rightarrow> pyval \<Rightarrow> health_status" where
  "status_of_answer env raw =
     (let v = getattr_value raw in to_health_status (if v = PNone then [] else py_lower (dc_str env v)))"

definition default_check ::
  "'c checker_env \<Rightarrow> int \<Rightarrow> rat \<Rightarrow> service_instance \<Rightarrow> (string, 'c) dict \<Rightarrow> (exn + health_result) \<times> (string, 'c) dict" where
  "default_check env now_ms latency i clients =
     (let failed = (\<lambda>e. if isinstance_exn e PyException then Inr (failed_check now_ms latency (exn_message e)) else Inl e) in
      case checker_client env i clients of
        (Inl e, cs) \<Rightarrow> (failed e, cs)
      | (Inr c, cs) \<Rightarrow>
          (case dc_health env c (if si_service_name i \<noteq> [] then Some (si_service_name i) else None) of
             Inl e \<Rightarrow> (failed e, cs)
           | Inr raw \<Rightarrow>
               (Inr \<lparr>hr_status = status_of_answer env raw, hr_latency_ms = latency, hr_message = None,
                     hr_checked_at_ms = now_ms\<rparr>, cs)))"

section \<open>Runs of equal checks\<close>

text \<open>The last \<open>n\<close> checks all satisfy \<open>P\<close>; some \<open>n\<close> in a row do; and what a status should be after checks:
  \<open>n\<close> in a row that satisfy \<open>P\<close>, and since then no \<open>m\<close> in a row that do not.\<close>

definition ends_in_run :: "('a \<Rightarrow> bool) \<Rightarrow> nat \<Rightarrow> 'a list \<Rightarrow> bool" where
  "ends_in_run P n xs \<longleftrightarrow> (\<exists>a b. xs = a @ b \<and> length b = n \<and> (\<forall>x \<in> set b. P x))"

definition has_run :: "('a \<Rightarrow> bool) \<Rightarrow> nat \<Rightarrow> 'a list \<Rightarrow> bool" where
  "has_run P n xs \<longleftrightarrow> (\<exists>a c. xs = a @ c \<and> ends_in_run P n a)"

definition settled :: "('a \<Rightarrow> bool) \<Rightarrow> nat \<Rightarrow> nat \<Rightarrow> 'a list \<Rightarrow> bool" where
  "settled P n m xs \<longleftrightarrow> (\<exists>a c. xs = a @ c \<and> ends_in_run P n a \<and> \<not> has_run (\<lambda>x. \<not> P x) m c)"

lemma ends_in_run_Nil [simp]: "ends_in_run P n [] \<longleftrightarrow> n = 0"
  by (auto simp: ends_in_run_def)

lemma ends_in_run_snoc: "ends_in_run P n (xs @ [x]) \<longleftrightarrow> n = 0 \<or> P x \<and> ends_in_run P (n - 1) xs"
proof (cases n)
  case (Suc k)
  have "\<exists>a b. xs @ [x] = a @ b \<and> length b = Suc k \<and> (\<forall>x \<in> set b. P x)"
    if "P x" "xs = a' @ b'" "length b' = k" "\<forall>x \<in> set b'. P x" for a' b'
    using that by (intro exI [of _ a'] exI [of _ "b' @ [x]"]) simp
  moreover have "P x \<and> ends_in_run P k xs" if "xs @ [x] = a @ b" "length b = Suc k" "\<forall>x \<in> set b. P x" for a b
  proof -
    obtain b' y where "b = b' @ [y]" using \<open>length b = Suc k\<close> by (metis length_0_conv list.size(3) nat.distinct(1) rev_exhaust)
    with that show ?thesis by (auto simp: ends_in_run_def)
  qed
  ultimately show ?thesis using Suc by (auto simp: ends_in_run_def)
qed (simp add: ends_in_run_def)

lemma ends_in_run_length: "ends_in_run P n xs \<Longrightarrow> n \<le> length xs"
  by (auto simp: ends_in_run_def)

lemma has_run_snoc: "has_run P n (xs @ [x]) \<longleftrightarrow> has_run P n xs \<or> ends_in_run P n (xs @ [x])"
proof
  assume "has_run P n (xs @ [x])"
  then obtain a c where ac: "xs @ [x] = a @ c" "ends_in_run P n a" by (auto simp: has_run_def)
  then show "has_run P n xs \<or> ends_in_run P n (xs @ [x])"
    by (cases c rule: rev_cases) (auto simp: has_run_def)
next
  assume "has_run P n xs \<or> ends_in_run P n (xs @ [x])"
  then show "has_run P n (xs @ [x])" unfolding has_run_def by (metis append.assoc append_Nil2)
qed

lemma ends_in_run_suffix: "ends_in_run P n c \<Longrightarrow> ends_in_run P n (a @ c)"
  unfolding ends_in_run_def by (metis append.assoc)

text \<open>Two runs, of what satisfies \<open>P\<close> and then of what does not, do not overlap.\<close>

lemma ends_in_run_apart:
  assumes "ends_in_run P (Suc n) a" "ends_in_run (\<lambda>x. \<not> P x) m (a @ c)"
  shows "ends_in_run (\<lambda>x. \<not> P x) m c"
proof -
  from assms(1) obtain a' y where a: "a = a' @ [y]" "P y"
    by (cases a rule: rev_cases) (auto simp: ends_in_run_snoc)
  from assms(2) obtain d e where e: "a @ c = d @ e" "length e = m" "\<forall>x \<in> set e. \<not> P x"
    by (auto simp: ends_in_run_def)
  from e(1) obtain us where us: "a = d @ us \<and> us @ c = e \<or> a @ us = d \<and> c = us @ e"
    unfolding append_eq_append_conv2 by blast
  show ?thesis
  proof (cases "us = [] \<or> a @ us = d \<and> c = us @ e")
    case True
    then obtain v where "c = v @ e" using us by (metis append_Nil)
    with e(2,3) show ?thesis by (auto simp: ends_in_run_def)
  next
    case False
    with us have "a = d @ us" "e = us @ c" "us \<noteq> []" by auto
    then have "y \<in> set e" using a(1) by (metis Un_iff last_appendR last_in_set last_snoc set_append)
    with e(3) a(2) show ?thesis by blast
  qed
qed

lemma settled_snoc:
  assumes "0 < n" "0 < m"
  shows "settled P n m (xs @ [x]) \<longleftrightarrow>
    ends_in_run P n (xs @ [x]) \<or> settled P n m xs \<and> \<not> ends_in_run (\<lambda>x. \<not> P x) m (xs @ [x])"
proof
  assume "settled P n m (xs @ [x])"
  then obtain a c where ac: "xs @ [x] = a @ c" "ends_in_run P n a" "\<not> has_run (\<lambda>x. \<not> P x) m c"
    by (auto simp: settled_def)
  show "ends_in_run P n (xs @ [x]) \<or> settled P n m xs \<and> \<not> ends_in_run (\<lambda>x. \<not> P x) m (xs @ [x])"
  proof (cases c rule: rev_cases)
    case Nil
    with ac show ?thesis by simp
  next
    case (snoc c' y)
    with ac have "xs = a @ c'" "\<not> has_run (\<lambda>x. \<not> P x) m c'" by (auto simp: has_run_snoc)
    moreover have "\<not> ends_in_run (\<lambda>x. \<not> P x) m (xs @ [x])"
      using ac ends_in_run_apart [of P "n - 1" a m c] assms(1) by (auto simp: has_run_def)
    ultimately show ?thesis using ac by (auto simp: settled_def)
  qed
next
  assume "ends_in_run P n (xs @ [x]) \<or> settled P n m xs \<and> \<not> ends_in_run (\<lambda>x. \<not> P x) m (xs @ [x])"
  then show "settled P n m (xs @ [x])"
  proof
    assume "ends_in_run P n (xs @ [x])"
    moreover have "\<not> has_run (\<lambda>x. \<not> P x) m []" using assms(2) by (simp add: has_run_def)
    ultimately show ?thesis unfolding settled_def by (metis append_Nil2)
  next
    assume s: "settled P n m xs \<and> \<not> ends_in_run (\<lambda>x. \<not> P x) m (xs @ [x])"
    then obtain a c where ac: "xs = a @ c" "ends_in_run P n a" "\<not> has_run (\<lambda>x. \<not> P x) m c"
      by (auto simp: settled_def)
    then have "\<not> has_run (\<lambda>x. \<not> P x) m (c @ [x])"
      using s ends_in_run_suffix [of "\<lambda>x. \<not> P x" m "c @ [x]" a] by (auto simp: has_run_snoc)
    with ac show ?thesis unfolding settled_def by (metis append.assoc)
  qed
qed

lemma settled_Nil [simp]: "0 < n \<Longrightarrow> \<not> settled P n m []"
  by (simp add: settled_def)

section \<open>Status from checks\<close>

lemma ends_in_run_mono: "ends_in_run P n xs \<Longrightarrow> k \<le> n \<Longrightarrow> ends_in_run P k xs"
proof -
  assume "ends_in_run P n xs" "k \<le> n"
  then obtain a b where "xs = a @ b" "length b = n" "\<forall>x \<in> set b. P x" by (auto simp: ends_in_run_def)
  with \<open>k \<le> n\<close> show ?thesis unfolding ends_in_run_def
    by (intro exI [of _ "a @ take (n - k) b"] exI [of _ "drop (n - k) b"]) (auto dest: in_set_dropD)
qed

text \<open>A counter that is raised when \<open>P\<close> holds and cleared when it does not.\<close>

definition counts :: "('a \<Rightarrow> bool) \<Rightarrow> 'a list \<Rightarrow> int \<Rightarrow> bool" where
  "counts P xs s \<longleftrightarrow> 0 \<le> s \<and> (\<forall>k. ends_in_run P k xs \<longleftrightarrow> int k \<le> s)"

lemma counts_Nil: "counts P [] 0"
  by (simp add: counts_def)

lemma counts_step:
  assumes "counts P xs s"
  shows "counts P (xs @ [x]) (if P x then s + 1 else 0)"
proof -
  have "ends_in_run P k (xs @ [x]) \<longleftrightarrow> int k \<le> (if P x then s + 1 else 0)" for k
    using assms by (cases k) (auto simp: ends_in_run_snoc counts_def)
  with assms show ?thesis by (auto simp: counts_def)
qed

lemma counts_reaches: "counts P xs s \<Longrightarrow> 0 \<le> n \<Longrightarrow> n \<le> s \<longleftrightarrow> ends_in_run P (nat n) xs"
  by (simp add: counts_def)

abbreviation passed :: "health_result \<Rightarrow> bool" where
  "passed r \<equiv> hr_status r = HEALTHY"

definition checked_entry :: "health_config \<Rightarrow> service_instance \<Rightarrow> health_result list \<Rightarrow> health_entry" where
  "checked_entry cfg i rs = fold (update_entry cfg) rs (new_health_entry i)"

lemma checked_entry_snoc: "checked_entry cfg i (rs @ [r]) = update_entry cfg r (checked_entry cfg i rs)"
  by (simp add: checked_entry_def)

lemma update_counts:
  "he_successes (update_entry cfg r e) = (if passed r then he_successes e + 1 else 0)"
  "he_failures (update_entry cfg r e) = (if passed r then 0 else he_failures e + 1)"
  by (simp_all add: update_entry_def Let_def)

lemma checked_entry_counts:
  "counts passed rs (he_successes (checked_entry cfg i rs)) \<and> counts (\<lambda>r. \<not> passed r) rs (he_failures (checked_entry cfg i rs))"
proof (induction rs rule: rev_induct)
  case Nil
  show ?case by (simp add: checked_entry_def new_health_entry_def counts_Nil)
next
  case (snoc r rs)
  show ?case unfolding checked_entry_snoc update_counts
    using counts_step [OF conjunct1 [OF snoc.IH], of r] counts_step [OF conjunct2 [OF snoc.IH], of r]
    by (cases "passed r") simp_all
qed

lemma update_status:
  "passed r \<Longrightarrow> he_status (update_entry cfg r e) = (if hc_healthy_threshold cfg \<le> he_successes (update_entry cfg r e) then HEALTHY else he_status e)"
  "\<not> passed r \<Longrightarrow> he_status (update_entry cfg r e) = (if hc_unhealthy_threshold cfg \<le> he_failures (update_entry cfg r e) then UNHEALTHY else he_status e)"
  by (auto simp: update_entry_def Let_def)

lemma ends_in_run_other: "0 < n \<Longrightarrow> \<not> P x \<Longrightarrow> \<not> ends_in_run P n (xs @ [x])"
  by (simp add: ends_in_run_snoc)

text \<open>
  C30. An instance's health after any checks is what its whole history says: it is healthy
  exactly when some \<open>healthy_threshold\<close> checks in a row passed and since then no \<open>unhealthy_threshold\<close> in a row
  failed, unhealthy exactly when the other way round, and unknown when neither has ever happened; in
  particular fewer failures in a row than the threshold never take a healthy instance out.
\<close>

theorem health_hysteresis:
  assumes "0 < hc_healthy_threshold cfg" "0 < hc_unhealthy_threshold cfg"
  shows "he_status (checked_entry cfg i rs) =
    (if settled passed (nat (hc_healthy_threshold cfg)) (nat (hc_unhealthy_threshold cfg)) rs then HEALTHY
     else if settled (\<lambda>r. \<not> passed r) (nat (hc_unhealthy_threshold cfg)) (nat (hc_healthy_threshold cfg)) rs then UNHEALTHY
     else UNKNOWN)"
proof (induction rs rule: rev_induct)
  case Nil
  with assms show ?case by (simp add: checked_entry_def new_health_entry_def)
next
  case (snoc r rs)
  let ?h = "nat (hc_healthy_threshold cfg)" and ?u = "nat (hc_unhealthy_threshold cfg)"
  let ?e = "checked_entry cfg i (rs @ [r])"
  have pos: "0 < ?h" "0 < ?u" using assms by simp_all
  note snocs = settled_snoc [OF pos, of passed rs r] settled_snoc [OF pos(2,1), of "\<lambda>r. \<not> passed r" rs r]
  have c: "hc_healthy_threshold cfg \<le> he_successes ?e \<longleftrightarrow> ends_in_run passed ?h (rs @ [r])"
    "hc_unhealthy_threshold cfg \<le> he_failures ?e \<longleftrightarrow> ends_in_run (\<lambda>r. \<not> passed r) ?u (rs @ [r])"
    using checked_entry_counts [where rs = "rs @ [r]" and cfg = cfg and i = i] assms by (auto simp: counts_reaches)
  show ?case
  proof (cases "passed r")
    case True
    then have "\<not> ends_in_run (\<lambda>r. \<not> passed r) ?u (rs @ [r])" by (intro ends_in_run_other pos) simp
    moreover have "he_status ?e = (if ends_in_run passed ?h (rs @ [r]) then HEALTHY else he_status (checked_entry cfg i rs))"
      unfolding c(1) [symmetric] unfolding checked_entry_snoc by (rule update_status(1) [OF True])
    ultimately show ?thesis unfolding snocs using snoc.IH by simp
  next
    case False
    then have "\<not> ends_in_run passed ?h (rs @ [r])" by (intro ends_in_run_other pos) simp
    moreover have "he_status ?e = (if ends_in_run (\<lambda>r. \<not> passed r) ?u (rs @ [r]) then UNHEALTHY else he_status (checked_entry cfg i rs))"
      unfolding c(2) [symmetric] unfolding checked_entry_snoc by (rule update_status(2) [OF False])
    ultimately show ?thesis unfolding snocs not_not using snoc.IH by simp
  qed
qed

definition good_check :: health_result where
  "good_check = \<lparr>hr_status = HEALTHY, hr_latency_ms = 1, hr_message = None, hr_checked_at_ms = 0\<rparr>"

theorem health_hysteresis_witness:
  "settled passed 2 3 [good_check, good_check, failed_check 0 1 ''x'']"
proof -
  have "he_status (checked_entry default_health_config (plain_instance ''a'' 1) [good_check, good_check, failed_check 0 1 ''x'']) = HEALTHY"
    by (simp add: checked_entry_def update_entry_def new_health_entry_def good_check_def failed_check_def default_health_config_def)
  with health_hysteresis [of default_health_config "plain_instance ''a'' 1" "[good_check, good_check, failed_check 0 1 ''x'']"]
  show ?thesis by (simp add: default_health_config_def split: if_splits)
qed

section \<open>Routing\<close>

text \<open>What the transport expects of a balancer.\<close>

locale balancer =
  fixes select :: "service_instance list \<Rightarrow> string option \<Rightarrow> service_instance option"
  assumes picks: "select is k = Some i \<Longrightarrow> i \<in> set is"
    and serves: "is \<noteq> [] \<Longrightarrow> \<forall>i \<in> set is. 0 < si_weight i \<Longrightarrow> \<exists>i. select is k = Some i"
begin

lemma balanced_in:
  assumes "ha_balancer t = Some select" "is \<noteq> []" "\<forall>i \<in> set is. 0 < si_weight i"
  shows "\<exists>i \<in> set is. balanced t is = Some i"
  using serves [OF assms(2,3), of "ha_lb_key t"] picks assms by (fastforce simp: balanced_def split: list.splits)

end

lemma weighted_select_in: "weighted_select is = Some i \<Longrightarrow> i \<in> set is"
  by (auto simp: weighted_select_find find_Some_iff)

interpretation weighted: balancer "\<lambda>is k. weighted_select is"
proof
  fix "is" :: "service_instance list"
  assume "is \<noteq> []" "\<forall>i \<in> set is. 0 < si_weight i"
  then show "\<exists>i. weighted_select is = Some i" by (cases "is") (auto simp: weighted_select_find)
qed (rule weighted_select_in)

lemma random_select_in:
  assumes "\<And>n. 0 < n \<Longrightarrow> pick n < n"
  shows "random_select pick xs = Some x \<Longrightarrow> x \<in> set xs"
  using assms [of "length xs"] by (auto simp: random_select_def split: if_splits)

lemma hash_ring_values: "snd ` set (hash_ring nodes) \<subseteq> snd ` set nodes"
proof -
  have "set (fold (\<lambda>(h, i). AList.update h i) nodes d) \<subseteq> set d \<union> set nodes" for d
  proof (induction nodes arbitrary: d)
    case (Cons n nodes)
    have "set (AList.update h i d) \<subseteq> insert (h, i) (set d)" for h i
      by (induction d) (auto split: if_splits)
    with Cons.IH show ?case by (cases n) fastforce
  qed simp
  then show ?thesis unfolding hash_ring_def by (metis image_mono sup_bot_left empty_set)
qed

lemma balancer_select:
  assumes pick: "\<And>n. 0 < n \<Longrightarrow> lb_pick lib n < n"
  shows "balancer (select_instance lib policy)"
proof
  fix "is" k i
  assume sel: "select_instance lib policy is k = Some i"
  show "i \<in> set is"
  proof (cases k)
    case (Some x)
    with sel select_in [OF pick] show ?thesis by blast
  next
    case None
    show ?thesis
    proof (cases policy)
      case CONSISTENT_HASHING
      let ?nodes = "ring_nodes (lb_md5 lib) (lb_show lib) 100 is"
      have "i \<in> snd ` set (hash_ring ?nodes)"
        using sel CONSISTENT_HASHING None random_select_in [OF pick, where xs = "map snd (hash_ring ?nodes)"]
        by (auto simp: select_instance_def consistent_select_def Let_def simp del: hash_ring_empty split: if_splits)
      then have "i \<in> snd ` set ?nodes" using hash_ring_values by blast
      then show ?thesis by (auto simp: ring_nodes_def)
    next
      case Random
      with sel random_select_in [OF pick] show ?thesis by (auto simp: select_instance_def)
    next
      case WeightedRoundRobin
      with sel weighted_select_in show ?thesis by (auto simp: select_instance_def)
    qed
  qed
next
  fix "is" :: "service_instance list" and k
  assume ne: "is \<noteq> []" and w: "\<forall>i \<in> set is. 0 < si_weight i"
  show "\<exists>i. select_instance lib policy is k = Some i"
  proof (cases policy)
    case CONSISTENT_HASHING
    let ?nodes = "ring_nodes (lb_md5 lib) (lb_show lib) 100 is"
    have nodes: "?nodes \<noteq> []" using ne by (simp add: ring_nodes_empty)
    show ?thesis
    proof (cases k)
      case None
      with nodes CONSISTENT_HASHING show ?thesis
        by (simp add: select_instance_def consistent_select_def random_select_def Let_def)
    next
      case (Some x)
      with nodes CONSISTENT_HASHING ring_lookup_in [of ?nodes "lb_md5 lib x"] show ?thesis
        by (auto simp: select_instance_def consistent_select_def Let_def)
    qed
  next
    case Random
    with ne show ?thesis by (simp add: select_instance_def random_select_def)
  next
    case WeightedRoundRobin
    with weighted.serves [OF ne w] show ?thesis by (simp add: select_instance_def)
  qed
qed

definition balancer_ok :: "'t health_transport \<Rightarrow> bool" where
  "balancer_ok t \<longleftrightarrow> (case ha_balancer t of None \<Rightarrow> True | Some select \<Rightarrow> balancer select)"

lemma balanced_listed:
  assumes "balancer_ok t" "is \<noteq> []" "\<forall>i \<in> set is. 0 < si_weight i"
  shows "\<exists>i \<in> set is. balanced t is = Some i"
proof (cases "ha_balancer t")
  case None
  with assms show ?thesis by (auto simp: balanced_def split: list.splits)
next
  case (Some select)
  with assms balancer.balanced_in show ?thesis by (auto simp: balancer_ok_def)
qed

lemma healthy_or_all_some: "\<exists>i \<in> set is. ok i \<Longrightarrow> healthy_or_all allow ok is = filter ok is"
  by (auto simp: healthy_or_all_def Let_def filter_empty_conv)

lemma known_instances_cache [simp]: "known_instances su (t\<lparr>ha_cache := c\<rparr>) name = known_instances su t name"
  by (simp add: known_instances_def static_instances_def split: option.split list.split)

lemma healthy_instances_checked:
  assumes "ha_health_registry t = None" "ha_checker t" "known_instances su t name = Inr is"
    and "c = refresh_health_cache su (ha_config t) (ha_cache_ttl_ms t) is (ha_cache t)"
  shows "is \<noteq> [] \<Longrightarrow> healthy_instances su t name = (Inr (transport_instances (ha_allow t) c is), t\<lparr>ha_cache := c\<rparr>)"
    and "is = [] \<Longrightarrow> healthy_instances su t name = (Inr [], t)"
  using assms by (simp_all add: healthy_instances_def Let_def)

text \<open>
  C29. A transport with a health checker sends every call, and every request about tasks or
  health for a service, to an instance of those known for the service that the refreshed health cache calls
  healthy, whenever there is one; both ways of choosing agree. (With positive weights: the weighted balancer
  passes over instances without weight.)
\<close>

theorem routes_to_healthy:
  assumes "ha_health_registry t = None" "ha_checker t" "balancer_ok t"
    and "known_instances su t name = Inr is" "\<forall>i \<in> set is. 0 < si_weight i"
    and "c = refresh_health_cache su (ha_config t) (ha_cache_ttl_ms t) is (ha_cache t)"
    and "\<exists>i \<in> set is. is_cached_healthy (map_of c (si_instance_id i))"
  shows "\<exists>j \<in> set is. is_cached_healthy (map_of c (si_instance_id j))
    \<and> select_transport su t name = transport_for_instance su (t\<lparr>ha_cache := c\<rparr>) j
    \<and> select_transport_for_service su t name = transport_for_instance su (t\<lparr>ha_cache := c\<rparr>) j"
proof -
  let ?ok = "\<lambda>i. is_cached_healthy (map_of c (si_instance_id i))"
  let ?hs = "filter ?ok is" and ?t = "t\<lparr>ha_cache := c\<rparr>"
  have hs: "?hs \<noteq> []" using assms(7) by (auto simp: filter_empty_conv)
  have "healthy_instances su t name = (Inr (transport_instances (ha_allow t) c is), ?t)"
    using healthy_instances_checked(1) [OF assms(1,2,4,6)] hs by fastforce
  then have h: "healthy_instances su t name = (Inr ?hs, ?t)"
    using healthy_or_all_some [OF assms(7)] by (simp add: transport_instances_def)
  have "balancer_ok ?t" using assms(3) by (simp add: balancer_ok_def)
  then obtain j where j: "j \<in> set ?hs" "balanced ?t ?hs = Some j"
    using balanced_listed [of ?t ?hs] hs assms(5) by auto
  from h j(2) have "select_transport su t name = transport_for_instance su ?t j"
    by (simp add: select_transport_def)
  moreover from h j(2) hs have "select_transport_for_service su t name = transport_for_instance su ?t j"
    by (auto simp: select_transport_for_service_def split: list.splits)
  ultimately show ?thesis using j(1) by auto
qed

definition two_instances :: "service_instance list" where
  "two_instances = [plain_instance ''a'' 1, plain_instance ''b'' 1]"

definition entry_after :: "service_instance \<Rightarrow> health_result list \<Rightarrow> string \<times> health_entry" where
  "entry_after i rs = (si_instance_id i, checked_entry default_health_config i rs)"

text \<open>Of two instances the first failed three times, the second passed twice; the time is that of the checks.\<close>

definition calm :: surroundings where
  "calm =
     \<lparr>su_now_ms = 0, su_latency_ms = 1, su_show = (\<lambda>n. if n = 80 then ''80'' else []), su_registry = (\<lambda>_. Inr two_instances),
      su_base_registry = (\<lambda>_. Inr []), su_check = (\<lambda>_. Inr good_check), su_registry_check = (\<lambda>_. Inr good_check)\<rparr>"

definition watched :: "string health_transport" where
  "watched =
     (new_health_transport sample_lib Inr None None True None True None None None (Some WeightedRoundRobin) None False)
       \<lparr>ha_cache := [entry_after (plain_instance ''a'' 1) [failed_check 0 1 ''x'', failed_check 0 1 ''x'', failed_check 0 1 ''x''],
         entry_after (plain_instance ''b'' 1) [good_check, good_check]]\<rparr>"

lemmas sample_checks = entry_after_def checked_entry_def update_entry_def new_health_entry_def good_check_def failed_check_def
  default_health_config_def plain_instance_def

lemma watched_fields [simp]:
  "ha_health_registry watched = None" "ha_checker watched" "ha_cache_ttl_ms watched = 10000" "ha_registry watched"
  "ha_config watched = default_health_config" "ha_transports watched = []" "ha_factory watched = Inr"
  "ha_balancer watched = Some (select_instance sample_lib WeightedRoundRobin)"
  by (simp_all add: watched_def new_health_transport_def default_health_config_def py_trunc_def)

lemma watched_cache:
  "map_of (ha_cache watched) ''a'' = Some (snd (entry_after (plain_instance ''a'' 1) [failed_check 0 1 ''x'', failed_check 0 1 ''x'', failed_check 0 1 ''x'']))"
  "map_of (ha_cache watched) ''b'' = Some (snd (entry_after (plain_instance ''b'' 1) [good_check, good_check]))"
  by (simp_all add: watched_def entry_after_def plain_instance_def)

lemma watched_fresh: "refresh_health_cache calm default_health_config 10000 two_instances (ha_cache watched) = ha_cache watched"
  by (simp add: refresh_health_cache_def two_instances_def is_stale_def watched_cache calm_def)
    (simp add: sample_checks watched_cache [unfolded sample_checks])

theorem routes_to_healthy_witness:
  "fst (select_transport calm watched (Some ''svc'')) = Inr ''https://h:80''
   \<and> ha_transports (snd (select_transport calm watched (Some ''svc''))) = [(''b'', ''https://h:80'')]"
proof -
  have ok: "balancer_ok watched" using balancer_select [of sample_lib] by (simp add: balancer_ok_def sample_lib_def)
  have known: "known_instances calm watched (Some ''svc'') = Inr two_instances" by (simp add: known_instances_def calm_def)
  have one: "\<exists>i \<in> set two_instances. is_cached_healthy (map_of (ha_cache watched) (si_instance_id i))"
    by (simp add: two_instances_def is_cached_healthy_def plain_instance_def watched_cache) (simp add: sample_checks)
  have a: "\<not> is_cached_healthy (map_of (ha_cache watched) ''a'')"
    by (simp add: is_cached_healthy_def watched_cache) (simp add: sample_checks)
  have w: "\<forall>i \<in> set two_instances. 0 < si_weight i" by (simp add: two_instances_def plain_instance_def)
  obtain j where j: "j \<in> set two_instances" "is_cached_healthy (map_of (ha_cache watched) (si_instance_id j))"
    "select_transport calm watched (Some ''svc'') = transport_for_instance calm watched j"
    using routes_to_healthy [OF _ _ ok known w, of "ha_cache watched"] watched_fresh one by auto
  from j(1,2) a have "j = plain_instance ''b'' 1" by (auto simp: two_instances_def plain_instance_def)
  then show ?thesis unfolding j(3)
    by (simp add: transport_for_instance_def transport_for_def instance_url_def calm_def plain_instance_def
        transport_scheme_value_def Let_def)
qed

section \<open>Caching of transports\<close>

inductive ha_step :: "'t health_transport \<Rightarrow> 't health_transport \<Rightarrow> bool" where
  step_call: "ha_step t (snd (select_transport su t name))"
| step_service: "ha_step t (snd (select_transport_for_service su t name))"

lemma healthy_instances_keeps:
  "ha_transports (snd (healthy_instances su t name)) = ha_transports t"
  "ha_factory (snd (healthy_instances su t name)) = ha_factory t"
  by (auto simp: healthy_instances_def Let_def split: sum.splits option.splits)

lemma transport_for_keeps: "map_of (ha_transports t) k = Some tp \<Longrightarrow> map_of (ha_transports (snd (transport_for t url key))) k = Some tp"
  by (auto simp: transport_for_def simp del: dict_opaque split: option.splits sum.splits)

lemma default_transport_keeps: "map_of (ha_transports t) k = Some tp \<Longrightarrow> map_of (ha_transports (snd (default_transport t))) k = Some tp"
  by (auto simp: default_transport_def transport_for_keeps simp del: dict_opaque split: option.splits list.splits)

lemma ha_step_keeps:
  assumes "ha_step t t'" "map_of (ha_transports t) k = Some tp"
  shows "map_of (ha_transports t') k = Some tp"
  using assms
proof (induction rule: ha_step.induct)
  case (step_call t su name)
  obtain r t1 where h: "healthy_instances su t name = (r, t1)" by force
  with step_call healthy_instances_keeps(1) [of su t name] have "map_of (ha_transports t1) k = Some tp" by simp
  with h show ?case
    by (auto simp: select_transport_def transport_for_instance_def transport_for_keeps default_transport_keeps
        simp del: dict_opaque split: sum.splits option.splits)
next
  case (step_service t su name)
  obtain r t1 where h: "healthy_instances su t name = (r, t1)" by force
  with step_service healthy_instances_keeps(1) [of su t name] have "map_of (ha_transports t1) k = Some tp" by simp
  with h show ?case
    by (auto simp: select_transport_for_service_def transport_for_instance_def transport_for_keeps default_transport_keeps
        simp del: dict_opaque split: sum.splits option.splits list.splits)
qed

lemma ha_steps_keep: "ha_step\<^sup>*\<^sup>* t t' \<Longrightarrow> map_of (ha_transports t) k = Some tp \<Longrightarrow> map_of (ha_transports t') k = Some tp"
  by (induction rule: rtranclp_induct) (auto intro: ha_step_keeps simp del: dict_opaque)

text \<open>
  A transport made for an instance is used for ever: whatever calls come in
  between, an instance of the same identifier is called at the address it had then, also when the registry has
  long listed it at another one.
\<close>

theorem moved_instance_unreached:
  assumes "transport_for_instance su t i = (Inr tp, t1)" "ha_step\<^sup>*\<^sup>* t1 t2" "si_instance_id i' = si_instance_id i"
  shows "transport_for_instance su' t2 i' = (Inr tp, t2)"
proof -
  have "map_of (ha_transports t1) (si_instance_id i) = Some tp"
    using assms(1) by (auto simp: transport_for_instance_def transport_for_def simp del: dict_opaque split: option.splits sum.splits)
  with assms show ?thesis using ha_steps_keep by (fastforce simp: transport_for_instance_def transport_for_def simp del: dict_opaque)
qed

theorem moved_instance_unreached_witness:
  "fst (transport_for_instance calm (snd (transport_for_instance calm watched (plain_instance ''b'' 1)))
     (plain_instance ''b'' 1\<lparr>si_host := ''elsewhere''\<rparr>)) = Inr ''https://h:80''"
proof -
  have "fst (transport_for_instance calm watched (plain_instance ''b'' 1)) = Inr ''https://h:80''"
    by (simp add: transport_for_instance_def transport_for_def instance_url_def calm_def plain_instance_def transport_scheme_value_def Let_def)
  then have "transport_for_instance calm watched (plain_instance ''b'' 1) =
    (Inr ''https://h:80'', snd (transport_for_instance calm watched (plain_instance ''b'' 1)))"
    by (metis prod.collapse)
  from moved_instance_unreached [OF this rtranclp.rtrancl_refl, of "plain_instance ''b'' 1\<lparr>si_host := ''elsewhere''\<rparr>" calm]
  show ?thesis by (simp add: plain_instance_def)
qed

section \<open>Requests about tasks\<close>

lemma no_task_service [simp]:
  "service_name_from_task_request (query_fields tid) = None"
  "service_name_from_task_request (cancel_fields r) = None"
  "service_name_from_task_request (subscribe_fields q) = None"
  by (simp_all add: service_name_from_task_request_def query_fields_def cancel_fields_def subscribe_fields_def dict_get_def)

lemma nameless:
  "ha_health_registry t = None \<Longrightarrow> ha_instances t = None \<Longrightarrow> select_transport_for_service su t None = default_transport t"
  by (simp add: select_transport_for_service_def healthy_instances_def known_instances_def static_instances_def)

text \<open>
  Behind a registry a task is submitted to an instance of its service, but asked
  for, cancelled and subscribed to at the default address, or not at all: requests about tasks name no service,
  so the transport knows no instance for them, whatever the registry lists.
\<close>

theorem task_calls_miss_instances:
  assumes "ha_health_registry t = None" "ha_instances t = None" "ha_registry t" "\<not> ha_checker t" "ha_balancer t = None"
    and "submit_service s = Some (c # cs)" "su_registry su (c # cs) = Inr (i # is)"
  shows "ha_submit su s ctx (t, w) = forward (transport_for_instance su t i) (\<lambda>tp. tp_submit tp s ctx) w
    \<and> ha_query su tid ctx (t, w) = forward (default_transport t) (\<lambda>tp. tp_query tp tid ctx) w
    \<and> ha_cancel su r ctx (t, w) = forward (default_transport t) (\<lambda>tp. tp_cancel tp r ctx) w
    \<and> ha_subscribe su q ctx (t, w) = forward_stream (default_transport t) (\<lambda>tp. tp_subscribe tp q ctx) w
    \<and> (ha_default_url t = None \<longrightarrow> ha_query su tid ctx (t, w) = (Inl no_instance, t, w))"
proof -
  have "select_transport_for_service su t (Some (c # cs)) = transport_for_instance su t i"
    using assms by (simp add: select_transport_for_service_def healthy_instances_def known_instances_def balanced_def)
  moreover have "ha_default_url t = None \<longrightarrow> forward (default_transport t) (\<lambda>tp. tp_query tp tid ctx) w = (Inl no_instance, t, w)"
    by (simp add: default_transport_def forward_def)
  ultimately show ?thesis using assms(6) nameless [OF assms(1,2), of su]
    by (simp add: ha_submit_def ha_query_def ha_cancel_def ha_subscribe_def)
qed

text \<open>Transports that only know their address, and answer a query with the address they were asked at.\<close>

definition asked_at :: "string \<Rightarrow> string list full_transport" where
  "asked_at url =
     \<lparr>tp_completion = (\<lambda>_ _ w. (Inl no_instance, w)), tp_completion_stream = (\<lambda>_ _ w. (([], None), w)),
      tp_call = (\<lambda>_ _ w. (Inl no_instance, w)), tp_server_stream = (\<lambda>_ _ w. (([], None), w)),
      tp_client_stream = (\<lambda>_ _ w. (Inl no_instance, w)), tp_bidirectional = (\<lambda>_ _ w. (([], None), w)),
      tp_submit = (\<lambda>_ _ w. (Inl no_instance, w @ [url])), tp_query = (\<lambda>_ _ w. (Inl no_instance, w @ [url])),
      tp_cancel = (\<lambda>_ _ w. (Inl no_instance, w @ [url])), tp_subscribe = (\<lambda>_ _ w. (([], None), w @ [url])),
      tp_check = (\<lambda>_ _ w. (Inl no_instance, w)), tp_watch = (\<lambda>_ _ w. (([], None), w))\<rparr>"

definition unwatched :: "string list full_transport health_transport" where
  "unwatched =
     new_health_transport sample_lib (\<lambda>url. Inr (asked_at url)) (Some ''http://d'') None True None False None None None None None True"

definition a_task :: task_submit_request where
  "a_task = \<lparr>tsr_target_method = ''rpc.v2/svc/f'', tsr_params = None, tsr_priority = Other (PInt 1)\<rparr>"

theorem task_calls_miss_instances_witness:
  "snd (snd (ha_submit calm a_task (prepare_context default_client_config None None) (unwatched, []))) = [''https://h:80'']
   \<and> snd (snd (ha_query calm ''t1'' (prepare_context default_client_config None None) (unwatched, []))) = [''http://d'']"
proof -
  have f: "ha_health_registry unwatched = None" "ha_instances unwatched = None" "ha_registry unwatched"
    "\<not> ha_checker unwatched" "ha_balancer unwatched = None" "ha_transports unwatched = []" "ha_default_url unwatched = Some ''http://d''"
    "ha_factory unwatched = (\<lambda>url. Inr (asked_at url))"
    by (simp_all add: unwatched_def new_health_transport_def)
  have p: "submit_service a_task = Some ''svc''" by (simp add: submit_service_def a_task_def) code_simp
  have r: "su_registry calm ''svc'' = Inr (plain_instance ''a'' 1 # [plain_instance ''b'' 1])"
    by (simp add: calm_def two_instances_def)
  have "snd (snd (forward (transport_for_instance calm unwatched (plain_instance ''a'' 1)) (\<lambda>tp. tp_submit tp a_task cx) [])) = [''https://h:80'']" for cx
    by (simp add: forward_def transport_for_instance_def transport_for_def f asked_at_def instance_url_def calm_def
        plain_instance_def transport_scheme_value_def Let_def)
  moreover have "snd (snd (forward (default_transport unwatched) (\<lambda>tp. tp_query tp ''t1'' cx) [])) = [''http://d'']" for cx
    by (simp add: forward_def default_transport_def transport_for_def f asked_at_def)
  ultimately show ?thesis using task_calls_miss_instances [OF f(1-5) p r] by simp
qed

section \<open>The first round of checks\<close>

lemma own_check_passed: "su_check su i = Inr r \<Longrightarrow> own_check su cfg i c = record_health cfg (si_instance_id i) i r c"
  by (simp add: own_check_def)

lemma record_health_lookup:
  "map_of (record_health cfg k i r c) k' =
    (if k' = k then Some (update_entry cfg r (case map_of c k of None \<Rightarrow> new_health_entry i | Some e \<Rightarrow> e)) else map_of c k')"
  by (simp add: record_health_def)

definition checked_once :: "health_cache \<Rightarrow> string \<Rightarrow> int \<Rightarrow> bool" where
  "checked_once c k now_ms \<longleftrightarrow>
     (case map_of c k of
        None \<Rightarrow> False
      | Some e \<Rightarrow> he_status e = UNKNOWN \<and> map_option hr_checked_at_ms (he_last_check e) = Some now_ms)"

lemma first_checks:
  assumes "\<And>i. i \<in> set is \<Longrightarrow> \<exists>r. su_check su i = Inr r \<and> hr_checked_at_ms r = su_now_ms su"
    and "1 < hc_healthy_threshold cfg" "1 < hc_unhealthy_threshold cfg"
    and "distinct (map si_instance_id is)" "\<And>i. i \<in> set is \<Longrightarrow> map_of c (si_instance_id i) = None"
    and "k \<in> si_instance_id ` set is \<or> checked_once c k (su_now_ms su)"
  shows "checked_once (fold (own_check su cfg) is c) k (su_now_ms su)"
  using assms
proof (induction "is" arbitrary: c)
  case (Cons i "is")
  obtain r where r: "su_check su i = Inr r" "hr_checked_at_ms r = su_now_ms su" using Cons.prems(1) by auto
  let ?c = "own_check su cfg i c"
  have look: "map_of ?c k' = (if k' = si_instance_id i then Some (update_entry cfg r (new_health_entry i)) else map_of c k')" for k'
    using Cons.prems(5) [of i] by (simp add: own_check_passed [OF r(1)] record_health_lookup del: dict_opaque)
  have once: "checked_once ?c (si_instance_id i) (su_now_ms su)"
    using Cons.prems(2,3) r(2) by (simp add: checked_once_def look update_entry_def new_health_entry_def Let_def del: dict_opaque)
  have "k \<in> si_instance_id ` set is \<or> checked_once ?c k (su_now_ms su)"
    using Cons.prems(6) once by (auto simp: checked_once_def look simp del: dict_opaque)
  moreover have "map_of ?c (si_instance_id j) = None" if "j \<in> set is" for j
  proof -
    have "si_instance_id j \<in> si_instance_id ` set is" using that by (rule imageI)
    with Cons.prems(4) have "si_instance_id j \<noteq> si_instance_id i" by auto
    with Cons.prems(5) [of j] that show ?thesis by (simp add: look del: dict_opaque)
  qed
  ultimately show ?case using Cons.IH [of ?c] Cons.prems by auto
qed simp

lemma checked_once_not_healthy: "checked_once c k now \<Longrightarrow> \<not> is_cached_healthy (map_of c k)"
  by (auto simp: checked_once_def is_cached_healthy_def simp del: dict_opaque split: option.splits)

lemma checked_once_fresh: "checked_once c k now \<Longrightarrow> now' - now < ttl \<Longrightarrow> \<not> is_stale ttl now' (map_of c k)"
  by (auto simp: checked_once_def is_stale_def simp del: dict_opaque split: option.splits)

text \<open>
  A new transport that must not fall back to unhealthy instances finds none for the
  first interval between checks, although every instance passes its check: the status becomes healthy with the
  second check in a row only (the default threshold), and the next check waits for the interval to pass.
\<close>

theorem cold_start_refused:
  assumes "ha_health_registry t = None" "ha_checker t" "\<not> ha_allow t" "ha_cache t = []"
    and "1 < hc_healthy_threshold (ha_config t)" "1 < hc_unhealthy_threshold (ha_config t)"
    and "known_instances su t name = Inr is" "known_instances su' t name = Inr is" "distinct (map si_instance_id is)"
    and "\<And>i. i \<in> set is \<Longrightarrow> \<exists>r. su_check su i = Inr r \<and> passed r \<and> hr_checked_at_ms r = su_now_ms su"
    and "su_now_ms su' - su_now_ms su < ha_cache_ttl_ms t"
  shows "fst (healthy_instances su t name) = Inr []
    \<and> fst (healthy_instances su' (snd (healthy_instances su t name)) name) = Inr []"
proof -
  let ?c = "fold (own_check su (ha_config t)) is []"
  have once: "checked_once ?c (si_instance_id i) (su_now_ms su)" if "i \<in> set is" for i
    by (rule first_checks) (use assms(5,6,9,10) that in auto)
  have none: "transport_instances False ?c is = []"
    using once checked_once_not_healthy by (auto simp: transport_instances_def healthy_or_all_def Let_def filter_empty_conv)
  have "refresh_health_cache su (ha_config t) (ha_cache_ttl_ms t) is [] = ?c"
    by (simp add: refresh_health_cache_def is_stale_def)
  note c = this
  have "filter (\<lambda>i. is_stale (ha_cache_ttl_ms t) (su_now_ms su') (map_of ?c (si_instance_id i))) is = []"
    using once assms(11) checked_once_fresh by (fastforce simp: filter_empty_conv)
  then have c': "refresh_health_cache su' (ha_config t) (ha_cache_ttl_ms t) is ?c = ?c"
    by (simp add: refresh_health_cache_def)
  show ?thesis
  proof (cases "is = []")
    case True
    with healthy_instances_checked(2) [OF assms(1,2)] assms(7,8) show ?thesis by simp
  next
    case False
    let ?t = "t\<lparr>ha_cache := ?c\<rparr>"
    have first: "healthy_instances su t name = (Inr [], ?t)"
      using healthy_instances_checked(1) [OF assms(1,2,7) refl False] assms(3,4) c none by simp
    have "fst (healthy_instances su' ?t name) = Inr []"
      using healthy_instances_checked(1) [of ?t su' name "is" ?c] assms(1-3,8) c' none False by simp
    with first show ?thesis by simp
  qed
qed

theorem cold_start_refused_witness:
  "fst (healthy_instances calm (watched\<lparr>ha_cache := []\<rparr>) (Some ''svc'')) = Inr []"
proof -
  have "known_instances calm watched (Some ''svc'') = Inr two_instances" by (simp add: known_instances_def calm_def)
  moreover have "\<not> ha_allow watched" by (simp add: watched_def new_health_transport_def)
  moreover have "distinct (map si_instance_id two_instances)" by (simp add: two_instances_def plain_instance_def)
  ultimately show ?thesis
    using cold_start_refused [of "watched\<lparr>ha_cache := []\<rparr>" calm "Some ''svc''" two_instances calm]
    by (simp add: calm_def good_check_def default_health_config_def)
qed

section \<open>The loop\<close>

lemma check_each_stops:
  assumes "\<forall>i \<in> set (a @ [x]). k \<noteq> address_key (su_show su) i"
    and "\<exists>e. su_registry_check su x = Inl e \<and> isinstance_exn e PyException"
    and "\<forall>i \<in> set a. \<forall>e. su_registry_check su i = Inl e \<longrightarrow> isinstance_exn e PyException"
  shows "\<exists>e g'. check_each su (a @ x # b) g = (Some e, g') \<and> isinstance_exn e PyException \<and> map_of (hg_cache g') k = map_of (hg_cache g) k"
  using assms
proof (induction a arbitrary: g)
  case Nil
  then show ?case by (auto simp: registry_check_def)
next
  case (Cons i a)
  show ?case
  proof (cases "su_registry_check su i")
    case (Inl e)
    with Cons.prems show ?thesis by (auto simp: registry_check_def)
  next
    case (Inr r)
    let ?g = "g\<lparr>hg_cache := record_health (hg_config g) (address_key (su_show su) i) i r (hg_cache g)\<rparr>"
    have "map_of (hg_cache ?g) k = map_of (hg_cache g) k"
      using Cons.prems(1) by (simp add: record_health_lookup del: dict_opaque)
    with Cons.IH [of ?g] Cons.prems Inr show ?thesis by (simp add: registry_check_def del: dict_opaque)
  qed
qed

text \<open>
  An instance whose check raises keeps the registry from ever checking the ones listed after
  it: every pass of the loop stops there, sleeps a second and starts over, so an instance behind it that was
  never checked stays among the healthy ones, dead or alive. (The default checker does not raise.)
\<close>

theorem loop_starves:
  assumes "\<And>su. su \<in> set sus \<Longrightarrow> su_base_registry su name = Inr (a @ x # b)"
    and "\<And>su i. su \<in> set sus \<Longrightarrow> i \<in> set (a @ [x]) \<Longrightarrow> k \<noteq> address_key (su_show su) i"
    and "\<And>su. su \<in> set sus \<Longrightarrow> \<exists>e. su_registry_check su x = Inl e \<and> isinstance_exn e PyException"
    and "\<And>su i e. su \<in> set sus \<Longrightarrow> i \<in> set a \<Longrightarrow> su_registry_check su i = Inl e \<Longrightarrow> isinstance_exn e PyException"
    and "map_of (hg_cache g) k = None"
  shows "(\<forall>su \<in> set sus. \<forall>g. fst (check_loop_pass su [name] g) = SleepFor 1)
    \<and> registry_lists (map_of (hg_cache (fold (\<lambda>su g. snd (check_loop_pass su [name] g)) sus g)) k)"
proof -
  have pass: "fst (check_loop_pass su [name] g) = SleepFor 1
    \<and> map_of (hg_cache (snd (check_loop_pass su [name] g))) k = map_of (hg_cache g) k" if su: "su \<in> set sus" for su g
  proof -
    have "\<forall>i \<in> set (a @ [x]). k \<noteq> address_key (su_show su) i" using assms(2) [OF su] by blast
    from check_each_stops [OF this assms(3) [OF su], of b g] assms(4) [OF su] obtain e g' where
      "check_each su (a @ x # b) g = (Some e, g')" "isinstance_exn e PyException" "map_of (hg_cache g') k = map_of (hg_cache g) k"
      by blast
    with assms(1) [OF su] show ?thesis by (simp add: check_loop_pass_def)
  qed
  have "map_of (hg_cache (fold (\<lambda>su g. snd (check_loop_pass su [name] g)) ss h)) k = map_of (hg_cache h) k"
    if "set ss \<subseteq> set sus" for ss h
    using that by (induction ss arbitrary: h) (simp_all add: pass del: dict_opaque)
  with assms(5) pass show ?thesis by (simp add: registry_lists_def)
qed

definition broken_check :: surroundings where
  "broken_check = calm\<lparr>su_base_registry := (\<lambda>_. Inr two_instances), su_show := (\<lambda>n. if n = 80 then ''80'' else []),
     su_registry_check := (\<lambda>i. Inl (Exn RuntimeError 0 [] PNone None))\<rparr>"

theorem loop_starves_witness:
  "fst (check_loop_pass broken_check [''svc''] \<lparr>hg_config = default_health_config, hg_allow = False, hg_cache = []\<rparr>) = SleepFor 1"
proof -
  have f: "su_base_registry broken_check ''svc'' = Inr ([] @ plain_instance ''a'' 1 # [plain_instance ''b'' 1])"
    "su_registry_check broken_check i = Inl (Exn RuntimeError 0 [] PNone None)" for i
    by (simp_all add: broken_check_def two_instances_def)
  have k: "''g:80'' \<noteq> address_key (su_show broken_check) (plain_instance ''a'' 1)"
    by (simp add: address_key_def broken_check_def plain_instance_def)
  have e: "isinstance_exn (Exn RuntimeError 0 [] PNone None) PyException" by code_simp
  have "fst (check_loop_pass broken_check [''svc''] g) = SleepFor 1" for g
    using loop_starves [of "[broken_check]" "''svc''" "[]" "plain_instance ''a'' 1" "[plain_instance ''b'' 1]" "''g:80''"
        "\<lparr>hg_config = default_health_config, hg_allow = False, hg_cache = []\<rparr>"] f k e by auto
  then show ?thesis .
qed

section \<open>The default checker's answers\<close>

text \<open>
  The default checker answers every failure, of making the client or of the call, as an
  unhealthy result: only what is no \<open>Exception\<close> gets out. It calls an instance healthy exactly when a client
  could be had, it answered, and its status reads \<open>healthy\<close>.
\<close>

theorem check_answers:
  assumes "fst (default_check env now_ms latency i clients) = r"
  shows "(case r of
      Inl e \<Rightarrow> \<not> isinstance_exn e PyException
    | Inr res \<Rightarrow> passed res \<longleftrightarrow>
        (\<exists>c raw. fst (checker_client env i clients) = Inr c
           \<and> dc_health env c (if si_service_name i \<noteq> [] then Some (si_service_name i) else None) = Inr raw
           \<and> getattr_value raw \<noteq> PNone \<and> py_lower (dc_str env (getattr_value raw)) = ''healthy''))"
proof -
  have st: "status_of_answer env raw = HEALTHY \<longleftrightarrow>
    getattr_value raw \<noteq> PNone \<and> py_lower (dc_str env (getattr_value raw)) = ''healthy''" for raw
    by (auto simp: status_of_answer_def to_health_status_def health_status_name_def Let_def)
  obtain got cs where g: "checker_client env i clients = (got, cs)" by force
  show ?thesis
  proof (cases got)
    case (Inl e)
    with g assms show ?thesis by (auto simp: default_check_def failed_check_def Let_def)
  next
    case (Inr c)
    show ?thesis
    proof (cases "dc_health env c (if si_service_name i \<noteq> [] then Some (si_service_name i) else None)")
      case (Inl e)
      with g Inr assms show ?thesis by (auto simp: default_check_def failed_check_def Let_def)
    next
      case (Inr raw)
      with g \<open>got = Inr c\<close> assms st [of raw] show ?thesis by (auto simp: default_check_def Let_def)
    qed
  qed
qed

definition up_server :: "nat checker_env" where
  "up_server = \<lparr>dc_factory = Some (\<lambda>_ _. Inr 0), dc_create_client = (\<lambda>_ _. Inr 0), dc_health = (\<lambda>_ _. Inr (PStr ''healthy'')),
     dc_str = (\<lambda>v. case v of PStr s \<Rightarrow> s | _ \<Rightarrow> []), dc_show = (\<lambda>_. ''80'')\<rparr>"

theorem check_answers_witness:
  "\<exists>res. fst (default_check up_server 0 1 (plain_instance ''a'' 1) []) = Inr res \<and> passed res"
proof -
  have ok: "fst (checker_client up_server (plain_instance ''a'' 1) []) = Inr 0" by (simp add: checker_client_def up_server_def plain_instance_def Let_def)
  obtain res where res: "fst (default_check up_server 0 1 (plain_instance ''a'' 1) []) = Inr res"
    by (simp add: default_check_def checker_client_def up_server_def plain_instance_def Let_def)
  have "py_lower ''healthy'' = ''healthy''" by code_simp
  with check_answers [OF res] ok res show ?thesis by (simp add: up_server_def getattr_value_def plain_instance_def)
qed

end
