(* ===== verification/Config_Loader.thy ===== *)
theory Config_Loader
  imports Rpc_Errors
begin

text \<open>
  Loading configuration (\<open>config/loader.py\<close>) and following its file (\<open>config/provider.py\<close>): variables of the
  environment in values, values that are lists in text, the root section, override files
  and the reloader that polls the file. Other sources are in \<open>Config_Sources\<close>. The YAML parser and the file system are parameters.
\<close>

section \<open>Variables of the environment\<close>

definition config_error :: "string \<Rightarrow> exn" where
  "config_error msg = Exn (Custom ''ConfigError'' RuntimeError) 0 msg PNone None"

definition name_start :: "char \<Rightarrow> bool" where
  "name_start c \<longleftrightarrow> is_alpha c \<or> c = CHR ''_''"

definition name_char :: "char \<Rightarrow> bool" where
  "name_char c \<longleftrightarrow> is_alpha c \<or> is_digit c \<or> c = CHR ''_''"

text \<open>
  What the pattern \<open>${NAME}\<close> or \<open>${NAME:-default}\<close> matches at the front: name, default and what follows.
  The default goes up to the first brace and has no line break.
\<close>

definition match_name :: "string \<Rightarrow> (string \<times> string) option" where
  "match_name s =
     (case s of
        [] \<Rightarrow> None
      | c # cs \<Rightarrow> if name_start c then Some (c # takeWhile name_char cs, dropWhile name_char cs) else None)"

definition match_default :: "string \<Rightarrow> (string option \<times> string) option" where
  "match_default s =
     (if starts_with s ''}'' then Some (None, tl s)
      else if starts_with s '':-'' then
        (let body = drop 2 s; d = takeWhile (\<lambda>c. c \<noteq> CHR ''}'' \<and> c \<noteq> CHR 0x0A) body; rest = drop (length d) body in
         if starts_with rest ''}'' then Some (Some d, tl rest) else None)
      else None)"

definition match_var :: "string \<Rightarrow> (string \<times> string option \<times> string) option" where
  "match_var s =
     (if starts_with s ''${'' then
        (case match_name (drop 2 s) of
           None \<Rightarrow> None
         | Some (n, r) \<Rightarrow> (case match_default r of None \<Rightarrow> None | Some (d, rest) \<Rightarrow> Some (n, d, rest)))
      else None)"

text \<open>A variable that is set to the empty string counts as not set.\<close>

definition env_replace :: "(string \<Rightarrow> string option) \<Rightarrow> string \<Rightarrow> string option \<Rightarrow> exn + string" where
  "env_replace env name dflt =
     (case env name of
        Some (c # cs) \<Rightarrow> Inr (c # cs)
      | _ \<Rightarrow>
          (case dflt of
             None \<Rightarrow> Inl (config_error (''Environment variable '' @ name @ '' is not set and no default provided''))
           | Some d \<Rightarrow> Inr d))"

lemma match_default_shorter: "match_default s = Some (d, rest) \<Longrightarrow> length rest < length s"
proof (cases s)
  case (Cons c cs)
  assume "match_default s = Some (d, rest)"
  moreover have "length r < n" if "drop k t = x # r" "length t \<le> n" for k t n and x :: char and r
    using arg_cong [OF that(1), of length] that(2) by simp
  ultimately show ?thesis using Cons by (fastforce simp: match_default_def Let_def starts_with_iff split: if_splits)
qed (simp add: match_default_def)

lemma match_var_shorter: "match_var s = Some (n, d, rest) \<Longrightarrow> length rest < length s"
proof -
  assume m: "match_var s = Some (n, d, rest)"
  then obtain r where r: "match_name (drop 2 s) = Some (n, r)" "match_default r = Some (d, rest)"
    by (auto simp: match_var_def split: if_splits option.splits)
  have "length r \<le> length (drop 2 s)"
    using r(1) length_dropWhile_le [of name_char "tl (drop 2 s)"]
    by (auto simp: match_name_def split: list.splits if_splits)
  with match_default_shorter [OF r(2)] show ?thesis by simp
qed

function expand_env_value :: "(string \<Rightarrow> string option) \<Rightarrow> string \<Rightarrow> exn + string" where
  "expand_env_value env [] = Inr []"
| "expand_env_value env (c # cs) =
     (case match_var (c # cs) of
        None \<Rightarrow> (case expand_env_value env cs of Inl e \<Rightarrow> Inl e | Inr t \<Rightarrow> Inr (c # t))
      | Some (n, d, rest) \<Rightarrow>
          (case env_replace env n d of
             Inl e \<Rightarrow> Inl e
           | Inr v \<Rightarrow> (case expand_env_value env rest of Inl e \<Rightarrow> Inl e | Inr t \<Rightarrow> Inr (v @ t))))"
  by pat_completeness auto

termination
  by (relation "measure (\<lambda>(env, s). length s)") (auto dest: match_var_shorter)

text \<open>In the whole of a parsed file, keys excepted.\<close>

fun all_ok :: "('a \<Rightarrow> 'e + 'b) \<Rightarrow> 'a list \<Rightarrow> 'e + 'b list" where
  "all_ok f [] = Inr []"
| "all_ok f (x # xs) =
     (case f x of Inl e \<Rightarrow> Inl e | Inr y \<Rightarrow> (case all_ok f xs of Inl e \<Rightarrow> Inl e | Inr ys \<Rightarrow> Inr (y # ys)))"

lemma all_ok_cong [fundef_cong]: "xs = ys \<Longrightarrow> (\<And>x. x \<in> set ys \<Longrightarrow> f x = g x) \<Longrightarrow> all_ok f xs = all_ok g ys"
proof -
  have "(\<And>x. x \<in> set ys \<Longrightarrow> f x = g x) \<Longrightarrow> all_ok f ys = all_ok g ys"
    by (induction ys) (auto split: sum.split)
  then show "xs = ys \<Longrightarrow> (\<And>x. x \<in> set ys \<Longrightarrow> f x = g x) \<Longrightarrow> all_ok f xs = all_ok g ys" by blast
qed

definition on_ok :: "('a \<Rightarrow> 'b) \<Rightarrow> 'e + 'a \<Rightarrow> 'e + 'b" where
  "on_ok f r = (case r of Inl e \<Rightarrow> Inl e | Inr x \<Rightarrow> Inr (f x))"

lemma config_item_size: "p \<in> set d \<Longrightarrow> size (snd p) < size (PDict d)"
  by (induction d) auto

lemma config_element_size: "x \<in> set xs \<Longrightarrow> size x < size (PList xs)"
  by (induction xs) auto

function expand_env_in_data :: "(string \<Rightarrow> string option) \<Rightarrow> pyval \<Rightarrow> exn + pyval" where
  "expand_env_in_data env (PStr s) = on_ok PStr (expand_env_value env s)"
| "expand_env_in_data env (PDict d) = on_ok PDict (all_ok (\<lambda>p. on_ok (Pair (fst p)) (expand_env_in_data env (snd p))) d)"
| "expand_env_in_data env (PList xs) = on_ok PList (all_ok (expand_env_in_data env) xs)"
| "expand_env_in_data env PNone = Inr PNone"
| "expand_env_in_data env (PBool b) = Inr (PBool b)"
| "expand_env_in_data env (PInt i) = Inr (PInt i)"
| "expand_env_in_data env (PFloat r) = Inr (PFloat r)"
| "expand_env_in_data env (PEnum c v) = Inr (PEnum c v)"
  by pat_completeness auto

termination
  by (relation "measure (\<lambda>(env, v). size v)") (auto dest: config_item_size config_element_size)

text \<open>Texts in square brackets that parse to a list are that list; \<open>yaml\<close> is \<open>yaml.safe_load\<close>.\<close>

definition text_list :: "(string \<Rightarrow> exn + pyval) \<Rightarrow> string \<Rightarrow> exn + pyval" where
  "text_list yaml s =
     (let t = py_strip s in
      if starts_with t ''['' \<and> ends_with t '']''
      then (case yaml t of Inl e \<Rightarrow> Inl e | Inr (PList xs) \<Rightarrow> Inr (PList xs) | Inr _ \<Rightarrow> Inr (PStr s))
      else Inr (PStr s))"

function coerce_env_list_values :: "(string \<Rightarrow> exn + pyval) \<Rightarrow> pyval \<Rightarrow> exn + pyval" where
  "coerce_env_list_values yaml (PStr s) = text_list yaml s"
| "coerce_env_list_values yaml (PDict d) =
     on_ok PDict (all_ok (\<lambda>p. on_ok (Pair (fst p)) (coerce_env_list_values yaml (snd p))) d)"
| "coerce_env_list_values yaml (PList xs) = on_ok PList (all_ok (coerce_env_list_values yaml) xs)"
| "coerce_env_list_values yaml PNone = Inr PNone"
| "coerce_env_list_values yaml (PBool b) = Inr (PBool b)"
| "coerce_env_list_values yaml (PInt i) = Inr (PInt i)"
| "coerce_env_list_values yaml (PFloat r) = Inr (PFloat r)"
| "coerce_env_list_values yaml (PEnum c v) = Inr (PEnum c v)"
  by pat_completeness auto

termination
  by (relation "measure (\<lambda>(yaml, v). size v)") (auto dest: config_item_size config_element_size)

section \<open>Files\<close>

fun is_mapping :: "pyval \<Rightarrow> bool" where
  "is_mapping (PDict d) = True"
| "is_mapping _ = False"

definition parse_yaml_with_env :: "(string \<Rightarrow> exn + pyval) \<Rightarrow> (string \<Rightarrow> string option) \<Rightarrow> string \<Rightarrow> exn + pyval" where
  "parse_yaml_with_env yaml env content =
     (case yaml content of
        Inl e \<Rightarrow> Inl e
      | Inr v \<Rightarrow>
          (case (if py_truthy v then v else PDict []) of
             PDict d \<Rightarrow>
               (case expand_env_in_data env (PDict d) of Inl e \<Rightarrow> Inl e | Inr x \<Rightarrow> coerce_env_list_values yaml x)
           | _ \<Rightarrow> Inl (config_error ''Config file must parse to a mapping'')))"

definition normalize_config_root :: "(string, pyval) dict \<Rightarrow> exn + (string, pyval) dict" where
  "normalize_config_root d =
     (case map_of d ''aduib_rpc'' of
        None \<Rightarrow> Inr d
      | Some (PDict nested) \<Rightarrow>
          Inr (fold (\<lambda>(k, v) m. AList.update k v m) (filter (\<lambda>p. fst p \<noteq> ''aduib_rpc'') d) nested)
      | Some _ \<Rightarrow> Inl (config_error ''aduib_rpc section must be a mapping''))"

lemma size_items_le: "size_list (\<lambda>p. size (snd p)) d \<le> size_list (size_prod (\<lambda>x. 0) size) d"
  by (rule size_list_pointwise) (auto simp: prod.size_gen split: prod.split)

function merge_mapping :: "(string, pyval) dict \<Rightarrow> (string, pyval) dict \<Rightarrow> (string, pyval) dict" where
  "merge_mapping base [] = base"
| "merge_mapping base ((k, v) # override) =
     merge_mapping
       (AList.update k
          (case (map_of base k, v) of (Some (PDict b), PDict o') \<Rightarrow> PDict (merge_mapping b o') | _ \<Rightarrow> v) base)
       override"
  by pat_completeness auto

termination
  by (relation "measure (\<lambda>(base, override). size_list (\<lambda>p. size (snd p)) override)")
    (auto intro!: le_imp_less_Suc le_SucI trans_le_add1 size_items_le)

definition suffix_of :: "string \<Rightarrow> string" where
  "suffix_of path =
     (let name = rev (takeWhile (\<lambda>c. c \<noteq> CHR ''/'') (rev path)); r = takeWhile (\<lambda>c. c \<noteq> CHR ''.'') (rev name) in
      if length r < length name \<and> r \<noteq> [] \<and> length r + 1 < length name then CHR ''.'' # rev r else [])"

text \<open>\<open>read\<close> is what the file system has at a path; a file that is not there or not a file is \<open>None\<close>.\<close>

definition wrapped_error :: "string \<Rightarrow> exn \<Rightarrow> exn" where
  "wrapped_error msg e =
     (if exn_class e = Custom ''ConfigError'' RuntimeError then e
      else if isinstance_exn e PyException then Exn (Custom ''ConfigError'' RuntimeError) 0 msg PNone (Some e)
      else e)"

definition load_config_mapping ::
  "(string \<Rightarrow> exn + pyval) \<Rightarrow> (string \<Rightarrow> string option) \<Rightarrow> (string \<Rightarrow> (exn + string) option) \<Rightarrow> string \<Rightarrow> exn + (string, pyval) dict" where
  "load_config_mapping yaml env read path =
     (if py_lower (suffix_of path) \<notin> {''.yaml'', ''.yml''}
      then Inl (config_error (''Unsupported config file type: '' @ suffix_of path))
      else (case read path of
              None \<Rightarrow> Inl (config_error (''Config file not found: '' @ path))
            | Some content \<Rightarrow>
                (case (case content of Inl e \<Rightarrow> Inl e | Inr t \<Rightarrow> parse_yaml_with_env yaml env t) of
                   Inl e \<Rightarrow> Inl (wrapped_error (''Failed to load config file: '' @ path) e)
                 | Inr (PDict d) \<Rightarrow> normalize_config_root d
                 | Inr _ \<Rightarrow> Inl (config_error ''Configuration must be a mapping''))))"

text \<open>\<open>build\<close> is \<open>AduibRpcConfig.from_dict\<close>.\<close>

definition load_config_file ::
  "((string, pyval) dict \<Rightarrow> exn + 'c) \<Rightarrow> (string \<Rightarrow> exn + pyval) \<Rightarrow> (string \<Rightarrow> string option)
     \<Rightarrow> (string \<Rightarrow> (exn + string) option) \<Rightarrow> string \<Rightarrow> exn + 'c" where
  "load_config_file build yaml env read path =
     (case load_config_mapping yaml env read path of
        Inl e \<Rightarrow> Inl e
      | Inr d \<Rightarrow> (case build d of Inl e \<Rightarrow> Inl (wrapped_error (''Failed to build config from '' @ path) e) | Inr c \<Rightarrow> Inr c))"

definition default_config_path :: "string \<Rightarrow> string \<Rightarrow> (string \<Rightarrow> bool) \<Rightarrow> string option" where
  "default_config_path cwd home is_file =
     List.find is_file
       [cwd @ ''/aduib_rpc.yaml'', cwd @ ''/aduib_rpc.yml'', home @ ''/.aduib_rpc.yaml'', home @ ''/.aduib_rpc.yml'',
        ''/etc/aduib_rpc/config.yaml'', ''/etc/aduib_rpc/config.yml'']"

definition load_config ::
  "((string, pyval) dict \<Rightarrow> exn + 'c) \<Rightarrow> (string \<Rightarrow> exn + pyval) \<Rightarrow> (string \<Rightarrow> string option)
     \<Rightarrow> (string \<Rightarrow> (exn + string) option) \<Rightarrow> string \<Rightarrow> string \<Rightarrow> string \<Rightarrow> exn + 'c" where
  "load_config build yaml env read cwd home path =
     (if path \<noteq> [] then load_config_file build yaml env read path
      else (case default_config_path cwd home (\<lambda>p. read p \<noteq> None) of
              None \<Rightarrow> Inl (config_error ''No default config file found'')
            | Some p \<Rightarrow> load_config_file build yaml env read p))"

fun merge_overloads ::
  "(string \<Rightarrow> exn + (string, pyval) dict) \<Rightarrow> string list \<Rightarrow> (string, pyval) dict \<Rightarrow> exn + (string, pyval) dict" where
  "merge_overloads load [] merged = Inr merged"
| "merge_overloads load (p # ps) merged =
     (case load p of Inl e \<Rightarrow> Inl e | Inr o' \<Rightarrow> merge_overloads load ps (merge_mapping merged o'))"

definition load_config_with_overloads ::
  "((string, pyval) dict \<Rightarrow> exn + 'c) \<Rightarrow> (string \<Rightarrow> exn + (string, pyval) dict) \<Rightarrow> string \<Rightarrow> string list \<Rightarrow> exn + 'c" where
  "load_config_with_overloads build load base overloads =
     (case load base of
        Inl e \<Rightarrow> Inl e
      | Inr d \<Rightarrow>
          (case merge_overloads load overloads d of
             Inl e \<Rightarrow> Inl e
           | Inr m \<Rightarrow>
               (case build m of
                  Inl e \<Rightarrow>
                    Inl (if isinstance_exn e PyException
                         then Exn (Custom ''ConfigError'' RuntimeError) 0 ''Failed to build config with overrides'' PNone (Some e) else e)
                | Inr c \<Rightarrow> Inr c)))"

section \<open>Following a file\<close>

text \<open>
  The reloader: content and time of the file (\<open>None\<close> when it is not there), the time it remembers, the content
  the target was last built from, and whether it has loaded the file and not yet looked at its time. \<open>good\<close>
  says which contents make a configuration; others are reported and leave the target as it is. Others may write
  the file at any moment.
\<close>

record reloader =
  rl_file :: "(string \<times> nat) option"
  rl_last_mtime :: "nat option"
  rl_target :: string
  rl_loaded :: bool
  rl_errors :: nat

definition stat_mtime :: "reloader \<Rightarrow> nat option" where
  "stat_mtime s = map_option snd (rl_file s)"

text \<open>\<open>refresh\<close> up to the update of the target, and the rest of it.\<close>

definition refresh_load :: "(string \<Rightarrow> bool) \<Rightarrow> reloader \<Rightarrow> reloader" where
  "refresh_load good s =
     (case rl_file s of
        Some (c, _) \<Rightarrow> if good c then s\<lparr>rl_target := c, rl_loaded := True\<rparr> else s\<lparr>rl_errors := Suc (rl_errors s)\<rparr>
      | None \<Rightarrow> s\<lparr>rl_errors := Suc (rl_errors s)\<rparr>)"

definition refresh_stat :: "reloader \<Rightarrow> reloader" where
  "refresh_stat s = s\<lparr>rl_last_mtime := stat_mtime s, rl_loaded := False\<rparr>"

text \<open>What a round of \<open>_poll_loop\<close> begins with.\<close>

definition poll :: "(string \<Rightarrow> bool) \<Rightarrow> reloader \<Rightarrow> reloader" where
  "poll good s =
     (if stat_mtime s \<noteq> None \<and> stat_mtime s \<noteq> rl_last_mtime s then refresh_load good s else s)"

definition write_file :: "string \<Rightarrow> nat \<Rightarrow> reloader \<Rightarrow> reloader" where
  "write_file c m s = s\<lparr>rl_file := Some (c, m)\<rparr>"

inductive reload_step :: "(string \<Rightarrow> bool) \<Rightarrow> reloader \<Rightarrow> reloader \<Rightarrow> bool" for good where
  step_poll: "\<not> rl_loaded s \<Longrightarrow> reload_step good s (poll good s)"
| step_refresh: "\<not> rl_loaded s \<Longrightarrow> reload_step good s (refresh_load good s)"
| step_stat: "rl_loaded s \<Longrightarrow> reload_step good s (refresh_stat s)"
| step_write: "case stat_mtime s of None \<Rightarrow> True | Some m' \<Rightarrow> m' < m \<Longrightarrow> reload_step good s (write_file c m s)"

text \<open>The same, with nobody writing between loading the file and looking at its time.\<close>

inductive calm_step :: "(string \<Rightarrow> bool) \<Rightarrow> reloader \<Rightarrow> reloader \<Rightarrow> bool" for good where
  calm_poll: "\<not> rl_loaded s \<Longrightarrow> calm_step good s (poll good s)"
| calm_refresh: "\<not> rl_loaded s \<Longrightarrow> calm_step good s (refresh_load good s)"
| calm_stat: "rl_loaded s \<Longrightarrow> calm_step good s (refresh_stat s)"
| calm_write: "\<not> rl_loaded s \<Longrightarrow> (case stat_mtime s of None \<Rightarrow> True | Some m' \<Rightarrow> m' < m) \<Longrightarrow> calm_step good s (write_file c m s)"

definition new_reloader :: "string \<Rightarrow> (string \<times> nat) option \<Rightarrow> reloader" where
  "new_reloader target file = \<lparr>rl_file = file, rl_last_mtime = None, rl_target = target, rl_loaded = False, rl_errors = 0\<rparr>"

definition reload_inv :: "reloader \<Rightarrow> bool" where
  "reload_inv s \<longleftrightarrow>
     (if rl_loaded s then \<exists>m. rl_file s = Some (rl_target s, m)
      else case rl_last_mtime s of
             None \<Rightarrow> True
           | Some m \<Rightarrow> (\<exists>c m'. rl_file s = Some (c, m') \<and> m \<le> m' \<and> (m = m' \<longrightarrow> c = rl_target s)))"

lemma calm_inv: "calm_step good s t \<Longrightarrow> reload_inv s \<Longrightarrow> reload_inv t"
proof (induction rule: calm_step.induct)
  case (calm_poll s)
  then show ?case
    by (auto simp: reload_inv_def poll_def refresh_load_def stat_mtime_def split: option.splits)
next
  case (calm_refresh s)
  then show ?case
    by (auto simp: reload_inv_def refresh_load_def stat_mtime_def split: option.splits)
next
  case (calm_stat s)
  then show ?case by (auto simp: reload_inv_def refresh_stat_def stat_mtime_def)
next
  case (calm_write s m c)
  then show ?case by (auto simp: reload_inv_def write_file_def stat_mtime_def split: option.splits)
qed

lemma calm_steps_inv: "(calm_step good)\<^sup>*\<^sup>* s t \<Longrightarrow> reload_inv s \<Longrightarrow> reload_inv t"
  by (induction rule: rtranclp_induct) (auto intro: calm_inv)



text \<open>
  A write that falls between loading the file and looking at its time is lost: the
  reloader remembers the new file's time with the old file's content, and from then on polling changes nothing
  until somebody writes the file again.
\<close>

theorem reload_loses_write:
  assumes "good old" "m < m'"
  shows "\<exists>s. (reload_step good)\<^sup>*\<^sup>* (new_reloader c0 (Some (old, m))) s \<and> rl_file s = Some (new, m') \<and> rl_target s = old
    \<and> \<not> rl_loaded s \<and> poll good s = s"
proof -
  let ?s0 = "new_reloader c0 (Some (old, m))"
  let ?s1 = "refresh_load good ?s0"
  let ?s2 = "write_file new m' ?s1"
  let ?s3 = "refresh_stat ?s2"
  have "reload_step good ?s0 ?s1" by (rule step_refresh) (simp add: new_reloader_def)
  moreover have "reload_step good ?s1 ?s2"
    by (rule step_write) (use assms in \<open>simp add: new_reloader_def refresh_load_def stat_mtime_def\<close>)
  moreover have "reload_step good ?s2 ?s3"
    by (rule step_stat) (use assms in \<open>simp add: new_reloader_def refresh_load_def write_file_def\<close>)
  ultimately have "(reload_step good)\<^sup>*\<^sup>* ?s0 ?s3" by (meson converse_rtranclp_into_rtranclp rtranclp.rtrancl_refl)
  moreover have "rl_file ?s3 = Some (new, m') \<and> rl_target ?s3 = old \<and> \<not> rl_loaded ?s3 \<and> poll good ?s3 = ?s3"
    using assms by (simp add: new_reloader_def refresh_load_def write_file_def refresh_stat_def stat_mtime_def poll_def)
  ultimately show ?thesis by blast
qed

theorem reload_loses_write_witness:
  "\<exists>s. (reload_step (\<lambda>_. True))\<^sup>*\<^sup>* (new_reloader ''a'' (Some (''a'', 1))) s \<and> rl_file s = Some (''b'', 2) \<and> rl_target s = ''a''
    \<and> \<not> rl_loaded s \<and> poll (\<lambda>_. True) s = s"
  using reload_loses_write [of "\<lambda>_. True" "''a''" 1 2 "''a''" "''b''"] by simp

section \<open>What expansion does\<close>

text \<open>Texts as they are written: pieces without dollar signs, and variables.\<close>

datatype env_piece = Text string | Var string "string option"

fun render_piece :: "env_piece \<Rightarrow> string" where
  "render_piece (Text t) = t"
| "render_piece (Var n None) = ''${'' @ n @ ''}''"
| "render_piece (Var n (Some d)) = ''${'' @ n @ '':-'' @ d @ ''}''"

fun piece_ok :: "env_piece \<Rightarrow> bool" where
  "piece_ok (Text t) \<longleftrightarrow> CHR ''$'' \<notin> set t"
| "piece_ok (Var n d) \<longleftrightarrow>
     n \<noteq> [] \<and> name_start (hd n) \<and> (\<forall>c \<in> set (tl n). name_char c)
     \<and> (case d of None \<Rightarrow> True | Some d \<Rightarrow> CHR ''}'' \<notin> set d \<and> CHR 0x0A \<notin> set d)"

fun piece_value :: "(string \<Rightarrow> string option) \<Rightarrow> env_piece \<Rightarrow> exn + string" where
  "piece_value env (Text t) = Inr t"
| "piece_value env (Var n d) = env_replace env n d"

lemma match_var_dollar: "c \<noteq> CHR ''$'' \<Longrightarrow> match_var (c # cs) = None"
  by (simp add: match_var_def)

lemma expand_text: "CHR ''$'' \<notin> set t \<Longrightarrow> expand_env_value env (t @ s) = on_ok (append t) (expand_env_value env s)"
proof (induction t)
  case Nil
  show ?case by (simp add: on_ok_def split: sum.split)
next
  case (Cons c t)
  then have "match_var (c # t @ s) = None" by (intro match_var_dollar) auto
  with Cons show ?case by (simp add: on_ok_def split: sum.split)
qed

lemma not_name_char: "\<not> name_char (CHR ''}'')" "\<not> name_char (CHR '':'')"
  by code_simp+

lemma take_name:
  "\<forall>c \<in> set cs. P c \<Longrightarrow> \<not> P x \<Longrightarrow> takeWhile P (cs @ x # r) = cs \<and> dropWhile P (cs @ x # r) = x # r"
  by (induction cs) auto

lemma match_var_render:
  assumes "piece_ok (Var n d)"
  shows "match_var (render_piece (Var n d) @ s) = Some (n, d, s)"
proof -
  from assms obtain c cs where n: "n = c # cs" "name_start c" "\<forall>x \<in> set cs. name_char x" by (cases n) auto
  show ?thesis
  proof (cases d)
    case None
    with n take_name [OF n(3) not_name_char(1), of s] show ?thesis
      by (simp add: match_var_def match_name_def match_default_def)
  next
    case (Some v)
    with assms have v: "\<forall>x \<in> set v. x \<noteq> CHR ''}'' \<and> x \<noteq> CHR 0x0A" by auto
    have "takeWhile (\<lambda>c. c \<noteq> CHR ''}'' \<and> c \<noteq> CHR 0x0A) (v @ CHR ''}'' # s) = v"
      using take_name [OF v, of "CHR ''}''" s] by simp
    with n Some take_name [OF n(3) not_name_char(2), of "''-'' @ v @ ''}'' @ s"] show ?thesis
      by (simp add: match_var_def match_name_def match_default_def Let_def)
  qed
qed

lemma expand_var:
  assumes "piece_ok (Var n d)"
  shows "expand_env_value env (render_piece (Var n d) @ s) =
    (case env_replace env n d of Inl e \<Rightarrow> Inl e | Inr v \<Rightarrow> on_ok (append v) (expand_env_value env s))"
proof -
  obtain c cs where r: "render_piece (Var n d) = c # cs" by (cases d) auto
  with match_var_render [OF assms, of s] show ?thesis by (auto simp: on_ok_def split: sum.split)
qed

text \<open>
  C35. A value of the configuration is expanded piece by piece: texts stay, each variable is
  replaced by its value, or its default when it is not set or empty, and a variable with neither is an error; what
  is put in is not expanded again.
\<close>

theorem env_expansion:
  assumes "\<forall>p \<in> set ps. piece_ok p"
  shows "expand_env_value env (concat (map render_piece ps)) = on_ok concat (all_ok (piece_value env) ps)"
  using assms
proof (induction ps)
  case Nil
  show ?case by (simp add: on_ok_def)
next
  case (Cons p ps)
  then have IH: "expand_env_value env (concat (map render_piece ps)) = on_ok concat (all_ok (piece_value env) ps)" by simp
  show ?case
  proof (cases p)
    case (Text t)
    with Cons.prems IH expand_text [of t env "concat (map render_piece ps)"] show ?thesis
      by (auto simp: on_ok_def split: sum.split)
  next
    case (Var n d)
    with Cons.prems IH expand_var [of n d env "concat (map render_piece ps)"] show ?thesis
      by (auto simp: on_ok_def split: sum.split)
  qed
qed

theorem env_expansion_witness:
  "expand_env_value (\<lambda>n. if n = ''A'' then Some ''${B}'' else None) ''x${A}/${C:-d}'' = Inr ''x${B}/d''"
proof -
  have "\<forall>p \<in> set [Text ''x'', Var ''A'' None, Text ''/'', Var ''C'' (Some ''d'')]. piece_ok p"
    by (simp add: name_start_def is_alpha_def ascii_code_def)
  from env_expansion [OF this, of "\<lambda>n. if n = ''A'' then Some ''${B}'' else None"]
  show ?thesis by (simp add: env_replace_def on_ok_def)
qed

section \<open>What merging does\<close>

fun config_at :: "string list \<Rightarrow> pyval \<Rightarrow> pyval option" where
  "config_at [] v = Some v"
| "config_at (k # ks) (PDict d) = (case map_of d k of None \<Rightarrow> None | Some v \<Rightarrow> config_at ks v)"
| "config_at (k # ks) _ = None"

lemma config_at_scalar: "\<not> is_mapping v \<Longrightarrow> ks \<noteq> [] \<Longrightarrow> config_at ks v = None"
  by (cases v; cases ks) auto

definition merged_value :: "pyval option \<Rightarrow> pyval \<Rightarrow> pyval" where
  "merged_value b v = (case (b, v) of (Some (PDict b), PDict o') \<Rightarrow> PDict (merge_mapping b o') | _ \<Rightarrow> v)"

lemma merge_lookup:
  "dict_wf override \<Longrightarrow> map_of (merge_mapping base override) k =
    (case map_of override k of None \<Rightarrow> map_of base k | Some v \<Rightarrow> Some (merged_value (map_of base k) v))"
proof (induction override arbitrary: base)
  case (Cons p override)
  obtain k' v where p: "p = (k', v)" by force
  have notin: "map_of override k' = None" using Cons.prems p by (simp add: map_of_eq_None_iff)
  have m: "merge_mapping base (p # override) = merge_mapping (AList.update k' (merged_value (map_of base k') v) base) override"
    by (simp add: p merged_value_def split: option.splits pyval.splits)
  have "dict_wf override" using Cons.prems by simp
  from Cons.IH [OF this, of "AList.update k' (merged_value (map_of base k') v) base"] show ?case
    unfolding m using notin p by (auto simp: map_of_dict_update simp del: dict_opaque merge_mapping.simps split: option.splits)
qed simp

text \<open>A dictionary has each key once, at every level of sections.\<close>

function all_wf :: "pyval \<Rightarrow> bool" where
  "all_wf (PDict d) \<longleftrightarrow> dict_wf d \<and> (\<forall>p \<in> set d. all_wf (snd p))"
| "all_wf (PList xs) \<longleftrightarrow> True"
| "all_wf (PStr s) \<longleftrightarrow> True"
| "all_wf PNone \<longleftrightarrow> True"
| "all_wf (PBool b) \<longleftrightarrow> True"
| "all_wf (PInt i) \<longleftrightarrow> True"
| "all_wf (PFloat r) \<longleftrightarrow> True"
| "all_wf (PEnum c v) \<longleftrightarrow> True"
  by pat_completeness auto

termination
  by (relation "measure size") (auto dest: config_item_size)

lemma all_wf_item: "all_wf (PDict d) \<Longrightarrow> map_of d k = Some v \<Longrightarrow> all_wf v"
  by (auto dest!: map_of_SomeD simp del: dict_opaque)

lemma config_at_Cons: "config_at (k # ks) (PDict d) = Option.bind (map_of d k) (config_at ks)"
  by (simp split: option.split)

declare config_at.simps(2) [simp del]

lemma merged_value_cases:
  "merged_value b v = v \<or> (\<exists>b' o'. b = Some (PDict b') \<and> v = PDict o' \<and> merged_value b v = PDict (merge_mapping b' o'))"
  by (simp add: merged_value_def split: option.splits pyval.splits)

lemma merged_value_dict: "merged_value (Some (PDict b)) (PDict o') = PDict (merge_mapping b o')"
  by (simp add: merged_value_def)

lemma merge_at_value:
  "all_wf (PDict override) \<Longrightarrow> config_at ks (PDict override) = Some v \<Longrightarrow> \<not> is_mapping v
    \<Longrightarrow> config_at ks (PDict (merge_mapping base override)) = Some v"
proof (induction ks arbitrary: base override)
  case (Cons k ks)
  obtain vo where vo: "map_of override k = Some vo" "config_at ks vo = Some v"
    using Cons.prems(2) by (auto simp: config_at_Cons bind_eq_Some_conv simp del: dict_opaque)
  have m: "map_of (merge_mapping base override) k = Some (merged_value (map_of base k) vo)"
    using merge_lookup [of override base k] Cons.prems(1) vo(1) by simp
  have wf: "all_wf vo" using all_wf_item [OF Cons.prems(1) vo(1)] .
  from merged_value_cases [of "map_of base k" vo] have "config_at ks (merged_value (map_of base k) vo) = Some v"
  proof
    assume "\<exists>b' o'. map_of base k = Some (PDict b') \<and> vo = PDict o' \<and> merged_value (map_of base k) vo = PDict (merge_mapping b' o')"
    then obtain b' o' where "vo = PDict o'" "merged_value (map_of base k) vo = PDict (merge_mapping b' o')" by blast
    with Cons.IH [of o' b'] wf vo(2) Cons.prems(3) show ?thesis by simp
  qed (use vo in simp)
  with m show ?case by (simp add: config_at_Cons)
qed auto

lemma merge_at_absent:
  "all_wf (PDict override) \<Longrightarrow> config_at ks (PDict override) = None
    \<Longrightarrow> (\<And>n v. config_at (take n ks) (PDict override) = Some v \<Longrightarrow> is_mapping v)
    \<Longrightarrow> config_at ks (PDict (merge_mapping base override)) = config_at ks (PDict base)"
proof (induction ks arbitrary: base override)
  case (Cons k ks)
  have look: "map_of (merge_mapping base override) k =
    (case map_of override k of None \<Rightarrow> map_of base k | Some v \<Rightarrow> Some (merged_value (map_of base k) v))"
    using merge_lookup [of override base k] Cons.prems(1) by simp
  show ?case
  proof (cases "map_of override k")
    case None
    with look show ?thesis by (simp add: config_at_Cons)
  next
    case (Some vo)
    have "config_at (take 1 (k # ks)) (PDict override) = Some vo" using Some by (simp add: config_at_Cons)
    then obtain o' where o': "vo = PDict o'" using Cons.prems(3) by (cases vo) fastforce+
    have absent: "config_at ks (PDict o') = None" using Cons.prems(2) Some o' by (simp add: config_at_Cons)
    then have ks: "ks \<noteq> []" by auto
    show ?thesis
    proof (cases "\<exists>b'. map_of base k = Some (PDict b')")
      case True
      then obtain b' where b': "map_of base k = Some (PDict b')" ..
      have "is_mapping v" if "config_at (take n ks) (PDict o') = Some v" for n v
        using Cons.prems(3) [of "Suc n" v] Some o' that by (simp add: config_at_Cons)
      then have "config_at ks (PDict (merge_mapping b' o')) = config_at ks (PDict b')"
        using Cons.IH [of o' b'] all_wf_item [OF Cons.prems(1) Some] o' absent by simp
      with look Some o' b' show ?thesis by (simp add: config_at_Cons merged_value_dict)
    next
      case False
      then have "merged_value (map_of base k) (PDict o') = PDict o'"
        using merged_value_cases [of "map_of base k" "PDict o'"] by blast
      moreover have "Option.bind (map_of base k) (config_at ks) = None"
      proof (cases "map_of base k")
        case (Some v)
        with False have "\<not> is_mapping v" by (cases v) auto
        with config_at_scalar ks Some show ?thesis by simp
      qed simp
      ultimately show ?thesis using look Some o' absent by (simp add: config_at_Cons)
    qed
  qed
qed simp

text \<open>
  An override file wins where it says something: a value of it that is no section is the value
  after merging; and a path that it does not have, and that does not lead through a value of it that is no
  section, keeps the base file's value.
\<close>

theorem merge_paths:
  assumes "all_wf (PDict override)"
  shows "(config_at ks (PDict override) = Some v \<and> \<not> is_mapping v \<longrightarrow> config_at ks (PDict (merge_mapping base override)) = Some v)
    \<and> (config_at ks (PDict override) = None \<and> (\<forall>n v. config_at (take n ks) (PDict override) = Some v \<longrightarrow> is_mapping v)
        \<longrightarrow> config_at ks (PDict (merge_mapping base override)) = config_at ks (PDict base))"
  using merge_at_value [OF assms] merge_at_absent [OF assms] by blast

theorem merge_paths_witness:
  "config_at [''client'', ''http_timeout''] (PDict (merge_mapping [(''client'', PDict [(''http_timeout'', PInt 5)])]
     [(''client'', PDict [(''http_timeout'', PInt 9)])])) = Some (PInt 9)"
  using merge_paths [of "[(''client'', PDict [(''http_timeout'', PInt 9)])]" "[''client'', ''http_timeout'']" "PInt 9"
      "[(''client'', PDict [(''http_timeout'', PInt 5)])]"] by (simp add: config_at_Cons)

end
