(* ===== verification/Nacos.thy ===== *)
theory Nacos
  imports Health_Aware Config_Loader
begin

text \<open>
  The Nacos registry (\<open>discover/registry/nacos\<close>): the client with its caches, its two watchers, and the registry
  that turns what the naming service lists into instances. The SDK is its documented behaviour: instances by
  group and service, texts of configurations, listeners that are called with changes; \<open>json\<close> is \<open>json.loads\<close>.
\<close>

section \<open>The client\<close>

record nacos_instance =
  ni_service_name :: string
  ni_ip :: string
  ni_port :: int
  ni_weight :: rat
  ni_metadata :: "(string, string) dict option"

text \<open>Configurations and instances are kept in one dictionary, \<open>config_cache\<close>.\<close>

datatype cached = Cached_config pyval | Cached_instances "nacos_instance list"

record nacos_client =
  nc_group :: string
  nc_config_cache :: "(string, cached) dict"
  nc_service_cache :: "(string, nacos_instance list) dict"
  nc_callbacks :: "(string, nat list) dict"

definition new_nacos_client :: "string \<Rightarrow> nacos_client" where
  "new_nacos_client grp = \<lparr>nc_group = grp, nc_config_cache = [], nc_service_cache = [], nc_callbacks = []\<rparr>"

text \<open>The naming service: what is registered under a group and a service.\<close>

type_synonym naming = "(string \<times> string, nacos_instance list) dict"

definition DEFAULT_GROUP :: string where
  "DEFAULT_GROUP = ''DEFAULT_GROUP''"

text \<open>\<open>register_instance\<close> names no group, which is the default one.\<close>

definition nacos_register :: "string \<Rightarrow> string \<Rightarrow> int \<Rightarrow> int \<Rightarrow> (string, string) dict option \<Rightarrow> naming \<Rightarrow> naming" where
  "nacos_register name ip port weight md srv =
     AList.update (DEFAULT_GROUP, name)
       (dict_get srv (DEFAULT_GROUP, name) []
          @ [\<lparr>ni_service_name = name, ni_ip = ip, ni_port = port, ni_weight = of_int weight,
              ni_metadata = Some (case md of None \<Rightarrow> [] | Some d \<Rightarrow> d)\<rparr>]) srv"

definition nacos_remove :: "string \<Rightarrow> string \<Rightarrow> int \<Rightarrow> naming \<Rightarrow> naming" where
  "nacos_remove name ip port srv =
     AList.update (DEFAULT_GROUP, name)
       (filter (\<lambda>i. \<not> (ni_ip i = ip \<and> ni_port i = port)) (dict_get srv (DEFAULT_GROUP, name) [])) srv"

text \<open>\<open>answer\<close> is what the naming service answers for the client's group.\<close>

definition client_list_instances ::
  "(string \<times> string \<Rightarrow> exn + nacos_instance list) \<Rightarrow> string \<Rightarrow> nacos_client \<Rightarrow> (exn + cached) \<times> nacos_client" where
  "client_list_instances answer name c =
     (case map_of (nc_config_cache c) name of
        Some x \<Rightarrow> (Inr x, c)
      | None \<Rightarrow>
          (case answer (nc_group c, name) of
             Inl e \<Rightarrow> (Inl e, c)
           | Inr is \<Rightarrow> (Inr (Cached_instances is), c\<lparr>nc_config_cache := AList.update name (Cached_instances is) (nc_config_cache c)\<rparr>)))"

definition empty_cached :: "cached option \<Rightarrow> bool" where
  "empty_cached x \<longleftrightarrow> x = None \<or> x = Some (Cached_config PNone) \<or> x = Some (Cached_config (PStr []))"

definition nacos_get_config ::
  "(string \<Rightarrow> exn + pyval) \<Rightarrow> (string \<Rightarrow> exn + string option) \<Rightarrow> string \<Rightarrow> nacos_client \<Rightarrow> (exn + cached option) \<times> nacos_client" where
  "nacos_get_config json fetch data_id c =
     (if empty_cached (map_of (nc_config_cache c) data_id) then
        (case fetch data_id of
           Inl e \<Rightarrow> (Inl e, c)
         | Inr (Some (x # xs)) \<Rightarrow>
             (case json (x # xs) of
                Inl e \<Rightarrow> (Inl e, c)
              | Inr v \<Rightarrow>
                  (let c1 = c\<lparr>nc_config_cache := AList.update data_id (Cached_config v) (nc_config_cache c)\<rparr>
                   in (Inr (map_of (nc_config_cache c1) data_id), c1)))
         | Inr _ \<Rightarrow> (Inr (map_of (nc_config_cache c) data_id), c))
      else (Inr (map_of (nc_config_cache c) data_id), c))"

definition add_config_callback :: "string \<Rightarrow> nat \<Rightarrow> nacos_client \<Rightarrow> nacos_client" where
  "add_config_callback data_id cb c =
     (let cbs = dict_get (nc_callbacks c) data_id [] in
      c\<lparr>nc_callbacks := AList.update data_id (if cb \<in> set cbs then cbs else cbs @ [cb]) (nc_callbacks c)\<rparr>)"

text \<open>The watcher of configurations gives the callbacks to run, each on the parsed text.\<close>

definition config_watcher ::
  "(string \<Rightarrow> exn + pyval) \<Rightarrow> string \<Rightarrow> string \<Rightarrow> nacos_client \<Rightarrow> (exn + nat list \<times> pyval) \<times> nacos_client" where
  "config_watcher json data_id content c =
     (case json content of
        Inl e \<Rightarrow> (Inl e, c)
      | Inr v \<Rightarrow> (Inr (dict_get (nc_callbacks c) data_id [], v),
                  c\<lparr>nc_config_cache := AList.update data_id (Cached_config v) (nc_config_cache c)\<rparr>))"

text \<open>The watcher of instances groups them by service, and replaces what \<open>service_cache\<close> has of these services.\<close>

definition group_instances :: "nacos_instance list \<Rightarrow> (string, nacos_instance list) dict" where
  "group_instances is =
     fold (\<lambda>i d. AList.update (ni_service_name i) (dict_get d (ni_service_name i) [] @ [i]) d) is []"

definition name_watcher :: "nacos_instance list \<Rightarrow> nacos_client \<Rightarrow> nacos_client" where
  "name_watcher is c =
     c\<lparr>nc_service_cache := fold (\<lambda>(k, v). AList.update k v) (group_instances is) (nc_service_cache c)\<rparr>"

section \<open>The registry\<close>

definition ai_protocol_to_original :: "string option \<Rightarrow> exn + ai_protocol" where
  "ai_protocol_to_original v =
     (if v = Some ''A2A'' then Inr A2A else if v = Some ''AduibRpc'' then Inr AduibRpc
      else Inl (Exn ValueError 0 ''Unsupported AI protocol'' PNone None))"

definition int_of_weight :: "rat \<Rightarrow> int" where
  "int_of_weight w = py_trunc w"

definition instance_of_nacos :: "string \<Rightarrow> nacos_instance \<Rightarrow> exn + service_instance" where
  "instance_of_nacos uuid n =
     (let md = (case ni_metadata n of None \<Rightarrow> [] | Some d \<Rightarrow> d) in
      bind_ok (ai_protocol_to_original (map_of md ''protocol'')) (\<lambda>pr.
      bind_ok (transport_scheme_to_original (map_of md ''scheme'')) (\<lambda>sch.
      case map_of md ''service_name'' of
        None \<Rightarrow> Inl (validation_error ''Input should be a valid string'')
      | Some name \<Rightarrow>
          bind_ok (new_instance uuid None name (ni_ip n) (ni_port n) (int_of_weight (ni_weight n))) (\<lambda>i.
            Inr (i\<lparr>si_scheme := sch, si_protocol := pr, si_metadata := Some md\<rparr>)))))"

text \<open>Each instance gets a new identifier; \<open>hosts\<close> is what pydantic makes of the hosts of a configuration.\<close>

definition registry_list ::
  "(pyval \<Rightarrow> exn + nacos_instance list) \<Rightarrow> (nat \<Rightarrow> string) \<Rightarrow> cached \<Rightarrow> exn + service_instance list" where
  "registry_list hosts uuid x =
     bind_ok
       (case x of
          Cached_instances is \<Rightarrow> Inr is
        | Cached_config v \<Rightarrow>
            if \<not> py_truthy v then Inr []
            else (case v of PDict d \<Rightarrow> hosts (dict_get d ''hosts'' (PList [])) | _ \<Rightarrow> Inl (no_attribute ''ip'')))
       (\<lambda>is. all_ok (\<lambda>(n, i). instance_of_nacos (uuid n) i) (enumerate 0 is))"

definition nacos_list ::
  "(pyval \<Rightarrow> exn + nacos_instance list) \<Rightarrow> (string \<times> string \<Rightarrow> exn + nacos_instance list) \<Rightarrow> (nat \<Rightarrow> string) \<Rightarrow> string
     \<Rightarrow> nacos_client \<Rightarrow> (exn + service_instance list) \<times> nacos_client" where
  "nacos_list hosts answer uuid name c =
     (case client_list_instances answer name c of
        (Inl e, c1) \<Rightarrow> (Inl e, c1)
      | (Inr x, c1) \<Rightarrow> (registry_list hosts uuid x, c1))"

definition nacos_register_service :: "service_instance \<Rightarrow> naming \<Rightarrow> naming" where
  "nacos_register_service i srv =
     nacos_register (si_service_name i) (si_host i) (si_port i) (si_weight i) (si_metadata i) srv"

definition nacos_unregister_service :: "service_instance \<Rightarrow> naming \<Rightarrow> naming" where
  "nacos_unregister_service i srv = nacos_remove (si_service_name i) (si_host i) (si_port i) srv"

definition nacos_discover ::
  "lb_lib \<Rightarrow> lb_policy \<Rightarrow> service_instance list \<Rightarrow> service_instance option" where
  "nacos_discover lib policy is = (if is = [] then None else select_instance lib policy is (Some []))"

section \<open>What happens to a client\<close>

text \<open>Listings, configurations being read, and both watchers, in any order and with any answers.\<close>

inductive nacos_step :: "(string \<Rightarrow> exn + pyval) \<Rightarrow> string \<Rightarrow> nacos_client \<Rightarrow> nacos_client \<Rightarrow> bool" for json name where
  ns_list: "nacos_step json name c (snd (client_list_instances answer other c))"
| ns_get: "data_id \<noteq> name \<Longrightarrow> nacos_step json name c (snd (nacos_get_config json fetch data_id c))"
| ns_config: "data_id \<noteq> name \<Longrightarrow> nacos_step json name c (snd (config_watcher json data_id content c))"
| ns_names: "nacos_step json name c (name_watcher is c)"
| ns_callback: "nacos_step json name c (add_config_callback data_id cb c)"

lemma step_keeps_listing:
  "nacos_step json name c c' \<Longrightarrow> map_of (nc_config_cache c) name = Some x \<Longrightarrow> map_of (nc_config_cache c') name = Some x"
proof (induction rule: nacos_step.induct)
  case (ns_list c answer other)
  then show ?case
    by (cases "other = name") (auto simp: client_list_instances_def simp del: dict_opaque split: option.split sum.split)
next
  case (ns_get data_id c fetch)
  then show ?case
    by (auto simp: nacos_get_config_def Let_def simp del: dict_opaque split: option.split sum.split list.split)
next
  case (ns_config data_id c content)
  then show ?case by (auto simp: config_watcher_def simp del: dict_opaque split: sum.split)
qed (simp_all add: name_watcher_def add_config_callback_def Let_def)

lemma steps_keep_listing:
  "(nacos_step json name)\<^sup>*\<^sup>* c c' \<Longrightarrow> map_of (nc_config_cache c) name = Some x \<Longrightarrow> map_of (nc_config_cache c') name = Some x"
  by (induction rule: rtranclp_induct) (auto intro: step_keeps_listing)

text \<open>
  What the first listing of a service got is what every later listing gives, whatever the
  naming service answers by then and whatever the watcher of instances is told, as long as no configuration
  of the service's name comes in.
\<close>

theorem nacos_listing_frozen:
  assumes "client_list_instances answer name c = (Inr x, c1)" "(nacos_step json name)\<^sup>*\<^sup>* c1 c2"
  shows "nacos_list hosts answer' uuid name c2 = (registry_list hosts uuid x, c2)"
proof -
  have "map_of (nc_config_cache c1) name = Some x"
    using assms(1) by (auto simp: client_list_instances_def simp del: dict_opaque split: option.splits sum.splits)
  from steps_keep_listing [OF assms(2) this] show ?thesis by (simp add: nacos_list_def client_list_instances_def)
qed

definition sample_nacos :: nacos_instance where
  "sample_nacos =
     \<lparr>ni_service_name = ''svc'', ni_ip = ''h'', ni_port = 80, ni_weight = 1,
      ni_metadata = Some [(''service_name'', ''svc''), (''protocol'', ''AduibRpc''), (''scheme'', ''grpc'')]\<rparr>"

theorem nacos_listing_frozen_witness:
  "snd (nacos_list hosts (\<lambda>_. Inr [sample_nacos]) uuid ''svc''
      (name_watcher [] (snd (client_list_instances (\<lambda>_. Inr []) ''svc'' (new_nacos_client DEFAULT_GROUP)))))
     = name_watcher [] (snd (client_list_instances (\<lambda>_. Inr []) ''svc'' (new_nacos_client DEFAULT_GROUP)))
   \<and> fst (nacos_list (\<lambda>_. Inr []) (\<lambda>_. Inr [sample_nacos]) (\<lambda>_. []) ''svc''
      (name_watcher [] (snd (client_list_instances (\<lambda>_. Inr []) ''svc'' (new_nacos_client DEFAULT_GROUP))))) = Inr []"
proof -
  let ?c = "snd (client_list_instances (\<lambda>_. Inr []) ''svc'' (new_nacos_client DEFAULT_GROUP))"
  have a: "client_list_instances (\<lambda>_. Inr []) ''svc'' (new_nacos_client DEFAULT_GROUP) = (Inr (Cached_instances []), ?c)"
    by (simp add: client_list_instances_def new_nacos_client_def)
  have b: "(nacos_step (\<lambda>_. Inr PNone) ''svc'')\<^sup>*\<^sup>* ?c (name_watcher [] ?c)" by (rule r_into_rtranclp) (rule ns_names)
  from nacos_listing_frozen [OF a b] show ?thesis by (simp add: registry_list_def enumerate_eq_zip)
qed

text \<open>
  C39. What is registered is listed again by a client of the default group that has not listed the
  service before: name, address, weight, scheme and protocol come back, under a new identifier; a client of
  another group does not see it.
\<close>

definition registered_fields :: "service_instance \<Rightarrow> bool" where
  "registered_fields i \<longleftrightarrow>
     1 \<le> si_port i \<and> si_port i \<le> 65535 \<and> 0 \<le> si_weight i
     \<and> (case si_metadata i of
          None \<Rightarrow> False
        | Some md \<Rightarrow> map_of md ''service_name'' = Some (si_service_name i)
            \<and> map_of md ''scheme'' = Some (transport_scheme_value (si_scheme i))
            \<and> map_of md ''protocol'' = Some (case si_protocol i of A2A \<Rightarrow> ''A2A'' | AduibRpc \<Rightarrow> ''AduibRpc''))"

lemma scheme_value_back: "transport_scheme_to_original (Some (transport_scheme_value s)) = Inr s"
  by (cases s) (simp_all add: transport_scheme_to_original_def transport_scheme_value_def)

theorem nacos_round_trip:
  assumes "registered_fields i" "map_of (nc_config_cache c) (si_service_name i) = None"
    and "\<And>k. answer k = Inr (dict_get (nacos_register_service i []) k [])"
  shows "if nc_group c = DEFAULT_GROUP
    then \<exists>j. fst (nacos_list hosts answer uuid (si_service_name i) c) = Inr [j] \<and> si_instance_id j = uuid 0
      \<and> si_service_name j = si_service_name i \<and> si_host j = si_host i \<and> si_port j = si_port i \<and> si_weight j = si_weight i
      \<and> si_scheme j = si_scheme i \<and> si_protocol j = si_protocol i \<and> si_metadata j = si_metadata i
    else fst (nacos_list hosts answer uuid (si_service_name i) c) = Inr []"
proof -
  obtain md where md: "si_metadata i = Some md" using assms(1) by (auto simp: registered_fields_def split: option.splits)
  have tr: "int_of_weight (of_int w) = w" for w by (simp add: int_of_weight_def py_trunc_def)
  show ?thesis
  proof (cases "nc_group c = DEFAULT_GROUP")
    case True
    let ?n = "\<lparr>ni_service_name = si_service_name i, ni_ip = si_host i, ni_port = si_port i, ni_weight = of_int (si_weight i),
        ni_metadata = Some md\<rparr>"
    have "answer (nc_group c, si_service_name i) = Inr [?n]"
      using True md by (simp add: assms(3) nacos_register_service_def nacos_register_def dict_get_def)
    moreover have "\<exists>j. instance_of_nacos (uuid 0) ?n = Inr j \<and> si_instance_id j = uuid 0
      \<and> si_service_name j = si_service_name i \<and> si_host j = si_host i \<and> si_port j = si_port i \<and> si_weight j = si_weight i
      \<and> si_scheme j = si_scheme i \<and> si_protocol j = si_protocol i \<and> si_metadata j = si_metadata i"
      using assms(1) md
      by (cases "si_protocol i") (simp_all add: instance_of_nacos_def registered_fields_def scheme_value_back ai_protocol_to_original_def
          new_instance_def validate_port_def validate_weight_def tr)
    ultimately show ?thesis using True assms(2)
      by (auto simp: nacos_list_def client_list_instances_def registry_list_def enumerate_eq_zip)
  next
    case False
    then have "answer (nc_group c, si_service_name i) = Inr []"
      by (simp add: assms(3) nacos_register_service_def nacos_register_def dict_get_def)
    with False assms(2) show ?thesis
      by (simp add: nacos_list_def client_list_instances_def registry_list_def enumerate_eq_zip)
  qed
qed

lemma all_ok_member: "all_ok f xs = Inr ys \<Longrightarrow> y \<in> set ys \<Longrightarrow> \<exists>x \<in> set xs. f x = Inr y"
  by (induction xs arbitrary: ys) (auto split: sum.splits)

lemma instance_of_nacos_id: "instance_of_nacos u n = Inr i \<Longrightarrow> si_instance_id i = u"
  by (auto simp: instance_of_nacos_def new_instance_def bind_ok_Inr Let_def simp del: dict_opaque split: option.splits)

text \<open>
  Because identifiers are new at every listing, the health cache of a client transport knows
  none of the listed instances: every one is due for a check before every call, however recently it was checked.
\<close>

theorem nacos_always_rechecks:
  assumes "registry_list hosts uuid x = Inr is" "\<And>n. map_of hc (uuid n) = None"
  shows "filter (\<lambda>i. is_stale ttl_ms now_ms (map_of hc (si_instance_id i))) is = is"
proof -
  have "\<exists>n. si_instance_id i = uuid n" if "i \<in> set is" for i
    using assms(1) that all_ok_member [of _ _ "is" i] instance_of_nacos_id by (fastforce simp: registry_list_def bind_ok_Inr)
  then have "map_of hc (si_instance_id i) = None" if "i \<in> set is" for i using that assms(2) by metis
  then show ?thesis by (simp add: filter_id_conv is_stale_def)
qed

lemma sample_nacos_ok: "\<exists>i. instance_of_nacos u sample_nacos = Inr i"
  by (simp add: instance_of_nacos_def sample_nacos_def ai_protocol_to_original_def transport_scheme_to_original_def
      new_instance_def validate_port_def validate_weight_def int_of_weight_def py_trunc_def transport_scheme_value_def)

theorem nacos_always_rechecks_witness:
  "\<exists>is. registry_list (\<lambda>_. Inr []) (\<lambda>n. ''new'') (Cached_instances [sample_nacos]) = Inr is \<and> length is = 1
     \<and> filter (\<lambda>i. is_stale 10000 0 (map_of [] (si_instance_id i))) is = is"
proof -
  obtain i where i: "instance_of_nacos ''new'' sample_nacos = Inr i" using sample_nacos_ok by blast
  then have "registry_list (\<lambda>_. Inr []) (\<lambda>n. ''new'') (Cached_instances [sample_nacos]) = Inr [i]"
    by (simp add: registry_list_def enumerate_eq_zip)
  from nacos_always_rechecks [OF this, of "[]"] this show ?thesis by simp
qed

definition registered_sample :: service_instance where
  "registered_sample =
     \<lparr>si_instance_id = ''i'', si_service_name = ''svc'', si_version = ''1.0.0'', si_host = ''h'', si_port = 80,
      si_scheme = GRPC, si_protocol = AduibRpc, si_health = HEALTHY, si_last_health_check_ms = None, si_weight = 1,
      si_zone = None, si_region = None, si_capabilities = None,
      si_metadata = Some [(''service_name'', ''svc''), (''protocol'', ''AduibRpc''), (''scheme'', ''grpc'')],
      si_tags = None, si_registered_at_ms = None, si_ttl_seconds = 30\<rparr>"

theorem nacos_round_trip_witness:
  "\<exists>j. fst (nacos_list (\<lambda>_. Inr []) (\<lambda>k. Inr (dict_get (nacos_register_service registered_sample []) k [])) (\<lambda>_. ''new'') ''svc''
      (new_nacos_client DEFAULT_GROUP)) = Inr [j] \<and> si_host j = ''h'' \<and> si_scheme j = GRPC"
proof -
  have "registered_fields registered_sample"
    by (simp add: registered_fields_def registered_sample_def transport_scheme_value_def)
  moreover have "map_of (nc_config_cache (new_nacos_client DEFAULT_GROUP)) (si_service_name registered_sample) = None"
    "nc_group (new_nacos_client DEFAULT_GROUP) = DEFAULT_GROUP" "si_service_name registered_sample = ''svc''"
    "si_host registered_sample = ''h''" "si_scheme registered_sample = GRPC"
    by (simp_all add: new_nacos_client_def registered_sample_def)
  ultimately show ?thesis
    using nacos_round_trip [of registered_sample "new_nacos_client DEFAULT_GROUP"
        "\<lambda>k. Inr (dict_get (nacos_register_service registered_sample []) k [])" "\<lambda>_. Inr []" "\<lambda>_. ''new''"]
    by auto
qed

end
