(* ===== verification/Config_Sources.thy ===== *)
theory Config_Sources
  imports Nacos
begin

text \<open>
  Sources of configuration (\<open>config/provider.py\<close>): what every source does with its target, the source that follows
  a Nacos entry, and the provider that keeps one source of each kind. Targets are updated in place, so a target
  stands for the values all its holders see. \<open>build\<close> is \<open>AduibRpcConfig.from_dict\<close>.
\<close>

section \<open>Contents\<close>

text \<open>\<open>json\<close> is \<open>None\<close> when the text is not JSON.\<close>

definition coerce_mapping ::
  "(string \<Rightarrow> pyval option) \<Rightarrow> (string \<Rightarrow> exn + pyval) \<Rightarrow> pyval \<Rightarrow> exn + (string, pyval) dict" where
  "coerce_mapping json yaml v =
     (case v of
        PDict d \<Rightarrow> Inr d
      | PStr s \<Rightarrow>
          (let t = py_strip s in
           if t = [] then Inl (config_error ''Config content is empty'')
           else (case (case json t of Some x \<Rightarrow> Inr x | None \<Rightarrow> yaml t) of
                   Inl e \<Rightarrow> Inl e
                 | Inr (PDict d) \<Rightarrow> Inr d
                 | Inr _ \<Rightarrow> Inl (config_error ''Config content must be a mapping'')))
      | _ \<Rightarrow> Inl (config_error ''Config content must be a mapping''))"

text \<open>What a payload makes: the three parameters together.\<close>

record 'c config_maker =
  mk_json :: "string \<Rightarrow> pyval option"
  mk_yaml :: "string \<Rightarrow> exn + pyval"
  mk_build :: "(string, pyval) dict \<Rightarrow> exn + 'c"

definition config_of_payload :: "'c config_maker \<Rightarrow> pyval \<Rightarrow> exn + 'c" where
  "config_of_payload mk v =
     bind_ok (coerce_mapping (mk_json mk) (mk_yaml mk) v) (\<lambda>d. bind_ok (normalize_config_root d) (mk_build mk))"

section \<open>The Nacos source\<close>

text \<open>
  \<open>sc_callbacks\<close> is the client's list of callbacks for the entry, \<open>sc_mine\<close> the one the source remembers,
  \<open>sc_next\<close> the number of the next closure.
\<close>

record 'c nacos_source =
  so_target :: "'c option"
  so_watch :: bool
  so_registered :: bool
  so_callbacks :: "nat list"
  so_mine :: "nat option"
  so_next :: nat

definition new_nacos_source :: "bool \<Rightarrow> 'c option \<Rightarrow> 'c nacos_source" where
  "new_nacos_source watch t =
     \<lparr>so_target = t, so_watch = watch, so_registered = False, so_callbacks = [], so_mine = None, so_next = 0\<rparr>"

text \<open>Without a target the new configuration is it; otherwise the target takes its values.\<close>

definition update_target :: "'c \<Rightarrow> 'c nacos_source \<Rightarrow> 'c nacos_source" where
  "update_target c s = s\<lparr>so_target := Some c\<rparr>"

text \<open>\<open>got\<close> is what the client's \<open>get_config_sync\<close> gives: nothing for an entry that is not there or empty.\<close>

definition nacos_load :: "'c config_maker \<Rightarrow> exn + pyval option \<Rightarrow> 'c nacos_source \<Rightarrow> (exn + 'c) \<times> 'c nacos_source" where
  "nacos_load mk got s =
     (case got of
        Inl e \<Rightarrow> (Inl e, s)
      | Inr None \<Rightarrow>
          (case so_target s of Some t \<Rightarrow> (Inr t, s) | None \<Rightarrow> (Inl (config_error ''Nacos config not found''), s))
      | Inr (Some v) \<Rightarrow>
          (case config_of_payload mk v of Inl e \<Rightarrow> (Inl e, s) | Inr c \<Rightarrow> (Inr c, update_target c s)))"

text \<open>\<open>_on_change\<close>: an exception is logged.\<close>

definition on_change :: "'c config_maker \<Rightarrow> pyval \<Rightarrow> 'c nacos_source \<Rightarrow> 'c nacos_source" where
  "on_change mk v s = (case config_of_payload mk v of Inl e \<Rightarrow> s | Inr c \<Rightarrow> update_target c s)"

definition notify :: "'c config_maker \<Rightarrow> pyval \<Rightarrow> 'c nacos_source \<Rightarrow> 'c nacos_source" where
  "notify mk v s = fold (\<lambda>_. on_change mk v) (so_callbacks s) s"

text \<open>\<open>listening\<close> is what registering the listener raises; by then the callback is in the client's list.\<close>

definition nacos_start ::
  "'c config_maker \<Rightarrow> exn + pyval option \<Rightarrow> exn option \<Rightarrow> 'c nacos_source \<Rightarrow> exn option \<times> 'c nacos_source" where
  "nacos_start mk got listening s =
     (if \<not> so_watch s \<or> so_registered s then (None, s)
      else
        (let (r, s1) = (if so_target s = None then nacos_load mk got s else (Inr (the (so_target s)), s)) in
         case r of
           Inl e \<Rightarrow> (Some e, s1)
         | Inr _ \<Rightarrow>
             (let s2 = s1\<lparr>so_mine := Some (so_next s1), so_callbacks := so_callbacks s1 @ [so_next s1], so_next := Suc (so_next s1)\<rparr>
              in case listening of
                   Some e \<Rightarrow> (Some e, s2)
                 | None \<Rightarrow> (None, s2\<lparr>so_registered := True\<rparr>))))"

definition nacos_stop :: "'c nacos_source \<Rightarrow> 'c nacos_source" where
  "nacos_stop s =
     (if \<not> so_registered s then s
      else s\<lparr>so_callbacks := (case so_mine s of None \<Rightarrow> so_callbacks s | Some m \<Rightarrow> remove1 m (so_callbacks s)),
             so_mine := None, so_registered := False\<rparr>)"

section \<open>The provider\<close>

text \<open>A source as the provider uses it: a constructor's class, and one instance of each kind.\<close>

record ('s, 'k) source_provider =
  pv_classes :: "(string, 'k \<Rightarrow> exn + 's) dict"
  pv_instances :: "(string, 's) dict"

definition register_config_source_class ::
  "string \<Rightarrow> ('k \<Rightarrow> exn + 's) \<Rightarrow> ('s, 'k) source_provider \<Rightarrow> ('s, 'k) source_provider" where
  "register_config_source_class ty k p = p\<lparr>pv_classes := AList.update ty k (pv_classes p)\<rparr>"

definition from_config_source_instance ::
  "string \<Rightarrow> 'k \<Rightarrow> ('s, 'k) source_provider \<Rightarrow> (exn + 's) \<times> ('s, 'k) source_provider" where
  "from_config_source_instance ty kwargs p =
     (case map_of (pv_classes p) ty of
        None \<Rightarrow> (Inl (Exn ValueError 0 (''No config source loader registered for '' @ ty) PNone None), p)
      | Some mk \<Rightarrow>
          (case mk kwargs of
             Inl e \<Rightarrow> (Inl e, p)
           | Inr s \<Rightarrow> (Inr s, p\<lparr>pv_instances := AList.update ty s (pv_instances p)\<rparr>)))"

text \<open>
  \<open>load\<close> and \<open>start\<close> are the source's methods, \<open>retarget\<close> is \<open>set_target\<close> when the settings name a target. An
  instance that is there keeps its other settings.
\<close>

definition provider_load_config ::
  "('s \<Rightarrow> (exn + 'c) \<times> 's) \<Rightarrow> ('s \<Rightarrow> exn option \<times> 's) \<Rightarrow> ('k \<Rightarrow> 's \<Rightarrow> 's) \<Rightarrow> bool \<Rightarrow> string \<Rightarrow> 'k
     \<Rightarrow> ('s, 'k) source_provider \<Rightarrow> (exn + 'c) \<times> ('s, 'k) source_provider" where
  "provider_load_config load start retarget auto ty kwargs p =
     (let (r, p1) =
            (case map_of (pv_instances p) ty of
               Some s \<Rightarrow> (Inr (retarget kwargs s), p)
             | None \<Rightarrow> from_config_source_instance ty kwargs p)
      in case r of
           Inl e \<Rightarrow> (Inl e, p1)
         | Inr s \<Rightarrow>
             (let (loaded, s1) = load s in
              case loaded of
                Inl e \<Rightarrow> (Inl e, p1\<lparr>pv_instances := AList.update ty s1 (pv_instances p1)\<rparr>)
              | Inr c \<Rightarrow>
                  (let (failed, s2) = (if auto then start s1 else (None, s1));
                       p2 = p1\<lparr>pv_instances := AList.update ty s2 (pv_instances p1)\<rparr>
                   in (case failed of Some e \<Rightarrow> Inl e | None \<Rightarrow> Inr c, p2))))"

section \<open>Properties\<close>

text \<open>A source whose listener could always be registered: started, notified, loaded and stopped in any order.\<close>

inductive source_step :: "'c config_maker \<Rightarrow> 'c nacos_source \<Rightarrow> 'c nacos_source \<Rightarrow> bool" for mk where
  ss_start: "source_step mk s (snd (nacos_start mk got None s))"
| ss_load: "source_step mk s (snd (nacos_load mk got s))"
| ss_notify: "source_step mk s (notify mk v s)"
| ss_stop: "source_step mk s (nacos_stop s)"

definition source_inv :: "'c nacos_source \<Rightarrow> bool" where
  "source_inv s \<longleftrightarrow>
     (if so_registered s then \<exists>m. so_mine s = Some m \<and> so_callbacks s = [m] else so_callbacks s = [])"

lemma on_change_same [simp]:
  "so_callbacks (on_change mk v s) = so_callbacks s" "so_registered (on_change mk v s) = so_registered s"
  "so_mine (on_change mk v s) = so_mine s"
  by (simp_all add: on_change_def update_target_def split: sum.split)

lemma notify_inv: "source_inv s \<Longrightarrow> source_inv (notify mk v s)"
  by (auto simp: source_inv_def notify_def split: if_splits)

lemma load_same:
  "nacos_load mk got s = (r, s1) \<Longrightarrow>
    so_callbacks s1 = so_callbacks s \<and> so_registered s1 = so_registered s \<and> so_mine s1 = so_mine s"
  by (auto simp: nacos_load_def update_target_def split: sum.splits option.splits)

lemma start_inv: "source_inv s \<Longrightarrow> source_inv (snd (nacos_start mk got None s))"
proof (cases "so_watch s \<and> \<not> so_registered s")
  case True
  assume inv: "source_inv s"
  obtain r s1 where r: "(if so_target s = None then nacos_load mk got s else (Inr (the (so_target s)), s)) = (r, s1)" by force
  have s1: "so_callbacks s1 = []" "\<not> so_registered s1"
    using r load_same [of mk got s r s1] True inv by (auto simp: source_inv_def split: if_splits)
  show ?thesis
  proof (cases r)
    case (Inl e)
    with r True s1 show ?thesis by (simp add: nacos_start_def source_inv_def)
  next
    case (Inr c)
    with r True s1 show ?thesis by (simp add: nacos_start_def source_inv_def Let_def)
  qed
qed (auto simp: nacos_start_def)

lemma source_step_inv: "source_step mk s t \<Longrightarrow> source_inv s \<Longrightarrow> source_inv t"
proof (induction rule: source_step.induct)
  case (ss_start s got)
  then show ?case by (rule start_inv)
next
  case (ss_load s got)
  then show ?case using load_same [of mk got s] by (cases "nacos_load mk got s") (auto simp: source_inv_def)
next
  case (ss_notify s v)
  then show ?case by (rule notify_inv)
next
  case (ss_stop s)
  then show ?case by (auto simp: nacos_stop_def source_inv_def split: if_splits)
qed

lemma source_steps_inv: "(source_step mk)\<^sup>*\<^sup>* s t \<Longrightarrow> source_inv s \<Longrightarrow> source_inv t"
  by (induction rule: rtranclp_induct) (auto intro: source_step_inv)

text \<open>
  C40. As long as registering the listener works, a running source takes every change that makes a
  configuration as its target and leaves the target alone on the others; a source that is not running, or was
  stopped, is not changed by anything that happens to the entry.
\<close>

theorem source_follows:
  assumes "(source_step mk)\<^sup>*\<^sup>* (new_nacos_source watch t) s"
  shows "so_target (notify mk v s) =
      (if so_registered s then (case config_of_payload mk v of Inr c \<Rightarrow> Some c | Inl e \<Rightarrow> so_target s) else so_target s)
    \<and> notify mk v (nacos_stop s) = nacos_stop s"
proof -
  have "source_inv (new_nacos_source watch t)" by (simp add: source_inv_def new_nacos_source_def)
  with source_steps_inv [OF assms] have inv: "source_inv s" by blast
  then have "source_inv (nacos_stop s)" using source_step_inv [OF ss_stop] by blast
  moreover have "\<not> so_registered (nacos_stop s)" by (simp add: nacos_stop_def)
  ultimately have "notify mk v (nacos_stop s) = nacos_stop s" by (simp add: source_inv_def notify_def)
  moreover have "so_target (notify mk v s) =
      (if so_registered s then (case config_of_payload mk v of Inr c \<Rightarrow> Some c | Inl e \<Rightarrow> so_target s) else so_target s)"
    using inv by (auto simp: source_inv_def notify_def on_change_def update_target_def split: sum.split)
  ultimately show ?thesis by blast
qed

definition plain_maker :: "(string, pyval) dict config_maker" where
  "plain_maker = \<lparr>mk_json = (\<lambda>_. None), mk_yaml = (\<lambda>_. Inl (config_error [])), mk_build = Inr\<rparr>"

theorem source_follows_witness:
  "so_target (notify plain_maker (PDict [(''a'', PInt 2)]) (snd (nacos_start plain_maker (Inr (Some (PDict []))) None (new_nacos_source True None))))
    = Some [(''a'', PInt 2)]"
proof -
  let ?s = "snd (nacos_start plain_maker (Inr (Some (PDict []))) None (new_nacos_source True None))"
  have "(source_step plain_maker)\<^sup>*\<^sup>* (new_nacos_source True None) ?s" by (rule r_into_rtranclp) (rule ss_start)
  moreover have "config_of_payload plain_maker (PDict d) = Inr d" if "map_of d ''aduib_rpc'' = None" for d
    using that by (simp add: config_of_payload_def coerce_mapping_def normalize_config_root_def plain_maker_def)
  moreover from this have "so_registered ?s"
    by (simp add: nacos_start_def new_nacos_source_def nacos_load_def update_target_def)
  ultimately show ?thesis using source_follows [of plain_maker True None ?s "PDict [(''a'', PInt 2)]"] by simp
qed

text \<open>
  A start whose listener cannot be registered leaves its callback with the client: once a
  second start worked, stopping the source does not stop the changes.
\<close>

theorem failed_start_leaks:
  assumes "config_of_payload mk v = Inr c"
  shows "let s1 = snd (nacos_start mk got (Some e) (new_nacos_source True (Some t)));
             s2 = snd (nacos_start mk got None s1);
             s3 = nacos_stop s2
         in \<not> so_registered s3 \<and> so_target (notify mk v s3) = Some c"
  using assms by (simp add: nacos_start_def new_nacos_source_def nacos_stop_def notify_def on_change_def update_target_def)

theorem failed_start_leaks_witness:
  "so_target (notify plain_maker (PDict []) (nacos_stop (snd (nacos_start plain_maker (Inr None) None
      (snd (nacos_start plain_maker (Inr None) (Some (config_error [])) (new_nacos_source True (Some [(''a'', PInt 1)])))))))) = Some []"
proof -
  have "config_of_payload plain_maker (PDict []) = Inr []"
    by (simp add: config_of_payload_def coerce_mapping_def normalize_config_root_def plain_maker_def)
  from failed_start_leaks [OF this] show ?thesis by (simp add: Let_def)
qed

text \<open>
  The provider keeps the source it made first: loading again with settings that name no
  target gives what the first source gives, whatever the settings.
\<close>

theorem provider_keeps_first:
  assumes "map_of (pv_instances p) ty = Some s" "retarget kwargs s = s" "retarget kwargs' s = s"
  shows "provider_load_config load start retarget auto ty kwargs p = provider_load_config load start retarget auto ty kwargs' p"
  using assms by (simp add: provider_load_config_def)

theorem provider_keeps_first_witness:
  "provider_load_config (\<lambda>s. (Inr s, s)) (\<lambda>s. (None, s)) (\<lambda>k s. s) True ''file'' ''b.yaml''
     \<lparr>pv_classes = [], pv_instances = [(''file'', ''a.yaml'')]\<rparr>
   = provider_load_config (\<lambda>s. (Inr s, s)) (\<lambda>s. (None, s)) (\<lambda>k s. s) True ''file'' ''a.yaml''
     \<lparr>pv_classes = [], pv_instances = [(''file'', ''a.yaml'')]\<rparr>"
  by (rule provider_keeps_first [of _ _ "''a.yaml''"]) simp_all

end
