(* ===== verification/Mtls.thy ===== *)
theory Mtls
  imports Rpc_Errors
begin

text \<open>
  TLS and mutual TLS (\<open>security/mtls.py\<close>): configurations, the contexts made from them with the temporary
  files their PEM texts go through, the verifier of peer certificates, the principal a certificate stands for,
  and the check of a connection. What Python's \<open>ssl\<close> and \<open>tempfile\<close> do is modelled as documented; whether a
  text is a certificate, a key or a list of ciphers is theirs to say.
\<close>

section \<open>Configurations\<close>

datatype verify_mode = CERT_NONE | CERT_OPTIONAL | CERT_REQUIRED

datatype tls_version = TLSv1_2 | TLSv1_3

definition older :: "tls_version \<Rightarrow> tls_version \<Rightarrow> bool" where
  "older a b \<longleftrightarrow> a = TLSv1_2 \<and> b = TLSv1_3"

record tls_config =
  tl_ca_cert_path :: "string option"
  tl_client_cert_path :: "string option"
  tl_client_key_path :: "string option"
  tl_client_key_password :: "string option"
  tl_minimum_version :: tls_version
  tl_maximum_version :: "tls_version option"
  tl_check_hostname :: bool
  tl_verify_mode :: verify_mode
  tl_ciphers :: "string option"
  tl_ca_cert_pem :: "string option"
  tl_client_cert_pem :: "string option"
  tl_client_key_pem :: "string option"

definition default_tls_config :: tls_config where
  "default_tls_config =
     \<lparr>tl_ca_cert_path = None, tl_client_cert_path = None, tl_client_key_path = None, tl_client_key_password = None,
      tl_minimum_version = TLSv1_2, tl_maximum_version = None, tl_check_hostname = True, tl_verify_mode = CERT_REQUIRED,
      tl_ciphers = None, tl_ca_cert_pem = None, tl_client_cert_pem = None, tl_client_key_pem = None\<rparr>"

record server_tls_config =
  st_server_cert_path :: "string option"
  st_server_key_path :: "string option"
  st_server_key_password :: "string option"
  st_ca_cert_path :: "string option"
  st_client_cert_verification :: verify_mode
  st_minimum_version :: tls_version
  st_maximum_version :: "tls_version option"
  st_ciphers :: "string option"
  st_server_cert_pem :: "string option"
  st_server_key_pem :: "string option"
  st_ca_cert_pem :: "string option"

definition value_error_of :: "string \<Rightarrow> exn" where
  "value_error_of msg = Exn ValueError 0 msg PNone None"

text \<open>A string that is there and not empty.\<close>

definition given :: "string option \<Rightarrow> bool" where
  "given x \<longleftrightarrow> x \<noteq> None \<and> x \<noteq> Some []"

definition server_config_error :: "server_tls_config \<Rightarrow> exn option" where
  "server_config_error c =
     (if st_server_cert_pem c \<noteq> None \<or> st_server_key_pem c \<noteq> None
      then (if \<not> given (st_server_cert_pem c) \<or> \<not> given (st_server_key_pem c)
            then Some (value_error_of ''Both server_cert_pem and server_key_pem are required'') else None)
      else if st_server_cert_path c = None \<or> st_server_key_path c = None
      then Some (value_error_of ''Either server_cert_path/server_key_path or server_cert_pem/server_key_pem must be set'')
      else None)"

definition mtls_enabled :: "server_tls_config \<Rightarrow> bool" where
  "mtls_enabled c \<longleftrightarrow> st_client_cert_verification c \<noteq> CERT_NONE"

definition mtls_required :: "server_tls_config \<Rightarrow> bool" where
  "mtls_required c \<longleftrightarrow> st_client_cert_verification c = CERT_REQUIRED"

section \<open>Files and contexts\<close>

record tls_world =
  tw_files :: "(string, string) dict"
  tw_temps :: nat

text \<open>
  Names of temporary files, and what may raise: making one, writing a text, loading a pair of certificate and
  key with a password, loading certificates to trust, setting ciphers.
\<close>

record ssl_lib =
  sl_temp_name :: "nat \<Rightarrow> string"
  sl_make :: "nat \<Rightarrow> exn option"
  sl_write :: "string \<Rightarrow> exn option"
  sl_pair :: "string \<Rightarrow> string \<Rightarrow> string option \<Rightarrow> exn option"
  sl_trust :: "string \<Rightarrow> exn option"
  sl_ciphers :: "string \<Rightarrow> exn option"

record ssl_context =
  sc_verify_mode :: verify_mode
  sc_check_hostname :: bool
  sc_minimum :: "tls_version option"
  sc_maximum :: "tls_version option"
  sc_ciphers :: "string option"
  sc_trusted :: "string option"
  sc_chain :: "(string \<times> string) option"

text \<open>A text in a new temporary file: an exception, if any, and the name, if the file was made.\<close>

definition temp_file :: "ssl_lib \<Rightarrow> string \<Rightarrow> tls_world \<Rightarrow> (exn option \<times> string option) \<times> tls_world" where
  "temp_file lib content w =
     (let name = sl_temp_name lib (tw_temps w); w1 = w\<lparr>tw_temps := Suc (tw_temps w)\<rparr> in
      case sl_make lib (tw_temps w) of
        Some e \<Rightarrow> ((Some e, None), w1)
      | None \<Rightarrow>
          (case sl_write lib content of
             Some e \<Rightarrow> ((Some e, Some name), w1\<lparr>tw_files := AList.update name [] (tw_files w)\<rparr>)
           | None \<Rightarrow> ((None, Some name), w1\<lparr>tw_files := AList.update name content (tw_files w)\<rparr>)))"

definition unlink :: "string option \<Rightarrow> tls_world \<Rightarrow> tls_world" where
  "unlink name w = (case name of None \<Rightarrow> w | Some n \<Rightarrow> w\<lparr>tw_files := AList.delete n (tw_files w)\<rparr>)"

definition no_file :: "string \<Rightarrow> exn" where
  "no_file name = Exn FileNotFoundError 0 name PNone None"

definition load_cert_chain ::
  "ssl_lib \<Rightarrow> string \<Rightarrow> string \<Rightarrow> string option \<Rightarrow> tls_world \<Rightarrow> ssl_context \<Rightarrow> exn + ssl_context" where
  "load_cert_chain lib certfile keyfile password w ctx =
     (case (map_of (tw_files w) certfile, map_of (tw_files w) keyfile) of
        (Some c, Some k) \<Rightarrow>
          (case sl_pair lib c k password of Some e \<Rightarrow> Inl e | None \<Rightarrow> Inr (ctx\<lparr>sc_chain := Some (c, k)\<rparr>))
      | (None, _) \<Rightarrow> Inl (no_file certfile)
      | (_, None) \<Rightarrow> Inl (no_file keyfile))"

text \<open>\<open>_load_pem_to_context\<close>: whatever happens, the files that were made are removed.\<close>

definition load_pem_to_context ::
  "ssl_lib \<Rightarrow> string \<Rightarrow> string \<Rightarrow> string option \<Rightarrow> ssl_context \<Rightarrow> tls_world \<Rightarrow> (exn + ssl_context) \<times> tls_world" where
  "load_pem_to_context lib cert_pem key_pem password ctx w =
     (let ((e1, n1), w1) = temp_file lib cert_pem w in
      case e1 of
        Some e \<Rightarrow> (Inl e, unlink n1 w1)
      | None \<Rightarrow>
          (let ((e2, n2), w2) = temp_file lib key_pem w1 in
           case e2 of
             Some e \<Rightarrow> (Inl e, unlink n2 (unlink n1 w2))
           | None \<Rightarrow>
               (case (n1, n2) of
                  (Some c, Some k) \<Rightarrow> (load_cert_chain lib c k password w2 ctx, unlink n2 (unlink n1 w2))
                | _ \<Rightarrow> (Inr ctx, w2))))"

text \<open>\<open>load_client_cert_chain\<close> and \<open>load_server_cert_chain\<close>, which differ in the word in their messages.\<close>

definition load_chain ::
  "string \<Rightarrow> ssl_lib \<Rightarrow> string option \<Rightarrow> string option \<Rightarrow> string option \<Rightarrow> string option \<Rightarrow> string option \<Rightarrow> ssl_context
     \<Rightarrow> tls_world \<Rightarrow> (exn + ssl_context) \<times> tls_world" where
  "load_chain whose lib cert_path key_path cert_pem key_pem password ctx w =
     (if cert_pem \<noteq> None \<or> key_pem \<noteq> None then
        (case (cert_pem, key_pem) of
           (Some (c # cs), Some (k # ks)) \<Rightarrow> load_pem_to_context lib (c # cs) (k # ks) password ctx w
         | _ \<Rightarrow> (Inl (value_error_of (''Both cert_pem and key_pem are required for '' @ whose @ '' certificates'')), w))
      else (case (cert_path, key_path) of
              (Some c, Some k) \<Rightarrow> (load_cert_chain lib c k password w ctx, w)
            | _ \<Rightarrow> (Inl (value_error_of (''cert_path and key_path are required for '' @ whose @ '' certificates'')), w)))"

section \<open>Python's \<open>ssl\<close> contexts\<close>

text \<open>
  \<open>create_default_context\<close> for a client verifies certificates and host names, and trusts the given file or the
  system; for a server it asks for no certificate. The settings: no certificate at all is refused while host
  names are checked, and checking host names asks for certificates.
\<close>

definition client_default :: "ssl_lib \<Rightarrow> string option \<Rightarrow> tls_world \<Rightarrow> exn + ssl_context" where
  "client_default lib cafile w =
     (let ctx = \<lparr>sc_verify_mode = CERT_REQUIRED, sc_check_hostname = True, sc_minimum = None, sc_maximum = None,
                 sc_ciphers = None, sc_trusted = None, sc_chain = None\<rparr>
      in case cafile of
           None \<Rightarrow> Inr ctx
         | Some f \<Rightarrow>
             (case map_of (tw_files w) f of
                None \<Rightarrow> Inl (no_file f)
              | Some c \<Rightarrow> (case sl_trust lib c of Some e \<Rightarrow> Inl e | None \<Rightarrow> Inr (ctx\<lparr>sc_trusted := Some c\<rparr>))))"

definition server_default :: ssl_context where
  "server_default =
     \<lparr>sc_verify_mode = CERT_NONE, sc_check_hostname = False, sc_minimum = None, sc_maximum = None, sc_ciphers = None,
      sc_trusted = None, sc_chain = None\<rparr>"

definition load_verify_locations :: "ssl_lib \<Rightarrow> string \<Rightarrow> tls_world \<Rightarrow> ssl_context \<Rightarrow> exn + ssl_context" where
  "load_verify_locations lib f w ctx =
     (case map_of (tw_files w) f of
        None \<Rightarrow> Inl (no_file f)
      | Some c \<Rightarrow> (case sl_trust lib c of Some e \<Rightarrow> Inl e | None \<Rightarrow> Inr (ctx\<lparr>sc_trusted := Some c\<rparr>)))"

definition set_verify_mode :: "verify_mode \<Rightarrow> ssl_context \<Rightarrow> exn + ssl_context" where
  "set_verify_mode m ctx =
     (if m = CERT_NONE \<and> sc_check_hostname ctx
      then Inl (value_error_of ''Cannot set verify_mode to CERT_NONE when check_hostname is enabled.'')
      else Inr (ctx\<lparr>sc_verify_mode := m\<rparr>))"

definition set_check_hostname :: "bool \<Rightarrow> ssl_context \<Rightarrow> ssl_context" where
  "set_check_hostname b ctx =
     ctx\<lparr>sc_check_hostname := b,
         sc_verify_mode := if b \<and> sc_verify_mode ctx = CERT_NONE then CERT_REQUIRED else sc_verify_mode ctx\<rparr>"

definition set_versions :: "tls_version \<Rightarrow> tls_version option \<Rightarrow> ssl_context \<Rightarrow> exn + ssl_context" where
  "set_versions low high ctx =
     (if (case high of Some h \<Rightarrow> older h low | None \<Rightarrow> False)
      then Inl (value_error_of ''maximum_version cannot be lower than minimum_version'')
      else Inr (ctx\<lparr>sc_minimum := Some low, sc_maximum := (case high of None \<Rightarrow> sc_maximum ctx | Some h \<Rightarrow> Some h)\<rparr>))"

definition set_ciphers :: "ssl_lib \<Rightarrow> string option \<Rightarrow> ssl_context \<Rightarrow> exn + ssl_context" where
  "set_ciphers lib ciphers ctx =
     (case ciphers of
        Some (c # cs) \<Rightarrow>
          (case sl_ciphers lib (c # cs) of Some e \<Rightarrow> Inl e | None \<Rightarrow> Inr (ctx\<lparr>sc_ciphers := Some (c # cs)\<rparr>))
      | _ \<Rightarrow> Inr ctx)"

definition then_set :: "'e + 'a \<Rightarrow> ('a \<Rightarrow> 'e + 'b) \<Rightarrow> 'e + 'b" where
  "then_set r f = (case r of Inl e \<Rightarrow> Inl e | Inr x \<Rightarrow> f x)"

section \<open>The client's context\<close>

definition client_settings :: "ssl_lib \<Rightarrow> tls_config \<Rightarrow> ssl_context \<Rightarrow> exn + ssl_context" where
  "client_settings lib c ctx =
     then_set (set_verify_mode (tl_verify_mode c) ctx) (\<lambda>ctx.
     then_set (set_versions (tl_minimum_version c) (tl_maximum_version c) (set_check_hostname (tl_check_hostname c) ctx)) (\<lambda>ctx.
     set_ciphers lib (tl_ciphers c) ctx))"

definition client_chain :: "ssl_lib \<Rightarrow> tls_config \<Rightarrow> ssl_context \<Rightarrow> tls_world \<Rightarrow> (exn + ssl_context) \<times> tls_world" where
  "client_chain lib c ctx w =
     (if tl_client_cert_pem c \<noteq> None \<or> tl_client_key_pem c \<noteq> None then
        (if \<not> given (tl_client_cert_pem c) \<or> \<not> given (tl_client_key_pem c)
         then (Inl (value_error_of ''Both client_cert_pem and client_key_pem are required''), w)
         else load_chain ''client'' lib None None (tl_client_cert_pem c) (tl_client_key_pem c) (tl_client_key_password c) ctx w)
      else if tl_client_cert_path c \<noteq> None \<or> tl_client_key_path c \<noteq> None then
        (if tl_client_cert_path c = None \<or> tl_client_key_path c = None
         then (Inl (value_error_of ''Both client_cert_path and client_key_path are required''), w)
         else load_chain ''client'' lib (tl_client_cert_path c) (tl_client_key_path c) None None (tl_client_key_password c) ctx w)
      else (Inr ctx, w))"

text \<open>The certificates to trust go through a temporary file that is written before the \<open>try\<close> that removes it.\<close>

definition client_trust :: "ssl_lib \<Rightarrow> tls_config \<Rightarrow> tls_world \<Rightarrow> (exn + ssl_context) \<times> tls_world" where
  "client_trust lib c w =
     (case tl_ca_cert_pem c of
        Some pem \<Rightarrow>
          (case temp_file lib pem w of
             ((Some e, _), w1) \<Rightarrow> (Inl e, w1)
           | ((None, n), w1) \<Rightarrow> (client_default lib n w1, unlink n w1))
      | None \<Rightarrow> (client_default lib (tl_ca_cert_path c) w, w))"

definition create_client_ssl_context :: "ssl_lib \<Rightarrow> tls_config \<Rightarrow> tls_world \<Rightarrow> (exn + ssl_context) \<times> tls_world" where
  "create_client_ssl_context lib c w =
     (case client_trust lib c w of
        (Inl e, w1) \<Rightarrow> (Inl e, w1)
      | (Inr ctx, w1) \<Rightarrow>
          (case client_settings lib c ctx of
             Inl e \<Rightarrow> (Inl e, w1)
           | Inr ctx1 \<Rightarrow> client_chain lib c ctx1 w1))"

section \<open>The server's context\<close>

text \<open>Here the file is inside the \<open>try\<close>.\<close>

definition server_trust :: "ssl_lib \<Rightarrow> server_tls_config \<Rightarrow> ssl_context \<Rightarrow> tls_world \<Rightarrow> (exn + ssl_context) \<times> tls_world" where
  "server_trust lib c ctx w =
     (if \<not> mtls_enabled c then (Inr ctx, w)
      else (case set_verify_mode (st_client_cert_verification c) ctx of
              Inl e \<Rightarrow> (Inl e, w)
            | Inr ctx1 \<Rightarrow>
                (case st_ca_cert_pem c of
                   Some pem \<Rightarrow>
                     (case temp_file lib pem w of
                        ((Some e, n), w1) \<Rightarrow> (Inl e, unlink n w1)
                      | ((None, Some n), w1) \<Rightarrow> (load_verify_locations lib n w1 ctx1, unlink (Some n) w1)
                      | ((None, None), w1) \<Rightarrow> (Inr ctx1, w1))
                 | None \<Rightarrow>
                     (case st_ca_cert_path c of
                        Some p \<Rightarrow> (load_verify_locations lib p w ctx1, w)
                      | None \<Rightarrow> (Inr ctx1, w)))))"

definition create_server_ssl_context :: "ssl_lib \<Rightarrow> server_tls_config \<Rightarrow> tls_world \<Rightarrow> (exn + ssl_context) \<times> tls_world" where
  "create_server_ssl_context lib c w =
     (case server_config_error c of
        Some e \<Rightarrow> (Inl e, w)
      | None \<Rightarrow>
          (case load_chain ''server'' lib (st_server_cert_path c) (st_server_key_path c) (st_server_cert_pem c)
                  (st_server_key_pem c) (st_server_key_password c) server_default w of
             (Inl e, w1) \<Rightarrow> (Inl e, w1)
           | (Inr ctx, w1) \<Rightarrow>
               (case server_trust lib c ctx w1 of
                  (Inl e, w2) \<Rightarrow> (Inl e, w2)
                | (Inr ctx1, w2) \<Rightarrow>
                    (then_set (set_versions (st_minimum_version c) (st_maximum_version c) ctx1) (set_ciphers lib (st_ciphers c)), w2))))"

section \<open>Certificates\<close>

text \<open>A certificate as \<open>getpeercert\<close> gives it; \<open>None\<close> is also the empty dictionary.\<close>

record cert_dict =
  ct_subject :: "(string \<times> string) list list"
  ct_issuer :: "(string \<times> string) list list"
  ct_alt_names :: "(string \<times> string) list"
  ct_serial :: "string option"
  ct_not_before :: "string option"
  ct_not_after :: "string option"
  ct_peercert :: "string option"

definition extract_common_names :: "(string \<times> string) list list \<Rightarrow> string list" where
  "extract_common_names subject = remdups (map snd (filter (\<lambda>p. fst p = ''commonName'') (concat subject)))"

definition extract_san_dns :: "(string \<times> string) list \<Rightarrow> string list" where
  "extract_san_dns names = remdups (map snd (filter (\<lambda>p. fst p = ''DNS'') names))"

definition extract_san_uri :: "(string \<times> string) list \<Rightarrow> string list" where
  "extract_san_uri names = map snd (filter (\<lambda>p. fst p = ''URI'') names)"

record tls_verifier =
  tv_common_names :: "string list"
  tv_san_dns :: "string list"
  tv_issuers :: "string list"

definition new_tls_verifier :: "string list option \<Rightarrow> string list option \<Rightarrow> string list option \<Rightarrow> tls_verifier" where
  "new_tls_verifier cns dns issuers =
     \<lparr>tv_common_names = (case cns of None \<Rightarrow> [] | Some xs \<Rightarrow> xs), tv_san_dns = (case dns of None \<Rightarrow> [] | Some xs \<Rightarrow> xs),
      tv_issuers = (case issuers of None \<Rightarrow> [] | Some xs \<Rightarrow> xs)\<rparr>"

definition wildcard_of :: "string \<Rightarrow> string" where
  "wildcard_of host = ''*.'' @ (case py_partition (CHR ''.'') host of (_, True, rest) \<Rightarrow> rest | _ \<Rightarrow> [])"

definition host_matches :: "cert_dict \<Rightarrow> string \<Rightarrow> bool" where
  "host_matches cert host =
     (let names = extract_common_names (ct_subject cert) @ extract_san_dns (ct_alt_names cert)
      in host \<in> set names \<or> wildcard_of host \<in> set names)"

definition overlaps :: "string list \<Rightarrow> string list \<Rightarrow> bool" where
  "overlaps xs ys \<longleftrightarrow> list_ex (\<lambda>x. x \<in> set ys) xs"

definition tls_verify :: "tls_verifier \<Rightarrow> cert_dict option \<Rightarrow> string option \<Rightarrow> bool" where
  "tls_verify v cert hostname =
     (case cert of
        None \<Rightarrow> False
      | Some c \<Rightarrow>
          if given hostname \<and> \<not> host_matches c (the hostname) then False
          else if tv_common_names v \<noteq> [] \<and> \<not> overlaps (extract_common_names (ct_subject c)) (tv_common_names v) then False
          else if tv_san_dns v \<noteq> [] \<and> \<not> overlaps (extract_san_dns (ct_alt_names c)) (tv_san_dns v) then False
          else if tv_issuers v \<noteq> [] \<and> \<not> overlaps (extract_common_names (ct_issuer c)) (tv_issuers v) then False
          else True)"

section \<open>Principals\<close>

text \<open>
  \<open>arrange\<close> is the order in which a set of strings is iterated over, which differs from process to process;
  \<open>sha\<close> is SHA-256 of a binary certificate, or of the text of the dictionary without one.
\<close>

record peer_certificate =
  pc_subject :: "(string \<times> string) list list"
  pc_issuer :: "(string \<times> string) list list"
  pc_common_name :: "string option"
  pc_san_dns :: "string list option"
  pc_san_uri :: "string list option"
  pc_serial :: "string option"
  pc_not_before :: "string option"
  pc_not_after :: "string option"
  pc_fingerprint :: "string option"

definition first_name :: "'a list \<Rightarrow> 'a option" where
  "first_name xs = (case xs of [] \<Rightarrow> None | x # _ \<Rightarrow> Some x)"

definition unless_empty :: "'a list \<Rightarrow> 'a list option" where
  "unless_empty xs = (if xs = [] then None else Some xs)"

definition extract_principal_from_cert ::
  "(string list \<Rightarrow> string list) \<Rightarrow> (string + cert_dict \<Rightarrow> string) \<Rightarrow> cert_dict option \<Rightarrow> peer_certificate option" where
  "extract_principal_from_cert arrange sha cert =
     map_option (\<lambda>c.
       \<lparr>pc_subject = ct_subject c, pc_issuer = ct_issuer c,
        pc_common_name = first_name (arrange (extract_common_names (ct_subject c))),
        pc_san_dns = unless_empty (arrange (extract_san_dns (ct_alt_names c))),
        pc_san_uri = unless_empty (extract_san_uri (ct_alt_names c)), pc_serial = ct_serial c,
        pc_not_before = ct_not_before c, pc_not_after = ct_not_after c,
        pc_fingerprint = Some (case ct_peercert c of Some b \<Rightarrow> sha (Inl b) | None \<Rightarrow> sha (Inr c))\<rparr>) cert"

definition get_principal_from_cert ::
  "(string list \<Rightarrow> string list) \<Rightarrow> (string + cert_dict \<Rightarrow> string) \<Rightarrow> bool \<Rightarrow> bool \<Rightarrow> cert_dict option \<Rightarrow> string option" where
  "get_principal_from_cert arrange sha prefer_san prefer_uri cert =
     (case extract_principal_from_cert arrange sha cert of
        None \<Rightarrow> None
      | Some p \<Rightarrow>
          (case (prefer_uri, pc_san_uri p) of
             (True, Some (u # _)) \<Rightarrow> Some u
           | _ \<Rightarrow> (case (prefer_san, pc_san_dns p) of
                     (True, Some (d # _)) \<Rightarrow> Some d
                   | _ \<Rightarrow> pc_common_name p)))"

definition shortened :: "nat \<Rightarrow> string \<Rightarrow> string" where
  "shortened n s = (if n < length s then take n s @ ''...'' else s)"

definition sanitize_cert_for_audit ::
  "(string list \<Rightarrow> string list) \<Rightarrow> bool \<Rightarrow> bool \<Rightarrow> bool \<Rightarrow> peer_certificate option \<Rightarrow> (string, pyval) dict" where
  "sanitize_cert_for_audit arrange include_issuer include_serial include_fingerprint cert =
     (case cert of
        None \<Rightarrow> [(''present'', PBool False)]
      | Some p \<Rightarrow>
          [(''present'', PBool True), (''common_name'', case pc_common_name p of None \<Rightarrow> PNone | Some n \<Rightarrow> PStr n)]
          @ (case pc_san_dns p of Some (x # xs) \<Rightarrow> [(''san_dns'', PList (map PStr (take 3 (x # xs))))] | _ \<Rightarrow> [])
          @ (case pc_san_uri p of Some (x # xs) \<Rightarrow> [(''san_uri'', PList (map PStr (take 3 (x # xs))))] | _ \<Rightarrow> [])
          @ (case first_name (arrange (extract_common_names (pc_issuer p))) of
               Some n \<Rightarrow> if include_issuer then [(''issuer_cn'', PStr n)] else []
             | None \<Rightarrow> [])
          @ (case pc_serial p of
               Some (x # xs) \<Rightarrow> if include_serial then [(''serial'', PStr (shortened 8 (x # xs)))] else []
             | _ \<Rightarrow> [])
          @ (case pc_fingerprint p of
               Some (x # xs) \<Rightarrow> if include_fingerprint then [(''fingerprint'', PStr (take 16 (x # xs) @ ''...''))] else []
             | _ \<Rightarrow> [])
          @ (case pc_not_before p of Some (x # xs) \<Rightarrow> [(''valid_from'', PStr (x # xs))] | _ \<Rightarrow> [])
          @ (case pc_not_after p of Some (x # xs) \<Rightarrow> [(''valid_until'', PStr (x # xs))] | _ \<Rightarrow> []))"

definition verify_mtls_connection ::
  "(string list \<Rightarrow> string list) \<Rightarrow> (string + cert_dict \<Rightarrow> string) \<Rightarrow> cert_dict option \<Rightarrow> string option
     \<Rightarrow> server_tls_config option \<Rightarrow> bool \<times> string option" where
  "verify_mtls_connection arrange sha cert auth_scheme config =
     (if auth_scheme \<noteq> Some ''mtls'' then (True, None)
      else if (case config of Some c \<Rightarrow> \<not> mtls_enabled c | None \<Rightarrow> False) then (False, Some ''mTLS not enabled on server'')
      else if cert = None then (False, Some ''Client certificate required for mtls auth scheme'')
      else if extract_principal_from_cert arrange sha cert = None then (False, Some ''Failed to parse client certificate'')
      else (True, None))"

section \<open>What a client's context guarantees\<close>

lemma then_set_Inr: "then_set r f = Inr y \<longleftrightarrow> (\<exists>x. r = Inr x \<and> f x = Inr y)"
  by (auto simp: then_set_def split: sum.splits)

lemma client_default_fields:
  "client_default lib f w = Inr ctx \<Longrightarrow>
    sc_verify_mode ctx = CERT_REQUIRED \<and> sc_check_hostname ctx \<and> sc_minimum ctx = None \<and> sc_maximum ctx = None
    \<and> sc_ciphers ctx = None \<and> sc_chain ctx = None \<and> sc_trusted ctx = (case f of None \<Rightarrow> None | Some n \<Rightarrow> map_of (tw_files w) n)"
  by (auto simp: client_default_def Let_def simp del: dict_opaque split: option.splits)

lemma client_settings_fields:
  assumes "client_settings lib c ctx = Inr ctx'" "sc_check_hostname ctx"
  shows "sc_verify_mode ctx' = tl_verify_mode c \<and> tl_verify_mode c \<noteq> CERT_NONE \<and> sc_check_hostname ctx' = tl_check_hostname c
    \<and> sc_minimum ctx' = Some (tl_minimum_version c)
    \<and> sc_maximum ctx' = (case tl_maximum_version c of None \<Rightarrow> sc_maximum ctx | Some h \<Rightarrow> Some h)
    \<and> sc_trusted ctx' = sc_trusted ctx \<and> sc_chain ctx' = sc_chain ctx"
  using assms
  by (auto simp: client_settings_def then_set_Inr set_verify_mode_def set_versions_def set_check_hostname_def set_ciphers_def
      split: if_splits option.splits list.splits)

lemma load_cert_chain_fields:
  "load_cert_chain lib cf kf pw w ctx = Inr ctx' \<Longrightarrow>
    (\<exists>c k. map_of (tw_files w) cf = Some c \<and> map_of (tw_files w) kf = Some k \<and> sl_pair lib c k pw = None
      \<and> ctx' = ctx\<lparr>sc_chain := Some (c, k)\<rparr>)"
  by (auto simp: load_cert_chain_def simp del: dict_opaque split: option.splits)

text \<open>The library names temporary files anew (\<open>tempfile\<close>), apart from the files there are.\<close>

definition fresh_names :: "ssl_lib \<Rightarrow> tls_world \<Rightarrow> bool" where
  "fresh_names lib w \<longleftrightarrow> inj (sl_temp_name lib) \<and> (\<forall>n \<ge> tw_temps w. map_of (tw_files w) (sl_temp_name lib n) = None)"

lemma delete_fresh: "map_of d k = None \<Longrightarrow> AList.delete k (AList.update k v d) = d"
proof (induction d)
  case (Cons p d)
  then show ?case by (cases p) (auto simp: AList.delete_eq split: if_splits)
qed (simp add: AList.delete_eq)

lemma temp_file_made:
  assumes "map_of (tw_files w) (sl_temp_name lib (tw_temps w)) = None" "temp_file lib t w = ((e, n), w1)"
  shows "tw_files (unlink n w1) = tw_files w" "tw_temps w1 = Suc (tw_temps w)"
    "e = None \<Longrightarrow> n = Some (sl_temp_name lib (tw_temps w)) \<and> tw_files w1 = AList.update (sl_temp_name lib (tw_temps w)) t (tw_files w)"
  using assms by (auto simp: temp_file_def unlink_def Let_def delete_fresh simp del: dict_opaque split: option.splits)

lemma unlink_twice:
  assumes "fresh_names lib w" "temp_file lib s w = ((None, n1), w1)" "temp_file lib t w1 = ((e, n2), w2)"
  shows "tw_files (unlink n2 (unlink n1 w2)) = tw_files w"
proof -
  let ?a = "sl_temp_name lib (tw_temps w)" and ?b = "sl_temp_name lib (Suc (tw_temps w))"
  have ab: "?a \<noteq> ?b" using assms(1) by (auto simp: fresh_names_def dest: injD)
  have a: "map_of (tw_files w) ?a = None" and b: "map_of (tw_files w) ?b = None"
    using assms(1) by (auto simp: fresh_names_def simp del: dict_opaque)
  note w1 = temp_file_made [OF a assms(2)]
  have "map_of (tw_files w1) (sl_temp_name lib (tw_temps w1)) = None"
    using w1 ab b by (simp del: dict_opaque)
  note w2 = temp_file_made(1) [OF this assms(3)]
  have "tw_files (unlink n2 (unlink n1 w2)) = tw_files (unlink n1 (unlink n2 w2))"
    by (auto simp: unlink_def AList.delete_eq conj_commute split: option.splits intro: filter_cong)
  also have "\<dots> = AList.delete ?a (tw_files (unlink n2 w2))" using w1(3) by (simp add: unlink_def)
  also have "\<dots> = tw_files w" using w2 w1(3) a by (simp add: delete_fresh del: dict_opaque)
  finally show ?thesis .
qed

lemma load_pem_clean:
  assumes "fresh_names lib w" "load_pem_to_context lib c k pw ctx w = (r, w')"
  shows "tw_files w' = tw_files w"
proof -
  obtain e1 n1 w1 where t1: "temp_file lib c w = ((e1, n1), w1)" by (metis prod.collapse)
  have a: "map_of (tw_files w) (sl_temp_name lib (tw_temps w)) = None"
    using assms(1) by (auto simp: fresh_names_def simp del: dict_opaque)
  note w1 = temp_file_made [OF a t1]
  show ?thesis
  proof (cases e1)
    case (Some e)
    with assms(2) t1 w1(1) show ?thesis by (auto simp: load_pem_to_context_def)
  next
    case None
    obtain e2 n2 w2 where t2: "temp_file lib k w1 = ((e2, n2), w2)" by (metis prod.collapse)
    have n1: "n1 = Some (sl_temp_name lib (tw_temps w))" using w1(3) None by simp
    have n2: "e2 = None \<Longrightarrow> \<exists>x. n2 = Some x" using t2 by (auto simp: temp_file_def Let_def split: option.splits)
    show ?thesis using assms(2) t1 t2 None n1 n2 unlink_twice [OF assms(1) t1 [unfolded None] t2]
      by (auto simp: load_pem_to_context_def split: option.splits)
  qed
qed

text \<open>And the chain that was loaded is the texts.\<close>

lemma load_pem_chain:
  assumes "fresh_names lib w" "load_pem_to_context lib c k pw ctx w = (Inr ctx', w')"
  shows "ctx' = ctx\<lparr>sc_chain := Some (c, k)\<rparr> \<and> sl_pair lib c k pw = None"
proof -
  let ?a = "sl_temp_name lib (tw_temps w)" and ?b = "sl_temp_name lib (Suc (tw_temps w))"
  obtain e1 n1 w1 where t1: "temp_file lib c w = ((e1, n1), w1)" by (metis prod.collapse)
  obtain e2 n2 w2 where t2: "temp_file lib k w1 = ((e2, n2), w2)" by (metis prod.collapse)
  have ab: "?a \<noteq> ?b" using assms(1) by (auto simp: fresh_names_def dest: injD)
  have a: "map_of (tw_files w) ?a = None" and b: "map_of (tw_files w) ?b = None"
    using assms(1) by (auto simp: fresh_names_def simp del: dict_opaque)
  have e1: "e1 = None" using assms(2) t1 by (auto simp: load_pem_to_context_def split: option.splits)
  have e2: "e2 = None" using assms(2) t1 t2 e1 by (auto simp: load_pem_to_context_def split: option.splits)
  note w1 = temp_file_made [OF a t1]
  have w1': "n1 = Some ?a" "tw_files w1 = AList.update ?a c (tw_files w)" using w1(3) e1 by simp_all
  have "map_of (tw_files w1) (sl_temp_name lib (tw_temps w1)) = None"
    using w1(2) w1' ab b by (simp del: dict_opaque)
  from temp_file_made [OF this t2] e2 w1(2)
  have w2: "n2 = Some ?b" "tw_files w2 = AList.update ?b k (tw_files w1)" by simp_all
  have "load_cert_chain lib ?a ?b pw w2 ctx = Inr ctx'"
    using assms(2) t1 t2 e1 e2 w1'(1) w2(1) by (simp add: load_pem_to_context_def)
  from load_cert_chain_fields [OF this] w1'(2) w2(2) ab show ?thesis by (simp del: dict_opaque)
qed

lemma load_chain_clean:
  "fresh_names lib w \<Longrightarrow> load_chain whose lib cp kp c k pw ctx w = (r, w') \<Longrightarrow> tw_files w' = tw_files w"
  by (auto simp: load_chain_def dest: load_pem_clean split: if_splits option.splits list.splits)

lemma client_chain_clean:
  "fresh_names lib w \<Longrightarrow> client_chain lib c ctx w = (r, w') \<Longrightarrow> tw_files w' = tw_files w"
  by (auto simp: client_chain_def dest: load_chain_clean split: if_splits)

lemma temp_file_fresh:
  assumes "fresh_names lib w" "temp_file lib t w = ((e, n), w1)"
  shows "fresh_names lib (unlink n w1)"
proof -
  have a: "map_of (tw_files w) (sl_temp_name lib (tw_temps w)) = None"
    using assms(1) by (auto simp: fresh_names_def simp del: dict_opaque)
  have "tw_temps (unlink n w1) = Suc (tw_temps w)"
    using temp_file_made(2) [OF a assms(2)] by (simp add: unlink_def split: option.splits)
  with assms(1) temp_file_made(1) [OF a assms(2)] show ?thesis by (simp add: fresh_names_def del: dict_opaque)
qed

lemma client_trust_clean:
  assumes "fresh_names lib w" "\<And>t. sl_write lib t = None" "client_trust lib c w = (r, w1)"
  shows "tw_files w1 = tw_files w \<and> fresh_names lib w1"
proof (cases "tl_ca_cert_pem c")
  case None
  with assms show ?thesis by (auto simp: client_trust_def)
next
  case (Some pem)
  obtain e n w2 where t: "temp_file lib pem w = ((e, n), w2)" by (metis prod.collapse)
  have a: "map_of (tw_files w) (sl_temp_name lib (tw_temps w)) = None"
    using assms(1) by (auto simp: fresh_names_def simp del: dict_opaque)
  have "e \<noteq> None \<Longrightarrow> n = None" using t assms(2) by (auto simp: temp_file_def Let_def split: option.splits)
  then have "w1 = unlink n w2" using assms(3) Some t by (auto simp: client_trust_def unlink_def split: option.splits)
  with temp_file_made(1) [OF a t] temp_file_fresh [OF assms(1) t] show ?thesis by simp
qed

lemma temp_file_temps: "tw_temps w \<le> tw_temps (snd (temp_file lib t w))"
  by (simp add: temp_file_def Let_def split: option.splits)

lemma unlink_temps [simp]: "tw_temps (unlink n w) = tw_temps w"
  by (simp add: unlink_def split: option.splits)

lemma load_pem_temps: "load_pem_to_context lib c k pw ctx w = (r, w') \<Longrightarrow> tw_temps w \<le> tw_temps w'"
proof -
  assume l: "load_pem_to_context lib c k pw ctx w = (r, w')"
  obtain e1 n1 w1 where t1: "temp_file lib c w = ((e1, n1), w1)" by (metis prod.collapse)
  obtain e2 n2 w2 where t2: "temp_file lib k w1 = ((e2, n2), w2)" by (metis prod.collapse)
  have "tw_temps w \<le> tw_temps w1" "tw_temps w1 \<le> tw_temps w2"
    using temp_file_temps [where w = w and t = c and lib = lib] temp_file_temps [where w = w1 and t = k and lib = lib] t1 t2 by simp_all
  with l t1 t2 show ?thesis by (auto simp: load_pem_to_context_def split: option.splits)
qed

lemma load_chain_temps: "load_chain whose lib cp kp c k pw ctx w = (r, w') \<Longrightarrow> tw_temps w \<le> tw_temps w'"
  by (auto simp: load_chain_def dest: load_pem_temps split: if_splits option.splits list.splits)

lemma load_chain_fresh:
  "fresh_names lib w \<Longrightarrow> load_chain whose lib cp kp c k pw ctx w = (r, w') \<Longrightarrow> fresh_names lib w'"
proof -
  assume f: "fresh_names lib w" and l: "load_chain whose lib cp kp c k pw ctx w = (r, w')"
  have "tw_files w' = tw_files w" "tw_temps w \<le> tw_temps w'" using load_chain_clean [OF f l] load_chain_temps [OF l] .
  with f show ?thesis unfolding fresh_names_def using le_trans by metis
qed

lemma server_trust_clean:
  assumes "fresh_names lib w" "server_trust lib c ctx w = (r, w')"
  shows "tw_files w' = tw_files w"
proof (cases "mtls_enabled c \<and> st_ca_cert_pem c \<noteq> None")
  case True
  then obtain pem where pem: "st_ca_cert_pem c = Some pem" by blast
  obtain e n w2 where t: "temp_file lib pem w = ((e, n), w2)" by (metis prod.collapse)
  have a: "map_of (tw_files w) (sl_temp_name lib (tw_temps w)) = None"
    using assms(1) by (auto simp: fresh_names_def simp del: dict_opaque)
  have "e = None \<Longrightarrow> n \<noteq> None" using temp_file_made(3) [OF a t] by simp
  then have "w' = unlink n w2 \<or> w' = w"
    using assms(2) True pem t by (auto simp: server_trust_def split: sum.splits option.splits)
  with temp_file_made(1) [OF a t] show ?thesis by auto
next
  case False
  with assms(2) show ?thesis
    by (cases "mtls_enabled c"; cases "set_verify_mode (st_client_cert_verification c) ctx"; cases "st_ca_cert_path c")
      (simp_all add: server_trust_def)
qed



section \<open>What a verified certificate guarantees\<close>

definition host_covered :: "string \<Rightarrow> string list \<Rightarrow> bool" where
  "host_covered host names \<longleftrightarrow>
     host \<in> set names
     \<or> (\<exists>label domain. host = label @ CHR ''.'' # domain \<and> CHR ''.'' \<notin> set label \<and> ''*.'' @ domain \<in> set names)
     \<or> CHR ''.'' \<notin> set host \<and> ''*.'' \<in> set names"

lemma host_covered_wildcard: "host_covered host names \<longleftrightarrow> host \<in> set names \<or> wildcard_of host \<in> set names"
proof (cases "CHR ''.'' \<in> set host")
  case False
  have "wildcard_of host = ''*.''" using py_partition_absent [OF False] by (simp add: wildcard_of_def)
  with False show ?thesis by (auto simp: host_covered_def)
next
  case True
  then obtain l d where h: "host = l @ CHR ''.'' # d" "CHR ''.'' \<notin> set l" by (metis split_list_first)
  have w: "wildcard_of host = ''*.'' @ d" using py_partition_append [OF h(2), of d] h(1) by (simp add: wildcard_of_def)
  have same: "l' = l \<and> d' = d" if "host = l' @ CHR ''.'' # d'" "CHR ''.'' \<notin> set l'" for l' d'
    using py_partition_append [OF h(2), of d] py_partition_append [OF that(2), of d'] h(1) that(1) by simp
  show ?thesis
  proof
    assume "host_covered host names"
    with True show "host \<in> set names \<or> wildcard_of host \<in> set names"
      unfolding host_covered_def w using same by blast
  next
    assume "host \<in> set names \<or> wildcard_of host \<in> set names"
    then show "host_covered host names" unfolding host_covered_def w using h by blast
  qed
qed

lemma overlaps_iff: "overlaps xs ys \<longleftrightarrow> (\<exists>x \<in> set xs. x \<in> set ys)"
  by (simp add: overlaps_def list_ex_iff)

lemma names_of:
  "x \<in> set (extract_common_names subject) \<longleftrightarrow> (\<exists>rdn \<in> set subject. (''commonName'', x) \<in> set rdn)"
  "x \<in> set (extract_san_dns names) \<longleftrightarrow> (''DNS'', x) \<in> set names"
  by (force simp: extract_common_names_def, force simp: extract_san_dns_def)

text \<open>
  A certificate that passes the verifier has a name for the host, its own or one with a
  star for exactly the first label (which may be empty), and where the verifier lists common names, DNS names or
  issuers, one of them; and nothing else is asked.
\<close>

theorem verified_certificate:
  "tls_verify v (Some c) host \<longleftrightarrow>
     (given host \<longrightarrow> host_covered (the host) (extract_common_names (ct_subject c) @ extract_san_dns (ct_alt_names c)))
   \<and> (tv_common_names v \<noteq> [] \<longrightarrow> (\<exists>n \<in> set (tv_common_names v). \<exists>rdn \<in> set (ct_subject c). (''commonName'', n) \<in> set rdn))
   \<and> (tv_san_dns v \<noteq> [] \<longrightarrow> (\<exists>n \<in> set (tv_san_dns v). (''DNS'', n) \<in> set (ct_alt_names c)))
   \<and> (tv_issuers v \<noteq> [] \<longrightarrow> (\<exists>n \<in> set (tv_issuers v). \<exists>rdn \<in> set (ct_issuer c). (''commonName'', n) \<in> set rdn))"
proof -
  have h: "host_matches c x \<longleftrightarrow> host_covered x (extract_common_names (ct_subject c) @ extract_san_dns (ct_alt_names c))" for x
    by (simp add: host_covered_wildcard host_matches_def Let_def)
  have cn: "overlaps (extract_common_names s) ns \<longleftrightarrow> (\<exists>n \<in> set ns. \<exists>rdn \<in> set s. (''commonName'', n) \<in> set rdn)" for s ns
    unfolding overlaps_iff Bex_def names_of by blast
  have dns: "overlaps (extract_san_dns s) ns \<longleftrightarrow> (\<exists>n \<in> set ns. (''DNS'', n) \<in> set s)" for s ns
    unfolding overlaps_iff Bex_def names_of by blast
  show ?thesis unfolding tls_verify_def option.case h cn dns by (cases "given host"; simp)
qed

text \<open>The orders a set may be iterated over in.\<close>

definition set_order :: "('a list \<Rightarrow> 'a list) \<Rightarrow> bool" where
  "set_order arrange \<longleftrightarrow> (\<forall>xs. set (arrange xs) = set xs \<and> (distinct xs \<longrightarrow> distinct (arrange xs)))"

text \<open>
  The principal of a certificate with two DNS names is an accident: with the usual
  preference for DNS names it is either, depending on the order a set is iterated over, which differs from one
  process to the next; with one DNS name it is that name.
\<close>

theorem principal_unstable:
  assumes "extract_san_dns (ct_alt_names c) = d # ds"
  shows "(\<forall>n \<in> set (d # ds). \<exists>arrange. set_order arrange \<and> get_principal_from_cert arrange sha True False (Some c) = Some n)
    \<and> (ds = [] \<longrightarrow> (\<forall>arrange. set_order arrange \<longrightarrow> get_principal_from_cert arrange sha True False (Some c) = Some d))"
proof (intro conjI ballI impI allI)
  fix n
  assume n: "n \<in> set (d # ds)"
  let ?arrange = "\<lambda>xs. if n \<in> set xs then n # removeAll n xs else xs"
  have "get_principal_from_cert ?arrange sha True False (Some c) = Some n"
    using n assms by (auto simp: get_principal_from_cert_def extract_principal_from_cert_def unless_empty_def)
  moreover have "set_order ?arrange" by (auto simp: set_order_def distinct_removeAll)
  ultimately show "\<exists>arrange. set_order arrange \<and> get_principal_from_cert arrange sha True False (Some c) = Some n"
    by (intro exI conjI)
next
  fix arrange :: "string list \<Rightarrow> string list"
  assume ds: "ds = []" and a: "set_order arrange"
  from a [unfolded set_order_def, rule_format, of "[d]"] have one: "set (arrange [d]) = {d}" "distinct (arrange [d])" by simp_all
  then obtain y ys where y: "arrange [d] = y # ys" by (cases "arrange [d]") simp_all
  with one have "set ys \<subseteq> {y}" "y \<notin> set ys" "y = d" by auto
  then have "ys = []" by (cases ys) auto
  with y \<open>y = d\<close> have "arrange [d] = [d]" by simp
  with assms ds show "get_principal_from_cert arrange sha True False (Some c) = Some d"
    by (simp add: get_principal_from_cert_def extract_principal_from_cert_def unless_empty_def)
qed

text \<open>
  A request that claims the scheme \<open>mtls\<close> is accepted only over a connection that
  presented a certificate, to a server that does not have mutual TLS switched off; what the certificate says
  makes no difference, and other schemes are not looked at.
\<close>

theorem mtls_needs_certificate:
  "verify_mtls_connection arrange sha cert scheme config = (True, None) \<longleftrightarrow>
     scheme \<noteq> Some ''mtls'' \<or> (cert \<noteq> None \<and> (case config of Some c \<Rightarrow> mtls_enabled c | None \<Rightarrow> True))"
  by (auto simp: verify_mtls_connection_def extract_principal_from_cert_def split: option.splits)

section \<open>Witnesses\<close>

definition sample_ssl :: ssl_lib where
  "sample_ssl = \<lparr>sl_temp_name = (\<lambda>n. CHR ''t'' # replicate n CHR ''1''), sl_make = (\<lambda>_. None), sl_write = (\<lambda>_. None),
     sl_pair = (\<lambda>_ _ _. None), sl_trust = (\<lambda>_. None), sl_ciphers = (\<lambda>_. None)\<rparr>"

definition key_dir :: tls_world where
  "key_dir = \<lparr>tw_files = [(''ca.pem'', ''CA'')], tw_temps = 0\<rparr>"

definition pem_config :: tls_config where
  "pem_config = default_tls_config\<lparr>tl_ca_cert_pem := Some ''CA'', tl_client_cert_pem := Some ''C'', tl_client_key_pem := Some ''K''\<rparr>"

lemma sample_fresh: "fresh_names sample_ssl key_dir"
  by (auto simp: fresh_names_def sample_ssl_def key_dir_def inj_def replicate_eq_replicate)



definition two_names :: cert_dict where
  "two_names = \<lparr>ct_subject = [[(''commonName'', ''c'')]], ct_issuer = [], ct_alt_names = [(''DNS'', ''a''), (''DNS'', ''b'')],
     ct_serial = None, ct_not_before = None, ct_not_after = None, ct_peercert = None\<rparr>"

theorem verified_certificate_witness:
  "tls_verify (new_tls_verifier None (Some [''b'']) None) (Some two_names) (Some ''a'')"
  unfolding verified_certificate by (simp add: two_names_def new_tls_verifier_def host_covered_def extract_san_dns_def)

theorem principal_unstable_witness:
  "\<exists>f g. get_principal_from_cert f (\<lambda>_. []) True False (Some two_names) = Some ''a''
     \<and> get_principal_from_cert g (\<lambda>_. []) True False (Some two_names) = Some ''b''"
proof -
  have "extract_san_dns (ct_alt_names two_names) = ''a'' # [''b'']" by (simp add: two_names_def extract_san_dns_def)
  from principal_unstable [OF this, of "\<lambda>_. []"] show ?thesis by (metis list.set_intros(1) list.set_intros(2))
qed

theorem mtls_needs_certificate_witness:
  "verify_mtls_connection id (\<lambda>_. []) (Some two_names) (Some ''mtls'') None = (True, None)"
  using mtls_needs_certificate [of id "\<lambda>_. []" "Some two_names" "Some ''mtls''" None] by simp

end
