(* ===== verification/Config_Models.thy ===== *)
theory Config_Models
  imports Config_Loader Client_Calls Server_Interceptors Mtls
begin

text \<open>
  Configuration from data (\<open>config/models.py\<close>): the coercions of fields, and the sections for the protocol, the
  client, security with mutual TLS, health checks and quality of service, as the parsed file gives them and as the
  rest of the package uses them. The section for resilience, which fills dataclasses without looking at their
  types, is a parameter. A float that is not finite counts as neither negative nor zero.
\<close>

section \<open>Coercions\<close>

text \<open>\<open>str()\<close> of a value and \<open>float()\<close> of a text (\<open>None\<close> for the exception, \<open>Some None\<close> when not finite).\<close>

record config_lib =
  cl_str :: "pyval \<Rightarrow> string"
  cl_float :: "string \<Rightarrow> rat option option"

definition not_a :: "string \<Rightarrow> string \<Rightarrow> exn" where
  "not_a field what = Exn TypeError 0 (field @ '' must be '' @ what) PNone None"

definition bad_value :: "string \<Rightarrow> exn" where
  "bad_value msg = Exn ValueError 0 msg PNone None"

definition coerce_bool :: "string \<Rightarrow> pyval \<Rightarrow> exn + bool" where
  "coerce_bool field v =
     (case v of
        PBool b \<Rightarrow> Inr b
      | PInt i \<Rightarrow> Inr (i \<noteq> 0)
      | PStr s \<Rightarrow>
          (let t = py_lower (py_strip s) in
           if t \<in> {''1'', ''true'', ''yes'', ''on''} then Inr True
           else if t \<in> {''0'', ''false'', ''no'', ''off''} then Inr False
           else Inl (not_a field ''a bool''))
      | _ \<Rightarrow> Inl (not_a field ''a bool''))"

definition coerce_int :: "string \<Rightarrow> pyval \<Rightarrow> exn + int" where
  "coerce_int field v =
     (case v of
        PInt i \<Rightarrow> Inr i
      | PFloat (Some r) \<Rightarrow> if of_int (py_trunc r) = r then Inr (py_trunc r) else Inl (not_a field ''an int'')
      | PStr s \<Rightarrow> (case parse_int s of Some i \<Rightarrow> Inr i | None \<Rightarrow> Inl (bad_value ''invalid literal for int()''))
      | _ \<Rightarrow> Inl (not_a field ''an int''))"

definition coerce_float :: "config_lib \<Rightarrow> string \<Rightarrow> pyval \<Rightarrow> exn + rat option" where
  "coerce_float lib field v =
     (case v of
        PInt i \<Rightarrow> Inr (Some (of_int i))
      | PFloat r \<Rightarrow> Inr r
      | PStr s \<Rightarrow> (case cl_float lib (py_strip s) of Some r \<Rightarrow> Inr r | None \<Rightarrow> Inl (bad_value ''could not convert string to float''))
      | _ \<Rightarrow> Inl (not_a field ''a float''))"

definition coerce_str :: "config_lib \<Rightarrow> pyval \<Rightarrow> exn + string" where
  "coerce_str lib v = (case v of PStr s \<Rightarrow> Inr s | _ \<Rightarrow> Inr (cl_str lib v))"

text \<open>A member of an enumeration by its value, or by its name or value in any case; \<open>upper\<close> here is \<open>lower\<close>.\<close>

definition coerce_enum :: "string \<Rightarrow> (string \<times> string \<times> 'e) list \<Rightarrow> string \<Rightarrow> pyval \<Rightarrow> exn + 'e" where
  "coerce_enum enum_name members field v =
     (case v of
        PStr s \<Rightarrow>
          (let t = py_strip s in
           case List.find (\<lambda>m. fst (snd m) = t) members of
             Some m \<Rightarrow> Inr (snd (snd m))
           | None \<Rightarrow>
               (case List.find (\<lambda>m. py_lower (fst m) = py_lower t \<or> py_lower (fst (snd m)) = py_lower t) members of
                  Some m \<Rightarrow> Inr (snd (snd m))
                | None \<Rightarrow> Inl (bad_value (field @ '' must be a valid '' @ enum_name))))
      | _ \<Rightarrow> Inl (bad_value (field @ '' must be a valid '' @ enum_name)))"

definition coerce_tls_version :: "string \<Rightarrow> pyval \<Rightarrow> exn + tls_version" where
  "coerce_tls_version = coerce_enum ''TlsVersion'' [(''TLSv1_2'', ''TLSv1.2'', TLSv1_2), (''TLSv1_3'', ''TLSv1.3'', TLSv1_3)]"

definition coerce_transport :: "string \<Rightarrow> pyval \<Rightarrow> exn + Discovery.transport_scheme" where
  "coerce_transport field v =
     (case v of PStr s \<Rightarrow> transport_scheme_to_original (Some (py_lower (py_strip s))) | _ \<Rightarrow> Inl (not_a field ''a transport scheme''))"

definition coerce_transport_list :: "string \<Rightarrow> pyval \<Rightarrow> exn + Discovery.transport_scheme list" where
  "coerce_transport_list field v =
     (case v of
        PNone \<Rightarrow> Inr []
      | PStr s \<Rightarrow> on_ok (\<lambda>x. [x]) (coerce_transport field (PStr s))
      | PList xs \<Rightarrow> all_ok (coerce_transport field) xs
      | _ \<Rightarrow> Inl (not_a field ''a list of transport schemes''))"

text \<open>A text is split at its commas for a set, but is a sequence of characters for a list.\<close>

definition coerce_str_set :: "config_lib \<Rightarrow> string \<Rightarrow> pyval \<Rightarrow> exn + string list" where
  "coerce_str_set lib field v =
     (case v of
        PNone \<Rightarrow> Inr []
      | PStr s \<Rightarrow> Inr (remdups (filter (\<lambda>x. x \<noteq> []) (map py_strip (py_split (CHR '','') s))))
      | PList xs \<Rightarrow> on_ok remdups (all_ok (coerce_str lib) xs)
      | _ \<Rightarrow> Inl (not_a field ''a list of strings''))"

definition coerce_str_list :: "config_lib \<Rightarrow> string \<Rightarrow> pyval \<Rightarrow> exn + string list" where
  "coerce_str_list lib field v =
     (case v of
        PStr s \<Rightarrow> Inr (map (\<lambda>c. [c]) s)
      | PList xs \<Rightarrow> all_ok (coerce_str lib) xs
      | _ \<Rightarrow> Inl (not_a field ''a list of strings''))"

text \<open>Python's \<open>bool\<close> is an \<open>int\<close>: true is the mode 1, optional.\<close>

definition verify_mode_of_int :: "int \<Rightarrow> exn + verify_mode" where
  "verify_mode_of_int i =
     (if i = 0 then Inr CERT_NONE else if i = 1 then Inr CERT_OPTIONAL else if i = 2 then Inr CERT_REQUIRED
      else Inl (bad_value ''not a valid VerifyMode''))"

definition coerce_verify_mode :: "string \<Rightarrow> pyval \<Rightarrow> exn + verify_mode" where
  "coerce_verify_mode field v =
     (case v of
        PInt i \<Rightarrow> verify_mode_of_int i
      | PBool b \<Rightarrow> verify_mode_of_int (if b then 1 else 0)
      | PStr s \<Rightarrow>
          (let t = py_lower (py_strip s) in
           if t = ''cert_none'' then Inr CERT_NONE
           else if t = ''cert_optional'' then Inr CERT_OPTIONAL
           else if t = ''cert_required'' then Inr CERT_REQUIRED
           else (case parse_int t of
                   None \<Rightarrow> Inl (not_a field ''a valid verify mode'')
                 | Some i \<Rightarrow> (case verify_mode_of_int i of Inl _ \<Rightarrow> Inl (not_a field ''a valid verify mode'') | Inr m \<Rightarrow> Inr m)))
      | _ \<Rightarrow> Inl (not_a field ''a valid verify mode''))"

definition coerce_path :: "string \<Rightarrow> pyval \<Rightarrow> exn + string" where
  "coerce_path field v = (case v of PStr s \<Rightarrow> Inr s | _ \<Rightarrow> Inl (not_a field ''a path''))"

definition optional :: "(pyval \<Rightarrow> exn + 'a) \<Rightarrow> pyval \<Rightarrow> exn + 'a option" where
  "optional coerce v = (if v = PNone then Inr None else on_ok Some (coerce v))"

text \<open>
  A field of a section: coerced when it is there, otherwise the default. (The dataclass coerces its fields again,
  which leaves coerced values and defaults as they are, but for a missing default text, which becomes \<open>None\<close>
  as text.)
\<close>

definition field_of :: "(string, pyval) dict \<Rightarrow> string \<Rightarrow> (pyval \<Rightarrow> exn + 'a) \<Rightarrow> 'a \<Rightarrow> exn + 'a" where
  "field_of d key coerce dflt = (case map_of d key of None \<Rightarrow> Inr dflt | Some v \<Rightarrow> coerce v)"

definition as_mapping :: "string \<Rightarrow> pyval \<Rightarrow> exn + (string, pyval) dict" where
  "as_mapping field v = (case v of PDict d \<Rightarrow> Inr d | _ \<Rightarrow> Inl (not_a field ''a mapping''))"

section \<open>Protocol and client\<close>

definition protocol_from_dict :: "config_lib \<Rightarrow> pyval \<Rightarrow> exn + string list \<times> string" where
  "protocol_from_dict lib v =
     (if v = PNone then Inr ([''1.0'', ''2.0''], ''2.0'')
      else bind_ok (as_mapping ''protocol'' v) (\<lambda>d.
        bind_ok (field_of d ''protocol_versions'' (coerce_str_list lib ''protocol.protocol_versions'') [''1.0'', ''2.0'']) (\<lambda>vs.
        bind_ok (field_of d ''default_version'' (coerce_str lib) ''2.0'') (\<lambda>dv. Inr (vs, dv)))))"

definition below_zero :: "rat option option \<Rightarrow> bool" where
  "below_zero t = (case t of Some (Some r) \<Rightarrow> r < 0 | _ \<Rightarrow> False)"

text \<open>A client from a file has no HTTP client and no channel factory of its own.\<close>

definition client_from_dict :: "config_lib \<Rightarrow> pyval \<Rightarrow> exn + client_config" where
  "client_from_dict lib v =
     (if v = PNone then Inr default_client_config
      else bind_ok (as_mapping ''client'' v) (\<lambda>d.
        bind_ok (field_of d ''pooling_enabled'' (coerce_bool ''client.pooling_enabled'') True) (\<lambda>pool.
        bind_ok (field_of d ''supported_transports'' (coerce_transport_list ''client.supported_transports'') []) (\<lambda>ts.
        bind_ok (field_of d ''http_timeout'' (optional (coerce_float lib ''client.http_timeout'')) (Some (Some 60))) (\<lambda>ht.
        bind_ok (field_of d ''grpc_timeout'' (optional (coerce_float lib ''client.grpc_timeout'')) (Some (Some 60))) (\<lambda>gt.
          if below_zero ht then Inl (bad_value ''client.http_timeout must be >= 0'')
          else if below_zero gt then Inl (bad_value ''client.grpc_timeout must be >= 0'')
          else Inr \<lparr>cf_httpx_client = None, cf_channel_factory = False, cf_transports = map transport_scheme_value ts,
                    cf_pooling = pool, cf_http_timeout = ht, cf_grpc_timeout = gt\<rparr>))))))"

section \<open>Security\<close>

record server_tls_settings =
  ss_server_cert_path :: "string option"
  ss_server_key_path :: "string option"
  ss_server_key_password :: "string option"
  ss_ca_cert_path :: "string option"
  ss_client_cert_verification :: "verify_mode option"
  ss_minimum_version :: tls_version
  ss_maximum_version :: "tls_version option"
  ss_ciphers :: "string option"

definition default_server_tls :: server_tls_settings where
  "default_server_tls =
     \<lparr>ss_server_cert_path = None, ss_server_key_path = None, ss_server_key_password = None, ss_ca_cert_path = None,
      ss_client_cert_verification = None, ss_minimum_version = TLSv1_2, ss_maximum_version = None, ss_ciphers = None\<rparr>"

definition server_tls_from_dict :: "config_lib \<Rightarrow> pyval \<Rightarrow> exn + server_tls_settings" where
  "server_tls_from_dict lib v =
     (if v = PNone then Inr default_server_tls
      else bind_ok (as_mapping ''security.mtls.tls'' v) (\<lambda>d.
        bind_ok (field_of d ''server_cert_path'' (optional (coerce_path ''security.mtls.tls.server_cert_path'')) None) (\<lambda>c.
        bind_ok (field_of d ''server_key_path'' (optional (coerce_path ''security.mtls.tls.server_key_path'')) None) (\<lambda>k.
        bind_ok (field_of d ''server_key_password'' (optional (coerce_str lib)) None) (\<lambda>pw.
        bind_ok (field_of d ''ca_cert_path'' (optional (coerce_path ''security.mtls.tls.ca_cert_path'')) None) (\<lambda>ca.
        bind_ok (field_of d ''client_cert_verification'' (optional (coerce_verify_mode ''security.mtls.tls.client_cert_verification'')) None) (\<lambda>vm.
        bind_ok (field_of d ''minimum_version'' (coerce_tls_version ''security.mtls.tls.minimum_version'') TLSv1_2) (\<lambda>lo.
        bind_ok (field_of d ''maximum_version'' (optional (coerce_tls_version ''security.mtls.tls.maximum_version'')) None) (\<lambda>hi.
        bind_ok (field_of d ''ciphers'' (optional (coerce_str lib)) None) (\<lambda>cs.
          Inr \<lparr>ss_server_cert_path = c, ss_server_key_path = k, ss_server_key_password = pw, ss_ca_cert_path = ca,
               ss_client_cert_verification = vm, ss_minimum_version = lo, ss_maximum_version = hi, ss_ciphers = cs\<rparr>))))))))))"

definition to_runtime_config :: "server_tls_settings \<Rightarrow> exn + server_tls_config option" where
  "to_runtime_config s =
     (case (ss_server_cert_path s, ss_server_key_path s) of
        (None, None) \<Rightarrow> Inr None
      | (Some c, Some k) \<Rightarrow>
          Inr (Some \<lparr>st_server_cert_path = Some c, st_server_key_path = Some k, st_server_key_password = ss_server_key_password s,
                    st_ca_cert_path = ss_ca_cert_path s,
                    st_client_cert_verification = (case ss_client_cert_verification s of None \<Rightarrow> CERT_NONE | Some m \<Rightarrow> m),
                    st_minimum_version = ss_minimum_version s, st_maximum_version = ss_maximum_version s,
                    st_ciphers = ss_ciphers s, st_server_cert_pem = None, st_server_key_pem = None, st_ca_cert_pem = None\<rparr>)
      | _ \<Rightarrow> Inl (bad_value ''Both server_cert_path and server_key_path are required for server TLS''))"

record mtls_config =
  mc_enabled :: bool
  mc_tls :: server_tls_settings
  mc_common_names :: "string list"
  mc_san_dns :: "string list"
  mc_issuers :: "string list"

definition mtls_from_dict :: "config_lib \<Rightarrow> pyval \<Rightarrow> exn + mtls_config" where
  "mtls_from_dict lib v =
     (case v of
        PNone \<Rightarrow> Inr \<lparr>mc_enabled = False, mc_tls = default_server_tls, mc_common_names = [], mc_san_dns = [], mc_issuers = []\<rparr>
      | PBool b \<Rightarrow> Inr \<lparr>mc_enabled = b, mc_tls = default_server_tls, mc_common_names = [], mc_san_dns = [], mc_issuers = []\<rparr>
      | _ \<Rightarrow>
        bind_ok (as_mapping ''security.mtls'' v) (\<lambda>d.
        bind_ok (field_of d ''enabled'' (coerce_bool ''security.mtls.enabled'') False) (\<lambda>en.
        bind_ok (field_of d ''allowed_common_names'' (coerce_str_set lib ''security.mtls.allowed_common_names'') []) (\<lambda>cn.
        bind_ok (field_of d ''allowed_san_dns'' (coerce_str_set lib ''security.mtls.allowed_san_dns'') []) (\<lambda>dns.
        bind_ok (field_of d ''allowed_issuer_common_names'' (coerce_str_set lib ''security.mtls.allowed_issuer_common_names'') []) (\<lambda>iss.
        bind_ok (field_of d ''tls'' (server_tls_from_dict lib) default_server_tls) (\<lambda>tls.
          Inr \<lparr>mc_enabled = en, mc_tls = tls, mc_common_names = cn, mc_san_dns = dns, mc_issuers = iss\<rparr>)))))))"

definition default_mtls :: mtls_config where
  "default_mtls = \<lparr>mc_enabled = False, mc_tls = default_server_tls, mc_common_names = [], mc_san_dns = [], mc_issuers = []\<rparr>"

text \<open>\<open>rbac\<close> and \<open>audit\<close> stand for the longer names where those are missing; they are looked at last.\<close>

definition or_short :: "(string, pyval) dict \<Rightarrow> string \<Rightarrow> string \<Rightarrow> bool option \<Rightarrow> exn + bool" where
  "or_short d short label long = (case long of Some b \<Rightarrow> Inr b | None \<Rightarrow> field_of d short (coerce_bool label) True)"

definition security_from_dict :: "config_lib \<Rightarrow> pyval \<Rightarrow> exn + security_config \<times> mtls_config" where
  "security_from_dict lib v =
     (if v = PNone then Inr (default_security_config, default_mtls)
      else bind_ok (as_mapping ''security'' v) (\<lambda>d.
        bind_ok (field_of d ''rbac_enabled'' (\<lambda>x. on_ok Some (coerce_bool ''security.rbac_enabled'' x)) None) (\<lambda>rb.
        bind_ok (field_of d ''audit_enabled'' (\<lambda>x. on_ok Some (coerce_bool ''security.audit_enabled'' x)) None) (\<lambda>au.
        bind_ok (field_of d ''default_role'' (coerce_str lib) ''anonymous'') (\<lambda>role.
        bind_ok (field_of d ''superadmin_role'' (optional (coerce_str lib)) (Some ''admin'')) (\<lambda>super.
        bind_ok (field_of d ''require_auth'' (coerce_bool ''security.require_auth'') False) (\<lambda>auth.
        bind_ok (field_of d ''anonymous_methods'' (coerce_str_set lib ''security.anonymous_methods'') [''health'', ''metrics'', ''ping'']) (\<lambda>anon.
        bind_ok (or_short d ''rbac'' ''security.rbac'' rb) (\<lambda>rbac.
        bind_ok (or_short d ''audit'' ''security.audit'' au) (\<lambda>audit.
        bind_ok (field_of d ''mtls'' (mtls_from_dict lib) default_mtls) (\<lambda>m.
          Inr (\<lparr>sc_rbac_enabled = rbac, sc_audit_enabled = audit, sc_default_role = role, sc_superadmin_role = super,
               sc_require_auth = auth, sc_anonymous_methods = anon\<rparr>, m))))))))))))"

section \<open>Health checks and quality of service\<close>

definition not_positive :: "rat option \<Rightarrow> bool" where
  "not_positive r = (case r of Some x \<Rightarrow> x \<le> 0 | None \<Rightarrow> False)"

definition rat_of :: "rat option \<Rightarrow> rat" where
  "rat_of r = (case r of Some x \<Rightarrow> x | None \<Rightarrow> 0)"

text \<open>The intervals are taken to be finite once they are checked.\<close>

definition health_from_dict :: "config_lib \<Rightarrow> pyval \<Rightarrow> exn + health_config" where
  "health_from_dict lib v =
     (if v = PNone then Inr default_health_config
      else bind_ok (as_mapping ''health_check'' v) (\<lambda>d.
        bind_ok (field_of d ''interval_seconds'' (coerce_float lib ''health_check.interval_seconds'') (Some 10)) (\<lambda>iv.
        bind_ok (field_of d ''timeout_seconds'' (coerce_float lib ''health_check.timeout_seconds'') (Some 5)) (\<lambda>tm.
        bind_ok (field_of d ''healthy_threshold'' (coerce_int ''health_check.healthy_threshold'') 2) (\<lambda>h.
        bind_ok (field_of d ''unhealthy_threshold'' (coerce_int ''health_check.unhealthy_threshold'') 3) (\<lambda>u.
        bind_ok (field_of d ''path'' (coerce_str lib) ''/health'') (\<lambda>p.
          if not_positive iv then Inl (bad_value ''health_check.interval_seconds must be > 0'')
          else if not_positive tm then Inl (bad_value ''health_check.timeout_seconds must be > 0'')
          else if h < 1 then Inl (bad_value ''health_check.healthy_threshold must be >= 1'')
          else if u < 1 then Inl (bad_value ''health_check.unhealthy_threshold must be >= 1'')
          else Inr \<lparr>hc_interval_seconds = rat_of iv, hc_timeout_seconds = rat_of tm, hc_healthy_threshold = h,
                    hc_unhealthy_threshold = u, hc_path = p\<rparr>)))))))"

definition qos_from_dict :: "config_lib \<Rightarrow> (pyval \<Rightarrow> exn + retry_policy option) \<Rightarrow> pyval \<Rightarrow> exn + qos_config" where
  "qos_from_dict lib build_retry v =
     bind_ok (if v = PNone then Inr [] else as_mapping ''qos'' v) (\<lambda>d.
       bind_ok (field_of d ''enabled'' (coerce_bool ''qos.enabled'') False) (\<lambda>en.
       bind_ok (field_of d ''priority'' (\<lambda>x. on_ok (\<lambda>i. Other (PInt i)) (coerce_int ''qos.priority'' x)) (Member NORMAL)) (\<lambda>pr.
       bind_ok (field_of d ''timeout_ms'' (coerce_int ''qos.timeout_ms'') 60000) (\<lambda>tm.
       bind_ok (field_of d ''idempotency_key'' (coerce_str lib) (cl_str lib PNone)) (\<lambda>key.
       bind_ok (field_of d ''idempotency_ttl_s'' (coerce_int ''qos.idempotency_ttl_s'') 300) (\<lambda>ttl.
       bind_ok (field_of d ''retry'' build_retry None) (\<lambda>rt.
         if tm \<le> 0 then Inl (bad_value ''qos.timeout_ms must be > 0'')
         else if ttl < 0 then Inl (bad_value ''qos.idempotency_ttl_s must be >= 0'')
         else Inr \<lparr>qc_enabled = en, qc_priority = pr, qc_timeout_ms = Some tm, qc_idempotency_ttl_s = ttl, qc_retry = rt,
                   qc_idempotency_key = Some key\<rparr>)))))))"

section \<open>The whole\<close>

record 'r aduib_config =
  ad_protocol :: "string list \<times> string"
  ad_client :: client_config
  ad_resilience :: 'r
  ad_security :: "security_config \<times> mtls_config"
  ad_telemetry_enabled :: bool
  ad_health_check :: health_config
  ad_qos :: qos_config

text \<open>Of the telemetry section only that it is there, or is \<open>false\<close>, matters; the old name wins over the new one.\<close>

definition telemetry_enabled :: "pyval \<Rightarrow> bool" where
  "telemetry_enabled v = (case v of PBool b \<Rightarrow> b | _ \<Rightarrow> True)"

definition telemetry_choice :: "(string \<times> pyval) list \<Rightarrow> bool" where
  "telemetry_choice d = (case map_of d ''observability'' of
     Some o' \<Rightarrow> telemetry_enabled o'
   | None \<Rightarrow> (case map_of d ''telemetry'' of Some x \<Rightarrow> telemetry_enabled x | None \<Rightarrow> True))"

definition config_from_dict ::
  "config_lib \<Rightarrow> (pyval \<Rightarrow> exn + retry_policy option) \<Rightarrow> (pyval \<Rightarrow> exn + 'r) \<Rightarrow> 'r \<Rightarrow> pyval \<Rightarrow> exn + 'r aduib_config" where
  "config_from_dict lib build_retry resilience default_resilience v =
     bind_ok (if v = PNone then Inr [] else as_mapping ''config'' v) (\<lambda>d.
       bind_ok (field_of d ''protocol'' (protocol_from_dict lib) ([''1.0'', ''2.0''], ''2.0'')) (\<lambda>pr.
       bind_ok (field_of d ''client'' (client_from_dict lib) default_client_config) (\<lambda>cl.
       bind_ok (field_of d ''resilience'' resilience default_resilience) (\<lambda>re.
       bind_ok (field_of d ''security'' (security_from_dict lib) (default_security_config, default_mtls)) (\<lambda>se.
       bind_ok (field_of d ''health_check'' (health_from_dict lib) default_health_config) (\<lambda>he.
       bind_ok (qos_from_dict lib build_retry PNone) (\<lambda>qo.
         Inr \<lparr>ad_protocol = pr, ad_client = cl, ad_resilience = re, ad_security = se,
              ad_telemetry_enabled = telemetry_choice d, ad_health_check = he, ad_qos = qo\<rparr>)))))))"

section \<open>What a configuration guarantees\<close>

lemma field_of_Inr:
  "field_of d key coerce dflt = Inr x \<Longrightarrow> (map_of d key = None \<and> x = dflt) \<or> (\<exists>v. map_of d key = Some v \<and> coerce v = Inr x)"
  by (auto simp: field_of_def simp del: dict_opaque split: option.splits)

lemma health_from_dict_ok:
  "health_from_dict lib v = Inr h \<Longrightarrow> 1 \<le> hc_healthy_threshold h \<and> 1 \<le> hc_unhealthy_threshold h"
  by (auto simp: health_from_dict_def bind_ok_Inr default_health_config_def split: if_splits)

lemma client_from_dict_ok:
  "client_from_dict lib v = Inr c \<Longrightarrow> \<not> below_zero (cf_http_timeout c) \<and> \<not> below_zero (cf_grpc_timeout c)"
  by (auto simp: client_from_dict_def bind_ok_Inr default_client_config_def below_zero_def split: if_splits option.splits)

lemma runtime_config_ok: "to_runtime_config s = Inr (Some t) \<Longrightarrow> server_config_error t = None"
  by (auto simp: to_runtime_config_def server_config_error_def split: option.splits)

text \<open>
  A configuration that could be built from a file is one the rest of the package can work
  with: no timeout of the client is negative, both thresholds of the health checks are at least one, and server
  settings that name a certificate and a key pass the server's own check.
\<close>

theorem config_valid:
  assumes "config_from_dict lib build_retry resilience dr v = Inr c"
  shows "\<not> below_zero (cf_http_timeout (ad_client c)) \<and> \<not> below_zero (cf_grpc_timeout (ad_client c))
    \<and> 0 < hc_healthy_threshold (ad_health_check c) \<and> 0 < hc_unhealthy_threshold (ad_health_check c)
    \<and> (case to_runtime_config (mc_tls (snd (ad_security c))) of Inr (Some t) \<Rightarrow> server_config_error t = None | _ \<Rightarrow> True)"
proof -
  obtain d cl he where d: "field_of d ''client'' (client_from_dict lib) default_client_config = Inr cl"
    "field_of d ''health_check'' (health_from_dict lib) default_health_config = Inr he"
    "ad_client c = cl" "ad_health_check c = he"
    using assms by (auto simp: config_from_dict_def bind_ok_Inr simp del: dict_opaque)
  have "\<not> below_zero (cf_http_timeout cl) \<and> \<not> below_zero (cf_grpc_timeout cl)"
    using field_of_Inr [OF d(1)] client_from_dict_ok [where lib = lib]
    by (auto simp: default_client_config_def below_zero_def simp del: dict_opaque)
  moreover have "0 < hc_healthy_threshold he \<and> 0 < hc_unhealthy_threshold he"
    using field_of_Inr [OF d(2)] health_from_dict_ok [where lib = lib]
    by (fastforce simp: default_health_config_def simp del: dict_opaque)
  ultimately show ?thesis using d(3,4) runtime_config_ok by (auto split: sum.split option.split)
qed

definition plain_lib :: config_lib where
  "plain_lib = \<lparr>cl_str = (\<lambda>v. case v of PStr s \<Rightarrow> s | _ \<Rightarrow> ''None''), cl_float = (\<lambda>_. None)\<rparr>"

theorem config_valid_witness:
  "\<exists>c. config_from_dict plain_lib (\<lambda>_. Inr None) (\<lambda>_. Inr ()) () (PDict [(''health_check'', PDict [(''healthy_threshold'', PStr ''4'')])]) = Inr c
    \<and> 0 < hc_healthy_threshold (ad_health_check c)"
proof -
  have "parse_int ''4'' = Some 4" by code_simp
  then have "\<exists>c. config_from_dict plain_lib (\<lambda>_. Inr None) (\<lambda>_. Inr ()) () (PDict [(''health_check'', PDict [(''healthy_threshold'', PStr ''4'')])]) = Inr c"
    by (simp add: config_from_dict_def field_of_def as_mapping_def bind_ok_def health_from_dict_def coerce_int_def not_positive_def
        qos_from_dict_def Let_def)
  then show ?thesis using config_valid [where dr = "()"] by (elim exE) (intro exI conjI, assumption, blast)
qed

text \<open>
  What the file says about quality of service makes no difference to the configuration, and
  a section on telemetry switches it on whatever is in it, \<open>enabled: false\<close> included.
\<close>

theorem config_ignores:
  "config_from_dict lib build_retry resilience dr (PDict (AList.update ''qos'' q d)) = config_from_dict lib build_retry resilience dr (PDict d)
   \<and> (config_from_dict lib build_retry resilience dr (PDict (AList.update ''telemetry'' (PDict t) d)) = Inr c
       \<longrightarrow> map_of d ''observability'' = None \<longrightarrow> ad_telemetry_enabled c)"
proof
  have f: "field_of (AList.update ''qos'' q d) k co x = field_of d k co x" if "k \<noteq> ''qos''" for k and co :: "pyval \<Rightarrow> exn + 'x" and x
    using that by (simp add: field_of_def del: dict_opaque)
  have tc: "telemetry_choice (AList.update ''qos'' q d) = telemetry_choice d"
    by (simp add: telemetry_choice_def del: dict_opaque split: option.split)
  show "config_from_dict lib build_retry resilience dr (PDict (AList.update ''qos'' q d)) = config_from_dict lib build_retry resilience dr (PDict d)"
    by (simp add: config_from_dict_def as_mapping_def bind_ok_def [of "Inr _"] f tc del: dict_opaque)
  show "config_from_dict lib build_retry resilience dr (PDict (AList.update ''telemetry'' (PDict t) d)) = Inr c
    \<longrightarrow> map_of d ''observability'' = None \<longrightarrow> ad_telemetry_enabled c"
    by (auto simp: config_from_dict_def as_mapping_def bind_ok_Inr telemetry_choice_def telemetry_enabled_def simp del: dict_opaque)
qed

theorem config_ignores_witness:
  "\<exists>c. config_from_dict plain_lib (\<lambda>_. Inr None) (\<lambda>_. Inr ()) () (PDict [(''telemetry'', PDict [(''enabled'', PBool False)])]) = Inr c
    \<and> ad_telemetry_enabled c"
proof -
  have "\<exists>c. config_from_dict plain_lib (\<lambda>_. Inr None) (\<lambda>_. Inr ()) () (PDict [(''telemetry'', PDict [(''enabled'', PBool False)])]) = Inr c"
    by (simp add: config_from_dict_def field_of_def as_mapping_def bind_ok_def qos_from_dict_def)
  with config_ignores [of plain_lib "\<lambda>_. Inr None" "\<lambda>_. Inr ()" "()" _ "[]" "[(''enabled'', PBool False)]"] show ?thesis
    by auto
qed

text \<open>
  A server whose file says \<open>client_cert_verification: true\<close> asks for a certificate and
  takes connections without one: true is read as the number one, the optional mode.
\<close>

theorem mtls_true_is_optional:
  assumes "map_of d ''client_cert_verification'' = Some (PBool True)"
    and "server_tls_from_dict lib (PDict d) = Inr s" "to_runtime_config s = Inr (Some t)"
  shows "mtls_enabled t \<and> \<not> mtls_required t"
proof -
  have "ss_client_cert_verification s = Some CERT_OPTIONAL"
    using assms(1,2)
    by (auto simp: server_tls_from_dict_def as_mapping_def bind_ok_Inr field_of_def [of d "''client_cert_verification''"]
        optional_def coerce_verify_mode_def verify_mode_of_int_def on_ok_def simp del: dict_opaque)
  with assms(3) show ?thesis
    by (auto simp: to_runtime_config_def mtls_enabled_def mtls_required_def split: option.splits)
qed

theorem mtls_true_is_optional_witness:
  "\<exists>s t. server_tls_from_dict plain_lib (PDict [(''server_cert_path'', PStr ''c''), (''server_key_path'', PStr ''k''),
       (''client_cert_verification'', PBool True)]) = Inr s \<and> to_runtime_config s = Inr (Some t) \<and> \<not> mtls_required t"
proof -
  let ?d = "[(''server_cert_path'', PStr ''c''), (''server_key_path'', PStr ''k''), (''client_cert_verification'', PBool True)]"
  obtain s where s: "server_tls_from_dict plain_lib (PDict ?d) = Inr s" "ss_server_cert_path s = Some ''c''" "ss_server_key_path s = Some ''k''"
    by (simp add: server_tls_from_dict_def as_mapping_def field_of_def bind_ok_def optional_def coerce_path_def on_ok_def
        coerce_verify_mode_def verify_mode_of_int_def)
  obtain t where t: "to_runtime_config s = Inr (Some t)" using s(2,3) by (simp add: to_runtime_config_def)
  from mtls_true_is_optional [OF _ s(1) t] s t show ?thesis by auto
qed

end
