(* ===== verification/Rate_Limiter.thy ===== *)
theory Rate_Limiter
  imports Rpc_Errors
begin

text \<open>
  The rate limiter (\<open>resilience/rate_limiter.py\<close>): token bucket, sliding window and fixed
  window over one record, under an asyncio lock, so that every operation is one step. The
  monotonic clock is the argument \<open>now\<close>; \<open>rl_event\<close> is the flag of the asyncio event the
  waiters block on.
\<close>

datatype rate_limit_algorithm = TOKEN_BUCKET | SLIDING_WINDOW | FIXED_WINDOW | OTHER_ALGORITHM string

record limiter_config =
  lc_algorithm :: rate_limit_algorithm
  lc_rate :: rat
  lc_burst :: int
  lc_wait_timeout_ms :: int

definition default_limiter_config :: limiter_config where
  "default_limiter_config =
     \<lparr>lc_algorithm = TOKEN_BUCKET, lc_rate = 100, lc_burst = 150, lc_wait_timeout_ms = 1000\<rparr>"

record limiter =
  rl_config :: limiter_config
  rl_algorithm :: rate_limit_algorithm
  rl_rate :: rat
  rl_burst :: int
  rl_wait_timeout_ms :: int
  rl_event :: bool
  bucket_tokens :: rat
  bucket_last :: rat
  sliding_window :: "(rat \<times> int) list"
  sliding_count :: int
  fixed_window_start :: rat
  fixed_window_count :: int

definition WINDOW_SIZE_S :: rat where
  "WINDOW_SIZE_S = 1"

definition new_limiter :: "rat \<Rightarrow> limiter_config option \<Rightarrow> limiter" where
  "new_limiter now config =
     (let c = (case config of None \<Rightarrow> default_limiter_config | Some c \<Rightarrow> c) in
      \<lparr>rl_config = c, rl_algorithm = lc_algorithm c, rl_rate = max 0 (lc_rate c),
       rl_burst = max 0 (lc_burst c), rl_wait_timeout_ms = max 0 (lc_wait_timeout_ms c),
       rl_event = True, bucket_tokens = of_int (max 0 (lc_burst c)), bucket_last = now,
       sliding_window = [], sliding_count = 0, fixed_window_start = now,
       fixed_window_count = 0\<rparr>)"

definition normalize_tokens :: "pyval \<Rightarrow> exn + int" where
  "normalize_tokens tokens =
     (let err = Inl (Exn ValueError 0 ''tokens must be a positive integer'' PNone None) in
      case py_int tokens of
        None \<Rightarrow> err
      | Some v \<Rightarrow> if v \<le> 0 then err else Inr v)"

definition notify_waiters :: "limiter \<Rightarrow> limiter" where
  "notify_waiters l = (if \<not> rl_event l then l\<lparr>rl_event := True\<rparr> else l)"

definition prepare_wait :: "limiter \<Rightarrow> limiter" where
  "prepare_wait l = (if rl_event l then l\<lparr>rl_event := False\<rparr> else l)"

section \<open>Token bucket\<close>

definition refill_token_bucket :: "rat \<Rightarrow> limiter \<Rightarrow> limiter" where
  "refill_token_bucket now l =
     (if rl_rate l \<le> 0 then l\<lparr>bucket_last := now\<rparr>
      else
        let elapsed = max 0 (now - bucket_last l) in
        if elapsed \<le> 0 then l
        else
          let before = bucket_tokens l;
              l' = l\<lparr>bucket_tokens := min (of_int (rl_burst l)) (bucket_tokens l + elapsed * rl_rate l),
                     bucket_last := now\<rparr>
          in if bucket_tokens l' > before then notify_waiters l' else l')"

definition token_bucket_wait_ms :: "int \<Rightarrow> limiter \<Rightarrow> int option" where
  "token_bucket_wait_ms tokens l =
     (if rl_rate l \<le> 0 then None
      else
        let needed = max 0 (of_int tokens - bucket_tokens l) in
        if needed \<le> 0 then Some 0
        else Some \<lceil>needed / rl_rate l * 1000\<rceil>)"

definition try_token_bucket :: "int \<Rightarrow> rat \<Rightarrow> limiter \<Rightarrow> (bool \<times> int option) \<times> limiter" where
  "try_token_bucket tokens now l =
     (if rl_burst l \<le> 0 \<or> tokens > rl_burst l then ((False, None), l)
      else
        let l1 = refill_token_bucket now l in
        if bucket_tokens l1 \<ge> of_int tokens
        then ((True, Some 0), l1\<lparr>bucket_tokens := bucket_tokens l1 - of_int tokens\<rparr>)
        else ((False, token_bucket_wait_ms tokens l1), l1))"

section \<open>Sliding window\<close>

definition window_limit :: "limiter \<Rightarrow> rat" where
  "window_limit l = rl_rate l"

text \<open>The loop that pops expired entries and subtracts their counts.\<close>

fun pop_expired :: "rat \<Rightarrow> (rat \<times> int) list \<Rightarrow> int \<Rightarrow> (rat \<times> int) list \<times> int" where
  "pop_expired threshold [] n = ([], n)"
| "pop_expired threshold ((ts, c) # w) n =
     (if ts \<le> threshold then pop_expired threshold w (n - c) else ((ts, c) # w, n))"

definition cleanup_sliding_window :: "rat \<Rightarrow> limiter \<Rightarrow> limiter" where
  "cleanup_sliding_window now l =
     (if sliding_window l = [] then l
      else
        let before = sliding_count l;
            (w, n) = pop_expired (now - WINDOW_SIZE_S) (sliding_window l) (sliding_count l);
            l' = l\<lparr>sliding_window := w, sliding_count := n\<rparr>
        in if n < before then notify_waiters l' else l')"

text \<open>The first entry at which enough of the window has expired.\<close>

fun first_freeing :: "rat \<Rightarrow> int \<Rightarrow> (rat \<times> int) list \<Rightarrow> rat option" where
  "first_freeing excess running [] = None"
| "first_freeing excess running ((ts, c) # w) =
     (if of_int (running + c) \<ge> excess then Some ts else first_freeing excess (running + c) w)"

definition sliding_wait_ms :: "rat \<Rightarrow> int \<Rightarrow> rat \<Rightarrow> limiter \<Rightarrow> int" where
  "sliding_wait_ms now tokens limit l =
     (if sliding_window l = [] then py_trunc (WINDOW_SIZE_S * 1000)
      else
        let excess = of_int (sliding_count l + tokens) - limit in
        if excess \<le> 0 then 0
        else case first_freeing excess 0 (sliding_window l) of
          Some ts \<Rightarrow> \<lceil>max 0 (ts + WINDOW_SIZE_S - now) * 1000\<rceil>
        | None \<Rightarrow> \<lceil>WINDOW_SIZE_S * 1000\<rceil>)"

definition try_sliding_window :: "int \<Rightarrow> rat \<Rightarrow> limiter \<Rightarrow> (bool \<times> int option) \<times> limiter" where
  "try_sliding_window tokens now l =
     (let limit = window_limit l in
      if limit \<le> 0 \<or> of_int tokens > limit then ((False, None), l)
      else
        let l1 = cleanup_sliding_window now l in
        if of_int (sliding_count l1 + tokens) \<le> limit
        then ((True, Some 0),
              l1\<lparr>sliding_window := sliding_window l1 @ [(now, tokens)],
                 sliding_count := sliding_count l1 + tokens\<rparr>)
        else ((False, Some (sliding_wait_ms now tokens limit l1)), l1))"

section \<open>Fixed window\<close>

definition rotate_fixed_window :: "rat \<Rightarrow> limiter \<Rightarrow> limiter" where
  "rotate_fixed_window now l =
     (let elapsed = now - fixed_window_start l in
      if elapsed < WINDOW_SIZE_S then l
      else
        let windows = \<lfloor>elapsed / WINDOW_SIZE_S\<rfloor>;
            l1 = l\<lparr>fixed_window_start := fixed_window_start l + of_int windows * WINDOW_SIZE_S\<rparr>
        in if fixed_window_count l1 > 0 then notify_waiters (l1\<lparr>fixed_window_count := 0\<rparr>) else l1)"

definition fixed_wait_ms :: "rat \<Rightarrow> limiter \<Rightarrow> int" where
  "fixed_wait_ms now l = \<lceil>max 0 (fixed_window_start l + WINDOW_SIZE_S - now) * 1000\<rceil>"

definition try_fixed_window :: "int \<Rightarrow> rat \<Rightarrow> limiter \<Rightarrow> (bool \<times> int option) \<times> limiter" where
  "try_fixed_window tokens now l =
     (let limit = window_limit l in
      if limit \<le> 0 \<or> of_int tokens > limit then ((False, None), l)
      else
        let l1 = rotate_fixed_window now l in
        if of_int (fixed_window_count l1 + tokens) \<le> limit
        then ((True, Some 0), l1\<lparr>fixed_window_count := fixed_window_count l1 + tokens\<rparr>)
        else ((False, Some (fixed_wait_ms now l1)), l1))"

section \<open>The public operations\<close>

definition try_acquire :: "int \<Rightarrow> rat \<Rightarrow> limiter \<Rightarrow> (exn + bool \<times> int option) \<times> limiter" where
  "try_acquire tokens now l =
     (case rl_algorithm l of
        TOKEN_BUCKET \<Rightarrow> map_prod Inr id (try_token_bucket tokens now l)
      | SLIDING_WINDOW \<Rightarrow> map_prod Inr id (try_sliding_window tokens now l)
      | FIXED_WINDOW \<Rightarrow> map_prod Inr id (try_fixed_window tokens now l)
      | OTHER_ALGORITHM s \<Rightarrow> (Inl (Exn ValueError 0 (''Unsupported algorithm: '' @ s) PNone None), l))"

definition acquire :: "pyval \<Rightarrow> rat \<Rightarrow> limiter \<Rightarrow> (exn + bool) \<times> limiter" where
  "acquire tokens now l =
     (case normalize_tokens tokens of
        Inl e \<Rightarrow> (Inl e, l)
      | Inr n \<Rightarrow>
          (case try_acquire n now l of
             (Inl e, l') \<Rightarrow> (Inl e, l')
           | (Inr (acquired, _), l') \<Rightarrow> (Inr acquired, l')))"

definition rate_limited :: "int \<Rightarrow> exn" where
  "rate_limited ms = new_rpc_exn RateLimitedError None (PDict [(''retry_after_ms'', PInt ms)]) None"

text \<open>
  The loop of \<open>acquire_or_wait\<close>. A round is one turn: the clock at the attempt, the clock
  read after a refusal, and what other tasks do to the limiter until this one runs again.
  \<open>None\<close> is a caller still waiting when the rounds end.
\<close>

type_synonym round = "rat \<times> rat \<times> (limiter \<Rightarrow> limiter)"

fun wait_loop :: "int \<Rightarrow> rat \<Rightarrow> rat \<Rightarrow> round list \<Rightarrow> limiter \<Rightarrow> (exn + unit) option \<times> limiter" where
  "wait_loop tokens timeout_s deadline [] l = (None, l)"
| "wait_loop tokens timeout_s deadline ((t, now, others) # rounds) l =
     (case try_acquire tokens t l of
        (Inl e, l1) \<Rightarrow> (Some (Inl e), l1)
      | (Inr (True, _), l1) \<Rightarrow> (Some (Inr ()), l1)
      | (Inr (False, None), l1) \<Rightarrow> (Some (Inl (rate_limited 0)), l1)
      | (Inr (False, Some wait_ms), l1) \<Rightarrow>
          (let last_wait_ms = max 0 wait_ms in
           if timeout_s \<le> 0 then (Some (Inl (rate_limited last_wait_ms)), l1)
           else if now \<ge> deadline then (Some (Inl (rate_limited last_wait_ms)), l1)
           else
             let remaining = max 0 (deadline - now);
                 wait_s = min remaining (of_int last_wait_ms / 1000)
             in if wait_s \<le> 0 then wait_loop tokens timeout_s deadline rounds (others l1)
                else wait_loop tokens timeout_s deadline rounds (others (prepare_wait l1))))"

definition acquire_or_wait ::
  "pyval \<Rightarrow> rat \<Rightarrow> round list \<Rightarrow> limiter \<Rightarrow> (exn + unit) option \<times> limiter" where
  "acquire_or_wait tokens now rounds l =
     (case normalize_tokens tokens of
        Inl e \<Rightarrow> (Some (Inl e), l)
      | Inr n \<Rightarrow>
          (let timeout_s = of_int (rl_wait_timeout_ms l) / 1000
           in wait_loop n timeout_s (now + timeout_s) rounds l))"

definition get_available_tokens :: "rat \<Rightarrow> limiter \<Rightarrow> int \<times> limiter" where
  "get_available_tokens now l =
     (case rl_algorithm l of
        TOKEN_BUCKET \<Rightarrow>
          (let l' = refill_token_bucket now l in (max 0 \<lfloor>bucket_tokens l'\<rfloor>, l'))
      | SLIDING_WINDOW \<Rightarrow>
          (let l' = cleanup_sliding_window now l
           in (max 0 \<lfloor>window_limit l' - of_int (sliding_count l')\<rfloor>, l'))
      | FIXED_WINDOW \<Rightarrow>
          (let l' = rotate_fixed_window now l
           in (max 0 \<lfloor>window_limit l' - of_int (fixed_window_count l')\<rfloor>, l'))
      | OTHER_ALGORITHM s \<Rightarrow> (0, l))"

definition limiter_reset :: "rat \<Rightarrow> limiter \<Rightarrow> limiter" where
  "limiter_reset now l =
     notify_waiters
       (l\<lparr>bucket_tokens := of_int (rl_burst l), bucket_last := now, sliding_window := [],
          sliding_count := 0, fixed_window_start := now, fixed_window_count := 0\<rparr>)"

definition update_config :: "rat \<Rightarrow> limiter_config \<Rightarrow> limiter \<Rightarrow> limiter" where
  "update_config now c l =
     notify_waiters
       (l\<lparr>rl_config := c, rl_algorithm := lc_algorithm c, rl_rate := max 0 (lc_rate c),
          rl_burst := max 0 (lc_burst c), rl_wait_timeout_ms := max 0 (lc_wait_timeout_ms c),
          bucket_tokens := of_int (max 0 (lc_burst c)), bucket_last := now, sliding_window := [],
          sliding_count := 0, fixed_window_start := now, fixed_window_count := 0\<rparr>)"

definition get_config :: "limiter \<Rightarrow> limiter_config" where
  "get_config l = rl_config l"

definition limiter_close :: "rat \<Rightarrow> limiter \<Rightarrow> limiter" where
  "limiter_close now l = limiter_reset now l"

section \<open>The invariant\<close>

text \<open>
  \<open>clk\<close> is a clock reading no earlier than any the limiter has seen: the bucket holds between
  0 and \<open>burst\<close> tokens, the sliding count is the sum of the entries, which are in order of
  time and positive, and neither window holds more than the limit.
\<close>

definition window_total :: "(rat \<times> int) list \<Rightarrow> int" where
  "window_total w = sum_list (map snd w)"

definition rl_inv :: "rat \<Rightarrow> limiter \<Rightarrow> bool" where
  "rl_inv clk l \<longleftrightarrow>
     0 \<le> rl_rate l \<and> 0 \<le> rl_burst l \<and> 0 \<le> bucket_tokens l \<and> bucket_tokens l \<le> of_int (rl_burst l)
     \<and> bucket_last l \<le> clk
     \<and> sliding_count l = window_total (sliding_window l) \<and> of_int (sliding_count l) \<le> rl_rate l
     \<and> sorted (map fst (sliding_window l)) \<and> (\<forall>(ts, c) \<in> set (sliding_window l). ts \<le> clk \<and> 0 < c)
     \<and> fixed_window_start l \<le> clk
     \<and> 0 \<le> fixed_window_count l \<and> of_int (fixed_window_count l) \<le> rl_rate l"

lemmas limiter_defs = notify_waiters_def refill_token_bucket_def cleanup_sliding_window_def
  rotate_fixed_window_def try_token_bucket_def try_sliding_window_def try_fixed_window_def
  window_limit_def WINDOW_SIZE_S_def Let_def

lemma window_total_simps [simp]:
  "window_total [] = 0" "window_total ((ts, c) # w) = c + window_total w"
  "window_total (v @ w) = window_total v + window_total w"
  by (simp_all add: window_total_def)

lemma pop_expired_split:
  "sorted (map fst w) \<Longrightarrow>
     pop_expired th w n = (filter (\<lambda>(ts, c). th < ts) w,
                           n - window_total (filter (\<lambda>(ts, c). ts \<le> th) w))"
proof (induction th w n rule: pop_expired.induct)
  case (2 th ts c w n)
  show ?case
  proof (cases "ts \<le> th")
    case True
    with 2 show ?thesis by (auto simp: sorted_simps)
  next
    case False
    with 2(2) have "\<forall>(t, c) \<in> set w. th < t" by fastforce
    then have "filter (\<lambda>(ts, c). th < ts) w = w" "filter (\<lambda>(ts, c). ts \<le> th) w = []"
      by (auto simp: filter_id_conv filter_empty_conv split_beta)
    with False show ?thesis by simp
  qed
qed simp

lemma window_total_filter:
  "window_total w = window_total (filter (\<lambda>(ts, c). ts \<le> th) w)
     + window_total (filter (\<lambda>(ts, c). th < (ts :: rat)) w)"
  by (induction w) auto

lemma window_total_nonneg: "\<forall>(ts, c) \<in> set w. 0 < c \<Longrightarrow> 0 \<le> window_total w"
  by (induction w) auto

section \<open>What the three housekeeping steps leave\<close>

definition bucket_level :: "rat \<Rightarrow> limiter \<Rightarrow> rat" where
  "bucket_level now l =
     min (of_int (rl_burst l)) (bucket_tokens l + (now - bucket_last l) * rl_rate l)"

definition live_entries :: "rat \<Rightarrow> limiter \<Rightarrow> (rat \<times> int) list" where
  "live_entries now l = filter (\<lambda>(ts, c). now - 1 < ts) (sliding_window l)"

definition window_index :: "rat \<Rightarrow> limiter \<Rightarrow> int" where
  "window_index now l = \<lfloor>now - fixed_window_start l\<rfloor>"

lemma refill_result:
  assumes "rl_inv now l"
  obtains ev where "refill_token_bucket now l =
    l\<lparr>bucket_tokens := bucket_level now l, bucket_last := now, rl_event := ev\<rparr>"
proof (cases "rl_rate l = 0")
  case True
  with assms have "refill_token_bucket now l =
      l\<lparr>bucket_tokens := bucket_level now l, bucket_last := now, rl_event := rl_event l\<rparr>"
    by (simp add: refill_token_bucket_def bucket_level_def rl_inv_def)
  then show ?thesis by (rule that)
next
  case False
  with assms have pos: "0 < rl_rate l" by (simp add: rl_inv_def)
  show ?thesis
  proof (cases "bucket_last l = now")
    case True
    with assms pos have "refill_token_bucket now l =
        l\<lparr>bucket_tokens := bucket_level now l, bucket_last := now, rl_event := rl_event l\<rparr>"
      by (simp add: refill_token_bucket_def bucket_level_def rl_inv_def Let_def)
    then show ?thesis by (rule that)
  next
    case False
    with assms have "bucket_last l < now" by (simp add: rl_inv_def)
    with pos have "refill_token_bucket now l = l\<lparr>bucket_tokens := bucket_level now l, bucket_last := now,
        rl_event := (rl_event l \<or> bucket_tokens l < bucket_level now l)\<rparr>"
      by (auto simp: refill_token_bucket_def bucket_level_def notify_waiters_def Let_def max_def)
    then show ?thesis by (rule that)
  qed
qed

lemma cleanup_result:
  assumes "rl_inv now l"
  obtains ev where "cleanup_sliding_window now l =
    l\<lparr>sliding_window := live_entries now l, sliding_count := window_total (live_entries now l),
      rl_event := ev\<rparr>"
proof (cases "sliding_window l = []")
  case True
  with assms have "cleanup_sliding_window now l =
      l\<lparr>sliding_window := live_entries now l, sliding_count := window_total (live_entries now l),
        rl_event := rl_event l\<rparr>"
    by (simp add: cleanup_sliding_window_def live_entries_def rl_inv_def)
  then show ?thesis by (rule that)
next
  case False
  have "pop_expired (now - 1) (sliding_window l) (sliding_count l)
      = (live_entries now l, window_total (live_entries now l))"
    using assms window_total_filter [of "sliding_window l" "now - 1"]
    by (simp add: pop_expired_split rl_inv_def live_entries_def)
  with False have "cleanup_sliding_window now l =
      l\<lparr>sliding_window := live_entries now l, sliding_count := window_total (live_entries now l),
        rl_event := (rl_event l \<or> window_total (live_entries now l) < sliding_count l)\<rparr>"
    by (simp add: cleanup_sliding_window_def notify_waiters_def Let_def WINDOW_SIZE_S_def)
  then show ?thesis by (rule that)
qed

lemma rotate_result:
  assumes "rl_inv now l"
  obtains ev where "rotate_fixed_window now l =
    l\<lparr>fixed_window_start := fixed_window_start l + of_int (window_index now l),
      fixed_window_count := (if window_index now l = 0 then fixed_window_count l else 0),
      rl_event := ev\<rparr>"
proof (cases "now - fixed_window_start l < 1")
  case True
  then have "window_index now l = 0"
    using assms by (simp add: window_index_def rl_inv_def floor_eq_iff)
  with True have "rotate_fixed_window now l = l\<lparr>fixed_window_start := fixed_window_start l + of_int (window_index now l),
      fixed_window_count := (if window_index now l = 0 then fixed_window_count l else 0),
      rl_event := rl_event l\<rparr>"
    by (simp add: rotate_fixed_window_def WINDOW_SIZE_S_def)
  then show ?thesis by (rule that)
next
  case False
  then have "window_index now l \<noteq> 0"
    using assms by (simp add: window_index_def floor_eq_iff)
  with False assms have "rotate_fixed_window now l = l\<lparr>fixed_window_start := fixed_window_start l + of_int (window_index now l),
      fixed_window_count := (if window_index now l = 0 then fixed_window_count l else 0),
      rl_event := (rl_event l \<or> 0 < fixed_window_count l)\<rparr>"
    by (auto simp: rotate_fixed_window_def WINDOW_SIZE_S_def window_index_def notify_waiters_def
        Let_def rl_inv_def)
  then show ?thesis by (rule that)
qed

lemma live_entries_facts:
  assumes "rl_inv now l"
  shows "0 \<le> window_total (live_entries now l)"
    and "window_total (live_entries now l) \<le> sliding_count l"
    and "sorted (map fst (live_entries now l))"
    and "\<forall>(ts, c) \<in> set (live_entries now l). ts \<le> now \<and> 0 < c"
proof -
  have pos: "0 \<le> window_total (filter P (sliding_window l))" for P
    using assms by (intro window_total_nonneg) (auto simp: rl_inv_def)
  then show "0 \<le> window_total (live_entries now l)" by (simp add: live_entries_def)
  show "window_total (live_entries now l) \<le> sliding_count l"
    using assms pos window_total_filter [of "sliding_window l" "now - 1"]
    by (simp add: live_entries_def rl_inv_def)
  show "sorted (map fst (live_entries now l))"
    using assms by (simp add: live_entries_def rl_inv_def sorted_filter)
  show "\<forall>(ts, c) \<in> set (live_entries now l). ts \<le> now \<and> 0 < c"
    using assms by (auto simp: live_entries_def rl_inv_def)
qed

lemma bucket_level_bounds:
  assumes "rl_inv now l"
  shows "bucket_tokens l \<le> bucket_level now l" "bucket_level now l \<le> of_int (rl_burst l)"
    "0 \<le> bucket_level now l"
proof -
  have "0 \<le> (now - bucket_last l) * rl_rate l"
    using assms by (simp add: rl_inv_def)
  then show "bucket_tokens l \<le> bucket_level now l" "bucket_level now l \<le> of_int (rl_burst l)"
    "0 \<le> bucket_level now l"
    using assms by (simp_all add: rl_inv_def bucket_level_def)
qed

lemma window_index_bounds:
  assumes "rl_inv now l"
  shows "0 \<le> window_index now l" "fixed_window_start l + of_int (window_index now l) \<le> now"
    "now < fixed_window_start l + of_int (window_index now l) + 1"
  using assms of_int_floor_le [of "now - fixed_window_start l"]
    floor_correct [of "now - fixed_window_start l"]
  by (simp_all add: window_index_def rl_inv_def) (linarith+)

section \<open>One attempt\<close>

text \<open>When the limiter lets \<open>n\<close> tokens through at \<open>now\<close>.\<close>

definition admits :: "int \<Rightarrow> rat \<Rightarrow> limiter \<Rightarrow> bool" where
  "admits n now l \<longleftrightarrow>
     (case rl_algorithm l of
        TOKEN_BUCKET \<Rightarrow> n \<le> rl_burst l \<and> of_int n \<le> bucket_level now l
      | SLIDING_WINDOW \<Rightarrow> of_int (window_total (live_entries now l) + n) \<le> rl_rate l
      | FIXED_WINDOW \<Rightarrow>
          of_int ((if window_index now l = 0 then fixed_window_count l else 0) + n) \<le> rl_rate l
      | OTHER_ALGORITHM s \<Rightarrow> False)"

text \<open>The limiter after an attempt, up to the event flag.\<close>

definition settle :: "int \<Rightarrow> rat \<Rightarrow> limiter \<Rightarrow> limiter" where
  "settle n now l =
     (let taken = (if admits n now l then n else 0) in
      case rl_algorithm l of
        TOKEN_BUCKET \<Rightarrow> l\<lparr>bucket_tokens := bucket_level now l - of_int taken, bucket_last := now\<rparr>
      | SLIDING_WINDOW \<Rightarrow>
          l\<lparr>sliding_window := live_entries now l @ (if admits n now l then [(now, n)] else []),
            sliding_count := window_total (live_entries now l) + taken\<rparr>
      | FIXED_WINDOW \<Rightarrow>
          l\<lparr>fixed_window_start := fixed_window_start l + of_int (window_index now l),
            fixed_window_count :=
              (if window_index now l = 0 then fixed_window_count l else 0) + taken\<rparr>
      | OTHER_ALGORITHM s \<Rightarrow> l)"

definition impossible :: "int \<Rightarrow> limiter \<Rightarrow> bool" where
  "impossible n l =
     (case rl_algorithm l of
        TOKEN_BUCKET \<Rightarrow> rl_burst l < n
      | SLIDING_WINDOW \<Rightarrow> rl_rate l < of_int n
      | FIXED_WINDOW \<Rightarrow> rl_rate l < of_int n
      | OTHER_ALGORITHM s \<Rightarrow> True)"

lemma try_bucket_possible:
  assumes "rl_inv now l" "0 < n" "n \<le> rl_burst l" "rl_algorithm l = TOKEN_BUCKET"
  obtains ev where "try_token_bucket n now l =
    ((admits n now l, if admits n now l then Some 0
                      else if rl_rate l = 0 then None
                      else Some \<lceil>(of_int n - bucket_level now l) / rl_rate l * 1000\<rceil>),
     (settle n now l)\<lparr>rl_event := ev\<rparr>)"
proof -
  obtain ev where r: "refill_token_bucket now l =
      l\<lparr>bucket_tokens := bucket_level now l, bucket_last := now, rl_event := ev\<rparr>"
    using refill_result [OF assms(1)] .
  have "0 \<le> rl_rate l" using assms(1) by (simp add: rl_inv_def)
  then have "try_token_bucket n now l =
    ((admits n now l, if admits n now l then Some 0
                      else if rl_rate l = 0 then None
                      else Some \<lceil>(of_int n - bucket_level now l) / rl_rate l * 1000\<rceil>),
     (settle n now l)\<lparr>rl_event := ev\<rparr>)"
    using assms(2-4) by (auto simp: try_token_bucket_def r admits_def settle_def
        token_bucket_wait_ms_def Let_def)
  then show ?thesis by (rule that)
qed

lemma try_sliding_possible:
  assumes "rl_inv now l" "0 < n" "of_int n \<le> rl_rate l" "rl_algorithm l = SLIDING_WINDOW"
  obtains ev where "try_sliding_window n now l =
    ((admits n now l, Some (if admits n now l then 0 else
       sliding_wait_ms now n (rl_rate l) ((settle n now l)\<lparr>rl_event := ev\<rparr>))),
     (settle n now l)\<lparr>rl_event := ev\<rparr>)"
proof -
  obtain ev where r: "cleanup_sliding_window now l =
      l\<lparr>sliding_window := live_entries now l, sliding_count := window_total (live_entries now l),
        rl_event := ev\<rparr>"
    using cleanup_result [OF assms(1)] .
  have "(0 :: rat) < of_int n" using assms(2) by simp
  with assms(3) have "\<not> rl_rate l \<le> 0" by linarith
  then have "try_sliding_window n now l =
    ((admits n now l, Some (if admits n now l then 0 else
       sliding_wait_ms now n (rl_rate l) ((settle n now l)\<lparr>rl_event := ev\<rparr>))),
     (settle n now l)\<lparr>rl_event := ev\<rparr>)"
    using assms(2-4) by (auto simp: try_sliding_window_def r admits_def settle_def window_limit_def Let_def)
  then show ?thesis by (rule that)
qed

lemma try_fixed_possible:
  assumes "rl_inv now l" "0 < n" "of_int n \<le> rl_rate l" "rl_algorithm l = FIXED_WINDOW"
  obtains ev where "try_fixed_window n now l =
    ((admits n now l, Some (if admits n now l then 0 else
       fixed_wait_ms now ((settle n now l)\<lparr>rl_event := ev\<rparr>))),
     (settle n now l)\<lparr>rl_event := ev\<rparr>)"
proof -
  obtain ev where r: "rotate_fixed_window now l =
    l\<lparr>fixed_window_start := fixed_window_start l + of_int (window_index now l),
      fixed_window_count := (if window_index now l = 0 then fixed_window_count l else 0),
      rl_event := ev\<rparr>"
    using rotate_result [OF assms(1)] .
  have "(0 :: rat) < of_int n" using assms(2) by simp
  with assms(3) have "\<not> rl_rate l \<le> 0" by linarith
  then have "try_fixed_window n now l =
    ((admits n now l, Some (if admits n now l then 0 else
       fixed_wait_ms now ((settle n now l)\<lparr>rl_event := ev\<rparr>))),
     (settle n now l)\<lparr>rl_event := ev\<rparr>)"
    using assms(2-4) by (auto simp: try_fixed_window_def r admits_def settle_def window_limit_def Let_def)
  then show ?thesis by (rule that)
qed

definition supported :: "limiter \<Rightarrow> bool" where
  "supported l = (case rl_algorithm l of OTHER_ALGORITHM s \<Rightarrow> False | _ \<Rightarrow> True)"

lemma impossible_try:
  "impossible n l \<Longrightarrow> supported l \<Longrightarrow> try_acquire n now l = (Inr (False, None), l)"
  by (cases "rl_algorithm l")
    (auto simp: impossible_def supported_def try_acquire_def try_token_bucket_def try_sliding_window_def
      try_fixed_window_def window_limit_def Let_def)

lemma unsupported_try:
  "\<not> supported l \<Longrightarrow> \<exists>e. try_acquire n now l = (Inl e, l)"
  by (simp add: supported_def try_acquire_def split: rate_limit_algorithm.splits)

lemma impossible_not_admits:
  "rl_inv now l \<Longrightarrow> impossible n l \<Longrightarrow> \<not> admits n now l"
  using live_entries_facts(1) [of now l]
  by (cases "rl_algorithm l") (auto simp: impossible_def admits_def rl_inv_def)

lemma possible_try:
  assumes "rl_inv now l" "0 < n" "\<not> impossible n l"
  obtains w ev where "try_acquire n now l = (Inr (admits n now l, w), (settle n now l)\<lparr>rl_event := ev\<rparr>)"
    "admits n now l \<Longrightarrow> w = Some 0"
proof (cases "rl_algorithm l")
  case TOKEN_BUCKET
  with assms(3) have "n \<le> rl_burst l" by (simp add: impossible_def)
  from try_bucket_possible [OF assms(1,2) this TOKEN_BUCKET] obtain ev where
    "try_token_bucket n now l = ((admits n now l,
        if admits n now l then Some 0
        else if rl_rate l = 0 then None else Some \<lceil>(of_int n - bucket_level now l) / rl_rate l * 1000\<rceil>),
      (settle n now l)\<lparr>rl_event := ev\<rparr>)" .
  with TOKEN_BUCKET show ?thesis by (intro that [of "if admits n now l then Some 0 else if rl_rate l = 0 then None else Some \<lceil>(of_int n - bucket_level now l) / rl_rate l * 1000\<rceil>" ev]) (simp_all add: try_acquire_def)
next
  case SLIDING_WINDOW
  with assms(3) have "of_int n \<le> rl_rate l" by (simp add: impossible_def)
  from try_sliding_possible [OF assms(1,2) this SLIDING_WINDOW] obtain ev where
    "try_sliding_window n now l = ((admits n now l,
        Some (if admits n now l then 0
        else sliding_wait_ms now n (rl_rate l) ((settle n now l)\<lparr>rl_event := ev\<rparr>))),
      (settle n now l)\<lparr>rl_event := ev\<rparr>)" .
  with SLIDING_WINDOW show ?thesis by (intro that [of "Some (if admits n now l then 0 else sliding_wait_ms now n (rl_rate l) ((settle n now l)\<lparr>rl_event := ev\<rparr>))" ev]) (simp_all add: try_acquire_def)
next
  case FIXED_WINDOW
  with assms(3) have "of_int n \<le> rl_rate l" by (simp add: impossible_def)
  from try_fixed_possible [OF assms(1,2) this FIXED_WINDOW] obtain ev where
    "try_fixed_window n now l = ((admits n now l,
        Some (if admits n now l then 0
        else fixed_wait_ms now ((settle n now l)\<lparr>rl_event := ev\<rparr>))),
      (settle n now l)\<lparr>rl_event := ev\<rparr>)" .
  with FIXED_WINDOW show ?thesis by (intro that [of "Some (if admits n now l then 0 else fixed_wait_ms now ((settle n now l)\<lparr>rl_event := ev\<rparr>))" ev]) (simp_all add: try_acquire_def)
next
  case (OTHER_ALGORITHM s)
  with assms(3) show ?thesis by (simp add: impossible_def)
qed

lemma settle_inv:
  assumes "rl_inv now l" "0 < n"
  shows "rl_inv now (settle n now l)"
proof (cases "rl_algorithm l")
  case TOKEN_BUCKET
  with assms bucket_level_bounds [OF assms(1)] show ?thesis
    by (auto simp: rl_inv_def settle_def admits_def Let_def)
next
  case SLIDING_WINDOW
  with assms live_entries_facts [OF assms(1)] show ?thesis
    by (auto simp: rl_inv_def settle_def admits_def sorted_append Let_def)
next
  case FIXED_WINDOW
  with assms window_index_bounds [OF assms(1)] show ?thesis
    by (auto simp: rl_inv_def settle_def admits_def Let_def)
next
  case OTHER_ALGORITHM
  with assms show ?thesis by (simp add: settle_def)
qed

lemma rl_inv_event [simp]: "rl_inv now (l\<lparr>rl_event := ev\<rparr>) = rl_inv now l"
  by (simp add: rl_inv_def)

lemma try_acquire_inv [rpc_inv]:
  assumes "rl_inv now l" "0 < n"
  shows "rl_inv now (snd (try_acquire n now l))"
proof (cases "supported l")
  case True
  show ?thesis
  proof (cases "impossible n l")
    case True
    with \<open>supported l\<close> assms show ?thesis by (simp add: impossible_try)
  next
    case False
    with assms possible_try [OF assms False] settle_inv [OF assms] show ?thesis
      by (metis rl_inv_event snd_conv)
  qed
next
  case False
  with assms(1) unsupported_try [of l n now] show ?thesis by auto
qed

lemma rl_inv_clock: "rl_inv clk l \<Longrightarrow> clk \<le> now \<Longrightarrow> rl_inv now l"
  by (force simp: rl_inv_def)

lemma new_limiter_inv [rpc_inv]: "rl_inv now (new_limiter now c)"
  by (simp add: rl_inv_def new_limiter_def Let_def)

lemma limiter_reset_inv [rpc_inv]: "rl_inv now l \<Longrightarrow> rl_inv now (limiter_reset now l)"
  by (simp add: rl_inv_def limiter_reset_def notify_waiters_def)

lemma update_config_inv [rpc_inv]: "rl_inv now (update_config now c l)"
  by (simp add: rl_inv_def update_config_def notify_waiters_def)

lemma settle_config [simp]:
  "rl_algorithm (settle n now l) = rl_algorithm l" "rl_rate (settle n now l) = rl_rate l"
  "rl_burst (settle n now l) = rl_burst l"
  by (simp_all add: settle_def Let_def split: rate_limit_algorithm.split)

section \<open>Runs\<close>

text \<open>A sequence of attempts, each with its clock; the result lists the grants.\<close>

fun rl_run :: "(rat \<times> int) list \<Rightarrow> limiter \<Rightarrow> (rat \<times> int) list \<times> limiter" where
  "rl_run [] l = ([], l)"
| "rl_run ((now, n) # cs) l =
     (case acquire (PInt n) now l of
        (Inr True, l') \<Rightarrow> map_prod ((#) (now, n)) id (rl_run cs l')
      | (_, l') \<Rightarrow> rl_run cs l')"

text \<open>One attempt of a run: refused without a change that matters, or granted.\<close>

lemma acquire_cases:
  assumes "rl_inv now l"
  obtains (skip) "acquire (PInt n) now l \<in> {(Inl e, l) | e. True} \<union> {(Inr False, l)}"
  | (settle) ev where "0 < n" "\<not> impossible n l"
      "acquire (PInt n) now l = (Inr (admits n now l), (settle n now l)\<lparr>rl_event := ev\<rparr>)"
proof (cases "0 < n \<and> supported l \<and> \<not> impossible n l")
  case True
  then obtain w ev where
    "try_acquire n now l = (Inr (admits n now l, w), (settle n now l)\<lparr>rl_event := ev\<rparr>)"
    using possible_try assms by blast
  with True show ?thesis
    by (intro settle) (auto simp: acquire_def normalize_tokens_def)
next
  case False
  then consider "n \<le> 0" | "0 < n" "\<not> supported l" | "0 < n" "supported l" "impossible n l" by force
  then show ?thesis
  proof cases
    case 1
    then show ?thesis by (intro skip) (simp add: acquire_def normalize_tokens_def Let_def)
  next
    case 2
    with unsupported_try [of l n now] show ?thesis
      by (intro skip) (auto simp: acquire_def normalize_tokens_def Let_def)
  next
    case 3
    with impossible_try [of n l now] show ?thesis
      by (intro skip) (simp add: acquire_def normalize_tokens_def Let_def)
  qed
qed

lemma rl_run_skip:
  "acquire (PInt n) now l \<in> {(Inl e, l) | e. True} \<union> {(Inr False, l)} \<Longrightarrow>
     rl_run ((now, n) # cs) l = rl_run cs l"
  by auto

lemma rl_run_step:
  "acquire (PInt n) now l = (Inr a, l') \<Longrightarrow>
     rl_run ((now, n) # cs) l = (if a then map_prod ((#) (now, n)) id (rl_run cs l') else rl_run cs l')"
  by simp

definition ordered_from :: "rat \<Rightarrow> (rat \<times> int) list \<Rightarrow> bool" where
  "ordered_from s cs \<longleftrightarrow> sorted (s # map fst cs)"

lemma ordered_from_Cons [simp]: "ordered_from s ((t, n) # cs) \<longleftrightarrow> s \<le> t \<and> ordered_from t cs"
  by (auto simp: ordered_from_def)

lemma bucket_level_event [simp]: "bucket_level now (l\<lparr>rl_event := ev\<rparr>) = bucket_level now l"
  by (simp add: bucket_level_def)

lemma bucket_level_grow:
  assumes "s \<le> now" "0 \<le> rl_rate l"
  shows "bucket_level now l \<le> bucket_level s l + rl_rate l * (now - s)"
proof -
  have "0 \<le> rl_rate l * (now - s)" using assms by simp
  moreover have "bucket_tokens l + (now - bucket_last l) * rl_rate l
      = bucket_tokens l + (s - bucket_last l) * rl_rate l + rl_rate l * (now - s)"
    by (simp add: algebra_simps)
  ultimately show ?thesis unfolding bucket_level_def by linarith
qed

lemma bucket_level_settle:
  "rl_algorithm l = TOKEN_BUCKET \<Longrightarrow> rl_inv now l \<Longrightarrow> 0 < n \<Longrightarrow>
     bucket_level now (settle n now l) = bucket_level now l - (if admits n now l then of_int n else 0)"
  using bucket_level_bounds(2) [of now l]
  by (auto simp: settle_def bucket_level_def [of now "l\<lparr>bucket_tokens := _, bucket_last := _\<rparr>"] Let_def)

lemma bucket_run:
  "rl_inv s l \<Longrightarrow> rl_algorithm l = TOKEN_BUCKET \<Longrightarrow> ordered_from s cs \<Longrightarrow> s \<le> e \<Longrightarrow>
   \<forall>(t, n) \<in> set cs. t \<le> e \<Longrightarrow>
     of_int (window_total (fst (rl_run cs l))) \<le> bucket_level s l + rl_rate l * (e - s)"
proof (induction cs arbitrary: s l)
  case Nil
  then have "0 \<le> bucket_level s l" "0 \<le> rl_rate l * (e - s)"
    by (auto intro: bucket_level_bounds simp: rl_inv_def)
  then show ?case by simp
next
  case (Cons c cs)
  obtain now n where c: "c = (now, n)" by (cases c)
  with Cons.prems have t: "s \<le> now" "now \<le> e" "ordered_from now cs" "rl_inv now l"
    by (auto intro: rl_inv_clock)
  have "0 \<le> rl_rate l" using t(4) by (simp add: rl_inv_def)
  note grow = bucket_level_grow [OF t(1) this]
  have split: "rl_rate l * (e - s) = rl_rate l * (now - s) + rl_rate l * (e - now)"
    by (simp add: algebra_simps)
  from t(4) show ?case
  proof (cases rule: acquire_cases [of now l n])
    case skip
    with Cons.IH [OF t(4) Cons.prems(2) t(3,2)] Cons.prems(5) grow split show ?thesis
      unfolding c rl_run_skip [OF skip] by simp
  next
    case (settle ev)
    let ?l = "(settle n now l)\<lparr>rl_event := ev\<rparr>"
    have "rl_inv now ?l" using settle_inv [OF t(4) settle(1)] by simp
    from Cons.IH [OF this _ t(3,2)] Cons.prems(2,5) c grow split
      bucket_level_settle [OF Cons.prems(2) t(4) settle(1)]
    show ?thesis
      unfolding c rl_run_step [OF settle(3)] by (auto split: if_splits)
  qed
qed

text \<open>The grants of any window of one second that ends at \<open>T\<close>.\<close>

definition last_second :: "rat \<Rightarrow> (rat \<times> int) list \<Rightarrow> (rat \<times> int) list" where
  "last_second T g = filter (\<lambda>(t, n). T - 1 < t \<and> t \<le> T) g"

definition sliding_hist :: "rat \<Rightarrow> limiter \<Rightarrow> (rat \<times> int) list \<Rightarrow> bool" where
  "sliding_hist clk l g \<longleftrightarrow>
     (\<exists>th \<le> clk - 1. sliding_window l = filter (\<lambda>(t, n). th < t) g)
     \<and> (\<forall>(t, n) \<in> set g. t \<le> clk \<and> 0 < n)
     \<and> (\<forall>T. of_int (window_total (last_second T g)) \<le> rl_rate l)"

lemma sliding_hist_clock: "sliding_hist clk l g \<Longrightarrow> clk \<le> now \<Longrightarrow> sliding_hist now l g"
  unfolding sliding_hist_def split_beta by (meson diff_right_mono order_trans)

lemma sliding_hist_live:
  assumes "sliding_hist now l g"
  shows "live_entries now l = filter (\<lambda>(t, n). now - 1 < t) g"
proof -
  from assms obtain th where "th \<le> now - 1" "sliding_window l = filter (\<lambda>(t, n). th < t) g"
    by (auto simp: sliding_hist_def)
  then show ?thesis by (auto simp: live_entries_def intro!: filter_cong)
qed

lemma window_total_filter_le:
  "\<forall>(t, n) \<in> set g. 0 < n \<Longrightarrow> (\<And>p. P p \<Longrightarrow> Q p) \<Longrightarrow>
     window_total (filter P g) \<le> window_total (filter Q g)"
  by (induction g) (force simp: split_beta)+

lemma sliding_hist_settle:
  assumes "sliding_hist now l g" "rl_algorithm l = SLIDING_WINDOW" "0 < n" "0 \<le> rl_rate l"
  shows "sliding_hist now (settle n now l) (g @ (if admits n now l then [(now, n)] else []))"
    (is "sliding_hist now ?l (g @ ?new)")
proof -
  have win: "sliding_window ?l = filter (\<lambda>(t, n). now - 1 < t) (g @ ?new)"
    using sliding_hist_live [OF assms(1)] assms(2) by (simp add: settle_def Let_def)
  have pos: "\<forall>(t, n) \<in> set (g @ ?new). t \<le> now \<and> 0 < n"
    using assms(1,3) by (auto simp: sliding_hist_def)
  have "of_int (window_total (last_second T (g @ ?new))) \<le> rl_rate l" for T
  proof (cases "T < now \<or> \<not> admits n now l")
    case True
    then have "last_second T (g @ ?new) = last_second T g" by (auto simp: last_second_def)
    with assms(1) show ?thesis by (simp add: sliding_hist_def)
  next
    case False
    have "window_total (last_second T (g @ ?new)) \<le> window_total (filter (\<lambda>(t, n). now - 1 < t) (g @ ?new))"
      unfolding last_second_def using pos False by (intro window_total_filter_le) auto
    also have "\<dots> = window_total (live_entries now l) + n"
      using sliding_hist_live [OF assms(1)] False by simp
    finally have "rat_of_int (window_total (last_second T (g @ ?new)))
        \<le> of_int (window_total (live_entries now l) + n)" by (rule of_int_le_iff [THEN iffD2])
    also have "\<dots> \<le> rl_rate l" using False assms(2) by (simp add: admits_def)
    finally show ?thesis .
  qed
  with win pos show ?thesis unfolding sliding_hist_def by auto
qed

lemma sliding_hist_event [simp]: "sliding_hist now (l\<lparr>rl_event := ev\<rparr>) g = sliding_hist now l g"
  by (simp add: sliding_hist_def)

lemma sliding_run:
  "rl_inv clk l \<Longrightarrow> rl_algorithm l = SLIDING_WINDOW \<Longrightarrow> sliding_hist clk l g \<Longrightarrow>
   ordered_from clk cs \<Longrightarrow>
     of_int (window_total (last_second T (g @ fst (rl_run cs l)))) \<le> rl_rate l"
proof (induction cs arbitrary: clk l g)
  case Nil
  then show ?case by (simp add: sliding_hist_def)
next
  case (Cons c cs)
  obtain now n where c: "c = (now, n)" by (cases c)
  with Cons.prems have t: "ordered_from now cs" "rl_inv now l" "sliding_hist now l g"
    by (auto intro: rl_inv_clock sliding_hist_clock)
  have r: "0 \<le> rl_rate l" using t(2) by (simp add: rl_inv_def)
  from t(2) show ?case
  proof (cases rule: acquire_cases [of now l n])
    case skip
    show ?thesis
      unfolding c rl_run_skip [OF skip] by (rule Cons.IH [OF t(2) Cons.prems(2) t(3,1)])
  next
    case (settle ev)
    let ?l = "(settle n now l)\<lparr>rl_event := ev\<rparr>"
    have "rl_inv now ?l" using settle_inv [OF t(2) settle(1)] by simp
    moreover have "sliding_hist now ?l (g @ (if admits n now l then [(now, n)] else []))"
      using sliding_hist_settle [OF t(3) Cons.prems(2) settle(1) r] by simp
    ultimately show ?thesis
      using Cons.IH [OF _ _ _ t(1)] Cons.prems(2) unfolding c rl_run_step [OF settle(3)]
      by fastforce
  qed
qed

text \<open>The grants of the \<open>k\<close>-th second after the start.\<close>

definition in_second :: "rat \<Rightarrow> int \<Rightarrow> (rat \<times> int) list \<Rightarrow> (rat \<times> int) list" where
  "in_second t0 k g = filter (\<lambda>(t, n). \<lfloor>t - t0\<rfloor> = k) g"

definition fixed_hist :: "rat \<Rightarrow> limiter \<Rightarrow> (rat \<times> int) list \<Rightarrow> bool" where
  "fixed_hist t0 l g \<longleftrightarrow>
     (\<exists>j. fixed_window_start l = t0 + of_int j \<and> (\<forall>(t, n) \<in> set g. \<lfloor>t - t0\<rfloor> \<le> j)
        \<and> fixed_window_count l = window_total (in_second t0 j g))
     \<and> (\<forall>k. of_int (window_total (in_second t0 k g)) \<le> rl_rate l)"

lemma fixed_hist_settle:
  assumes "fixed_hist t0 l g" "rl_algorithm l = FIXED_WINDOW" "rl_inv now l"
  shows "fixed_hist t0 (settle n now l) (g @ (if admits n now l then [(now, n)] else []))"
    (is "fixed_hist t0 ?l (g @ ?new)")
proof -
  from assms(1) obtain j where j: "fixed_window_start l = t0 + of_int j"
    "\<forall>(t, n) \<in> set g. \<lfloor>t - t0\<rfloor> \<le> j" "fixed_window_count l = window_total (in_second t0 j g)"
    by (auto simp: fixed_hist_def)
  let ?i = "window_index now l"
  have now: "\<lfloor>now - t0\<rfloor> = j + ?i"
    using j(1) floor_diff_of_int [of "now - t0" j] by (simp add: window_index_def diff_diff_eq)
  have i: "0 \<le> ?i" using window_index_bounds(1) [OF assms(3)] .
  have old: "window_total (in_second t0 (j + ?i) g) = (if ?i = 0 then fixed_window_count l else 0)"
  proof (cases "?i = 0")
    case False
    with i j(2) have "in_second t0 (j + ?i) g = []"
      by (auto simp: in_second_def filter_empty_conv)
    with False show ?thesis by simp
  qed (simp add: j(3))
  have new: "in_second t0 k ?new = (if k = j + ?i then ?new else [])" for k
    using now by (auto simp: in_second_def)
  have total: "window_total (in_second t0 k (g @ ?new)) = window_total (in_second t0 k g)
      + (if k = j + ?i \<and> admits n now l then n else 0)" for k
    using new [of k] by (auto simp: in_second_def)
  have count: "fixed_window_count ?l = window_total (in_second t0 (j + ?i) (g @ ?new))"
    using assms(2) total [of "j + ?i"] old by (simp add: settle_def Let_def)
  have start: "fixed_window_start ?l = t0 + of_int (j + ?i)"
    using assms(2) j(1) by (simp add: settle_def Let_def)
  have before: "\<forall>(t, n) \<in> set (g @ ?new). \<lfloor>t - t0\<rfloor> \<le> j + ?i"
    using j(2) i now by auto
  have "of_int (window_total (in_second t0 k (g @ ?new))) \<le> rl_rate l" for k
    using assms(1,2) total [of k] old by (auto simp: fixed_hist_def admits_def)
  with start before count show ?thesis
    unfolding fixed_hist_def settle_config by blast
qed

lemma fixed_hist_event [simp]: "fixed_hist t0 (l\<lparr>rl_event := ev\<rparr>) g = fixed_hist t0 l g"
  by (simp add: fixed_hist_def)

lemma fixed_run:
  "rl_inv clk l \<Longrightarrow> rl_algorithm l = FIXED_WINDOW \<Longrightarrow> fixed_hist t0 l g \<Longrightarrow> ordered_from clk cs \<Longrightarrow>
     of_int (window_total (in_second t0 k (g @ fst (rl_run cs l)))) \<le> rl_rate l"
proof (induction cs arbitrary: clk l g)
  case Nil
  then show ?case by (simp add: fixed_hist_def)
next
  case (Cons c cs)
  obtain now n where c: "c = (now, n)" by (cases c)
  with Cons.prems have t: "ordered_from now cs" "rl_inv now l"
    by (auto intro: rl_inv_clock)
  from t(2) show ?case
  proof (cases rule: acquire_cases [of now l n])
    case skip
    show ?thesis
      unfolding c rl_run_skip [OF skip] by (rule Cons.IH [OF t(2) Cons.prems(2,3) t(1)])
  next
    case (settle ev)
    let ?l = "(settle n now l)\<lparr>rl_event := ev\<rparr>"
    have "rl_inv now ?l" using settle_inv [OF t(2) settle(1)] by simp
    moreover have "fixed_hist t0 ?l (g @ (if admits n now l then [(now, n)] else []))"
      using fixed_hist_settle [OF Cons.prems(3,2) t(2)] by simp
    ultimately show ?thesis
      using Cons.IH [OF _ _ _ t(1)] Cons.prems(2) unfolding c rl_run_step [OF settle(3)]
      by fastforce
  qed
qed

section \<open>Waiting hints\<close>

lemma ceiling_wait: "of_int (\<lceil>(x :: rat) * 1000\<rceil>) / 1000 \<ge> x" "(of_int \<lceil>x * 1000\<rceil> - 1) / 1000 < x"
  using ceiling_correct [of "x * 1000"] by (simp_all add: field_simps)

text \<open>After a refusal, the same request at \<open>now'\<close> succeeds exactly from the hint's instant on.\<close>

definition frees_at :: "int \<Rightarrow> rat \<Rightarrow> limiter \<Rightarrow> rat \<Rightarrow> bool" where
  "frees_at n now l x \<longleftrightarrow> 0 < x \<and> (\<forall>now' \<ge> now. admits n now' (settle n now l) \<longleftrightarrow> now + x \<le> now')"

lemma bucket_frees:
  assumes "rl_inv now l" "rl_algorithm l = TOKEN_BUCKET" "0 < n" "n \<le> rl_burst l"
    and "\<not> admits n now l" "rl_rate l \<noteq> 0"
  shows "frees_at n now l ((of_int n - bucket_level now l) / rl_rate l)"
proof -
  have r: "0 < rl_rate l" using assms(1,6) by (simp add: rl_inv_def)
  have lt: "bucket_level now l < of_int n" using assms(2,4,5) by (simp add: admits_def)
  have le: "rat_of_int n \<le> of_int (rl_burst l)" using assms(4) by simp
  have "admits n now' (settle n now l) \<longleftrightarrow> now + (of_int n - bucket_level now l) / rl_rate l \<le> now'"
    if "now \<le> now'" for now'
  proof -
    have "admits n now' (settle n now l) \<longleftrightarrow>
        of_int n \<le> bucket_level now l + (now' - now) * rl_rate l"
      using assms(2,4,5) le
      by (simp add: admits_def [of n now'] settle_def bucket_level_def [of now'] Let_def)
    also have "\<dots> \<longleftrightarrow> (of_int n - bucket_level now l) / rl_rate l \<le> now' - now"
      using r by (simp add: field_simps)
    also have "\<dots> \<longleftrightarrow> now + (of_int n - bucket_level now l) / rl_rate l \<le> now'" by linarith
    finally show ?thesis .
  qed
  with r lt show ?thesis by (simp add: frees_at_def)
qed

lemma fixed_frees:
  assumes "rl_inv now l" "rl_algorithm l = FIXED_WINDOW" "of_int n \<le> rl_rate l" "\<not> admits n now l"
  shows "frees_at n now l (fixed_window_start (settle n now l) + 1 - now)"
proof -
  let ?l = "settle n now l"
  have b: "fixed_window_start ?l \<le> now" "now < fixed_window_start ?l + 1"
    using window_index_bounds(2,3) [OF assms(1)] assms(2) by (simp_all add: settle_def Let_def)
  have "admits n now' ?l \<longleftrightarrow> fixed_window_start ?l + 1 \<le> now'" if "now \<le> now'" for now'
  proof -
    have "window_index now' ?l = 0 \<longleftrightarrow> now' < fixed_window_start ?l + 1"
      using that b(1) by (auto simp: window_index_def floor_eq_iff)
    moreover have "fixed_window_count ?l = (if window_index now l = 0 then fixed_window_count l else 0)"
      using assms(2,4) by (simp add: settle_def Let_def)
    ultimately show ?thesis
      using assms(2-4) by (auto simp: admits_def split: if_splits)
  qed
  with b show ?thesis by (simp add: frees_at_def)
qed

lemma expired_none:
  "sorted (map fst w) \<Longrightarrow> \<forall>t \<in> fst ` set w. (th :: rat) < t \<Longrightarrow> filter (\<lambda>(t, c). t \<le> th) w = []"
  by (fastforce simp: filter_empty_conv)

lemma first_freeing_iff:
  "first_freeing excess running w = Some ts \<Longrightarrow> sorted (map fst w) \<Longrightarrow> \<forall>(t, c) \<in> set w. 0 < c \<Longrightarrow>
   of_int running < excess \<Longrightarrow>
     excess \<le> of_int (running + window_total (filter (\<lambda>(t, c). t \<le> th) w)) \<longleftrightarrow> ts \<le> th"
proof (induction excess running w rule: first_freeing.induct)
  case (2 excess running t c w)
  have pos: "0 \<le> window_total (filter (\<lambda>(t, c). t \<le> th) w)"
    using 2(4) by (intro window_total_nonneg) auto
  have none: "filter (\<lambda>(t, c). t \<le> th) ((t, c) # w) = []" if "th < t"
    using that 2(3) by (intro expired_none) auto
  show ?case
  proof (cases "excess \<le> of_int (running + c)")
    case True
    have "rat_of_int (running + c) \<le> of_int (running + (c + window_total (filter (\<lambda>(t, c). t \<le> th) w)))"
      using pos by (intro of_int_le_iff [THEN iffD2]) simp
    with True 2(2,5) none show ?thesis by (cases "t \<le> th") (auto simp: not_le)
  next
    case False
    with 2 have IH: "excess \<le> of_int (running + c + window_total (filter (\<lambda>(t, c). t \<le> th) w))
        \<longleftrightarrow> ts \<le> th" by auto
    show ?thesis
    proof (cases "t \<le> th")
      case True
      with IH show ?thesis by (simp add: add.assoc)
    next
      case False
      with none have "window_total (filter (\<lambda>(t, c). t \<le> th) w) = 0" by simp
      with IH \<open>\<not> excess \<le> _\<close> none False 2(5) show ?thesis by simp
    qed
  qed
qed simp

lemma first_freeing_exists:
  "excess \<le> of_int (running + window_total w) \<Longrightarrow> of_int running < excess \<Longrightarrow>
     \<exists>ts. first_freeing excess running w = Some ts \<and> ts \<in> fst ` set w"
proof (induction excess running w rule: first_freeing.induct)
  case (2 excess running t c w)
  show ?case
  proof (cases "excess \<le> of_int (running + c)")
    case False
    with 2 have "\<exists>ts. first_freeing excess (running + c) w = Some ts \<and> ts \<in> fst ` set w"
      by (simp add: add.assoc)
    with False show ?thesis by auto
  qed simp
qed simp

lemma sliding_frees:
  assumes "rl_inv now l" "rl_algorithm l = SLIDING_WINDOW" "of_int n \<le> rl_rate l" "\<not> admits n now l"
  shows "\<exists>x. frees_at n now l x \<and>
    sliding_wait_ms now n (rl_rate l) ((settle n now l)\<lparr>rl_event := ev\<rparr>) = \<lceil>x * 1000\<rceil>"
proof -
  let ?w = "live_entries now l" and ?l = "settle n now l"
  let ?excess = "of_int (window_total ?w + n) - rl_rate l"
  note facts = live_entries_facts [OF assms(1)]
  have l: "sliding_window ?l = ?w" "sliding_count ?l = window_total ?w"
    using assms(2,4) by (simp_all add: settle_def Let_def)
  have ex: "0 < ?excess" "?excess \<le> of_int (window_total ?w)"
    using assms(2-4) by (simp_all add: admits_def)
  then obtain ts where ts: "first_freeing ?excess 0 ?w = Some ts" "ts \<in> fst ` set ?w"
    using first_freeing_exists [of ?excess 0 ?w] by auto
  have "now - 1 < ts" using ts(2) by (auto simp: live_entries_def)
  moreover have "admits n now' ?l \<longleftrightarrow> ts + 1 \<le> now'" if "now \<le> now'" for now'
  proof -
    have "live_entries now' ?l = filter (\<lambda>(t, c). now' - 1 < t) ?w"
      by (simp add: live_entries_def [of now'] l)
    then have "admits n now' ?l \<longleftrightarrow>
        ?excess \<le> of_int (0 + window_total (filter (\<lambda>(t, c). t \<le> now' - 1) ?w))"
      using assms(2) window_total_filter [of ?w "now' - 1"] by (simp add: admits_def algebra_simps)
    also have "\<dots> \<longleftrightarrow> ts \<le> now' - 1"
      using facts(3,4) ex(1) by (intro first_freeing_iff [OF ts(1)]) auto
    finally show ?thesis by (simp add: algebra_simps)
  qed
  ultimately have "frees_at n now l (ts + 1 - now)"
    by (simp add: frees_at_def)
  moreover have "sliding_wait_ms now n (rl_rate l) (?l\<lparr>rl_event := ev\<rparr>) = \<lceil>(ts + 1 - now) * 1000\<rceil>"
    using \<open>now - 1 < ts\<close> ts ex by (auto simp: sliding_wait_ms_def l WINDOW_SIZE_S_def Let_def)
  ultimately show ?thesis by blast
qed

text \<open>The hint of a refusal that is not final is the freeing time in milliseconds, rounded up.\<close>

lemma refusal_cases:
  assumes "rl_inv now l" "0 < n" "supported l" "try_acquire n now l = (Inr (False, hint), l')"
  obtains (never) "impossible n l" "hint = None" "l' = l"
  | (dry) ev where "rl_algorithm l = TOKEN_BUCKET" "\<not> impossible n l" "rl_rate l = 0" "hint = None"
      "l' = (settle n now l)\<lparr>rl_event := ev\<rparr>" "\<not> admits n now l"
  | (wait) ev x where "\<not> impossible n l" "hint = Some \<lceil>x * 1000\<rceil>" "frees_at n now l x"
      "l' = (settle n now l)\<lparr>rl_event := ev\<rparr>" "\<not> admits n now l"
proof (cases "impossible n l")
  case True
  with assms(3,4) show ?thesis by (intro never) (simp_all add: impossible_try)
next
  case False
  note a = assms(1,2)
  show ?thesis
  proof (cases "rl_algorithm l")
    case TOKEN_BUCKET
    with False have le: "n \<le> rl_burst l" by (simp add: impossible_def)
    from try_bucket_possible [OF a le TOKEN_BUCKET] obtain ev where e: "try_token_bucket n now l =
      ((admits n now l, if admits n now l then Some 0 else if rl_rate l = 0 then None
          else Some \<lceil>(of_int n - bucket_level now l) / rl_rate l * 1000\<rceil>),
       (settle n now l)\<lparr>rl_event := ev\<rparr>)" .
    have r: "\<not> admits n now l" "l' = (settle n now l)\<lparr>rl_event := ev\<rparr>"
      using assms(4) by (simp_all add: try_acquire_def TOKEN_BUCKET e)
    then have r3: "hint = (if rl_rate l = 0 then None
        else Some \<lceil>(of_int n - bucket_level now l) / rl_rate l * 1000\<rceil>)"
      using assms(4) by (simp only: try_acquire_def TOKEN_BUCKET e rate_limit_algorithm.case
          map_prod_simp id_apply prod.inject sum.inject if_False simp_thms)
    show ?thesis
    proof (cases "rl_rate l = 0")
      case True
      with r3 have "hint = None" by simp
      from dry [OF TOKEN_BUCKET False True this r(2,1)] show ?thesis .
    next
      case rate: False
      with r3 have "hint = Some \<lceil>(of_int n - bucket_level now l) / rl_rate l * 1000\<rceil>" by simp
      from wait [OF False this bucket_frees [OF a(1) TOKEN_BUCKET a(2) le r(1) rate] r(2,1)]
      show ?thesis .
    qed
  next
    case SLIDING_WINDOW
    with False have le: "of_int n \<le> rl_rate l" by (simp add: impossible_def)
    from try_sliding_possible [OF a le SLIDING_WINDOW] obtain ev where e: "try_sliding_window n now l =
      ((admits n now l, Some (if admits n now l then 0
          else sliding_wait_ms now n (rl_rate l) ((settle n now l)\<lparr>rl_event := ev\<rparr>))),
       (settle n now l)\<lparr>rl_event := ev\<rparr>)" .
    have r: "\<not> admits n now l" "l' = (settle n now l)\<lparr>rl_event := ev\<rparr>"
      using assms(4) by (simp_all add: try_acquire_def SLIDING_WINDOW e)
    then have r3: "hint = Some (sliding_wait_ms now n (rl_rate l) ((settle n now l)\<lparr>rl_event := ev\<rparr>))"
      using assms(4) by (simp only: try_acquire_def SLIDING_WINDOW e rate_limit_algorithm.case
          map_prod_simp id_apply prod.inject sum.inject if_False simp_thms)
    from sliding_frees [OF a(1) SLIDING_WINDOW le r(1), of ev] r3 obtain x where
      "frees_at n now l x" "hint = Some \<lceil>x * 1000\<rceil>" by auto
    from wait [OF False this(2,1) r(2,1)] show ?thesis .
  next
    case FIXED_WINDOW
    with False have le: "of_int n \<le> rl_rate l" by (simp add: impossible_def)
    from try_fixed_possible [OF a le FIXED_WINDOW] obtain ev where e: "try_fixed_window n now l =
      ((admits n now l, Some (if admits n now l then 0
          else fixed_wait_ms now ((settle n now l)\<lparr>rl_event := ev\<rparr>))),
       (settle n now l)\<lparr>rl_event := ev\<rparr>)" .
    have r: "\<not> admits n now l" "l' = (settle n now l)\<lparr>rl_event := ev\<rparr>"
      using assms(4) by (simp_all add: try_acquire_def FIXED_WINDOW e)
    then have r3: "hint = Some (fixed_wait_ms now ((settle n now l)\<lparr>rl_event := ev\<rparr>))"
      using assms(4) by (simp only: try_acquire_def FIXED_WINDOW e rate_limit_algorithm.case
          map_prod_simp id_apply prod.inject sum.inject if_False simp_thms)
    note f = fixed_frees [OF a(1) FIXED_WINDOW le r(1)]
    have "hint = Some \<lceil>(fixed_window_start (settle n now l) + 1 - now) * 1000\<rceil>"
      using r3 f by (simp add: fixed_wait_ms_def frees_at_def WINDOW_SIZE_S_def)
    from wait [OF False this f r(2,1)] show ?thesis .
  next
    case (OTHER_ALGORITHM s)
    with assms(3) show ?thesis by (simp add: supported_def)
  qed
qed

lemma impossible_settle [simp]:
  "impossible n (settle m now l) = impossible n l" "impossible n (l\<lparr>rl_event := ev\<rparr>) = impossible n l"
  by (simp_all add: impossible_def split: rate_limit_algorithm.split)

lemma admits_event [simp]: "admits n now (l\<lparr>rl_event := ev\<rparr>) = admits n now l"
  by (simp add: admits_def live_entries_def window_index_def split: rate_limit_algorithm.split)

lemma retry_admits:
  assumes "rl_inv now l" "0 < n" "\<not> impossible n l" "l' = (settle n now l)\<lparr>rl_event := ev\<rparr>" "now \<le> now'"
  shows "\<exists>w. fst (try_acquire n now' l') = Inr (admits n now' (settle n now l), w)
    \<and> (admits n now' (settle n now l) \<longrightarrow> w = Some 0)"
proof -
  have "rl_inv now' l'"
    using settle_inv [OF assms(1,2)] rl_inv_clock [OF _ assms(5)] assms(4) by simp
  moreover have "\<not> impossible n l'" using assms(3,4) by simp
  ultimately obtain w ev' where
    "try_acquire n now' l' = (Inr (admits n now' l', w), (settle n now' l')\<lparr>rl_event := ev'\<rparr>)"
    "admits n now' l' \<Longrightarrow> w = Some 0"
    using possible_try [OF _ assms(2)] by blast
  then show ?thesis by (simp add: assms(4))
qed

section \<open>Properties\<close>

text \<open>
  C4. Whatever state a token-bucket limiter is in at time \<open>s\<close>, the tokens
  it grants from \<open>s\<close> to \<open>e\<close> are at most \<open>burst + rate * (e - s)\<close>, for any sequence of
  requests of any sizes in that time.
\<close>

theorem token_bucket_bound:
  assumes "rl_inv s l" "rl_algorithm l = TOKEN_BUCKET" "ordered_from s cs"
    and "\<forall>(t, n) \<in> set cs. t \<le> e" "s \<le> e"
  shows "of_int (window_total (fst (rl_run cs l))) \<le> of_int (rl_burst l) + rl_rate l * (e - s)"
  using bucket_run [OF assms(1-3,5,4)] bucket_level_bounds(2) [OF assms(1)] by linarith

theorem token_bucket_bound_witness:
  "fst (rl_run [(0, 150), (0, 1), (1/2, 50), (1/2, 1)] (new_limiter 0 None)) = [(0, 150), (1/2, 50)]
   \<and> window_total (fst (rl_run [(0, 150), (0, 1), (1/2, 50), (1/2, 1)] (new_limiter 0 None))) \<le> 200"
proof -
  have "rat_of_int (window_total (fst (rl_run [(0, 150), (0, 1), (1/2, 50), (1/2, 1)] (new_limiter 0 None))))
      \<le> of_int (rl_burst (new_limiter 0 None)) + rl_rate (new_limiter 0 None) * (1/2 - 0)"
    by (rule token_bucket_bound [OF new_limiter_inv])
      (simp_all add: ordered_from_def new_limiter_def default_limiter_config_def)
  then show ?thesis
    by (simp add: new_limiter_def default_limiter_config_def acquire_def normalize_tokens_def
        try_acquire_def limiter_defs token_bucket_wait_ms_def)
qed

text \<open>
  C3. A sliding-window limiter never grants more than \<open>rate\<close> tokens in any
  window of one second, wherever the window ends and whatever is requested when.
\<close>

theorem sliding_window_bound:
  assumes "rl_algorithm (new_limiter t0 config) = SLIDING_WINDOW" "ordered_from t0 cs"
  shows "of_int (window_total (filter (\<lambda>(t, n). T - 1 < t \<and> t \<le> T)
           (fst (rl_run cs (new_limiter t0 config))))) \<le> rl_rate (new_limiter t0 config)"
proof -
  have "sliding_hist t0 (new_limiter t0 config) []"
    by (auto simp: sliding_hist_def last_second_def new_limiter_def Let_def intro: exI [of _ "t0 - 1"])
  from sliding_run [OF new_limiter_inv assms(1) this assms(2)] show ?thesis
    by (simp add: last_second_def)
qed

definition sliding_config :: limiter_config where
  "sliding_config = \<lparr>lc_algorithm = SLIDING_WINDOW, lc_rate = 5 / 2, lc_burst = 1, lc_wait_timeout_ms = 0\<rparr>"

theorem sliding_window_bound_witness:
  "fst (rl_run [(0, 1), (1/2, 1), (3/4, 1), (1, 1)] (new_limiter 0 (Some sliding_config)))
     = [(0, 1), (1/2, 1), (1, 1)]
   \<and> window_total (filter (\<lambda>(t, n). 1/4 < t \<and> t \<le> 5/4)
       (fst (rl_run [(0, 1), (1/2, 1), (3/4, 1), (1, 1)] (new_limiter 0 (Some sliding_config))))) \<le> 2"
proof -
  have "rat_of_int (window_total (filter (\<lambda>(t, n). 5/4 - 1 < t \<and> t \<le> 5/4)
       (fst (rl_run [(0, 1), (1/2, 1), (3/4, 1), (1, 1)] (new_limiter 0 (Some sliding_config))))))
      \<le> rl_rate (new_limiter 0 (Some sliding_config))"
    by (rule sliding_window_bound) (simp_all add: ordered_from_def new_limiter_def sliding_config_def)
  then show ?thesis
    by (simp add: new_limiter_def sliding_config_def acquire_def normalize_tokens_def try_acquire_def
        limiter_defs sliding_wait_ms_def)
qed

text \<open>
  A fixed-window limiter never grants more than \<open>rate\<close> tokens in the
  \<open>k\<close>-th second after its start.
\<close>

theorem fixed_window_bound:
  assumes "rl_algorithm (new_limiter t0 config) = FIXED_WINDOW" "ordered_from t0 cs"
  shows "of_int (window_total (filter (\<lambda>(t, n). \<lfloor>t - t0\<rfloor> = k)
           (fst (rl_run cs (new_limiter t0 config))))) \<le> rl_rate (new_limiter t0 config)"
proof -
  have "fixed_hist t0 (new_limiter t0 config) []"
    by (auto simp: fixed_hist_def in_second_def new_limiter_def Let_def intro: exI [of _ 0])
  from fixed_run [OF new_limiter_inv assms(1) this assms(2)] show ?thesis
    by (simp add: in_second_def)
qed

definition fixed_config :: limiter_config where
  "fixed_config = \<lparr>lc_algorithm = FIXED_WINDOW, lc_rate = 2, lc_burst = 1, lc_wait_timeout_ms = 0\<rparr>"

theorem fixed_window_bound_witness:
  "fst (rl_run [(0, 2), (1/2, 1), (1, 2)] (new_limiter 0 (Some fixed_config))) = [(0, 2), (1, 2)]
   \<and> window_total (filter (\<lambda>(t, n). \<lfloor>t\<rfloor> = 1)
       (fst (rl_run [(0, 2), (1/2, 1), (1, 2)] (new_limiter 0 (Some fixed_config))))) \<le> 2"
proof -
  have "rat_of_int (window_total (filter (\<lambda>(t, n). \<lfloor>t - 0\<rfloor> = 1)
       (fst (rl_run [(0, 2), (1/2, 1), (1, 2)] (new_limiter 0 (Some fixed_config))))))
      \<le> rl_rate (new_limiter 0 (Some fixed_config))"
    by (rule fixed_window_bound) (simp_all add: ordered_from_def new_limiter_def fixed_config_def)
  then show ?thesis
    by (simp add: new_limiter_def fixed_config_def acquire_def normalize_tokens_def try_acquire_def
        limiter_defs fixed_wait_ms_def)
qed

text \<open>
  A refusal tells the truth for all three algorithms: without a hint the
  same request is refused at every later time; with a hint of \<open>ms\<close> milliseconds it is granted
  from that delay on if nobody else takes tokens, and still refused one millisecond earlier.
\<close>

theorem refusal_hint_exact:
  assumes "rl_inv now l" "0 < n" "supported l" "try_acquire n now l = (Inr (False, hint), l')" "now \<le> now'"
  shows "case hint of
      None \<Rightarrow> fst (try_acquire n now' l') = Inr (False, None)
    | Some ms \<Rightarrow> 0 < ms
        \<and> (now + of_int ms / 1000 \<le> now' \<longrightarrow> fst (try_acquire n now' l') = Inr (True, Some 0))
        \<and> (now' \<le> now + of_int (ms - 1) / 1000 \<longrightarrow> (\<exists>w. fst (try_acquire n now' l') = Inr (False, w)))"
  using assms(1-4)
proof (cases rule: refusal_cases)
  case never
  with assms(3) show ?thesis by (simp add: impossible_try)
next
  case (dry ev)
  let ?s = "settle n now l"
  have r: "rl_inv now' l'" "0 < n" "n \<le> rl_burst l'" "rl_algorithm l' = TOKEN_BUCKET" "rl_rate l' = 0"
    using settle_inv [OF assms(1,2)] rl_inv_clock [OF _ assms(5)] dry assms(2)
    by (simp_all add: impossible_def)
  have "\<not> admits n now' l'"
    using dry(1,3,5,6) r(3) by (auto simp: admits_def settle_def bucket_level_def Let_def)
  moreover obtain ev' where "try_token_bucket n now' l' =
      ((admits n now' l', if admits n now' l' then Some 0 else if rl_rate l' = 0 then None
          else Some \<lceil>(of_int n - bucket_level now' l') / rl_rate l' * 1000\<rceil>),
       (settle n now' l')\<lparr>rl_event := ev'\<rparr>)"
    using try_bucket_possible [OF r(1-4)] .
  ultimately show ?thesis
    by (simp add: try_acquire_def r(4,5) dry(4))
next
  case (wait ev x)
  note f = wait(3) [unfolded frees_at_def]
  have x: "x \<le> of_int \<lceil>x * 1000\<rceil> / 1000" "of_int (\<lceil>x * 1000\<rceil> - 1) / 1000 < x" "0 < \<lceil>x * 1000\<rceil>"
    using ceiling_wait [of x] f by (simp_all add: zero_less_ceiling)
  obtain w where w: "fst (try_acquire n now' l') = Inr (admits n now' (settle n now l), w)"
    "admits n now' (settle n now l) \<longrightarrow> w = Some 0"
    using retry_admits [OF assms(1,2) wait(1,4) assms(5)] by auto
  have "admits n now' (settle n now l) \<longleftrightarrow> now + x \<le> now'"
    using f assms(5) by simp
  then show ?thesis
    unfolding wait(2) option.case using w x by (intro conjI impI) (auto simp: not_le)
qed

theorem refusal_hint_exact_witness:
  "\<exists>l'. try_acquire 3 0 (settle 149 0 (new_limiter 0 None)) = (Inr (False, Some 20), l')
     \<and> fst (try_acquire 3 (1/50) l') = Inr (True, Some 0)"
proof -
  let ?l = "settle 149 0 (new_limiter 0 None)"
  have "try_acquire 3 0 ?l = (Inr (False, Some 20), ?l)"
    by (simp add: new_limiter_def default_limiter_config_def settle_def admits_def bucket_level_def
        try_acquire_def limiter_defs token_bucket_wait_ms_def)
  moreover have "rl_inv 0 ?l" by (rule settle_inv [OF new_limiter_inv]) simp
  moreover have "supported ?l"
    by (simp add: supported_def new_limiter_def default_limiter_config_def)
  ultimately show ?thesis
    using refusal_hint_exact [of 0 ?l 3 "Some 20" ?l "1/50"] by auto
qed

lemma acquire_admits:
  assumes "rl_inv now l" "0 < n" "supported l"
  shows "fst (acquire (PInt n) now l) = Inr (admits n now l)"
proof (cases "impossible n l")
  case True
  with assms show ?thesis
    by (simp add: acquire_def normalize_tokens_def impossible_try impossible_not_admits)
next
  case False
  from possible_try [OF assms(1,2) this] obtain w ev where
    "try_acquire n now l = (Inr (admits n now l, w), (settle n now l)\<lparr>rl_event := ev\<rparr>)" by blast
  with assms(2) show ?thesis by (simp add: acquire_def normalize_tokens_def)
qed

text \<open>
  The reported number of available tokens is exact: at that moment a request
  for \<open>n\<close> tokens is granted if and only if \<open>n\<close> is at most that number.
\<close>

theorem available_exact:
  assumes "rl_inv now l" "0 < n" "supported l"
  shows "fst (acquire (PInt n) now l) = Inr (n \<le> fst (get_available_tokens now l))"
proof (cases "rl_algorithm l")
  case TOKEN_BUCKET
  obtain ev where r: "refill_token_bucket now l =
      l\<lparr>bucket_tokens := bucket_level now l, bucket_last := now, rl_event := ev\<rparr>"
    using refill_result [OF assms(1)] .
  have "n \<le> \<lfloor>bucket_level now l\<rfloor> \<Longrightarrow> n \<le> rl_burst l"
    using bucket_level_bounds(2) [OF assms(1)] by linarith
  with TOKEN_BUCKET assms(2) show ?thesis
    by (auto simp: acquire_admits [OF assms] admits_def get_available_tokens_def r le_max_iff_disj
        le_floor_iff)
next
  case SLIDING_WINDOW
  obtain ev where r: "cleanup_sliding_window now l =
      l\<lparr>sliding_window := live_entries now l, sliding_count := window_total (live_entries now l),
        rl_event := ev\<rparr>"
    using cleanup_result [OF assms(1)] .
  show ?thesis
    using assms(2) SLIDING_WINDOW by (simp add: acquire_admits [OF assms] admits_def
        get_available_tokens_def r window_limit_def le_max_iff_disj le_floor_iff algebra_simps)
next
  case FIXED_WINDOW
  obtain ev where r: "rotate_fixed_window now l =
    l\<lparr>fixed_window_start := fixed_window_start l + of_int (window_index now l),
      fixed_window_count := (if window_index now l = 0 then fixed_window_count l else 0),
      rl_event := ev\<rparr>"
    using rotate_result [OF assms(1)] .
  show ?thesis
    using assms(2) FIXED_WINDOW by (simp add: acquire_admits [OF assms] admits_def
        get_available_tokens_def r window_limit_def le_max_iff_disj le_floor_iff algebra_simps)
next
  case (OTHER_ALGORITHM s)
  with assms(3) show ?thesis by (simp add: supported_def)
qed

theorem available_exact_witness:
  "fst (get_available_tokens 0 (new_limiter 0 None)) = 150
   \<and> fst (acquire (PInt 150) 0 (new_limiter 0 None)) = Inr True
   \<and> fst (acquire (PInt 151) 0 (new_limiter 0 None)) = Inr False"
proof -
  have "fst (get_available_tokens 0 (new_limiter 0 None)) = 150" "supported (new_limiter 0 None)"
    by (simp_all add: get_available_tokens_def new_limiter_def default_limiter_config_def
        limiter_defs supported_def)
  with available_exact [OF new_limiter_inv, of 150 0 None] available_exact [OF new_limiter_inv, of 151 0 None]
  show ?thesis by simp
qed

lemma try_acquire_algorithm: "rl_algorithm (snd (try_acquire n now l)) = rl_algorithm l"
  by (cases "rl_algorithm l")
    (simp_all add: try_acquire_def limiter_defs split: prod.split)

lemma supported_try:
  assumes "supported l"
  obtains b w l' where "try_acquire n now l = (Inr (b, w), l')" "supported l'"
proof -
  obtain r l' where e: "try_acquire n now l = (r, l')" by (cases "try_acquire n now l")
  with try_acquire_algorithm [of n now l] assms have "supported l'"
    by (simp add: supported_def)
  moreover have "\<exists>b w. r = Inr (b, w)"
    using e assms by (auto simp: try_acquire_def supported_def map_prod_def split: rate_limit_algorithm.splits prod.splits)
  ultimately show ?thesis using e that by blast
qed

lemma supported_prepare_wait [simp]: "supported (prepare_wait l) = supported l"
  by (simp add: supported_def prepare_wait_def)

definition keeps_algorithm :: "round list \<Rightarrow> bool" where
  "keeps_algorithm rounds \<longleftrightarrow> (\<forall>(t, now, others) \<in> set rounds. \<forall>l. supported l \<longrightarrow> supported (others l))"

lemma wait_loop_settles:
  "supported l \<Longrightarrow> keeps_algorithm rounds \<Longrightarrow> rounds \<noteq> [] \<Longrightarrow> deadline \<le> fst (snd (last rounds)) \<Longrightarrow>
     \<exists>r. fst (wait_loop n timeout_s deadline rounds l) = Some r
       \<and> (case r of Inr _ \<Rightarrow> True | Inl e \<Rightarrow> \<exists>ms \<ge> 0. e = rate_limited ms)"
proof (induction rounds arbitrary: l)
  case (Cons p rounds)
  obtain t now others where p: "p = (t, now, others)" by (cases p)
  obtain b w l1 where e: "try_acquire n t l = (Inr (b, w), l1)" "supported l1"
    using supported_try [OF Cons.prems(1)] .
  consider "b" | "\<not> b" "w = None" | ms where "\<not> b" "w = Some ms" by (cases w) auto
  then show ?case
  proof cases
    case 1
    with e show ?thesis by (simp add: p)
  next
    case 2
    with e show ?thesis by (auto simp: p)
  next
    case 3
    show ?thesis
    proof (cases "timeout_s \<le> 0 \<or> deadline \<le> now")
      case True
      with 3 e show ?thesis by (auto simp: p Let_def intro!: exI [of _ "max 0 ms"])
    next
      case False
      with Cons.prems have ne: "rounds \<noteq> []" by (auto simp: p)
      have sup: "supported (others l1)" "supported (others (prepare_wait l1))"
        using Cons.prems(2) e(2) by (auto simp: p keeps_algorithm_def)
      have "keeps_algorithm rounds" "deadline \<le> fst (snd (last rounds))"
        using Cons.prems ne by (auto simp: keeps_algorithm_def)
      note IH = Cons.IH [OF sup(1) this(1) ne this(2)] Cons.IH [OF sup(2) this(1) ne this(2)]
      show ?thesis
        using IH False 3 e(1) by (simp add: p Let_def)
    qed
  qed
qed simp

text \<open>
  A waiting caller is answered by its deadline: once the clock read after an
  attempt has reached it, the loop has ended, either with the tokens or with
  \<open>RateLimitedError\<close> (code 5020) carrying a delay that is not negative, whatever other tasks
  did to the limiter in between.
\<close>

theorem acquire_or_wait_settles:
  assumes "normalize_tokens tokens = Inr n" "supported l" "keeps_algorithm rounds" "rounds \<noteq> []"
    and "now + of_int (rl_wait_timeout_ms l) / 1000 \<le> fst (snd (last rounds))"
  shows "\<exists>r. fst (acquire_or_wait tokens now rounds l) = Some r
    \<and> (case r of Inr _ \<Rightarrow> True
       | Inl e \<Rightarrow> exn_class e = RateLimitedError \<and> map_exception_to_error_code e = 5020
           \<and> (\<exists>ms \<ge> 0. exn_data e = PDict [(''retry_after_ms'', PInt ms)]))"
proof -
  have "exn_class (rate_limited ms) = RateLimitedError"
    "map_exception_to_error_code (rate_limited ms) = 5020"
    "exn_data (rate_limited ms) = PDict [(''retry_after_ms'', PInt ms)]" for ms
    by (simp_all add: rate_limited_def map_exception_to_error_code_def isinstance_exn_def
        is_subclass_def new_rpc_exn_def rpc_defaults_def)
  then show ?thesis
    using wait_loop_settles [OF assms(2-5), of n "of_int (rl_wait_timeout_ms l) / 1000"]
    by (fastforce simp: acquire_or_wait_def assms(1) Let_def split: sum.splits)
qed

theorem acquire_or_wait_settles_witness:
  "\<exists>r. fst (acquire_or_wait (PInt 200) 0 [(0, 1, id)] (new_limiter 0 None)) = Some (Inl r)
     \<and> exn_class r = RateLimitedError"
proof -
  let ?r = "fst (acquire_or_wait (PInt 200) 0 [(0, 1, id)] (new_limiter 0 None))"
  have "\<exists>r. ?r = Some r
    \<and> (case r of Inr _ \<Rightarrow> True
       | Inl e \<Rightarrow> exn_class e = RateLimitedError \<and> map_exception_to_error_code e = 5020
           \<and> (\<exists>ms \<ge> 0. exn_data e = PDict [(''retry_after_ms'', PInt ms)]))"
    by (rule acquire_or_wait_settles [of _ 200])
      (simp_all add: normalize_tokens_def supported_def keeps_algorithm_def new_limiter_def
        default_limiter_config_def)
  moreover have "?r = Some (Inl (rate_limited 0))"
    by (simp add: acquire_or_wait_def normalize_tokens_def new_limiter_def default_limiter_config_def
        try_acquire_def limiter_defs)
  ultimately show ?thesis by auto
qed

end
