(* ===== verification/Bulkhead.thy ===== *)
theory Bulkhead
  imports Rpc_Errors
begin

text \<open>
  The bulkhead (\<open>resilience/bulkhead.py\<close>): a semaphore of \<open>max_concurrent\<close> slots, a queue of
  placeholders of size \<open>queue_depth\<close> (0 is unbounded in asyncio), and a counter of active
  operations. \<open>bh_step\<close> interleaves any number of callers, each in a phase; between two
  \<open>await\<close>s a caller is atomic.
\<close>

record bulkhead_config =
  bc_max_concurrent :: int
  bc_max_wait :: rat
  bc_queue_depth :: int

definition default_bulkhead_config :: bulkhead_config where
  "default_bulkhead_config = \<lparr>bc_max_concurrent = 10, bc_max_wait = 30, bc_queue_depth = 5\<rparr>"

record bulkhead =
  max_concurrent :: int
  max_wait :: rat
  queue_depth :: int
  semaphore :: int
  placeholders :: int
  bh_active :: int

definition new_bulkhead :: "bulkhead_config option \<Rightarrow> bulkhead" where
  "new_bulkhead config =
     (let c = (case config of None \<Rightarrow> default_bulkhead_config | Some c \<Rightarrow> c);
          m = max 1 (bc_max_concurrent c)
      in \<lparr>max_concurrent = m, max_wait = max 0 (bc_max_wait c),
          queue_depth = max 0 (bc_queue_depth c), semaphore = m, placeholders = 0, bh_active = 0\<rparr>)"

section \<open>Atomic operations\<close>

definition queue_full :: "bulkhead \<Rightarrow> bool" where
  "queue_full b = (0 < queue_depth b \<and> queue_depth b \<le> placeholders b)"

text \<open>\<open>queue.put\<close> and \<open>semaphore.acquire\<close>; \<open>None\<close> while they would block.\<close>

definition put_placeholder :: "bulkhead \<Rightarrow> bulkhead option" where
  "put_placeholder b =
     (if queue_full b then None else Some (b\<lparr>placeholders := placeholders b + 1\<rparr>))"

definition semaphore_acquire :: "bulkhead \<Rightarrow> bulkhead option" where
  "semaphore_acquire b =
     (if semaphore b \<le> 0 then None else Some (b\<lparr>semaphore := semaphore b - 1\<rparr>))"

definition increment_active :: "bulkhead \<Rightarrow> bulkhead" where
  "increment_active b = b\<lparr>bh_active := bh_active b + 1\<rparr>"

definition decrement_active :: "bulkhead \<Rightarrow> bulkhead" where
  "decrement_active b = b\<lparr>bh_active := max 0 (bh_active b - 1)\<rparr>"

definition release_slot :: "bulkhead \<Rightarrow> bulkhead" where
  "release_slot b =
     (let b1 = b\<lparr>semaphore := semaphore b + 1\<rparr> in
      if 0 < placeholders b1 then b1\<lparr>placeholders := placeholders b1 - 1\<rparr> else b1)"

definition available_slots :: "bulkhead \<Rightarrow> int" where
  "available_slots b = max 0 (max_concurrent b - bh_active b)"

definition active_count :: "bulkhead \<Rightarrow> int" where
  "active_count b = bh_active b"

text \<open>The tests \<open>try_acquire\<close> makes before it goes on like \<open>acquire\<close>.\<close>

definition try_acquire_check :: "bulkhead \<Rightarrow> bool" where
  "try_acquire_check b = (\<not> semaphore b \<le> 0 \<and> \<not> queue_full b)"

text \<open>The timeout error; \<open>show_float\<close> is Python's formatting of a float.\<close>

definition bulkhead_timeout :: "(rat \<Rightarrow> string) \<Rightarrow> bulkhead \<Rightarrow> exn" where
  "bulkhead_timeout show_float b =
     Exn BulkheadError 5030
       (''Bulkhead wait timeout after '' @ show_float (max_wait b) @ ''s'') PNone
       (Some (Exn TimeoutError 0 [] PNone None))"

section \<open>A call with nothing interleaved\<close>

text \<open>
  \<open>None\<close> is a call that never returns: the wait for the semaphore has no timeout, and alone
  nobody can release it. \<open>asyncio.wait_for\<close> with a timeout of 0 gives up before it starts the
  \<open>put\<close>, so \<open>max_wait\<close> 0 always times out.
\<close>

definition acquire_slot :: "(rat \<Rightarrow> string) \<Rightarrow> bulkhead \<Rightarrow> ((exn + unit) \<times> bulkhead) option" where
  "acquire_slot show_float b =
     (case (if max_wait b \<le> 0 then None else put_placeholder b) of
        None \<Rightarrow> Some (Inl (bulkhead_timeout show_float b), b)
      | Some b1 \<Rightarrow>
          (case semaphore_acquire b1 of
             None \<Rightarrow> None
           | Some b2 \<Rightarrow> Some (Inr (), b2)))"

definition bulkhead_acquire :: "(rat \<Rightarrow> string) \<Rightarrow> bulkhead \<Rightarrow> ((exn + unit) \<times> bulkhead) option" where
  "bulkhead_acquire show_float b =
     (case acquire_slot show_float b of
        None \<Rightarrow> None
      | Some (Inl e, b1) \<Rightarrow> Some (Inl e, b1)
      | Some (Inr _, b1) \<Rightarrow> Some (Inr (), increment_active b1))"

definition bulkhead_try_acquire :: "(rat \<Rightarrow> string) \<Rightarrow> bulkhead \<Rightarrow> (bool \<times> bulkhead) option" where
  "bulkhead_try_acquire show_float b =
     (if \<not> try_acquire_check b then Some (False, b)
      else case bulkhead_acquire show_float b of
        None \<Rightarrow> None
      | Some (Inl e, b1) \<Rightarrow> Some (False, b1)
      | Some (Inr _, b1) \<Rightarrow> Some (True, b1))"

definition bulkhead_release :: "bulkhead \<Rightarrow> bulkhead" where
  "bulkhead_release b = decrement_active (release_slot b)"

definition bulkhead_execute ::
  "(rat \<Rightarrow> string) \<Rightarrow> ('w, exn, 'a) comp option \<Rightarrow> bulkhead \<Rightarrow> 'w
     \<Rightarrow> ((exn + 'a) \<times> bulkhead \<times> 'w) option" where
  "bulkhead_execute show_float func b w =
     (case func of
        None \<Rightarrow> Some (Inl (Exn TypeError 0 ''func must be callable'' PNone None), b, w)
      | Some f \<Rightarrow>
          (case bulkhead_acquire show_float b of
             None \<Rightarrow> None
           | Some (Inl e, b1) \<Rightarrow> Some (Inl e, b1, w)
           | Some (Inr _, b1) \<Rightarrow> (let (r, w') = f w in Some (r, bulkhead_release b1, w'))))"

section \<open>Interleaved callers\<close>

text \<open>
  A caller waits for the queue until a deadline, then holds a placeholder and waits for the
  semaphore, then runs, gives its slot back, and leaves. A caller suspended in the wait for the
  semaphore can be cancelled; its placeholder stays in the queue. A caller cancelled while it
  runs goes through the \<open>finally\<close> block like any other outcome.
\<close>

datatype phase = Waiting rat | Placed | Holding | Running | Released | Finished | TimedOut

type_synonym bh_sys = "bulkhead \<times> phase list \<times> rat"

inductive bh_step :: "bh_sys \<Rightarrow> bh_sys \<Rightarrow> bool" where
  enter: "clk \<le> now \<Longrightarrow> bh_step (b, ps, clk) (b, ps @ [Waiting (now + max_wait b)], now)"
| place: "clk \<le> now \<Longrightarrow> i < length ps \<Longrightarrow> ps ! i = Waiting d \<Longrightarrow> 0 < max_wait b \<Longrightarrow>
    put_placeholder b = Some b' \<Longrightarrow>
    bh_step (b, ps, clk) (b', ps[i := Placed], now)"
| timeout: "clk \<le> now \<Longrightarrow> i < length ps \<Longrightarrow> ps ! i = Waiting d \<Longrightarrow> d \<le> now \<Longrightarrow>
    bh_step (b, ps, clk) (b, ps[i := TimedOut], now)"
| take: "clk \<le> now \<Longrightarrow> i < length ps \<Longrightarrow> ps ! i = Placed \<Longrightarrow> semaphore_acquire b = Some b' \<Longrightarrow>
    bh_step (b, ps, clk) (b', ps[i := Holding], now)"
| cancel: "clk \<le> now \<Longrightarrow> i < length ps \<Longrightarrow> ps ! i = Placed \<Longrightarrow> semaphore_acquire b = None \<Longrightarrow>
    bh_step (b, ps, clk) (b, ps[i := Finished], now)"
| run: "clk \<le> now \<Longrightarrow> i < length ps \<Longrightarrow> ps ! i = Holding \<Longrightarrow>
    bh_step (b, ps, clk) (increment_active b, ps[i := Running], now)"
| release: "clk \<le> now \<Longrightarrow> i < length ps \<Longrightarrow> ps ! i = Running \<Longrightarrow>
    bh_step (b, ps, clk) (release_slot b, ps[i := Released], now)"
| leave: "clk \<le> now \<Longrightarrow> i < length ps \<Longrightarrow> ps ! i = Released \<Longrightarrow>
    bh_step (b, ps, clk) (decrement_active b, ps[i := Finished], now)"

abbreviation bh_steps :: "bh_sys \<Rightarrow> bh_sys \<Rightarrow> bool" where
  "bh_steps \<equiv> bh_step\<^sup>*\<^sup>*"

fun phase_count :: "phase \<Rightarrow> phase list \<Rightarrow> int" where
  "phase_count p [] = 0"
| "phase_count p (q # ps) = (if q = p then 1 else 0) + phase_count p ps"

text \<open>
  The semaphore and the callers beyond it add up to its size; the queue holds one placeholder
  for each caller in it plus those that cancelled callers left, and the latter never take room
  below \<open>max_concurrent\<close>.
\<close>

definition bh_inv :: "bulkhead \<Rightarrow> phase list \<Rightarrow> bool" where
  "bh_inv b ps \<longleftrightarrow>
     1 \<le> max_concurrent b \<and> 0 \<le> queue_depth b \<and> 0 \<le> semaphore b
     \<and> semaphore b + phase_count Holding ps + phase_count Running ps = max_concurrent b
     \<and> (let used = phase_count Placed ps + phase_count Holding ps + phase_count Running ps;
            left = placeholders b - used
        in 0 \<le> left \<and> (queue_depth b = 0 \<or>
              placeholders b \<le> queue_depth b \<and> left \<le> max 0 (queue_depth b - max_concurrent b)))
     \<and> bh_active b = phase_count Running ps + phase_count Released ps"

lemma phase_count_append [simp]:
  "phase_count p (ps @ [q]) = phase_count p ps + (if q = p then 1 else 0)"
  by (induction ps) auto

lemma phase_count_nonneg: "0 \<le> phase_count p ps"
  by (induction ps) auto

lemma phase_count_update:
  "i < length ps \<Longrightarrow> phase_count p (ps[i := q]) =
     phase_count p ps - (if ps ! i = p then 1 else 0) + (if q = p then 1 else 0)"
proof (induction ps arbitrary: i)
  case (Cons x ps)
  then show ?case by (cases i) auto
qed simp

lemma phase_count_member: "i < length ps \<Longrightarrow> 1 \<le> phase_count (ps ! i) ps"
proof (induction ps arbitrary: i)
  case (Cons x ps)
  show ?case
  proof (cases i)
    case 0
    then show ?thesis using phase_count_nonneg [of x ps] by simp
  next
    case (Suc j)
    with Cons.IH [of j] Cons.prems show ?thesis by simp
  qed
qed simp

lemma new_bulkhead_inv [rpc_inv]: "bh_inv (new_bulkhead config) []"
  by (simp add: bh_inv_def new_bulkhead_def Let_def)

lemmas bulkhead_defs = put_placeholder_def semaphore_acquire_def queue_full_def increment_active_def
  decrement_active_def release_slot_def

lemma bh_step_inv: "bh_step s s' \<Longrightarrow> bh_inv (fst s) (fst (snd s)) \<Longrightarrow> bh_inv (fst s') (fst (snd s'))"
proof (induction rule: bh_step.induct)
  case (release clk now i ps b)
  then show ?case
    using phase_count_member [of i ps] phase_count_nonneg [of Placed ps] phase_count_nonneg [of Holding ps]
    by (auto simp: bh_inv_def phase_count_update bulkhead_defs Let_def)
next
  case (leave clk now i ps b)
  then show ?case
    using phase_count_member [of i ps] phase_count_nonneg [of Running ps]
    by (auto simp: bh_inv_def phase_count_update bulkhead_defs Let_def)
next
  case (cancel clk now i ps b)
  then show ?case
    using phase_count_member [of i ps]
    by (auto simp: bh_inv_def phase_count_update bulkhead_defs Let_def split: if_splits)
qed (auto simp: bh_inv_def phase_count_update bulkhead_defs Let_def split: if_splits)

lemma bh_steps_inv: "bh_steps s s' \<Longrightarrow> bh_inv (fst s) (fst (snd s)) \<Longrightarrow> bh_inv (fst s') (fst (snd s'))"
  by (induction rule: rtranclp_induct) (auto dest: bh_step_inv)

definition bh_limits :: "bulkhead \<Rightarrow> int \<times> rat \<times> int" where
  "bh_limits b = (max_concurrent b, max_wait b, queue_depth b)"

lemma bh_step_limits: "bh_step s s' \<Longrightarrow> bh_limits (fst s') = bh_limits (fst s)"
  by (induction rule: bh_step.induct)
    (auto simp: bh_limits_def bulkhead_defs Let_def split: if_splits)

lemma bh_steps_limits: "bh_steps s s' \<Longrightarrow> bh_limits (fst s') = bh_limits (fst s)"
  by (induction rule: rtranclp_induct) (auto dest: bh_step_limits)

lemma bh_reachable_inv: "bh_steps (new_bulkhead config, [], clk0) (b, ps, clk) \<Longrightarrow> bh_inv b ps"
  using bh_steps_inv [of "(new_bulkhead config, [], clk0)" "(b, ps, clk)"]
  by (simp add: new_bulkhead_inv)

section \<open>Properties\<close>

text \<open>
  C6. However callers arrive, wait, time out, are cancelled, run and leave, no more
  than \<open>max_concurrent\<close> run at once. Because a placeholder stays in the queue until its caller
  is done, a positive \<open>queue_depth\<close> is a second limit on the running callers, so the bound is
  the smaller of the two (5 with the default configuration of 10 slots). \<open>active_count\<close>
  counts exactly the callers between their two counter updates.
\<close>

theorem bulkhead_capacity:
  assumes "bh_steps (new_bulkhead config, [], clk0) (b, ps, clk)"
  shows "phase_count Running ps \<le> max_concurrent (new_bulkhead config)
    \<and> (0 < queue_depth (new_bulkhead config) \<longrightarrow>
         phase_count Placed ps + phase_count Running ps \<le> queue_depth (new_bulkhead config))
    \<and> active_count b = phase_count Running ps + phase_count Released ps
    \<and> 0 \<le> semaphore b \<and> semaphore b \<le> max_concurrent b"
  using bh_reachable_inv [OF assms] bh_steps_limits [OF assms]
    phase_count_nonneg [of Holding ps] phase_count_nonneg [of Running ps]
  by (auto simp: bh_inv_def bh_limits_def active_count_def Let_def)

definition one_running :: bulkhead where
  "one_running = (new_bulkhead None)\<lparr>placeholders := 1, semaphore := 9, bh_active := 1\<rparr>"

lemma one_caller_runs: "bh_steps (new_bulkhead None, [], 0) (one_running, [Running], 0)"
proof -
  let ?b = "new_bulkhead None"
  have d: "?b = \<lparr>max_concurrent = 10, max_wait = 30, queue_depth = 5, semaphore = 10,
      placeholders = 0, bh_active = 0\<rparr>"
    by (simp add: new_bulkhead_def default_bulkhead_config_def)
  have "bh_step (?b, [], 0) (?b, [Waiting 30], 0)"
    using enter [of 0 0 ?b "[]"] by (simp add: d)
  moreover have "bh_step (?b, [Waiting 30], 0) (?b\<lparr>placeholders := 1\<rparr>, [Placed], 0)"
    using place [of 0 0 0 "[Waiting 30]" 30 ?b] by (simp add: d bulkhead_defs)
  moreover have "bh_step (?b\<lparr>placeholders := 1\<rparr>, [Placed], 0)
      (?b\<lparr>placeholders := 1, semaphore := 9\<rparr>, [Holding], 0)"
    using take [of 0 0 0 "[Placed]" "?b\<lparr>placeholders := 1\<rparr>"] by (simp add: d bulkhead_defs)
  moreover have "bh_step (?b\<lparr>placeholders := 1, semaphore := 9\<rparr>, [Holding], 0) (one_running, [Running], 0)"
    using run [of 0 0 0 "[Holding]" "?b\<lparr>placeholders := 1, semaphore := 9\<rparr>"]
    by (simp add: d one_running_def increment_active_def)
  ultimately show ?thesis
    by (meson converse_rtranclp_into_rtranclp rtranclp.rtrancl_refl)
qed

theorem bulkhead_capacity_witness:
  "\<exists>b. bh_steps (new_bulkhead None, [], 0) (b, [Running], 0)
     \<and> phase_count Running [Running] \<le> 10 \<and> active_count b = 1"
proof -
  from bulkhead_capacity [OF one_caller_runs] one_caller_runs show ?thesis
    by (intro exI [of _ one_running]) simp
qed

text \<open>
  Cancelled waiters leave their placeholders behind, but never in a number
  that costs running capacity: whenever fewer callers hold a placeholder than the smaller of
  \<open>max_concurrent\<close> and \<open>queue_depth\<close>, a newcomer's placeholder is accepted at once, and a
  caller with a placeholder gets the semaphore at once while fewer than \<open>max_concurrent\<close> hold it.
\<close>

theorem bulkhead_room:
  assumes "bh_steps (new_bulkhead config, [], clk0) (b, ps, clk)"
    and "phase_count Placed ps + phase_count Holding ps + phase_count Running ps
      < (if queue_depth b = 0 then max_concurrent b else min (max_concurrent b) (queue_depth b))"
  shows "\<exists>b1 b2. put_placeholder b = Some b1 \<and> semaphore_acquire b1 = Some b2"
  using bh_reachable_inv [OF assms(1)] assms(2) phase_count_nonneg [of Placed ps]
  by (auto simp: bh_inv_def bulkhead_defs Let_def split: if_splits)

theorem bulkhead_room_witness:
  "\<exists>b b1 b2. bh_steps (new_bulkhead None, [], 0) (b, [Running], 0)
     \<and> put_placeholder b = Some b1 \<and> semaphore_acquire b1 = Some b2"
proof -
  from bulkhead_room [OF one_caller_runs] obtain b1 b2 where
    "put_placeholder one_running = Some b1" "semaphore_acquire b1 = Some b2"
    by (auto simp: one_running_def new_bulkhead_def default_bulkhead_config_def)
  with one_caller_runs show ?thesis by blast
qed

text \<open>
  A guarded call on its own runs the callable exactly once, returns
  its value or raises its exception unchanged, and leaves the bulkhead as it was; with a full
  queue (or no waiting time) it fails with \<open>BulkheadError\<close>, code 5030, without running it.
  An unpaired \<open>release\<close> raises the semaphore above the configured limit.
\<close>

theorem bulkhead_execute_restores:
  assumes "0 \<le> placeholders b" "0 < semaphore b" "0 \<le> bh_active b"
  shows "bulkhead_execute show_float (Some f) b w =
      (if max_wait b \<le> 0 \<or> queue_full b then Some (Inl (bulkhead_timeout show_float b), b, w)
       else Some (fst (f w), b, snd (f w)))
    \<and> map_exception_to_error_code (bulkhead_timeout show_float b) = 5030
    \<and> error_code_to_http_status 5030 = 500
    \<and> semaphore (bulkhead_release (new_bulkhead config)) = max_concurrent (new_bulkhead config) + 1"
proof (intro conjI)
  show "bulkhead_execute show_float (Some f) b w =
      (if max_wait b \<le> 0 \<or> queue_full b then Some (Inl (bulkhead_timeout show_float b), b, w)
       else Some (fst (f w), b, snd (f w)))"
    using assms by (simp add: bulkhead_execute_def bulkhead_acquire_def acquire_slot_def
        bulkhead_release_def put_placeholder_def semaphore_acquire_def increment_active_def
        release_slot_def decrement_active_def Let_def split: prod.split)
qed (simp_all add: bulkhead_timeout_def map_exception_to_error_code_def is_subclass_def
    error_code_to_http_status_def new_bulkhead_def bulkhead_release_def release_slot_def
    decrement_active_def Let_def)

theorem bulkhead_execute_restores_witness:
  "bulkhead_execute (\<lambda>_. ''30.0'') (Some (\<lambda>w. (Inr w, Suc w))) (new_bulkhead None) 1
     = Some (Inr 1, new_bulkhead None, 2)"
  using bulkhead_execute_restores [of "new_bulkhead None" "\<lambda>_. ''30.0''" "\<lambda>w. (Inr w, Suc w)" 1 None]
  by (simp add: new_bulkhead_def default_bulkhead_config_def queue_full_def)

end
