(* ===== verification/Fallback.thy ===== *)
theory Fallback
  imports Rpc_Errors
begin

text \<open>
  Fallbacks (\<open>resilience/fallback.py\<close>): the handlers, the chain of handlers, and the executor
  that runs a callable and falls back when it fails. A \<open>CachedValueFallback\<close> is a shared
  object, so it is a reference into a store of cells. Callables are computations over a world.
\<close>

text \<open>The context given to handlers: \<open>None\<close> is the empty dictionary.\<close>

datatype ('c, 'w, 'v) handler =
    StaticValue 'v
  | CachedValue nat
  | CallableFallback bool "exn option \<Rightarrow> 'c option \<Rightarrow> ('w, exn, 'v) comp"
  | ChainFallback "('c, 'w, 'v) handler list"
  | CustomHandler "exn \<Rightarrow> bool" "exn \<Rightarrow> 'c option \<Rightarrow> ('w, exn, 'v) comp"

type_synonym 'v cells = "nat \<Rightarrow> 'v option"

definition has_cache :: "'v cells \<Rightarrow> nat \<Rightarrow> bool" where
  "has_cache cells i = (cells i \<noteq> None)"

definition clear_cache :: "nat \<Rightarrow> 'v cells \<Rightarrow> 'v cells" where
  "clear_cache i cells = cells(i := None)"

definition update_cache :: "nat \<Rightarrow> 'v \<Rightarrow> 'v cells \<Rightarrow> 'v cells" where
  "update_cache i v cells = cells(i := Some v)"

fun can_handle :: "'v cells \<Rightarrow> exn \<Rightarrow> ('c, 'w, 'v) handler \<Rightarrow> bool" where
  "can_handle cells error (StaticValue v) = True"
| "can_handle cells error (CachedValue i) = has_cache cells i"
| "can_handle cells error (CallableFallback p f) = True"
| "can_handle cells error (ChainFallback hs) = list_ex (can_handle cells error) hs"
| "can_handle cells error (CustomHandler p f) = p error"

definition no_cached_value :: exn where
  "no_cached_value = Exn LookupError 0 ''Cached fallback has no value'' PNone None"

definition chain_exhausted :: "exn \<Rightarrow> exn" where
  "chain_exhausted error =
     new_rpc_exn FallbackExhaustedError None
       (PDict [(''reason'', PStr ''No handler could handle error'')]) (Some error)"

text \<open>
  \<open>try_handlers\<close> is the loop the chain and the executor share: \<open>Inl r\<close> is a loop left with
  the result \<open>r\<close> (a value, or an exception that is not an \<open>Exception\<close>), \<open>Inr last\<close> one that
  ran out of handlers, with the last exception seen.
\<close>

fun handle ::
  "'v cells \<Rightarrow> exn \<Rightarrow> 'c option \<Rightarrow> ('c, 'w, 'v) handler \<Rightarrow> 'w \<Rightarrow> (exn + 'v) \<times> 'w"
and try_handlers ::
  "'v cells \<Rightarrow> exn \<Rightarrow> 'c option \<Rightarrow> ('c, 'w, 'v) handler list \<Rightarrow> exn option \<Rightarrow> 'w
     \<Rightarrow> ((exn + 'v) + exn option) \<times> 'w" where
  "handle cells error ctx (StaticValue v) w = (Inr v, w)"
| "handle cells error ctx (CachedValue i) w =
     (case cells i of None \<Rightarrow> (Inl no_cached_value, w) | Some v \<Rightarrow> (Inr v, w))"
| "handle cells error ctx (CallableFallback pass_error f) w =
     f (if pass_error then Some error else None) ctx w"
| "handle cells error ctx (ChainFallback hs) w =
     (case try_handlers cells error ctx hs None w of
        (Inl r, w') \<Rightarrow> (r, w')
      | (Inr (Some last_exc), w') \<Rightarrow> (Inl last_exc, w')
      | (Inr None, w') \<Rightarrow> (Inl (chain_exhausted error), w'))"
| "handle cells error ctx (CustomHandler p f) w = f error ctx w"
| "try_handlers cells error ctx [] last_exc w = (Inr last_exc, w)"
| "try_handlers cells error ctx (h # hs) last_exc w =
     (if \<not> can_handle cells error h then try_handlers cells error ctx hs last_exc w
      else
        (case handle cells error ctx h w of
           (Inr v, w') \<Rightarrow> (Inl (Inr v), w')
         | (Inl exc, w') \<Rightarrow>
             if isinstance_exn exc PyException then try_handlers cells error ctx hs (Some exc) w'
             else (Inl (Inl exc), w')))"

section \<open>The executor\<close>

record ('c, 'w, 'v) fallback_policy =
  fp_handlers :: "('c, 'w, 'v) handler list"
  fp_fallback_on :: "exn_class list option"
  fp_propagate_original_error :: bool
  fp_include_context :: bool

definition should_fallback :: "('c, 'w, 'v) fallback_policy \<Rightarrow> exn \<Rightarrow> bool" where
  "should_fallback p error =
     (case fp_fallback_on p of None \<Rightarrow> True | Some cs \<Rightarrow> (\<exists>c \<in> set cs. isinstance_exn error c))"

text \<open>The cached handlers, those inside chains included.\<close>

fun cached_handlers :: "('c, 'w, 'v) handler \<Rightarrow> nat list" where
  "cached_handlers (CachedValue i) = [i]"
| "cached_handlers (ChainFallback hs) = concat (map cached_handlers hs)"
| "cached_handlers _ = []"

definition iter_cached_handlers :: "('c, 'w, 'v) handler list \<Rightarrow> nat list" where
  "iter_cached_handlers hs = concat (map cached_handlers hs)"

definition fallback_record_success ::
  "('c, 'w, 'v) fallback_policy \<Rightarrow> 'v \<Rightarrow> 'v cells \<Rightarrow> 'v cells" where
  "fallback_record_success p v cells =
     fold (\<lambda>i. update_cache i v) (iter_cached_handlers (fp_handlers p)) cells"

definition build_exhausted_error :: "exn \<Rightarrow> exn option \<Rightarrow> exn" where
  "build_exhausted_error original_error handler_error =
     new_rpc_exn FallbackExhaustedError None
       (PDict [(''original_error'', PStr (class_name (exn_class original_error))),
               (''handler_error'',
                case handler_error of None \<Rightarrow> PNone | Some e \<Rightarrow> PStr (class_name (exn_class e)))])
       (Some (case handler_error of None \<Rightarrow> original_error | Some e \<Rightarrow> e))"

text \<open>\<open>call\<close> is the context \<open>_build_context\<close> makes of the callable and its arguments.\<close>

definition fallback_execute ::
  "('c, 'w, 'v) fallback_policy \<Rightarrow> 'c \<Rightarrow> ('w, exn, 'v) comp option \<Rightarrow> 'v cells \<Rightarrow> 'w
     \<Rightarrow> (exn + 'v) \<times> 'v cells \<times> 'w" where
  "fallback_execute p call func cells w =
     (case func of
        None \<Rightarrow> (Inl (Exn TypeError 0 ''func must be callable'' PNone None), cells, w)
      | Some f \<Rightarrow>
          (case f w of
             (Inr v, w1) \<Rightarrow> (Inr v, fallback_record_success p v cells, w1)
           | (Inl exc, w1) \<Rightarrow>
               if \<not> isinstance_exn exc PyException then (Inl exc, cells, w1)
               else if \<not> should_fallback p exc then (Inl exc, cells, w1)
               else
                 (let ctx = (if fp_include_context p then Some call else None) in
                  case try_handlers cells exc ctx (fp_handlers p) None w1 of
                    (Inl r, w2) \<Rightarrow> (r, cells, w2)
                  | (Inr handler_error, w2) \<Rightarrow>
                      if fp_propagate_original_error p then (Inl exc, cells, w2)
                      else (Inl (build_exhausted_error exc handler_error), cells, w2))))"

section \<open>Lemmas\<close>

lemma try_handlers_append:
  "try_handlers cells error ctx (gs @ hs) last_exc w =
     (case try_handlers cells error ctx gs last_exc w of
        (Inl r, w') \<Rightarrow> (Inl r, w')
      | (Inr last', w') \<Rightarrow> try_handlers cells error ctx hs last' w')"
  by (induction gs arbitrary: last_exc w) (auto split: prod.split sum.split)

lemma try_handlers_last:
  "try_handlers cells error ctx hs last_exc w =
     (case try_handlers cells error ctx hs None w of
        (Inr None, w') \<Rightarrow> (Inr last_exc, w')
      | r \<Rightarrow> r)"
proof (induction hs arbitrary: last_exc w)
  case (Cons h hs)
  show ?case
  proof (cases "can_handle cells error h")
    case False
    with Cons.IH [of last_exc w] show ?thesis by simp
  next
    case True
    obtain r w' where r: "handle cells error ctx h w = (r, w')" by force
    have "try_handlers cells error ctx hs (Some e) w' =
        (case try_handlers cells error ctx hs (Some e) w' of
           (Inr None, w'') \<Rightarrow> (Inr last_exc, w'') | r \<Rightarrow> r)" for e
      using Cons.IH [of "Some e" w'] by (auto split: prod.splits sum.splits option.splits)
    with True r show ?thesis by (auto split: sum.split)
  qed
qed simp

lemma try_handlers_none:
  "\<not> list_ex (can_handle cells error) hs \<Longrightarrow> try_handlers cells error ctx hs last_exc w = (Inr last_exc, w)"
  by (induction hs) auto

lemma try_handlers_some:
  "list_ex (can_handle cells error) hs \<Longrightarrow> try_handlers cells error ctx hs last_exc w \<noteq> (Inr None, w')"
proof (induction hs arbitrary: last_exc w)
  case (Cons h hs)
  have "try_handlers cells error ctx hs (Some e) v \<noteq> (Inr None, w')" for e v
    by (subst try_handlers_last) (auto split: prod.splits sum.splits option.splits)
  with Cons show ?case by (auto split: prod.split sum.split)
qed simp

text \<open>In the loop a chain is as good as its handlers one by one.\<close>

lemma try_handlers_chain:
  "try_handlers cells error ctx (ChainFallback hs # ks) last_exc w =
     try_handlers cells error ctx (hs @ ks) last_exc w"
proof (cases "list_ex (can_handle cells error) hs")
  case False
  then show ?thesis by (simp add: try_handlers_append try_handlers_none)
next
  case True
  obtain r w' where r: "try_handlers cells error ctx hs None w = (r, w')" by force
  with try_handlers_some [OF True] have ne: "r \<noteq> Inr None" by metis
  have exc: "isinstance_exn e PyException" if "r = Inr (Some e)" for e
  proof -
    have "try_handlers cells error ctx hs l w = (Inr (Some e), w') \<Longrightarrow>
        (\<And>e. l = Some e \<Longrightarrow> isinstance_exn e PyException) \<Longrightarrow> isinstance_exn e PyException" for l w w'
      by (induction hs arbitrary: l w) (auto split: prod.splits sum.splits if_splits)
    with that r show ?thesis by blast
  qed
  have "try_handlers cells error ctx hs last_exc w = (r, w')"
    using r ne by (subst try_handlers_last) (auto split: sum.split option.split)
  moreover have "\<not> isinstance_exn e PyException" if "r = Inl (Inl e)" for e
  proof -
    have "try_handlers cells error ctx hs l w = (Inl (Inl e), w') \<Longrightarrow> \<not> isinstance_exn e PyException" for l w w'
      by (induction hs arbitrary: l w) (auto split: prod.splits sum.splits if_splits)
    with that r show ?thesis by blast
  qed
  ultimately show ?thesis
    using True r ne exc by (cases r rule: sum.exhaust [case_product option.exhaust])
      (auto simp: try_handlers_append split: sum.split option.split)
qed

lemma iter_cached_chain:
  "iter_cached_handlers (gs @ ChainFallback hs # ks) = iter_cached_handlers (gs @ hs @ ks)"
  by (simp add: iter_cached_handlers_def)

section \<open>Properties\<close>

text \<open>
  Grouping handlers into a chain changes nothing: an executor with a chain among
  its handlers behaves in every call like the one with the chain's handlers in its place, with the same
  result, the same effects and the same cached values.
\<close>

theorem fallback_chain_flat:
  "fallback_execute (p\<lparr>fp_handlers := gs @ ChainFallback hs # ks\<rparr>) call func cells w
     = fallback_execute (p\<lparr>fp_handlers := gs @ hs @ ks\<rparr>) call func cells w"
proof -
  have "try_handlers cells exc ctx (gs @ ChainFallback hs # ks) None w' =
      try_handlers cells exc ctx (gs @ hs @ ks) None w'" for exc ctx w'
    by (simp only: try_handlers_append [of _ _ _ gs] try_handlers_chain)
  then show ?thesis
    by (auto simp: fallback_execute_def should_fallback_def fallback_record_success_def
        iter_cached_chain Let_def split: option.split prod.split sum.split)
qed

text \<open>The cells after a sequence of guarded calls with the given outcomes.\<close>

definition after_calls ::
  "('c, 'w, 'v) fallback_policy \<Rightarrow> 'c \<Rightarrow> 'w \<Rightarrow> (exn + 'v) list \<Rightarrow> 'v cells \<Rightarrow> 'v cells" where
  "after_calls p call w rs cells =
     fold (\<lambda>r cells. fst (snd (fallback_execute p call (Some (\<lambda>w. (r, w))) cells w))) rs cells"

definition last_success :: "(exn + 'v) list \<Rightarrow> 'v option" where
  "last_success rs = fold (\<lambda>r l. case r of Inr v \<Rightarrow> Some v | Inl _ \<Rightarrow> l) rs None"

text \<open>
  A cached fallback serves the most recent success: after any calls with any
  outcomes, a call that fails with an error the policy covers returns the last value a call
  returned, and its own error if none ever succeeded; an error the policy does not cover is raised
  unchanged, as is a cancellation.
\<close>

theorem fallback_cached_last:
  assumes "fp_handlers p = [CachedValue i]" "fp_propagate_original_error p"
  shows "fst (fallback_execute p call (Some (\<lambda>w. (Inl e, w))) (after_calls p call w rs (\<lambda>_. None)) w) =
    (if isinstance_exn e PyException \<and> should_fallback p e
     then (case last_success rs of Some v \<Rightarrow> Inr v | None \<Rightarrow> Inl e) else Inl e)"
proof -
  have "after_calls p call w rs cells i = (case last_success rs of Some v \<Rightarrow> Some v | None \<Rightarrow> cells i)" for cells
  proof (induction rs rule: rev_induct)
    case (snoc r rs)
    have "fst (snd (fallback_execute p call (Some (\<lambda>w. (r, w))) c w)) i =
        (case r of Inr v \<Rightarrow> Some v | Inl _ \<Rightarrow> c i)" for c
      using assms by (auto simp: fallback_execute_def fallback_record_success_def
          iter_cached_handlers_def update_cache_def Let_def split: sum.split option.split)
    with snoc show ?case by (auto simp: after_calls_def last_success_def split: sum.split option.split)
  qed (simp add: after_calls_def last_success_def)
  from this [of "\<lambda>_. None"] assms show ?thesis
    by (auto simp: fallback_execute_def has_cache_def Let_def split: option.split)
qed

definition cached_policy :: "(unit, unit, int) fallback_policy" where
  "cached_policy = \<lparr>fp_handlers = [CachedValue 0], fp_fallback_on = Some [ValueError],
     fp_propagate_original_error = True, fp_include_context = True\<rparr>"

theorem fallback_cached_last_witness:
  "fst (fallback_execute cached_policy () (Some (\<lambda>w. (Inl (Exn ValueError 0 [] PNone None), w)))
     (after_calls cached_policy () () [Inr 1, Inl (Exn KeyError 0 [] PNone None), Inr 2] (\<lambda>_. None)) ())
   = Inr 2"
  using fallback_cached_last [of cached_policy 0 "()" "Exn ValueError 0 [] PNone None" "()"
      "[Inr 1, Inl (Exn KeyError 0 [] PNone None), Inr 2]"]
  by (simp add: cached_policy_def should_fallback_def is_subclass_def last_success_def)

end
