(* ===== verification/Server_Resilience.thy ===== *)
theory Server_Resilience
  imports Interceptor_Chain Circuit_Breaker Rate_Limiter Bulkhead Fallback
begin

text \<open>
  The server's guards (\<open>server/interceptors/resilience.py\<close>): the interceptor that asks the tenant's
  rate limiter and takes a permit of the bulkhead before a request, and the wrapper around
  the handler that calls it through the circuit breaker and falls back when that fails.
\<close>

section \<open>Configuration and state\<close>

text \<open>A fallback handler gets the request as its call context and may answer with a response.\<close>

type_synonym 'w ctx_fallback = "(rpc_request, 'w ctx, rpc_response option) fallback_policy"

record 'w resilience_config =
  sr_rate_limiter :: "limiter_config option"
  sr_circuit_breaker :: "breaker_config option"
  sr_bulkhead :: "bulkhead_config option"
  sr_fallback :: "'w ctx_fallback option"
  sr_enabled :: bool
  sr_tenant_isolated :: bool

definition default_resilience_config :: "'w resilience_config" where
  "default_resilience_config =
     \<lparr>sr_rate_limiter = None, sr_circuit_breaker = None, sr_bulkhead = None, sr_fallback = None,
      sr_enabled = True, sr_tenant_isolated = True\<rparr>"

text \<open>
  What the interceptor keeps, a part of the context's world, with the monotonic clock. Limiters
  are kept by tenant; a request without a tenant has the key \<open>None\<close>.
\<close>

record guards =
  gd_limiters :: "(string option, limiter) dict"
  gd_breaker :: "breaker option"
  gd_bulkhead :: "bulkhead option"
  gd_cells :: "rpc_response option cells"
  gd_now :: rat

text \<open>\<open>refresh_from_config\<close> on guards that were not given explicitly, as the constructor runs it.\<close>

definition refresh_guards ::
  "'w resilience_config \<Rightarrow> limiter option \<Rightarrow> breaker option \<Rightarrow> bulkhead option \<Rightarrow> 'z guards_scheme \<Rightarrow> 'z guards_scheme" where
  "refresh_guards cfg given_limiter given_breaker given_bulkhead g =
     g\<lparr>gd_limiters :=
         (case given_limiter of
            Some l \<Rightarrow> gd_limiters g
          | None \<Rightarrow> (case sr_rate_limiter cfg of
                      None \<Rightarrow> []
                    | Some lc \<Rightarrow> [(Some ''default'', new_limiter (gd_now g) (Some lc))])),
       gd_breaker :=
         (case given_breaker of
            Some b \<Rightarrow> gd_breaker g
          | None \<Rightarrow> map_option (\<lambda>bc. new_breaker ''server'' (Some bc)) (sr_circuit_breaker cfg)),
       gd_bulkhead :=
         (case given_bulkhead of
            Some b \<Rightarrow> gd_bulkhead g
          | None \<Rightarrow> map_option (\<lambda>bc. new_bulkhead (Some bc)) (sr_bulkhead cfg))\<rparr>"

definition new_guards ::
  "'w resilience_config \<Rightarrow> limiter option \<Rightarrow> breaker option \<Rightarrow> bulkhead option \<Rightarrow> rat \<Rightarrow> guards" where
  "new_guards cfg given_limiter given_breaker given_bulkhead now =
     refresh_guards cfg given_limiter given_breaker given_bulkhead
       \<lparr>gd_limiters = (case given_limiter of None \<Rightarrow> [] | Some l \<Rightarrow> [(Some ''default'', l)]),
        gd_breaker = given_breaker, gd_bulkhead = given_bulkhead, gd_cells = (\<lambda>_. None), gd_now = now\<rparr>"

section \<open>Admission\<close>

definition get_rate_limiter ::
  "'w resilience_config \<Rightarrow> string option \<Rightarrow> rat \<Rightarrow> (string option, limiter) dict
     \<Rightarrow> limiter option \<times> (string option, limiter) dict" where
  "get_rate_limiter cfg tenant now ls =
     (case sr_rate_limiter cfg of
        None \<Rightarrow> (None, ls)
      | Some lc \<Rightarrow>
          if \<not> sr_tenant_isolated cfg then (map_of ls (Some ''default''), ls)
          else (let ls' = (if map_of ls tenant = None then AList.update tenant (new_limiter now (Some lc)) ls else ls)
                in (map_of ls' tenant, ls')))"

text \<open>The key of the limiter a tenant's requests are counted by.\<close>

definition limiter_key :: "'w resilience_config \<Rightarrow> string option \<Rightarrow> string option" where
  "limiter_key cfg tenant = (if sr_tenant_isolated cfg then tenant else Some ''default'')"

text \<open>Asking the limiter for one token; without a limiter every request may pass.\<close>

definition rate_check ::
  "'w resilience_config \<Rightarrow> string option \<Rightarrow> rat \<Rightarrow> (string option, limiter) dict
     \<Rightarrow> (exn + bool) \<times> (string option, limiter) dict" where
  "rate_check cfg tenant now ls =
     (case get_rate_limiter cfg tenant now ls of
        (None, ls') \<Rightarrow> (Inr True, ls')
      | (Some l, ls') \<Rightarrow>
          (let (r, l') = acquire (PInt 1) now l in (r, AList.update (limiter_key cfg tenant) l' ls')))"

definition opt_text :: "string option \<Rightarrow> string" where
  "opt_text x = (case x of None \<Rightarrow> ''None'' | Some s \<Rightarrow> s)"

abbreviation set_state :: "string \<Rightarrow> pyval \<Rightarrow> 'w ctx \<Rightarrow> 'w ctx" where
  "set_state key v c \<equiv> c\<lparr>cx_state := AList.update key v (cx_state c)\<rparr>"

text \<open>
  Taking the permit. A bulkhead that passes its own check never makes the caller wait, so the last
  branch does not occur (\<open>try_acquire_settles\<close>).
\<close>

definition take_permit ::
  "(rat \<Rightarrow> string) \<Rightarrow> 'z guards_scheme ctx \<Rightarrow> bool \<times> 'z guards_scheme ctx" where
  "take_permit show_float c =
     (case gd_bulkhead (cx_world c) of
        None \<Rightarrow> (True, c)
      | Some b \<Rightarrow>
          (case bulkhead_try_acquire show_float b of
             Some (True, b') \<Rightarrow>
               (True, set_state ''resilience_bulkhead_permit'' (PBool True)
                  (store_local ''bulkhead_acquired'' (PBool True)
                    (c\<lparr>cx_world := (cx_world c)\<lparr>gd_bulkhead := Some b'\<rparr>\<rparr>)))
           | Some (False, b') \<Rightarrow>
               (False, abort (error_payload RESOURCE_EXHAUSTED ''Bulkhead capacity exceeded'' None)
                  (c\<lparr>cx_world := (cx_world c)\<lparr>gd_bulkhead := Some b'\<rparr>\<rparr>))
           | None \<Rightarrow> (False, c)))"

definition give_permit_back :: "'z guards_scheme ctx \<Rightarrow> 'z guards_scheme ctx" where
  "give_permit_back c =
     (case gd_bulkhead (cx_world c) of
        None \<Rightarrow> c
      | Some b \<Rightarrow>
          if py_truthy (load_local ''bulkhead_acquired'' c)
          then set_state ''resilience_bulkhead_permit'' (PBool False)
                 (c\<lparr>cx_world := (cx_world c)\<lparr>gd_bulkhead := Some (bulkhead_release b)\<rparr>\<rparr>)
          else c)"

section \<open>The guarded handler\<close>

text \<open>\<open>CircuitBreaker.call\<close> on the interceptor's breaker; the clock is read before and after.\<close>

definition circuit_call ::
  "('z guards_scheme ctx, exn, 'a) comp \<Rightarrow> ('z guards_scheme ctx, exn, 'a) comp" where
  "circuit_call f c =
     (case gd_breaker (cx_world c) of
        None \<Rightarrow> f c
      | Some b \<Rightarrow>
          (case breaker_call (gd_now (cx_world c)) (gd_now (cx_world (snd (f c)))) (Some f) b c of
             (r, b', c') \<Rightarrow> (r, c'\<lparr>cx_world := (cx_world c')\<lparr>gd_breaker := Some b'\<rparr>\<rparr>)))"

definition run_fallback ::
  "'z guards_scheme ctx_fallback \<Rightarrow> ('z guards_scheme ctx, exn, rpc_response option) comp
     \<Rightarrow> ('z guards_scheme ctx, exn, rpc_response option) comp" where
  "run_fallback p f c =
     (case fallback_execute p (cx_request c) (Some f) (gd_cells (cx_world c)) c of
        (r, cells, c') \<Rightarrow> (r, c'\<lparr>cx_world := (cx_world c')\<lparr>gd_cells := cells\<rparr>\<rparr>))"

text \<open>\<open>ResilienceHandler.handle\<close>.\<close>

definition resilience_handle ::
  "'z guards_scheme ctx_fallback option \<Rightarrow> ('z guards_scheme ctx, exn, rpc_response option) comp
     \<Rightarrow> ('z guards_scheme ctx, exn, rpc_response option) comp" where
  "resilience_handle fb f c =
     (case circuit_call f c of
        (Inr v, c1) \<Rightarrow> (Inr v, c1)
      | (Inl e, c1) \<Rightarrow>
          if \<not> isinstance_exn e PyException then (Inl e, c1)
          else (case fb of Some p \<Rightarrow> run_fallback p f c1 | None \<Rightarrow> (Inl e, c1)))"

definition wrap_handler ::
  "'z guards_scheme ctx_fallback option \<Rightarrow> 'z guards_scheme stream_handler \<Rightarrow> 'z guards_scheme stream_handler" where
  "wrap_handler fb handler c =
     (if cx_is_stream c then handler c
      else (let (r, c') = resilience_handle fb (invoke_downstream handler) c in (unary_stream r, c')))"

section \<open>The interceptor\<close>

definition resilience_enter ::
  "(rat \<Rightarrow> string) \<Rightarrow> 'z guards_scheme resilience_config \<Rightarrow> 'z guards_scheme ctx
     \<Rightarrow> exn option \<times> ('z guards_scheme stream_handler \<Rightarrow> 'z guards_scheme stream_handler) list
        \<times> 'z guards_scheme ctx" where
  "resilience_enter show_float cfg c =
     (if \<not> sr_enabled cfg then (None, [], c)
      else
        (case rq_metadata (cx_request c) of
           None \<Rightarrow> (Some (no_attribute ''tenant_id''), [], c)
         | Some m \<Rightarrow>
             (let tenant = rm_tenant_id m;
                  (r, ls) = rate_check cfg tenant (gd_now (cx_world c)) (gd_limiters (cx_world c));
                  c1 = c\<lparr>cx_world := (cx_world c)\<lparr>gd_limiters := ls\<rparr>\<rparr>
              in case r of
                   Inl e \<Rightarrow> (Some e, [], c1)
                 | Inr False \<Rightarrow>
                     (None, [], abort (error_payload RATE_LIMITED
                        (''Rate limit exceeded for tenant: '' @ opt_text tenant) None) c1)
                 | Inr True \<Rightarrow>
                     (let (ok, c2) = take_permit show_float c1 in
                      if \<not> ok then (None, [], c2)
                      else (None, [wrap_handler (sr_fallback cfg)],
                            set_state ''resilience_tenant'' (case tenant of None \<Rightarrow> PNone | Some t \<Rightarrow> PStr t)
                              (set_state ''resilience_enabled'' (PBool True) c2))))))"

definition resilience_interceptor ::
  "(rat \<Rightarrow> string) \<Rightarrow> 'z guards_scheme resilience_config \<Rightarrow> 'z guards_scheme interceptor" where
  "resilience_interceptor show_float cfg =
     \<lparr>ic_order = 5, ic_enter = resilience_enter show_float cfg,
      ic_exit = (\<lambda>e c. (e, give_permit_back c))\<rparr>"

section \<open>Facts\<close>

lemma try_acquire_settles:
  "bulkhead_try_acquire show_float b = Some (False, b)
   \<or> (0 < semaphore b \<and> bulkhead_try_acquire show_float b =
        Some (True, b\<lparr>placeholders := placeholders b + 1, semaphore := semaphore b - 1, bh_active := bh_active b + 1\<rparr>))"
  by (auto simp: bulkhead_try_acquire_def try_acquire_check_def bulkhead_acquire_def acquire_slot_def
      put_placeholder_def semaphore_acquire_def increment_active_def)

lemma release_undoes:
  "0 \<le> placeholders b \<Longrightarrow> 0 \<le> bh_active b \<Longrightarrow>
   bulkhead_release (b\<lparr>placeholders := placeholders b + 1, semaphore := semaphore b - 1,
     bh_active := bh_active b + 1\<rparr>) = b"
  by (simp add: bulkhead_release_def release_slot_def decrement_active_def Let_def)

lemma open_error_exception [simp]: "isinstance_exn (build_open_error now b) PyException"
  by (simp add: build_open_error_def new_rpc_exn_def rpc_defaults_def isinstance_exn_def is_subclass_def)

lemma before_call_error: "before_call now b = (Inl e, b1) \<Longrightarrow> isinstance_exn e PyException"
  by (auto simp: before_call_def Let_def split: if_splits bool.splits prod.splits)

lemma circuit_call_open:
  assumes "gd_breaker (cx_world c) = Some b" "before_call (gd_now (cx_world c)) b = (Inl e, b1)"
  shows "circuit_call f c = (Inl e, c\<lparr>cx_world := (cx_world c)\<lparr>gd_breaker := Some b1\<rparr>\<rparr>)"
  using assms by (simp add: circuit_call_def breaker_call_def)

lemma run_fallback_ok:
  "f c = (Inr v, c') \<Longrightarrow> \<exists>cells. run_fallback p f c = (Inr v, c'\<lparr>cx_world := (cx_world c')\<lparr>gd_cells := cells\<rparr>\<rparr>)"
  by (auto simp: run_fallback_def fallback_execute_def)

lemma set_state_same [simp]: "cx_world (set_state k v c) = cx_world c" "load_local x (set_state k v c) = load_local x c"
    "cx_aborted (set_state k v c) = cx_aborted c"
  by (simp_all add: load_local_def)

lemma give_back_bulkhead:
  "gd_bulkhead (cx_world (give_permit_back c)) =
     (if py_truthy (load_local ''bulkhead_acquired'' c) then map_option bulkhead_release (gd_bulkhead (cx_world c))
      else gd_bulkhead (cx_world c))"
  by (simp add: give_permit_back_def split: option.split)

text \<open>What the interceptor does to the bulkhead on its way in.\<close>

lemma enter_bulkhead:
  assumes "resilience_enter show_float cfg c = (exc, ws, c')" "gd_bulkhead (cx_world c) = Some b"
    and "0 \<le> placeholders b" "0 \<le> bh_active b" "\<not> py_truthy (load_local ''bulkhead_acquired'' c)"
  shows "if py_truthy (load_local ''bulkhead_acquired'' c')
    then exc = None \<and> map_option bulkhead_release (gd_bulkhead (cx_world c')) = Some b
    else gd_bulkhead (cx_world c') = Some b"
proof (cases "sr_enabled cfg")
  case True
  show ?thesis
  proof (cases "rq_metadata (cx_request c)")
    case (Some m)
    obtain r ls where r: "rate_check cfg (rm_tenant_id m) (gd_now (cx_world c)) (gd_limiters (cx_world c)) = (r, ls)"
      by fastforce
    let ?c1 = "c\<lparr>cx_world := (cx_world c)\<lparr>gd_limiters := ls\<rparr>\<rparr>"
    show ?thesis
    proof (cases "r = Inr True")
      case ok: True
      from try_acquire_settles [of show_float b] show ?thesis
      proof
        assume "bulkhead_try_acquire show_float b = Some (False, b)"
        then show ?thesis
          using assms True Some r ok
          by (auto simp: resilience_enter_def take_permit_def abort_def load_local_def)
      next
        let ?b = "b\<lparr>placeholders := placeholders b + 1, semaphore := semaphore b - 1, bh_active := bh_active b + 1\<rparr>"
        assume "0 < semaphore b \<and> bulkhead_try_acquire show_float b = Some (True, ?b)"
        then show ?thesis
          using assms True Some r ok release_undoes [OF assms(3,4)]
          by (auto simp: resilience_enter_def take_permit_def abort_def load_local_def store_local_def dict_get_def)
      qed
    next
      case False
      then show ?thesis
        using assms True Some r
        by (auto simp: resilience_enter_def take_permit_def abort_def load_local_def Let_def split: sum.splits bool.splits)
    qed
  qed (use assms True in \<open>auto simp: resilience_enter_def\<close>)
qed (use assms in \<open>auto simp: resilience_enter_def\<close>)

section \<open>Properties\<close>

text \<open>The admission of a sequence of requests, each with its tenant and the time it came.\<close>

fun rate_run ::
  "'w resilience_config \<Rightarrow> (string option \<times> rat) list \<Rightarrow> (string option, limiter) dict \<Rightarrow> (exn + bool) list" where
  "rate_run cfg [] ls = []"
| "rate_run cfg ((tenant, now) # rs) ls =
     (let (r, ls') = rate_check cfg tenant now ls in r # rate_run cfg rs ls')"

text \<open>What one tenant would be told by a limiter of its own, made when it first comes.\<close>

fun private_run :: "limiter_config \<Rightarrow> rat list \<Rightarrow> limiter option \<Rightarrow> (exn + bool) list" where
  "private_run lc [] l = []"
| "private_run lc (now # ts) l =
     (let (r, l') = acquire (PInt 1) now (case l of None \<Rightarrow> new_limiter now (Some lc) | Some l \<Rightarrow> l)
      in r # private_run lc ts (Some l'))"

definition told :: "'t \<Rightarrow> ('t \<times> rat) list \<Rightarrow> 'r list \<Rightarrow> 'r list" where
  "told t reqs rs = map snd (filter (\<lambda>(q, r). fst q = t) (zip reqs rs))"

text \<open>
  C14. Tenants do not share their limits: however the requests of all tenants are mixed,
  each tenant is told exactly what a limiter that sees only its own requests would tell it.
\<close>

theorem tenant_isolation:
  assumes "sr_rate_limiter cfg = Some lc" "sr_tenant_isolated cfg"
  shows "told t reqs (rate_run cfg reqs ls) =
    private_run lc (map snd (filter (\<lambda>q. fst q = t) reqs)) (map_of ls t)"
proof (induction reqs arbitrary: ls)
  case (Cons q reqs)
  obtain tenant now where q: "q = (tenant, now)" by (cases q)
  let ?l = "case map_of ls tenant of None \<Rightarrow> new_limiter now (Some lc) | Some l \<Rightarrow> l"
  obtain r l' where a: "acquire (PInt 1) now ?l = (r, l')" by (cases "acquire (PInt 1) now ?l")
  then obtain ls' where ls': "rate_check cfg tenant now ls = (r, ls')" "map_of ls' = (map_of ls)(tenant \<mapsto> l')"
    using assms by (cases "map_of ls tenant") (auto simp: rate_check_def get_rate_limiter_def limiter_key_def)
  show ?case
    using Cons.IH [of ls'] a ls' by (cases "map_of ls t") (auto simp: q told_def)
qed (simp add: told_def)

definition one_per_second :: limiter_config where
  "one_per_second = \<lparr>lc_algorithm = SLIDING_WINDOW, lc_rate = 1, lc_burst = 1, lc_wait_timeout_ms = 0\<rparr>"

definition sample_limits :: "unit resilience_config" where
  "sample_limits = default_resilience_config\<lparr>sr_rate_limiter := Some one_per_second\<rparr>"

theorem tenant_isolation_witness:
  "told (Some ''a'') [(Some ''b'', 0), (Some ''a'', 0), (Some ''b'', 0), (Some ''a'', 1 / 2), (Some ''a'', 2)]
     (rate_run sample_limits [(Some ''b'', 0), (Some ''a'', 0), (Some ''b'', 0), (Some ''a'', 1 / 2), (Some ''a'', 2)] [])
   = [Inr True, Inr False, Inr True]"
  by (subst tenant_isolation [where lc = one_per_second])
    (simp_all add: sample_limits_def default_resilience_config_def one_per_second_def sliding_wait_ms_def new_limiter_def acquire_def normalize_tokens_def
      try_acquire_def limiter_defs)

text \<open>
  With a fallback policy an open breaker stops nothing. The refused request's
  handler is called all the same, outside the breaker, and what it answers is the answer; only
  without a fallback policy does the request end with the breaker's error.
\<close>

theorem fallback_defeats_breaker:
  fixes c :: "'z guards_scheme ctx"
  defines "refused \<equiv> \<lambda>b1. c\<lparr>cx_world := (cx_world c)\<lparr>gd_breaker := Some b1\<rparr>\<rparr>"
  assumes "gd_breaker (cx_world c) = Some b" "before_call (gd_now (cx_world c)) b = (Inl e, b1)"
    and "\<not> cx_is_stream c" "handler (refused b1) = ((r # rs, None), c2)"
  shows "(\<exists>cells. wrap_handler (Some p) handler c = (([r], None), c2\<lparr>cx_world := (cx_world c2)\<lparr>gd_cells := cells\<rparr>\<rparr>))
    \<and> wrap_handler None handler c = (([], Some e), refused b1)"
proof -
  have open_: "circuit_call f c = (Inl e, refused b1)" for f :: "('z guards_scheme ctx, exn, rpc_response option) comp"
    unfolding refused_def by (rule circuit_call_open [OF assms(2,3)])
  have "invoke_downstream handler (refused b1) = (Inr (Some r), c2)"
    using assms(5) by (simp add: invoke_downstream_def)
  from run_fallback_ok [where f = "invoke_downstream handler", OF this] obtain cells where
    "run_fallback p (invoke_downstream handler) (refused b1) =
       (Inr (Some r), c2\<lparr>cx_world := (cx_world c2)\<lparr>gd_cells := cells\<rparr>\<rparr>)" by blast
  then show ?thesis
    using assms(4) open_ before_call_error [OF assms(3)]
    by (auto simp: wrap_handler_def resilience_handle_def unary_stream_def)
qed

text \<open>A handler that counts its runs, and an open breaker, for the witnesses.\<close>

record counted_guards = guards + runs :: nat

definition count_run :: "counted_guards ctx \<Rightarrow> counted_guards ctx" where
  "count_run c = c\<lparr>cx_world := (cx_world c)\<lparr>runs := Suc (runs (cx_world c))\<rparr>\<rparr>"

definition sample_response :: "string \<Rightarrow> rpc_response" where
  "sample_response s =
     \<lparr>rs_aduib_rpc = ''2.0'', rs_id = Some ''1'', rs_status = SUCCESS, rs_result = PStr s, rs_error = None,
      rs_negotiated_version = None, rs_trace_context = None, rs_metadata = None\<rparr>"

definition static_policy :: "counted_guards ctx_fallback" where
  "static_policy = \<lparr>fp_handlers = [StaticValue (Some (sample_response ''static''))], fp_fallback_on = None,
     fp_propagate_original_error = True, fp_include_context = True\<rparr>"

definition guarded_ctx :: "breaker option \<Rightarrow> bulkhead option \<Rightarrow> counted_guards ctx" where
  "guarded_ctx b h = new_ctx empty_request [] None [] False
     \<lparr>gd_limiters = [], gd_breaker = b, gd_bulkhead = h, gd_cells = (\<lambda>_. None), gd_now = 0, runs = 0\<rparr>"

theorem fallback_defeats_breaker_witness:
  "\<exists>b. before_call 0 b = (Inl (build_open_error 0 b), b)
     \<and> fst (wrap_handler (Some static_policy) (\<lambda>c. (([sample_response ''live''], None), c)) (guarded_ctx (Some b) None))
         = ([sample_response ''live''], None)
     \<and> fst (wrap_handler None (\<lambda>c. (([sample_response ''live''], None), c)) (guarded_ctx (Some b) None))
         = ([], Some (build_open_error 0 b))"
proof -
  let ?b = "enter_open 0 (new_breaker ''server'' None)"
  have r: "before_call 0 ?b = (Inl (build_open_error 0 ?b), ?b)"
    by (simp add: before_call_def enter_open_def new_breaker_def default_breaker_config_def
        maybe_transition_to_half_open_def open_timeout_elapsed_def Let_def)
  have "gd_breaker (cx_world (guarded_ctx (Some ?b) None)) = Some ?b" "\<not> cx_is_stream (guarded_ctx (Some ?b) None)"
    "before_call (gd_now (cx_world (guarded_ctx (Some ?b) None))) ?b = (Inl (build_open_error 0 ?b), ?b)"
    using r by (simp_all add: guarded_ctx_def new_ctx_def)
  from fallback_defeats_breaker [OF this(1,3,2), of "\<lambda>c. (([sample_response ''live''], None), c)"
      "sample_response ''live''" "[]" _ static_policy] r
  show ?thesis by auto
qed

text \<open>
  A failing handler of a server with a fallback policy runs twice for one request, the
  second time outside the breaker: a side effect happens twice, and the breaker hears of one failure.
\<close>

theorem fallback_runs_twice:
  fixes runs_of :: "'z guards_scheme ctx \<Rightarrow> nat"
  assumes "\<And>c. fst (handler c) = (rs, Some e)" "isinstance_exn e PyException"
    and "\<And>c. runs_of (snd (handler c)) = Suc (runs_of c)"
    and "\<And>c b. runs_of (c\<lparr>cx_world := (cx_world c)\<lparr>gd_breaker := b\<rparr>\<rparr>) = runs_of c"
    and "\<And>c cells. runs_of (c\<lparr>cx_world := (cx_world c)\<lparr>gd_cells := cells\<rparr>\<rparr>) = runs_of c"
    and "\<And>b. gd_breaker (cx_world c) = Some b \<Longrightarrow> \<exists>st b1. before_call (gd_now (cx_world c)) b = (Inr st, b1)"
    and "\<not> cx_is_stream c" "fp_handlers p = [StaticValue v]" "fp_fallback_on p = None"
  shows "fst (wrap_handler (Some p) handler c) = unary_stream (Inr v)
    \<and> runs_of (snd (wrap_handler (Some p) handler c)) = runs_of c + 2"
proof -
  have f: "invoke_downstream handler c' = (Inl e, snd (handler c'))" for c'
    using assms(1) [of c'] by (cases "handler c'") (simp add: invoke_downstream_def)
  have first: "\<exists>c1. circuit_call (invoke_downstream handler) c = (Inl e, c1) \<and> runs_of c1 = Suc (runs_of c)"
  proof (cases "gd_breaker (cx_world c)")
    case (Some b)
    with assms(6) obtain st b1 where "before_call (gd_now (cx_world c)) b = (Inr st, b1)" by blast
    with Some show ?thesis by (simp add: circuit_call_def breaker_call_def f assms(3,4) Let_def)
  qed (simp add: circuit_call_def f assms(3))
  then obtain c1 where c1: "circuit_call (invoke_downstream handler) c = (Inl e, c1)" "runs_of c1 = Suc (runs_of c)" by blast
  have "fst (run_fallback p (invoke_downstream handler) c1) = Inr v
      \<and> runs_of (snd (run_fallback p (invoke_downstream handler) c1)) = Suc (runs_of c1)"
    using assms(2,3,5,8,9) f by (simp add: run_fallback_def fallback_execute_def should_fallback_def Let_def)
  with c1 assms(2,7) show ?thesis
    by (auto simp: wrap_handler_def resilience_handle_def split: prod.splits)
qed

theorem fallback_runs_twice_witness:
  "runs (cx_world (snd (wrap_handler (Some static_policy)
      (\<lambda>c. (([], Some some_failure), count_run c)) (guarded_ctx (Some (new_breaker ''server'' None)) None)))) = 2"
proof -
  have "fst (wrap_handler (Some static_policy) (\<lambda>c. (([], Some some_failure), count_run c))
        (guarded_ctx (Some (new_breaker ''server'' None)) None)) = unary_stream (Inr (Some (sample_response ''static'')))
      \<and> (runs \<circ> cx_world) (snd (wrap_handler (Some static_policy) (\<lambda>c. (([], Some some_failure), count_run c))
        (guarded_ctx (Some (new_breaker ''server'' None)) None)))
      = (runs \<circ> cx_world) (guarded_ctx (Some (new_breaker ''server'' None)) None) + 2"
    by (rule fallback_runs_twice [where e = some_failure and rs = "[]"])
      (auto simp: count_run_def some_failure_def new_rpc_exn_def rpc_defaults_def isinstance_exn_def is_subclass_def
        guarded_ctx_def new_ctx_def static_policy_def before_call_def new_breaker_def
        maybe_transition_to_half_open_def Let_def)
  then show ?thesis by (simp add: guarded_ctx_def new_ctx_def)
qed

text \<open>What runs inside the interceptor leaves the bulkhead and the note of the permit alone.\<close>

definition keeps_permit :: "'z guards_scheme stream_handler \<Rightarrow> bool" where
  "keeps_permit h \<longleftrightarrow> (\<forall>c. gd_bulkhead (cx_world (snd (h c))) = gd_bulkhead (cx_world c)
     \<and> load_local ''bulkhead_acquired'' (snd (h c)) = load_local ''bulkhead_acquired'' c)"

text \<open>
  C15. The permit of a request never leaks: whether the limiter or the bulkhead refuses it,
  the limiter raises, or what runs inside answers, raises, is cancelled or closed by its consumer,
  the bulkhead is afterwards as before.
\<close>

theorem permit_balanced:
  assumes "gd_bulkhead (cx_world c) = Some b" "0 \<le> placeholders b" "0 \<le> bh_active b"
    and "load_local ''bulkhead_acquired'' c = PNone" "\<not> cx_aborted c"
    and "\<And>ws. keeps_permit (body ws)" "\<And>ws. keeps_permit (nest is body ws)"
  shows "gd_bulkhead (cx_world (snd (nest (resilience_interceptor show_float cfg # is) body ws c))) = Some b"
proof -
  obtain exc ws' c1 where e: "resilience_enter show_float cfg c = (exc, ws', c1)"
    by (cases "resilience_enter show_float cfg c")
  note b = enter_bulkhead [OF e assms(1-3)]
  show ?thesis
  proof (cases exc)
    case (Some x)
    with b e assms(4,5) show ?thesis by (simp add: resilience_interceptor_def split: if_splits)
  next
    case None
    define inner where "inner = (if cx_aborted c1 then body (ws @ ws') c1 else nest is body (ws @ ws') c1)"
    have keep: "gd_bulkhead (cx_world (snd inner)) = gd_bulkhead (cx_world c1)"
      "load_local ''bulkhead_acquired'' (snd inner) = load_local ''bulkhead_acquired'' c1"
      using assms(6,7) by (simp_all add: inner_def keeps_permit_def)
    have "snd (nest (resilience_interceptor show_float cfg # is) body ws c) = give_permit_back (snd inner)"
      using e None assms(5) by (simp add: resilience_interceptor_def inner_def split: prod.split)
    with keep b assms(4) None show ?thesis by (auto simp: give_back_bulkhead split: if_splits)
  qed
qed

definition metadata_request :: rpc_request where
  "metadata_request = empty_request\<lparr>rq_metadata := Some \<lparr>rm_timestamp_ms = 0, rm_client_id = None,
     rm_client_version = None, rm_auth = None, rm_tenant_id = Some ''a'', rm_headers = None, rm_long_task = False,
     rm_long_task_method = None, rm_long_task_timeout = None\<rparr>\<rparr>"

theorem permit_balanced_witness:
  "gd_bulkhead (cx_world (snd (nest [resilience_interceptor (\<lambda>_. []) default_resilience_config]
      (\<lambda>ws c. (([], Some cancellation), c)) []
      (guarded_ctx None (Some (new_bulkhead None))\<lparr>cx_request := metadata_request\<rparr>)))) = Some (new_bulkhead None)"
  by (rule permit_balanced)
    (simp_all add: guarded_ctx_def new_ctx_def new_bulkhead_def default_bulkhead_config_def load_local_def
      dict_get_def keeps_permit_def)

end
