(* ===== verification/Cache.thy ===== *)
theory Cache
  imports Rpc_Errors
begin

text \<open>
  The two in-memory caches (\<open>resilience/cache.py\<close>): \<open>InMemoryCache\<close>, a dictionary with
  deadlines, and \<open>InMemoryIdempotencyCache\<close>, a bounded dictionary in order of use. Each
  operation holds the asyncio lock throughout, so it is one function; \<open>now\<close> is the clock it
  reads. The locale \<open>cache\<close> is the contract the QoS handler relies on.
\<close>

text \<open>A stored value with the instant from which it is expired; \<open>None\<close> never expires.\<close>

type_synonym 'v entry = "'v \<times> rat option"

definition expired :: "rat \<Rightarrow> 'v entry \<Rightarrow> bool" where
  "expired now e = (case snd e of None \<Rightarrow> False | Some t \<Rightarrow> t \<le> now)"

section \<open>InMemoryCache\<close>

type_synonym 'v memcache = "(string, 'v entry) dict"

definition mem_expires_at :: "rat \<Rightarrow> rat option \<Rightarrow> rat option" where
  "mem_expires_at now ttl_s =
     (case ttl_s of None \<Rightarrow> None | Some ttl \<Rightarrow> if ttl \<le> 0 then Some now else Some (now + ttl))"

definition mem_get_unlocked :: "rat \<Rightarrow> string \<Rightarrow> 'v memcache \<Rightarrow> 'v option \<times> 'v memcache" where
  "mem_get_unlocked now key c =
     (case map_of c key of
        None \<Rightarrow> (None, c)
      | Some e \<Rightarrow> if expired now e then (None, AList.delete key c) else (Some (fst e), c))"

definition mem_exists_unlocked :: "rat \<Rightarrow> string \<Rightarrow> 'v memcache \<Rightarrow> bool \<times> 'v memcache" where
  "mem_exists_unlocked now key c =
     (case map_of c key of
        None \<Rightarrow> (False, c)
      | Some e \<Rightarrow> if expired now e then (False, AList.delete key c) else (True, c))"

definition mem_get :: "rat \<Rightarrow> string \<Rightarrow> 'v \<Rightarrow> 'v memcache \<Rightarrow> 'v \<times> 'v memcache" where
  "mem_get now key dflt c =
     (case mem_get_unlocked now key c of (r, c') \<Rightarrow> (case r of None \<Rightarrow> dflt | Some v \<Rightarrow> v, c'))"

definition mem_set :: "rat \<Rightarrow> string \<Rightarrow> 'v \<Rightarrow> rat option \<Rightarrow> 'v memcache \<Rightarrow> 'v memcache" where
  "mem_set now key v ttl_s c = AList.update key (v, mem_expires_at now ttl_s) c"

definition mem_add :: "rat \<Rightarrow> string \<Rightarrow> 'v \<Rightarrow> rat option \<Rightarrow> 'v memcache \<Rightarrow> bool \<times> 'v memcache" where
  "mem_add now key v ttl_s c =
     (case mem_exists_unlocked now key c of
        (True, c') \<Rightarrow> (False, c')
      | (False, c') \<Rightarrow> (True, AList.update key (v, mem_expires_at now ttl_s) c'))"

definition mem_delete :: "string \<Rightarrow> 'v memcache \<Rightarrow> bool \<times> 'v memcache" where
  "mem_delete key c = (map_of c key \<noteq> None, AList.delete key c)"

definition mem_clear :: "'v memcache \<Rightarrow> 'v memcache" where
  "mem_clear c = []"

text \<open>
  The loop of \<open>get_many\<close>, for either cache. A key is in the result if it has a value, or one
  that is \<open>None\<close> but exists, which is when the lookup finds it alive.
\<close>

fun get_many_loop ::
  "(string \<Rightarrow> 's \<Rightarrow> 'v option \<times> 's) \<Rightarrow> string list \<Rightarrow> (string, 'v) dict \<Rightarrow> 's \<Rightarrow> (string, 'v) dict \<times> 's" where
  "get_many_loop g [] result c = (result, c)"
| "get_many_loop g (k # ks) result c =
     (case g k c of
        (None, c') \<Rightarrow> get_many_loop g ks result c'
      | (Some v, c') \<Rightarrow> get_many_loop g ks (AList.update k v result) c')"

definition mem_get_many :: "rat \<Rightarrow> string list \<Rightarrow> 'v memcache \<Rightarrow> (string, 'v) dict \<times> 'v memcache" where
  "mem_get_many now keys c = get_many_loop (mem_get_unlocked now) keys [] c"

definition mem_set_many :: "rat \<Rightarrow> (string, 'v) dict \<Rightarrow> rat option \<Rightarrow> 'v memcache \<Rightarrow> 'v memcache" where
  "mem_set_many now items ttl_s c =
     fold (\<lambda>(k, v) c. AList.update k (v, mem_expires_at now ttl_s) c) items c"

fun mem_delete_many :: "string list \<Rightarrow> 'v memcache \<Rightarrow> nat \<times> 'v memcache" where
  "mem_delete_many [] c = (0, c)"
| "mem_delete_many (k # ks) c =
     (case mem_delete k c of
        (b, c') \<Rightarrow> (case mem_delete_many ks c' of (n, c'') \<Rightarrow> ((if b then Suc n else n), c'')))"

definition mem_contains :: "rat \<Rightarrow> string \<Rightarrow> 'v memcache \<Rightarrow> bool \<times> 'v memcache" where
  "mem_contains now key c = mem_exists_unlocked now key c"

definition mem_ttl :: "rat \<Rightarrow> string \<Rightarrow> 'v memcache \<Rightarrow> rat option \<times> 'v memcache" where
  "mem_ttl now key c =
     (case map_of c key of
        None \<Rightarrow> (None, c)
      | Some (_, None) \<Rightarrow> (Some (- 1), c)
      | Some (_, Some t) \<Rightarrow>
          if t - now \<le> 0 then (None, AList.delete key c) else (Some (t - now), c))"

text \<open>\<open>isinstance(value, int)\<close> holds of booleans too.\<close>

definition int_value :: "pyval \<Rightarrow> int option" where
  "int_value v = (case v of PInt i \<Rightarrow> Some i | PBool b \<Rightarrow> Some (if b then 1 else 0) | _ \<Rightarrow> None)"

definition not_an_int :: exn where
  "not_an_int = Exn ValueError 0 ''cached value is not an int'' PNone None"

definition mem_incr ::
  "rat \<Rightarrow> string \<Rightarrow> int \<Rightarrow> rat option \<Rightarrow> pyval memcache \<Rightarrow> (exn + int) \<times> pyval memcache" where
  "mem_incr now key delta ttl_s c =
     (case mem_exists_unlocked now key c of
        (False, c1) \<Rightarrow>
          (Inr delta, AList.update key (PInt delta, mem_expires_at now ttl_s) c1)
      | (True, c1) \<Rightarrow>
          (case map_of c1 key of
             None \<Rightarrow> (Inr delta, c1)
           | Some (v, t) \<Rightarrow>
               (case int_value v of
                  None \<Rightarrow> (Inl not_an_int, c1)
                | Some i \<Rightarrow>
                    (Inr (i + delta),
                     AList.update key
                       (PInt (i + delta), if ttl_s \<noteq> None then mem_expires_at now ttl_s else t) c1))))"

section \<open>InMemoryIdempotencyCache\<close>

record 'v lru =
  lru_entries :: "(string, 'v entry) dict"
  lru_max_size :: int
  lru_ttl_seconds :: int

definition new_lru :: "int \<Rightarrow> int \<Rightarrow> 'v lru" where
  "new_lru max_size ttl_seconds =
     \<lparr>lru_entries = [], lru_max_size = max 1 max_size, lru_ttl_seconds = max 1 ttl_seconds\<rparr>"

definition move_to_end :: "string \<Rightarrow> (string, 'v) dict \<Rightarrow> (string, 'v) dict" where
  "move_to_end k d = (case map_of d k of None \<Rightarrow> d | Some v \<Rightarrow> AList.delete k d @ [(k, v)])"

text \<open>\<open>popitem(last=False)\<close> on a dictionary that is not empty.\<close>

definition pop_oldest :: "(string, 'v) dict \<Rightarrow> (string, 'v) dict" where
  "pop_oldest d = tl d"

definition lru_expires_at :: "rat \<Rightarrow> rat option \<Rightarrow> 'v lru \<Rightarrow> rat option" where
  "lru_expires_at now ttl_s c =
     (case ttl_s of
        None \<Rightarrow> Some (now + of_int (lru_ttl_seconds c))
      | Some ttl \<Rightarrow> if ttl \<le> 0 then Some now else Some (now + ttl))"

definition lru_get_unlocked :: "rat \<Rightarrow> string \<Rightarrow> 'v lru \<Rightarrow> 'v option \<times> 'v lru" where
  "lru_get_unlocked now key c =
     (case map_of (lru_entries c) key of
        None \<Rightarrow> (None, c)
      | Some e \<Rightarrow>
          if expired now e then (None, c\<lparr>lru_entries := AList.delete key (lru_entries c)\<rparr>)
          else (Some (fst e), c\<lparr>lru_entries := move_to_end key (lru_entries c)\<rparr>))"

definition lru_exists_unlocked :: "rat \<Rightarrow> string \<Rightarrow> 'v lru \<Rightarrow> bool \<times> 'v lru" where
  "lru_exists_unlocked now key c =
     (case map_of (lru_entries c) key of
        None \<Rightarrow> (False, c)
      | Some e \<Rightarrow>
          if expired now e then (False, c\<lparr>lru_entries := AList.delete key (lru_entries c)\<rparr>)
          else (True, c))"

definition lru_get :: "rat \<Rightarrow> string \<Rightarrow> 'v \<Rightarrow> 'v lru \<Rightarrow> 'v \<times> 'v lru" where
  "lru_get now key dflt c =
     (case lru_get_unlocked now key c of (r, c') \<Rightarrow> (case r of None \<Rightarrow> dflt | Some v \<Rightarrow> v, c'))"

definition lru_full :: "'v lru \<Rightarrow> bool" where
  "lru_full c = (int (length (lru_entries c)) \<ge> lru_max_size c)"

definition lru_set :: "rat \<Rightarrow> string \<Rightarrow> 'v \<Rightarrow> rat option \<Rightarrow> 'v lru \<Rightarrow> 'v lru" where
  "lru_set now key v ttl_s c =
     (let es = (if lru_full c \<and> map_of (lru_entries c) key = None
                then pop_oldest (lru_entries c) else lru_entries c)
      in c\<lparr>lru_entries := AList.update key (v, lru_expires_at now ttl_s c) es\<rparr>)"

definition lru_add :: "rat \<Rightarrow> string \<Rightarrow> 'v \<Rightarrow> rat option \<Rightarrow> 'v lru \<Rightarrow> bool \<times> 'v lru" where
  "lru_add now key v ttl_s c =
     (case lru_exists_unlocked now key c of
        (True, c') \<Rightarrow> (False, c')
      | (False, c') \<Rightarrow>
          (let es = (if lru_full c' then pop_oldest (lru_entries c') else lru_entries c')
           in (True, c'\<lparr>lru_entries := AList.update key (v, lru_expires_at now ttl_s c') es\<rparr>)))"

definition lru_delete :: "string \<Rightarrow> 'v lru \<Rightarrow> bool \<times> 'v lru" where
  "lru_delete key c =
     (map_of (lru_entries c) key \<noteq> None, c\<lparr>lru_entries := AList.delete key (lru_entries c)\<rparr>)"

definition lru_clear :: "'v lru \<Rightarrow> 'v lru" where
  "lru_clear c = c\<lparr>lru_entries := []\<rparr>"

definition lru_get_many :: "rat \<Rightarrow> string list \<Rightarrow> 'v lru \<Rightarrow> (string, 'v) dict \<times> 'v lru" where
  "lru_get_many now keys c = get_many_loop (lru_get_unlocked now) keys [] c"

definition lru_set_many :: "rat \<Rightarrow> (string, 'v) dict \<Rightarrow> rat option \<Rightarrow> 'v lru \<Rightarrow> 'v lru" where
  "lru_set_many now items ttl_s c = fold (\<lambda>(k, v) c. lru_set now k v ttl_s c) items c"

fun lru_delete_many :: "string list \<Rightarrow> 'v lru \<Rightarrow> nat \<times> 'v lru" where
  "lru_delete_many [] c = (0, c)"
| "lru_delete_many (k # ks) c =
     (case lru_delete k c of
        (b, c') \<Rightarrow> (case lru_delete_many ks c' of (n, c'') \<Rightarrow> ((if b then Suc n else n), c'')))"

definition lru_contains :: "rat \<Rightarrow> string \<Rightarrow> 'v lru \<Rightarrow> bool \<times> 'v lru" where
  "lru_contains now key c = lru_exists_unlocked now key c"

definition lru_ttl :: "rat \<Rightarrow> string \<Rightarrow> 'v lru \<Rightarrow> rat option \<times> 'v lru" where
  "lru_ttl now key c =
     (case map_of (lru_entries c) key of
        None \<Rightarrow> (None, c)
      | Some (_, None) \<Rightarrow> (Some (- 1), c)
      | Some (_, Some t) \<Rightarrow>
          if t - now \<le> 0 then (None, c\<lparr>lru_entries := AList.delete key (lru_entries c)\<rparr>)
          else (Some (t - now), c))"

definition lru_incr ::
  "rat \<Rightarrow> string \<Rightarrow> int \<Rightarrow> rat option \<Rightarrow> pyval lru \<Rightarrow> (exn + int) \<times> pyval lru" where
  "lru_incr now key delta ttl_s c =
     (let store = (\<lambda>n t c. c\<lparr>lru_entries := move_to_end key (AList.update key (PInt n, t) (lru_entries c))\<rparr>) in
      case lru_exists_unlocked now key c of
        (False, c1) \<Rightarrow> (Inr delta, store delta (lru_expires_at now ttl_s c1) c1)
      | (True, c1) \<Rightarrow>
          (case map_of (lru_entries c1) key of
             None \<Rightarrow> (Inr delta, store delta None c1)
           | Some (v, t) \<Rightarrow>
               (case int_value v of
                  None \<Rightarrow> (Inl not_an_int, c1)
                | Some i \<Rightarrow>
                    (Inr (i + delta),
                     store (i + delta) (if ttl_s \<noteq> None then lru_expires_at now ttl_s c1 else t) c1))))"

section \<open>The contract\<close>

text \<open>
  \<open>live t s k\<close> is what a reader at time \<open>t\<close> may see of key \<open>k\<close>; \<open>deadline\<close> is the expiry
  instant of a value stored now. A lookup tells the truth and changes no live entry; storing
  makes the key live until its deadline and never brings back or alters another; \<open>add\<close> stores only what
  is not live.
\<close>

definition before :: "rat \<Rightarrow> rat option \<Rightarrow> bool" where
  "before t d = (case d of None \<Rightarrow> True | Some u \<Rightarrow> t < u)"

lemma expired_iff [simp]: "expired t (v, d) \<longleftrightarrow> \<not> before t d"
  by (cases d) (auto simp: expired_def before_def)

lemma before_mono: "before t' d \<Longrightarrow> t \<le> t' \<Longrightarrow> before t d"
  by (cases d) (auto simp: before_def)

locale cache =
  fixes inv :: "'s \<Rightarrow> bool"
    and live :: "rat \<Rightarrow> 's \<Rightarrow> string \<Rightarrow> 'v option"
    and deadline :: "rat \<Rightarrow> rat option \<Rightarrow> 's \<Rightarrow> rat option"
    and get :: "rat \<Rightarrow> string \<Rightarrow> 'v \<Rightarrow> 's \<Rightarrow> 'v \<times> 's"
    and set :: "rat \<Rightarrow> string \<Rightarrow> 'v \<Rightarrow> rat option \<Rightarrow> 's \<Rightarrow> 's"
    and add :: "rat \<Rightarrow> string \<Rightarrow> 'v \<Rightarrow> rat option \<Rightarrow> 's \<Rightarrow> bool \<times> 's"
    and delete :: "string \<Rightarrow> 's \<Rightarrow> bool \<times> 's"
  assumes inv_get: "inv s \<Longrightarrow> inv (snd (get now k d s))"
    and inv_set: "inv s \<Longrightarrow> inv (set now k v ttl s)"
    and inv_add: "inv s \<Longrightarrow> inv (snd (add now k v ttl s))"
    and inv_delete: "inv s \<Longrightarrow> inv (snd (delete k s))"
    and live_mono: "live t' s k = Some v \<Longrightarrow> t \<le> t' \<Longrightarrow> live t s k = Some v"
    and get_value: "inv s \<Longrightarrow> fst (get now k d s) = (case live now s k of None \<Rightarrow> d | Some v \<Rightarrow> v)"
    and get_live: "inv s \<Longrightarrow> now \<le> t \<Longrightarrow> live t (snd (get now k d s)) j = live t s j"
    and set_same: "inv s \<Longrightarrow> live t (set now k v ttl s) k = (if before t (deadline now ttl s) then Some v else None)"
    and set_other: "inv s \<Longrightarrow> j \<noteq> k \<Longrightarrow> live t (set now k v ttl s) j = Some x \<Longrightarrow> live t s j = Some x"
    and add_value: "inv s \<Longrightarrow> fst (add now k v ttl s) \<longleftrightarrow> live now s k = None"
    and add_taken: "inv s \<Longrightarrow> live now s k \<noteq> None \<Longrightarrow> now \<le> t \<Longrightarrow> live t (snd (add now k v ttl s)) j = live t s j"
    and add_free: "inv s \<Longrightarrow> live now s k = None \<Longrightarrow>
      live t (snd (add now k v ttl s)) k = (if before t (deadline now ttl s) then Some v else None)"
    and delete_same: "inv s \<Longrightarrow> live t (snd (delete k s)) k = None"
begin

lemma get_after_set:
  "inv s \<Longrightarrow> now' \<ge> now \<Longrightarrow>
     fst (get now' k d (set now k v ttl s)) = (if before now' (deadline now ttl s) then v else d)"
  by (simp add: get_value inv_set set_same)

lemma get_stable:
  "inv s \<Longrightarrow> now \<le> now' \<Longrightarrow> fst (get now' k d (snd (get now j e s))) = fst (get now' k d s)"
  by (simp add: get_value inv_get get_live)

lemma add_once:
  "inv s \<Longrightarrow> fst (add now k v ttl s) \<Longrightarrow> before now' (deadline now ttl s) \<Longrightarrow>
     \<not> fst (add now' k w ttl' (snd (add now k v ttl s)))"
  by (simp add: add_value inv_add add_free)

lemma get_after_delete: "inv s \<Longrightarrow> fst (get now k d (snd (delete k s))) = d"
  by (simp add: get_value inv_delete delete_same)

end

text \<open>A cache that never evicts: other keys keep what they have.\<close>

locale unbounded_cache = cache +
  assumes set_keeps: "inv s \<Longrightarrow> j \<noteq> k \<Longrightarrow> live t (set now k v ttl s) j = live t s j"
begin

lemma get_other_after_set:
  "inv s \<Longrightarrow> j \<noteq> k \<Longrightarrow> fst (get now' j d (set now k v ttl s)) = fst (get now' j d s)"
  by (simp add: get_value inv_set set_keeps)

end

section \<open>The plain cache meets it\<close>

definition mem_live :: "rat \<Rightarrow> 'v memcache \<Rightarrow> string \<Rightarrow> 'v option" where
  "mem_live t c k = (case map_of c k of None \<Rightarrow> None | Some (v, d) \<Rightarrow> if before t d then Some v else None)"

definition mem_deadline :: "rat \<Rightarrow> rat option \<Rightarrow> 'v memcache \<Rightarrow> rat option" where
  "mem_deadline now ttl c = mem_expires_at now ttl"

lemmas mem_defs = mem_get_def mem_get_unlocked_def mem_exists_unlocked_def mem_set_def mem_add_def
  mem_delete_def mem_live_def mem_deadline_def

lemma mem_live_delete: "mem_live t (AList.delete k c) j = (if j = k then None else mem_live t c j)"
  by (simp add: mem_live_def)

lemma mem_live_update:
  "mem_live t (AList.update k (v, d) c) j =
     (if j = k then if before t d then Some v else None else mem_live t c j)"
  by (simp add: mem_live_def)

lemma mem_get_unlocked_value: "fst (mem_get_unlocked now k c) = mem_live now c k"
  by (auto simp: mem_get_unlocked_def mem_live_def split: option.split)

lemma mem_get_unlocked_live: "now \<le> t \<Longrightarrow> mem_live t (snd (mem_get_unlocked now k c)) j = mem_live t c j"
  by (auto simp: mem_get_unlocked_def mem_live_def dest: before_mono split: option.split)

lemma mem_exists_value: "fst (mem_exists_unlocked now k c) \<longleftrightarrow> mem_live now c k \<noteq> None"
  by (auto simp: mem_exists_unlocked_def mem_live_def split: option.split)

lemma mem_exists_live: "now \<le> t \<Longrightarrow> mem_live t (snd (mem_exists_unlocked now k c)) j = mem_live t c j"
  by (auto simp: mem_exists_unlocked_def mem_live_def dest: before_mono split: option.split)

lemma mem_exists_wf: "dict_wf c \<Longrightarrow> dict_wf (snd (mem_exists_unlocked now k c))"
  by (auto simp: mem_exists_unlocked_def split: option.split)

interpretation memory: unbounded_cache dict_wf mem_live mem_deadline mem_get mem_set mem_add mem_delete
proof unfold_locales
  fix s :: "'v memcache" and now k d v ttl t j
  show "fst (mem_get now k d s) = (case mem_live now s k of None \<Rightarrow> d | Some v \<Rightarrow> v)"
    using mem_get_unlocked_value [of now k s] by (auto simp: mem_get_def split: prod.split)
  show "now \<le> t \<Longrightarrow> mem_live t (snd (mem_get now k d s)) j = mem_live t s j"
    using mem_get_unlocked_live [of now t k s j] by (auto simp: mem_get_def split: prod.split)
  show "fst (mem_add now k v ttl s) \<longleftrightarrow> mem_live now s k = None"
    using mem_exists_value [of now k s] by (auto simp: mem_add_def split: prod.split bool.split)
  show "mem_live now s k \<noteq> None \<Longrightarrow> now \<le> t \<Longrightarrow> mem_live t (snd (mem_add now k v ttl s)) j = mem_live t s j"
    using mem_exists_value [of now k s] mem_exists_live [of now t k s j]
    by (auto simp: mem_add_def split: prod.split bool.split)
  show "mem_live now s k = None \<Longrightarrow> mem_live t (snd (mem_add now k v ttl s)) k =
      (if before t (mem_deadline now ttl s) then Some v else None)"
    using mem_exists_value [of now k s]
    by (auto simp: mem_add_def mem_live_update mem_deadline_def split: prod.split bool.split)
  show "dict_wf s \<Longrightarrow> dict_wf (snd (mem_add now k v ttl s))"
    using mem_exists_wf [of s now k] by (auto simp: mem_add_def split: prod.split bool.split)
qed (auto simp: mem_get_def mem_get_unlocked_def mem_set_def mem_delete_def mem_live_update
    mem_live_delete mem_deadline_def mem_live_def dest: before_mono split: option.splits if_splits)

section \<open>The idempotency cache meets it\<close>

definition lru_inv :: "'v lru \<Rightarrow> bool" where
  "lru_inv c \<longleftrightarrow> dict_wf (lru_entries c) \<and> 1 \<le> lru_max_size c \<and> 1 \<le> lru_ttl_seconds c"

definition lru_live :: "rat \<Rightarrow> 'v lru \<Rightarrow> string \<Rightarrow> 'v option" where
  "lru_live t c k = mem_live t (lru_entries c) k"

lemma mem_live_cong: "map_of c' k = map_of c k \<Longrightarrow> mem_live t c' k = mem_live t c k"
  by (simp add: mem_live_def)

lemma map_of_move_to_end [simp]: "map_of (move_to_end k d) = map_of d"
  by (auto simp: move_to_end_def map_add_def split: option.split)

lemma dict_wf_move_to_end [simp]: "dict_wf d \<Longrightarrow> dict_wf (move_to_end k d)"
  by (auto simp: move_to_end_def set_dict_delete split: option.split)

lemma length_move_to_end [simp]: "dict_wf d \<Longrightarrow> length (move_to_end k d) = length d"
  by (auto simp: move_to_end_def length_dict_delete split: option.split)

lemma dict_wf_pop_oldest [simp]: "dict_wf d \<Longrightarrow> dict_wf (pop_oldest d)"
  by (simp add: pop_oldest_def map_tl distinct_tl)

lemma map_of_pop_oldest: "dict_wf d \<Longrightarrow> map_of (pop_oldest d) k = Some v \<Longrightarrow> map_of d k = Some v"
  by (cases d) (force simp: pop_oldest_def dest: map_of_SomeD)+

lemma mem_live_pop_oldest:
  "dict_wf d \<Longrightarrow> mem_live t (pop_oldest d) k = Some v \<Longrightarrow> mem_live t d k = Some v"
proof -
  assume wf: "dict_wf d" and l: "mem_live t (pop_oldest d) k = Some v"
  from l obtain e where "map_of (pop_oldest d) k = Some e"
    by (auto simp: mem_live_def split: option.splits)
  with map_of_pop_oldest [OF wf this] l show ?thesis
    by (simp add: mem_live_def)
qed

lemma lru_get_unlocked_facts:
  assumes "lru_inv c"
  shows "lru_inv (snd (lru_get_unlocked now k c))"
    and "fst (lru_get_unlocked now k c) = lru_live now c k"
    and "now \<le> t \<Longrightarrow> lru_live t (snd (lru_get_unlocked now k c)) j = lru_live t c j"
  using assms before_mono [of t _ now]
  by (cases "map_of (lru_entries c) k";
      force simp: lru_get_unlocked_def lru_inv_def lru_live_def mem_live_def simp del: dict_opaque)+

lemma lru_exists_facts:
  assumes "lru_inv c"
  shows "lru_inv (snd (lru_exists_unlocked now k c))"
    and "fst (lru_exists_unlocked now k c) \<longleftrightarrow> lru_live now c k \<noteq> None"
    and "now \<le> t \<Longrightarrow> lru_live t (snd (lru_exists_unlocked now k c)) j = lru_live t c j"
  using assms before_mono [of t _ now]
  by (cases "map_of (lru_entries c) k";
      force simp: lru_exists_unlocked_def lru_inv_def lru_live_def mem_live_def
        simp del: dict_opaque)+

lemma lru_exists_deadline:
  "lru_expires_at now ttl (snd (lru_exists_unlocked now' k c)) = lru_expires_at now ttl c"
  by (simp add: lru_exists_unlocked_def lru_expires_at_def split: option.split)

interpretation idempotency: cache lru_inv lru_live lru_expires_at lru_get lru_set lru_add lru_delete
proof unfold_locales
  fix s :: "'v lru" and now k d v ttl t j x
  assume inv: "lru_inv s"
  show "lru_inv (snd (lru_get now k d s))" "now \<le> t \<Longrightarrow> lru_live t (snd (lru_get now k d s)) j = lru_live t s j"
    "fst (lru_get now k d s) = (case lru_live now s k of None \<Rightarrow> d | Some v \<Rightarrow> v)"
    using lru_get_unlocked_facts [OF inv, where now = now and k = k] by (auto simp: lru_get_def split: prod.split)
  show "lru_inv (lru_set now k v ttl s)"
    using inv by (auto simp: lru_set_def lru_inv_def Let_def)
  show "lru_live t (lru_set now k v ttl s) k = (if before t (lru_expires_at now ttl s) then Some v else None)"
    by (simp add: lru_set_def lru_live_def mem_live_update Let_def)
  show "j \<noteq> k \<Longrightarrow> lru_live t (lru_set now k v ttl s) j = Some x \<Longrightarrow> lru_live t s j = Some x"
    using inv mem_live_pop_oldest [of "lru_entries s" t j x]
    by (auto simp: lru_set_def lru_live_def mem_live_update lru_inv_def Let_def split: if_splits)
  note ex = lru_exists_facts [OF inv, where now = now and k = k]
  show "lru_inv (snd (lru_add now k v ttl s))"
    using ex(1) by (auto simp: lru_add_def lru_inv_def Let_def split: prod.split bool.split)
  show "fst (lru_add now k v ttl s) \<longleftrightarrow> lru_live now s k = None"
    using ex(2) by (auto simp: lru_add_def Let_def split: prod.split bool.split)
  show "lru_live now s k \<noteq> None \<Longrightarrow> now \<le> t \<Longrightarrow> lru_live t (snd (lru_add now k v ttl s)) j = lru_live t s j"
    using ex(2,3) by (auto simp: lru_add_def Let_def split: prod.split bool.split)
  show "lru_live now s k = None \<Longrightarrow> lru_live t (snd (lru_add now k v ttl s)) k =
      (if before t (lru_expires_at now ttl s) then Some v else None)"
    using ex(2) lru_exists_deadline [of now ttl now k s] by (auto simp: lru_add_def lru_live_def mem_live_update Let_def split: prod.split bool.split)
  show "lru_inv (snd (lru_delete k s))"
    using inv by (simp add: lru_delete_def lru_inv_def)
  show "lru_live t (snd (lru_delete k s)) k = None"
    by (simp add: lru_delete_def lru_live_def mem_live_delete)
next
  fix s :: "'v lru" and t t' k v
  show "lru_live t' s k = Some v \<Longrightarrow> t \<le> t' \<Longrightarrow> lru_live t s k = Some v"
    using memory.live_mono by (simp add: lru_live_def)
qed

section \<open>Size and order of use\<close>

definition lru_sized :: "'v lru \<Rightarrow> bool" where
  "lru_sized c \<longleftrightarrow> lru_inv c \<and> int (length (lru_entries c)) \<le> lru_max_size c"

lemma length_pop_oldest [simp]: "length (pop_oldest d) = length d - 1"
  by (simp add: pop_oldest_def)

lemma lru_set_sized [rpc_inv]: "lru_sized c \<Longrightarrow> lru_sized (lru_set now k v ttl c)"
  unfolding lru_sized_def
proof (intro conjI; elim conjE)
  assume c: "lru_inv c" "int (length (lru_entries c)) \<le> lru_max_size c"
  from c(1) show "lru_inv (lru_set now k v ttl c)" by (rule idempotency.inv_set)
  have "1 \<le> lru_max_size c" using c(1) by (simp add: lru_inv_def)
  then show "int (length (lru_entries (lru_set now k v ttl c))) \<le> lru_max_size (lru_set now k v ttl c)"
    using c(2) by (auto simp: lru_set_def lru_full_def length_dict_update Let_def of_nat_diff)
qed

lemma lru_delete_entry_sized:
  assumes "lru_sized c"
  shows "lru_sized (c\<lparr>lru_entries := AList.delete k (lru_entries c)\<rparr>)"
proof -
  have "int (length (AList.delete k (lru_entries c))) \<le> lru_max_size c"
    by (rule order_trans [OF of_nat_mono [OF length_dict_delete_le]])
      (use assms in \<open>simp add: lru_sized_def\<close>)
  with assms show ?thesis
    by (simp add: lru_sized_def lru_inv_def)
qed

lemma lru_exists_sized: "lru_sized c \<Longrightarrow> lru_sized (snd (lru_exists_unlocked now k c))"
  by (auto simp: lru_exists_unlocked_def lru_delete_entry_sized split: option.split)

lemma lru_add_sized [rpc_inv]: "lru_sized c \<Longrightarrow> lru_sized (snd (lru_add now k v ttl c))"
proof -
  assume c: "lru_sized c"
  let ?c = "snd (lru_exists_unlocked now k c)"
  note s = lru_exists_sized [OF c, of now k]
  have "1 \<le> lru_max_size ?c" using s by (simp add: lru_sized_def lru_inv_def)
  then show ?thesis
    using s by (auto simp: lru_add_def lru_sized_def lru_inv_def lru_full_def length_dict_update Let_def
        of_nat_diff split: prod.split bool.split)
qed

lemma lru_move_sized: "lru_sized c \<Longrightarrow> lru_sized (c\<lparr>lru_entries := move_to_end k (lru_entries c)\<rparr>)"
  by (simp add: lru_sized_def lru_inv_def)

lemma lru_get_unlocked_sized: "lru_sized c \<Longrightarrow> lru_sized (snd (lru_get_unlocked now k c))"
  by (auto simp: lru_get_unlocked_def lru_delete_entry_sized lru_move_sized split: option.split)

lemma lru_get_sized [rpc_inv]: "lru_sized c \<Longrightarrow> lru_sized (snd (lru_get now k d c))"
  by (simp add: lru_get_def split_beta lru_get_unlocked_sized)

lemma lru_delete_sized [rpc_inv]: "lru_sized c \<Longrightarrow> lru_sized (snd (lru_delete k c))"
  by (simp add: lru_delete_def lru_delete_entry_sized)

text \<open>The entries after a key are those stored or used since.\<close>

definition newer_than :: "string \<Rightarrow> 'v entry \<Rightarrow> nat \<Rightarrow> (string, 'v entry) dict \<Rightarrow> bool" where
  "newer_than k e n d \<longleftrightarrow> (\<exists>xs ys. d = xs @ (k, e) # ys \<and> length ys \<le> n \<and> k \<notin> List.set (dict_keys xs))"

lemma newer_than_lookup: "newer_than k e n d \<Longrightarrow> map_of d k = Some e"
proof -
  have "k \<notin> List.set (dict_keys xs) \<Longrightarrow> map_of (xs @ (k, e) # ys) k = Some e" for xs ys
    by (induction xs) auto
  then show "newer_than k e n d \<Longrightarrow> map_of d k = Some e"
    by (auto simp: newer_than_def)
qed

lemma length_update_le: "length (AList.update k v d) \<le> Suc (length d)"
  by (simp add: length_dict_update)

lemma newer_than_update:
  assumes "newer_than k e n d" "j \<noteq> k"
  shows "newer_than k e (Suc n) (AList.update j w d)"
proof -
  from assms(1) obtain xs ys where d: "d = xs @ (k, e) # ys" "length ys \<le> n" "k \<notin> List.set (dict_keys xs)"
    by (auto simp: newer_than_def)
  have app: "AList.update j w (us @ vs) =
      (if j \<in> List.set (dict_keys us) then AList.update j w us @ vs else us @ AList.update j w vs)" for us vs
    by (induction us) auto
  show ?thesis
  proof (cases "j \<in> List.set (dict_keys xs)")
    case True
    with d assms(2) show ?thesis
      unfolding newer_than_def
      by (intro exI [of _ "AList.update j w xs"] exI [of _ ys]) (simp add: app dict_keys_update)
  next
    case False
    have "length (AList.update j w ys) \<le> Suc n"
      using length_update_le [of j w ys] d(2) by linarith
    with d assms(2) False show ?thesis
      unfolding newer_than_def
      by (intro exI [of _ xs] exI [of _ "AList.update j w ys"]) (simp add: app)
  qed
qed

lemma newer_than_pop:
  assumes "newer_than k e n d" "Suc n < length d"
  shows "newer_than k e n (pop_oldest d)"
proof -
  from assms(1) obtain xs ys where d: "d = xs @ (k, e) # ys" "length ys \<le> n" "k \<notin> List.set (dict_keys xs)"
    by (auto simp: newer_than_def)
  with assms(2) obtain x xs' where "xs = x # xs'" by (cases xs) auto
  with d show ?thesis by (auto simp: newer_than_def pop_oldest_def)
qed

lemma newer_than_set:
  assumes "newer_than k e n (lru_entries c)" "j \<noteq> k" "int (Suc n) < lru_max_size c"
  shows "newer_than k e (Suc n) (lru_entries (lru_set now j v ttl c))"
  using assms by (auto simp: lru_set_def lru_full_def Let_def intro!: newer_than_update newer_than_pop)

lemma lru_set_limits [simp]: "lru_max_size (lru_set now j v ttl c) = lru_max_size c"
  "lru_ttl_seconds (lru_set now j v ttl c) = lru_ttl_seconds c"
  by (simp_all add: lru_set_def Let_def)

definition lru_sets :: "(rat \<times> string \<times> 'v \<times> rat option) list \<Rightarrow> 'v lru \<Rightarrow> 'v lru" where
  "lru_sets sets c = fold (\<lambda>(now, k, v, ttl) c. lru_set now k v ttl c) sets c"

lemma newer_than_sets:
  "newer_than k e n (lru_entries c) \<Longrightarrow> \<forall>(now, j, v, ttl) \<in> List.set sets. j \<noteq> k \<Longrightarrow>
   int (n + length sets) < lru_max_size c \<Longrightarrow>
     newer_than k e (n + length sets) (lru_entries (lru_sets sets c))"
proof (induction sets arbitrary: n c)
  case (Cons s sets)
  obtain now j v ttl where s: "s = (now, j, v, ttl)" by (cases s)
  have "newer_than k e (Suc n) (lru_entries (lru_set now j v ttl c))"
    using Cons.prems by (intro newer_than_set) (auto simp: s)
  with Cons.IH [OF this] Cons.prems show ?case by (simp add: s lru_sets_def)
qed (simp add: lru_sets_def)

lemma newer_than_end: "map_of d k = None \<Longrightarrow> newer_than k e 0 (AList.update k e d)"
proof -
  assume "map_of d k = None"
  then have "AList.update k e d = d @ [(k, e)]" "k \<notin> List.set (dict_keys d)"
    by (induction d) (auto split: if_splits)
  then show ?thesis by (simp add: newer_than_def)
qed

lemma map_of_pop_None: "map_of d k = None \<Longrightarrow> map_of (pop_oldest d) k = None"
  by (cases d) (auto simp: pop_oldest_def split: if_splits)

section \<open>Properties\<close>

text \<open>
  A stored response is what a later lookup returns until its
  deadline (the given time to live, at once if not positive, or the cache's default), and the
  default afterwards; while it lives, \<open>add\<close> refuses the key, so of two callers adding it only
  one succeeds. The plain cache behaves the same, without a default deadline.
\<close>

theorem idempotency_get_after_set:
  assumes "lru_inv c" "now \<le> now'"
  shows "fst (lru_get now' k d (lru_set now k v ttl c)) =
      (if now' < now + (case ttl of None \<Rightarrow> of_int (lru_ttl_seconds c) | Some t \<Rightarrow> max 0 t) then v else d)
    \<and> fst (lru_add now' k w ttl (lru_set now k v ttl c)) =
      (\<not> now' < now + (case ttl of None \<Rightarrow> of_int (lru_ttl_seconds c) | Some t \<Rightarrow> max 0 t))
    \<and> fst (mem_get now' k d (mem_set now k v ttl [])) =
      (case ttl of None \<Rightarrow> v | Some t \<Rightarrow> if now' < now + max 0 t then v else d)"
proof -
  have b: "before now' (lru_expires_at now ttl c) \<longleftrightarrow>
      now' < now + (case ttl of None \<Rightarrow> of_int (lru_ttl_seconds c) | Some t \<Rightarrow> max 0 t)"
    using assms(2) by (auto simp: lru_expires_at_def before_def split: option.split)
  have "fst (mem_get now' k d (mem_set now k v ttl [])) =
      (case ttl of None \<Rightarrow> v | Some t \<Rightarrow> if now' < now + max 0 t then v else d)"
    using memory.get_after_set [of "[]" now now' k d v ttl] assms(2)
    by (auto simp: mem_deadline_def mem_expires_at_def before_def split: option.splits)
  moreover have "fst (lru_add now' k w ttl (lru_set now k v ttl c)) =
      (\<not> before now' (lru_expires_at now ttl c))"
    by (simp add: idempotency.add_value idempotency.inv_set idempotency.set_same assms(1))
  ultimately show ?thesis
    using idempotency.get_after_set [OF assms, of k d v ttl] unfolding b by blast
qed

theorem idempotency_get_after_set_witness:
  "fst (lru_get 10 ''k'' 0 (lru_set 0 ''k'' (7 :: int) None (new_lru 2 60))) = 7
   \<and> fst (lru_get 60 ''k'' 0 (lru_set 0 ''k'' (7 :: int) None (new_lru 2 60))) = 0"
  using idempotency_get_after_set [of "new_lru 2 60" 0 10 "''k''" 0 "7 :: int" None]
    idempotency_get_after_set [of "new_lru 2 60" 0 60 "''k''" 0 "7 :: int" None]
  by (simp add: lru_inv_def new_lru_def)

text \<open>
  A key stored for the first time survives any sequence of fewer than
  \<open>max_size\<close> later stores of other keys with its value and deadline: eviction takes older
  entries first.
\<close>

theorem lru_survival:
  assumes "map_of (lru_entries c) k = None" "\<forall>(t, j, w, u) \<in> List.set sets. j \<noteq> k"
    and "int (length sets) < lru_max_size c"
  shows "map_of (lru_entries (lru_sets sets (lru_set now k v ttl c))) k = Some (v, lru_expires_at now ttl c)"
proof -
  have "newer_than k (v, lru_expires_at now ttl c) 0 (lru_entries (lru_set now k v ttl c))"
    using assms(1) by (auto simp: lru_set_def newer_than_end map_of_pop_None Let_def)
  from newer_than_sets [OF this assms(2)] assms(3) show ?thesis
    by (auto intro: newer_than_lookup)
qed

theorem lru_survival_witness:
  "map_of (lru_entries (lru_sets [(1, ''b'', 2, None)] (lru_set 0 ''a'' (1 :: int) None (new_lru 2 60)))) ''a''
     = Some (1, Some 60)"
  using lru_survival [of "new_lru 2 60" "''a''" "[(1, ''b'', 2, None)]" 0 "1 :: int" None]
  by (simp add: new_lru_def lru_expires_at_def)

text \<open>
  Looking up, storing, adding and deleting keep at most \<open>max_size\<close> entries,
  but \<open>incr\<close> on a key that is not there stores without evicting, so a full cache grows beyond
  its bound; and storing under a key that is there does not make it more recent, so it can be
  the next to go.
\<close>

theorem lru_bounded:
  assumes "lru_sized c"
  shows "lru_sized (snd (lru_get now k d c)) \<and> lru_sized (lru_set now k v ttl c)
    \<and> lru_sized (snd (lru_add now k v ttl c)) \<and> lru_sized (snd (lru_delete k c))
    \<and> (int (length (lru_entries c)) = lru_max_size c \<and> map_of (lru_entries c) k = None \<longrightarrow>
         int (length (lru_entries (snd (lru_incr now k delta ttl c)))) = lru_max_size c + 1)
    \<and> (map_of (lru_entries c) k \<noteq> None \<longrightarrow>
         dict_keys (lru_entries (lru_set now k v ttl c)) = dict_keys (lru_entries c))"
proof -
  have wf: "dict_wf (lru_entries c)" using assms by (simp add: lru_sized_def lru_inv_def)
  have "int (length (lru_entries c)) = lru_max_size c \<and> map_of (lru_entries c) k = None \<longrightarrow>
         int (length (lru_entries (snd (lru_incr now k delta ttl c)))) = lru_max_size c + 1"
    using wf by (auto simp: lru_incr_def lru_exists_unlocked_def length_dict_update Let_def)
  moreover have "map_of (lru_entries c) k \<noteq> None \<longrightarrow>
      dict_keys (lru_entries (lru_set now k v ttl c)) = dict_keys (lru_entries c)"
    by (auto simp: lru_set_def dict_keys_update Let_def map_of_eq_None_iff)
  ultimately show ?thesis using assms by (simp add: rpc_inv)
qed

theorem lru_bounded_witness:
  "length (lru_entries (snd (lru_incr 1 ''b'' 5 None (lru_set 0 ''a'' (PInt 1) None (new_lru 1 60))))) = 2"
proof -
  have "lru_sized (lru_set 0 ''a'' (PInt 1) None (new_lru 1 60))"
    by (rule lru_set_sized) (simp add: lru_sized_def lru_inv_def new_lru_def)
  from lru_bounded [OF this, of 1 "''b''" PNone "PInt 0" None 5] show ?thesis
    by (simp add: lru_set_def new_lru_def lru_full_def)
qed

end
