(* ===== verification/Qos_Handler.thy ===== *)
theory Qos_Handler
  imports Server_Resilience Retry_Policy Cache
begin

text \<open>
  Quality of service on the server (\<open>server/qos/handler.py\<close>, \<open>server/interceptors/qos.py\<close>): hard
  timeouts, retries, and one execution per idempotency key, for one request and for any
  interleaving of requests.
\<close>

section \<open>Settings of a request\<close>

definition DEFAULT_TIMEOUT_MS :: int where
  "DEFAULT_TIMEOUT_MS = 30000"

definition MAX_TIMEOUT_MS :: int where
  "MAX_TIMEOUT_MS = 300000"

text \<open>
  A dictionary becomes a \<open>QosConfig\<close> when its keys are fields; the constructor's \<open>TypeError\<close>
  otherwise means no settings. Dataclasses do not check the types of what they are given:
  values of other types than the declared ones are not modelled and give \<open>None\<close> here.
\<close>

definition field_or :: "(string, pyval) dict \<Rightarrow> string \<Rightarrow> 'a \<Rightarrow> (pyval \<Rightarrow> 'a option) \<Rightarrow> 'a option" where
  "field_or d key dflt conv = (case map_of d key of None \<Rightarrow> Some dflt | Some v \<Rightarrow> conv v)"

definition as_int :: "pyval \<Rightarrow> int option" where
  "as_int v = (case v of PInt i \<Rightarrow> Some i | _ \<Rightarrow> None)"

definition as_opt_int :: "pyval \<Rightarrow> int option option" where
  "as_opt_int v = (case v of PNone \<Rightarrow> Some None | PInt i \<Rightarrow> Some (Some i) | _ \<Rightarrow> None)"

definition as_bool :: "pyval \<Rightarrow> bool option" where
  "as_bool v = (case v of PBool b \<Rightarrow> Some b | _ \<Rightarrow> None)"

definition as_rat :: "pyval \<Rightarrow> rat option" where
  "as_rat v = (case v of PInt i \<Rightarrow> Some (of_int i) | PFloat r \<Rightarrow> r | _ \<Rightarrow> None)"

definition as_codes :: "pyval \<Rightarrow> int list option option" where
  "as_codes v =
     (case v of PNone \<Rightarrow> Some None
      | PList xs \<Rightarrow> if list_all (\<lambda>x. as_int x \<noteq> None) xs then Some (Some (List.map_filter as_int xs)) else None
      | _ \<Rightarrow> None)"

definition as_opt_str :: "pyval \<Rightarrow> string option option" where
  "as_opt_str v = (case v of PNone \<Rightarrow> Some None | PStr s \<Rightarrow> Some (Some s) | _ \<Rightarrow> None)"

definition as_strategy :: "pyval \<Rightarrow> retry_strategy option" where
  "as_strategy v =
     map_of [(PStr ''fixed'', FIXED), (PStr ''exponential'', EXPONENTIAL), (PStr ''linear'', LINEAR)] v"

definition only_keys :: "string list \<Rightarrow> (string, pyval) dict \<Rightarrow> bool" where
  "only_keys names d = list_all (\<lambda>k. List.member names k) (dict_keys d)"

definition retry_policy_of_dict :: "(string, pyval) dict \<Rightarrow> retry_policy option" where
  "retry_policy_of_dict d =
     (let p = default_retry_policy in
      if \<not> only_keys [''max_attempts'', ''strategy'', ''initial_delay_ms'', ''max_delay_ms'',
            ''backoff_multiplier'', ''jitter'', ''retryable_codes'', ''respect_circuit_breaker''] d then None
      else
        Option.bind (field_or d ''max_attempts'' (rp_max_attempts p) as_int) (\<lambda>att.
        Option.bind (field_or d ''strategy'' (rp_strategy p) as_strategy) (\<lambda>st.
        Option.bind (field_or d ''initial_delay_ms'' (rp_initial_delay_ms p) as_int) (\<lambda>init.
        Option.bind (field_or d ''max_delay_ms'' (rp_max_delay_ms p) as_int) (\<lambda>mx.
        Option.bind (field_or d ''backoff_multiplier'' (rp_backoff_multiplier p) as_rat) (\<lambda>mult.
        Option.bind (field_or d ''jitter'' (rp_jitter p) as_rat) (\<lambda>jit.
        Option.bind (field_or d ''retryable_codes'' (rp_retryable_codes p) as_codes) (\<lambda>codes.
        Option.bind (field_or d ''respect_circuit_breaker'' (rp_respect_circuit_breaker p) as_bool) (\<lambda>cb.
          Some \<lparr>rp_max_attempts = att, rp_strategy = st, rp_initial_delay_ms = init, rp_max_delay_ms = mx,
                rp_backoff_multiplier = mult, rp_jitter = jit, rp_retryable_codes = codes,
                rp_respect_circuit_breaker = cb\<rparr>)))))))))"

definition as_retry :: "pyval \<Rightarrow> retry_policy option option" where
  "as_retry v =
     (case v of PNone \<Rightarrow> Some None | PDict d \<Rightarrow> map_option Some (retry_policy_of_dict d) | _ \<Rightarrow> None)"

definition qos_of_dict :: "(string, pyval) dict \<Rightarrow> qos_config option" where
  "qos_of_dict d =
     (let q = default_qos_config in
      if \<not> only_keys [''enabled'', ''priority'', ''timeout_ms'', ''idempotency_ttl_s'', ''retry'',
            ''idempotency_key''] d then None
      else
        Option.bind (field_or d ''enabled'' (qc_enabled q) as_bool) (\<lambda>en.
        Option.bind (field_or d ''priority'' (qc_priority q) (\<lambda>v. Some (Other v))) (\<lambda>prio.
        Option.bind (field_or d ''timeout_ms'' (qc_timeout_ms q) as_opt_int) (\<lambda>timeout.
        Option.bind (field_or d ''idempotency_ttl_s'' (qc_idempotency_ttl_s q) as_int) (\<lambda>ttl.
        Option.bind (field_or d ''retry'' (qc_retry q) as_retry) (\<lambda>retry.
        Option.bind (field_or d ''idempotency_key'' (qc_idempotency_key q) as_opt_str) (\<lambda>key.
          Some \<lparr>qc_enabled = en, qc_priority = prio, qc_timeout_ms = timeout, qc_idempotency_ttl_s = ttl,
                qc_retry = retry, qc_idempotency_key = key\<rparr>)))))))"

definition extract_qos :: "rpc_request \<Rightarrow> qos_config option" where
  "extract_qos r =
     (case rq_qos r of
        None \<Rightarrow> None
      | Some (Qos q) \<Rightarrow> Some q
      | Some (RawQos (PDict d)) \<Rightarrow> qos_of_dict d
      | Some (RawQos _) \<Rightarrow> None)"

definition resolve_timeout_ms :: "qos_config option \<Rightarrow> int option" where
  "resolve_timeout_ms q =
     (case Option.bind q qc_timeout_ms of None \<Rightarrow> None | Some t \<Rightarrow> Some (min t MAX_TIMEOUT_MS))"

section \<open>Timeouts and retries\<close>

text \<open>
  A job is a coroutine: what it does when the loop throws \<open>CancelledError\<close> into it at the given
  time (\<open>None\<close>: never). \<open>asyncio.timeout\<close> turns the cancellation it caused into a
  \<open>TimeoutError\<close>; the handler turns every \<open>TimeoutError\<close> into its own error.
\<close>

type_synonym ('w, 'a) job = "rat option \<Rightarrow> ('w, exn, 'a) comp"

definition timeout_scope :: "'w env \<Rightarrow> rat \<Rightarrow> ('w, 'a) job \<Rightarrow> ('w, exn, 'a) comp" where
  "timeout_scope env delay job w =
     (let due = env_now env w + delay; (r, w') = job (Some due) w in
      (case r of
         Inl e \<Rightarrow> if exn_class e = CancelledError \<and> due \<le> env_now env w'
                  then Inl (Exn TimeoutError 0 [] PNone (Some e)) else Inl e
       | Inr v \<Rightarrow> Inr v, w'))"

definition timed_out :: "(rat \<Rightarrow> string) \<Rightarrow> rat \<Rightarrow> exn" where
  "timed_out show_s seconds =
     Exn RpcTimeoutError (error_code_value RPC_TIMEOUT)
       (''Request exceeded timeout of '' @ show_s seconds @ ''s'') PNone None"

definition execute_with_timeout ::
  "'w env \<Rightarrow> (rat \<Rightarrow> string) \<Rightarrow> rat \<Rightarrow> ('w, 'a) job \<Rightarrow> ('w, exn, 'a) comp" where
  "execute_with_timeout env show_s seconds job w =
     (case timeout_scope env seconds job w of
        (Inl e, w') \<Rightarrow> (Inl (if isinstance_exn e TimeoutError then timed_out show_s seconds else e), w')
      | (Inr v, w') \<Rightarrow> (Inr v, w'))"

text \<open>The policy made from the request's: strategy, jitter and the breaker flag are not passed on.\<close>

definition forwarded_policy :: "retry_policy \<Rightarrow> retry_policy" where
  "forwarded_policy p =
     default_retry_policy\<lparr>rp_max_attempts := rp_max_attempts p, rp_initial_delay_ms := rp_initial_delay_ms p,
       rp_max_delay_ms := rp_max_delay_ms p, rp_backoff_multiplier := rp_backoff_multiplier p,
       rp_retryable_codes := nonempty (or_empty (rp_retryable_codes p))\<rparr>"

definition execute_with_retry ::
  "'w env \<Rightarrow> ('w, exn, 'a) comp \<Rightarrow> qos_config option \<Rightarrow> ('w, exn, 'a) comp" where
  "execute_with_retry env f q w =
     (case Option.bind q qc_retry of
        None \<Rightarrow> f w
      | Some p \<Rightarrow>
          (case retry_execute env (new_retry_executor (forwarded_policy p)) (Some f) None w of
             (r, _, w') \<Rightarrow> (r, w')))"

section \<open>Idempotency\<close>

text \<open>The operations of the cache the handler was given, and the handler's state and settings.\<close>

record ('s, 'v) cache_ops =
  co_get :: "rat \<Rightarrow> string \<Rightarrow> 'v option \<Rightarrow> 's \<Rightarrow> 'v option \<times> 's"
  co_set :: "rat \<Rightarrow> string \<Rightarrow> 'v option \<Rightarrow> rat option \<Rightarrow> 's \<Rightarrow> 's"

record 's qos_state =
  qs_cache :: 's
  qs_locks :: "string list"

record qos_handler =
  qh_default_timeout_ms :: int
  qh_idempotency_ttl_s :: int

definition new_qos_handler :: "int option \<Rightarrow> int option \<Rightarrow> qos_handler" where
  "new_qos_handler default_timeout_ms idempotency_ttl_s =
     \<lparr>qh_default_timeout_ms = (case default_timeout_ms of Some t \<Rightarrow> t | None \<Rightarrow> DEFAULT_TIMEOUT_MS),
      qh_idempotency_ttl_s = (case idempotency_ttl_s of Some t \<Rightarrow> t | None \<Rightarrow> 3600)\<rparr>"

definition lru_ops :: "('v option lru, 'v) cache_ops" where
  "lru_ops = \<lparr>co_get = lru_get, co_set = lru_set\<rparr>"

definition get_or_compute ::
  "('s, 'v) cache_ops \<Rightarrow> 'w env \<Rightarrow> qos_handler \<Rightarrow> string \<Rightarrow> ('w, exn, 'v option) comp \<Rightarrow> 's qos_state \<Rightarrow> 'w
     \<Rightarrow> (exn + 'v option) \<times> 's qos_state \<times> 'w" where
  "get_or_compute ops env h key factory s w =
     (case co_get ops (env_now env w) key None (qs_cache s) of
        (Some v, c1) \<Rightarrow> (Inr (Some v), s\<lparr>qs_cache := c1\<rparr>, w)
      | (None, c1) \<Rightarrow>
          (let s1 = s\<lparr>qs_cache := c1, qs_locks := List.insert key (qs_locks s)\<rparr> in
           case co_get ops (env_now env w) key None (qs_cache s1) of
             (Some v, c2) \<Rightarrow> (Inr (Some v), s1\<lparr>qs_cache := c2\<rparr>, w)
           | (None, c2) \<Rightarrow>
               (case factory w of
                  (Inr (Some v), w') \<Rightarrow>
                    (Inr (Some v), s1\<lparr>qs_cache := co_set ops (env_now env w') key (Some v)
                       (Some (of_int (qh_idempotency_ttl_s h))) c2\<rparr>, w')
                | (r, w') \<Rightarrow> (r, s1\<lparr>qs_cache := c2\<rparr>, w'))))"

definition effective_timeout_ms :: "qos_handler \<Rightarrow> qos_config option \<Rightarrow> int" where
  "effective_timeout_ms h q =
     (case resolve_timeout_ms q of Some t \<Rightarrow> t | None \<Rightarrow> qh_default_timeout_ms h)"

definition handle_request ::
  "('s, 'v) cache_ops \<Rightarrow> 'w env \<Rightarrow> (rat \<Rightarrow> string) \<Rightarrow> qos_handler \<Rightarrow> rpc_request \<Rightarrow> ('w, 'v option) job
     \<Rightarrow> 's qos_state \<Rightarrow> 'w \<Rightarrow> (exn + 'v option) \<times> 's qos_state \<times> 'w" where
  "handle_request ops env show_s h request job s w =
     (let q = extract_qos request;
          execute_once = execute_with_timeout env show_s (of_int (effective_timeout_ms h q) / 1000) job
      in case or_empty (Option.bind q qc_idempotency_key) of
           [] \<Rightarrow> (case execute_with_retry env execute_once q w of (r, w') \<Rightarrow> (r, s, w'))
         | key \<Rightarrow> get_or_compute ops env h key (execute_with_retry env execute_once q) s w)"

definition handle_qos_stream ::
  "'w env \<Rightarrow> (rat \<Rightarrow> string) \<Rightarrow> rpc_request \<Rightarrow> (rat option \<Rightarrow> 'w \<Rightarrow> ('v list \<times> exn option) \<times> 'w)
     \<Rightarrow> 'w \<Rightarrow> ('v list \<times> exn option) \<times> 'w" where
  "handle_qos_stream env show_s request job w =
     (case resolve_timeout_ms (extract_qos request) of
        None \<Rightarrow> job None w
      | Some t \<Rightarrow>
          (let seconds = of_int t / 1000; due = env_now env w + seconds; ((vs, exc), w') = job (Some due) w in
           ((vs, case exc of
                   Some e \<Rightarrow>
                     if exn_class e = CancelledError \<and> due \<le> env_now env w' \<or> isinstance_exn e TimeoutError
                     then Some (timed_out show_s seconds) else Some e
                 | None \<Rightarrow> None), w')))"

section \<open>The interceptor\<close>

record server_world = guards +
  sw_qos :: "rpc_response option lru qos_state"

text \<open>\<open>cancel d handler\<close> is the handler when it is cancelled at time \<open>d\<close>.\<close>

definition qos_job ::
  "(rat \<Rightarrow> 'w stream_handler \<Rightarrow> 'w stream_handler) \<Rightarrow> 'w stream_handler \<Rightarrow> rat option \<Rightarrow> 'w stream_handler" where
  "qos_job cancel handler due = (case due of None \<Rightarrow> handler | Some d \<Rightarrow> cancel d handler)"

definition qos_wrap ::
  "'z server_world_scheme ctx env \<Rightarrow> (rat \<Rightarrow> string) \<Rightarrow> qos_handler
     \<Rightarrow> (rat \<Rightarrow> 'z server_world_scheme stream_handler \<Rightarrow> 'z server_world_scheme stream_handler)
     \<Rightarrow> 'z server_world_scheme stream_handler \<Rightarrow> 'z server_world_scheme stream_handler" where
  "qos_wrap env show_s h cancel handler c =
     (if cx_is_stream c then handle_qos_stream env show_s (cx_request c) (qos_job cancel handler) c
      else
        (case handle_request lru_ops env show_s h (cx_request c)
               (\<lambda>due. invoke_downstream (qos_job cancel handler due)) (sw_qos (cx_world c)) c of
           (r, s, c') \<Rightarrow> (unary_stream r, c'\<lparr>cx_world := (cx_world c')\<lparr>sw_qos := s\<rparr>\<rparr>)))"

definition qos_interceptor ::
  "'z server_world_scheme ctx env \<Rightarrow> (rat \<Rightarrow> string) \<Rightarrow> qos_handler
     \<Rightarrow> (rat \<Rightarrow> 'z server_world_scheme stream_handler \<Rightarrow> 'z server_world_scheme stream_handler)
     \<Rightarrow> 'z server_world_scheme interceptor" where
  "qos_interceptor env show_s h cancel =
     \<lparr>ic_order = 6, ic_enter = (\<lambda>c. (None, [qos_wrap env show_s h cancel], c)), ic_exit = (\<lambda>e c. (e, c))\<rparr>"

section \<open>Concurrent requests\<close>

text \<open>
  A request asks the cache, queues for the lock of its key, asks again under the lock, and then
  runs its handler, stores the answer and releases the lock. It may be cancelled on the way.
\<close>

datatype 'v flight = Asking | Queued | Locked | Computing | Served "'v option" | Raised

type_synonym ('s, 'v) flights = "'s \<times> (string \<times> 'v flight) list \<times> rat"

definition holds_lock :: "'v flight \<Rightarrow> bool" where
  "holds_lock p = (case p of Locked \<Rightarrow> True | Computing \<Rightarrow> True | _ \<Rightarrow> False)"

definition in_flight :: "'v flight \<Rightarrow> bool" where
  "in_flight p = (case p of Served _ \<Rightarrow> False | Raised \<Rightarrow> False | _ \<Rightarrow> True)"

definition lock_free :: "string \<Rightarrow> (string \<times> 'v flight) list \<Rightarrow> bool" where
  "lock_free k ts = list_all (\<lambda>(j, p). j = k \<longrightarrow> \<not> holds_lock p) ts"

inductive sf_step :: "('s, 'v) cache_ops \<Rightarrow> rat \<Rightarrow> ('s, 'v) flights \<Rightarrow> ('s, 'v) flights \<Rightarrow> bool"
  for ops ttl where
  arrive: "clk \<le> now \<Longrightarrow> sf_step ops ttl (c, ts, clk) (c, ts @ [(k, Asking)], now)"
| hit: "clk \<le> now \<Longrightarrow> i < length ts \<Longrightarrow> ts ! i = (k, Asking) \<Longrightarrow> co_get ops now k None c = (Some v, c') \<Longrightarrow>
    sf_step ops ttl (c, ts, clk) (c', ts[i := (k, Served (Some v))], now)"
| miss: "clk \<le> now \<Longrightarrow> i < length ts \<Longrightarrow> ts ! i = (k, Asking) \<Longrightarrow> co_get ops now k None c = (None, c') \<Longrightarrow>
    sf_step ops ttl (c, ts, clk) (c', ts[i := (k, Queued)], now)"
| lock: "clk \<le> now \<Longrightarrow> i < length ts \<Longrightarrow> ts ! i = (k, Queued) \<Longrightarrow> lock_free k ts \<Longrightarrow>
    sf_step ops ttl (c, ts, clk) (c, ts[i := (k, Locked)], now)"
| lock_hit: "clk \<le> now \<Longrightarrow> i < length ts \<Longrightarrow> ts ! i = (k, Locked) \<Longrightarrow> co_get ops now k None c = (Some v, c') \<Longrightarrow>
    sf_step ops ttl (c, ts, clk) (c', ts[i := (k, Served (Some v))], now)"
| lock_miss: "clk \<le> now \<Longrightarrow> i < length ts \<Longrightarrow> ts ! i = (k, Locked) \<Longrightarrow> co_get ops now k None c = (None, c') \<Longrightarrow>
    sf_step ops ttl (c, ts, clk) (c', ts[i := (k, Computing)], now)"
| store: "clk \<le> now \<Longrightarrow> i < length ts \<Longrightarrow> ts ! i = (k, Computing) \<Longrightarrow>
    sf_step ops ttl (c, ts, clk) (co_set ops now k (Some v) (Some ttl) c, ts[i := (k, Served (Some v))], now)"
| nothing: "clk \<le> now \<Longrightarrow> i < length ts \<Longrightarrow> ts ! i = (k, Computing) \<Longrightarrow>
    sf_step ops ttl (c, ts, clk) (c, ts[i := (k, Served None)], now)"
| fail: "clk \<le> now \<Longrightarrow> i < length ts \<Longrightarrow> ts ! i = (k, p) \<Longrightarrow> in_flight p \<Longrightarrow>
    sf_step ops ttl (c, ts, clk) (c, ts[i := (k, Raised)], now)"

abbreviation sf_steps :: "('s, 'v) cache_ops \<Rightarrow> rat \<Rightarrow> ('s, 'v) flights \<Rightarrow> ('s, 'v) flights \<Rightarrow> bool" where
  "sf_steps ops ttl \<equiv> (sf_step ops ttl)\<^sup>*\<^sup>*"

definition one_holder :: "(string \<times> 'v flight) list \<Rightarrow> bool" where
  "one_holder ts \<longleftrightarrow> (\<forall>i j. i < length ts \<and> j < length ts \<and> i \<noteq> j
     \<and> holds_lock (snd (ts ! i)) \<and> holds_lock (snd (ts ! j)) \<longrightarrow> fst (ts ! i) \<noteq> fst (ts ! j))"

lemma one_holder_same:
  "one_holder ts \<Longrightarrow> i < length ts \<Longrightarrow> fst (ts ! i) = k \<Longrightarrow> holds_lock p \<longrightarrow> holds_lock (snd (ts ! i)) \<Longrightarrow>
   one_holder (ts[i := (k, p)])"
  by (auto simp: one_holder_def nth_list_update)

lemma one_holder_lock:
  "one_holder ts \<Longrightarrow> i < length ts \<Longrightarrow> lock_free k ts \<Longrightarrow> one_holder (ts[i := (k, p)])"
  by (auto simp: one_holder_def nth_list_update lock_free_def list_all_length case_prod_beta)

lemma sf_step_one_holder: "sf_step ops ttl s s' \<Longrightarrow> one_holder (fst (snd s)) \<Longrightarrow> one_holder (fst (snd s'))"
proof (induction rule: sf_step.induct)
  case (arrive clk now c ts k)
  then show ?case by (auto simp: one_holder_def nth_append holds_lock_def)
next
  case (lock clk now i ts k c)
  then show ?case by (simp add: one_holder_lock)
qed (auto intro!: one_holder_same simp: holds_lock_def)

lemma sf_steps_one_holder: "sf_steps ops ttl s s' \<Longrightarrow> one_holder (fst (snd s)) \<Longrightarrow> one_holder (fst (snd s'))"
  by (induction rule: rtranclp_induct) (auto dest: sf_step_one_holder)

text \<open>Any cache that meets the contract, holding responses or nothing.\<close>

locale idempotent_cache =
  cache inv live deadline get set add delete
  for inv :: "'s \<Rightarrow> bool"
    and live :: "rat \<Rightarrow> 's \<Rightarrow> string \<Rightarrow> 'v option option"
    and deadline :: "rat \<Rightarrow> rat option \<Rightarrow> 's \<Rightarrow> rat option"
    and get :: "rat \<Rightarrow> string \<Rightarrow> 'v option \<Rightarrow> 's \<Rightarrow> 'v option \<times> 's"
    and set :: "rat \<Rightarrow> string \<Rightarrow> 'v option \<Rightarrow> rat option \<Rightarrow> 's \<Rightarrow> 's"
    and add :: "rat \<Rightarrow> string \<Rightarrow> 'v option \<Rightarrow> rat option \<Rightarrow> 's \<Rightarrow> bool \<times> 's"
    and delete :: "string \<Rightarrow> 's \<Rightarrow> bool \<times> 's"
begin

lemma inv_get_pair: "get now k d c = (v, c') \<Longrightarrow> inv c \<Longrightarrow> inv c'"
  using inv_get [of c now k d] by simp

lemma replay_live:
  assumes "inv (qs_cache s)" "live (env_now env w) (qs_cache s) key = Some (Some v)"
  shows "\<exists>s'. get_or_compute \<lparr>co_get = get, co_set = set\<rparr> env h key factory s w = (Inr (Some v), s', w)"
  using get_value [OF assms(1), of "env_now env w" key None] assms(2)
  by (auto simp: get_or_compute_def split: prod.split)

lemma compute_fresh:
  assumes "inv (qs_cache s)" "live (env_now env w) (qs_cache s) key = None"
    and "get_or_compute \<lparr>co_get = get, co_set = set\<rparr> env h key factory s w = (Inr (Some v), s', w')"
  shows "\<exists>c. inv c \<and> qs_cache s' = set (env_now env w') key (Some v) (Some (of_int (qh_idempotency_ttl_s h))) c"
proof -
  obtain c1 where c1: "get (env_now env w) key None (qs_cache s) = (None, c1)" "inv c1"
    using get_value [OF assms(1), of "env_now env w" key None] assms(2) inv_get [OF assms(1), of "env_now env w" key None]
    by (cases "get (env_now env w) key None (qs_cache s)") auto
  have "live (env_now env w) c1 key = None"
    using get_live [OF assms(1), of "env_now env w" "env_now env w" key None key] assms(2) c1(1) by simp
  then obtain c2 where c2: "get (env_now env w) key None c1 = (None, c2)" "inv c2"
    using get_value [OF c1(2), of "env_now env w" key None] inv_get [OF c1(2), of "env_now env w" key None]
    by (cases "get (env_now env w) key None c1") auto
  show ?thesis
    using assms(3) c1 c2
    by (auto simp: get_or_compute_def Let_def split: prod.splits sum.splits option.splits)
qed

lemma sf_step_inv: "sf_step \<lparr>co_get = get, co_set = set\<rparr> ttl s s' \<Longrightarrow> inv (fst s) \<Longrightarrow> inv (fst s')"
  by (induction rule: sf_step.induct) (auto dest: inv_get_pair intro: inv_set)

lemma sf_steps_inv: "sf_steps \<lparr>co_get = get, co_set = set\<rparr> ttl s s' \<Longrightarrow> inv (fst s) \<Longrightarrow> inv (fst s')"
  by (induction rule: rtranclp_induct) (auto dest: sf_step_inv)

lemma sf_step_live:
  assumes "sf_step \<lparr>co_get = get, co_set = set\<rparr> ttl (c, ts, clk) (c', ts', now)" "inv c"
    and "live now c k = Some (Some v)" "i < length ts" "ts ! i = (k, p)" "p = Asking \<or> p = Locked"
    and "ts' ! i \<noteq> ts ! i"
  shows "ts' ! i = (k, Served (Some v)) \<or> ts' ! i = (k, Raised)"
proof -
  have "fst (get now k None c) = Some v"
    using get_value [OF assms(2)] assms(3) by simp
  with assms(1,4-7) show ?thesis
    by (cases rule: sf_step.cases) (auto simp: nth_list_update nth_append split: if_splits)
qed

end

interpretation replay: idempotent_cache lru_inv lru_live lru_expires_at lru_get lru_set lru_add lru_delete ..

section \<open>Properties\<close>

text \<open>
  C16. One execution at a time per idempotency key. However requests arrive, find or miss
  the cached response, queue, run, fail or are cancelled, two requests with the same key never run
  their handlers at the same time; and while a response for the key is alive in the cache no
  request starts its handler: one that asks, first or under the lock, is served that response.
\<close>

theorem singleflight:
  assumes "sf_steps lru_ops ttl (c0, [], clk0) (c, ts, clk)" "lru_inv c0"
  shows "(\<forall>i j. i < length ts \<and> j < length ts \<and> i \<noteq> j \<and> snd (ts ! i) = Computing \<and> snd (ts ! j) = Computing
      \<longrightarrow> fst (ts ! i) \<noteq> fst (ts ! j))
    \<and> (\<forall>k v i p c' ts' now. lru_live now c k = Some (Some v) \<and> i < length ts \<and> ts ! i = (k, p)
        \<and> (p = Asking \<or> p = Locked) \<and> sf_step lru_ops ttl (c, ts, clk) (c', ts', now) \<and> ts' ! i \<noteq> ts ! i
      \<longrightarrow> ts' ! i = (k, Served (Some v)) \<or> ts' ! i = (k, Raised))"
proof -
  have "one_holder ts"
    using sf_steps_one_holder [OF assms(1)] by (simp add: one_holder_def)
  then have 1: "\<forall>i j. i < length ts \<and> j < length ts \<and> i \<noteq> j \<and> snd (ts ! i) = Computing \<and> snd (ts ! j) = Computing
      \<longrightarrow> fst (ts ! i) \<noteq> fst (ts ! j)"
    by (simp add: one_holder_def holds_lock_def)
  have "lru_inv c"
    using replay.sf_steps_inv [OF assms(1) [unfolded lru_ops_def]] assms(2) by simp
  from replay.sf_step_live [OF _ this, folded lru_ops_def] 1 show ?thesis by blast
qed

lemma two_requests: "sf_steps (lru_ops :: (int option lru, int) cache_ops) 60 (new_lru 2 60, [], 0)
    (new_lru 2 60, [(''k'', Computing), (''k'', Queued)], 0)"
proof -
  let ?c = "new_lru 2 60 :: int option lru"
  note step = converse_rtranclp_into_rtranclp [of "sf_step lru_ops 60"]
  have get: "co_get lru_ops 0 ''k'' None ?c = (None, ?c)"
    by (simp add: lru_ops_def new_lru_def lru_get_def lru_get_unlocked_def)
  have "sf_step lru_ops 60 (?c, [], 0) (?c, [(''k'', Asking)], 0)"
    using arrive [of 0 0 lru_ops 60 ?c "[]"] by simp
  moreover have "sf_step lru_ops 60 (?c, [(''k'', Asking)], 0) (?c, [(''k'', Asking), (''k'', Asking)], 0)"
    using arrive [of 0 0 lru_ops 60 ?c "[(''k'', Asking)]"] by simp
  moreover have "sf_step lru_ops 60 (?c, [(''k'', Asking), (''k'', Asking)], 0) (?c, [(''k'', Queued), (''k'', Asking)], 0)"
    using miss [OF _ _ _ get, of 0 0 "[(''k'', Asking), (''k'', Asking)]"] by simp
  moreover have "sf_step lru_ops 60 (?c, [(''k'', Queued), (''k'', Asking)], 0) (?c, [(''k'', Queued), (''k'', Queued)], 0)"
    using miss [OF _ _ _ get, of 0 1 "[(''k'', Queued), (''k'', Asking)]"] by simp
  moreover have "sf_step lru_ops 60 (?c, [(''k'', Queued), (''k'', Queued)], 0) (?c, [(''k'', Locked), (''k'', Queued)], 0)"
    using lock [of 0 0 0 "[(''k'', Queued), (''k'', Queued)]" "''k''" lru_ops 60 ?c]
    by (simp add: lock_free_def holds_lock_def)
  moreover have "sf_step lru_ops 60 (?c, [(''k'', Locked), (''k'', Queued)], 0) (?c, [(''k'', Computing), (''k'', Queued)], 0)"
    using lock_miss [OF _ _ _ get, of 0 0 "[(''k'', Locked), (''k'', Queued)]"] by simp
  ultimately show ?thesis by (meson step rtranclp.rtrancl_refl)
qed

theorem singleflight_witness:
  "\<exists>ts. sf_steps (lru_ops :: (int option lru, int) cache_ops) 60 (new_lru 2 60, [], 0) (new_lru 2 60, ts, 0)
     \<and> length ts = 2 \<and> snd (ts ! 0) = Computing \<and> snd (ts ! 1) \<noteq> Computing"
proof -
  have "lru_inv (new_lru 2 60 :: int option lru)" by (simp add: lru_inv_def new_lru_def)
  from singleflight [OF two_requests this]
  have "snd ([(''k'', Computing), (''k'', Queued :: int flight)] ! 1) \<noteq> Computing"
    by (metis (no_types, lifting) One_nat_def fst_conv length_Cons lessI list.size(3) nth_Cons_0 nth_Cons_Suc
        snd_conv flight.distinct)
  with two_requests show ?thesis by (intro exI [of _ "[(''k'', Computing), (''k'', Queued)]"]) simp
qed


definition keyed :: "string \<Rightarrow> rpc_request" where
  "keyed method = empty_request\<lparr>rq_method := method,
     rq_qos := Some (RawQos (PDict [(''idempotency_key'', PStr ''k''), (''idempotency_ttl_s'', PInt 1)]))\<rparr>"

definition still_env :: "(rat \<times> nat) env" where
  "still_env = \<lparr>env_now = fst, env_sleep = (\<lambda>d (t, n). (t + d, n)), env_random = (\<lambda>w. (0, w))\<rparr>"


text \<open>
  A request without retries and without an idempotency key is over by its timeout, which is
  the one it asks for, cut to five minutes, or the handler's default, provided the handler lets itself be
  cancelled; a handler that was cancelled is answered with \<open>RPC_TIMEOUT\<close>, as is one that raises a
  \<open>TimeoutError\<close> of its own long before; every other outcome passes unchanged.
\<close>

theorem qos_deadline:
  assumes "Option.bind (extract_qos r) qc_retry = None"
    and "or_empty (Option.bind (extract_qos r) qc_idempotency_key) = []"
    and "limit = effective_timeout_ms h (extract_qos r)" "due = env_now env w + of_int limit / 1000"
    and "job (Some due) w = (res, w')" "env_now env w' \<le> max due (env_now env w)"
  shows "\<exists>res'. handle_request ops env show_s h r job s w = (res', s, w')
    \<and> env_now env w' \<le> env_now env w + max 0 (of_int limit / 1000)
    \<and> (resolve_timeout_ms (extract_qos r) \<noteq> None \<longrightarrow> limit \<le> 300000)
    \<and> (case res of
         Inr v \<Rightarrow> res' = Inr v
       | Inl e \<Rightarrow>
           if (exn_class e = CancelledError \<and> due \<le> env_now env w') \<or> isinstance_exn e TimeoutError
           then \<exists>e'. res' = Inl e' \<and> exn_code e' = 5003 \<and> isinstance_exn e' RpcTimeoutError
           else res' = Inl e)"
proof -
  define res' where "res' = fst (handle_request ops env show_s h r job s w)"
  have run: "handle_request ops env show_s h r job s w = (res', s, w')"
    and res': "res' = (case res of
      Inl e \<Rightarrow> Inl (let e' = (if exn_class e = CancelledError \<and> due \<le> env_now env w'
                             then Exn TimeoutError 0 [] PNone (Some e) else e)
                   in if isinstance_exn e' TimeoutError then timed_out show_s (of_int limit / 1000) else e')
    | Inr v \<Rightarrow> Inr v)"
    using assms(1-5) unfolding res'_def
    by (auto simp: handle_request_def execute_with_retry_def execute_with_timeout_def timeout_scope_def Let_def
        split: sum.splits)
  have "resolve_timeout_ms (extract_qos r) \<noteq> None \<longrightarrow> limit \<le> 300000"
    by (auto simp: assms(3) effective_timeout_ms_def resolve_timeout_ms_def MAX_TIMEOUT_MS_def split: option.splits)
  moreover have "env_now env w' \<le> env_now env w + max 0 (of_int limit / 1000)"
    using assms(4,6) by (auto simp: max_def split: if_splits)
  moreover have "exn_code (timed_out show_s x) = 5003 \<and> isinstance_exn (timed_out show_s x) RpcTimeoutError" for x
    by (simp add: timed_out_def isinstance_exn_def is_subclass_def)
  moreover have "isinstance_exn (Exn TimeoutError 0 [] PNone c) TimeoutError" for c
    by (simp add: isinstance_exn_def is_subclass_def)
  ultimately show ?thesis
    using run res' by (cases res) (auto simp: Let_def)
qed

theorem qos_deadline_witness:
  "\<exists>e. handle_request lru_ops still_env (\<lambda>_. []) (new_qos_handler None None) empty_request
       (\<lambda>due (t, n). case due of Some d \<Rightarrow> (Inl cancellation, (d, n)) | None \<Rightarrow> (Inr (Some (7 :: int)), (t, n)))
       \<lparr>qs_cache = new_lru 2 60, qs_locks = []\<rparr> (0, 0)
     = (Inl e, \<lparr>qs_cache = new_lru 2 60, qs_locks = []\<rparr>, (30, 0)) \<and> exn_code e = 5003"
proof -
  let ?job = "\<lambda>due (t, n :: nat). case due of Some d \<Rightarrow> (Inl cancellation, (d :: rat, n)) | None \<Rightarrow> (Inr (Some (7 :: int)), (t, n))"
  have "Option.bind (extract_qos empty_request) qc_retry = None"
    "or_empty (Option.bind (extract_qos empty_request) qc_idempotency_key) = []"
    "(30000 :: int) = effective_timeout_ms (new_qos_handler None None) (extract_qos empty_request)"
    "(30 :: rat) = env_now still_env (0, 0) + of_int 30000 / 1000"
    by (simp_all add: extract_qos_def empty_request_def effective_timeout_ms_def resolve_timeout_ms_def
        new_qos_handler_def DEFAULT_TIMEOUT_MS_def still_env_def)
  from qos_deadline [where job = ?job, OF this, of "Inl cancellation" "(30, 0)" lru_ops "\<lambda>_. []"
      "\<lparr>qs_cache = new_lru 2 60, qs_locks = []\<rparr>"]
  show ?thesis by (auto simp: still_env_def cancellation_def)
qed

end
