(* ===== verification/Serving.thy ===== *)
theory Serving
  imports Mtls Discovery
begin

text \<open>
  Running a server for an instance (\<open>discover/service/aduibrpc_service_factory.py\<close>), what is made of its TLS
  configuration, how a server is stopped (\<open>app.py\<close>), and the import of service modules
  (\<open>utils/service_loader.py\<close>). Handlers, sockets and the servers' own loops are outcomes of the environment.
\<close>

section \<open>Importing services\<close>

text \<open>
  \<open>imp p\<close> is what importing \<open>p\<close> comes to: an exception, a module without a path, or a package with its
  submodules and whether each can be imported. The result lists what was imported.
\<close>

datatype import_outcome = Import_failed | Plain_module | Package "(string \<times> bool) list"

definition submodules_of :: "string \<Rightarrow> (string \<times> bool) list \<Rightarrow> string list" where
  "submodules_of p mods = map (\<lambda>(m, _). p @ CHR ''.'' # m) (filter snd mods)"

fun import_service_modules :: "(string \<Rightarrow> import_outcome) \<Rightarrow> string list \<Rightarrow> string list" where
  "import_service_modules imp [] = []"
| "import_service_modules imp (p # ps) =
     (if p = [] then import_service_modules imp ps
      else (case imp p of
              Import_failed \<Rightarrow> []
            | Plain_module \<Rightarrow> [p]
            | Package mods \<Rightarrow> p # submodules_of p mods @ import_service_modules imp ps))"

section \<open>TLS of the servers\<close>

definition path_bytes :: "(string \<Rightarrow> exn + string) \<Rightarrow> string option \<Rightarrow> exn + string" where
  "path_bytes read p = (case p of None \<Rightarrow> Inl (Exn TypeError 0 [] PNone None) | Some x \<Rightarrow> read x)"

record grpc_credentials =
  gc_key :: string
  gc_chain :: string
  gc_roots :: "string option"
  gc_require :: bool

definition build_grpc_credentials :: "(string \<Rightarrow> exn + string) \<Rightarrow> server_tls_config \<Rightarrow> exn + grpc_credentials" where
  "build_grpc_credentials read t =
     bind_ok (path_bytes read (st_server_cert_path t)) (\<lambda>chain.
     bind_ok (path_bytes read (st_server_key_path t)) (\<lambda>key.
       if st_client_cert_verification t \<noteq> CERT_NONE then
         (case st_ca_cert_path t of
            None \<Rightarrow> Inl (value_error_of ''ca_cert_path is required when client cert verification is enabled'')
          | Some ca \<Rightarrow>
              bind_ok (read ca) (\<lambda>roots.
                Inr \<lparr>gc_key = key, gc_chain = chain, gc_roots = Some roots,
                     gc_require = (st_client_cert_verification t = CERT_REQUIRED)\<rparr>))
       else Inr \<lparr>gc_key = key, gc_chain = chain, gc_roots = None, gc_require = False\<rparr>))"

definition verify_mode_value :: "verify_mode \<Rightarrow> int" where
  "verify_mode_value m = (case m of CERT_NONE \<Rightarrow> 0 | CERT_OPTIONAL \<Rightarrow> 1 | CERT_REQUIRED \<Rightarrow> 2)"

definition path_text :: "string option \<Rightarrow> pyval" where
  "path_text p = PStr (case p of None \<Rightarrow> ''None'' | Some s \<Rightarrow> s)"

definition build_uvicorn_ssl_kwargs :: "server_tls_config option \<Rightarrow> (string, pyval) dict" where
  "build_uvicorn_ssl_kwargs tls =
     (case tls of
        None \<Rightarrow> []
      | Some t \<Rightarrow>
          [(''ssl_certfile'', path_text (st_server_cert_path t)), (''ssl_keyfile'', path_text (st_server_key_path t))]
          @ (case st_server_key_password t of Some (c # cs) \<Rightarrow> [(''ssl_keyfile_password'', PStr (c # cs))] | _ \<Rightarrow> [])
          @ (case st_ca_cert_path t of Some p \<Rightarrow> [(''ssl_ca_certs'', PStr p)] | None \<Rightarrow> [])
          @ [(''ssl_cert_reqs'', PInt (verify_mode_value (st_client_cert_verification t)))]
          @ (case st_ciphers t of Some (c # cs) \<Rightarrow> [(''ssl_ciphers'', PStr (c # cs))] | _ \<Rightarrow> []))"

section \<open>The factory\<close>

text \<open>
  \<open>tm_start\<close>, \<open>tm_stop\<close>, \<open>tm_shutdown\<close>: \<open>None\<close> when the task manager has no such method, otherwise how calling
  it ends. \<open>so_prepare\<close>: an exception while handlers, credentials and sockets are made, or the server started.
  \<open>so_serve\<close>: how serving ends. \<open>so_server_stop n\<close>: how the \<open>n\<close>th call of the server's \<open>stop\<close> ends.
\<close>

record surroundings_of_server =
  tm_start :: "exn option option"
  tm_stop :: "exn option option"
  tm_shutdown :: "exn option option"
  so_prepare :: "exn option"
  so_serve :: "exn option"
  so_server_stop :: "nat \<Rightarrow> exn option"

record service_factory =
  fa_scheme :: transport_scheme
  fa_has_tasks :: bool
  fa_tasks_started :: bool
  fa_tasks_running :: bool
  fa_server :: bool
  fa_stops :: nat

definition new_factory :: "transport_scheme \<Rightarrow> bool \<Rightarrow> service_factory" where
  "new_factory scheme managed =
     \<lparr>fa_scheme = scheme, fa_has_tasks = managed, fa_tasks_started = False, fa_tasks_running = False, fa_server = False,
      fa_stops = 0\<rparr>"

text \<open>The flag is set before the manager is started, so a start that raises is not tried again.\<close>

definition ensure_task_manager_started :: "surroundings_of_server \<Rightarrow> service_factory \<Rightarrow> exn option \<times> service_factory" where
  "ensure_task_manager_started so f =
     (if \<not> fa_has_tasks f \<or> fa_tasks_started f then (None, f)
      else (case tm_start so of
              None \<Rightarrow> (None, f\<lparr>fa_tasks_started := True\<rparr>)
            | Some None \<Rightarrow> (None, f\<lparr>fa_tasks_started := True, fa_tasks_running := True\<rparr>)
            | Some (Some e) \<Rightarrow> (Some e, f\<lparr>fa_tasks_started := True\<rparr>)))"

text \<open>A method that raises an \<open>Exception\<close> is logged; anything else is passed on.\<close>

definition call_shutdown :: "surroundings_of_server \<Rightarrow> service_factory \<Rightarrow> exn option \<times> service_factory" where
  "call_shutdown so f =
     (case tm_shutdown so of
        None \<Rightarrow> (None, f)
      | Some None \<Rightarrow> (None, f\<lparr>fa_tasks_running := False\<rparr>)
      | Some (Some e) \<Rightarrow> (if isinstance_exn e PyException then None else Some e, f))"

definition stop_task_manager :: "surroundings_of_server \<Rightarrow> service_factory \<Rightarrow> exn option \<times> service_factory" where
  "stop_task_manager so f =
     (if \<not> fa_has_tasks f \<or> \<not> fa_tasks_started f then (None, f)
      else (let (r, f1) =
                  (case tm_stop so of
                     Some None \<Rightarrow> (None, f\<lparr>fa_tasks_running := False\<rparr>)
                   | Some (Some e) \<Rightarrow> if isinstance_exn e PyException then call_shutdown so f else (Some e, f)
                   | None \<Rightarrow> call_shutdown so f)
            in (r, f1\<lparr>fa_tasks_started := False\<rparr>)))"

text \<open>\<open>finally\<close>: what the clean-up raises takes the place of what went before.\<close>

definition finally_stop :: "surroundings_of_server \<Rightarrow> exn option \<times> service_factory \<Rightarrow> exn option \<times> service_factory" where
  "finally_stop so res =
     (case stop_task_manager so (snd res) of (Some e, f) \<Rightarrow> (Some e, f) | (None, f) \<Rightarrow> (fst res, f))"

text \<open>JSON-RPC, REST and Thrift.\<close>

definition run_plain_server :: "surroundings_of_server \<Rightarrow> service_factory \<Rightarrow> exn option \<times> service_factory" where
  "run_plain_server so f =
     (case so_prepare so of
        Some e \<Rightarrow> (Some e, f)
      | None \<Rightarrow> finally_stop so (so_serve so, f\<lparr>fa_server := True\<rparr>))"

definition stop_server :: "surroundings_of_server \<Rightarrow> service_factory \<Rightarrow> exn option \<times> service_factory" where
  "stop_server so f = (so_server_stop so (fa_stops f), f\<lparr>fa_stops := Suc (fa_stops f)\<rparr>)"

text \<open>The \<open>try\<close> around \<open>wait_for_termination\<close> up to the clean-up of tasks: a cancelled server is stopped.\<close>

definition await_termination :: "surroundings_of_server \<Rightarrow> service_factory \<Rightarrow> exn option \<times> bool \<times> service_factory" where
  "await_termination so f =
     (case so_serve so of
        Some e \<Rightarrow>
          if isinstance_exn e CancelledError
          then (case stop_server so f of (None, f1) \<Rightarrow> (Some e, True, f1) | (Some e', f1) \<Rightarrow> (Some e', False, f1))
          else (Some e, False, f)
      | None \<Rightarrow> (None, False, f))"

definition run_grpc_server :: "surroundings_of_server \<Rightarrow> service_factory \<Rightarrow> exn option \<times> service_factory" where
  "run_grpc_server so f =
     (case so_prepare so of
        Some e \<Rightarrow> (Some e, f)
      | None \<Rightarrow>
          (let (r, stopped, f1) = await_termination so (f\<lparr>fa_server := True\<rparr>) in
           if stopped then finally_stop so (r, f1)
           else (case stop_server so f1 of
                   (Some e, f2) \<Rightarrow> if isinstance_exn e PyException then finally_stop so (r, f2) else (Some e, f2)
                 | (None, f2) \<Rightarrow> finally_stop so (r, f2))))"

definition run_server :: "surroundings_of_server \<Rightarrow> service_factory \<Rightarrow> exn option \<times> service_factory" where
  "run_server so f =
     (case ensure_task_manager_started so f of
        (Some e, f1) \<Rightarrow> (Some e, f1)
      | (None, f1) \<Rightarrow>
          (case fa_scheme f1 of
             GRPC \<Rightarrow> run_grpc_server so f1
           | JSONRPC \<Rightarrow> run_plain_server so f1
           | HTTP \<Rightarrow> run_plain_server so f1
           | THRIFT \<Rightarrow> run_plain_server so f1
           | _ \<Rightarrow> (Some (value_error_of ''Unsupported transport scheme''), f1)))"

definition servable :: "transport_scheme \<Rightarrow> bool" where
  "servable s \<longleftrightarrow> s = GRPC \<or> s = JSONRPC \<or> s = HTTP \<or> s = THRIFT"

section \<open>Stopping from outside\<close>

text \<open>What a server object offers: methods with how they end, and a flag.\<close>

record server_object =
  sv_stop :: "exn option option"
  sv_shutdown :: "exn option option"
  sv_has_flag :: bool

datatype stop_way = No_server | By_stop | By_shutdown | By_flag | Not_at_all

definition stop_factory :: "server_object option \<Rightarrow> exn + stop_way" where
  "stop_factory server =
     (case server of
        None \<Rightarrow> Inr No_server
      | Some s \<Rightarrow>
          (let by_flag = Inr (if sv_has_flag s then By_flag else Not_at_all);
               by_shutdown =
                 (case sv_shutdown s of
                    None \<Rightarrow> by_flag
                  | Some None \<Rightarrow> Inr By_shutdown
                  | Some (Some e) \<Rightarrow> if isinstance_exn e PyException then by_flag else Inl e)
           in (case sv_stop s of
                 None \<Rightarrow> by_shutdown
               | Some None \<Rightarrow> Inr By_stop
               | Some (Some e) \<Rightarrow> if isinstance_exn e PyException then by_shutdown else Inl e)))"

section \<open>Properties\<close>

lemma stop_task_manager_flag: "fa_has_tasks f \<Longrightarrow> \<not> fa_tasks_started (snd (stop_task_manager so f))"
  by (simp add: stop_task_manager_def split: prod.split)

lemma stop_task_manager_running:
  "fa_has_tasks f \<Longrightarrow> fa_tasks_started f \<Longrightarrow> tm_stop so = Some None \<or> tm_stop so = None \<and> tm_shutdown so = Some None
    \<Longrightarrow> \<not> fa_tasks_running (snd (stop_task_manager so f))"
  by (auto simp: stop_task_manager_def call_shutdown_def)

lemma finally_stop_snd [simp]: "snd (finally_stop so res) = snd (stop_task_manager so (snd res))"
  by (simp add: finally_stop_def split: prod.split option.split)

lemma await_same:
  "await_termination so f = (r, st, f1) \<Longrightarrow> fa_has_tasks f1 = fa_has_tasks f \<and> fa_tasks_started f1 = fa_tasks_started f"
  by (auto simp: await_termination_def stop_server_def split: option.splits if_splits prod.splits)

text \<open>What holds after the tasks' clean-up whatever it is run on.\<close>

definition tasks_over :: "surroundings_of_server \<Rightarrow> service_factory \<Rightarrow> bool" where
  "tasks_over so f \<longleftrightarrow> \<not> fa_tasks_started f
     \<and> (tm_stop so = Some None \<or> tm_stop so = None \<and> tm_shutdown so = Some None \<longrightarrow> \<not> fa_tasks_running f)"

lemma tasks_over_finally:
  "fa_has_tasks (snd res) \<Longrightarrow> fa_tasks_started (snd res) \<Longrightarrow> tasks_over so (snd (finally_stop so res))"
  using stop_task_manager_flag stop_task_manager_running by (simp add: tasks_over_def)


definition calm_surroundings :: surroundings_of_server where
  "calm_surroundings =
     \<lparr>tm_start = Some None, tm_stop = Some None, tm_shutdown = None, so_prepare = None, so_serve = None,
      so_server_stop = (\<lambda>_. None)\<rparr>"


text \<open>
  Services are imported up to the first module that is not a package or cannot be imported;
  the names after it make no difference. Only when all names are packages are all their submodules imported.
\<close>

theorem imports_stop:
  "(imp m = Import_failed \<or> imp m = Plain_module \<longrightarrow> m \<noteq> []
      \<longrightarrow> import_service_modules imp (ps @ m # qs) = import_service_modules imp (ps @ [m]))
   \<and> ((\<forall>p \<in> set ps. \<exists>mods. p \<noteq> [] \<and> imp p = Package mods)
      \<longrightarrow> import_service_modules imp ps
          = concat (map (\<lambda>p. p # (case imp p of Package mods \<Rightarrow> submodules_of p mods | _ \<Rightarrow> [])) ps))"
proof
  show "imp m = Import_failed \<or> imp m = Plain_module \<longrightarrow> m \<noteq> []
      \<longrightarrow> import_service_modules imp (ps @ m # qs) = import_service_modules imp (ps @ [m])"
    by (induction ps) (auto split: import_outcome.split)
  show "(\<forall>p \<in> set ps. \<exists>mods. p \<noteq> [] \<and> imp p = Package mods)
      \<longrightarrow> import_service_modules imp ps
          = concat (map (\<lambda>p. p # (case imp p of Package mods \<Rightarrow> submodules_of p mods | _ \<Rightarrow> [])) ps)"
    by (induction ps) (auto split: import_outcome.split)
qed

theorem imports_stop_witness:
  "import_service_modules (\<lambda>m. Plain_module) [''services.user'', ''services.order''] = [''services.user'']"
  using imports_stop [of "\<lambda>m. Plain_module" "''services.user''" "[]" "[''services.order'']"] by simp

text \<open>
  The gRPC server takes from its TLS configuration the certificate, the key and the client's
  certificate authority: the key's password, the versions and the ciphers make no difference to it, nor do the
  versions to the HTTP servers. It demands a client certificate exactly when that is required.
\<close>

theorem grpc_tls_partial:
  "build_grpc_credentials read (t\<lparr>st_server_key_password := pw, st_minimum_version := lo, st_maximum_version := hi, st_ciphers := cs\<rparr>)
     = build_grpc_credentials read t
   \<and> build_uvicorn_ssl_kwargs (Some (t\<lparr>st_minimum_version := lo, st_maximum_version := hi\<rparr>)) = build_uvicorn_ssl_kwargs (Some t)
   \<and> (case build_grpc_credentials read t of
        Inl e \<Rightarrow> True
      | Inr c \<Rightarrow> gc_require c = (st_client_cert_verification t = CERT_REQUIRED)
          \<and> (gc_roots c = None) = (st_client_cert_verification t = CERT_NONE))"
  by (auto simp: build_grpc_credentials_def build_uvicorn_ssl_kwargs_def bind_ok_def split: sum.split option.split)

end
