(* ===== verification/Rpc_App.thy ===== *)
theory Rpc_App
  imports Config_Models Qos_Handler Serving
begin

text \<open>
  The application (\<open>app.py\<close>): the interceptors a server gets from its configuration, and \<open>run_serve\<close>, which
  reads the configuration, makes and registers the instance, finds it again and starts its server. What the
  constructors of interceptors, the registry, configuration sources and servers come to is a parameter.
\<close>

section \<open>The interceptors of a server\<close>

text \<open>The configuration while the program runs: what a file gives, and whether audit logging is on.\<close>

record 'r running_config = "'r aduib_config" +
  rn_audit_enabled :: bool

text \<open>
  What the constructors give: \<open>Inl\<close> is what importing or building the interceptor raises. \<open>ik_audit_config\<close> is what
  building the audit configuration raises.
\<close>

record ('r, 'w) interceptor_kit =
  ik_resilience_on :: "'r \<Rightarrow> bool"
  ik_version :: "string list \<Rightarrow> string \<Rightarrow> 'w interceptor"
  ik_otel :: "exn + 'w interceptor"
  ik_resilience :: "'r \<Rightarrow> exn + 'w interceptor"
  ik_qos :: "qos_handler \<Rightarrow> exn + 'w interceptor"
  ik_audit_config :: "exn option"
  ik_security :: "security_config \<Rightarrow> exn + 'w interceptor"
  ik_audit :: "exn + 'w interceptor"
  ik_tenant :: "'w interceptor"
  ik_default_qos :: "'w interceptor"

text \<open>An interceptor that cannot be built is logged and left out.\<close>

definition attempted :: "bool \<Rightarrow> exn + 'a \<Rightarrow> exn + 'a list" where
  "attempted wanted_it r =
     (if wanted_it then
        (case r of Inr i \<Rightarrow> Inr [i] | Inl e \<Rightarrow> if isinstance_exn e PyException then Inr [] else Inl e)
      else Inr [])"

definition security_part :: "('r, 'w) interceptor_kit \<Rightarrow> security_config \<Rightarrow> exn + 'w interceptor list" where
  "security_part kit sec =
     (if sc_rbac_enabled sec \<or> sc_audit_enabled sec \<or> sc_require_auth sec then
        (case ik_security kit sec of
           Inr i \<Rightarrow> Inr [i]
         | Inl e \<Rightarrow>
             if \<not> isinstance_exn e PyException then Inl e
             else if sc_require_auth sec
             then Inl (Exn RuntimeError 0 ''Security interceptor is required (require_auth=True)'' PNone (Some e))
             else Inr [])
      else Inr [])"

definition audit_config_made :: "('r, 'w) interceptor_kit \<Rightarrow> exn + bool" where
  "audit_config_made kit =
     (case ik_audit_config kit of
        None \<Rightarrow> Inr True
      | Some e \<Rightarrow> if isinstance_exn e PyException then Inr False else Inl e)"

definition build_default_interceptors ::
  "('r, 'w) interceptor_kit \<Rightarrow> 'r running_config \<Rightarrow> exn + 'w interceptor list" where
  "build_default_interceptors kit cfg =
     bind_ok (attempted (ad_telemetry_enabled cfg) (ik_otel kit)) (\<lambda>otel.
     bind_ok (attempted (ik_resilience_on kit (ad_resilience cfg)) (ik_resilience kit (ad_resilience cfg))) (\<lambda>res.
     bind_ok (attempted (qc_enabled (ad_qos cfg))
        (ik_qos kit (new_qos_handler (qc_timeout_ms (ad_qos cfg)) (Some (qc_idempotency_ttl_s (ad_qos cfg)))))) (\<lambda>qos.
     bind_ok (audit_config_made kit) (\<lambda>made.
     bind_ok (security_part kit (fst (ad_security cfg))) (\<lambda>sec.
     bind_ok (attempted (rn_audit_enabled cfg \<and> made) (ik_audit kit)) (\<lambda>aud.
       Inr (new_chain (ik_version kit (fst (ad_protocol cfg)) (snd (ad_protocol cfg))
              # otel @ res @ qos @ sec @ aud @ [ik_tenant kit, ik_default_qos kit]))))))))"

section \<open>Serving\<close>

datatype serve_mode = DISCOVERY_ONLY | REGISTRATION_ONLY | REGISTRATION_AND_DISCOVERY

datatype 'c config_arg = No_config | Config_file string | Config_object 'c

record 'r serve_args =
  sa_mode :: serve_mode
  sa_service_name :: string
  sa_modules :: "string list"
  sa_auto_load :: bool
  sa_host :: string
  sa_port :: int
  sa_scheme :: Discovery.transport_scheme
  sa_weight :: int
  sa_metadata :: "(string, string) dict"
  sa_registry_type :: string
  sa_config :: "'r running_config config_arg"
  sa_source :: "string option"
  sa_task_enable :: bool
  sa_task_config :: bool
  sa_policy :: lb_policy

text \<open>
  The environment. \<open>ev_listed\<close> is what a registry with the given services lists, as it is or behind health
  checks; \<open>ev_text\<close> the fields of an instance as texts.
\<close>

record ('r, 'w) serve_env =
  ev_default :: "'r running_config"
  ev_load :: "string \<Rightarrow> exn + 'r running_config"
  ev_source :: "string \<Rightarrow> 'r running_config \<Rightarrow> exn + 'r running_config"
  ev_uuid :: string
  ev_now_ms :: int
  ev_text :: "service_instance \<Rightarrow> (string, string) dict"
  ev_methods :: "method_descriptor list"
  ev_registry :: "string \<Rightarrow> exn option"
  ev_health_start :: "exn option"
  ev_register :: "service_instance \<Rightarrow> services \<Rightarrow> exn option \<times> services"
  ev_listed :: "bool \<Rightarrow> string \<Rightarrow> services \<Rightarrow> exn + service_instance list"
  ev_tasks :: "exn option"
  ev_lib :: lb_lib
  ev_ip_kind :: "string \<Rightarrow> (bool \<times> bool) option"
  ev_import :: "string \<Rightarrow> import_outcome"
  ev_kit :: "('r, 'w) interceptor_kit"
  ev_server :: surroundings_of_server

text \<open>
  What serving changes: the registry, the runtime's configuration, the service's own entry, the configurations
  health checks were started with, the imported modules, and the interceptors and TLS configuration of each
  server's factory.
\<close>

record ('r, 'w) serve_world =
  aw_services :: services
  aw_runtime_config :: "'r running_config option"
  aw_service_info :: "service_instance option"
  aw_health :: "health_config list"
  aw_imported :: "string list"
  aw_servers :: "('w interceptor list \<times> server_tls_config option) list"

text \<open>A configuration that cannot be loaded is replaced by the defaults.\<close>

definition initial_config :: "('r, 'w) serve_env \<Rightarrow> 'r running_config config_arg \<Rightarrow> exn + 'r running_config" where
  "initial_config env arg =
     (case arg of
        Config_object c \<Rightarrow> Inr c
      | No_config \<Rightarrow> Inr (ev_default env)
      | Config_file p \<Rightarrow>
          (case ev_load env p of
             Inr c \<Rightarrow> Inr c
           | Inl e \<Rightarrow> if isinstance_exn e PyException then Inr (ev_default env) else Inl e))"

definition serve_config :: "('r, 'w) serve_env \<Rightarrow> 'r serve_args \<Rightarrow> exn + 'r running_config" where
  "serve_config env a =
     bind_ok (initial_config env (sa_config a)) (\<lambda>c.
       case sa_source a of
         Some (x # xs) \<Rightarrow>
           (case ev_source env (x # xs) c of
              Inr c' \<Rightarrow> Inr c'
            | Inl e \<Rightarrow> if isinstance_exn e PyException then Inr c else Inl e)
       | _ \<Rightarrow> Inr c)"

text \<open>Whether the capabilities of a scheme are streaming and bidirectional.\<close>

definition scheme_capabilities :: "Discovery.transport_scheme \<Rightarrow> bool \<times> bool" where
  "scheme_capabilities s =
     (case s of
        GRPC \<Rightarrow> (True, True) | GRPCS \<Rightarrow> (True, True) | THRIFT \<Rightarrow> (False, False) | _ \<Rightarrow> (True, False))"

definition create_instance :: "('r, 'w) serve_env \<Rightarrow> 'r serve_args \<Rightarrow> exn + service_instance" where
  "create_instance env a =
     bind_ok (new_instance (ev_uuid env) None (sa_service_name a) (sa_host a) (sa_port a) (sa_weight a)) (\<lambda>i.
       let i1 = i\<lparr>si_version := ''1.0.0'', si_scheme := sa_scheme a, si_protocol := AduibRpc, si_health := HEALTHY,
                  si_metadata := Some (sa_metadata a), si_registered_at_ms := Some (ev_now_ms env),
                  si_capabilities := Some \<lparr>scap_protocol_versions = [''2.0''],
                    scap_content_types = [''application/json'', ''application/msgpack''],
                    scap_compressions = [''zstd'', ''gzip''], scap_methods = Some (ev_methods env),
                    scap_streaming = fst (scheme_capabilities (sa_scheme a)),
                    scap_bidirectional = snd (scheme_capabilities (sa_scheme a))\<rparr>\<rparr>
       in Inr (i1\<lparr>si_metadata := Some (fold (\<lambda>(k, v). AList.update k v) (sa_metadata a) (ev_text env i1))\<rparr>))"

text \<open>The application's own configuration is still the default one when health checks are switched on.\<close>

definition enable_health_checks :: "('r, 'w) serve_env \<Rightarrow> ('r, 'w) serve_world \<Rightarrow> (exn + bool) \<times> ('r, 'w) serve_world" where
  "enable_health_checks env w =
     (case ev_health_start env of
        None \<Rightarrow> (Inr True, w\<lparr>aw_health := aw_health w @ [ad_health_check (ev_default env)]\<rparr>)
      | Some e \<Rightarrow> (if isinstance_exn e PyException then Inr False else Inl e, w))"

definition registers :: "serve_mode \<Rightarrow> bool" where
  "registers m \<longleftrightarrow> m \<noteq> DISCOVERY_ONLY"

definition app_register ::
  "('r, 'w) serve_env \<Rightarrow> serve_mode \<Rightarrow> service_instance \<Rightarrow> ('r, 'w) serve_world \<Rightarrow> (exn + unit) \<times> ('r, 'w) serve_world" where
  "app_register env m i w =
     (if registers m then
        (case ev_register env i (aw_services w) of
           (None, s) \<Rightarrow> (Inr (), w\<lparr>aw_services := s\<rparr>)
         | (Some e, s) \<Rightarrow> (Inl e, w\<lparr>aw_services := s\<rparr>))
      else (Inr (), w))"

definition task_source :: "('r, 'w) serve_env \<Rightarrow> 'r serve_args \<Rightarrow> exn + bool" where
  "task_source env a =
     (if \<not> sa_task_enable a then Inr False
      else if \<not> sa_task_config a
      then Inl (bad_value ''task_manager_config must be provided if task_manager_enable is True'')
      else (case ev_tasks env of Some e \<Rightarrow> Inl e | None \<Rightarrow> Inr True))"

definition app_discover ::
  "('r, 'w) serve_env \<Rightarrow> 'r serve_args \<Rightarrow> bool \<Rightarrow> services \<Rightarrow> exn + service_instance" where
  "app_discover env a checked s =
     bind_ok (resolve (ev_lib env) (ev_ip_kind env) (new_resolver (Some (sa_policy a)) True True) (sa_service_name a) None
        [ev_listed env checked (sa_service_name a) s]) (\<lambda>found.
       case found of
         None \<Rightarrow> Inl (Exn RuntimeError 0 (''Failed to discover service: '' @ sa_service_name a) PNone None)
       | Some i \<Rightarrow> Inr i)"

definition start_servers ::
  "('r, 'w) serve_env \<Rightarrow> 'r running_config \<Rightarrow> service_instance \<Rightarrow> bool \<Rightarrow> ('r, 'w) serve_world
     \<Rightarrow> (exn + service_factory) \<times> ('r, 'w) serve_world" where
  "start_servers env cfg i tasks_given w =
     (case build_default_interceptors (ev_kit env) cfg of
        Inl e \<Rightarrow> (Inl e, w)
      | Inr is \<Rightarrow>
          (case to_runtime_config (mc_tls (snd (ad_security cfg))) of
             Inl e \<Rightarrow> (Inl e, w)
           | Inr tls \<Rightarrow>
               (case run_server (ev_server env) (new_factory (si_scheme i) tasks_given) of
                  (Some e, f) \<Rightarrow> (Inl e, w\<lparr>aw_servers := aw_servers w @ [(is, tls)]\<rparr>)
                | (None, f) \<Rightarrow> (Inr f, w\<lparr>aw_servers := aw_servers w @ [(is, tls)]\<rparr>))))"

definition serve_bind :: "(exn + 'a) \<times> 'w \<Rightarrow> ('a \<Rightarrow> 'w \<Rightarrow> (exn + 'b) \<times> 'w) \<Rightarrow> (exn + 'b) \<times> 'w" where
  "serve_bind r k = (case r of (Inl e, w) \<Rightarrow> (Inl e, w) | (Inr x, w) \<Rightarrow> k x w)"

text \<open>The result is what remains of the server's factory, when there is a server.\<close>

definition run_serve ::
  "('r, 'w) serve_env \<Rightarrow> 'r serve_args \<Rightarrow> ('r, 'w) serve_world \<Rightarrow> (exn + service_factory option) \<times> ('r, 'w) serve_world" where
  "run_serve env a w =
     serve_bind (serve_config env a, w) (\<lambda>cfg w.
     serve_bind (create_instance env a, w\<lparr>aw_runtime_config := Some cfg\<rparr>) (\<lambda>inst w.
     serve_bind (case ev_registry env (sa_registry_type a) of Some e \<Rightarrow> (Inl e, w) | None \<Rightarrow> (Inr (), w)) (\<lambda>_ w.
     serve_bind (enable_health_checks env w) (\<lambda>checked w.
     serve_bind (app_register env (sa_mode a) inst w) (\<lambda>_ w.
     serve_bind (task_source env a, w) (\<lambda>managed w.
     serve_bind (app_discover env a checked (aw_services w), w) (\<lambda>_ w.
       let w1 = w\<lparr>aw_service_info := Some inst\<rparr>;
           w2 = (if sa_auto_load a
                 then w1\<lparr>aw_imported := aw_imported w1 @ import_service_modules (ev_import env) (sa_modules a)\<rparr> else w1)
       in if registers (sa_mode a)
          then serve_bind (start_servers env cfg inst managed w2) (\<lambda>f w. (Inr (Some f), w))
          else (Inr None, w2))))))))"

section \<open>Security comes first\<close>

text \<open>The orders the interceptors have.\<close>

definition kit_orders :: "('r, 'w) interceptor_kit \<Rightarrow> bool" where
  "kit_orders kit \<longleftrightarrow>
     (\<forall>vs v. ic_order (ik_version kit vs v) = 2) \<and> (\<forall>i. ik_otel kit = Inr i \<longrightarrow> ic_order i = 3)
     \<and> (\<forall>c i. ik_resilience kit c = Inr i \<longrightarrow> ic_order i = 5) \<and> (\<forall>h i. ik_qos kit h = Inr i \<longrightarrow> ic_order i = 6)
     \<and> (\<forall>i. ik_audit kit = Inr i \<longrightarrow> ic_order i = 4) \<and> ic_order (ik_tenant kit) = 1 \<and> ic_order (ik_default_qos kit) = 6"

lemma sort_key_unique_least:
  assumes "filter (\<lambda>x. f x = (0 :: int)) xs = [m]" "\<forall>x \<in> set xs. 0 \<le> f x"
  shows "\<exists>rest. sort_key f xs = m # rest"
proof -
  have m: "m \<in> set (sort_key f xs)" "f m = 0"
    using arg_cong [OF assms(1), of set] by auto
  then obtain y t where y: "sort_key f xs = y # t" by (cases "sort_key f xs") auto
  have "sorted (map f (y # t))" using sorted_sort_key [of f xs] by (simp add: y)
  with m y have "f y \<le> 0" by auto
  moreover have "y \<in> set xs" using arg_cong [OF y, of set] by auto
  ultimately have "f y = 0" using assms(2) by force
  moreover have "filter (\<lambda>x. f x = 0) (y # t) = [m]"
    using sort_key_stable [of f 0 xs] assms(1) by (simp only: y)
  ultimately show ?thesis using y by (auto split: if_splits)
qed

lemma attempted_Inr: "attempted b r = Inr xs \<Longrightarrow> x \<in> set xs \<Longrightarrow> r = Inr x"
  by (auto simp: attempted_def split: if_splits sum.splits)

lemma security_part_Inr:
  "ik_security kit sec = Inr i \<Longrightarrow> sc_rbac_enabled sec \<or> sc_audit_enabled sec \<or> sc_require_auth sec
    \<Longrightarrow> security_part kit sec = Inr [i]"
  by (auto simp: security_part_def)

lemma security_first:
  assumes "build_default_interceptors kit cfg = Inr is" "kit_orders kit"
    and "ik_security kit (fst (ad_security cfg)) = Inr i" "ic_order i = 0"
    and "sc_rbac_enabled (fst (ad_security cfg)) \<or> sc_audit_enabled (fst (ad_security cfg)) \<or> sc_require_auth (fst (ad_security cfg))"
  shows "\<exists>rest. new_chain is = i # rest"
proof -
  obtain otel res qos made aud where parts:
    "attempted (ad_telemetry_enabled cfg) (ik_otel kit) = Inr otel"
    "attempted (ik_resilience_on kit (ad_resilience cfg)) (ik_resilience kit (ad_resilience cfg)) = Inr res"
    "attempted (qc_enabled (ad_qos cfg))
       (ik_qos kit (new_qos_handler (qc_timeout_ms (ad_qos cfg)) (Some (qc_idempotency_ttl_s (ad_qos cfg))))) = Inr qos"
    "attempted (rn_audit_enabled cfg \<and> made) (ik_audit kit) = Inr aud"
    and sorted_is: "is = sort_key ic_order (ik_version kit (fst (ad_protocol cfg)) (snd (ad_protocol cfg))
              # otel @ res @ qos @ [i] @ aud @ [ik_tenant kit, ik_default_qos kit])"
    using assms(1) security_part_Inr [OF assms(3,5)]
    by (auto simp: build_default_interceptors_def bind_ok_Inr new_chain_def)
  note orders = assms(2) [unfolded kit_orders_def]
  have o: "\<forall>x \<in> set otel. ic_order x = 3" "\<forall>x \<in> set res. ic_order x = 5" "\<forall>x \<in> set qos. ic_order x = 6"
    "\<forall>x \<in> set aud. ic_order x = 4"
    using orders attempted_Inr [OF parts(1)] attempted_Inr [OF parts(2)] attempted_Inr [OF parts(3)] attempted_Inr [OF parts(4)]
    by blast+
  then have z: "filter (\<lambda>x. ic_order x = 0) otel = []" "filter (\<lambda>x. ic_order x = 0) res = []"
    "filter (\<lambda>x. ic_order x = 0) qos = []" "filter (\<lambda>x. ic_order x = 0) aud = []"
    by (auto simp: filter_empty_conv)
  have "\<exists>rest. is = i # rest" unfolding sorted_is
    by (rule sort_key_unique_least) (use z o orders assms(4) in auto)
  moreover have "new_chain is = is" unfolding new_chain_def sorted_is by (rule sort_key_id_if_sorted) (rule sorted_sort_key)
  ultimately show ?thesis by simp
qed

text \<open>A request that is aborted or raised on goes past every handler.\<close>

lemma chain_body_aborted: "cx_aborted c \<Longrightarrow> chain_body first tick uuid h ws c = chain_body first tick uuid h' ws c"
  by (simp add: chain_body_def)

lemma first_stops:
  assumes "new_chain is = i # rest" "\<not> cx_aborted c" "ic_enter i c = (e, ws, c1)" "e \<noteq> None \<or> cx_aborted c1"
  shows "chain_execute first tick uuid is h c = chain_execute first tick uuid is h' c"
proof (cases e)
  case None
  with assms have "chain_body first tick uuid h ([] @ ws) c1 = chain_body first tick uuid h' ([] @ ws) c1"
    by (simp add: chain_body_aborted [of c1 first tick uuid h _ h'])
  with assms None show ?thesis by (simp add: chain_execute_def del: append_Nil)
qed (use assms in \<open>simp add: chain_execute_def\<close>)

text \<open>
  C36. Whatever else is switched on and can be built, a server whose security interceptor was
  built and has access control on runs its handler only for anonymous methods and for requests that brought a
  token, got a principal by it and hold the permission their method declares: for any other request the answer,
  and everything the request leaves behind, is the same whatever the handler is.
\<close>

theorem default_chain_guards:
  assumes "build_default_interceptors kit cfg = Inr is" "kit_orders kit"
    and "ik_security kit (fst (ad_security cfg)) = Inr (security_interceptor s)" "sx_config s = fst (ad_security cfg)"
    and "sc_rbac_enabled (sx_config s)" "\<not> cx_aborted c" "\<not> is_anonymous_method (sx_config s) (rq_method (cx_request c))"
  shows "(\<exists>token p q. extract_token (sx_str s) c = Some token
            \<and> (sx_validate s token (rq_method (cx_request c)) c = Inr (Some p)
               \<or> (sx_validate s token (rq_method (cx_request c)) c = Inr None \<and> extract_principal (sx_config s) c = Inr p))
            \<and> permission_for_method s (rq_method (cx_request c)) = Some q
            \<and> sx_check s p q (rq_method (cx_request c)) (audit_if s ''access_attempt'' p [] (set_principal p c)))
         \<or> (\<forall>h h'. chain_execute first tick uuid is h c = chain_execute first tick uuid is h' c)"
proof -
  obtain rest where chain: "new_chain is = security_interceptor s # rest"
    using security_first [OF assms(1-3)] assms(4,5) by (auto simp: security_interceptor_def)
  obtain e ws c1 where enter: "security_enter s c = (e, ws, c1)" by (metis prod_cases3)
  show ?thesis
  proof (cases "e = None \<and> \<not> cx_aborted c1")
    case True
    with security_admits [of s c ws c1] enter assms(5-7) show ?thesis by blast
  next
    case False
    then have "chain_execute first tick uuid is h c = chain_execute first tick uuid is h' c" for h h'
      using first_stops [OF chain assms(6), of e ws c1] enter by (simp add: security_interceptor_def)
    then show ?thesis by blast
  qed
qed

text \<open>
  When the security interceptor cannot be built and authentication is not required, the
  server runs as if access control and audit had been switched off; with authentication required it does not run.
\<close>

theorem broken_security_off:
  assumes "ik_security kit (fst (ad_security cfg)) = Inl e" "isinstance_exn e PyException"
  shows "if sc_require_auth (fst (ad_security cfg)) then \<exists>e'. build_default_interceptors kit cfg = Inl e'
    else build_default_interceptors kit cfg
      = build_default_interceptors kit
          (cfg\<lparr>ad_security := ((fst (ad_security cfg))\<lparr>sc_rbac_enabled := False, sc_audit_enabled := False\<rparr>, snd (ad_security cfg))\<rparr>)"
proof (cases "sc_require_auth (fst (ad_security cfg))")
  case True
  then have "\<exists>e'. security_part kit (fst (ad_security cfg)) = Inl e'" using assms by (simp add: security_part_def)
  then have "\<nexists>is. build_default_interceptors kit cfg = Inr is" by (auto simp: build_default_interceptors_def bind_ok_Inr)
  then have "\<exists>e'. build_default_interceptors kit cfg = Inl e'" by (cases "build_default_interceptors kit cfg") auto
  with True show ?thesis by simp
next
  case False
  then show ?thesis using assms by (simp add: build_default_interceptors_def security_part_def)
qed

section \<open>A sample\<close>

definition plain_interceptor :: "int \<Rightarrow> 'w interceptor" where
  "plain_interceptor n = \<lparr>ic_order = n, ic_enter = (\<lambda>c. (None, [], c)), ic_exit = (\<lambda>e c. (e, c))\<rparr>"

definition sample_kit :: "(exn + 'w interceptor) \<Rightarrow> (unit, 'w) interceptor_kit" where
  "sample_kit sec =
     \<lparr>ik_resilience_on = (\<lambda>_. True), ik_version = (\<lambda>vs v. version_interceptor v), ik_otel = Inl (Exn RuntimeError 0 [] PNone None),
      ik_resilience = (\<lambda>_. Inr (plain_interceptor 5)), ik_qos = (\<lambda>_. Inr (plain_interceptor 6)), ik_audit_config = None,
      ik_security = (\<lambda>_. sec), ik_audit = Inr (plain_interceptor 4), ik_tenant = plain_interceptor 1,
      ik_default_qos = plain_interceptor 6\<rparr>"

definition sample_running :: "unit running_config" where
  "sample_running =
     \<lparr>ad_protocol = ([''2.0''], ''2.0''), ad_client = default_client_config, ad_resilience = (),
      ad_security = (default_security_config, default_mtls), ad_telemetry_enabled = True,
      ad_health_check = default_health_config, ad_qos = default_qos_config, rn_audit_enabled = True\<rparr>"

lemma sample_orders: "(\<And>i. sec = Inr i \<Longrightarrow> ic_order i = 0) \<Longrightarrow> kit_orders (sample_kit sec)"
  by (simp add: kit_orders_def sample_kit_def plain_interceptor_def version_interceptor_def)

lemma sample_builds:
  "\<exists>is. build_default_interceptors (sample_kit (Inr i)) sample_running = Inr is"
  by (simp add: build_default_interceptors_def sample_kit_def sample_running_def attempted_def security_part_def
      audit_config_made_def default_security_config_def isinstance_exn_def is_subclass_def)

theorem default_chain_guards_witness:
  "\<exists>is. build_default_interceptors (sample_kit (Inr (security_interceptor sample_security))) sample_running = Inr is
     \<and> (\<forall>h h'. chain_execute False (\<lambda>_. (0, 0)) ''id'' is h (new_ctx (claim_request ''rpc.v2/Billing/charge'' []) [] None [] False [])
          = chain_execute False (\<lambda>_. (0, 0)) ''id'' is h' (new_ctx (claim_request ''rpc.v2/Billing/charge'' []) [] None [] False []))"
proof -
  let ?kit = "sample_kit (Inr (security_interceptor sample_security))"
  let ?c = "new_ctx (claim_request ''rpc.v2/Billing/charge'' []) [] None [] False ([] :: security_event list)"
  obtain "is" where b: "build_default_interceptors ?kit sample_running = Inr is" using sample_builds by blast
  have k: "kit_orders ?kit" by (rule sample_orders) (auto simp: security_interceptor_def)
  have s: "ik_security ?kit (fst (ad_security sample_running)) = Inr (security_interceptor sample_security)"
    "sx_config sample_security = fst (ad_security sample_running)" "sc_rbac_enabled (sx_config sample_security)"
    "\<not> cx_aborted ?c" "\<not> is_anonymous_method (sx_config sample_security) (rq_method (cx_request ?c))"
    "extract_token (sx_str sample_security) ?c = None"
    using charge_not_anonymous(1)
    by (simp_all add: sample_kit_def sample_running_def sample_security_def default_security_def default_security_config_def
        new_ctx_def claim_request_def extract_token_def)
  from default_chain_guards [OF b k s(1-5), of False "\<lambda>_. (0, 0)" "''id''"] s(6) b show ?thesis by auto
qed

theorem broken_security_off_witness:
  "build_default_interceptors (sample_kit (Inl (Exn RuntimeError 0 [] PNone None)) :: (unit, unit) interceptor_kit) sample_running
     = build_default_interceptors (sample_kit (Inl (Exn RuntimeError 0 [] PNone None)))
         (sample_running\<lparr>ad_security := (default_security_config\<lparr>sc_rbac_enabled := False, sc_audit_enabled := False\<rparr>, default_mtls)\<rparr>)"
proof -
  let ?kit = "sample_kit (Inl (Exn RuntimeError 0 [] PNone None)) :: (unit, unit) interceptor_kit"
  have "ik_security ?kit (fst (ad_security sample_running)) = Inl (Exn RuntimeError 0 [] PNone None)"
    "isinstance_exn (Exn RuntimeError 0 [] PNone None) PyException"
    by (simp_all add: sample_kit_def isinstance_exn_def is_subclass_def)
  moreover have "\<not> sc_require_auth (fst (ad_security sample_running))" "fst (ad_security sample_running) = default_security_config"
    "snd (ad_security sample_running) = default_mtls"
    by (simp_all add: sample_running_def default_security_config_def)
  ultimately show ?thesis using broken_security_off [of ?kit sample_running] by simp
qed

section \<open>Quality of service twice\<close>

text \<open>
  \<open>runs P calls e k h\<close>: from every context with \<open>P\<close>, the handler raises \<open>e\<close> after \<open>k\<close> more calls, as \<open>calls\<close>
  counts them, and keeps \<open>P\<close>.
\<close>

definition runs :: "('w ctx \<Rightarrow> bool) \<Rightarrow> ('w ctx \<Rightarrow> nat) \<Rightarrow> exn \<Rightarrow> nat \<Rightarrow> 'w stream_handler \<Rightarrow> bool" where
  "runs P calls e k h \<longleftrightarrow> (\<forall>c. P c \<longrightarrow> (\<exists>c'. h c = (([], Some e), c') \<and> calls c' = calls c + k \<and> P c'))"

text \<open>Clock, sleep and chance leave the request and the count alone, as does the handler's cache.\<close>

definition neutral :: "'w env \<Rightarrow> ('w \<Rightarrow> bool) \<Rightarrow> ('w \<Rightarrow> nat) \<Rightarrow> bool" where
  "neutral env P calls \<longleftrightarrow>
     (\<forall>c d. P c \<longrightarrow> P (env_sleep env d c) \<and> calls (env_sleep env d c) = calls c)
     \<and> (\<forall>c. P c \<longrightarrow> P (snd (env_random env c)) \<and> calls (snd (env_random env c)) = calls c)"

lemma delay_neutral:
  "neutral env P calls \<Longrightarrow> P w \<Longrightarrow> P (snd (compute_delay env x a w)) \<and> calls (snd (compute_delay env x a w)) = calls w"
  by (auto simp: neutral_def compute_delay_def Let_def split: prod.split)

lemma retry_loop_fails:
  assumes "neutral env P calls" "isinstance_exn e PyException" "is_retryable_error x e"
    and f: "\<And>w. P w \<Longrightarrow> \<exists>w'. f w = (Inl e, w') \<and> calls w' = calls w + k \<and> P w'"
  shows "P w \<Longrightarrow> a + int m = re_max_attempts x + 1 \<Longrightarrow> 0 < m
    \<Longrightarrow> \<exists>w'. retry_loop env x f a m le None w = (Inl e, None, w') \<and> calls w' = calls w + m * k \<and> P w'"
proof (induction m arbitrary: a w le)
  case (Suc m)
  obtain w1 where w1: "f w = (Inl e, w1)" "calls w1 = calls w + k" "P w1" using f [OF Suc.prems(1)] by blast
  show ?case
  proof (cases m)
    case 0
    with Suc.prems(2) w1 assms(2) show ?thesis by (auto simp: invoke_def should_retry_def)
  next
    case (Suc m')
    obtain d w2 where d: "compute_delay env x a w1 = (d, w2)" by force
    define w3 where "w3 = (if 0 < d then env_sleep env d w2 else w2)"
    have w3: "P w3" "calls w3 = calls w1"
      using delay_neutral [OF assms(1) w1(3), of x a] d assms(1) by (auto simp: w3_def neutral_def)
    from Suc.IH [OF w3(1), of "a + 1" e] Suc.prems(2) Suc
    obtain w4 where w4: "retry_loop env x f (a + 1) m e None w3 = (Inl e, None, w4)" "calls w4 = calls w3 + m * k" "P w4"
      by auto
    have "\<not> re_max_attempts x \<le> a" using Suc.prems(2) Suc by simp
    with w1 d w4(1) assms(2,3) have "retry_loop env x f a (Suc m) le None w = (Inl e, None, w4)"
      by (simp add: invoke_def should_retry_def Let_def w3_def)
    with w4 w3 w1 show ?thesis by simp
  qed
qed simp

lemma timeout_fails:
  assumes "isinstance_exn e PyException" "\<not> isinstance_exn e TimeoutError" "exn_class e \<noteq> CancelledError"
    and "job (Some (env_now env w + t)) w = (Inl e, w')"
  shows "execute_with_timeout env show_s t job w = (Inl e, w')"
  using assms by (simp add: execute_with_timeout_def timeout_scope_def Let_def)

lemma qos_wrap_runs:
  fixes c :: "'z server_world_scheme ctx"
  assumes "neutral env P calls"
    and e: "isinstance_exn e PyException" "\<not> isinstance_exn e TimeoutError" "exn_class e \<noteq> CancelledError"
      "is_retryable_error (new_retry_executor (forwarded_policy p)) e"
    and request: "\<And>c :: 'z server_world_scheme ctx. P c \<Longrightarrow> \<not> cx_is_stream c \<and> extract_qos (cx_request c) = Some q"
    and q: "qc_retry q = Some p" "or_empty (qc_idempotency_key q) = []"
    and world: "\<And>(c :: 'z server_world_scheme ctx) s. P c \<Longrightarrow>
      P (c\<lparr>cx_world := (cx_world c)\<lparr>sw_qos := s\<rparr>\<rparr>) \<and> calls (c\<lparr>cx_world := (cx_world c)\<lparr>sw_qos := s\<rparr>\<rparr>) = calls c"
    and h: "runs P calls e k h"
  shows "runs P calls e (nat (max 1 (rp_max_attempts p)) * k) (qos_wrap env show_s qh (\<lambda>d h. h) h)"
  unfolding runs_def
proof (intro allI impI)
  fix c :: "'z server_world_scheme ctx"
  assume P: "P c"
  let ?x = "new_retry_executor (forwarded_policy p)"
  let ?job = "\<lambda>due. invoke_downstream (qos_job (\<lambda>d h. h) h due)"
  let ?once = "execute_with_timeout env show_s (of_int (effective_timeout_ms qh (Some q)) / 1000) ?job"
  have once: "\<exists>w'. ?once w = (Inl e, w') \<and> calls w' = calls w + k \<and> P w'" if w: "P w" for w
  proof -
    from h w obtain c' where c': "h w = (([], Some e), c')" "calls c' = calls w + k" "P c'" unfolding runs_def by blast
    then have "?once w = (Inl e, c')" by (intro timeout_fails e(1-3)) (simp add: invoke_downstream_def qos_job_def)
    with c' show ?thesis by blast
  qed
  have m: "1 + int (nat (re_max_attempts ?x)) = re_max_attempts ?x + 1" "0 < nat (re_max_attempts ?x)"
    by (simp_all add: new_retry_executor_def Let_def)
  have n: "nat (re_max_attempts ?x) = nat (max 1 (rp_max_attempts p))"
    by (simp add: new_retry_executor_def forwarded_policy_def Let_def)
  obtain w' where w': "retry_execute env ?x (Some ?once) None c = (Inl e, None, w')"
    "calls w' = calls c + nat (max 1 (rp_max_attempts p)) * k" "P w'"
    using retry_loop_fails [of env P calls e ?x ?once k c 1, OF assms(1) e(1,4) once P m] unfolding n
    by (auto simp: retry_execute_def n)
  have "Qos_Handler.handle_request lru_ops env show_s qh (cx_request c) ?job (sw_qos (cx_world c)) c = (Inl e, sw_qos (cx_world c), w')"
    using request [OF P] q w'(1) by (simp add: handle_request_def execute_with_retry_def Let_def)
  then have "qos_wrap env show_s qh (\<lambda>d h. h) h c = (([], Some e), w'\<lparr>cx_world := (cx_world w')\<lparr>sw_qos := sw_qos (cx_world c)\<rparr>\<rparr>)"
    using request [OF P] by (simp add: qos_wrap_def unary_stream_def)
  with w' world show "\<exists>c'. qos_wrap env show_s qh (\<lambda>d h. h) h c = (([], Some e), c') \<and>
      calls c' = calls c + nat (max 1 (rp_max_attempts p)) * k \<and> P c'" by auto
qed

text \<open>
  With quality of service switched on a server has two interceptors for it, because one is always
  added, and retries multiply: a handler that fails with an error worth a retry runs once per pair of attempts,
  the square of the number the request asks for.
\<close>

theorem double_qos:
  fixes c :: "'z server_world_scheme ctx"
  assumes "neutral env P calls"
    and "isinstance_exn e PyException" "\<not> isinstance_exn e TimeoutError" "exn_class e \<noteq> CancelledError"
      "is_retryable_error (new_retry_executor (forwarded_policy p)) e"
    and "\<And>c :: 'z server_world_scheme ctx. P c \<Longrightarrow> \<not> cx_is_stream c \<and> extract_qos (cx_request c) = Some q"
    and "qc_retry q = Some p" "or_empty (qc_idempotency_key q) = []"
    and "\<And>(c :: 'z server_world_scheme ctx) s. P c \<Longrightarrow>
      P (c\<lparr>cx_world := (cx_world c)\<lparr>sw_qos := s\<rparr>\<rparr>) \<and> calls (c\<lparr>cx_world := (cx_world c)\<lparr>sw_qos := s\<rparr>\<rparr>) = calls c"
    and "runs P calls e 1 h"
    and "go_in [qos_interceptor env show_s h1 (\<lambda>d h. h), qos_interceptor env show_s h2 (\<lambda>d h. h)] [] c = (entered, None, ws, c)"
    and "P c" "\<not> cx_aborted c"
  shows "\<exists>c'. apply_wrappers ws h c = (([], Some e), c') \<and> calls c' = calls c + nat (max 1 (rp_max_attempts p)) ^ 2"
proof -
  have ws: "ws = [qos_wrap env show_s h1 (\<lambda>d h. h), qos_wrap env show_s h2 (\<lambda>d h. h)]"
    using assms(11,13) by (simp add: qos_interceptor_def)
  have wrap: "runs P calls e (nat (max 1 (rp_max_attempts p)) * k) (qos_wrap env show_s qh (\<lambda>d h. h) h')"
    if "runs P calls e k h'" for k h' qh
    by (rule qos_wrap_runs [OF assms(1-5) _ assms(7,8) _ that]) (fact assms(6), fact assms(9))
  from wrap [OF wrap [OF assms(10), of h2], of h1] assms(12)
  show ?thesis unfolding ws runs_def by (auto simp: apply_wrappers_def power2_eq_square)
qed

record counting_world = server_world +
  cn_calls :: nat

definition failing_handler :: "exn \<Rightarrow> counting_world stream_handler" where
  "failing_handler e c = (([], Some e), c\<lparr>cx_world := (cx_world c)\<lparr>cn_calls := Suc (cn_calls (cx_world c))\<rparr>\<rparr>)"

definition idle_env :: "'w env" where
  "idle_env = \<lparr>env_now = (\<lambda>_. 0), env_sleep = (\<lambda>_ w. w), env_random = (\<lambda>w. (0, w))\<rparr>"

definition retried_request :: rpc_request where
  "retried_request = empty_request\<lparr>rq_qos := Some (Qos (default_qos_config\<lparr>qc_retry := Some default_retry_policy\<rparr>))\<rparr>"

definition counting_ctx :: "counting_world ctx" where
  "counting_ctx = new_ctx retried_request [] None [] False
     \<lparr>gd_limiters = [], gd_breaker = None, gd_bulkhead = None, gd_cells = (\<lambda>_. None), gd_now = 0,
      sw_qos = \<lparr>qs_cache = new_lru 1 1, qs_locks = []\<rparr>, cn_calls = 0\<rparr>"

theorem double_qos_witness:
  "\<exists>ws c'. apply_wrappers ws (failing_handler some_failure) counting_ctx = (([], Some some_failure), c') \<and> cn_calls (cx_world c') = 9"
proof -
  let ?P = "\<lambda>c :: counting_world ctx. cx_request c = retried_request \<and> \<not> cx_is_stream c"
  let ?calls = "\<lambda>c :: counting_world ctx. cn_calls (cx_world c)"
  let ?q = "qos_interceptor idle_env (\<lambda>_. []) (new_qos_handler None None) (\<lambda>d h. h) :: counting_world interceptor"
  obtain entered ws where in2: "go_in [?q, ?q] [] counting_ctx = (entered, None, ws, counting_ctx)"
    by (simp add: qos_interceptor_def counting_ctx_def new_ctx_def)
  have n: "neutral idle_env ?P ?calls" by (simp add: neutral_def idle_env_def)
  have e: "isinstance_exn some_failure PyException" "\<not> isinstance_exn some_failure TimeoutError"
    "exn_class some_failure \<noteq> CancelledError"
    "is_retryable_error (new_retry_executor (forwarded_policy default_retry_policy)) some_failure"
    by (simp_all add: some_failure_def isinstance_exn_def is_subclass_def is_retryable_error_def new_retry_executor_def
        forwarded_policy_def default_retry_policy_def nonempty_def Let_def)
  have r: "runs ?P ?calls some_failure 1 (failing_handler some_failure)"
    by (simp add: runs_def failing_handler_def)
  have q: "extract_qos retried_request = Some (default_qos_config\<lparr>qc_retry := Some default_retry_policy\<rparr>)"
    by (simp add: extract_qos_def retried_request_def)
  have c: "?P counting_ctx" "\<not> cx_aborted counting_ctx" "?calls counting_ctx = 0"
    by (simp_all add: counting_ctx_def new_ctx_def)
  have m: "nat (max 1 (rp_max_attempts default_retry_policy)) ^ 2 = 9" by (simp add: default_retry_policy_def)
  from double_qos [OF n e _ _ _ _ r in2 c(1,2)] q c(3) m show ?thesis
    by (fastforce simp: default_qos_config_def)
qed

section \<open>What serving does\<close>

text \<open>The in-memory registry, as it is or behind health checks with any cache.\<close>

definition in_memory_env :: "('r, 'w) serve_env \<Rightarrow> (int \<Rightarrow> string) \<Rightarrow> health_cache \<Rightarrow> bool" where
  "in_memory_env env show_int hc \<longleftrightarrow>
     (\<forall>i s. ev_register env i s = (None, register_service i s))
     \<and> (\<forall>b n s. ev_listed env b n s =
          Inr (if b then list_healthy_instances show_int True hc (list_instances n s) else list_instances n s))
     \<and> (\<forall>ty. ev_registry env ty = None)"

lemma healthy_single: "list_healthy_instances show_int True hc [i] = [i]"
  by (simp add: list_healthy_instances_def healthy_or_all_def)

lemma create_instance_ok:
  assumes "1 \<le> sa_port a" "sa_port a \<le> 65535" "1 \<le> sa_weight a"
  shows "\<exists>i. create_instance env a = Inr i \<and> si_service_name i = sa_service_name a \<and> si_port i = sa_port a
    \<and> si_weight i = sa_weight a \<and> si_scheme i = sa_scheme a"
  using assms by (simp add: create_instance_def new_instance_def validate_port_def validate_weight_def Let_def)

lemma resolve_single:
  assumes "si_service_name i = name" "1 \<le> si_port i" "si_port i \<le> 65535" "1 \<le> si_weight i" "p \<noteq> CONSISTENT_HASHING"
  shows "resolve lib ip_kind (new_resolver (Some p) True True) name None [Inr [i]] = Inr (Some i)"
proof -
  have v: "validate_instance ip_kind (new_resolver (Some p) True True) i name"
    using assms by (simp add: validate_instance_def new_resolver_def split: option.split)
  have "nat (si_weight i) = Suc (nat (si_weight i) - 1)" using assms(4) by simp
  then have "weighted_select [i] = Some i"
    by (simp add: weighted_select_def weighted_pool_def) (metis list.case(2) replicate_Suc)
  then have "select_instance lib (rv_policy (new_resolver (Some p) True True)) [i] (Some []) = Some i"
    using assms(5) by (cases p) (simp_all add: select_instance_def new_resolver_def)
  with v show ?thesis by (simp add: get_lb_value_def)
qed


lemma config_elsewhere:
  "create_instance env (a\<lparr>sa_config := x\<rparr>) = create_instance env a" "task_source env (a\<lparr>sa_config := x\<rparr>) = task_source env a"
  "app_discover env (a\<lparr>sa_config := x\<rparr>) b s = app_discover env a b s"
  by (simp_all add: create_instance_def task_source_def app_discover_def cong: if_cong option.case_cong)

lemma interceptors_without_mtls:
  "build_default_interceptors kit (cfg\<lparr>ad_security := (fst (ad_security cfg), m)\<rparr>) = build_default_interceptors kit cfg"
  by (simp add: build_default_interceptors_def)

text \<open>
  A configuration file that cannot be loaded is no error: the server is the one without a
  file. A port outside its range, the default port among them, is an error, and nothing is registered. And
  whether mutual TLS is switched on, and the names it allows, make no difference to how a server starts.
\<close>

theorem serve_fails_open:
  "(ev_load env p = Inl e \<and> isinstance_exn e PyException
      \<longrightarrow> run_serve env (a\<lparr>sa_config := Config_file p\<rparr>) w = run_serve env (a\<lparr>sa_config := No_config\<rparr>) w)
   \<and> (sa_port a \<le> 0 \<longrightarrow> (\<exists>e w'. run_serve env a w = (Inl e, w') \<and> aw_services w' = aw_services w))
   \<and> start_servers env
        (cfg\<lparr>ad_security := (fst (ad_security cfg), (snd (ad_security cfg))\<lparr>mc_enabled := b, mc_common_names := cs, mc_san_dns := ds,
           mc_issuers := iss\<rparr>)\<rparr>) i m w = start_servers env cfg i m w"
proof (intro conjI impI)
  assume "ev_load env p = Inl e \<and> isinstance_exn e PyException"
  then show "run_serve env (a\<lparr>sa_config := Config_file p\<rparr>) w = run_serve env (a\<lparr>sa_config := No_config\<rparr>) w"
    by (simp add: run_serve_def serve_config_def initial_config_def config_elsewhere cong: if_cong)
next
  assume "sa_port a \<le> 0"
  then have "create_instance env a = Inl (validation_error ''port must be between 1 and 65535'')"
    by (simp add: create_instance_def new_instance_def validate_port_def)
  then show "\<exists>e w'. run_serve env a w = (Inl e, w') \<and> aw_services w' = aw_services w"
    by (cases "serve_config env a") (simp_all add: run_serve_def serve_bind_def)
next
  show "start_servers env
        (cfg\<lparr>ad_security := (fst (ad_security cfg), (snd (ad_security cfg))\<lparr>mc_enabled := b, mc_common_names := cs, mc_san_dns := ds,
           mc_issuers := iss\<rparr>)\<rparr>) i m w = start_servers env cfg i m w"
    by (simp add: start_servers_def interceptors_without_mtls cong: sum.case_cong)
qed

definition sample_env :: "(unit, unit) serve_env" where
  "sample_env =
     \<lparr>ev_default = sample_running, ev_load = (\<lambda>_. Inl (Exn RuntimeError 0 ''unreadable'' PNone None)),
      ev_source = (\<lambda>_ c. Inr c), ev_uuid = ''u'', ev_now_ms = 0, ev_text = (\<lambda>_. []), ev_methods = [],
      ev_registry = (\<lambda>_. None), ev_health_start = None, ev_register = (\<lambda>i s. (None, register_service i s)),
      ev_listed = (\<lambda>b n s. Inr (if b then list_healthy_instances (\<lambda>_. []) True [] (list_instances n s) else list_instances n s)),
      ev_tasks = None, ev_lib = sample_lib, ev_ip_kind = (\<lambda>_. None), ev_import = (\<lambda>_. Plain_module),
      ev_kit = sample_kit (Inr (plain_interceptor 0)), ev_server = calm_surroundings\<rparr>"

definition sample_args :: "unit serve_args" where
  "sample_args =
     \<lparr>sa_mode = REGISTRATION_AND_DISCOVERY, sa_service_name = ''svc'', sa_modules = [], sa_auto_load = False, sa_host = ''h'',
      sa_port = 8080, sa_scheme = GRPC, sa_weight = 1, sa_metadata = [], sa_registry_type = ''in_memory'',
      sa_config = Config_file ''missing.yaml'', sa_source = None, sa_task_enable = False, sa_task_config = False,
      sa_policy = WeightedRoundRobin\<rparr>"

definition fresh_world :: "(unit, unit) serve_world" where
  "fresh_world = \<lparr>aw_services = [], aw_runtime_config = None, aw_service_info = None, aw_health = [], aw_imported = [], aw_servers = []\<rparr>"


theorem serve_fails_open_witness:
  "run_serve sample_env (sample_args\<lparr>sa_config := Config_file ''missing.yaml''\<rparr>) fresh_world
     = run_serve sample_env (sample_args\<lparr>sa_config := No_config\<rparr>) fresh_world"
proof -
  have "ev_load sample_env ''missing.yaml'' = Inl (Exn RuntimeError 0 ''unreadable'' PNone None)"
    "isinstance_exn (Exn RuntimeError 0 ''unreadable'' PNone None) PyException"
    by (simp_all add: sample_env_def isinstance_exn_def is_subclass_def)
  then show ?thesis using serve_fails_open by blast
qed

end
