(* ===== verification/Audit_Log.thy ===== *)
theory Audit_Log
  imports Interceptor_Chain
begin

text \<open>
  Audit logging (\<open>telemetry/audit.py\<close>) and the interceptor that does it (\<open>server/interceptors/audit.py\<close>):
  redaction and shortening of what is logged, the logger with the requests it has not seen the response of,
  its four kinds of events and what of them goes to OpenTelemetry. JSON output, the clock and the dump of a
  response are parameters; OpenTelemetry's own objects are not modelled.
\<close>

section \<open>Redaction\<close>

definition DEFAULT_SENSITIVE_FIELDS :: "string list" where
  "DEFAULT_SENSITIVE_FIELDS =
     [''password'', ''passwd'', ''secret'', ''token'', ''api_key'', ''apikey'', ''authorization'', ''cookie'',
      ''session'', ''credit_card'', ''ssn'', ''social_security'', ''pin'']"

definition truncated :: "int \<Rightarrow> string \<Rightarrow> string" where
  "truncated m s = (if 0 < m \<and> int (length s) > m then take (nat m) s @ ''... (truncated)'' else s)"

lemma size_dict_item: "p \<in> set d \<Longrightarrow> size (snd p) < size (PDict d)"
  by (induction d) auto

lemma size_list_item: "x \<in> set xs \<Longrightarrow> size x < size (PList xs)"
  by (induction xs) auto

function sanitize_for_audit :: "string list \<Rightarrow> int \<Rightarrow> pyval \<Rightarrow> pyval" where
  "sanitize_for_audit f m (PDict d) =
     PDict (map (\<lambda>p. (fst p, if py_lower (fst p) \<in> set f then PStr ''***REDACTED***'' else sanitize_for_audit f m (snd p))) d)"
| "sanitize_for_audit f m (PList xs) = PList (map (sanitize_for_audit f m) xs)"
| "sanitize_for_audit f m (PStr s) = PStr (truncated m s)"
| "sanitize_for_audit f m PNone = PNone"
| "sanitize_for_audit f m (PBool b) = PBool b"
| "sanitize_for_audit f m (PInt i) = PInt i"
| "sanitize_for_audit f m (PFloat r) = PFloat r"
| "sanitize_for_audit f m (PEnum c v) = PEnum c v"
  by pat_completeness auto

termination
  by (relation "measure (\<lambda>(f, m, v). size v)") (auto dest: size_dict_item size_list_item)

section \<open>The logger\<close>

record audit_config =
  au_enabled :: bool
  au_log_level :: int
  au_sanitize_fields :: "string list"
  au_include_params :: bool
  au_include_response :: bool
  au_max_param_length :: int
  au_export :: bool

definition default_audit_config :: audit_config where
  "default_audit_config =
     \<lparr>au_enabled = True, au_log_level = 20, au_sanitize_fields = DEFAULT_SENSITIVE_FIELDS, au_include_params = False,
      au_include_response = False, au_max_param_length = 256, au_export = False\<rparr>"

type_synonym audit_entry = "(string, pyval) dict"

text \<open>\<open>al_log\<close> is what was logged, the last first; \<open>al_exported\<close> what was handed to OpenTelemetry.\<close>

record audit_logger =
  al_config :: audit_config
  al_pending :: "(string, audit_entry) dict"
  al_log :: "(int \<times> audit_entry) list"
  al_exported :: "(string \<times> (string, pyval) dict) list"

definition new_audit_logger :: "audit_config option \<Rightarrow> audit_logger" where
  "new_audit_logger cfg =
     \<lparr>al_config = (case cfg of None \<Rightarrow> default_audit_config | Some c \<Rightarrow> c), al_pending = [], al_log = [], al_exported = []\<rparr>"

text \<open>\<open>json.dumps\<close> of an event: \<open>ae_dumps\<close> is the exception it raises, if any; \<open>ae_text\<close> is a dump that does not.\<close>

record audit_env =
  ae_now :: string
  ae_dumps :: "audit_entry \<Rightarrow> exn option"
  ae_text :: "pyval \<Rightarrow> string"

definition or_dash :: "string option \<Rightarrow> pyval" where
  "or_dash x = (case x of Some (c # cs) \<Rightarrow> PStr (c # cs) | _ \<Rightarrow> PStr ''-'')"

text \<open>The severity and the attributes an event has for OpenTelemetry.\<close>

definition otel_severity :: "string \<Rightarrow> string" where
  "otel_severity ty =
     (if starts_with ty ''security_'' \<or> ends_with ty ''auth_failed'' \<or> ty = ''auth_failed'' then ''WARNING'' else ''INFO'')"

definition otel_attributes :: "audit_env \<Rightarrow> audit_entry \<Rightarrow> (string, pyval) dict" where
  "otel_attributes env e =
     (''event_type'', dict_get e ''event_type'' (PStr []))
     # concat (map (\<lambda>k. let v = dict_get e k PNone in if v = PNone then [] else [(k, v)])
         [''tenant_id'', ''request_id'', ''trace_id'', ''principal'', ''method'', ''status'', ''error_code'', ''duration_ms'',
          ''success'', ''auth_method'', ''failure_reason''])
     @ concat (map (\<lambda>k. let v = dict_get e k PNone in if v = PNone then [] else [(k, PStr (ae_text env v))])
         [''params'', ''response'', ''details''])"

definition event_type_of :: "audit_entry \<Rightarrow> string" where
  "event_type_of e = (case dict_get e ''event_type'' PNone of PStr s \<Rightarrow> s | _ \<Rightarrow> [])"

definition emit_to_otel :: "audit_env \<Rightarrow> audit_entry \<Rightarrow> audit_logger \<Rightarrow> audit_logger" where
  "emit_to_otel env e l =
     (if au_export (al_config l)
      then l\<lparr>al_exported := (otel_severity (event_type_of e), otel_attributes env e) # al_exported l\<rparr> else l)"

definition write_event :: "audit_env \<Rightarrow> int \<Rightarrow> audit_entry \<Rightarrow> audit_logger \<Rightarrow> exn option \<times> audit_logger" where
  "write_event env level e l =
     (case ae_dumps env e of
        Some x \<Rightarrow> (Some x, l)
      | None \<Rightarrow> (None, emit_to_otel env e (l\<lparr>al_log := (level, e) # al_log l\<rparr>)))"

definition sanitized :: "audit_config \<Rightarrow> (string, pyval) dict \<Rightarrow> pyval" where
  "sanitized cfg d = sanitize_for_audit (au_sanitize_fields cfg) (au_max_param_length cfg) (PDict d)"

text \<open>A payload is logged when it is asked for and is not empty.\<close>

definition payload_item :: "bool \<Rightarrow> audit_config \<Rightarrow> string \<Rightarrow> (string, pyval) dict option \<Rightarrow> audit_entry" where
  "payload_item asked cfg key d =
     (case d of Some (x # xs) \<Rightarrow> if asked then [(key, sanitized cfg (x # xs))] else [] | _ \<Rightarrow> [])"

record audit_request =
  aq_request_id :: string
  aq_method :: string
  aq_tenant_id :: "string option"
  aq_trace_id :: "string option"
  aq_principal :: "string option"
  aq_params :: "(string, pyval) dict option"

definition request_event :: "audit_env \<Rightarrow> audit_config \<Rightarrow> audit_request \<Rightarrow> audit_entry" where
  "request_event env cfg q =
     [(''event_type'', PStr ''rpc_request''), (''timestamp'', PStr (ae_now env)), (''tenant_id'', or_dash (aq_tenant_id q)),
      (''request_id'', PStr (aq_request_id q)), (''trace_id'', or_dash (aq_trace_id q)),
      (''principal'', or_dash (aq_principal q)), (''method'', PStr (aq_method q))]
     @ payload_item (au_include_params cfg) cfg ''params'' (aq_params q)"

definition log_request :: "audit_env \<Rightarrow> audit_request \<Rightarrow> audit_logger \<Rightarrow> exn option \<times> audit_logger" where
  "log_request env q l =
     (if \<not> au_enabled (al_config l) then (None, l)
      else (let e = request_event env (al_config l) q
            in write_event env (au_log_level (al_config l)) e
                 (l\<lparr>al_pending := AList.update (aq_request_id q) e (al_pending l)\<rparr>)))"

record audit_response =
  as_request_id :: string
  as_status :: string
  as_duration_ms :: rat
  as_error_code :: "string option"
  as_response :: "(string, pyval) dict option"

definition response_event :: "audit_env \<Rightarrow> audit_config \<Rightarrow> audit_entry \<Rightarrow> audit_response \<Rightarrow> audit_entry" where
  "response_event env cfg base r =
     [(''event_type'', PStr ''rpc_response''), (''timestamp'', PStr (ae_now env)),
      (''tenant_id'', dict_get base ''tenant_id'' (PStr ''-'')), (''request_id'', PStr (as_request_id r)),
      (''trace_id'', dict_get base ''trace_id'' (PStr ''-'')), (''principal'', dict_get base ''principal'' (PStr ''-'')),
      (''method'', dict_get base ''method'' (PStr ''unknown'')), (''status'', PStr (as_status r)),
      (''duration_ms'', PFloat (Some (as_duration_ms r)))]
     @ (case as_error_code r of Some (c # cs) \<Rightarrow> [(''error_code'', PStr (c # cs))] | _ \<Rightarrow> [])
     @ payload_item (au_include_response cfg) cfg ''response'' (as_response r)"

definition log_response :: "audit_env \<Rightarrow> audit_response \<Rightarrow> audit_logger \<Rightarrow> exn option \<times> audit_logger" where
  "log_response env r l =
     (if \<not> au_enabled (al_config l) then (None, l)
      else (let base = dict_get (al_pending l) (as_request_id r) []
            in write_event env (au_log_level (al_config l)) (response_event env (al_config l) base r)
                 (l\<lparr>al_pending := AList.delete (as_request_id r) (al_pending l)\<rparr>)))"

definition log_auth_event ::
  "audit_env \<Rightarrow> string \<Rightarrow> string option \<Rightarrow> string option \<Rightarrow> bool \<Rightarrow> string option \<Rightarrow> string option \<Rightarrow> audit_logger
     \<Rightarrow> exn option \<times> audit_logger" where
  "log_auth_event env ty tenant princ ok auth_method reason l =
     (if \<not> au_enabled (al_config l) then (None, l)
      else write_event env (au_log_level (al_config l))
        ([(''event_type'', PStr (''auth_'' @ ty)), (''timestamp'', PStr (ae_now env)), (''tenant_id'', or_dash tenant),
          (''principal'', or_dash princ), (''success'', PBool ok)]
         @ (case auth_method of Some (c # cs) \<Rightarrow> [(''auth_method'', PStr (c # cs))] | _ \<Rightarrow> [])
         @ (case reason of Some (c # cs) \<Rightarrow> [(''failure_reason'', PStr (c # cs))] | _ \<Rightarrow> [])) l)"

text \<open>Security events are warnings (level 30).\<close>

definition audit_log_security_event ::
  "audit_env \<Rightarrow> string \<Rightarrow> string option \<Rightarrow> string option \<Rightarrow> string option \<Rightarrow> string option \<Rightarrow> (string, pyval) dict option
     \<Rightarrow> audit_logger \<Rightarrow> exn option \<times> audit_logger" where
  "audit_log_security_event env ty tenant rid trace princ details l =
     (if \<not> au_enabled (al_config l) then (None, l)
      else write_event env 30
        ([(''event_type'', PStr (''security_'' @ ty)), (''timestamp'', PStr (ae_now env)), (''tenant_id'', or_dash tenant),
          (''request_id'', or_dash rid), (''trace_id'', or_dash trace), (''principal'', or_dash princ)]
         @ payload_item True (al_config l) ''details'' details) l)"

definition clear_pending :: "audit_logger \<Rightarrow> audit_logger" where
  "clear_pending l = l\<lparr>al_pending := []\<rparr>"

section \<open>The interceptor\<close>

text \<open>\<open>audit_clock\<close> is \<open>perf_counter\<close> going in and coming out (in seconds), \<open>audit_dump\<close> \<open>model_dump\<close> of a response.\<close>

record audit_setup =
  audit_env :: audit_env
  audit_clock :: "rat \<times> rat"
  audit_dump :: "rpc_response \<Rightarrow> (string, pyval) dict"
  audit_code :: "int \<Rightarrow> string"

definition audit_request_of :: "rpc_request \<Rightarrow> audit_request" where
  "audit_request_of r =
     \<lparr>aq_request_id = (case rq_id r of None \<Rightarrow> [] | Some i \<Rightarrow> i), aq_method = rq_method r,
      aq_tenant_id = Option.bind (rq_metadata r) rm_tenant_id,
      aq_trace_id = map_option tc_trace_id (rq_trace_context r),
      aq_principal = Option.bind (Option.bind (rq_metadata r) rm_auth) ac_principal, aq_params = rq_data r\<rparr>"

definition audit_enter ::
  "audit_setup \<Rightarrow> audit_logger ctx \<Rightarrow> exn option \<times> (audit_logger stream_handler \<Rightarrow> audit_logger stream_handler) list \<times> audit_logger ctx" where
  "audit_enter s c =
     (let q = audit_request_of (cx_request c);
          c1 = store_local ''audit_start_time'' (PFloat (Some (fst (audit_clock s))))
                 (store_local ''audit_request_id'' (PStr (aq_request_id q)) c);
          (exc, l) = log_request (audit_env s) q (cx_world c1)
      in (exc, [], c1\<lparr>cx_world := l\<rparr>))"

definition audit_duration :: "audit_setup \<Rightarrow> audit_logger ctx \<Rightarrow> rat" where
  "audit_duration s c =
     (case load_local ''audit_start_time'' c of PFloat (Some t) \<Rightarrow> (snd (audit_clock s) - t) * 1000 | _ \<Rightarrow> 0)"

definition audit_status :: "'w ctx \<Rightarrow> string" where
  "audit_status c =
     (if cx_error c \<noteq> None then ''error''
      else if Option.bind (cx_response c) rs_error \<noteq> None then ''error'' else ''success'')"

definition audit_response_of :: "audit_setup \<Rightarrow> audit_logger ctx \<Rightarrow> audit_response" where
  "audit_response_of s c =
     \<lparr>as_request_id = (case load_local ''audit_request_id'' c of PStr i \<Rightarrow> i | _ \<Rightarrow> ''None''), as_status = audit_status c,
      as_duration_ms = audit_duration s c,
      as_error_code = map_option (\<lambda>e. audit_code s (err_code e)) (Option.bind (cx_response c) rs_error),
      as_response = (if au_include_response (al_config (cx_world c)) then map_option (audit_dump s) (cx_response c) else None)\<rparr>"

definition audit_exit :: "audit_setup \<Rightarrow> exn option \<Rightarrow> audit_logger ctx \<Rightarrow> exn option \<times> audit_logger ctx" where
  "audit_exit s exc c =
     (let c1 = store_local ''audit_duration_ms'' (PFloat (Some (audit_duration s c)))
                 (store_local ''audit_end_time'' (PFloat (Some (snd (audit_clock s)))) c);
          (exc', l) = log_response (audit_env s) (audit_response_of s c) (cx_world c1)
      in (case exc' of Some e \<Rightarrow> Some e | None \<Rightarrow> exc, c1\<lparr>cx_world := l\<rparr>))"

definition audit_interceptor :: "audit_setup \<Rightarrow> audit_logger interceptor" where
  "audit_interceptor s = \<lparr>ic_order = 4, ic_enter = audit_enter s, ic_exit = audit_exit s\<rparr>"

section \<open>What redaction guarantees\<close>

text \<open>Two values that differ at most beneath sensitive keys.\<close>

inductive same_public :: "string list \<Rightarrow> pyval \<Rightarrow> pyval \<Rightarrow> bool" for f where
  same_value: "same_public f v v"
| same_list: "list_all2 (same_public f) xs ys \<Longrightarrow> same_public f (PList xs) (PList ys)"
| same_dict: "list_all2 (\<lambda>p q. fst p = fst q \<and> (py_lower (fst p) \<in> set f \<or> same_public f (snd p) (snd q))) d d'
    \<Longrightarrow> same_public f (PDict d) (PDict d')"

text \<open>
  C31. What the audit log shows of a payload does not depend on the values of its
  sensitive fields, however deep they are nested in dictionaries and lists: payloads that differ in those values
  only are logged alike.
\<close>

theorem audit_noninterference:
  assumes "same_public f x y"
  shows "sanitize_for_audit f m x = sanitize_for_audit f m y"
  using assms
proof (induction rule: same_public.induct)
  case (same_list xs ys)
  then show ?case by (induction rule: list_all2_induct) auto
next
  case (same_dict d d')
  then show ?case by (induction rule: list_all2_induct) auto
qed simp

theorem audit_noninterference_witness:
  "sanitize_for_audit DEFAULT_SENSITIVE_FIELDS 256 (PDict [(''user'', PStr ''a''), (''Auth'', PList [PDict [(''Password'', PStr ''x'')]])])
   = sanitize_for_audit DEFAULT_SENSITIVE_FIELDS 256 (PDict [(''user'', PStr ''a''), (''Auth'', PList [PDict [(''Password'', PInt 7)]])])"
proof -
  have l: "py_lower ''Password'' \<in> set DEFAULT_SENSITIVE_FIELDS" by code_simp
  show ?thesis
    by (rule audit_noninterference) (auto intro!: same_dict same_list intro: same_value simp: l)
qed

text \<open>Sensitive fields show the mark; strings are short.\<close>

function redacted :: "string list \<Rightarrow> pyval \<Rightarrow> bool" where
  "redacted f (PDict d) \<longleftrightarrow>
     (\<forall>p \<in> set d. if py_lower (fst p) \<in> set f then snd p = PStr ''***REDACTED***'' else redacted f (snd p))"
| "redacted f (PList xs) \<longleftrightarrow> (\<forall>x \<in> set xs. redacted f x)"
| "redacted f (PStr s) \<longleftrightarrow> True"
| "redacted f PNone \<longleftrightarrow> True"
| "redacted f (PBool b) \<longleftrightarrow> True"
| "redacted f (PInt i) \<longleftrightarrow> True"
| "redacted f (PFloat r) \<longleftrightarrow> True"
| "redacted f (PEnum c v) \<longleftrightarrow> True"
  by pat_completeness auto

termination
  by (relation "measure (\<lambda>(f, v). size v)") (auto dest: size_dict_item size_list_item)

function all_short :: "nat \<Rightarrow> pyval \<Rightarrow> bool" where
  "all_short n (PDict d) \<longleftrightarrow> (\<forall>p \<in> set d. all_short n (snd p))"
| "all_short n (PList xs) \<longleftrightarrow> (\<forall>x \<in> set xs. all_short n x)"
| "all_short n (PStr s) \<longleftrightarrow> length s \<le> n"
| "all_short n PNone \<longleftrightarrow> True"
| "all_short n (PBool b) \<longleftrightarrow> True"
| "all_short n (PInt i) \<longleftrightarrow> True"
| "all_short n (PFloat r) \<longleftrightarrow> True"
| "all_short n (PEnum c v) \<longleftrightarrow> True"
  by pat_completeness auto

termination
  by (relation "measure (\<lambda>(n, v). size v)") (auto dest: size_dict_item size_list_item)

lemma truncated_length: "0 < m \<Longrightarrow> length (truncated m s) \<le> nat m + 15"
  by (auto simp: truncated_def)

lemma truncated_again [simp]: "truncated m (truncated m s) = truncated m s"
  by (auto simp: truncated_def)

lemma sanitize_redacted: "redacted f (sanitize_for_audit f m v)"
  by (induction f m v rule: sanitize_for_audit.induct) auto

lemma sanitize_short: "0 < m \<Longrightarrow> all_short (nat m + 15) (sanitize_for_audit f m v)"
  by (induction f m v rule: sanitize_for_audit.induct) (auto simp: truncated_length)

lemma sanitize_again: "sanitize_for_audit f m (sanitize_for_audit f m v) = sanitize_for_audit f m v"
  by (induction f m v rule: sanitize_for_audit.induct) auto

text \<open>
  Whatever payload is logged, every sensitive field of it, at any depth, shows only the mark,
  no string is longer than the limit and the note that it was cut, and redacting again changes nothing.
\<close>

theorem audit_redacts:
  assumes "0 < au_max_param_length cfg"
  shows "redacted (au_sanitize_fields cfg) (sanitized cfg d)
    \<and> all_short (nat (au_max_param_length cfg) + 15) (sanitized cfg d)
    \<and> sanitize_for_audit (au_sanitize_fields cfg) (au_max_param_length cfg) (sanitized cfg d) = sanitized cfg d"
  using assms sanitize_redacted sanitize_short sanitize_again by (simp add: sanitized_def del: sanitize_for_audit.simps)

theorem audit_redacts_witness:
  "redacted DEFAULT_SENSITIVE_FIELDS (sanitized default_audit_config [(''Token'', PStr ''t''), (''x'', PList [PStr ''y''])])"
  using audit_redacts [of default_audit_config "[(''Token'', PStr ''t''), (''x'', PList [PStr ''y''])]"]
  by (simp add: default_audit_config_def)

section \<open>Pairing of requests and responses\<close>

datatype audit_op = ARequest audit_request | AResponse audit_response

definition audit_do :: "audit_env \<times> audit_op \<Rightarrow> audit_logger \<Rightarrow> audit_logger" where
  "audit_do o' l = (case snd o' of ARequest q \<Rightarrow> snd (log_request (fst o') q l) | AResponse r \<Rightarrow> snd (log_response (fst o') r l))"

text \<open>The last request with an identifier, unless it has been answered since.\<close>

definition open_request :: "string \<Rightarrow> (audit_env \<times> audit_op) list \<Rightarrow> (audit_env \<times> audit_request) option" where
  "open_request rid ops =
     fold (\<lambda>o' cur. case snd o' of
         ARequest q \<Rightarrow> if aq_request_id q = rid then Some (fst o', q) else cur
       | AResponse r \<Rightarrow> if as_request_id r = rid then None else cur) ops None"

lemma write_event_same [simp]:
  "al_pending (snd (write_event env level e l)) = al_pending l" "al_config (snd (write_event env level e l)) = al_config l"
  by (simp_all add: write_event_def emit_to_otel_def split: option.splits)

lemma audit_do_config [simp]: "al_config (audit_do o' l) = al_config l"
  by (auto simp: audit_do_def log_request_def log_response_def Let_def split: audit_op.splits)

lemma audit_run_config [simp]: "al_config (fold audit_do ops l) = al_config l"
  by (induction ops arbitrary: l) simp_all

lemma open_request_snoc:
  "open_request rid (ops @ [o']) =
    (case snd o' of
       ARequest q \<Rightarrow> if aq_request_id q = rid then Some (fst o', q) else open_request rid ops
     | AResponse r \<Rightarrow> if as_request_id r = rid then None else open_request rid ops)"
  by (simp add: open_request_def split: audit_op.split)

lemma new_audit_config [simp]: "al_config (new_audit_logger (Some cfg)) = cfg"
  by (simp add: new_audit_logger_def)

lemma audit_do_pending:
  assumes "au_enabled (al_config l)"
  shows "snd o' = ARequest q \<Longrightarrow>
      al_pending (audit_do o' l) = AList.update (aq_request_id q) (request_event (fst o') (al_config l) q) (al_pending l)"
    and "snd o' = AResponse r \<Longrightarrow> al_pending (audit_do o' l) = AList.delete (as_request_id r) (al_pending l)"
  using assms by (simp_all add: audit_do_def log_request_def log_response_def Let_def)

lemma pending_open:
  assumes "au_enabled cfg"
  shows "map_of (al_pending (fold audit_do ops (new_audit_logger (Some cfg)))) rid =
    map_option (\<lambda>(env, q). request_event env cfg q) (open_request rid ops)"
proof (induction ops rule: rev_induct)
  case Nil
  show ?case by (simp add: new_audit_logger_def open_request_def)
next
  case (snoc o' ops)
  let ?l = "fold audit_do ops (new_audit_logger (Some cfg))"
  have c: "al_config ?l = cfg" by simp
  show ?case
  proof (cases "snd o'")
    case (ARequest q)
    with snoc c assms show ?thesis
      by (simp add: audit_do_pending open_request_snoc del: dict_opaque)
  next
    case (AResponse r)
    with snoc c assms show ?thesis
      by (simp add: audit_do_pending open_request_snoc del: dict_opaque)
  qed
qed

lemma request_event_get:
  "dict_get (request_event env cfg q) ''tenant_id'' x = or_dash (aq_tenant_id q)"
  "dict_get (request_event env cfg q) ''trace_id'' x = or_dash (aq_trace_id q)"
  "dict_get (request_event env cfg q) ''principal'' x = or_dash (aq_principal q)"
  "dict_get (request_event env cfg q) ''method'' x = PStr (aq_method q)"
  by (simp_all add: request_event_def dict_get_def)

lemma response_event_get:
  "dict_get (response_event env cfg base r) ''tenant_id'' x = dict_get base ''tenant_id'' (PStr ''-'')"
  "dict_get (response_event env cfg base r) ''principal'' x = dict_get base ''principal'' (PStr ''-'')"
  "dict_get (response_event env cfg base r) ''method'' x = dict_get base ''method'' (PStr ''unknown'')"
  "dict_get (response_event env cfg base r) ''status'' x = PStr (as_status r)"
  "dict_get (response_event env cfg base r) ''request_id'' x = PStr (as_request_id r)"
  by (simp_all add: response_event_def dict_get_def)

text \<open>
  A response is logged under the tenant, principal and method of the last request with its
  identifier that is not yet answered, and under none when there is no such request; the logger remembers
  exactly the requests not yet answered. So requests whose identifiers differ while they run are told apart
  however they overlap; one that takes the identifier of a running request takes over its response, too.
\<close>

theorem audit_pairing:
  assumes "au_enabled cfg" "\<And>e. ae_dumps env e = None"
  shows "(let l = fold audit_do ops (new_audit_logger (Some cfg));
              e = snd (hd (al_log (snd (log_response env r l))));
              q = open_request (as_request_id r) ops
          in dict_get e ''principal'' PNone = (case q of None \<Rightarrow> PStr ''-'' | Some (_, q) \<Rightarrow> or_dash (aq_principal q))
           \<and> dict_get e ''tenant_id'' PNone = (case q of None \<Rightarrow> PStr ''-'' | Some (_, q) \<Rightarrow> or_dash (aq_tenant_id q))
           \<and> dict_get e ''method'' PNone = (case q of None \<Rightarrow> PStr ''unknown'' | Some (_, q) \<Rightarrow> PStr (aq_method q))
           \<and> dict_get e ''status'' PNone = PStr (as_status r)
           \<and> set (dict_keys (al_pending l)) = {rid. open_request rid ops \<noteq> None})"
proof -
  let ?l = "fold audit_do ops (new_audit_logger (Some cfg))"
  let ?base = "dict_get (al_pending ?l) (as_request_id r) []"
  have c: "al_config ?l = cfg" by simp
  have e: "snd (hd (al_log (snd (log_response env r ?l)))) = response_event env cfg ?base r"
    using assms c by (simp add: log_response_def write_event_def emit_to_otel_def Let_def)
  have base: "?base = (case open_request (as_request_id r) ops of None \<Rightarrow> [] | Some (env, q) \<Rightarrow> request_event env cfg q)"
    unfolding dict_get_def pending_open [OF assms(1)] by (simp split: option.split prod.split)
  have keys: "set (dict_keys (al_pending ?l)) = {rid. open_request rid ops \<noteq> None}"
  proof -
    have "rid \<in> fst ` set (al_pending ?l) \<longleftrightarrow> open_request rid ops \<noteq> None" for rid
    proof -
      have "rid \<in> fst ` set (al_pending ?l) \<longleftrightarrow> map_of (al_pending ?l) rid \<noteq> None" by (simp add: map_of_eq_None_iff)
      then show ?thesis unfolding pending_open [OF assms(1)] by simp
    qed
    then show ?thesis by auto
  qed
  show ?thesis unfolding Let_def e response_event_get base keys
    by (auto simp: request_event_get dict_get_def [of "[]"] split: option.split)
qed

definition quiet_env :: audit_env where
  "quiet_env = \<lparr>ae_now = ''now'', ae_dumps = (\<lambda>_. None), ae_text = (\<lambda>_. [])\<rparr>"

definition asks :: "string \<Rightarrow> audit_request" where
  "asks who = \<lparr>aq_request_id = ''1'', aq_method = ''m'', aq_tenant_id = None, aq_trace_id = None, aq_principal = Some who, aq_params = None\<rparr>"

definition done_at :: "string \<Rightarrow> audit_response" where
  "done_at rid = \<lparr>as_request_id = rid, as_status = ''success'', as_duration_ms = 1, as_error_code = None, as_response = None\<rparr>"

theorem audit_pairing_witness:
  "dict_get (snd (hd (al_log (snd (log_response quiet_env (done_at ''1'')
     (fold audit_do [(quiet_env, ARequest (asks ''alice'')), (quiet_env, ARequest (asks ''mallory''))]
        (new_audit_logger (Some default_audit_config)))))))) ''principal'' PNone = PStr ''mallory''"
  using audit_pairing [where cfg = default_audit_config and env = quiet_env and r = "done_at ''1''" and
      ops = "[(quiet_env, ARequest (asks ''alice'')), (quiet_env, ARequest (asks ''mallory''))]"]
  by (simp add: default_audit_config_def quiet_env_def Let_def open_request_def asks_def done_at_def or_dash_def)

section \<open>In the chain\<close>

lemma log_request_ok: "(\<And>e. ae_dumps env e = None) \<Longrightarrow> fst (log_request env q l) = None"
  by (simp add: log_request_def write_event_def Let_def)

lemma log_response_ok: "(\<And>e. ae_dumps env e = None) \<Longrightarrow> fst (log_response env r l) = None"
  by (simp add: log_response_def write_event_def Let_def)

lemma log_request_config: "al_config (snd (log_request env q l)) = al_config l"
  by (simp add: log_request_def Let_def)

lemma audit_enter_ok:
  assumes "\<And>e. ae_dumps (audit_env s) e = None"
  shows "\<exists>c1. audit_enter s c = (None, [], c1) \<and> cx_error c1 = cx_error c \<and> cx_response c1 = cx_response c
    \<and> cx_request c1 = cx_request c \<and> cx_aborted c1 = cx_aborted c \<and> al_config (cx_world c1) = al_config (cx_world c)"
proof -
  let ?c = "store_local ''audit_start_time'' (PFloat (Some (fst (audit_clock s))))
    (store_local ''audit_request_id'' (PStr (aq_request_id (audit_request_of (cx_request c)))) c)"
  obtain exc l where l: "log_request (audit_env s) (audit_request_of (cx_request c)) (cx_world ?c) = (exc, l)" by force
  then have "exc = None" "al_config l = al_config (cx_world ?c)"
    using log_request_ok [OF assms] log_request_config by (metis fst_conv, metis snd_conv)
  with l show ?thesis by (simp add: audit_enter_def Let_def store_local_def)
qed

lemma audit_exit_ok:
  assumes "\<And>e. ae_dumps (audit_env s) e = None"
  shows "fst (audit_exit s exc c) = exc"
  using log_response_ok [OF assms] by (simp add: audit_exit_def Let_def store_local_def case_prod_beta)

lemma audit_exit_status:
  assumes "\<And>e. ae_dumps (audit_env s) e = None" "au_enabled (al_config (cx_world c))"
  shows "dict_get (snd (hd (al_log (cx_world (snd (audit_exit s exc c)))))) ''status'' PNone = PStr (audit_status c)"
  using assms
  by (simp add: audit_exit_def Let_def log_response_def write_event_def emit_to_otel_def response_event_get store_local_def
      audit_response_of_def case_prod_beta)

text \<open>
  With events that can be dumped the interceptor changes neither responses nor
  exceptions: it always lets the request in, with a context of the same request, and hands on what came out.
\<close>

theorem audit_transparent:
  assumes "\<And>e. ae_dumps (audit_env s) e = None" "\<not> cx_aborted c"
  shows "\<exists>c1. cx_request c1 = cx_request c \<and> fst (nest (audit_interceptor s # is) body ws c) = fst (nest is body ws c1)"
proof -
  obtain c1 where c1: "audit_enter s c = (None, [], c1)" "cx_request c1 = cx_request c" "cx_aborted c1 = cx_aborted c"
    using audit_enter_ok [OF assms(1)] by blast
  obtain rs exc c2 where n: "nest is body ws c1 = ((rs, exc), c2)" by (metis prod.collapse)
  obtain exc' c3 where x: "audit_exit s exc c2 = (exc', c3)" by force
  then have "exc' = exc" using audit_exit_ok [OF assms(1), where exc = exc and c = c2] by simp
  then have "fst (nest (audit_interceptor s # is) body ws c) = fst (nest is body ws c1)"
    using c1 assms(2) n x by (simp add: audit_interceptor_def)
  with c1(2) show ?thesis by blast
qed

text \<open>
  A request that a later interceptor turns away by raising is logged as a success, although
  the caller gets the exception: only exceptions of the handler reach the context the status is read from.
\<close>

theorem audit_blind:
  assumes "\<And>e. ae_dumps (audit_env s) e = None" "\<not> cx_aborted c" "cx_error c = None" "cx_response c = None"
    and "au_enabled (al_config (cx_world c))"
    and "\<And>c. ic_enter i c = (Some e, [], c)"
  shows "fst (nest [audit_interceptor s, i] body ws c) = ([], Some e)
    \<and> dict_get (snd (hd (al_log (cx_world (snd (nest [audit_interceptor s, i] body ws c)))))) ''status'' PNone = PStr ''success''"
proof -
  obtain c1 where c1: "audit_enter s c = (None, [], c1)" "cx_aborted c1 = cx_aborted c" "cx_error c1 = None"
    "cx_response c1 = None" "au_enabled (al_config (cx_world c1))"
    using audit_enter_ok [OF assms(1), of c] assms(3-5) by auto
  have n: "nest [i] body ws c1 = (([], Some e), c1)" using assms(2,6) c1(2) by simp
  obtain exc' c3 where x: "audit_exit s (Some e) c1 = (exc', c3)" by force
  then have "exc' = Some e" using audit_exit_ok [OF assms(1), where exc = "Some e" and c = c1] by simp
  moreover have "dict_get (snd (hd (al_log (cx_world c3)))) ''status'' PNone = PStr ''success''"
    using audit_exit_status [OF assms(1) c1(5), where exc = "Some e"] x c1(3,4) by (simp add: audit_status_def)
  moreover have "nest [audit_interceptor s, i] body ws c = (([], exc'), c3)"
    using c1(1,2) assms(2) n x by (simp add: audit_interceptor_def del: nest.simps(1))
  ultimately show ?thesis by simp
qed

definition quiet_setup :: audit_setup where
  "quiet_setup = \<lparr>audit_env = quiet_env, audit_clock = (0, 1), audit_dump = (\<lambda>_. []), audit_code = (\<lambda>_. [])\<rparr>"

definition bare_request :: rpc_request where
  "bare_request =
     \<lparr>rq_aduib_rpc = ''2.0'', rq_id = Some ''1'', rq_method = ''m'', rq_name = None, rq_data = None, rq_supported_versions = None,
      rq_trace_context = None, rq_metadata = None, rq_qos = None, rq_meta = None, rq_id_str = None\<rparr>"

definition audit_start :: "audit_logger ctx" where
  "audit_start = new_ctx bare_request [] None [] False (new_audit_logger None)"

definition turns_away :: "audit_logger interceptor" where
  "turns_away = \<lparr>ic_order = 5, ic_enter = (\<lambda>c. (Some (no_attribute ''x''), [], c)), ic_exit = (\<lambda>exc c. (exc, c))\<rparr>"

lemma audit_start_fields [simp]:
  "cx_aborted audit_start = False" "cx_error audit_start = None" "cx_response audit_start = None"
  "au_enabled (al_config (cx_world audit_start))"
  by (simp_all add: audit_start_def new_ctx_def new_audit_logger_def default_audit_config_def)

lemma quiet_dumps [simp]: "ae_dumps (audit_env quiet_setup) e = None"
  by (simp add: quiet_setup_def quiet_env_def)

theorem audit_transparent_witness:
  "fst (nest [audit_interceptor quiet_setup] (\<lambda>ws c. (([], Some (no_attribute ''y'')), c)) [] audit_start) = ([], Some (no_attribute ''y''))"
  using audit_transparent [of quiet_setup audit_start "[]" "\<lambda>ws c. (([], Some (no_attribute ''y'')), c)" "[]"] by simp

theorem audit_blind_witness:
  "dict_get (snd (hd (al_log (cx_world (snd (nest [audit_interceptor quiet_setup, turns_away] (\<lambda>ws c. (([], None), c)) [] audit_start))))))
     ''status'' PNone = PStr ''success''"
  using audit_blind [of quiet_setup audit_start turns_away "no_attribute ''x''" "\<lambda>ws c. (([], None), c)" "[]"]
  by (simp add: turns_away_def del: nest.simps)

end
