(* ===== verification/Thrift_Pools.thy ===== *)
theory Thrift_Pools
  imports Rpc_Prelude
begin

text \<open>
  The connection pools of a Thrift transport (\<open>_get_client\<close>, \<open>_get_task_client\<close>, \<open>_get_health_client\<close>,
  \<open>_create_pool\<close>, \<open>aclose\<close> of \<open>client/transports/thrift.py\<close>) while calls come, pools break, and the
  transport is closed: one lock, whose waiters are served in the order they came, guards three pools; the flag
  that the transport is closed is set without it.
\<close>

section \<open>State and operations\<close>

text \<open>The first in the queue has the lock. Pools are numbered as they are made; the open ones are listed.\<close>

datatype tt_waiter = Getting string | Closing

record tt_state =
  tt_closed :: bool
  tt_pools :: "(string, nat) dict"
  tt_open :: "nat list"
  tt_fresh :: nat
  tt_queue :: "tt_waiter list"
  tt_closing :: "nat list"

definition new_thrift_pools :: tt_state where
  "new_thrift_pools = \<lparr>tt_closed = False, tt_pools = [], tt_open = [], tt_fresh = 0, tt_queue = [], tt_closing = []\<rparr>"

datatype tt_answer = Refused | Given nat | Waits | Raises

text \<open>A pool is there and not closed.\<close>

definition usable_pool :: "string \<Rightarrow> tt_state \<Rightarrow> nat option" where
  "usable_pool svc s = (case map_of (tt_pools s) svc of None \<Rightarrow> None | Some n \<Rightarrow> if n \<in> set (tt_open s) then Some n else None)"

text \<open>\<open>_get_client\<close> up to the lock.\<close>

definition get_begin :: "string \<Rightarrow> tt_state \<Rightarrow> tt_answer \<times> tt_state" where
  "get_begin svc s =
     (if tt_closed s then (Refused, s)
      else case usable_pool svc s of
             Some n \<Rightarrow> (Given n, s)
           | None \<Rightarrow> (Waits, s\<lparr>tt_queue := tt_queue s @ [Getting svc]\<rparr>))"

text \<open>Under the lock, until it is given back. Making a pool may raise.\<close>

definition get_locked :: "bool \<Rightarrow> string \<Rightarrow> tt_state \<Rightarrow> tt_answer \<times> tt_state" where
  "get_locked connects svc s =
     (let s1 = s\<lparr>tt_queue := tl (tt_queue s)\<rparr> in
      case usable_pool svc s of
        Some n \<Rightarrow> (Given n, s1)
      | None \<Rightarrow>
          if connects
          then (Given (tt_fresh s),
                s1\<lparr>tt_pools := AList.update svc (tt_fresh s) (tt_pools s), tt_open := tt_fresh s # tt_open s,
                   tt_fresh := Suc (tt_fresh s)\<rparr>)
          else (Raises, s1\<lparr>tt_pools := AList.delete svc (tt_pools s)\<rparr>))"

text \<open>\<open>aclose\<close>: the flag, the lock, and the pools it found one after the other.\<close>

definition close_begin :: "tt_state \<Rightarrow> tt_state" where
  "close_begin s = (if tt_closed s then s else s\<lparr>tt_closed := True, tt_queue := tt_queue s @ [Closing]\<rparr>)"

definition close_locked :: "tt_state \<Rightarrow> tt_state" where
  "close_locked s = s\<lparr>tt_pools := [], tt_closing := map snd (tt_pools s), tt_queue := tl (tt_queue s)\<rparr>"

definition close_pool :: "nat \<Rightarrow> tt_state \<Rightarrow> tt_state" where
  "close_pool n s = s\<lparr>tt_open := removeAll n (tt_open s)\<rparr>"

definition close_next :: "tt_state \<Rightarrow> tt_state" where
  "close_next s = (case tt_closing s of [] \<Rightarrow> s | n # ns \<Rightarrow> close_pool n (s\<lparr>tt_closing := ns\<rparr>))"

section \<open>Interleavings\<close>

inductive tt_step :: "tt_state \<Rightarrow> tt_state \<Rightarrow> bool" where
  step_get: "tt_step s (snd (get_begin svc s))"
| step_make: "tt_queue s = Getting svc # q \<Longrightarrow> tt_step s (snd (get_locked connects svc s))"
| step_close: "tt_step s (close_begin s)"
| step_take: "tt_queue s = Closing # q \<Longrightarrow> tt_step s (close_locked s)"
| step_next: "tt_closing s \<noteq> [] \<Longrightarrow> tt_step s (close_next s)"
| step_breaks: "tt_step s (close_pool n s)"

abbreviation tt_steps :: "tt_state \<Rightarrow> tt_state \<Rightarrow> bool" where
  "tt_steps \<equiv> tt_step\<^sup>*\<^sup>*"

definition tt_quiet :: "tt_state \<Rightarrow> bool" where
  "tt_quiet s \<longleftrightarrow> tt_queue s = [] \<and> tt_closing s = []"

definition tt_inv :: "tt_state \<Rightarrow> bool" where
  "tt_inv s \<longleftrightarrow>
     (\<forall>n \<in> set (tt_open s). n < tt_fresh s \<and> ((\<exists>svc. map_of (tt_pools s) svc = Some n) \<or> n \<in> set (tt_closing s)))
     \<and> (if tt_closed s
        then (\<exists>svcs. tt_queue s = map Getting svcs @ [Closing]) \<and> tt_closing s = [] \<or> tt_queue s = [] \<and> tt_pools s = []
        else (\<exists>svcs. tt_queue s = map Getting svcs) \<and> tt_closing s = [])"

lemma tt_inv_new: "tt_inv new_thrift_pools"
  by (simp add: tt_inv_def new_thrift_pools_def)

lemma tt_inv_get: "tt_inv s \<Longrightarrow> tt_inv (snd (get_begin svc s))"
proof -
  assume inv: "tt_inv s"
  have "\<exists>svcs'. map Getting svcs @ [Getting svc] = map Getting svcs'" for svcs
    by (rule exI [of _ "svcs @ [svc]"]) simp
  with inv show ?thesis by (auto simp: get_begin_def tt_inv_def split: option.splits)
qed

lemma tt_inv_close: "tt_inv s \<Longrightarrow> tt_inv (close_begin s)"
  by (auto simp: close_begin_def tt_inv_def)

lemma tt_inv_pool: "tt_inv s \<Longrightarrow> tt_inv (close_pool n s)"
  by (auto simp: close_pool_def tt_inv_def)

lemma in_pools: "map_of ps svc = Some n \<Longrightarrow> n \<in> snd ` set ps"
  by (force dest: map_of_SomeD)

lemma tt_inv_take: "tt_inv s \<Longrightarrow> tt_queue s = Closing # q \<Longrightarrow> tt_inv (close_locked s)"
  by (auto simp: close_locked_def tt_inv_def Cons_eq_append_conv map_eq_Cons_conv intro: in_pools split: if_splits)

text \<open>The three ways a caller leaves the lock.\<close>

lemma get_locked_simps:
  "usable_pool svc s = Some n \<Longrightarrow> get_locked c svc s = (Given n, s\<lparr>tt_queue := tl (tt_queue s)\<rparr>)"
  "usable_pool svc s = None \<Longrightarrow> get_locked True svc s = (Given (tt_fresh s),
     s\<lparr>tt_queue := tl (tt_queue s), tt_pools := AList.update svc (tt_fresh s) (tt_pools s),
       tt_open := tt_fresh s # tt_open s, tt_fresh := Suc (tt_fresh s)\<rparr>)"
  "usable_pool svc s = None \<Longrightarrow> get_locked False svc s = (Raises,
     s\<lparr>tt_queue := tl (tt_queue s), tt_pools := AList.delete svc (tt_pools s)\<rparr>)"
  by (simp_all add: get_locked_def Let_def)

lemma get_locked_same [simp]:
  "tt_queue (snd (get_locked c svc s)) = tl (tt_queue s)" "tt_closed (snd (get_locked c svc s)) = tt_closed s"
  "tt_closing (snd (get_locked c svc s)) = tt_closing s"
  by (auto simp: get_locked_def Let_def split: option.splits)

lemma get_locked_pools:
  assumes "\<forall>n \<in> set (tt_open s). n < tt_fresh s \<and> (\<exists>svc. map_of (tt_pools s) svc = Some n)"
    and "t = snd (get_locked c svc s)"
  shows "\<forall>n \<in> set (tt_open t). n < tt_fresh t \<and> (\<exists>svc. map_of (tt_pools t) svc = Some n)"
proof (cases "usable_pool svc s")
  case None
  have old: "\<exists>svc'. svc' \<noteq> svc \<and> map_of (tt_pools s) svc' = Some n" if "n \<in> set (tt_open s)" for n
  proof -
    have "\<exists>svc'. map_of (tt_pools s) svc' = Some n" using bspec [OF assms(1) that] by (rule conjunct2)
    then obtain svc' where svc': "map_of (tt_pools s) svc' = Some n" ..
    with that None have "svc' \<noteq> svc" by (auto simp: usable_pool_def split: if_splits)
    with svc' show ?thesis by blast
  qed
  show ?thesis
  proof (cases c)
    case True
    have "\<exists>svc'. map_of (AList.update svc (tt_fresh s) (tt_pools s)) svc' = Some n" if "n = tt_fresh s \<or> n \<in> set (tt_open s)" for n
    proof (cases "n = tt_fresh s")
      case True
      then show ?thesis by (intro exI [of _ svc]) (simp add: update_conv')
    next
      case False
      with old that obtain svc' where "svc' \<noteq> svc" "map_of (tt_pools s) svc' = Some n" by blast
      then show ?thesis by (intro exI [of _ svc']) (simp add: update_conv')
    qed
    moreover have "n < Suc (tt_fresh s)" if "n = tt_fresh s \<or> n \<in> set (tt_open s)" for n
      using bspec [OF assms(1), of n] that by auto
    ultimately show ?thesis using assms(2) None True by (simp add: get_locked_simps)
  next
    case False
    have "\<exists>svc'. map_of (AList.delete svc (tt_pools s)) svc' = Some n" if "n \<in> set (tt_open s)" for n
    proof -
      from old [OF that] obtain svc' where "svc' \<noteq> svc" "map_of (tt_pools s) svc' = Some n" by blast
      then show ?thesis by (intro exI [of _ svc']) (simp add: delete_conv')
    qed
    with assms None False show ?thesis by (simp add: get_locked_simps)
  qed
next
  case (Some n)
  with assms show ?thesis by (simp add: get_locked_simps)
qed

lemma tt_inv_next: "tt_inv s \<Longrightarrow> tt_closing s \<noteq> [] \<Longrightarrow> tt_inv (close_next s)"
  by (auto simp: close_next_def close_pool_def tt_inv_def split: list.splits if_splits)

lemma waiters_left:
  "Getting svc # q = map Getting svcs @ [Closing] \<Longrightarrow> \<exists>svcs'. q = map Getting svcs' @ [Closing]"
  "Getting svc # q = map Getting svcs \<Longrightarrow> \<exists>svcs'. q = map Getting svcs'"
  by (cases svcs; auto)+

lemma tt_inv_make:
  assumes "tt_inv s" "tt_queue s = Getting svc # q"
  shows "tt_inv (snd (get_locked c svc s))"
proof -
  have "tt_closing s = []" using assms by (auto simp: tt_inv_def split: if_splits)
  with assms have "\<forall>n \<in> set (tt_open s). n < tt_fresh s \<and> (\<exists>svc. map_of (tt_pools s) svc = Some n)"
    by (simp add: tt_inv_def)
  from get_locked_pools [OF this refl, of c svc] assms show ?thesis
    by (auto simp: tt_inv_def dest: waiters_left split: if_splits)
qed

lemma tt_inv_step: "tt_step s t \<Longrightarrow> tt_inv s \<Longrightarrow> tt_inv t"
  by (induction rule: tt_step.induct)
    (simp_all add: tt_inv_get tt_inv_make tt_inv_close tt_inv_take tt_inv_next tt_inv_pool)

lemma tt_inv_steps: "tt_steps s t \<Longrightarrow> tt_inv s \<Longrightarrow> tt_inv t"
  by (induction rule: rtranclp_induct) (auto intro: tt_inv_step)

section \<open>Closing\<close>

lemma closed_stays: "tt_step s t \<Longrightarrow> tt_closed s \<Longrightarrow> tt_closed t"
  by (induction rule: tt_step.induct)
    (auto simp: get_begin_def close_begin_def close_locked_def close_next_def close_pool_def split: option.splits list.splits)

text \<open>The waiters of a closed transport are served, then the pools are closed: every step of it makes progress.\<close>

lemma closing_drains:
  assumes "tt_inv s" "tt_closed s" "length (tt_closing s) = n" "tt_queue s = []"
  shows "\<exists>t. tt_steps s t \<and> tt_quiet t \<and> tt_closed t"
  using assms
proof (induction n arbitrary: s)
  case 0
  then show ?case by (auto simp: tt_quiet_def)
next
  case (Suc n)
  then have ne: "tt_closing s \<noteq> []" by auto
  then have step: "tt_step s (close_next s)" by (rule step_next)
  have "tt_inv (close_next s)" "tt_closed (close_next s)" "length (tt_closing (close_next s)) = n" "tt_queue (close_next s) = []"
    using Suc.prems ne tt_inv_next closed_stays [OF step] by (auto simp: close_next_def close_pool_def split: list.splits)
  from Suc.IH [OF this] step show ?case by (meson converse_rtranclp_into_rtranclp)
qed

lemma waiters_drain:
  assumes "tt_inv s" "tt_closed s" "length (tt_queue s) = n"
  shows "\<exists>t. tt_steps s t \<and> tt_quiet t \<and> tt_closed t"
  using assms
proof (induction n arbitrary: s)
  case 0
  then show ?case using closing_drains by simp
next
  case (Suc n)
  then obtain x q where q: "tt_queue s = x # q" by (cases "tt_queue s") auto
  obtain t where step: "tt_step s t" and "tt_inv t" and len: "length (tt_queue t) = n"
  proof (cases x)
    case (Getting svc)
    with q Suc.prems show ?thesis
      by (intro that [of "snd (get_locked True svc s)"] step_make tt_inv_make) auto
  next
    case Closing
    with q Suc.prems show ?thesis
      by (intro that [of "close_locked s"] step_take tt_inv_take) (auto simp: close_locked_def)
  qed
  then have "\<exists>t'. tt_steps t t' \<and> tt_quiet t' \<and> tt_closed t'"
    using Suc.IH Suc.prems(2) closed_stays by blast
  with step show ?case by (meson converse_rtranclp_into_rtranclp)
qed

text \<open>
  C28. Closing a Thrift transport leaves no connection pool open, however it is
  mixed with calls that wait for the lock or are making a pool, and with pools that break: whenever a closed
  transport has no waiter and no pool left to close, no pool is open; and from every reachable state of a
  closed transport such a state can be reached, the waiters being served and the pools closed. The flag is set
  before the lock is asked for, so no call queues up behind the closing. (No task is
  cancelled, and closing a pool is taken not to raise: an exception of the first would leave the others open.)
\<close>

theorem thrift_close_leaks_nothing:
  assumes "tt_steps new_thrift_pools s" "tt_closed s"
  shows "(tt_quiet s \<longrightarrow> tt_open s = [] \<and> tt_pools s = [])
    \<and> (\<exists>t. tt_steps s t \<and> tt_quiet t \<and> tt_closed t)"
proof -
  have inv: "tt_inv s" using tt_inv_steps [OF assms(1) tt_inv_new] .
  then have "tt_quiet s \<longrightarrow> tt_open s = [] \<and> tt_pools s = []"
    using assms(2) by (auto simp: tt_inv_def tt_quiet_def)
  with waiters_drain [OF inv assms(2) refl] show ?thesis by blast
qed

text \<open>A call waits, another queues behind it, the transport is closed, the first makes its pool.\<close>

definition closing_early :: tt_state where
  "closing_early = close_locked (snd (get_locked True ''TaskService'' (close_begin (snd (get_begin ''TaskService'' new_thrift_pools)))))"

theorem thrift_close_leaks_nothing_witness:
  "tt_open closing_early = [0] \<and> (\<exists>t. tt_steps closing_early t \<and> tt_quiet t \<and> tt_closed t)"
proof -
  let ?a = "snd (get_begin ''TaskService'' new_thrift_pools)"
  let ?b = "close_begin ?a"
  let ?c = "snd (get_locked True ''TaskService'' ?b)"
  have q: "tt_queue ?b = [Getting ''TaskService'', Closing]" "tt_queue ?c = [Closing]"
    by (simp_all add: get_begin_def close_begin_def usable_pool_def new_thrift_pools_def)
  have "tt_steps new_thrift_pools closing_early"
    unfolding closing_early_def
    using step_get [of new_thrift_pools "''TaskService''"] step_close [of ?a] step_make [OF q(1), of True] step_take [OF q(2)]
    by (meson converse_rtranclp_into_rtranclp rtranclp.rtrancl_refl)
  moreover have "tt_closed closing_early" "tt_open closing_early = [0]"
    by (simp_all add: closing_early_def get_begin_def close_begin_def get_locked_def Let_def close_locked_def usable_pool_def new_thrift_pools_def)
  ultimately show ?thesis using thrift_close_leaks_nothing by blast
qed

end
