(* ===== verification/Binary_Endpoints.thy ===== *)
theory Binary_Endpoints
  imports Endpoints
begin

text \<open>
  The gRPC and the Thrift endpoints (\<open>server/request_handlers/grpc_v2_handler.py\<close>,
  \<open>thrift_v2_handler.py\<close>) with what they use of the two codecs for errors, task events and health:
  calls, the four kinds of streaming, tasks and health, and the contexts they make of transport headers
  and request metadata.
\<close>

section \<open>The gRPC server context\<close>

text \<open>
  Per call: the library and the error settings, the servicer context as a value, what
  \<open>invocation_metadata()\<close> gives or raises, and the text of a dumped error.
\<close>

record ('s, 'v) grpc_env =
  ge_lib :: "('s, 'v) pb_lib"
  ge_errors :: error_env
  ge_object :: pyval
  ge_invocation :: "exn + (string \<times> string) list"
  ge_dumps :: "rpc_error \<Rightarrow> string"

definition request_tenant :: "rpc_request \<Rightarrow> string" where
  "request_tenant r = (case rq_metadata r of None \<Rightarrow> [] | Some m \<Rightarrow> or_empty (rm_tenant_id m))"

definition invocation_headers :: "('s, 'v) grpc_env \<Rightarrow> (string, string) dict" where
  "invocation_headers env = (case ge_invocation env of Inl _ \<Rightarrow> [] | Inr pairs \<Rightarrow> header_dict pairs)"

text \<open>Messages without metadata (tasks, health) have no tenant of their own.\<close>

definition grpc_build_context :: "('s, 'v) grpc_env \<Rightarrow> string \<Rightarrow> server_context" where
  "grpc_build_context env tenant =
     (let hs = invocation_headers env;
          st = (''grpc_context'', ge_object env)
                 # (if is_ok (ge_invocation env) then [(''headers'', PDict (str_dict hs))] else []);
          t = (if tenant \<noteq> [] then tenant else first_header hs tenant_headers)
      in \<lparr>sc_state = attach_tenant t st, sc_principal = None, sc_meta = str_dict hs\<rparr>)"

section \<open>gRPC: calls\<close>

definition grpc_refuse :: "('s, 'v) grpc_env \<Rightarrow> string \<Rightarrow> exn \<Rightarrow> exn + 'v pb_response" where
  "grpc_refuse env rid e =
     response_to_proto (ge_lib env) (failed_response (Some rid) (wire_error (ge_errors env) e))"

definition grpc_call ::
  "('s, 'v) grpc_env \<Rightarrow> 'w request_handler \<Rightarrow> 's pb_request \<Rightarrow> ('w, exn, 'v pb_response) comp" where
  "grpc_call env h m =
     catching (grpc_refuse env (prq_id m))
       (and_then (of_value (request_from_proto (ge_lib env) m)) (\<lambda>r.
        and_then (rh_on_message h r (Some (grpc_build_context env (request_tenant r)))) (\<lambda>x.
          of_value (response_to_proto (ge_lib env) x))))"

definition grpc_call_server_stream ::
  "('s, 'v) grpc_env \<Rightarrow> 'w request_handler \<Rightarrow> 's pb_request \<Rightarrow> 'w \<Rightarrow> 'v pb_response stream \<times> 'w" where
  "grpc_call_server_stream env h m w =
     (case request_from_proto (ge_lib env) m of
        Inl e \<Rightarrow> (catching_stream (grpc_refuse env (prq_id m)) ([], Some e), w)
      | Inr r \<Rightarrow>
          (let (s, w1) = rh_on_stream h r (Some (grpc_build_context env (request_tenant r))) w in
           (catching_stream (grpc_refuse env (prq_id m))
              (map_until (response_to_proto (ge_lib env)) (fst s) (snd s)), w1)))"

definition empty_stream :: exn where
  "empty_stream = Exn ValueError 0 ''request stream is empty'' PNone None"

text \<open>The first request decides the context; the others are decoded as the handler asks for them.\<close>

definition decoded_stream ::
  "('s, 'v) grpc_env \<Rightarrow> rpc_request \<Rightarrow> 's pb_request list \<Rightarrow> exn option \<Rightarrow> rpc_request stream" where
  "decoded_stream env r ms exc =
     (let (rs, ex) = map_until (request_from_proto (ge_lib env)) ms exc in (r # rs, ex))"

definition grpc_call_client_stream ::
  "('s, 'v) grpc_env \<Rightarrow> 'w request_handler \<Rightarrow> 's pb_request stream \<Rightarrow> ('w, exn, 'v pb_response) comp" where
  "grpc_call_client_stream env h s =
     (case s of
        ([], None) \<Rightarrow> of_value (grpc_refuse env [] empty_stream)
      | ([], Some e) \<Rightarrow> catching (grpc_refuse env []) (of_value (Inl e))
      | (m # ms, exc) \<Rightarrow>
          catching (grpc_refuse env (prq_id m))
            (and_then (of_value (request_from_proto (ge_lib env) m)) (\<lambda>r.
             and_then (rh_client_stream h (decoded_stream env r ms exc)
                         (Some (grpc_build_context env (request_tenant r)))) (\<lambda>x.
               of_value (response_to_proto (ge_lib env) x)))))"

definition grpc_call_bidirectional ::
  "('s, 'v) grpc_env \<Rightarrow> 'w request_handler \<Rightarrow> 's pb_request stream \<Rightarrow> 'w \<Rightarrow> 'v pb_response stream \<times> 'w" where
  "grpc_call_bidirectional env h s w =
     (case s of
        ([], None) \<Rightarrow> (catching_stream (grpc_refuse env []) ([], Some empty_stream), w)
      | ([], Some e) \<Rightarrow> (catching_stream (grpc_refuse env []) ([], Some e), w)
      | (m # ms, exc) \<Rightarrow>
          (case request_from_proto (ge_lib env) m of
             Inl e \<Rightarrow> (catching_stream (grpc_refuse env (prq_id m)) ([], Some e), w)
           | Inr r \<Rightarrow>
               (let (out, w1) = rh_bidirectional h (decoded_stream env r ms exc)
                                  (Some (grpc_build_context env (request_tenant r))) w in
                (catching_stream (grpc_refuse env (prq_id m))
                   (map_until (response_to_proto (ge_lib env)) (fst out) (snd out)), w1))))"

section \<open>gRPC: tasks and health\<close>

text \<open>The call is answered, or aborted with a status and the dumped error as its details.\<close>

datatype 'a grpc_reply = Reply 'a | GrpcAbort string string

definition grpc_abort :: "('s, 'v) grpc_env \<Rightarrow> exn \<Rightarrow> 'a grpc_reply" where
  "grpc_abort env e =
     (let err = wire_error (ge_errors env) e in
      GrpcAbort (error_code_to_grpc_status (err_code err)) (ge_dumps env err))"

definition reply_or_abort :: "('s, 'v) grpc_env \<Rightarrow> ('w, exn, 'a) comp \<Rightarrow> ('w, exn, 'a grpc_reply) comp" where
  "reply_or_abort env f =
     catching (\<lambda>e. Inr (grpc_abort env e)) (and_then f (\<lambda>x. of_value (Inr (Reply x))))"

definition relay_or_abort ::
  "('s, 'v) grpc_env \<Rightarrow> ('a \<Rightarrow> exn + 'b) \<Rightarrow> 'a stream \<Rightarrow> 'b grpc_reply stream" where
  "relay_or_abort env f s =
     catching_stream (\<lambda>e. Inr (grpc_abort env e)) (map_until (\<lambda>x. map_sum id Reply (f x)) (fst s) (snd s))"

text \<open>A handler that returns no response is read attribute by attribute, with the defaults.\<close>

definition submit_response_to_proto :: "task_submit_response option \<Rightarrow> exn + string \<times> int \<times> int" where
  "submit_response_to_proto resp =
     (case resp of
        None \<Rightarrow> Inr ([], task_status_to_wire (Other PNone), 0)
      | Some s \<Rightarrow> bind_ok (int_field 64 (tss_created_at_ms s)) (\<lambda>t.
          Inr (tss_task_id s, task_status_to_wire (Member (tss_status s)), t)))"

definition task_event_to_proto ::
  "('s, 'v) pb_lib \<Rightarrow> wire_task_event \<Rightarrow> exn + string \<times> 'v pb_task_record \<times> int" where
  "task_event_to_proto lib ev =
     (let (name, r, ts) = ev in
      bind_ok (task_record_to_proto lib r) (\<lambda>p. bind_ok (int_field 64 ts) (\<lambda>t. Inr (name, p, t))))"

definition task_event_from_proto ::
  "('s, 'v) pb_lib \<Rightarrow> string \<times> 'v pb_task_record \<times> int \<Rightarrow> wire_task_event" where
  "task_event_from_proto lib m = (let (name, p, t) = m in (name, task_record_from_proto lib p, t))"

definition grpc_submit ::
  "('s, 'v) grpc_env \<Rightarrow> 'w request_handler \<Rightarrow> 's pb_task_submit_request
     \<Rightarrow> ('w, exn, (string \<times> int \<times> int) grpc_reply) comp" where
  "grpc_submit env h m =
     reply_or_abort env
       (and_then (of_value (task_submit_request_from_proto (ge_lib env) m)) (\<lambda>sub.
        and_then (rh_submit h sub (Some (grpc_build_context env []))) (\<lambda>x.
          of_value (submit_response_to_proto x))))"

definition grpc_query ::
  "('s, 'v) grpc_env \<Rightarrow> 'w request_handler \<Rightarrow> string \<Rightarrow> ('w, exn, 'v pb_task_record grpc_reply) comp" where
  "grpc_query env h tid =
     reply_or_abort env
       (and_then (rh_query h tid (Some (grpc_build_context env []))) (\<lambda>r.
          of_value (task_record_to_proto (ge_lib env) r)))"

definition grpc_cancel ::
  "('s, 'v) grpc_env \<Rightarrow> 'w request_handler \<Rightarrow> string \<times> string option
     \<Rightarrow> ('w, exn, (string \<times> int \<times> bool) grpc_reply) comp" where
  "grpc_cancel env h m =
     reply_or_abort env
       (and_then (rh_cancel h (task_cancel_request_from_proto m) (Some (grpc_build_context env []))) (\<lambda>(tid, st, c).
          of_value (Inr (tid, task_status_to_wire (Member st), c))))"

definition grpc_subscribe ::
  "('s, 'v) grpc_env \<Rightarrow> 'w request_handler \<Rightarrow> string \<times> string list \<Rightarrow> 'w
     \<Rightarrow> (string \<times> 'v pb_task_record \<times> int) grpc_reply stream \<times> 'w" where
  "grpc_subscribe env h m w =
     (let (s, w1) = rh_subscribe h (task_subscribe_request_from_proto m) (Some (grpc_build_context env [])) w in
      (relay_or_abort env (task_event_to_proto (ge_lib env)) s, w1))"

definition grpc_check ::
  "('s, 'v) grpc_env \<Rightarrow> 'w request_handler \<Rightarrow> string option \<Rightarrow> ('w, exn, (int \<times> (string, int) dict) grpc_reply) comp" where
  "grpc_check env h service =
     reply_or_abort env
       (and_then (rh_check h service (Some (grpc_build_context env []))) (\<lambda>x.
          of_value (Inr (health_response_to_proto x))))"

definition grpc_watch ::
  "('s, 'v) grpc_env \<Rightarrow> 'w request_handler \<Rightarrow> string option \<Rightarrow> 'w
     \<Rightarrow> (int \<times> (string, int) dict) grpc_reply stream \<times> 'w" where
  "grpc_watch env h service w =
     (let (s, w1) = rh_watch h service (Some (grpc_build_context env [])) w in
      (relay_or_abort env (\<lambda>x. Inr (health_response_to_proto x)) s, w1))"

section \<open>Thrift: calls\<close>

record thrift_env =
  te_json :: json_lib
  te_errors :: error_env
  te_dumps :: "rpc_error \<Rightarrow> string"

text \<open>The headers and the tenant of the message are both the metadata of the call.\<close>

definition extract_metadata :: "th_request option \<Rightarrow> (string, string) dict" where
  "extract_metadata request =
     (case Option.bind request thrq_metadata of
        None \<Rightarrow> []
      | Some raw \<Rightarrow>
          (let hs = header_dict (or_empty (thm_headers raw)); t = or_empty (thm_tenant_id raw) in
           if t = [] then hs else AList.update ''tenant_id'' t hs))"

definition thrift_context :: "(string, string) dict \<Rightarrow> server_context" where
  "thrift_context md =
     \<lparr>sc_state = attach_tenant (first_header md (''tenant_id'' # tenant_headers))
                  [(''headers'', PDict (str_dict md))],
      sc_principal = None, sc_meta = str_dict md\<rparr>"

text \<open>Neither the trace context nor the metadata of the response are sent.\<close>

definition thrift_reply :: "thrift_env \<Rightarrow> rpc_response \<Rightarrow> th_response" where
  "thrift_reply env x =
     \<lparr>thrs_aduib_rpc = Some ''2.0'', thrs_id = Some (or_empty (rs_id x)),
      thrs_status = Some (response_status_to_wire (Member (rs_status x))),
      thrs_payload = Some (response_payload_to_thrift (te_json env) x),
      thrs_trace_context = None, thrs_metadata = None\<rparr>"

definition thrift_error_payload :: "thrift_env \<Rightarrow> exn \<Rightarrow> th_response_payload" where
  "thrift_error_payload env e =
     \<lparr>thp_result_json = None, thp_error = Some (rpc_error_to_thrift (te_json env) (wire_error (te_errors env) e))\<rparr>"

definition thrift_refuse :: "thrift_env \<Rightarrow> string option \<Rightarrow> exn \<Rightarrow> exn + th_response" where
  "thrift_refuse env rid e =
     Inr \<lparr>thrs_aduib_rpc = Some ''2.0'', thrs_id = rid, thrs_status = Some 2,
          thrs_payload = Some (thrift_error_payload env e), thrs_trace_context = None, thrs_metadata = None\<rparr>"

definition thrift_call ::
  "thrift_env \<Rightarrow> 'w request_handler \<Rightarrow> th_request \<Rightarrow> ('w, exn, th_response) comp" where
  "thrift_call env h m =
     catching (thrift_refuse env (thrq_id m))
       (and_then (of_value (request_from_thrift (te_json env) m)) (\<lambda>r.
        and_then (rh_on_message h r (Some (thrift_context (extract_metadata (Some m))))) (\<lambda>x.
          of_value (Inr (thrift_reply env x)))))"

text \<open>There is no streaming: the whole reply is a list, made before it is sent.\<close>

definition thrift_call_server_stream ::
  "thrift_env \<Rightarrow> 'w request_handler \<Rightarrow> th_request \<Rightarrow> ('w, exn, th_response list) comp" where
  "thrift_call_server_stream env h m =
     catching (\<lambda>e. map_sum id (\<lambda>x. [x]) (thrift_refuse env (thrq_id m) e))
       (and_then (of_value (request_from_thrift (te_json env) m)) (\<lambda>r w.
          (let (s, w1) = rh_on_stream h r (Some (thrift_context (extract_metadata (Some m)))) w in
           (map_sum id (map (thrift_reply env)) (collected s), w1))))"

definition first_of :: "'a list \<Rightarrow> 'a option" where
  "first_of xs = (case xs of [] \<Rightarrow> None | x # _ \<Rightarrow> Some x)"

definition thrift_call_client_stream ::
  "thrift_env \<Rightarrow> 'w request_handler \<Rightarrow> th_request list \<Rightarrow> ('w, exn, th_response) comp" where
  "thrift_call_client_stream env h ms =
     catching (thrift_refuse env (Some []))
       (and_then (rh_client_stream h (map_until (request_from_thrift (te_json env)) ms None)
                    (Some (thrift_context (extract_metadata (first_of ms))))) (\<lambda>x.
          of_value (Inr (thrift_reply env x))))"

definition thrift_call_bidirectional ::
  "thrift_env \<Rightarrow> 'w request_handler \<Rightarrow> th_request list \<Rightarrow> ('w, exn, th_response list) comp" where
  "thrift_call_bidirectional env h ms =
     catching (\<lambda>e. map_sum id (\<lambda>x. [x]) (thrift_refuse env (Some []) e))
       (\<lambda>w. (let (s, w1) = rh_bidirectional h (map_until (request_from_thrift (te_json env)) ms None)
                             (Some (thrift_context (extract_metadata (first_of ms)))) w in
             (map_sum id (map (thrift_reply env)) (collected s), w1)))"

section \<open>Thrift: tasks and health\<close>

text \<open>
  An exception becomes a \<open>TApplicationException\<close> with the dumped error as its message. No context is
  given to the handler.
\<close>

definition app_error :: "thrift_env \<Rightarrow> exn \<Rightarrow> exn" where
  "app_error env e =
     Exn (Custom ''TApplicationException'' PyException) 6 (te_dumps env (wire_error (te_errors env) e)) PNone None"

definition raising_app_error :: "thrift_env \<Rightarrow> ('w, exn, 'a) comp \<Rightarrow> ('w, exn, 'a) comp" where
  "raising_app_error env = catching (\<lambda>e. Inl (app_error env e))"

definition task_event_to_thrift :: "json_lib \<Rightarrow> wire_task_event \<Rightarrow> string \<times> th_task_record \<times> int" where
  "task_event_to_thrift js ev = (let (name, r, ts) = ev in (name, task_record_to_thrift js r, ts))"

definition task_event_from_thrift ::
  "json_lib \<Rightarrow> string option \<times> th_task_record \<times> int option \<Rightarrow> wire_task_event" where
  "task_event_from_thrift js m =
     (let (name, t, ts) = m in (or_empty name, task_record_from_thrift js t, or_zero ts))"

definition task_cancel_request_from_thrift :: "string option \<times> string option \<Rightarrow> task_cancel_request" where
  "task_cancel_request_from_thrift m = \<lparr>tcr_task_id = or_empty (fst m), tcr_reason = snd m\<rparr>"

definition task_subscribe_request_from_thrift :: "string option \<times> string list option \<Rightarrow> task_subscribe_request" where
  "task_subscribe_request_from_thrift m =
     \<lparr>tbr_task_id = or_empty (fst m), tbr_events = nonempty (or_empty (snd m))\<rparr>"

definition health_request_from_thrift :: "string option \<Rightarrow> string option" where
  "health_request_from_thrift service = nonempty (or_empty service)"

definition thrift_submit ::
  "thrift_env \<Rightarrow> 'w request_handler \<Rightarrow> th_task_submit_request \<Rightarrow> ('w, exn, string \<times> int \<times> int) comp" where
  "thrift_submit env h m =
     raising_app_error env
       (and_then (of_value (task_submit_request_from_thrift (te_json env) m)) (\<lambda>sub.
        and_then (rh_submit h sub None) (\<lambda>x. of_value (Inr
          (case x of
             None \<Rightarrow> ([], task_status_to_wire (Other PNone), 0)
           | Some s \<Rightarrow> (tss_task_id s, task_status_to_wire (Member (tss_status s)), tss_created_at_ms s))))))"

definition thrift_query ::
  "thrift_env \<Rightarrow> 'w request_handler \<Rightarrow> string option \<Rightarrow> ('w, exn, th_task_record) comp" where
  "thrift_query env h tid =
     raising_app_error env
       (and_then (rh_query h (or_empty tid) None) (\<lambda>r. of_value (Inr (task_record_to_thrift (te_json env) r))))"

definition thrift_cancel ::
  "thrift_env \<Rightarrow> 'w request_handler \<Rightarrow> string option \<times> string option \<Rightarrow> ('w, exn, string \<times> int \<times> bool) comp" where
  "thrift_cancel env h m =
     raising_app_error env
       (and_then (rh_cancel h (task_cancel_request_from_thrift m) None) (\<lambda>(tid, st, c).
          of_value (Inr (tid, task_status_to_wire (Member st), c))))"

definition thrift_subscribe ::
  "thrift_env \<Rightarrow> 'w request_handler \<Rightarrow> string option \<times> string list option
     \<Rightarrow> ('w, exn, (string \<times> th_task_record \<times> int) list) comp" where
  "thrift_subscribe env h m =
     raising_app_error env
       (\<lambda>w. (let (s, w1) = rh_subscribe h (task_subscribe_request_from_thrift m) None w in
             (map_sum id (map (task_event_to_thrift (te_json env))) (collected s), w1)))"

definition thrift_check ::
  "thrift_env \<Rightarrow> 'w request_handler \<Rightarrow> string option \<Rightarrow> ('w, exn, int \<times> (string, int) dict) comp" where
  "thrift_check env h service =
     raising_app_error env
       (and_then (rh_check h (health_request_from_thrift service) None) (\<lambda>x.
          of_value (Inr (health_response_to_thrift x))))"

definition thrift_watch ::
  "thrift_env \<Rightarrow> 'w request_handler \<Rightarrow> string option \<Rightarrow> ('w, exn, (int \<times> (string, int) dict) list) comp" where
  "thrift_watch env h service =
     raising_app_error env
       (\<lambda>w. (let (s, w1) = rh_watch h (health_request_from_thrift service) None w in
             (map_sum id (map health_response_to_thrift) (collected s), w1)))"

section \<open>The contracts\<close>

interpretation grpc_unary: unary_endpoint "request_from_proto (ge_lib env)"
  "\<lambda>m r. Some (grpc_build_context env (request_tenant r))" "\<lambda>m. response_to_proto (ge_lib env)"
  "\<lambda>m. grpc_refuse env (prq_id m)" "grpc_call env" for env
  by unfold_locales (simp add: grpc_call_def)

interpretation grpc_stream: stream_endpoint "request_from_proto (ge_lib env)"
  "\<lambda>m r. Some (grpc_build_context env (request_tenant r))" "\<lambda>m. response_to_proto (ge_lib env)"
  "\<lambda>m. grpc_refuse env (prq_id m)" "grpc_call_server_stream env" for env
  by unfold_locales (simp add: grpc_call_server_stream_def)

interpretation thrift_unary: unary_endpoint "request_from_thrift (te_json env)"
  "\<lambda>m r. Some (thrift_context (extract_metadata (Some m)))" "\<lambda>m x. Inr (thrift_reply env x)"
  "\<lambda>m. thrift_refuse env (thrq_id m)" "thrift_call env" for env
  by unfold_locales (simp add: thrift_call_def)

section \<open>Properties\<close>

lemma is_success_reply [simp]: "is_success (x\<lparr>rs_aduib_rpc := v, rs_trace_context := tc, rs_metadata := md\<rparr>) = is_success x"
  by (simp add: is_success_def)

text \<open>A Thrift reply is the encoded response less its trace context and metadata.\<close>

lemma thrift_reply_response:
  "thrift_reply env x = response_to_thrift (te_json env) (x\<lparr>rs_aduib_rpc := ''2.0'', rs_trace_context := None, rs_metadata := None\<rparr>)"
  by (simp add: thrift_reply_def response_to_thrift_def response_payload_to_thrift_def is_success_def)

lemma thrift_refuse_response:
  "thrift_refuse env (Some rid) e = Inr (response_to_thrift (te_json env) (failed_response (Some rid) (wire_error (te_errors env) e)))"
  by (simp add: thrift_refuse_def response_to_thrift_def response_payload_to_thrift_def is_success_def failed_response_def
      thrift_error_payload_def response_status_wire_defs)

lemma failed_sendable: "fits 32 (map_exception_to_error_code e) \<Longrightarrow> response_sendable (failed_response rid (wire_error ee e))"
  by (simp add: response_sendable_def failed_response_def)

text \<open>What the two transports agree on in a response: all but its trace context and metadata, and the
  details of its error.\<close>

definition same_outcome :: "rpc_response \<Rightarrow> rpc_response \<Rightarrow> bool" where
  "same_outcome a b \<longleftrightarrow> rs_id a = rs_id b \<and> rs_status a = rs_status b \<and> rs_result a = rs_result b
     \<and> map_option (\<lambda>e. (err_code e, err_name e, err_message e)) (rs_error a)
       = map_option (\<lambda>e. (err_code e, err_name e, err_message e)) (rs_error b)"

lemma code_names_not_empty [simp]: "dict_get ERROR_CODE_NAMES code ''UNKNOWN'' \<noteq> []"
proof -
  have "list_all (\<lambda>(k, v). v \<noteq> []) ERROR_CODE_NAMES" by code_simp
  then have "map_of ERROR_CODE_NAMES k = Some v \<Longrightarrow> v \<noteq> []" for k v
    using map_of_SomeD [of ERROR_CODE_NAMES k v] by (auto simp: list_all_iff)
  then show ?thesis by (auto simp: dict_get_def split: option.splits)
qed

text \<open>
  A request that both codecs carry meets the same handler call, and both servers send the encoding of one
  response: what the handler returned, or the error made of its exception under the identifier of the request.
\<close>

lemma binary_servers:
  fixes ge :: "('s, 'v) grpc_env" and te :: thrift_env and h :: "'w request_handler"
  assumes "request_sendable r" "data_carried (ge_lib ge) (rq_data r) (Some d)" "json_carried (te_json te) (rq_data r) (Some d)"
    and "ge_errors ge = te_errors te"
    and out: "\<And>sc. rh_on_message h (request_view (Some d) r) (Some sc) w = (out, w1)"
    and raised: "\<And>e. out = Inl e \<Longrightarrow> isinstance_exn e PyException \<and> fits 32 (map_exception_to_error_code e)"
    and y: "y = (case out of Inr x \<Rightarrow> x | Inl e \<Rightarrow> failed_response (Some (or_empty (rq_id r))) (wire_error (te_errors te) e))"
    and p: "response_to_proto (ge_lib ge) y = Inr p"
  shows "\<exists>m t. request_to_proto (ge_lib ge) r = Inr m \<and> request_to_thrift (te_json te) r = Inr t
    \<and> grpc_call ge h m w = (Inr p, w1) \<and> thrift_call te h t w = (Inr (thrift_reply te y), w1)"
proof -
  obtain m where m: "request_to_proto (ge_lib ge) r = Inr m" "request_from_proto (ge_lib ge) m = Inr (request_view (Some d) r)"
    using grpc_request_delivered [OF assms(1,2)] by blast
  obtain t where t: "request_to_thrift (te_json te) r = Inr t" "request_from_thrift (te_json te) t = Inr (request_view (Some d) r)"
    using thrift_request_round_trip [OF assms(1,3)] by blast
  show ?thesis
  proof (cases out)
    case (Inr x)
    have "grpc_call ge h m w = (Inr p, w1)" using out Inr y p by (intro grpc_unary.answers [OF m(2)]) simp_all
    moreover have "thrift_call te h t w = (Inr (thrift_reply te x), w1)"
      using out Inr by (intro thrift_unary.answers [OF t(2)]) simp_all
    ultimately show ?thesis using m t Inr y by simp
  next
    case (Inl e)
    with raised have e: "isinstance_exn e PyException" by simp
    have id: "prq_id m = or_empty (rq_id r)" "thrq_id t = Some (or_empty (rq_id r))"
      using m(2) t(2) by (auto simp: request_from_proto_def request_from_thrift_def new_request_def request_view_def bind_ok_def
          split: sum.splits option.splits)
    have "grpc_call ge h m w = (grpc_refuse ge (prq_id m) e, w1)"
      using out Inl e by (intro grpc_unary.handler_raises [OF m(2)]) simp_all
    moreover have "thrift_call te h t w = (thrift_refuse te (thrq_id t) e, w1)"
      using out Inl e by (intro thrift_unary.handler_raises [OF t(2)]) simp_all
    moreover have "thrift_refuse te (thrq_id t) e = Inr (thrift_reply te y)"
      by (simp add: id y Inl thrift_refuse_response thrift_reply_response failed_response_def)
    ultimately show ?thesis using m t p y Inl by (simp add: grpc_refuse_def assms(4) id)
  qed
qed

definition sample_errors :: error_env where
  "sample_errors = \<lparr>ee_format = (\<lambda>_. []), ee_module = (\<lambda>_. []), ee_env = (\<lambda>_. None), ee_tracing = False, ee_debug = None\<rparr>"

definition sample_grpc :: "((string, pyval) dict, pyval) grpc_env" where
  "sample_grpc = \<lparr>ge_lib = plain_pb, ge_errors = sample_errors, ge_object = PNone,
     ge_invocation = Inr [(''x-tenant-id'', ''t'')], ge_dumps = (\<lambda>e. err_name e)\<rparr>"

definition sample_thrift :: thrift_env where
  "sample_thrift = \<lparr>te_json = tiny_json, te_errors = sample_errors, te_dumps = (\<lambda>e. err_name e)\<rparr>"

text \<open>The default handler, but for what it does with a message.\<close>

definition answering :: "exn + rpc_response \<Rightarrow> rpc_response stream \<Rightarrow> rpc_server request_handler" where
  "answering out strm = (default_request_handler sample_handler_env [] (sample_moment ''t''))
     \<lparr>rh_on_message := (\<lambda>r sc w. (out, w)), rh_on_stream := (\<lambda>r sc w. (strm, w))\<rparr>"

text \<open>
  The two transports part on a stream that fails: a gRPC client gets the
  items that were made and then the error, a Thrift client only the error, since its whole reply is made
  before it is sent. A stream that ends well is the same list on both.
\<close>

theorem binary_streams_on_failure:
  assumes "request_from_proto (ge_lib ge) m = Inr r" "request_from_thrift (te_json te) t = Inr r"
    and strm: "\<And>sc. rh_on_stream h r (Some sc) w = ((xs, exc), w1)"
    and "\<And>x. x \<in> set xs \<Longrightarrow> response_to_proto (ge_lib ge) x = Inr (f x)"
    and raised: "\<And>e. exc = Some e \<Longrightarrow> isinstance_exn e PyException \<and> fits 32 (map_exception_to_error_code e)"
  shows "(exc = None \<longrightarrow> grpc_call_server_stream ge h m w = ((map f xs, None), w1)
       \<and> thrift_call_server_stream te h t w = (Inr (map (thrift_reply te) xs), w1))
    \<and> (\<forall>e. exc = Some e \<longrightarrow> (\<exists>p q. grpc_call_server_stream ge h m w = ((map f xs @ [p], None), w1)
         \<and> thrift_call_server_stream te h t w = (Inr [q], w1)
         \<and> grpc_refuse ge (prq_id m) e = Inr p \<and> thrift_refuse te (thrq_id t) e = Inr q))"
proof (intro conjI allI impI)
  have collect: "thrift_call_server_stream te h t w = catching (\<lambda>e. map_sum id (\<lambda>x. [x]) (thrift_refuse te (thrq_id t) e))
      (\<lambda>w. (let (s, w1) = rh_on_stream h r (Some (thrift_context (extract_metadata (Some t)))) w in
            (map_sum id (map (thrift_reply te)) (collected s), w1))) w"
    using assms(2) by (simp add: thrift_call_server_stream_def)
  {
    assume "exc = None"
    with strm show "grpc_call_server_stream ge h m w = ((map f xs, None), w1)"
      by (intro grpc_stream.relays [OF assms(1) _ assms(4)]) simp_all
    from strm \<open>exc = None\<close> show "thrift_call_server_stream te h t w = (Inr (map (thrift_reply te) xs), w1)"
      unfolding collect by (simp add: collected_def)
  }
  fix e assume e: "exc = Some e"
  with raised have fine: "isinstance_exn e PyException" "fits 32 (map_exception_to_error_code e)" by simp_all
  obtain p where p: "grpc_refuse ge (prq_id m) e = Inr p"
    using grpc_response_relay [OF failed_sendable [OF fine(2)], of "Some (prq_id m)" "ge_errors ge" "ge_lib ge"]
    by (auto simp: grpc_refuse_def failed_response_def is_success_def)
  obtain q where q: "thrift_refuse te (thrq_id t) e = Inr q" by (simp add: thrift_refuse_def)
  have "grpc_call_server_stream ge h m w = ((map f xs @ [p], None), w1)"
    using strm e by (intro grpc_stream.relays_failure [OF assms(1) _ assms(4) fine(1) p]) simp_all
  moreover have "thrift_call_server_stream te h t w = (Inr [q], w1)"
    using strm e fine(1) q unfolding collect by (simp add: collected_def)
  ultimately show "\<exists>p q. grpc_call_server_stream ge h m w = ((map f xs @ [p], None), w1)
       \<and> thrift_call_server_stream te h t w = (Inr [q], w1)
       \<and> grpc_refuse ge (prq_id m) e = Inr p \<and> thrift_refuse te (thrq_id t) e = Inr q"
    using p q by blast
qed

theorem binary_streams_on_failure_witness:
  "\<exists>m t p q. grpc_call_server_stream sample_grpc (answering (Inl empty_stream) ([sample_response SUCCESS None (PInt 7)], Some empty_stream)) m
      sample_server = ((p, None), sample_server) \<and> length p = 2
    \<and> thrift_call_server_stream sample_thrift (answering (Inl empty_stream) ([sample_response SUCCESS None (PInt 7)], Some empty_stream)) t
      sample_server = (Inr q, sample_server) \<and> length q = 1"
proof -
  let ?x = "sample_response SUCCESS None (PInt 7)"
  let ?h = "answering (Inl empty_stream) ([sample_response SUCCESS None (PInt 7)], Some empty_stream)"
  have lib: "ge_lib sample_grpc = plain_pb" "te_json sample_thrift = tiny_json"
    by (simp_all add: sample_grpc_def sample_thrift_def)
  have d: "data_carried plain_pb (rq_data sample_request) (Some [(''x'', PInt 1)])"
    "json_carried tiny_json (rq_data sample_request) (Some [(''x'', PInt 1)])"
    by (simp_all add: data_carried_def json_carried_def sample_request_def plain_pb_def tiny_json_def)
  obtain m t r where r: "request_from_proto (ge_lib sample_grpc) m = Inr r" "request_from_thrift (te_json sample_thrift) t = Inr r"
    using grpc_request_delivered [OF sample_sendable d(1)] thrift_request_round_trip [OF sample_sendable d(2)] unfolding lib by blast
  obtain p where p: "response_to_proto (ge_lib sample_grpc) ?x = Inr p"
    using grpc_response_relay [of ?x plain_pb "PInt 7" "PInt 7"] unfolding lib
    by (auto simp: response_sendable_def is_success_def sample_response_def plain_pb_def)
  have s: "rh_on_stream ?h r sc sample_server = (([?x], Some empty_stream), sample_server)" for sc by (simp add: answering_def)
  have e: "isinstance_exn empty_stream PyException" "fits 32 (map_exception_to_error_code empty_stream)"
    by (simp_all add: empty_stream_def is_subclass_def map_exception_to_error_code_def STANDARD_EXCEPTION_MAPPING_def fits_def)
  from binary_streams_on_failure [OF r s, of "\<lambda>_. p"] p e show ?thesis by (auto intro!: exI [of _ m] exI [of _ t])
qed

text \<open>
  Three methods asked for a task that is not there give three different answers
  over gRPC: a query is aborted with NOT_FOUND, a subscription with INVALID_ARGUMENT (its exception
  is a KeyError and nothing maps it), and a cancellation is answered, the task being FAILED. None of them
  changes the tasks but for collecting expired ones.
\<close>

theorem unknown_task_answers:
  fixes w :: "'z rpc_server_scheme" and env :: "'z rpc_server_scheme handler_env"
    and "is" :: "'z rpc_server_scheme interceptor list" and mo :: moment
  assumes "map_of (tasks (sv_tasks w)) tid = None"
  defines "h \<equiv> default_request_handler env is mo"
    and "w1 \<equiv> w\<lparr>sv_tasks := gc_locked (mo_now mo) False (sv_tasks w)\<rparr>"
  shows "(\<exists>d. grpc_query ge h tid w = (Inr (GrpcAbort ''NOT_FOUND'' d), w1))
    \<and> (\<exists>d. grpc_subscribe ge h (tid, evs) w = (([GrpcAbort ''INVALID_ARGUMENT'' d], None), w1))
    \<and> grpc_cancel ge h (tid, reason) w = (Inr (Reply (tid, task_status_to_wire (Member FAILED), False)), w1)"
proof -
  have "map_of (tasks (gc_locked (mo_now mo) False (sv_tasks w))) tid = None"
    using assms(1) keys_shrink [OF shrinks_gc, of "mo_now mo" False "sv_tasks w"] unfolding map_of_eq_None_iff set_map by blast
  then have g: "get_task (mo_now mo) tid (sv_tasks w) = (Inl (task_not_found tid), gc_locked (mo_now mo) False (sv_tasks w))"
    by (simp add: get_task_def Let_def)
  then have s: "subscribe (mo_now mo) tid (sv_tasks w) = (Inl (task_not_found tid), gc_locked (mo_now mo) False (sv_tasks w))"
    by (simp add: subscribe_def)
  let ?nf = "Exn RpcException (error_code_value RESOURCE_NOT_FOUND) ''task not found'' (PDict [(''task_id'', PStr tid)]) (Some (task_not_found tid))"
  have q: "rh_query h tid sc w = (Inl ?nf, w1)" for sc
    by (simp add: h_def w1_def default_request_handler_def task_query_def g)
  have sub: "rh_subscribe h (task_subscribe_request_from_proto (tid, evs)) sc w = (([], Some (task_not_found tid)), w1)" for sc
    by (simp add: h_def w1_def default_request_handler_def subscribe_task_def task_subscribe_request_from_proto_def s)
  have c: "rh_cancel h (task_cancel_request_from_proto (tid, reason)) sc w = (Inr (tid, FAILED, False), w1)" for sc
    by (simp add: h_def w1_def default_request_handler_def task_cancel_def task_cancel_request_from_proto_def g)
  have "map_exception_to_error_code ?nf = 4000" by (simp add: map_exception_to_error_code_def)
  then have a: "\<exists>d. grpc_abort ge ?nf = (GrpcAbort ''NOT_FOUND'' d :: 'x grpc_reply)"
    by (simp add: grpc_abort_def error_code_to_grpc_status_def Let_def)
  have "map_exception_to_error_code (task_not_found tid) = 2001"
    by (simp add: map_exception_to_error_code_def task_not_found_def STANDARD_EXCEPTION_MAPPING_def is_subclass_def)
  then have b: "\<exists>d. grpc_abort ge (task_not_found tid) = (GrpcAbort ''INVALID_ARGUMENT'' d :: 'y grpc_reply)"
    by (simp add: grpc_abort_def error_code_to_grpc_status_def Let_def)
  have e: "isinstance_exn ?nf PyException" "isinstance_exn (task_not_found tid) PyException"
    by (simp_all add: is_subclass_def task_not_found_def)
  show ?thesis
    using a b e by (auto simp: grpc_query_def grpc_subscribe_def grpc_cancel_def reply_or_abort_def relay_or_abort_def
        catching_def catching_stream_def and_then_def of_value_def q sub c)
qed

theorem unknown_task_answers_witness:
  "fst (grpc_cancel sample_grpc (default_request_handler sample_handler_env [] (sample_moment ''t'')) (''t'', None) sample_server)
     = Inr (Reply (''t'', task_status_to_wire (Member FAILED), False))
   \<and> (\<exists>d. fst (fst (grpc_subscribe sample_grpc (default_request_handler sample_handler_env [] (sample_moment ''t'')) (''t'', [])
        sample_server)) = [GrpcAbort ''INVALID_ARGUMENT'' d])"
proof -
  have "map_of (tasks (sv_tasks sample_server)) ''t'' = None" by (simp add: sample_server_def new_task_manager_def)
  from unknown_task_answers [OF this, of sample_grpc sample_handler_env "[]" "sample_moment ''t''" "[]" None] show ?thesis by auto
qed

end
