(* ===== verification/Jsonrpc_Endpoint.thy ===== *)
theory Jsonrpc_Endpoint
  imports Endpoints
begin

text \<open>
  The JSON-RPC endpoint: the messages (\<open>types.py\<close>), the handler of its methods
  (\<open>server/request_handlers/jsonrpc_v2_handler.py\<close> with \<open>utils/jsonrpc_helper.py\<close> and
  \<open>utils/json_v2_utils.py\<close>) and the application that parses a body, chooses a method and makes the reply
  (\<open>server/protocols/rpc/jsonrpc_app.py\<close>). Validation of a model by pydantic is a parameter.
\<close>

section \<open>Messages\<close>

text \<open>The union of parameter models, and what a value of unknown type can be: one of them or plain JSON.\<close>

datatype json_params =
    ParRequest rpc_request
  | ParSubmit task_submit_request
  | ParQuery string
  | ParCancel task_cancel_request
  | ParSubscribe task_subscribe_request
  | ParHealth "string option"

datatype json_arg = Model json_params | Raw pyval

text \<open>The two request classes have the same fields; missing parameters are \<open>None\<close>.\<close>

record jsonrpc_request =
  jr_id :: pyval
  jr_method :: string
  jr_params :: json_arg

record jsonrpc_error =
  je_code :: int
  je_message :: string
  je_data :: pyval

datatype json_result =
    ResResponse rpc_response
  | ResSubmit task_submit_response
  | ResQuery task_record
  | ResCancel "string \<times> task_status \<times> bool"
  | ResEvent wire_task_event
  | ResHealth health_check_response

datatype jsonrpc_reply = JError pyval jsonrpc_error | JResult pyval json_result

text \<open>An identifier is a string, an integer or \<open>None\<close>; pydantic turns truth values and integral floats into integers.\<close>

definition coerce_id :: "pyval \<Rightarrow> exn + pyval" where
  "coerce_id v =
     (case v of
        PNone \<Rightarrow> Inr PNone | PStr s \<Rightarrow> Inr (PStr s) | PInt i \<Rightarrow> Inr (PInt i)
      | PBool b \<Rightarrow> Inr (PInt (if b then 1 else 0))
      | PFloat (Some r) \<Rightarrow> if of_int (py_trunc r) = r then Inr (PInt (py_trunc r)) else Inl (validation_error ''id'')
      | _ \<Rightarrow> Inl (validation_error ''id''))"

section \<open>Dumped errors\<close>

text \<open>\<open>model_dump(mode="json", exclude_none=True)\<close> of an \<open>RpcError\<close>.\<close>

definition opt_item :: "string \<Rightarrow> pyval option \<Rightarrow> (string \<times> pyval) list" where
  "opt_item k v = (case v of None \<Rightarrow> [] | Some x \<Rightarrow> [(k, x)])"

definition dump_detail :: "error_detail \<Rightarrow> pyval" where
  "dump_detail d =
     PDict ([(''type'', PStr (detail_type d))] @ opt_item ''field'' (map_option PStr (detail_field d))
       @ [(''reason'', PStr (detail_reason d))] @ opt_item ''metadata'' (map_option PDict (detail_metadata d)))"

definition dump_debug :: "debug_info \<Rightarrow> pyval" where
  "dump_debug d =
     PDict (opt_item ''stack_trace'' (map_option PStr (stack_trace d))
       @ opt_item ''internal_message'' (map_option PStr (internal_message d))
       @ [(''timestamp_ms'', PInt (debug_timestamp_ms d))])"

definition dump_error :: "rpc_error \<Rightarrow> (string, pyval) dict" where
  "dump_error e =
     [(''code'', PInt (err_code e)), (''name'', PStr (err_name e)), (''message'', PStr (err_message e))]
     @ opt_item ''details'' (map_option (\<lambda>ds. PList (map dump_detail ds)) (err_details e))
     @ opt_item ''debug'' (map_option dump_debug (err_debug e))"

definition rpc_error_to_jsonrpc :: "rpc_error \<Rightarrow> jsonrpc_error" where
  "rpc_error_to_jsonrpc e =
     (let payload = dump_error e in
      \<lparr>je_code = (case dict_get payload ''code'' PNone of PInt i \<Rightarrow> i | _ \<Rightarrow> 0),
       je_message = (case dict_get payload ''message'' PNone of PStr s \<Rightarrow> s | _ \<Rightarrow> []),
       je_data = PDict payload\<rparr>)"

section \<open>Reading parameters\<close>

text \<open>Validation of the models, of the envelope (its method, and all of it), the error settings, and \<open>str()\<close> of
  objects.\<close>

record json_env =
  jn_errors :: error_env
  jn_request :: "pyval \<Rightarrow> exn + rpc_request"
  jn_submit :: "pyval \<Rightarrow> exn + task_submit_request"
  jn_query :: "pyval \<Rightarrow> exn + string"
  jn_cancel :: "pyval \<Rightarrow> exn + task_cancel_request"
  jn_subscribe :: "pyval \<Rightarrow> exn + task_subscribe_request"
  jn_health :: "pyval \<Rightarrow> exn + string option"
  jn_base :: "pyval \<Rightarrow> exn + string"
  jn_envelope :: "pyval \<Rightarrow> exn + jsonrpc_request"
  jn_str :: "pyval \<Rightarrow> string"

definition wrong_model :: exn where
  "wrong_model = validation_error ''Input should be a valid dictionary or an instance of the model''"

definition require_rpc_request :: "json_env \<Rightarrow> json_arg \<Rightarrow> exn + rpc_request" where
  "require_rpc_request env v =
     (case v of Model (ParRequest r) \<Rightarrow> Inr r | Model _ \<Rightarrow> Inl wrong_model | Raw x \<Rightarrow> jn_request env x)"

definition payload :: "json_arg \<Rightarrow> json_arg" where
  "payload v =
     (case v of
        Model (ParRequest r) \<Rightarrow> Raw (PDict (request_data r))
      | Model p \<Rightarrow> Model p
      | Raw x \<Rightarrow> Raw (if x = PNone then PDict [] else x))"

text \<open>\<open>model_validate\<close> takes an instance of its class as it is, and no instance of another model.\<close>

definition model_validate :: "(pyval \<Rightarrow> exn + 'a) \<Rightarrow> (json_params \<Rightarrow> 'a option) \<Rightarrow> json_arg \<Rightarrow> exn + 'a" where
  "model_validate check inst v =
     (case v of
        Raw x \<Rightarrow> check x
      | Model p \<Rightarrow> (case inst p of Some a \<Rightarrow> Inr a | None \<Rightarrow> Inl wrong_model))"

definition json_submit_request :: "json_env \<Rightarrow> json_arg \<Rightarrow> exn + task_submit_request" where
  "json_submit_request env v =
     model_validate (jn_submit env) (\<lambda>p. case p of ParSubmit s \<Rightarrow> Some s | _ \<Rightarrow> None) (payload v)"

definition json_query_request :: "json_env \<Rightarrow> json_arg \<Rightarrow> exn + string" where
  "json_query_request env v =
     model_validate (jn_query env) (\<lambda>p. case p of ParQuery t \<Rightarrow> Some t | _ \<Rightarrow> None) (payload v)"

definition json_cancel_request :: "json_env \<Rightarrow> json_arg \<Rightarrow> exn + task_cancel_request" where
  "json_cancel_request env v =
     model_validate (jn_cancel env) (\<lambda>p. case p of ParCancel c \<Rightarrow> Some c | _ \<Rightarrow> None) (payload v)"

definition json_subscribe_request :: "json_env \<Rightarrow> json_arg \<Rightarrow> exn + task_subscribe_request" where
  "json_subscribe_request env v =
     (case payload v of
        Model (ParSubscribe s) \<Rightarrow> Inr s
      | Model (ParQuery t) \<Rightarrow> Inr \<lparr>tbr_task_id = t, tbr_events = None\<rparr>
      | p \<Rightarrow> model_validate (jn_subscribe env) (\<lambda>_. None) p)"

definition json_health_request :: "json_env \<Rightarrow> json_arg \<Rightarrow> exn + string option" where
  "json_health_request env v =
     (case payload v of
        Raw x \<Rightarrow> if py_truthy x then jn_health env x else Inr None
      | Model (ParHealth s) \<Rightarrow> Inr s
      | Model _ \<Rightarrow> Inl wrong_model)"

section \<open>The methods\<close>

text \<open>What a handler may hand over; anything but a response or an error is an internal error.\<close>

datatype handler_event = EvResponse rpc_response | EvError jsonrpc_error | EvOther string

definition prepare_response_object :: "pyval \<Rightarrow> handler_event \<Rightarrow> jsonrpc_reply" where
  "prepare_response_object rid ev =
     (case ev of
        EvResponse r \<Rightarrow> JResult rid (ResResponse r)
      | EvError e \<Rightarrow> JError rid e
      | EvOther t \<Rightarrow> JError rid \<lparr>je_code = error_code_value INTERNAL_ERROR, je_message = ''Internal error'',
                                je_data = PStr (''Handler returned invalid response type: '' @ t)\<rparr>)"

definition jsonrpc_refuse :: "json_env \<Rightarrow> pyval \<Rightarrow> exn \<Rightarrow> exn + jsonrpc_reply" where
  "jsonrpc_refuse env rid e = Inr (JError rid (rpc_error_to_jsonrpc (wire_error (jn_errors env) e)))"

definition jsonrpc_call ::
  "json_env \<Rightarrow> server_context option \<Rightarrow> 'w request_handler \<Rightarrow> jsonrpc_request \<Rightarrow> ('w, exn, jsonrpc_reply) comp" where
  "jsonrpc_call env sc h q =
     catching (jsonrpc_refuse env (jr_id q))
       (and_then (of_value (require_rpc_request env (jr_params q))) (\<lambda>r.
        and_then (rh_on_message h r sc) (\<lambda>x. of_value (Inr (prepare_response_object (jr_id q) (EvResponse x))))))"

definition jsonrpc_stream ::
  "json_env \<Rightarrow> server_context option \<Rightarrow> 'w request_handler \<Rightarrow> jsonrpc_request \<Rightarrow> 'w \<Rightarrow> jsonrpc_reply stream \<times> 'w" where
  "jsonrpc_stream env sc h q w =
     (case require_rpc_request env (jr_params q) of
        Inl e \<Rightarrow> (catching_stream (jsonrpc_refuse env (jr_id q)) ([], Some e), w)
      | Inr r \<Rightarrow>
          (let (s, w1) = rh_on_stream h r sc w in
           (catching_stream (jsonrpc_refuse env (jr_id q))
              (map_until (\<lambda>x. Inr (prepare_response_object (jr_id q) (EvResponse x))) (fst s) (snd s)), w1)))"

definition no_request :: "exn option \<Rightarrow> exn" where
  "no_request exc = (case exc of None \<Rightarrow> Exn ValueError 0 ''request stream is empty'' PNone None | Some e \<Rightarrow> e)"

text \<open>The errors of a client stream carry no identifier.\<close>

definition jsonrpc_client_stream ::
  "json_env \<Rightarrow> server_context option \<Rightarrow> 'w request_handler \<Rightarrow> jsonrpc_request stream \<Rightarrow> ('w, exn, jsonrpc_reply) comp" where
  "jsonrpc_client_stream env sc h s =
     catching (jsonrpc_refuse env PNone)
       (case fst s of
          [] \<Rightarrow> of_value (Inl (no_request (snd s)))
        | q # _ \<Rightarrow>
            and_then (rh_client_stream h (map_until (\<lambda>q. require_rpc_request env (jr_params q)) (fst s) (snd s)) sc) (\<lambda>x.
              of_value (Inr (prepare_response_object (jr_id q) (EvResponse x)))))"

definition jsonrpc_bidirectional ::
  "json_env \<Rightarrow> server_context option \<Rightarrow> 'w request_handler \<Rightarrow> jsonrpc_request stream \<Rightarrow> 'w \<Rightarrow> jsonrpc_reply stream \<times> 'w" where
  "jsonrpc_bidirectional env sc h s w =
     (case fst s of
        [] \<Rightarrow> ((case snd s of
                 Some e \<Rightarrow> ([], Some e)
               | None \<Rightarrow> catching_stream (jsonrpc_refuse env PNone) ([], Some (no_request None))), w)
      | q # _ \<Rightarrow>
          (let (out, w1) = rh_bidirectional h (map_until (\<lambda>q. require_rpc_request env (jr_params q)) (fst s) (snd s)) sc w in
           (catching_stream (jsonrpc_refuse env (jr_id q))
              (map_until (\<lambda>x. Inr (prepare_response_object (jr_id q) (EvResponse x))) (fst out) (snd out)), w1)))"

text \<open>The task and health methods: read the parameters, call the handler, wrap what it returns.\<close>

definition jsonrpc_unary ::
  "json_env \<Rightarrow> jsonrpc_request \<Rightarrow> exn + 'a \<Rightarrow> ('a \<Rightarrow> ('w, exn, 'b) comp) \<Rightarrow> ('b \<Rightarrow> exn + json_result)
     \<Rightarrow> ('w, exn, jsonrpc_reply) comp" where
  "jsonrpc_unary env q arg call wrap =
     catching (jsonrpc_refuse env (jr_id q))
       (and_then (of_value arg) (\<lambda>a. and_then (call a) (\<lambda>x. of_value (bind_ok (wrap x) (\<lambda>y. Inr (JResult (jr_id q) y))))))"

definition jsonrpc_events ::
  "json_env \<Rightarrow> jsonrpc_request \<Rightarrow> exn + 'a \<Rightarrow> ('a \<Rightarrow> 'w \<Rightarrow> 'b stream \<times> 'w) \<Rightarrow> ('b \<Rightarrow> json_result)
     \<Rightarrow> 'w \<Rightarrow> jsonrpc_reply stream \<times> 'w" where
  "jsonrpc_events env q arg call wrap w =
     (case arg of
        Inl e \<Rightarrow> (catching_stream (jsonrpc_refuse env (jr_id q)) ([], Some e), w)
      | Inr a \<Rightarrow>
          (let (s, w1) = call a w in
           (catching_stream (jsonrpc_refuse env (jr_id q)) (map (\<lambda>x. JResult (jr_id q) (wrap x)) (fst s), snd s), w1)))"

text \<open>No response (\<open>None\<close>) is not a result the reply's model accepts.\<close>

definition jsonrpc_submit ::
  "json_env \<Rightarrow> server_context option \<Rightarrow> 'w request_handler \<Rightarrow> jsonrpc_request \<Rightarrow> ('w, exn, jsonrpc_reply) comp" where
  "jsonrpc_submit env sc h q =
     jsonrpc_unary env q (json_submit_request env (jr_params q)) (\<lambda>s. rh_submit h s sc)
       (\<lambda>x. case x of None \<Rightarrow> Inl (validation_error ''result'') | Some s \<Rightarrow> Inr (ResSubmit s))"

definition jsonrpc_query ::
  "json_env \<Rightarrow> server_context option \<Rightarrow> 'w request_handler \<Rightarrow> jsonrpc_request \<Rightarrow> ('w, exn, jsonrpc_reply) comp" where
  "jsonrpc_query env sc h q =
     jsonrpc_unary env q (json_query_request env (jr_params q)) (\<lambda>t. rh_query h t sc) (\<lambda>x. Inr (ResQuery x))"

definition jsonrpc_cancel ::
  "json_env \<Rightarrow> server_context option \<Rightarrow> 'w request_handler \<Rightarrow> jsonrpc_request \<Rightarrow> ('w, exn, jsonrpc_reply) comp" where
  "jsonrpc_cancel env sc h q =
     jsonrpc_unary env q (json_cancel_request env (jr_params q)) (\<lambda>c. rh_cancel h c sc) (\<lambda>x. Inr (ResCancel x))"

definition jsonrpc_subscribe ::
  "json_env \<Rightarrow> server_context option \<Rightarrow> 'w request_handler \<Rightarrow> jsonrpc_request \<Rightarrow> 'w \<Rightarrow> jsonrpc_reply stream \<times> 'w" where
  "jsonrpc_subscribe env sc h q =
     jsonrpc_events env q (json_subscribe_request env (jr_params q)) (\<lambda>s. rh_subscribe h s sc) ResEvent"

definition jsonrpc_check ::
  "json_env \<Rightarrow> server_context option \<Rightarrow> 'w request_handler \<Rightarrow> jsonrpc_request \<Rightarrow> ('w, exn, jsonrpc_reply) comp" where
  "jsonrpc_check env sc h q =
     jsonrpc_unary env q (json_health_request env (jr_params q)) (\<lambda>s. rh_check h s sc) (\<lambda>x. Inr (ResHealth x))"

definition jsonrpc_watch ::
  "json_env \<Rightarrow> server_context option \<Rightarrow> 'w request_handler \<Rightarrow> jsonrpc_request \<Rightarrow> 'w \<Rightarrow> jsonrpc_reply stream \<times> 'w" where
  "jsonrpc_watch env sc h q =
     jsonrpc_events env q (json_health_request env (jr_params q)) (\<lambda>s. rh_watch h s sc) ResHealth"

section \<open>The application\<close>

text \<open>\<open>DefaultServerContextBuilder.build_context\<close>.\<close>

definition http_context :: "(string, string) dict \<Rightarrow> server_context" where
  "http_context hs =
     \<lparr>sc_state = attach_tenant (first_header hs tenant_headers) [(''headers'', PDict (str_dict hs))],
      sc_principal = None, sc_meta = []\<rparr>"

datatype rpc_method =
    MCall | MServerStream | MClientStream | MBidirectional | MSubmit | MQuery | MCancel | MSubscribe | MCheck | MWatch

definition method_map :: "(string, rpc_method \<times> bool \<times> bool) dict" where
  "method_map =
     [(''rpc.v2/AduibRpcService/Call'', MCall, False, False),
      (''rpc.v2/AduibRpcService/CallServerStream'', MServerStream, True, False),
      (''rpc.v2/AduibRpcService/CallClientStream'', MClientStream, False, True),
      (''rpc.v2/AduibRpcService/CallBidirectional'', MBidirectional, True, True),
      (''rpc.v2/TaskService/Submit'', MSubmit, False, False),
      (''rpc.v2/TaskService/Query'', MQuery, False, False),
      (''rpc.v2/TaskService/Cancel'', MCancel, False, False),
      (''rpc.v2/TaskService/Subscribe'', MSubscribe, True, False),
      (''rpc.v2/HealthService/Check'', MCheck, False, False),
      (''rpc.v2/HealthService/Watch'', MWatch, True, False)]"

definition is_streaming :: "(string, string) dict \<Rightarrow> 'z rpc_server_scheme \<Rightarrow> string \<Rightarrow> bool" where
  "is_streaming hs w method =
     (case map_of method_map method of
        Some (m, strm, iter) \<Rightarrow> strm
      | None \<Rightarrow>
          contains_str (py_lower (dict_get hs ''accept'' [])) ''text/event-stream''
          \<or> (case parse_compat (Some method) of
               Inl _ \<Rightarrow> False
             | Inr n \<Rightarrow>
                 (case map_of (sp_service_funcs (the_scope w (rt_current w))) (mn_handler n) of
                    None \<Rightarrow> False
                  | Some f \<Rightarrow> sf_server_stream f \<or> sf_bidirectional_stream f)))"

datatype http_reply = JsonReply jsonrpc_reply | EventSource "jsonrpc_reply stream" | NotFound

text \<open>\<open>lstrip("/")\<close> after \<open>strip()\<close>.\<close>

definition strip_slashes :: "string \<Rightarrow> string" where
  "strip_slashes method = dropWhile (\<lambda>c. c = CHR ''/'') (py_strip method)"

definition generate_error_response :: "pyval \<Rightarrow> rpc_error \<Rightarrow> exn + http_reply" where
  "generate_error_response rid e =
     bind_ok (coerce_id rid) (\<lambda>i. Inr (JsonReply (JError i (rpc_error_to_jsonrpc e))))"

text \<open>\<open>body.get("id")\<close>, which only a dictionary has.\<close>

definition get_body_id :: "pyval \<Rightarrow> exn + pyval" where
  "get_body_id body = (case body of PDict d \<Rightarrow> Inr (dict_get d ''id'' PNone) | _ \<Rightarrow> Inl (no_attribute ''get''))"

definition v2_only :: rpc_error where
  "v2_only = error_payload METHOD_NOT_FOUND
     (''JSON-RPC v2 requires method starting with '' @ [CHR 0x27] @ ''rpc.v2/'' @ [CHR 0x27]) None"

text \<open>
  The second \<open>try\<close> of \<open>_handle_requests\<close>: an error reply for a method of another version, or the
  request and whether it streams. What it raises is answered, if the body has an identifier to ask for.
\<close>

definition parse_body ::
  "json_env \<Rightarrow> (string, string) dict \<Rightarrow> 'z rpc_server_scheme \<Rightarrow> pyval \<Rightarrow> exn + http_reply + string \<times> jsonrpc_request \<times> bool" where
  "parse_body env hs w body =
     (case bind_ok (jn_base env body) (\<lambda>method.
        if \<not> starts_with (strip_slashes method) ''rpc.v2/''
        then bind_ok (get_body_id body) (\<lambda>i. bind_ok (generate_error_response i v2_only) (\<lambda>r. Inr (Inl r)))
        else bind_ok (jn_envelope env body) (\<lambda>q. Inr (Inr (method, q, is_streaming hs w method)))) of
        Inr x \<Rightarrow> Inr x
      | Inl e \<Rightarrow>
          if isinstance_exn e PyException
          then bind_ok (get_body_id body) (\<lambda>i.
                 bind_ok (generate_error_response i (wire_error_coded (jn_errors env) e INVALID_PARAMS)) (\<lambda>r. Inr (Inl r)))
          else Inl e)"

definition as_stream :: "('w \<Rightarrow> jsonrpc_reply stream \<times> 'w) \<Rightarrow> ('w, exn, http_reply) comp" where
  "as_stream f w = (let (s, w1) = f w in (Inr (EventSource s), w1))"

definition as_json :: "('w, exn, jsonrpc_reply) comp \<Rightarrow> ('w, exn, http_reply) comp" where
  "as_json f = and_then f (\<lambda>x. of_value (Inr (JsonReply x)))"

text \<open>The requests of a client stream are this one request.\<close>

definition run_method ::
  "json_env \<Rightarrow> server_context option \<Rightarrow> 'w request_handler \<Rightarrow> string \<Rightarrow> bool \<Rightarrow> jsonrpc_request \<Rightarrow> ('w, exn, http_reply) comp" where
  "run_method env sc h method strm q =
     (case map_of method_map method of
        Some (MCall, _) \<Rightarrow> as_json (jsonrpc_call env sc h q)
      | Some (MServerStream, _) \<Rightarrow> as_stream (jsonrpc_stream env sc h q)
      | Some (MClientStream, _) \<Rightarrow> as_json (jsonrpc_client_stream env sc h ([q], None))
      | Some (MBidirectional, _) \<Rightarrow> as_stream (jsonrpc_bidirectional env sc h ([q], None))
      | Some (MSubmit, _) \<Rightarrow> as_json (jsonrpc_submit env sc h q)
      | Some (MQuery, _) \<Rightarrow> as_json (jsonrpc_query env sc h q)
      | Some (MCancel, _) \<Rightarrow> as_json (jsonrpc_cancel env sc h q)
      | Some (MSubscribe, _) \<Rightarrow> as_stream (jsonrpc_subscribe env sc h q)
      | Some (MCheck, _) \<Rightarrow> as_json (jsonrpc_check env sc h q)
      | Some (MWatch, _) \<Rightarrow> as_stream (jsonrpc_watch env sc h q)
      | None \<Rightarrow> if strm then as_stream (jsonrpc_stream env sc h q) else as_json (jsonrpc_call env sc h q))"

text \<open>\<open>_handle_requests\<close>: the body as \<open>request.json()\<close> gives it, or what that raises.\<close>

definition handle_requests ::
  "json_env \<Rightarrow> (string, string) dict \<Rightarrow> 'z rpc_server_scheme request_handler \<Rightarrow> exn + pyval
     \<Rightarrow> ('z rpc_server_scheme, exn, http_reply) comp" where
  "handle_requests env hs h body w =
     (case body of
        Inl e \<Rightarrow>
          (if isinstance_exn e PyException
           then generate_error_response PNone (wire_error_coded (jn_errors env) e INVALID_MESSAGE) else Inl e, w)
      | Inr b \<Rightarrow>
          (case parse_body env hs w b of
             Inl e \<Rightarrow> (Inl e, w)
           | Inr (Inl r) \<Rightarrow> (Inr r, w)
           | Inr (Inr (method, q, strm)) \<Rightarrow>
               catching (\<lambda>e. generate_error_response (jr_id q) (wire_error_coded (jn_errors env) e INTERNAL_ERROR))
                 (run_method env (Some (http_context hs)) h method strm q) w))"

text \<open>\<open>RpcPathValidatorMiddleware\<close> in front of it.\<close>

definition rpc_path :: string where
  "rpc_path = ''/aduib_rpc''"

definition serve ::
  "json_env \<Rightarrow> string \<Rightarrow> (string, string) dict \<Rightarrow> 'z rpc_server_scheme request_handler \<Rightarrow> exn + pyval
     \<Rightarrow> ('z rpc_server_scheme, exn, http_reply) comp" where
  "serve env path hs h body w =
     (if starts_with path rpc_path then handle_requests env hs h body w else (Inr NotFound, w))"

section \<open>The contracts\<close>

interpretation jsonrpc_unary: unary_endpoint "\<lambda>q. require_rpc_request env (jr_params q)" "\<lambda>q r. sc"
  "\<lambda>q x. Inr (prepare_response_object (jr_id q) (EvResponse x))" "\<lambda>q. jsonrpc_refuse env (jr_id q)"
  "jsonrpc_call env sc" for env sc
  by unfold_locales (simp add: jsonrpc_call_def)

interpretation jsonrpc_relay: stream_endpoint "\<lambda>q. require_rpc_request env (jr_params q)" "\<lambda>q r. sc"
  "\<lambda>q x. Inr (prepare_response_object (jr_id q) (EvResponse x))" "\<lambda>q. jsonrpc_refuse env (jr_id q)"
  "jsonrpc_stream env sc" for env sc
  by unfold_locales (simp add: jsonrpc_stream_def)

section \<open>Properties\<close>

text \<open>
  The handlers of the methods let no exception of Python out, and an answer never changes the world more than
  the handler did.
\<close>

lemma refuse_ok [simp]: "jsonrpc_refuse env rid e = Inr (JError rid (rpc_error_to_jsonrpc (wire_error (jn_errors env) e)))"
  by (simp add: jsonrpc_refuse_def)

lemma catching_contains:
  "(\<And>e. isinstance_exn e PyException \<Longrightarrow> \<exists>x. h e = Inr x) \<Longrightarrow> fst (catching h f w) = Inl e \<Longrightarrow> \<not> isinstance_exn e PyException"
  by (auto simp: catching_def split: sum.splits prod.splits if_splits) (metis Inl_Inr_False)

lemma generate_ok: "coerce_id i = Inr j \<Longrightarrow> \<exists>x. generate_error_response i e = Inr x"
  by (simp add: generate_error_response_def)

lemma parse_body_answers:
  assumes "coerce_id (dict_get d ''id'' PNone) = Inr i" "parse_body env hs w (PDict d) = Inl e"
  shows "\<not> isinstance_exn e PyException"
proof -
  have "\<exists>x. generate_error_response (dict_get d ''id'' PNone) er = Inr x" for er
    using generate_ok [OF assms(1)] .
  then show ?thesis
    using assms(2) by (auto simp: parse_body_def get_body_id_def bind_ok_def split: sum.splits if_splits) (metis Inl_Inr_False)+
qed

text \<open>
  Whatever the handler does, a JSON-RPC body that is an object with an
  identifier of an allowed type is answered: no exception of Python leaves the application. A body that is not
  an object, a batch for one, is not answered with an error: looking for its identifier raises
  AttributeError, before any handler has run.
\<close>

theorem jsonrpc_bodies_answered:
  shows "(\<forall>d i e. body = PDict d \<and> coerce_id (dict_get d ''id'' PNone) = Inr i
        \<and> (\<forall>q. jn_envelope env body = Inr q \<longrightarrow> (\<exists>j. coerce_id (jr_id q) = Inr j))
        \<and> fst (handle_requests env hs h (Inr body) w) = Inl e \<longrightarrow> \<not> isinstance_exn e PyException)
    \<and> (\<forall>e. (\<forall>d. body \<noteq> PDict d) \<and> jn_base env body = Inl e \<and> isinstance_exn e PyException
        \<longrightarrow> handle_requests env hs h (Inr body) w = (Inl (no_attribute ''get''), w))"
proof (intro conjI allI impI)
  fix d i e
  assume a: "body = PDict d \<and> coerce_id (dict_get d ''id'' PNone) = Inr i
    \<and> (\<forall>q. jn_envelope env body = Inr q \<longrightarrow> (\<exists>j. coerce_id (jr_id q) = Inr j))
    \<and> fst (handle_requests env hs h (Inr body) w) = Inl e"
  have q: "\<exists>j. coerce_id (jr_id q) = Inr j" if "parse_body env hs w body = Inr (Inr (m, q, s))" for m q s
  proof -
    have "jn_envelope env body = Inr q"
      using that by (auto simp: parse_body_def bind_ok_def split: sum.splits if_splits)
    with a show ?thesis by blast
  qed
  from a have f: "fst (handle_requests env hs h (Inr body) w) = Inl e" by blast
  show "\<not> isinstance_exn e PyException"
  proof (cases "parse_body env hs w body")
    case (Inl e')
    with a have "parse_body env hs w (PDict d) = Inl e" "coerce_id (dict_get d ''id'' PNone) = Inr i"
      by (simp_all add: handle_requests_def)
    then show ?thesis using parse_body_answers by blast
  next
    case (Inr x)
    show ?thesis
    proof (cases x)
      case (Inl r)
      with Inr f show ?thesis by (simp add: handle_requests_def)
    next
      case (Inr y)
      obtain m q s where y: "y = (m, q, s)" by (metis prod_cases3)
      with Inr \<open>parse_body env hs w body = Inr x\<close> f
      have c: "fst (catching (\<lambda>e. generate_error_response (jr_id q) (wire_error_coded (jn_errors env) e INTERNAL_ERROR))
          (run_method env (Some (http_context hs)) h m s q) w) = Inl e" by (simp add: handle_requests_def)
      from q y Inr \<open>parse_body env hs w body = Inr x\<close> obtain j where "coerce_id (jr_id q) = Inr j" by blast
      then show ?thesis by (intro catching_contains [OF _ c] generate_ok)
    qed
  qed
next
  fix e
  assume "(\<forall>d. body \<noteq> PDict d) \<and> jn_base env body = Inl e \<and> isinstance_exn e PyException"
  then show "handle_requests env hs h (Inr body) w = (Inl (no_attribute ''get''), w)"
    by (cases body) (auto simp: handle_requests_def parse_body_def get_body_id_def)
qed

text \<open>
  A cancellation whose parameters the union of models takes for a query (one
  without a reason: the query comes first among the models that fit) is refused without the handler being
  asked; a subscription is rescued by its own case and reaches the handler.
\<close>

theorem cancel_read_as_query:
  assumes "jr_params q = Model (ParQuery tid)"
  shows "(\<exists>er. jsonrpc_cancel env sc h q w = (Inr (JError (jr_id q) er), w) \<and> je_code er = error_code_value INVALID_PARAMS)
    \<and> snd (jsonrpc_subscribe env sc h q w) = snd (rh_subscribe h \<lparr>tbr_task_id = tid, tbr_events = None\<rparr> sc w)"
proof
  let ?er = "rpc_error_to_jsonrpc (wire_error (jn_errors env) wrong_model)"
  have e: "isinstance_exn wrong_model PyException" by (simp add: wrong_model_def validation_error_def is_subclass_Custom is_subclass_def)
  have "map_exception_to_error_code wrong_model = 2001"
    by (simp add: map_exception_to_error_code_def wrong_model_def validation_error_def STANDARD_EXCEPTION_MAPPING_def is_subclass_def)
  then have "je_code ?er = error_code_value INVALID_PARAMS"
    by (simp add: rpc_error_to_jsonrpc_def dump_error_def dict_get_def Let_def)
  moreover have "jsonrpc_cancel env sc h q w = (Inr (JError (jr_id q) ?er), w)"
    using assms e by (simp add: jsonrpc_cancel_def jsonrpc_unary_def json_cancel_request_def payload_def model_validate_def)
  ultimately show "\<exists>er. jsonrpc_cancel env sc h q w = (Inr (JError (jr_id q) er), w) \<and> je_code er = error_code_value INVALID_PARAMS"
    by blast
  show "snd (jsonrpc_subscribe env sc h q w) = snd (rh_subscribe h \<lparr>tbr_task_id = tid, tbr_events = None\<rparr> sc w)"
    using assms by (simp add: jsonrpc_subscribe_def jsonrpc_events_def json_subscribe_request_def payload_def split: prod.split)
qed

text \<open>Validation that reads no model at all, for the witnesses.\<close>

definition refusing_json :: json_env where
  "refusing_json = \<lparr>jn_errors = \<lparr>ee_format = (\<lambda>_. []), ee_module = (\<lambda>_. []), ee_env = (\<lambda>_. None), ee_tracing = False, ee_debug = None\<rparr>,
     jn_request = (\<lambda>_. Inl wrong_model), jn_submit = (\<lambda>_. Inl wrong_model), jn_query = (\<lambda>_. Inl wrong_model),
     jn_cancel = (\<lambda>_. Inl wrong_model), jn_subscribe = (\<lambda>_. Inl wrong_model), jn_health = (\<lambda>_. Inl wrong_model),
     jn_base = (\<lambda>_. Inl wrong_model), jn_envelope = (\<lambda>_. Inl wrong_model), jn_str = (\<lambda>_. [])\<rparr>"

abbreviation sample_endpoint :: "rpc_server request_handler" where
  "sample_endpoint \<equiv> default_request_handler sample_handler_env [] (sample_moment ''t'')"

theorem jsonrpc_bodies_answered_witness:
  "handle_requests refusing_json [] sample_endpoint (Inr (PList [PDict []])) sample_server = (Inl (no_attribute ''get''), sample_server)
   \<and> \<not> (\<exists>e. fst (handle_requests refusing_json [] sample_endpoint (Inr (PDict [(''id'', PInt 1)])) sample_server) = Inl e
          \<and> isinstance_exn e PyException)"
  using jsonrpc_bodies_answered [of "PList [PDict []]" refusing_json "[]" sample_endpoint sample_server]
    jsonrpc_bodies_answered [of "PDict [(''id'', PInt 1)]" refusing_json "[]" sample_endpoint sample_server]
  by (auto simp: refusing_json_def wrong_model_def validation_error_def is_subclass_Custom is_subclass_def dict_get_def coerce_id_def)

theorem cancel_read_as_query_witness:
  "\<exists>er. jsonrpc_cancel refusing_json None sample_endpoint
      \<lparr>jr_id = PInt 1, jr_method = ''rpc.v2/TaskService/Cancel'', jr_params = Model (ParQuery ''t'')\<rparr> sample_server
     = (Inr (JError (PInt 1) er), sample_server) \<and> je_code er = 2001"
  using cancel_read_as_query [of "\<lparr>jr_id = PInt 1, jr_method = ''rpc.v2/TaskService/Cancel'', jr_params = Model (ParQuery ''t'')\<rparr>" "''t''"
      refusing_json None sample_endpoint sample_server] by simp

end
