(* ===== verification/Rest_Endpoint.thy ===== *)
theory Rest_Endpoint
  imports Jsonrpc_Endpoint
begin

text \<open>
  The REST endpoint: the context it builds of headers and body (\<open>server/context_builder.py\<close>), its handler
  (\<open>server/request_handlers/rest_v2_handler.py\<close>) and the routes and status codes of the application
  (\<open>server/protocols/rest/fastapi_app.py\<close>).
\<close>

section \<open>The context\<close>

text \<open>\<open>int(s, 16)\<close>: white space, a sign, the prefix 0x, digits with single underscores.\<close>

definition hex_digit :: "char \<Rightarrow> int" where
  "hex_digit c = (if is_digit c then int (ascii_code c) - 48 else int (ascii_code (lower_char c)) - 87)"

fun hex_body :: "bool \<Rightarrow> int \<Rightarrow> string \<Rightarrow> int option" where
  "hex_body d a [] = (if d then Some a else None)"
| "hex_body d a (c # cs) =
     (if is_hex c then hex_body True (16 * a + hex_digit c) cs
      else if c = CHR ''_'' \<and> d then hex_body False a cs
      else None)"

definition parse_hex :: "string \<Rightarrow> int option" where
  "parse_hex s =
     (let t = py_strip s;
          u = (if starts_with t ''-'' \<or> starts_with t ''+'' then tl t else t);
          n = (if starts_with (py_lower u) ''0x'' then (if length u = 2 then None else hex_body True 0 (drop 2 u))
               else hex_body False 0 u)
      in if starts_with t ''-'' then map_option uminus n else n)"

definition bad_traceparent :: exn where
  "bad_traceparent = Exn ValueError 0 ''Invalid traceparent format'' PNone None"

definition parse_traceparent :: "string \<Rightarrow> exn + trace_context" where
  "parse_traceparent s =
     (case py_split (CHR ''-'') s of
        [version, tid, sid, flags] \<Rightarrow>
          if length tid \<noteq> 32 \<or> length sid \<noteq> 16 then Inl bad_traceparent
          else (case parse_hex flags of
                  None \<Rightarrow> Inl bad_traceparent
                | Some n \<Rightarrow> new_trace_context tid sid None (n mod 2 = 1) None)
      | _ \<Rightarrow> Inl bad_traceparent)"

text \<open>
  The body is what was parsed before, if anything. \<open>check\<close> is validation of a trace context; a body that
  fails it, or has none, leaves the decision to the header, and so does a header that is no trace.
\<close>

definition extract_trace_context ::
  "(pyval \<Rightarrow> exn + trace_context) \<Rightarrow> pyval option \<Rightarrow> (string, string) dict \<Rightarrow> trace_context option" where
  "extract_trace_context check body hs =
     (let from_body = (case body of
                         Some (PDict d) \<Rightarrow>
                           (case map_of d ''trace_context'' of
                              Some (PDict t) \<Rightarrow> (case check (PDict t) of Inr tc \<Rightarrow> Some tc | Inl _ \<Rightarrow> None)
                            | _ \<Rightarrow> None)
                       | _ \<Rightarrow> None);
          header = dict_get hs ''traceparent'' []
      in case from_body of
           Some tc \<Rightarrow> Some tc
         | None \<Rightarrow> (if header = [] then None
                    else case parse_traceparent header of Inr tc \<Rightarrow> Some tc | Inl _ \<Rightarrow> None))"

definition body_metadata :: "pyval option \<Rightarrow> (string, pyval) dict" where
  "body_metadata body =
     (case body of
        Some (PDict d) \<Rightarrow> (case dict_get d ''metadata'' (PDict []) of PDict m \<Rightarrow> m | _ \<Rightarrow> [])
      | _ \<Rightarrow> [])"

definition request_tenant_id :: "pyval option \<Rightarrow> (string, string) dict \<Rightarrow> pyval" where
  "request_tenant_id body hs =
     (let t = first_header hs tenant_headers in
      if t \<noteq> [] then PStr t else dict_get (body_metadata body) ''tenant_id'' PNone)"

definition bearer :: "string \<Rightarrow> string" where
  "bearer header = (if starts_with header ''Bearer '' then drop 7 header else header)"

definition copy_item :: "string \<Rightarrow> (string, pyval) dict \<Rightarrow> (string, pyval) dict \<Rightarrow> (string, pyval) dict" where
  "copy_item k m d = (case map_of m k of None \<Rightarrow> d | Some v \<Rightarrow> AList.update k v d)"

definition extract_auth_info :: "pyval option \<Rightarrow> (string, string) dict \<Rightarrow> (string, pyval) dict" where
  "extract_auth_info body hs =
     (let auth = first_header hs [''Authorization'', ''authorization''];
          key = first_header hs [''X-API-Key'', ''x-api-key''];
          m = body_metadata body;
          d1 = (if auth = [] then [] else [(''token'', PStr (bearer auth))]);
          d2 = (if key = [] then d1 else AList.update ''api_key'' (PStr key) d1);
          d3 = copy_item ''roles'' m (copy_item ''user_id'' m d2)
      in case map_of m ''auth'' of
           Some (PDict a) \<Rightarrow> fold (\<lambda>(k, v). AList.update k v) a d3
         | _ \<Rightarrow> d3)"

definition v2_build_context ::
  "(pyval \<Rightarrow> exn + trace_context) \<Rightarrow> (trace_context \<Rightarrow> pyval) \<Rightarrow> pyval option \<Rightarrow> (string, string) dict \<Rightarrow> server_context" where
  "v2_build_context check obj body hs =
     (let tc = extract_trace_context check body hs;
          t = request_tenant_id body hs;
          auth = extract_auth_info body hs
      in \<lparr>sc_state = [(''headers'', PDict (str_dict hs))]
             @ (case tc of None \<Rightarrow> [] | Some x \<Rightarrow> [(''trace_context'', obj x)])
             @ (if py_truthy t then [(''tenant_id'', t)] else [])
             @ (if auth = [] then [] else [(''auth'', PDict auth)]),
          sc_principal = None, sc_meta = []\<rparr>)"

section \<open>The handler\<close>

text \<open>What is sent: a response, or what a task or health method returned (\<open>None\<close> for nothing).\<close>

datatype rest_body = RestResponse rpc_response | RestResult "json_result option"

definition is_error_response :: "rpc_response \<Rightarrow> bool" where
  "is_error_response r = (rs_error r \<noteq> None \<or> rs_status r = ERROR)"

definition rest_parse :: "json_env \<Rightarrow> exn + pyval \<Rightarrow> exn + rpc_request" where
  "rest_parse env body = bind_ok body (jn_request env)"

definition rest_error :: "json_env \<Rightarrow> string option \<Rightarrow> exn \<Rightarrow> exn + rpc_response" where
  "rest_error env rid e = Inr (failed_response rid (wire_error (jn_errors env) e))"

text \<open>The identifier is known once the request was read.\<close>

definition rest_refuse :: "json_env \<Rightarrow> exn + pyval \<Rightarrow> exn \<Rightarrow> exn + rpc_response" where
  "rest_refuse env body =
     rest_error env (case rest_parse env body of Inr r \<Rightarrow> rq_id r | Inl _ \<Rightarrow> None)"

definition rest_call ::
  "json_env \<Rightarrow> server_context option \<Rightarrow> 'w request_handler \<Rightarrow> exn + pyval \<Rightarrow> ('w, exn, rpc_response) comp" where
  "rest_call env sc h body =
     catching (rest_refuse env body)
       (and_then (of_value (rest_parse env body)) (\<lambda>r.
        and_then (rh_on_message h r sc) (\<lambda>x. of_value (Inr x))))"

text \<open>The first response that is an error is the last one sent.\<close>

fun until_error :: "rpc_response list \<Rightarrow> exn option \<Rightarrow> rpc_response stream" where
  "until_error [] exc = ([], exc)"
| "until_error (x # xs) exc =
     (if is_error_response x then ([x], None)
      else (let (ys, e) = until_error xs exc in (x # ys, e)))"

definition rest_stream ::
  "json_env \<Rightarrow> server_context option \<Rightarrow> 'w request_handler \<Rightarrow> exn + pyval \<Rightarrow> 'w \<Rightarrow> rpc_response stream \<times> 'w" where
  "rest_stream env sc h body w =
     (case rest_parse env body of
        Inl e \<Rightarrow> (catching_stream (rest_refuse env body) ([], Some e), w)
      | Inr r \<Rightarrow>
          (let (s, w1) = rh_on_stream h r sc w in
           (catching_stream (rest_refuse env body) (until_error (fst s) (snd s)), w1)))"

definition not_implemented :: "string \<Rightarrow> exn" where
  "not_implemented msg = Exn NotImplementedError 0 msg PNone None"

definition rest_client_stream :: "json_env \<Rightarrow> exn + rpc_response" where
  "rest_client_stream env = rest_error env None (not_implemented ''REST v2 does not support client streaming'')"

definition rest_bidirectional :: "json_env \<Rightarrow> exn + rpc_response" where
  "rest_bidirectional env = rest_error env None (not_implemented ''REST v2 does not support bidirectional streaming'')"

text \<open>The identifier in the body of a task or health method; a response holds it as a string.\<close>

definition extract_request_id :: "json_env \<Rightarrow> exn + pyval \<Rightarrow> string option" where
  "extract_request_id env body =
     (case body of
        Inr (PDict d) \<Rightarrow> (let v = dict_get d ''id'' PNone in if v = PNone then None else Some (py_str (jn_str env) v))
      | _ \<Rightarrow> None)"

definition rest_unary ::
  "json_env \<Rightarrow> exn + pyval \<Rightarrow> (json_arg \<Rightarrow> exn + 'a) \<Rightarrow> ('a \<Rightarrow> ('w, exn, 'b) comp) \<Rightarrow> ('b \<Rightarrow> json_result option)
     \<Rightarrow> ('w, exn, rest_body) comp" where
  "rest_unary env body read call wrap =
     catching (\<lambda>e. map_sum id RestResponse (rest_error env (extract_request_id env body) e))
       (and_then (of_value (bind_ok body (\<lambda>v. read (Raw v)))) (\<lambda>a.
        and_then (call a) (\<lambda>x. of_value (Inr (RestResult (wrap x))))))"

definition rest_events ::
  "json_env \<Rightarrow> exn + pyval \<Rightarrow> (json_arg \<Rightarrow> exn + 'a) \<Rightarrow> ('a \<Rightarrow> 'w \<Rightarrow> 'b stream \<times> 'w) \<Rightarrow> ('b \<Rightarrow> json_result)
     \<Rightarrow> 'w \<Rightarrow> rest_body stream \<times> 'w" where
  "rest_events env body read call wrap w =
     (let refuse = (\<lambda>e. map_sum id RestResponse (rest_error env (extract_request_id env body) e)) in
      case bind_ok body (\<lambda>v. read (Raw v)) of
        Inl e \<Rightarrow> (catching_stream refuse ([], Some e), w)
      | Inr a \<Rightarrow>
          (let (s, w1) = call a w in
           (catching_stream refuse (map (\<lambda>x. RestResult (Some (wrap x))) (fst s), snd s), w1)))"

definition rest_submit ::
  "json_env \<Rightarrow> server_context option \<Rightarrow> 'w request_handler \<Rightarrow> exn + pyval \<Rightarrow> ('w, exn, rest_body) comp" where
  "rest_submit env sc h body =
     rest_unary env body (json_submit_request env) (\<lambda>s. rh_submit h s sc) (map_option ResSubmit)"

definition rest_query ::
  "json_env \<Rightarrow> server_context option \<Rightarrow> 'w request_handler \<Rightarrow> exn + pyval \<Rightarrow> ('w, exn, rest_body) comp" where
  "rest_query env sc h body =
     rest_unary env body (json_query_request env) (\<lambda>t. rh_query h t sc) (\<lambda>x. Some (ResQuery x))"

definition rest_cancel ::
  "json_env \<Rightarrow> server_context option \<Rightarrow> 'w request_handler \<Rightarrow> exn + pyval \<Rightarrow> ('w, exn, rest_body) comp" where
  "rest_cancel env sc h body =
     rest_unary env body (json_cancel_request env) (\<lambda>c. rh_cancel h c sc) (\<lambda>x. Some (ResCancel x))"

definition rest_subscribe ::
  "json_env \<Rightarrow> server_context option \<Rightarrow> 'w request_handler \<Rightarrow> exn + pyval \<Rightarrow> 'w \<Rightarrow> rest_body stream \<times> 'w" where
  "rest_subscribe env sc h body =
     rest_events env body (json_subscribe_request env) (\<lambda>s. rh_subscribe h s sc) ResEvent"

definition rest_check ::
  "json_env \<Rightarrow> server_context option \<Rightarrow> 'w request_handler \<Rightarrow> exn + pyval \<Rightarrow> ('w, exn, rest_body) comp" where
  "rest_check env sc h body =
     rest_unary env body (json_health_request env) (\<lambda>s. rh_check h s sc) (\<lambda>x. Some (ResHealth x))"

definition rest_watch ::
  "json_env \<Rightarrow> server_context option \<Rightarrow> 'w request_handler \<Rightarrow> exn + pyval \<Rightarrow> 'w \<Rightarrow> rest_body stream \<times> 'w" where
  "rest_watch env sc h body =
     rest_events env body (json_health_request env) (\<lambda>s. rh_watch h s sc) ResHealth"

section \<open>The application\<close>

definition rest_routes :: "(string, rpc_method) dict" where
  "rest_routes =
     [(''/v2/rpc'', MCall), (''/v2/rpc/stream'', MServerStream),
      (''/v2/AduibRpcService/Call'', MCall), (''/v2/AduibRpcService/CallServerStream'', MServerStream),
      (''/v2/AduibRpcService/CallClientStream'', MClientStream),
      (''/v2/AduibRpcService/CallBidirectional'', MBidirectional),
      (''/v2/TaskService/Submit'', MSubmit), (''/v2/TaskService/Query'', MQuery),
      (''/v2/TaskService/Cancel'', MCancel), (''/v2/TaskService/Subscribe'', MSubscribe),
      (''/v2/HealthService/Check'', MCheck), (''/v2/HealthService/Watch'', MWatch)]"

datatype rest_reply = RestJson int rest_body | RestEvents "rest_body stream" | RestNotFound

text \<open>The HTTP status of a unary reply: that of the error's code, when the reply is an error that has one.\<close>

definition rest_status :: "rest_body \<Rightarrow> int" where
  "rest_status b =
     (case b of
        RestResponse r \<Rightarrow>
          (if rs_status r = ERROR
           then (case rs_error r of None \<Rightarrow> 200 | Some e \<Rightarrow> error_code_to_http_status (err_code e))
           else 200)
      | RestResult _ \<Rightarrow> 200)"

definition rest_json :: "('w, exn, rest_body) comp \<Rightarrow> ('w, exn, rest_reply) comp" where
  "rest_json f = and_then f (\<lambda>b. of_value (Inr (RestJson (rest_status b) b)))"

definition rest_sse :: "('w \<Rightarrow> rest_body stream \<times> 'w) \<Rightarrow> ('w, exn, rest_reply) comp" where
  "rest_sse f w = (let (s, w1) = f w in (Inr (RestEvents s), w1))"

definition responses :: "rpc_response stream \<times> 'w \<Rightarrow> rest_body stream \<times> 'w" where
  "responses res = (case res of ((xs, exc), w) \<Rightarrow> ((map RestResponse xs, exc), w))"

text \<open>The routes, and their handlers; all are mounted under the path the reply checks first.\<close>

definition rest_serve ::
  "json_env \<Rightarrow> (pyval \<Rightarrow> exn + trace_context) \<Rightarrow> (trace_context \<Rightarrow> pyval) \<Rightarrow> string \<Rightarrow> (string, string) dict
     \<Rightarrow> 'w request_handler \<Rightarrow> exn + pyval \<Rightarrow> ('w, exn, rest_reply) comp" where
  "rest_serve env check obj route hs h body =
     (let sc = Some (v2_build_context check obj (case body of Inr v \<Rightarrow> Some v | Inl _ \<Rightarrow> None) hs) in
      case map_of rest_routes route of
        None \<Rightarrow> of_value (Inr RestNotFound)
      | Some MCall \<Rightarrow> rest_json (and_then (rest_call env sc h body) (\<lambda>x. of_value (Inr (RestResponse x))))
      | Some MServerStream \<Rightarrow> rest_sse (\<lambda>w. responses (rest_stream env sc h body w))
      | Some MClientStream \<Rightarrow> rest_json (of_value (map_sum id RestResponse (rest_client_stream env)))
      | Some MBidirectional \<Rightarrow>
          rest_sse (\<lambda>w. (case rest_bidirectional env of
                           Inr x \<Rightarrow> (([RestResponse x], None), w) | Inl e \<Rightarrow> (([], Some e), w)))
      | Some MSubmit \<Rightarrow> rest_json (rest_submit env sc h body)
      | Some MQuery \<Rightarrow> rest_json (rest_query env sc h body)
      | Some MCancel \<Rightarrow> rest_json (rest_cancel env sc h body)
      | Some MSubscribe \<Rightarrow> rest_sse (rest_subscribe env sc h body)
      | Some MCheck \<Rightarrow> rest_json (rest_check env sc h body)
      | Some MWatch \<Rightarrow> rest_sse (rest_watch env sc h body))"

interpretation rest_calls: unary_endpoint "rest_parse env" "\<lambda>body r. sc" "\<lambda>body x. Inr x" "rest_refuse env"
  "rest_call env sc" for env sc
  by unfold_locales (simp add: rest_call_def)

section \<open>Properties\<close>

lemma rest_refuse_value:
  "rest_refuse env body e = Inr (failed_response (case rest_parse env body of Inr r \<Rightarrow> rq_id r | Inl _ \<Rightarrow> None)
     (wire_error (jn_errors env) e))"
  by (simp add: rest_refuse_def rest_error_def)

lemma http_status_range: "400 \<le> error_code_to_http_status c \<and> error_code_to_http_status c < 600"
  by (simp add: error_code_to_http_status_def)

text \<open>
  The status line of the REST endpoint says how a call went: when the request
  can be read and the handler raises an exception, the client gets an error response with the identifier of
  the request and the HTTP status of the code the exception maps to, which is a client or server error; what
  the handler returns is sent as it is, with status 200 when it is a success.
\<close>

theorem rest_status_of_outcome:
  fixes h :: "'w request_handler" and sc :: server_context
  assumes "rest_parse env body = Inr r" "map_of rest_routes route = Some MCall"
    and "sc = v2_build_context check obj (case body of Inr v \<Rightarrow> Some v | Inl _ \<Rightarrow> None) hs"
    and "rh_on_message h r (Some sc) w = (out, w1)"
  shows "(\<forall>e. out = Inl e \<and> isinstance_exn e PyException \<longrightarrow>
      (\<exists>x st. rest_serve env check obj route hs h body w = (Inr (RestJson st (RestResponse x)), w1)
         \<and> st = error_code_to_http_status (map_exception_to_error_code e) \<and> 400 \<le> st \<and> st < 600
         \<and> rs_id x = rq_id r \<and> map_option err_code (rs_error x) = Some (map_exception_to_error_code e)))
    \<and> (\<forall>x. out = Inr x \<longrightarrow> rest_serve env check obj route hs h body w
         = (Inr (RestJson (rest_status (RestResponse x)) (RestResponse x)), w1)
         \<and> (is_success x \<longrightarrow> rest_status (RestResponse x) = 200))"
proof (intro conjI allI impI)
  have serve: "rest_serve env check obj route hs h body w
      = rest_json (and_then (rest_call env (Some sc) h body) (\<lambda>x. of_value (Inr (RestResponse x)))) w"
    by (simp add: rest_serve_def assms(2,3) Let_def)
  {
    fix e assume "out = Inl e \<and> isinstance_exn e PyException"
    then have "rest_call env (Some sc) h body w = (rest_refuse env body e, w1)"
      using assms(1,4) by (intro rest_calls.handler_raises) simp_all
    then show "\<exists>x st. rest_serve env check obj route hs h body w = (Inr (RestJson st (RestResponse x)), w1)
         \<and> st = error_code_to_http_status (map_exception_to_error_code e) \<and> 400 \<le> st \<and> st < 600
         \<and> rs_id x = rq_id r \<and> map_option err_code (rs_error x) = Some (map_exception_to_error_code e)"
      using http_status_range [of "map_exception_to_error_code e"]
      by (simp add: serve rest_refuse_value assms(1) rest_json_def and_then_def of_value_def rest_status_def failed_response_def)
  }
  fix x assume x: "out = Inr x"
  then have "rest_call env (Some sc) h body w = (Inr x, w1)"
    using assms(1,4) by (intro rest_calls.answers) simp_all
  then show "rest_serve env check obj route hs h body w = (Inr (RestJson (rest_status (RestResponse x)) (RestResponse x)), w1)"
    by (simp add: serve rest_json_def and_then_def of_value_def)
  assume "is_success x"
  then show "rest_status (RestResponse x) = 200" by (simp add: is_success_def rest_status_def)
qed

lemma until_error_none: "(\<And>x. x \<in> set xs \<Longrightarrow> \<not> is_error_response x) \<Longrightarrow> until_error xs exc = (xs, exc)"
  by (induction xs) auto

lemma until_error_some:
  "(\<And>x. x \<in> set xs \<Longrightarrow> \<not> is_error_response x) \<Longrightarrow> is_error_response y \<Longrightarrow> until_error (xs @ y # ys) exc = (xs @ [y], None)"
  by (induction xs) auto

text \<open>
  Where a JSON-RPC stream relays every response, the REST stream of the same
  request stops after the first that is an error, and whatever the function would have sent after it, its own
  failure included, is not sent. Without an error among them the two relay the same responses.
\<close>

theorem streams_cut_at_errors:
  assumes "rest_parse env body = Inr r" "require_rpc_request env (jr_params q) = Inr r"
    and "rh_on_stream h r sc w = ((xs, exc), w1)"
  shows "(\<forall>as y bs. xs = as @ y # bs \<and> (\<forall>x \<in> set as. \<not> is_error_response x) \<and> is_error_response y
       \<longrightarrow> rest_stream env sc h body w = ((as @ [y], None), w1))
    \<and> ((\<forall>x \<in> set xs. \<not> is_error_response x) \<and> exc = None
       \<longrightarrow> rest_stream env sc h body w = ((xs, None), w1)
         \<and> jsonrpc_stream env sc h q w = ((map (\<lambda>x. JResult (jr_id q) (ResResponse x)) xs, None), w1))"
proof (intro conjI allI impI)
  fix as y bs assume a: "xs = as @ y # bs \<and> (\<forall>x \<in> set as. \<not> is_error_response x) \<and> is_error_response y"
  then have "until_error xs exc = (as @ [y], None)" using until_error_some [of as y bs exc] by auto
  with assms show "rest_stream env sc h body w = ((as @ [y], None), w1)" by (simp add: rest_stream_def)
next
  assume a: "(\<forall>x \<in> set xs. \<not> is_error_response x) \<and> exc = None"
  then have "until_error xs exc = (xs, None)" using until_error_none [of xs exc] by auto
  with assms show "rest_stream env sc h body w = ((xs, None), w1)" by (simp add: rest_stream_def)
  from a assms(3) have "rh_on_stream h r sc w = ((xs, None), w1)" by simp
  from jsonrpc_relay.relays [OF assms(2) this, of "\<lambda>x. JResult (jr_id q) (ResResponse x)"]
  show "jsonrpc_stream env sc h q w = ((map (\<lambda>x. JResult (jr_id q) (ResResponse x)) xs, None), w1)"
    by (simp add: prepare_response_object_def)
qed

text \<open>Joining what a trace header is made of.\<close>

lemma hex_no_dash: "list_all is_hex s \<Longrightarrow> CHR ''-'' \<notin> set s"
  by (auto simp: list_all_iff is_hex_def is_digit_def ascii_code_def Let_def)

text \<open>
  A W3C header made of a trace context is read back: identifiers and the
  sampled bit survive, whatever the version says, and the parent and the baggage, which the header has no
  place for, come back empty.
\<close>

theorem traceparent_round_trip:
  assumes "trace_ok tc" "CHR ''-'' \<notin> set version"
  shows "parse_traceparent (py_join (CHR ''-'') [version, tc_trace_id tc, tc_span_id tc, if tc_sampled tc then ''01'' else ''00''])
     = Inr (tc\<lparr>tc_parent_span_id := None, tc_baggage := None\<rparr>)"
proof -
  let ?f = "if tc_sampled tc then ''01'' else ''00''"
  have h: "hex_of_length 32 (tc_trace_id tc)" "hex_of_length 16 (tc_span_id tc)" using assms(1) by (simp_all add: trace_ok_def)
  have d: "CHR ''-'' \<notin> set (tc_trace_id tc)" "CHR ''-'' \<notin> set (tc_span_id tc)" "CHR ''-'' \<notin> set ?f"
    using h hex_no_dash by (auto simp: hex_of_length_def)
  have f: "parse_hex ?f = Some (if tc_sampled tc then 1 else 0)"
  proof (cases "tc_sampled tc")
    case True
    have "parse_hex ''01'' = Some 1" by code_simp
    with True show ?thesis by (simp only: if_True)
  next
    case False
    have "parse_hex ''00'' = Some 0" by code_simp
    with False show ?thesis by (simp only: if_False)
  qed
  have s: "py_split (CHR ''-'') (py_join (CHR ''-'') [version, tc_trace_id tc, tc_span_id tc, ?f])
      = [version, tc_trace_id tc, tc_span_id tc, ?f]"
    using assms(2) d by (simp add: py_split_append py_split_no_sep)
  have n: "new_trace_context (tc_trace_id tc) (tc_span_id tc) None b None
      = Inr \<lparr>tc_trace_id = tc_trace_id tc, tc_span_id = tc_span_id tc, tc_parent_span_id = None, tc_sampled = b, tc_baggage = None\<rparr>" for b
    using new_trace_context_of_ok [OF assms(1)] .
  show ?thesis
    unfolding parse_traceparent_def s using h by (simp add: f n hex_of_length_def)
qed

definition reading_json :: json_env where
  "reading_json = refusing_json\<lparr>jn_request := (\<lambda>_. Inr (empty_request\<lparr>rq_id := Some ''7''\<rparr>))\<rparr>"

theorem rest_status_of_outcome_witness:
  "\<exists>x. fst (rest_serve reading_json (\<lambda>_. Inl wrong_model) (\<lambda>_. PNone) ''/v2/rpc'' []
      (sample_endpoint\<lparr>rh_on_message := (\<lambda>r sc w. (Inl (Exn PermissionError 0 ''no'' PNone None), w))\<rparr>) (Inr (PDict [])) sample_server)
     = Inr (RestJson 403 (RestResponse x)) \<and> rs_id x = Some ''7''"
proof -
  let ?h = "sample_endpoint\<lparr>rh_on_message := (\<lambda>r sc w. (Inl (Exn PermissionError 0 ''no'' PNone None), w))\<rparr>"
  have p: "rest_parse reading_json (Inr (PDict [])) = Inr (empty_request\<lparr>rq_id := Some ''7''\<rparr>)"
    by (simp add: rest_parse_def reading_json_def)
  have e: "isinstance_exn (Exn PermissionError 0 ''no'' PNone None) PyException"
    "map_exception_to_error_code (Exn PermissionError 0 ''no'' PNone None) = error_code_value PERMISSION_DENIED"
    by (simp_all add: is_subclass_def map_exception_to_error_code_def STANDARD_EXCEPTION_MAPPING_def)
  have m: "map_of rest_routes ''/v2/rpc'' = Some MCall" by (simp add: rest_routes_def)
  have h: "rh_on_message ?h r sc sample_server = (Inl (Exn PermissionError 0 ''no'' PNone None), sample_server)" for r sc by simp
  from rest_status_of_outcome [OF p m refl h, of "\<lambda>_. Inl wrong_model" "\<lambda>_. PNone" "[]"] e show ?thesis
    by (auto simp: error_code_to_http_status_def)
qed

theorem streams_cut_at_errors_witness:
  "fst (rest_stream reading_json None (sample_endpoint\<lparr>rh_on_stream := (\<lambda>r sc w. (([success_response ''7'' (PInt 1), no_response None,
      success_response ''7'' (PInt 2)], None), w))\<rparr>) (Inr (PDict [])) sample_server)
     = ([success_response ''7'' (PInt 1), no_response None], None)"
proof -
  let ?xs = "[success_response ''7'' (PInt 1), no_response None, success_response ''7'' (PInt 2)]"
  let ?h = "sample_endpoint\<lparr>rh_on_stream := (\<lambda>r sc w. ((?xs, None), w))\<rparr>"
  let ?q = "\<lparr>jr_id = PInt 1, jr_method = [], jr_params = Raw (PDict [])\<rparr>"
  have p: "rest_parse reading_json (Inr (PDict [])) = Inr (empty_request\<lparr>rq_id := Some ''7''\<rparr>)"
    "require_rpc_request reading_json (jr_params ?q) = Inr (empty_request\<lparr>rq_id := Some ''7''\<rparr>)"
    by (simp_all add: rest_parse_def require_rpc_request_def reading_json_def)
  have h: "rh_on_stream ?h r sc sample_server = ((?xs, None), sample_server)" for r sc by simp
  have e: "\<not> is_error_response (success_response ''7'' (PInt 1))" "is_error_response (no_response None)"
    by (simp_all add: is_error_response_def success_response_def no_response_def)
  from streams_cut_at_errors [OF p h, of None] have
    "\<forall>as y bs. ?xs = as @ y # bs \<and> (\<forall>x \<in> set as. \<not> is_error_response x) \<and> is_error_response y
       \<longrightarrow> rest_stream reading_json None ?h (Inr (PDict [])) sample_server = ((as @ [y], None), sample_server)" by blast
  from this [rule_format, of "[success_response ''7'' (PInt 1)]" "no_response None" "[success_response ''7'' (PInt 2)]"] e
  show ?thesis by simp
qed

theorem traceparent_round_trip_witness:
  "parse_traceparent (''00-'' @ replicate 32 (CHR ''a'') @ ''-'' @ replicate 16 (CHR ''7'') @ ''-01'') = Inr (sample_trace\<lparr>tc_baggage := None\<rparr>)"
proof -
  have ok: "trace_ok sample_trace"
    by (simp add: sample_trace_def trace_ok_def hex_of_length_def list_all_iff is_hex_def is_digit_def ascii_code_def)
  from traceparent_round_trip [OF ok, of "''00''"] show ?thesis by (simp add: sample_trace_def)
qed

end
