(* ===== verification/Client_Transports.thy ===== *)
theory Client_Transports
  imports Client_Calls Binary_Endpoints Rest_Endpoint
begin

text \<open>
  The transports of the client (\<open>client/transports/jsonrpc.py\<close>, \<open>rest.py\<close>, \<open>grpc.py\<close>,
  \<open>thrift.py\<close>), and calls from the client to a server's handler and back. What is behind a transport, the
  HTTP library, the gRPC stubs or the Thrift service, is a record of functions on the world, so the server's
  endpoints can be put in its place; so is what pydantic makes of JSON values.
\<close>

section \<open>HTTP: arguments of a request\<close>

text \<open>
  Payload and keyword arguments after the interceptors and the timeout: JSON-RPC overwrites a timeout
  among the arguments with what is resolved of it, REST leaves it.
\<close>

definition jsonrpc_prepare ::
  "(string \<Rightarrow> rat option option) \<Rightarrow> request_interceptor list \<Rightarrow> string \<Rightarrow> pyval \<Rightarrow> (string, pyval) dict option
     \<Rightarrow> client_context \<Rightarrow> exn + pyval \<times> (string, pyval) dict" where
  "jsonrpc_prepare fl is method data meta c =
     bind_ok (apply_interceptors is method c (data, http_args c)) (\<lambda>(p, kw).
       Inr (p, set_timeout (resolve_timeout_s fl (http_config_timeout c) meta (Some kw)) kw))"

definition rest_prepare ::
  "(string \<Rightarrow> rat option option) \<Rightarrow> request_interceptor list \<Rightarrow> string \<Rightarrow> pyval \<Rightarrow> (string, pyval) dict option
     \<Rightarrow> client_context \<Rightarrow> exn + pyval \<times> (string, pyval) dict" where
  "rest_prepare fl is method data meta c =
     bind_ok (apply_interceptors is method c (data, http_args c)) (\<lambda>(p, kw).
       (let t = resolve_timeout_s fl (http_config_timeout c) meta (Some kw) in
        Inr (p, if map_of kw ''timeout'' = None then set_timeout t kw else kw)))"

text \<open>
  The context after a request: a dictionary of arguments that is not empty is the one in the context, and the
  timeout was written into it (interceptors that return the dictionary they were given write into it, too).
\<close>

definition kept_kwargs :: "client_context \<Rightarrow> (string, pyval) dict \<Rightarrow> client_context" where
  "kept_kwargs c kw =
     (if http_args c = [] then c else c\<lparr>cc_state := AList.update ''http_kwargs'' (PDict kw) (cc_state c)\<rparr>)"

section \<open>JSON-RPC\<close>

text \<open>Validation of parameters, replies and errors, the dump of a request, the fresh identifier, and the library.\<close>

record 'w jsonrpc_link =
  jl_float :: "string \<Rightarrow> rat option option"
  jl_interceptors :: "request_interceptor list"
  jl_uuid :: string
  jl_str :: "pyval \<Rightarrow> string"
  jl_params :: "pyval \<Rightarrow> exn + json_params"
  jl_dump :: "jsonrpc_request \<Rightarrow> pyval"
  jl_reply :: "pyval \<Rightarrow> exn + jsonrpc_reply"
  jl_error :: "pyval \<Rightarrow> exn + rpc_error"
  jl_post :: "pyval \<Rightarrow> (string, pyval) dict \<Rightarrow> 'w \<Rightarrow> pyval http_result \<times> 'w"
  jl_events :: "pyval \<Rightarrow> (string, pyval) dict \<Rightarrow> 'w \<Rightarrow> (exn + pyval list \<times> sse_end) \<times> 'w"

definition client_jsonrpc_error :: "jsonrpc_error \<Rightarrow> exn" where
  "client_jsonrpc_error e = Exn (client_error ''ClientJSONRPCError'') (je_code e) (je_message e) (je_data e) None"

text \<open>
  \<open>_coerce_jsonrpc_error\<close>: an error of the protocol, by its code, becomes a response under the identifier of
  the JSON-RPC message.
\<close>

definition unknown_error :: "int \<Rightarrow> string \<Rightarrow> string \<Rightarrow> rpc_error" where
  "unknown_error code name msg = \<lparr>err_code = code, err_name = name, err_message = msg, err_details = None, err_debug = None\<rparr>"

definition error_in_data :: "'w jsonrpc_link \<Rightarrow> jsonrpc_error \<Rightarrow> exn + rpc_error" where
  "error_in_data cl e =
     (case je_data e of
        PDict (x # xs) \<Rightarrow>
          (case jl_error cl (PDict (x # xs)) of
             Inr err \<Rightarrow> Inr err
           | Inl ex \<Rightarrow>
               if isinstance_exn ex (Custom ''ValidationError'' ValueError)
               then (let n = dict_get (x # xs) ''name'' PNone in
                     Inr (unknown_error (je_code e) (if py_truthy n then py_str (jl_str cl) n else ''UNKNOWN'') (je_message e)))
               else Inl ex)
      | _ \<Rightarrow> Inr (unknown_error (je_code e) ''UNKNOWN'' (je_message e)))"

definition coerce_jsonrpc_error :: "'w jsonrpc_link \<Rightarrow> pyval \<Rightarrow> jsonrpc_error \<Rightarrow> exn + rpc_response option" where
  "coerce_jsonrpc_error cl rid e =
     (if je_code e < 1000 then Inr None
      else bind_ok (error_in_data cl e) (\<lambda>err.
        Inr (Some (failed_response (if rid = PNone then None else Some (py_str (jl_str cl) rid)) err))))"

definition raise_or_coerce_jsonrpc_error :: "'w jsonrpc_link \<Rightarrow> pyval \<Rightarrow> jsonrpc_error \<Rightarrow> exn + rpc_response" where
  "raise_or_coerce_jsonrpc_error cl rid e =
     bind_ok (coerce_jsonrpc_error cl rid e) (\<lambda>r. case r of Some x \<Rightarrow> Inr x | None \<Rightarrow> Inl (client_jsonrpc_error e))"

text \<open>What a call makes of a reply: of the results only a response is one.\<close>

definition read_reply :: "'w jsonrpc_link \<Rightarrow> jsonrpc_reply \<Rightarrow> exn + rpc_response" where
  "read_reply cl r =
     (case r of
        JError rid e \<Rightarrow> raise_or_coerce_jsonrpc_error cl rid e
      | JResult _ (ResResponse x) \<Rightarrow> Inr x
      | JResult _ _ \<Rightarrow> Inl (client_json_error ''Invalid JSON-RPC result payload for AduibRpcResponse''))"

text \<open>\<open>_request_unary_with_params\<close> and its stream; the parameters are a model, or a dumped one to validate.\<close>

definition as_params :: "'w jsonrpc_link \<Rightarrow> json_arg \<Rightarrow> exn + json_params" where
  "as_params cl a = (case a of Model p \<Rightarrow> Inr p | Raw v \<Rightarrow> jl_params cl v)"

definition jsonrpc_message :: "'w jsonrpc_link \<Rightarrow> string \<Rightarrow> json_params \<Rightarrow> jsonrpc_request" where
  "jsonrpc_message cl method p = \<lparr>jr_id = PStr (jl_uuid cl), jr_method = method, jr_params = Model p\<rparr>"

definition jsonrpc_request_unary ::
  "'w jsonrpc_link \<Rightarrow> string \<Rightarrow> json_arg \<Rightarrow> client_context \<Rightarrow> (string, pyval) dict option \<Rightarrow> ('w, exn, jsonrpc_reply) comp" where
  "jsonrpc_request_unary cl method params c meta =
     and_then (of_value (bind_ok (as_params cl params) (\<lambda>p.
         jsonrpc_prepare (jl_float cl) (jl_interceptors cl) method (jl_dump cl (jsonrpc_message cl method p)) meta c)))
       (\<lambda>(data, kw). and_then (\<lambda>w. let (r, w1) = jl_post cl data kw w in (read_http r, w1)) (\<lambda>v. of_value (jl_reply cl v)))"

definition jsonrpc_request_stream ::
  "'w jsonrpc_link \<Rightarrow> string \<Rightarrow> json_arg \<Rightarrow> client_context \<Rightarrow> (string, pyval) dict option \<Rightarrow> 'w \<Rightarrow> jsonrpc_reply stream \<times> 'w" where
  "jsonrpc_request_stream cl method params c meta w =
     (case bind_ok (as_params cl params) (\<lambda>p.
             jsonrpc_prepare (jl_float cl) (jl_interceptors cl) method (jl_dump cl (jsonrpc_message cl method p)) meta c) of
        Inl e \<Rightarrow> (([], Some e), w)
      | Inr (data, kw) \<Rightarrow>
          (case jl_events cl data kw w of
             (Inl e, w1) \<Rightarrow> (([], Some e), w1)
           | (Inr (vs, end), w1) \<Rightarrow> (let (js, exc) = read_sse vs end in (map_until (jl_reply cl) js exc, w1))))"

section \<open>JSON-RPC: calls\<close>

text \<open>\<open>completion\<close> is \<open>call\<close> and \<open>completion_stream\<close> is \<open>call_server_stream\<close>; an error that is coerced ends the stream.\<close>

definition jsonrpc_client_call :: "'w jsonrpc_link \<Rightarrow> rpc_request \<Rightarrow> client_context \<Rightarrow> ('w, exn, rpc_response) comp" where
  "jsonrpc_client_call cl r c =
     and_then (jsonrpc_request_unary cl (rq_method r) (Model (ParRequest r)) c (rq_meta r)) (\<lambda>x. of_value (read_reply cl x))"

fun read_replies :: "'w jsonrpc_link \<Rightarrow> jsonrpc_reply list \<Rightarrow> exn option \<Rightarrow> rpc_response stream" where
  "read_replies cl [] exc = ([], exc)"
| "read_replies cl (r # rs) exc =
     (case read_reply cl r of
        Inl e \<Rightarrow> ([], Some e)
      | Inr x \<Rightarrow>
          (case r of
             JError _ _ \<Rightarrow> ([x], None)
           | JResult _ _ \<Rightarrow> (let (xs, e) = read_replies cl rs exc in (x # xs, e))))"

definition jsonrpc_client_server_stream ::
  "'w jsonrpc_link \<Rightarrow> rpc_request \<Rightarrow> client_context \<Rightarrow> 'w \<Rightarrow> rpc_response stream \<times> 'w" where
  "jsonrpc_client_server_stream cl r c w =
     (let (s, w1) = jsonrpc_request_stream cl (rq_method r) (Model (ParRequest r)) c (rq_meta r) w in
      (read_replies cl (fst s) (snd s), w1))"

definition jsonrpc_no_client_stream :: exn where
  "jsonrpc_no_client_stream = not_implemented ''JSON-RPC transport does not support client-streaming calls''"

definition jsonrpc_no_bidirectional :: exn where
  "jsonrpc_no_bidirectional = not_implemented ''JSON-RPC transport does not support bidirectional streaming''"

text \<open>
  \<open>call_client_stream\<close> raises; \<open>call_bidirectional\<close> is a coroutine that raises (it has no \<open>yield\<close>), and
  iterating over a coroutine is a \<open>TypeError\<close>.
\<close>

definition not_iterable :: exn where
  "not_iterable = Exn TypeError 0 ''async for requires an object with __aiter__ method, got coroutine'' PNone None"

definition jsonrpc_transport :: "'w jsonrpc_link \<Rightarrow> 'w transport" where
  "jsonrpc_transport cl =
     \<lparr>tp_completion = jsonrpc_client_call cl, tp_completion_stream = jsonrpc_client_server_stream cl,
      tp_call = jsonrpc_client_call cl, tp_server_stream = jsonrpc_client_server_stream cl,
      tp_client_stream = (\<lambda>rs c. of_value (Inl jsonrpc_no_client_stream)),
      tp_bidirectional = (\<lambda>rs c w. (([], Some not_iterable), w))\<rparr>"

section \<open>JSON-RPC: tasks and health\<close>

text \<open>Every error is raised, and a result has to be of the model's class.\<close>

definition read_result :: "(json_result \<Rightarrow> 'a option) \<Rightarrow> jsonrpc_reply \<Rightarrow> exn + 'a" where
  "read_result pick r =
     (case r of
        JError _ e \<Rightarrow> Inl (client_jsonrpc_error e)
      | JResult _ x \<Rightarrow> (case pick x of Some a \<Rightarrow> Inr a | None \<Rightarrow> Inl wrong_model))"

definition jsonrpc_client_method ::
  "'w jsonrpc_link \<Rightarrow> string \<Rightarrow> (string, pyval) dict \<Rightarrow> (json_result \<Rightarrow> 'a option) \<Rightarrow> client_context \<Rightarrow> ('w, exn, 'a) comp" where
  "jsonrpc_client_method cl method dump pick c =
     and_then (jsonrpc_request_unary cl method (Raw (PDict dump)) c None) (\<lambda>x. of_value (read_result pick x))"

definition jsonrpc_client_events ::
  "'w jsonrpc_link \<Rightarrow> string \<Rightarrow> (string, pyval) dict \<Rightarrow> (json_result \<Rightarrow> 'a option) \<Rightarrow> client_context \<Rightarrow> 'w \<Rightarrow> 'a stream \<times> 'w" where
  "jsonrpc_client_events cl method dump pick c w =
     (let (s, w1) = jsonrpc_request_stream cl method (Raw (PDict dump)) c None w in
      (map_until (read_result pick) (fst s) (snd s), w1))"

text \<open>\<open>model_dump(exclude_none=True)\<close> of the requests.\<close>

definition dump_submit :: "task_submit_request \<Rightarrow> (string, pyval) dict" where
  "dump_submit s =
     [(''target_method'', PStr (tsr_target_method s))] @ opt_item ''params'' (map_option PDict (tsr_params s))
     @ [(''priority'', case tsr_priority s of Member p \<Rightarrow> PEnum ''Priority'' (PInt (priority_value p)) | Other v \<Rightarrow> v)]"

definition dump_cancel :: "task_cancel_request \<Rightarrow> (string, pyval) dict" where
  "dump_cancel c = [(''task_id'', PStr (tcr_task_id c))] @ opt_item ''reason'' (map_option PStr (tcr_reason c))"

definition dump_subscribe :: "task_subscribe_request \<Rightarrow> (string, pyval) dict" where
  "dump_subscribe s = [(''task_id'', PStr (tbr_task_id s))] @ opt_item ''events'' (map_option (\<lambda>es. PList (map PStr es)) (tbr_events s))"

definition dump_health :: "string option \<Rightarrow> (string, pyval) dict" where
  "dump_health service = opt_item ''service'' (map_option PStr service)"

definition jsonrpc_client_submit :: "'w jsonrpc_link \<Rightarrow> task_submit_request \<Rightarrow> client_context \<Rightarrow> ('w, exn, task_submit_response) comp" where
  "jsonrpc_client_submit cl s =
     jsonrpc_client_method cl ''rpc.v2/TaskService/Submit'' (dump_submit s) (\<lambda>x. case x of ResSubmit y \<Rightarrow> Some y | _ \<Rightarrow> None)"

definition jsonrpc_client_query :: "'w jsonrpc_link \<Rightarrow> string \<Rightarrow> client_context \<Rightarrow> ('w, exn, task_record) comp" where
  "jsonrpc_client_query cl t =
     jsonrpc_client_method cl ''rpc.v2/TaskService/Query'' [(''task_id'', PStr t)] (\<lambda>x. case x of ResQuery y \<Rightarrow> Some y | _ \<Rightarrow> None)"

definition jsonrpc_client_cancel ::
  "'w jsonrpc_link \<Rightarrow> task_cancel_request \<Rightarrow> client_context \<Rightarrow> ('w, exn, string \<times> task_status \<times> bool) comp" where
  "jsonrpc_client_cancel cl t =
     jsonrpc_client_method cl ''rpc.v2/TaskService/Cancel'' (dump_cancel t) (\<lambda>x. case x of ResCancel y \<Rightarrow> Some y | _ \<Rightarrow> None)"

definition jsonrpc_client_subscribe :: "'w jsonrpc_link \<Rightarrow> task_subscribe_request \<Rightarrow> client_context \<Rightarrow> 'w \<Rightarrow> wire_task_event stream \<times> 'w" where
  "jsonrpc_client_subscribe cl t =
     jsonrpc_client_events cl ''rpc.v2/TaskService/Subscribe'' (dump_subscribe t) (\<lambda>x. case x of ResEvent y \<Rightarrow> Some y | _ \<Rightarrow> None)"

definition jsonrpc_client_check :: "'w jsonrpc_link \<Rightarrow> string option \<Rightarrow> client_context \<Rightarrow> ('w, exn, health_check_response) comp" where
  "jsonrpc_client_check cl service =
     jsonrpc_client_method cl ''rpc.v2/HealthService/Check'' (dump_health service) (\<lambda>x. case x of ResHealth y \<Rightarrow> Some y | _ \<Rightarrow> None)"

definition jsonrpc_client_watch :: "'w jsonrpc_link \<Rightarrow> string option \<Rightarrow> client_context \<Rightarrow> 'w \<Rightarrow> health_check_response stream \<times> 'w" where
  "jsonrpc_client_watch cl service =
     jsonrpc_client_events cl ''rpc.v2/HealthService/Watch'' (dump_health service) (\<lambda>x. case x of ResHealth y \<Rightarrow> Some y | _ \<Rightarrow> None)"

section \<open>REST\<close>

record 'w rest_link =
  rl_float :: "string \<Rightarrow> rat option option"
  rl_interceptors :: "request_interceptor list"
  rl_dump :: "rpc_request \<Rightarrow> pyval"
  rl_response :: "pyval \<Rightarrow> exn + rpc_response"
  rl_submit :: "pyval \<Rightarrow> exn + task_submit_response"
  rl_query :: "pyval \<Rightarrow> exn + task_record"
  rl_cancel :: "pyval \<Rightarrow> exn + string \<times> task_status \<times> bool"
  rl_event :: "pyval \<Rightarrow> exn + wire_task_event"
  rl_health :: "pyval \<Rightarrow> exn + health_check_response"
  rl_post :: "string \<Rightarrow> pyval \<Rightarrow> (string, pyval) dict \<Rightarrow> 'w \<Rightarrow> pyval http_result \<times> 'w"
  rl_events :: "string \<Rightarrow> pyval \<Rightarrow> (string, pyval) dict \<Rightarrow> 'w \<Rightarrow> (exn + pyval list \<times> sse_end) \<times> 'w"

text \<open>\<open>_post_json\<close> and \<open>_stream_json\<close>, with the validation of what comes back.\<close>

definition post_json ::
  "'w rest_link \<Rightarrow> string \<Rightarrow> pyval \<Rightarrow> (string, pyval) dict option \<Rightarrow> client_context \<Rightarrow> (pyval \<Rightarrow> exn + 'a) \<Rightarrow> ('w, exn, 'a) comp" where
  "post_json cl endpoint data meta c check =
     and_then (of_value (rest_prepare (rl_float cl) (rl_interceptors cl) endpoint data meta c)) (\<lambda>(p, kw).
       and_then (\<lambda>w. let (r, w1) = rl_post cl endpoint p kw w in (read_http r, w1)) (\<lambda>v. of_value (check v)))"

definition stream_json ::
  "'w rest_link \<Rightarrow> string \<Rightarrow> pyval \<Rightarrow> (string, pyval) dict option \<Rightarrow> client_context \<Rightarrow> (pyval \<Rightarrow> exn + 'a) \<Rightarrow> 'w \<Rightarrow> 'a stream \<times> 'w" where
  "stream_json cl endpoint data meta c check w =
     (case rest_prepare (rl_float cl) (rl_interceptors cl) endpoint data meta c of
        Inl e \<Rightarrow> (([], Some e), w)
      | Inr (p, kw) \<Rightarrow>
          (case rl_events cl endpoint p kw w of
             (Inl e, w1) \<Rightarrow> (([], Some e), w1)
           | (Inr (vs, end), w1) \<Rightarrow> (let (js, exc) = read_sse vs end in (map_until check js exc, w1))))"

definition or_dict :: "pyval \<Rightarrow> pyval" where
  "or_dict v = (if py_truthy v then v else PDict [])"

definition rest_client_call :: "'w rest_link \<Rightarrow> rpc_request \<Rightarrow> client_context \<Rightarrow> ('w, exn, rpc_response) comp" where
  "rest_client_call cl r c = post_json cl ''/v2/rpc'' (rl_dump cl r) (rq_meta r) c (rl_response cl)"

definition rest_client_server_stream :: "'w rest_link \<Rightarrow> rpc_request \<Rightarrow> client_context \<Rightarrow> 'w \<Rightarrow> rpc_response stream \<times> 'w" where
  "rest_client_server_stream cl r c = stream_json cl ''/v2/rpc/stream'' (rl_dump cl r) (rq_meta r) c (rl_response cl)"

definition rest_no_client_stream :: exn where
  "rest_no_client_stream = not_implemented ''REST transport does not support client-streaming calls''"

definition rest_transport :: "'w rest_link \<Rightarrow> 'w transport" where
  "rest_transport cl =
     \<lparr>tp_completion = rest_client_call cl, tp_completion_stream = rest_client_server_stream cl,
      tp_call = rest_client_call cl, tp_server_stream = rest_client_server_stream cl,
      tp_client_stream = (\<lambda>rs c. of_value (Inl rest_no_client_stream)),
      tp_bidirectional = (\<lambda>rs c w. (([], Some not_iterable), w))\<rparr>"

definition rest_client_submit :: "'w rest_link \<Rightarrow> task_submit_request \<Rightarrow> client_context \<Rightarrow> ('w, exn, task_submit_response) comp" where
  "rest_client_submit cl s c =
     post_json cl ''/v2/TaskService/Submit'' (PDict (dump_submit s)) None c (\<lambda>v. rl_submit cl (or_dict v))"

definition rest_client_query :: "'w rest_link \<Rightarrow> string \<Rightarrow> client_context \<Rightarrow> ('w, exn, task_record) comp" where
  "rest_client_query cl t c =
     post_json cl ''/v2/TaskService/Query'' (PDict [(''task_id'', PStr t)]) None c (\<lambda>v. rl_query cl (or_dict v))"

definition rest_client_cancel :: "'w rest_link \<Rightarrow> task_cancel_request \<Rightarrow> client_context \<Rightarrow> ('w, exn, string \<times> task_status \<times> bool) comp" where
  "rest_client_cancel cl t c =
     post_json cl ''/v2/TaskService/Cancel'' (PDict (dump_cancel t)) None c (\<lambda>v. rl_cancel cl (or_dict v))"

definition rest_client_subscribe :: "'w rest_link \<Rightarrow> task_subscribe_request \<Rightarrow> client_context \<Rightarrow> 'w \<Rightarrow> wire_task_event stream \<times> 'w" where
  "rest_client_subscribe cl t c =
     stream_json cl ''/v2/TaskService/Subscribe'' (PDict (dump_subscribe t)) None c (\<lambda>v. rl_event cl (or_dict v))"

definition rest_client_check :: "'w rest_link \<Rightarrow> string option \<Rightarrow> client_context \<Rightarrow> ('w, exn, health_check_response) comp" where
  "rest_client_check cl service c =
     post_json cl ''/v2/HealthService/Check'' (PDict (dump_health service)) None c (\<lambda>v. rl_health cl (or_dict v))"

definition rest_client_watch :: "'w rest_link \<Rightarrow> string option \<Rightarrow> client_context \<Rightarrow> 'w \<Rightarrow> health_check_response stream \<times> 'w" where
  "rest_client_watch cl service c =
     stream_json cl ''/v2/HealthService/Watch'' (PDict (dump_health service)) None c (\<lambda>v. rl_health cl (or_dict v))"

section \<open>gRPC\<close>

text \<open>
  Library, metadata injection and stubs. A stub takes messages, metadata and the deadline; requests of a client
  stream are encoded as the stub asks for them.
\<close>

type_synonym call_options = "(string \<times> string) list \<times> rat option option"

record ('s, 'v, 'w) grpc_link =
  gl_lib :: "('s, 'v) pb_lib"
  gl_float :: "string \<Rightarrow> rat option option"
  gl_str :: "pyval \<Rightarrow> string"
  gl_inject :: "(string \<times> string) list \<Rightarrow> exn + (string \<times> string) list"
  gl_call :: "'s pb_request \<Rightarrow> call_options \<Rightarrow> ('w, exn, 'v pb_response) comp"
  gl_server_stream :: "'s pb_request \<Rightarrow> call_options \<Rightarrow> 'w \<Rightarrow> 'v pb_response stream \<times> 'w"
  gl_client_stream :: "'s pb_request stream \<Rightarrow> call_options \<Rightarrow> ('w, exn, 'v pb_response) comp"
  gl_bidirectional :: "'s pb_request stream \<Rightarrow> call_options \<Rightarrow> 'w \<Rightarrow> 'v pb_response stream \<times> 'w"
  gl_submit :: "'s pb_task_submit_request \<Rightarrow> call_options \<Rightarrow> ('w, exn, string \<times> int \<times> int) comp"
  gl_query :: "string \<Rightarrow> call_options \<Rightarrow> ('w, exn, 'v pb_task_record) comp"
  gl_cancel :: "string \<times> string option \<Rightarrow> call_options \<Rightarrow> ('w, exn, string \<times> int \<times> bool) comp"
  gl_subscribe :: "string \<times> string list \<Rightarrow> call_options \<Rightarrow> 'w \<Rightarrow> (string \<times> 'v pb_task_record \<times> int) stream \<times> 'w"
  gl_check :: "string \<Rightarrow> call_options \<Rightarrow> ('w, exn, int \<times> (string, int) dict) comp"
  gl_watch :: "string \<Rightarrow> call_options \<Rightarrow> 'w \<Rightarrow> (int \<times> (string, int) dict) stream \<times> 'w"

definition build_grpc_metadata ::
  "(pyval \<Rightarrow> string) \<Rightarrow> ((string \<times> string) list \<Rightarrow> exn + (string \<times> string) list) \<Rightarrow> (string, pyval) dict option \<Rightarrow> (string \<times> string) list" where
  "build_grpc_metadata other inject meta =
     (let md = (case meta of None \<Rightarrow> [] | Some m \<Rightarrow> map (\<lambda>(k, v). (k, py_str other v)) m) in
      case inject md of Inr md1 \<Rightarrow> md1 | Inl _ \<Rightarrow> md)"

definition grpc_options :: "('s, 'v, 'w) grpc_link \<Rightarrow> (string, pyval) dict option \<Rightarrow> client_context \<Rightarrow> call_options" where
  "grpc_options cl meta c =
     (build_grpc_metadata (gl_str cl) (gl_inject cl) meta, resolve_timeout_s (gl_float cl) (grpc_config_timeout c) meta None)"

definition grpc_client_call :: "('s, 'v, 'w) grpc_link \<Rightarrow> rpc_request \<Rightarrow> client_context \<Rightarrow> ('w, exn, rpc_response) comp" where
  "grpc_client_call cl r c =
     and_then (of_value (request_to_proto (gl_lib cl) r)) (\<lambda>m.
     and_then (gl_call cl m (grpc_options cl (rq_meta r) c)) (\<lambda>p. of_value (response_from_proto (gl_lib cl) p)))"

definition grpc_client_server_stream ::
  "('s, 'v, 'w) grpc_link \<Rightarrow> rpc_request \<Rightarrow> client_context \<Rightarrow> 'w \<Rightarrow> rpc_response stream \<times> 'w" where
  "grpc_client_server_stream cl r c w =
     (case request_to_proto (gl_lib cl) r of
        Inl e \<Rightarrow> (([], Some e), w)
      | Inr m \<Rightarrow>
          (let (s, w1) = gl_server_stream cl m (grpc_options cl (rq_meta r) c) w in
           (map_until (response_from_proto (gl_lib cl)) (fst s) (snd s), w1)))"

definition grpc_client_client_stream ::
  "('s, 'v, 'w) grpc_link \<Rightarrow> rpc_request stream \<Rightarrow> client_context \<Rightarrow> ('w, exn, rpc_response) comp" where
  "grpc_client_client_stream cl s c =
     (case s of
        ([], None) \<Rightarrow> of_value (Inl empty_stream)
      | ([], Some e) \<Rightarrow> of_value (Inl e)
      | (r # rs, exc) \<Rightarrow>
          and_then (gl_client_stream cl (map_until (request_to_proto (gl_lib cl)) (r # rs) exc) (grpc_options cl (rq_meta r) c)) (\<lambda>p.
            of_value (response_from_proto (gl_lib cl) p)))"

definition grpc_client_bidirectional ::
  "('s, 'v, 'w) grpc_link \<Rightarrow> rpc_request stream \<Rightarrow> client_context \<Rightarrow> 'w \<Rightarrow> rpc_response stream \<times> 'w" where
  "grpc_client_bidirectional cl s c w =
     (case s of
        ([], None) \<Rightarrow> (([], Some empty_stream), w)
      | ([], Some e) \<Rightarrow> (([], Some e), w)
      | (r # rs, exc) \<Rightarrow>
          (let (out, w1) = gl_bidirectional cl (map_until (request_to_proto (gl_lib cl)) (r # rs) exc) (grpc_options cl (rq_meta r) c) w in
           (map_until (response_from_proto (gl_lib cl)) (fst out) (snd out), w1)))"

definition grpc_transport :: "('s, 'v, 'w) grpc_link \<Rightarrow> 'w transport" where
  "grpc_transport cl =
     \<lparr>tp_completion = grpc_client_call cl, tp_completion_stream = grpc_client_server_stream cl,
      tp_call = grpc_client_call cl, tp_server_stream = grpc_client_server_stream cl,
      tp_client_stream = (\<lambda>rs. grpc_client_client_stream cl (rs, None)),
      tp_bidirectional = (\<lambda>rs. grpc_client_bidirectional cl (rs, None))\<rparr>"

definition grpc_client_submit ::
  "('s, 'v, 'w) grpc_link \<Rightarrow> task_submit_request \<Rightarrow> client_context \<Rightarrow> ('w, exn, task_submit_response) comp" where
  "grpc_client_submit cl s c =
     and_then (gl_submit cl (task_submit_request_to_proto (gl_lib cl) s) (grpc_options cl None c)) (\<lambda>p.
       of_value (Inr (task_submit_response_from_proto p)))"

definition grpc_client_query ::
  "('s, 'v, 'w) grpc_link \<Rightarrow> string \<Rightarrow> client_context \<Rightarrow> ('w, exn, task_record) comp" where
  "grpc_client_query cl t c =
     and_then (gl_query cl t (grpc_options cl None c)) (\<lambda>p. of_value (Inr (task_record_from_proto (gl_lib cl) p)))"

definition grpc_client_cancel ::
  "('s, 'v, 'w) grpc_link \<Rightarrow> task_cancel_request \<Rightarrow> client_context \<Rightarrow> ('w, exn, string \<times> task_status \<times> bool) comp" where
  "grpc_client_cancel cl t c =
     and_then (gl_cancel cl (tcr_task_id t, tcr_reason t) (grpc_options cl None c)) (\<lambda>(tid, st, b).
       of_value (Inr (tid, task_status_from_wire (Other (PInt st)), b)))"

definition grpc_client_subscribe ::
  "('s, 'v, 'w) grpc_link \<Rightarrow> task_subscribe_request \<Rightarrow> client_context \<Rightarrow> 'w \<Rightarrow> wire_task_event stream \<times> 'w" where
  "grpc_client_subscribe cl t c w =
     (let (s, w1) = gl_subscribe cl (tbr_task_id t, or_empty (tbr_events t)) (grpc_options cl None c) w in
      ((map (task_event_from_proto (gl_lib cl)) (fst s), snd s), w1))"

text \<open>The service is a string field, which \<open>None\<close> cannot be assigned to.\<close>

definition health_message :: "string option \<Rightarrow> exn + string" where
  "health_message service =
     (case service of Some s \<Rightarrow> Inr s | None \<Rightarrow> Inl (Exn TypeError 0 ''bad argument type for built-in operation'' PNone None))"

definition grpc_client_check ::
  "('s, 'v, 'w) grpc_link \<Rightarrow> string option \<Rightarrow> client_context \<Rightarrow> ('w, exn, health_check_response) comp" where
  "grpc_client_check cl service c =
     and_then (of_value (health_message service)) (\<lambda>m.
     and_then (gl_check cl m (grpc_options cl None c)) (\<lambda>p. of_value (Inr (health_response_from_proto p))))"

definition grpc_client_watch ::
  "('s, 'v, 'w) grpc_link \<Rightarrow> string option \<Rightarrow> client_context \<Rightarrow> 'w \<Rightarrow> health_check_response stream \<times> 'w" where
  "grpc_client_watch cl service c w =
     (case health_message service of
        Inl e \<Rightarrow> (([], Some e), w)
      | Inr m \<Rightarrow>
          (let (s, w1) = gl_watch cl m (grpc_options cl None c) w in ((map health_response_from_proto (fst s), snd s), w1)))"

section \<open>Thrift: targets\<close>

text \<open>
  \<open>urlparse(url).hostname\<close> and \<open>.port\<close>; a host in brackets is taken as it is, and a port that is no number
  up to 65535 raises.
\<close>

definition is_scheme_char :: "char \<Rightarrow> bool" where
  "is_scheme_char c = (is_alpha c \<or> is_digit c \<or> c \<in> {CHR ''+'', CHR ''-'', CHR ''.''})"

definition url_netloc :: "string \<Rightarrow> string" where
  "url_netloc url =
     (let u = filter (\<lambda>c. ascii_code c \<notin> {9, 10, 13}) (dropWhile (\<lambda>c. ascii_code c \<le> 32) url);
          (scheme, found, after) = py_partition (CHR '':'') u;
          rest = (if found \<and> scheme \<noteq> [] \<and> is_alpha (hd scheme) \<and> list_all is_scheme_char scheme then after else u)
      in if starts_with rest ''//'' then takeWhile (\<lambda>c. c \<notin> {CHR ''/'', CHR ''?'', CHR ''#''}) (drop 2 rest) else [])"

definition after_last :: "char \<Rightarrow> string \<Rightarrow> string" where
  "after_last c s = (if c \<in> set s then rev (takeWhile (\<lambda>x. x \<noteq> c) (rev s)) else s)"

definition host_and_port :: "string \<Rightarrow> string \<times> string" where
  "host_and_port netloc =
     (let info = after_last (CHR ''@'') netloc;
          (_, bracket, inside) = py_partition (CHR ''['') info
      in if bracket
         then (let (host, _, after) = py_partition (CHR '']'') inside in
               (host, snd (snd (py_partition (CHR '':'') after))))
         else (let (host, _, port) = py_partition (CHR '':'') info in (host, port)))"

definition value_error :: "string \<Rightarrow> exn" where
  "value_error msg = Exn ValueError 0 msg PNone None"

definition url_port :: "string \<Rightarrow> exn + int option" where
  "url_port port =
     (if port = [] then Inr None
      else if list_all is_digit port
      then (case parse_int port of
              Some n \<Rightarrow> if n \<le> 65535 then Inr (Some n) else Inl (value_error ''Port out of range 0-65535'')
            | None \<Rightarrow> Inl (value_error ''Port could not be cast to integer value''))
      else Inl (value_error ''Port could not be cast to integer value''))"

definition url_host :: "string \<Rightarrow> string" where
  "url_host host = (let (h, found, zone) = py_partition (CHR ''%'') host in py_lower h @ (if found then CHR ''%'' # zone else []))"

text \<open>\<open>url.rsplit(":", 1)\<close>.\<close>

definition before_last :: "char \<Rightarrow> string \<Rightarrow> string" where
  "before_last c s = take (length s - length (after_last c s) - 1) s"

definition parse_target :: "string \<Rightarrow> exn + string \<times> int" where
  "parse_target url =
     bind_ok
       (if contains_str url ''://''
        then (let n = url_netloc url in
              if (CHR ''['' \<in> set n) \<noteq> (CHR '']'' \<in> set n) then Inl (value_error ''Invalid IPv6 URL'')
              else (let (host, port) = host_and_port n in bind_ok (url_port port) (\<lambda>p. Inr (url_host host, p))))
        else if CHR '':'' \<in> set url then Inr (before_last (CHR '':'') url, parse_int (after_last (CHR '':'') url))
        else Inr (url, None))
       (\<lambda>(host, port). case port of
          Some n \<Rightarrow> if host = [] then Inl (value_error ''Invalid thrift target'') else Inr (host, n)
        | None \<Rightarrow> Inl (value_error ''Invalid thrift target''))"

section \<open>Thrift: reading replies\<close>

definition status_from_thrift :: "int \<Rightarrow> response_status" where
  "status_from_thrift value = (if value = 2 then ERROR else if value = 3 then PARTIAL else SUCCESS)"

definition int_of_none :: exn where
  "int_of_none = Exn TypeError 0 ''int() argument must be a string, a bytes-like object or a real number'' PNone None"

definition need_int :: "int option \<Rightarrow> exn + int" where
  "need_int x = (case x of Some n \<Rightarrow> Inr n | None \<Rightarrow> Inl int_of_none)"

definition str_of :: "string option \<Rightarrow> string" where
  "str_of x = (case x of Some s \<Rightarrow> s | None \<Rightarrow> ''None'')"

text \<open>The details of an error are not read.\<close>

definition client_error_from_thrift :: "th_rpc_error \<Rightarrow> exn + rpc_error" where
  "client_error_from_thrift e =
     bind_ok (need_int (the_code e)) (\<lambda>code. Inr (unknown_error code (str_of (the_name e)) (str_of (the_message e))))"

definition client_response_from_thrift :: "json_lib \<Rightarrow> th_response \<Rightarrow> exn + rpc_response" where
  "client_response_from_thrift js resp =
     (let ver = (if or_empty (thrs_aduib_rpc resp) = [] then ''2.0'' else or_empty (thrs_aduib_rpc resp));
          st = status_from_thrift (or_zero (thrs_status resp))
      in case thrs_payload resp of
           None \<Rightarrow> new_response ver (thrs_id resp) st PNone None None None
         | Some p \<Rightarrow>
             (case thp_error p of
                Some e \<Rightarrow> bind_ok (client_error_from_thrift e) (\<lambda>err. new_response ver (thrs_id resp) st PNone (Some err) None None)
              | None \<Rightarrow>
                  (case thp_result_json p of
                     None \<Rightarrow> new_response ver (thrs_id resp) st PNone None None None
                   | Some s \<Rightarrow>
                       new_response ver (thrs_id resp) st (case js_loads js s of Some v \<Rightarrow> v | None \<Rightarrow> PNone) None None None)))"

definition client_progress_from_thrift :: "th_task_progress \<Rightarrow> exn + task_progress" where
  "client_progress_from_thrift p =
     bind_ok (need_int (thg_current p)) (\<lambda>cur. bind_ok (need_int (thg_total p)) (\<lambda>tot.
       Inr \<lparr>tp_current = cur, tp_total = tot, tp_message = thg_message p, tp_percentage = thg_percentage p\<rparr>))"

text \<open>
  The record asks the struct for \<open>result_json\<close>; its field is \<open>result\<close>, so there never is a result. The number
  on the wire is taken for the value of the priority. The error is the struct itself, next to the record here.
\<close>

definition priority_of_value :: "int \<Rightarrow> exn + priority" where
  "priority_of_value n =
     (if n = 0 then Inr LOW else if n = 1 then Inr NORMAL else if n = 2 then Inr HIGH else if n = 3 then Inr CRITICAL
      else Inl (validation_error ''priority''))"

definition client_record_from_thrift :: "th_task_record \<Rightarrow> exn + task_record \<times> th_rpc_error option" where
  "client_record_from_thrift t =
     bind_ok (need_int (thk_priority t)) (\<lambda>n. bind_ok (need_int (thk_created_at_ms t)) (\<lambda>created.
     bind_ok (need_int (thk_attempt t)) (\<lambda>att. bind_ok (need_int (thk_max_attempts t)) (\<lambda>maxi.
     bind_ok (opt_ok client_progress_from_thrift (thk_progress t)) (\<lambda>prog. bind_ok (priority_of_value n) (\<lambda>pr.
       Inr (\<lparr>task_id = str_of (thk_task_id t), parent_task_id = thk_parent_task_id t,
             status = task_status_from_wire (opt_wire (thk_status t)), task_priority = pr,
             created_at_ms = created, scheduled_at_ms = thk_scheduled_at_ms t, started_at_ms = thk_started_at_ms t,
             completed_at_ms = thk_completed_at_ms t, attempt = att, max_attempts = maxi,
             next_retry_at_ms = thk_next_retry_at_ms t, result = PNone, task_error = None, progress = prog,
             metadata = Some (str_dict (or_empty (thk_metadata t))), tags = Some (or_empty (thk_tags t))\<rparr>,
            thk_error t)))))))"

definition coerce_task_status :: "int option \<Rightarrow> task_status" where
  "coerce_task_status x = (case x of Some n \<Rightarrow> task_status_from_wire (Other (PInt n)) | None \<Rightarrow> PENDING)"

section \<open>Thrift: calls\<close>

text \<open>Getting a client of a service may raise; a reply of a list may be none at all.\<close>

record 'w thrift_link =
  tl_json :: json_lib
  tl_connect :: "string \<Rightarrow> ('w, exn, unit) comp"
  tl_call :: "th_request \<Rightarrow> ('w, exn, th_response) comp"
  tl_server_stream :: "th_request \<Rightarrow> ('w, exn, th_response list option) comp"
  tl_client_stream :: "th_request list \<Rightarrow> ('w, exn, th_response) comp"
  tl_bidirectional :: "th_request list \<Rightarrow> ('w, exn, th_response list option) comp"
  tl_submit :: "th_task_submit_request \<Rightarrow> ('w, exn, string option \<times> int option \<times> int option) comp"
  tl_query :: "string \<Rightarrow> ('w, exn, th_task_record) comp"
  tl_cancel :: "string \<times> string option \<Rightarrow> ('w, exn, string option \<times> int option \<times> bool option) comp"
  tl_subscribe :: "string \<times> string list option \<Rightarrow> ('w, exn, (string \<times> th_task_record \<times> int option) list option) comp"
  tl_check :: "string option \<Rightarrow> ('w, exn, int option \<times> (string, int) dict option) comp"
  tl_watch :: "string option \<Rightarrow> ('w, exn, (int option \<times> (string, int) dict option) list option) comp"

definition thrift_client_call :: "'w thrift_link \<Rightarrow> rpc_request \<Rightarrow> client_context \<Rightarrow> ('w, exn, rpc_response) comp" where
  "thrift_client_call cl r c =
     and_then (tl_connect cl ''AduibRpcService'') (\<lambda>_.
     and_then (of_value (request_to_thrift (tl_json cl) r)) (\<lambda>m.
     and_then (tl_call cl m) (\<lambda>q. of_value (client_response_from_thrift (tl_json cl) q))))"

text \<open>All replies are read before the first is handed on.\<close>

definition listed :: "('w, exn, 'a list) comp \<Rightarrow> 'w \<Rightarrow> 'a stream \<times> 'w" where
  "listed f w = (case f w of (Inl e, w1) \<Rightarrow> (([], Some e), w1) | (Inr xs, w1) \<Rightarrow> ((xs, None), w1))"

definition thrift_client_server_stream :: "'w thrift_link \<Rightarrow> rpc_request \<Rightarrow> client_context \<Rightarrow> 'w \<Rightarrow> rpc_response stream \<times> 'w" where
  "thrift_client_server_stream cl r c =
     listed (and_then (tl_connect cl ''AduibRpcService'') (\<lambda>_.
       and_then (of_value (request_to_thrift (tl_json cl) r)) (\<lambda>m.
       and_then (tl_server_stream cl m) (\<lambda>qs. of_value (list_ok (client_response_from_thrift (tl_json cl)) (or_empty qs))))))"

text \<open>The requests are collected before a connection is asked for.\<close>

definition thrift_items :: "rpc_request stream \<Rightarrow> exn + rpc_request list" where
  "thrift_items s = bind_ok (collected s) (\<lambda>rs. if rs = [] then Inl empty_stream else Inr rs)"

definition thrift_client_client_stream :: "'w thrift_link \<Rightarrow> rpc_request stream \<Rightarrow> client_context \<Rightarrow> ('w, exn, rpc_response) comp" where
  "thrift_client_client_stream cl s c =
     and_then (of_value (thrift_items s)) (\<lambda>rs.
     and_then (tl_connect cl ''AduibRpcService'') (\<lambda>_.
     and_then (of_value (list_ok (request_to_thrift (tl_json cl)) rs)) (\<lambda>ms.
     and_then (tl_client_stream cl ms) (\<lambda>q. of_value (client_response_from_thrift (tl_json cl) q)))))"

definition thrift_client_bidirectional :: "'w thrift_link \<Rightarrow> rpc_request stream \<Rightarrow> client_context \<Rightarrow> 'w \<Rightarrow> rpc_response stream \<times> 'w" where
  "thrift_client_bidirectional cl s c =
     listed (and_then (of_value (thrift_items s)) (\<lambda>rs.
       and_then (tl_connect cl ''AduibRpcService'') (\<lambda>_.
       and_then (of_value (list_ok (request_to_thrift (tl_json cl)) rs)) (\<lambda>ms.
       and_then (tl_bidirectional cl ms) (\<lambda>qs. of_value (list_ok (client_response_from_thrift (tl_json cl)) (or_empty qs)))))))"

definition thrift_transport :: "'w thrift_link \<Rightarrow> 'w transport" where
  "thrift_transport cl =
     \<lparr>tp_completion = thrift_client_call cl, tp_completion_stream = thrift_client_server_stream cl,
      tp_call = thrift_client_call cl, tp_server_stream = thrift_client_server_stream cl,
      tp_client_stream = (\<lambda>rs. thrift_client_client_stream cl (rs, None)),
      tp_bidirectional = (\<lambda>rs. thrift_client_bidirectional cl (rs, None))\<rparr>"

section \<open>Thrift: tasks and health\<close>

text \<open>
  The value of the priority is sent as its number; the default of the model, a tuple, is none. The response's
  attributes are read with defaults that only a missing attribute has.
\<close>

definition thrift_submit_message :: "json_lib \<Rightarrow> task_submit_request \<Rightarrow> exn + th_task_submit_request" where
  "thrift_submit_message js s =
     (case js_dumps js (PDict (or_empty (tsr_params s))) of
        None \<Rightarrow> Inl (Exn TypeError 0 ''Object is not JSON serializable'' PNone None)
      | Some p \<Rightarrow>
          (case (case tsr_priority s of Member x \<Rightarrow> Some (priority_value x) | Other v \<Rightarrow> py_int (getattr_value v)) of
             None \<Rightarrow> Inl int_of_none
           | Some n \<Rightarrow> Inr \<lparr>thb_target_method = Some (tsr_target_method s), thb_params_json = Some p, thb_priority = Some n\<rparr>))"

definition thrift_client_submit :: "'w thrift_link \<Rightarrow> task_submit_request \<Rightarrow> client_context \<Rightarrow> ('w, exn, task_submit_response) comp" where
  "thrift_client_submit cl s c =
     and_then (of_value (thrift_submit_message (tl_json cl) s)) (\<lambda>m.
     and_then (tl_connect cl ''TaskService'') (\<lambda>_.
     and_then (tl_submit cl m) (\<lambda>(tid, st, t). of_value (bind_ok (need_int t) (\<lambda>n.
       Inr \<lparr>tss_task_id = str_of tid, tss_status = coerce_task_status st, tss_created_at_ms = n\<rparr>)))))"

definition thrift_client_query :: "'w thrift_link \<Rightarrow> string \<Rightarrow> client_context \<Rightarrow> ('w, exn, task_record \<times> th_rpc_error option) comp" where
  "thrift_client_query cl tid c =
     and_then (tl_connect cl ''TaskService'') (\<lambda>_. and_then (tl_query cl tid) (\<lambda>t. of_value (client_record_from_thrift t)))"

definition thrift_client_cancel ::
  "'w thrift_link \<Rightarrow> task_cancel_request \<Rightarrow> client_context \<Rightarrow> ('w, exn, string \<times> task_status \<times> bool) comp" where
  "thrift_client_cancel cl t c =
     and_then (tl_connect cl ''TaskService'') (\<lambda>_.
     and_then (tl_cancel cl (tcr_task_id t, tcr_reason t)) (\<lambda>(tid, st, b).
       of_value (Inr (str_of tid, coerce_task_status st, b = Some True))))"

definition thrift_event :: "string \<times> th_task_record \<times> int option \<Rightarrow> exn + string \<times> (task_record \<times> th_rpc_error option) \<times> int" where
  "thrift_event m =
     (let (name, t, ts) = m in
      bind_ok (client_record_from_thrift t) (\<lambda>r. bind_ok (need_int ts) (\<lambda>n. Inr (name, r, n))))"

definition thrift_client_subscribe ::
  "'w thrift_link \<Rightarrow> task_subscribe_request \<Rightarrow> client_context \<Rightarrow> 'w
     \<Rightarrow> (string \<times> (task_record \<times> th_rpc_error option) \<times> int) stream \<times> 'w" where
  "thrift_client_subscribe cl t c w =
     (case and_then (tl_connect cl ''TaskService'') (\<lambda>_. tl_subscribe cl (tbr_task_id t, nonempty (or_empty (tbr_events t)))) w of
        (Inl e, w1) \<Rightarrow> (([], Some e), w1)
      | (Inr items, w1) \<Rightarrow> (map_until thrift_event (or_empty items) None, w1))"

definition thrift_client_check :: "'w thrift_link \<Rightarrow> string option \<Rightarrow> client_context \<Rightarrow> ('w, exn, health_check_response) comp" where
  "thrift_client_check cl service c =
     and_then (tl_connect cl ''HealthService'') (\<lambda>_.
     and_then (tl_check cl service) (\<lambda>m. of_value (Inr (health_response_from_thrift m))))"

definition thrift_client_watch :: "'w thrift_link \<Rightarrow> string option \<Rightarrow> client_context \<Rightarrow> 'w \<Rightarrow> health_check_response stream \<times> 'w" where
  "thrift_client_watch cl service c =
     listed (and_then (tl_connect cl ''HealthService'') (\<lambda>_.
       and_then (tl_watch cl service) (\<lambda>ms. of_value (Inr (map health_response_from_thrift (or_empty ms))))))"

section \<open>HTTP clients and servers put together\<close>

text \<open>
  The server's applications behind the client's HTTP library: a reply is its JSON text, an exception that
  leaves the application is a 500, and \<open>raise_for_status\<close> refuses a status that is no success.
\<close>

definition jsonrpc_network ::
  "json_env \<Rightarrow> (string, string) dict \<Rightarrow> (jsonrpc_reply \<Rightarrow> pyval) \<Rightarrow> (int \<Rightarrow> string) \<Rightarrow> 'z rpc_server_scheme request_handler
     \<Rightarrow> pyval \<Rightarrow> (string, pyval) dict \<Rightarrow> 'z rpc_server_scheme \<Rightarrow> pyval http_result \<times> 'z rpc_server_scheme" where
  "jsonrpc_network env hs dump reason h data kw w =
     (case serve env rpc_path hs h (Inr data) w of
        (Inl e, w1) \<Rightarrow> (HttpStatusError 500 (reason 500), w1)
      | (Inr (JsonReply r), w1) \<Rightarrow> (HttpOk (dump r), w1)
      | (Inr (EventSource s), w1) \<Rightarrow> (BadJson [], w1)
      | (Inr NotFound, w1) \<Rightarrow> (HttpStatusError 404 (reason 404), w1))"

definition rest_network ::
  "json_env \<Rightarrow> (pyval \<Rightarrow> exn + trace_context) \<Rightarrow> (trace_context \<Rightarrow> pyval) \<Rightarrow> (string, string) dict \<Rightarrow> (rest_body \<Rightarrow> pyval)
     \<Rightarrow> (int \<Rightarrow> string) \<Rightarrow> 'w request_handler \<Rightarrow> string \<Rightarrow> pyval \<Rightarrow> (string, pyval) dict \<Rightarrow> 'w \<Rightarrow> pyval http_result \<times> 'w" where
  "rest_network env check obj hs dump reason h route data kw w =
     (case rest_serve env check obj route hs h (Inr data) w of
        (Inl e, w1) \<Rightarrow> (HttpStatusError 500 (reason 500), w1)
      | (Inr (RestJson st b), w1) \<Rightarrow>
          (if 200 \<le> st \<and> st < 300 then HttpOk (dump b) else HttpStatusError st (reason st), w1)
      | (Inr (RestEvents s), w1) \<Rightarrow> (BadJson [], w1)
      | (Inr RestNotFound, w1) \<Rightarrow> (HttpStatusError 404 (reason 404), w1))"

lemma http_status_failure: "\<not> error_code_to_http_status code < 300"
  using http_status_range [of code] by simp

lemma prepare_plain:
  "\<exists>kw. jsonrpc_prepare fl [] method data meta c = Inr (data, kw)" "\<exists>kw. rest_prepare fl [] method data meta c = Inr (data, kw)"
  by (simp_all add: jsonrpc_prepare_def rest_prepare_def Let_def)

text \<open>A reply of the server that its JSON text keeps is what the client reads.\<close>

lemma jsonrpc_exchange:
  assumes "jl_interceptors cl = []"
    and "jl_post cl = jsonrpc_network env hs dump reason h"
    and "jn_base env (jl_dump cl q) = Inr (rq_method r)" "jn_envelope env (jl_dump cl q) = Inr q"
    and "q = jsonrpc_message cl (rq_method r) (ParRequest r)"
    and "starts_with (strip_slashes (rq_method r)) ''rpc.v2/''" "map_of method_map (rq_method r) = None"
    and "\<not> is_streaming hs w (rq_method r)"
    and "jsonrpc_call env (Some (http_context hs)) h q w = (Inr x, w1)" "jl_reply cl (dump x) = Inr y"
  shows "jsonrpc_client_call cl r c w = (read_reply cl y, w1)"
proof -
  obtain kw where kw: "jsonrpc_prepare (jl_float cl) [] (rq_method r) (jl_dump cl q) (rq_meta r) c = Inr (jl_dump cl q, kw)"
    using prepare_plain by blast
  have "parse_body env hs w (jl_dump cl q) = Inr (Inr (rq_method r, q, False))"
    using assms by (simp add: parse_body_def)
  then have "serve env rpc_path hs h (Inr (jl_dump cl q)) w = (Inr (JsonReply x), w1)"
    using assms by (simp add: serve_def handle_requests_def run_method_def as_json_def catching_def and_then_def of_value_def
        starts_with_iff)
  then have "jl_post cl (jl_dump cl q) kw w = (HttpOk (dump x), w1)"
    by (simp add: assms(2) jsonrpc_network_def)
  then show ?thesis
    using assms(1,5,10) kw by (simp add: jsonrpc_client_call_def jsonrpc_request_unary_def as_params_def and_then_def of_value_def
        read_http_def)
qed

lemma rest_exchange:
  assumes "rl_interceptors cl = []"
    and "rl_post cl = rest_network env check obj hs dump reason h"
    and "\<And>sc. fst (rest_call env sc h (Inr (rl_dump cl r)) w) = Inr x" "\<And>sc. snd (rest_call env sc h (Inr (rl_dump cl r)) w) = w1"
  shows "rest_client_call cl r c w =
    (if 200 \<le> rest_status (RestResponse x) \<and> rest_status (RestResponse x) < 300 then rl_response cl (dump (RestResponse x))
     else Inl (client_http_error (rest_status (RestResponse x)) (reason (rest_status (RestResponse x)))), w1)"
proof -
  obtain kw where kw: "rest_prepare (rl_float cl) [] ''/v2/rpc'' (rl_dump cl r) (rq_meta r) c = Inr (rl_dump cl r, kw)"
    using prepare_plain by blast
  have "rest_call env sc h (Inr (rl_dump cl r)) w = (Inr x, w1)" for sc
    using assms(3,4) [of sc] by (metis prod.collapse)
  then have "rest_serve env check obj ''/v2/rpc'' hs h (Inr (rl_dump cl r)) w = (Inr (RestJson (rest_status (RestResponse x)) (RestResponse x)), w1)"
    by (simp add: rest_serve_def rest_routes_def rest_json_def and_then_def of_value_def)
  then have "rl_post cl ''/v2/rpc'' (rl_dump cl r) kw w =
      (if 200 \<le> rest_status (RestResponse x) \<and> rest_status (RestResponse x) < 300 then HttpOk (dump (RestResponse x))
       else HttpStatusError (rest_status (RestResponse x)) (reason (rest_status (RestResponse x))), w1)"
    by (simp add: assms(2) rest_network_def)
  then show ?thesis
    using assms(1) kw by (simp add: rest_client_call_def post_json_def and_then_def of_value_def read_http_def)
qed

lemma read_refusal:
  assumes "jl_error jl (PDict (dump_error er)) = Inr er" "1000 \<le> err_code er"
  shows "read_reply jl (JError (PStr i) (rpc_error_to_jsonrpc er)) = Inr (failed_response (Some i) er)"
proof -
  have data: "je_data (rpc_error_to_jsonrpc er) = PDict (dump_error er)" "je_code (rpc_error_to_jsonrpc er) = err_code er"
    by (simp_all add: rpc_error_to_jsonrpc_def Let_def dump_error_def dict_get_def)
  obtain x xs where "dump_error er = x # xs" by (simp add: dump_error_def)
  then have "error_in_data jl (rpc_error_to_jsonrpc er) = Inr er"
    using assms(1) by (simp add: error_in_data_def data)
  then show ?thesis
    using assms(2) by (simp add: read_reply_def raise_or_coerce_jsonrpc_error_def coerce_jsonrpc_error_def data py_str_def)
qed

text \<open>
  C26. The two HTTP clients part on errors. What a handler returns, both clients
  return, when it is a success. An exception the handler raises becomes, for the JSON-RPC client, a response
  with the error's code, name and message, under the identifier of the JSON-RPC message and not of the
  request; the REST client raises an exception that has the HTTP status of the code and nothing else of it,
  and so it does for an error response that the handler returned. The JSON text of what is sent is assumed
  to be read back as it was.
\<close>

theorem http_clients_on_outcome:
  fixes h :: "'z rpc_server_scheme request_handler"
  assumes jl: "jl_interceptors jl = []" "jl_post jl = jsonrpc_network env hs jdump reason h"
    and rl: "rl_interceptors rl = []" "rl_post rl = rest_network env check obj hs rdump reason h"
    and q: "q = jsonrpc_message jl (rq_method r) (ParRequest r)"
    and read: "jn_base env (jl_dump jl q) = Inr (rq_method r)" "jn_envelope env (jl_dump jl q) = Inr q"
      "jn_request env (rl_dump rl r) = Inr r"
    and plain: "starts_with (strip_slashes (rq_method r)) ''rpc.v2/''" "map_of method_map (rq_method r) = None"
      "\<not> is_streaming hs w (rq_method r)"
    and out: "\<And>sc. rh_on_message h r sc w = (out, w1)"
    and good: "\<And>x i. out = Inr x \<Longrightarrow> jl_reply jl (jdump (JResult i (ResResponse x))) = Inr (JResult i (ResResponse x))
      \<and> rl_response rl (rdump (RestResponse x)) = Inr x"
    and bad: "\<And>e er i. out = Inl e \<Longrightarrow> er = wire_error (jn_errors env) e \<Longrightarrow> isinstance_exn e PyException
      \<and> 1000 \<le> map_exception_to_error_code e
      \<and> jl_reply jl (jdump (JError i (rpc_error_to_jsonrpc er))) = Inr (JError i (rpc_error_to_jsonrpc er))
      \<and> jl_error jl (PDict (dump_error er)) = Inr er"
  shows "(\<forall>x. out = Inr x \<longrightarrow> jsonrpc_client_call jl r c w = (Inr x, w1) \<and> (is_success x \<longrightarrow> rest_client_call rl r c w = (Inr x, w1)))
    \<and> (\<forall>x err st. out = Inr x \<and> rs_status x = ERROR \<and> rs_error x = Some err \<and> st = error_code_to_http_status (err_code err)
        \<longrightarrow> rest_client_call rl r c w = (Inl (client_http_error st (reason st)), w1))
    \<and> (\<forall>e st. out = Inl e \<and> st = error_code_to_http_status (map_exception_to_error_code e)
        \<longrightarrow> jsonrpc_client_call jl r c w = (Inr (failed_response (Some (jl_uuid jl)) (wire_error (jn_errors env) e)), w1)
          \<and> rest_client_call rl r c w = (Inl (client_http_error st (reason st)), w1))"
proof -
  have rq: "require_rpc_request env (jr_params q) = Inr r" "jr_id q = PStr (jl_uuid jl)"
    by (simp_all add: q jsonrpc_message_def require_rpc_request_def)
  have rp: "rest_parse env (Inr (rl_dump rl r)) = Inr r" by (simp add: rest_parse_def read)
  note exchange = jsonrpc_exchange [OF jl read(1,2) q plain]
  show ?thesis
  proof (cases out)
    case (Inr x)
    let ?y = "JResult (jr_id q) (ResResponse x)"
    have "jsonrpc_call env (Some (http_context hs)) h q w = (Inr ?y, w1)"
      using out Inr by (intro jsonrpc_unary.answers [OF rq(1)]) (simp_all add: prepare_response_object_def)
    from exchange [OF this, of ?y c] good [OF Inr]
    have j: "jsonrpc_client_call jl r c w = (Inr x, w1)" by (simp add: read_reply_def)
    have "rest_call env sc h (Inr (rl_dump rl r)) w = (Inr x, w1)" for sc
      using out Inr by (intro rest_calls.answers [OF rp]) simp_all
    then have "rest_client_call rl r c w =
      (if 200 \<le> rest_status (RestResponse x) \<and> rest_status (RestResponse x) < 300 then rl_response rl (rdump (RestResponse x))
       else Inl (client_http_error (rest_status (RestResponse x)) (reason (rest_status (RestResponse x)))), w1)"
      by (intro rest_exchange [OF rl]) simp_all
    with j Inr good [OF Inr] show ?thesis by (auto simp: rest_status_def is_success_def http_status_failure)
  next
    case (Inl e)
    let ?er = "wire_error (jn_errors env) e"
    let ?y = "JError (jr_id q) (rpc_error_to_jsonrpc ?er)"
    note b = bad [OF Inl refl]
    have "jsonrpc_call env (Some (http_context hs)) h q w = (jsonrpc_refuse env (jr_id q) e, w1)"
      using out Inl b by (intro jsonrpc_unary.handler_raises [OF rq(1)]) simp_all
    then have "jsonrpc_call env (Some (http_context hs)) h q w = (Inr ?y, w1)" by simp
    from exchange [OF this, of ?y c] b
    have j: "jsonrpc_client_call jl r c w = (Inr (failed_response (Some (jl_uuid jl)) ?er), w1)"
      by (simp add: rq read_refusal)
    let ?x = "failed_response (rq_id r) ?er"
    have "rest_call env sc h (Inr (rl_dump rl r)) w = (rest_refuse env (Inr (rl_dump rl r)) e, w1)" for sc
      using out Inl b by (intro rest_calls.handler_raises [OF rp]) simp_all
    then have "rest_call env sc h (Inr (rl_dump rl r)) w = (Inr ?x, w1)" for sc by (simp add: rest_refuse_value rp)
    then have "rest_client_call rl r c w =
      (if 200 \<le> rest_status (RestResponse ?x) \<and> rest_status (RestResponse ?x) < 300 then rl_response rl (rdump (RestResponse ?x))
       else Inl (client_http_error (rest_status (RestResponse ?x)) (reason (rest_status (RestResponse ?x)))), w1)"
      by (intro rest_exchange [OF rl]) simp_all
    moreover have "rest_status (RestResponse ?x) = error_code_to_http_status (map_exception_to_error_code e)"
      by (simp add: rest_status_def failed_response_def)
    ultimately show ?thesis using j Inl by (simp add: http_status_failure)
  qed
qed


text \<open>Messages that are read back: their JSON text stands for them by a number.\<close>

definition told_message :: jsonrpc_request where
  "told_message = \<lparr>jr_id = PStr ''j1'', jr_method = ''rpc.v2/svc/m'',
     jr_params = Model (ParRequest (empty_request\<lparr>rq_id := Some ''7'', rq_method := ''rpc.v2/svc/m''\<rparr>))\<rparr>"

definition told_request :: rpc_request where
  "told_request = empty_request\<lparr>rq_id := Some ''7'', rq_method := ''rpc.v2/svc/m''\<rparr>"

definition refusal :: exn where
  "refusal = Exn PermissionError 0 ''no'' PNone None"

definition told_server :: json_env where
  "told_server = refusing_json\<lparr>jn_request := (\<lambda>_. Inr told_request), jn_base := (\<lambda>_. Inr ''rpc.v2/svc/m''),
     jn_envelope := (\<lambda>_. Inr told_message)\<rparr>"

definition told_error :: rpc_error where
  "told_error = wire_error (jn_errors told_server) refusal"

definition refusing_endpoint :: "rpc_server request_handler" where
  "refusing_endpoint = sample_endpoint\<lparr>rh_on_message := (\<lambda>r sc w. (Inl refusal, w))\<rparr>"

definition told_jsonrpc :: "rpc_server jsonrpc_link" where
  "told_jsonrpc = \<lparr>jl_float = (\<lambda>_. None), jl_interceptors = [], jl_uuid = ''j1'', jl_str = (\<lambda>_. []), jl_params = (\<lambda>_. Inl wrong_model),
     jl_dump = (\<lambda>_. PDict []), jl_reply = (\<lambda>v. Inr (JError v (rpc_error_to_jsonrpc told_error))),
     jl_error = (\<lambda>_. Inr told_error),
     jl_post = jsonrpc_network told_server [] (\<lambda>r. case r of JError i _ \<Rightarrow> i | JResult i _ \<Rightarrow> i) (\<lambda>_. []) refusing_endpoint,
     jl_events = (\<lambda>_ _ w. (Inl wrong_model, w))\<rparr>"

definition told_rest :: "rpc_server rest_link" where
  "told_rest = \<lparr>rl_float = (\<lambda>_. None), rl_interceptors = [], rl_dump = (\<lambda>_. PDict []), rl_response = (\<lambda>_. Inl wrong_model),
     rl_submit = (\<lambda>_. Inl wrong_model), rl_query = (\<lambda>_. Inl wrong_model), rl_cancel = (\<lambda>_. Inl wrong_model),
     rl_event = (\<lambda>_. Inl wrong_model), rl_health = (\<lambda>_. Inl wrong_model),
     rl_post = rest_network told_server (\<lambda>_. Inl wrong_model) (\<lambda>_. PNone) [] (\<lambda>_. PNone) (\<lambda>_. []) refusing_endpoint,
     rl_events = (\<lambda>_ _ _ w. (Inl wrong_model, w))\<rparr>"

theorem http_clients_on_outcome_witness:
  "fst (jsonrpc_client_call told_jsonrpc told_request (prepare_context default_client_config None None) sample_server)
     = Inr (failed_response (Some ''j1'') told_error)
   \<and> fst (rest_client_call told_rest told_request (prepare_context default_client_config None None) sample_server)
     = Inl (client_http_error 403 [])"
proof -
  have code: "isinstance_exn refusal PyException" "map_exception_to_error_code refusal = error_code_value PERMISSION_DENIED"
    by (simp_all add: refusal_def is_subclass_def map_exception_to_error_code_def STANDARD_EXCEPTION_MAPPING_def)
  have q: "told_message = jsonrpc_message told_jsonrpc (rq_method told_request) (ParRequest told_request)"
    by (simp add: told_message_def told_request_def told_jsonrpc_def jsonrpc_message_def)
  have plain: "starts_with (strip_slashes (rq_method told_request)) ''rpc.v2/''" "map_of method_map (rq_method told_request) = None"
    by (simp_all add: told_request_def strip_slashes_def py_strip_def is_space_def method_map_def ascii_code_def)
  have stream: "\<not> is_streaming [] sample_server (rq_method told_request)"
  proof -
    have "case parse_compat (Some ''rpc.v2/svc/m'') of Inl _ \<Rightarrow> False | Inr n \<Rightarrow> mn_handler n = ''m''" by code_simp
    then show ?thesis
      by (auto simp: is_streaming_def told_request_def method_map_def dict_get_def py_lower_def sample_server_def split: sum.splits)
  qed
  have out: "rh_on_message refusing_endpoint told_request sc sample_server = (Inl refusal, sample_server)" for sc
    by (simp add: refusing_endpoint_def)
  have read: "jn_base told_server v = Inr (rq_method told_request)" "jn_envelope told_server v = Inr told_message"
    "jn_request told_server v = Inr told_request" for v
    by (simp_all add: told_server_def told_request_def)
  have links: "jl_interceptors told_jsonrpc = []" "rl_interceptors told_rest = []" "jl_uuid told_jsonrpc = ''j1''"
    by (simp_all add: told_jsonrpc_def told_rest_def)
  have "jl_reply told_jsonrpc (case JError i (rpc_error_to_jsonrpc told_error) of JError i _ \<Rightarrow> i | JResult i _ \<Rightarrow> i)
      = Inr (JError i (rpc_error_to_jsonrpc told_error))" "jl_error told_jsonrpc v = Inr told_error" for i v
    by (simp_all add: told_jsonrpc_def)
  with http_clients_on_outcome [of told_jsonrpc told_server "[]" "\<lambda>r. case r of JError i _ \<Rightarrow> i | JResult i _ \<Rightarrow> i" "\<lambda>_. []"
      refusing_endpoint told_rest "\<lambda>_. Inl wrong_model" "\<lambda>_. PNone" "\<lambda>_. PNone" told_message told_request sample_server
      "Inl refusal" sample_server "prepare_context default_client_config None None"] links q read plain stream out code
  show ?thesis by (simp add: told_jsonrpc_def told_rest_def told_error_def error_code_to_http_status_def)
qed

section \<open>Binary clients and servers put together\<close>

text \<open>The server's endpoints behind the stub and the service of a client that connects.\<close>

definition grpc_linked :: "('s, 'v, 'w) grpc_link \<Rightarrow> ('s, 'v) grpc_env \<Rightarrow> 'w request_handler \<Rightarrow> bool" where
  "grpc_linked gl ge h \<longleftrightarrow> gl_lib gl = ge_lib ge \<and> gl_call gl = (\<lambda>m opts. grpc_call (ge\<lparr>ge_invocation := Inr (fst opts)\<rparr>) h m)"

definition thrift_linked :: "'w thrift_link \<Rightarrow> thrift_env \<Rightarrow> 'w request_handler \<Rightarrow> bool" where
  "thrift_linked lk te h \<longleftrightarrow> tl_json lk = te_json te \<and> tl_call lk = thrift_call te h \<and> (\<forall>s w. tl_connect lk s w = (Inr (), w))"

lemma status_read_back [simp]: "status_from_thrift (response_status_to_wire (Member st)) = st"
  by (cases st) (simp_all add: status_from_thrift_def response_status_wire_defs)

lemma thrift_reply_read:
  assumes "is_success x \<or> rs_error x \<noteq> None"
    and "is_success x \<Longrightarrow> js_dumps (te_json te) (rs_result x) = Some s \<and> js_loads (te_json te) s = Some res"
  shows "client_response_from_thrift (te_json te) (thrift_reply te x) = Inr
    \<lparr>rs_aduib_rpc = ''2.0'', rs_id = Some (or_empty (rs_id x)), rs_status = rs_status x,
     rs_result = (if is_success x then res else PNone),
     rs_error = (if is_success x then None
                 else map_option (\<lambda>e. unknown_error (err_code e) (err_name e) (err_message e)) (rs_error x)),
     rs_negotiated_version = None, rs_trace_context = None, rs_metadata = None\<rparr>"
proof (cases "is_success x")
  case True
  with assms(2) show ?thesis
    by (simp add: client_response_from_thrift_def thrift_reply_def response_payload_to_thrift_def json_dumps_safe_def new_response_def
        validate_version_def validate_result_error_def Let_def)
next
  case False
  with assms(1) obtain e where "rs_error x = Some e" by blast
  with False show ?thesis
    by (simp add: client_response_from_thrift_def thrift_reply_def response_payload_to_thrift_def new_response_def
        validate_version_def validate_result_error_def client_error_from_thrift_def rpc_error_to_thrift_def need_int_def str_of_def Let_def)
qed

lemma stripped_error:
  "e\<lparr>err_name := n, err_details := None, err_debug := None\<rparr> = unknown_error (err_code e) n (err_message e)"
  by (cases e) (simp add: unknown_error_def)



text \<open>Links whose services are a server's endpoints; what the properties do not use raises.\<close>

definition sample_grpc_link :: "rpc_server request_handler \<Rightarrow> ((string, pyval) dict, pyval, rpc_server) grpc_link" where
  "sample_grpc_link h =
     \<lparr>gl_lib = plain_pb, gl_float = (\<lambda>_. None), gl_str = (\<lambda>_. []), gl_inject = Inr,
      gl_call = (\<lambda>m opts. grpc_call (sample_grpc\<lparr>ge_invocation := Inr (fst opts)\<rparr>) h m),
      gl_server_stream = (\<lambda>m opts. grpc_call_server_stream sample_grpc h m),
      gl_client_stream = (\<lambda>m opts. grpc_call_client_stream sample_grpc h m),
      gl_bidirectional = (\<lambda>m opts. grpc_call_bidirectional sample_grpc h m),
      gl_submit = (\<lambda>_ _. of_value (Inl empty_stream)), gl_query = (\<lambda>_ _. of_value (Inl empty_stream)),
      gl_cancel = (\<lambda>_ _. of_value (Inl empty_stream)), gl_subscribe = (\<lambda>_ _ w. (([], Some empty_stream), w)),
      gl_check = (\<lambda>_ _. of_value (Inl empty_stream)), gl_watch = (\<lambda>_ _ w. (([], Some empty_stream), w))\<rparr>"

definition sample_thrift_link :: "rpc_server request_handler \<Rightarrow> rpc_server thrift_link" where
  "sample_thrift_link h =
     \<lparr>tl_json = tiny_json, tl_connect = (\<lambda>_. of_value (Inr ())), tl_call = thrift_call sample_thrift h,
      tl_server_stream = (\<lambda>_. of_value (Inl empty_stream)), tl_client_stream = (\<lambda>_. of_value (Inl empty_stream)),
      tl_bidirectional = (\<lambda>_. of_value (Inl empty_stream)), tl_submit = (\<lambda>_. of_value (Inl empty_stream)),
      tl_query = (\<lambda>_. of_value (Inl empty_stream)), tl_cancel = (\<lambda>_. of_value (Inl empty_stream)),
      tl_subscribe = (\<lambda>_. of_value (Inl empty_stream)), tl_check = (\<lambda>_. of_value (Inl empty_stream)),
      tl_watch = (\<lambda>_. of_value (Inl empty_stream))\<rparr>"



section \<open>What the Thrift client makes of a task\<close>

lemma progress_read_back: "client_progress_from_thrift (task_progress_to_thrift p) = Inr p"
  by (simp add: client_progress_from_thrift_def task_progress_to_thrift_def need_int_def)

lemma opt_progress_read_back:
  "opt_ok client_progress_from_thrift (map_option task_progress_to_thrift x) = Inr x"
  by (cases x) (simp_all add: progress_read_back)

lemma task_status_read_back [simp]: "task_status_from_wire (Other (PInt (task_status_to_wire (Member st)))) = st"
  by (cases st) (simp_all add: task_status_wire_defs)

text \<open>
  The Thrift client misreads every task. Whatever the record on the server, the
  client's has no result, and the priority one level above; a task of the highest priority cannot be read at
  all. Identifier, status, times, attempts and progress are right.
\<close>

theorem thrift_client_record:
  "(task_priority r = CRITICAL \<longrightarrow> (\<exists>e. client_record_from_thrift (task_record_to_thrift js r) = Inl e))
   \<and> (task_priority r \<noteq> CRITICAL \<longrightarrow>
       (\<exists>t. client_record_from_thrift (task_record_to_thrift js r) = Inr (t, map_option (rpc_error_to_thrift js) (task_error r))
          \<and> result t = PNone \<and> priority_value (task_priority t) = priority_value (task_priority r) + 1
          \<and> task_id t = task_id r \<and> status t = status r \<and> created_at_ms t = created_at_ms r
          \<and> completed_at_ms t = completed_at_ms r \<and> attempt t = attempt r \<and> max_attempts t = max_attempts r
          \<and> progress t = progress r))"
  by (cases "task_priority r")
    (simp_all add: client_record_from_thrift_def task_record_to_thrift_def need_int_def str_of_def opt_progress_read_back
      priority_to_wire_def priority_num_to_wire_def priority_value_def priority_of_value_def)

theorem thrift_client_record_witness:
  "(\<exists>e. client_record_from_thrift (task_record_to_thrift tiny_json
       ((new_record ''t'' 0)\<lparr>task_priority := CRITICAL, result := PInt 7\<rparr>)) = Inl e)
   \<and> (\<exists>t. client_record_from_thrift (task_record_to_thrift tiny_json
       ((new_record ''t'' 0)\<lparr>task_priority := LOW, result := PInt 7\<rparr>)) = Inr (t, None) \<and> result t = PNone
       \<and> priority_value (task_priority t) = 1)"
  using thrift_client_record [of "(new_record ''t'' 0)\<lparr>task_priority := CRITICAL, result := PInt 7\<rparr>" tiny_json]
    thrift_client_record [of "(new_record ''t'' 0)\<lparr>task_priority := LOW, result := PInt 7\<rparr>" tiny_json]
  by (auto simp: new_record_def priority_value_def)

section \<open>Timeouts in a context\<close>

text \<open>
  A context that is used twice keeps the timeout of the first call: when that call's
  metadata had headers and a timeout, the second call is sent with the first timeout, whatever timeout its
  own metadata asks for.
\<close>

theorem timeout_sticks:
  assumes "map_of meta1 ''headers'' = Some hs" "map_of meta1 ''timeout_ms'' = Some (PInt t1)"
    and "map_of meta2 ''headers'' = None" "map_of meta2 ''timeout_ms'' = Some (PInt t2)"
    and "c1 = prepare_context cfg ctx (Some meta1)"
  shows "\<exists>kw1 kw2. jsonrpc_prepare fl [] method p (Some meta1) c1 = Inr (p, kw1)
    \<and> jsonrpc_prepare fl [] method p' (Some meta2) (prepare_context cfg (Some (kept_kwargs c1 kw1)) (Some meta2)) = Inr (p', kw2)
    \<and> map_of kw1 ''timeout'' = Some (PFloat (Some (of_int t1 / 1000)))
    \<and> map_of kw2 ''timeout'' = Some (PFloat (Some (of_int t1 / 1000)))"
proof -
  let ?t = "PFloat (Some (of_int t1 / 1000))" and ?kw = "[(''headers'', hs), (''timeout'', PFloat (Some (of_int t1 / 1000)))]"
  have config: "http_config_timeout c = None" for c by (simp add: http_config_timeout_def context_attributes_def)
  have args: "http_args c1 = [(''headers'', hs)]"
    using assms by (simp add: prepare_context_def http_args_def dict_get_def Let_def)
  have one: "jsonrpc_prepare fl [] method p (Some meta1) c1 = Inr (p, ?kw)"
    using assms(2) by (simp add: jsonrpc_prepare_def args config resolve_timeout_s_def present_def py_float_def set_timeout_def)
  have "http_args (prepare_context cfg (Some (kept_kwargs c1 ?kw)) (Some meta2)) = ?kw"
    using assms(3) by (simp add: kept_kwargs_def args prepare_context_def dict_get_def Let_def) (simp add: http_args_def dict_get_def)
  then have "jsonrpc_prepare fl [] method p' (Some meta2) (prepare_context cfg (Some (kept_kwargs c1 ?kw)) (Some meta2)) = Inr (p', ?kw)"
    by (simp add: jsonrpc_prepare_def config resolve_timeout_s_def present_def py_float_def set_timeout_def)
  with one show ?thesis by (intro exI [of _ ?kw]) simp
qed

theorem timeout_sticks_witness:
  "\<exists>kw1 kw2. jsonrpc_prepare (\<lambda>_. None) [] ''m'' PNone (Some [(''headers'', PDict []), (''timeout_ms'', PInt 500)])
      (prepare_context default_client_config None (Some [(''headers'', PDict []), (''timeout_ms'', PInt 500)])) = Inr (PNone, kw1)
    \<and> jsonrpc_prepare (\<lambda>_. None) [] ''m'' PNone (Some [(''timeout_ms'', PInt 60000)])
      (prepare_context default_client_config
        (Some (kept_kwargs (prepare_context default_client_config None (Some [(''headers'', PDict []), (''timeout_ms'', PInt 500)])) kw1))
        (Some [(''timeout_ms'', PInt 60000)])) = Inr (PNone, kw2)
    \<and> map_of kw2 ''timeout'' = Some (PFloat (Some (1 / 2)))"
  using timeout_sticks [of "[(''headers'', PDict []), (''timeout_ms'', PInt 500)]" "PDict []" 500 "[(''timeout_ms'', PInt 60000)]" 60000
      "prepare_context default_client_config None (Some [(''headers'', PDict []), (''timeout_ms'', PInt 500)])"
      default_client_config None "\<lambda>_. None" "''m''" PNone PNone] by auto

end
