(* ===== verification/Spec2Isabelle.thy ===== *)
theory Spec2Isabelle
  imports Telemetry Providers Nacos Config_Sources Rpc_App Serving Config_Models Config_Loader Mtls Audit_Log Health_Aware Thrift_Pools Client_Transports Client_Calls Rest_Endpoint Binary_Endpoints Request_Handler Service_Call Runtime_Scopes Discovery Server_Interceptors Server_Resilience Qos_Handler Wire_Codec Rpc_Errors Circuit_Breaker Method_Names Rate_Limiter Bulkhead Retry_Policy Cache
    Fallback Task_Manager Messages Grpc_Codec Thrift_Codec
begin

text \<open>
  Verification library for aduib-rpc, a Python RPC framework (\<open>src/src/aduib_rpc\<close>, all paths below are relative to
  it). Code that was read is translated function by function; a theorem says what that code does, and where it does
  not do what its comments promise, the theorem says so.

  \<^bold>\<open>The program.\<close> A server receives a request over gRPC, Thrift, JSON-RPC or REST. The endpoint of the protocol
  decodes it, opens a context and calls the request handler. The handler runs the chain of interceptors
  (version, tenant, tracing, security, audit, resilience, quality of service) around the dispatch of the method to
  a registered service function, or gives it to the task manager as a background task. The response goes back the
  same way. A client builds the request, asks registries for the instances of the service, picks one by a load
  balancing policy and the health it knows of, and calls it over a transport; retries, circuit breakers, limiters
  and fallbacks guard the call. An application puts this together from configuration.

  \<^bold>\<open>Theories and code.\<close>
  \<^item> \<open>Rpc_Prelude\<close>: the Python values that reach the code as \<open>Any\<close>, their truth value, strings (lower case, strip,
    split, partition, \<open>int()\<close>), dictionaries as association lists in insertion order; facts shared by everything.
  \<^item> \<open>Rpc_Errors\<close>: \<open>exceptions.py\<close>, \<open>protocol/v2/errors.py\<close>, \<open>utils/error_handlers.py\<close>. An exception is a class, a
    code, a message, data and a cause; a call that may raise has a result in \<open>exn + 'a\<close>.
  \<^item> \<open>Wire_Codec\<close>: enumerations and their wire numbers (\<open>utils/constant.py\<close>, \<open>protocol/v2\<close>), one locale for all five.
  \<^item> \<open>Method_Names\<close>: \<open>server/rpc_execution/method_registry.py\<close> and the names on the wire.
  \<^item> \<open>Messages\<close>: the models of \<open>protocol/v2/types.py\<close>, \<open>qos.py\<close>, \<open>metadata.py\<close>, tasks and health.
  \<^item> \<open>Grpc_Codec\<close>, \<open>Thrift_Codec\<close>: \<open>utils/grpc_v2_utils.py\<close>, \<open>utils/thrift_v2_utils.py\<close> with the data types of
    \<open>thrift_v2/ttypes.py\<close>.
  \<^item> \<open>Circuit_Breaker\<close>, \<open>Rate_Limiter\<close>, \<open>Bulkhead\<close>, \<open>Retry_Policy\<close>, \<open>Cache\<close>, \<open>Fallback\<close>: \<open>resilience/\<close>.
  \<^item> \<open>Rbac\<close>: \<open>security/rbac.py\<close>, permissions and validators. \<open>Mtls\<close>: \<open>security/mtls.py\<close>.
  \<^item> \<open>Interceptor_Chain\<close>: \<open>server/context.py\<close>. On top of it \<open>Server_Interceptors\<close> (security, version negotiation),
    \<open>Server_Resilience\<close> (resilience), \<open>Qos_Handler\<close> (\<open>server/qos/handler.py\<close>), \<open>Runtime_Scopes\<close> (scopes and the tenant
    interceptor), \<open>Audit_Log\<close> (\<open>telemetry/audit.py\<close> and its interceptor), \<open>Telemetry\<close> (spans on both sides).
  \<^item> \<open>Service_Call\<close>, \<open>Request_Handler\<close>, \<open>Task_Manager\<close>: registered functions and their callers, the default request
    handler, background tasks (\<open>server/rpc_execution\<close>, \<open>server/request_handlers\<close>, \<open>server/tasks\<close>).
  \<^item> \<open>Endpoints\<close>, \<open>Binary_Endpoints\<close>, \<open>Jsonrpc_Endpoint\<close>, \<open>Rest_Endpoint\<close>: what the four protocol endpoints share and
    each of them.
  \<^item> \<open>Discovery\<close>, \<open>Health_Aware\<close>, \<open>Nacos\<close>: instances, balancers, resolver and in-memory registry, health checks and the
    calls that use them, the Nacos registry (\<open>discover/\<close>).
  \<^item> \<open>Client_Calls\<close>, \<open>Client_Transports\<close>, \<open>Thrift_Pools\<close>: contexts, credentials and the base client, the transports,
    the Thrift connection pools (\<open>client/\<close>).
  \<^item> \<open>Config_Loader\<close>, \<open>Config_Models\<close>, \<open>Config_Sources\<close>: \<open>config/\<close>.
  \<^item> \<open>Serving\<close>, \<open>Rpc_App\<close>, \<open>Providers\<close>: running a server for an instance, \<open>app.py\<close>, free ports and the factories of
    registries, task managers and permissions.

  \<^bold>\<open>How state is modelled.\<close> An object is a record, a method a function that returns the record updated with its result
  or exception; objects that refer to each other (runtime scopes) live in a heap, a list indexed by number. Where a
  component is shared by concurrent coroutines (bulkhead, circuit breaker, limiter, tasks, key locks, connection
  pools, the configuration's file) the atomic pieces between two awaits are steps, of an inductive relation or of a
  list of operations, and the invariants hold of every interleaving. Code without an await in between runs in one
  step. Interfaces are locales interpreted on the model's own definitions: caches, wire enumerations, registries of
  scopes, balancers, unary and streaming endpoints.

  \<^bold>\<open>What the lemmas show.\<close>
  \<^item> Guards: the breaker opens exactly after its threshold of failures in a row; the limiters' bounds hold in every
    window; the bulkhead is never overfull and gets its permits back however a request ends; tenants do not share
    limits; one idempotency key runs one handler at a time and replays its response.
  \<^item> Security: what passes the security interceptor has a token, a principal and the permission; a server built with
    access control puts that interceptor before its handler; sensitive fields do not influence the audit log; a
    client's TLS context verifies what was configured and leaves no key file behind.
  \<^item> Protocol: enumerations, method names and requests survive encoding and decoding; every response carries its
    request's identifier and is a result or a standard error; the endpoints and the transports agree with each other.
  \<^item> Order and ends: the nested context managers refine going in and coming out; subscriptions, closing of pools,
    serving and lookups end, with the conditions under which they do not.
  \<^item> Data: what a registry lists, what a resolver picks, where the hash ring sends a key, what configuration a
    reloader or a source holds, each for every history of operations.

  \<^bold>\<open>Bounds and termination.\<close> Loops are structural or have a measure (the rest of a text, ports left, attempts left,
  the size of a value). No definition uses fuel. The lookups and \<open>set_config\<close> along the parents of scopes may run forever on a cyclic
  heap: they are partial functions whose value is \<open>None\<close> then, and are shown to return in every reachable heap.
  Integers are Python's and unbounded; enumerations and codes keep the ranges the wire has. Times and rates are
  rationals.

  \<^bold>\<open>Parameters.\<close> What is not under \<open>src\<close> is an argument of the definitions that use it: JSON, YAML and protobuf
  parsers, pydantic's coercions, md5 and random choice, ipaddress, \<open>ssl\<close>, the file system, sockets, httpx, gRPC stubs
  and aiothrift, the Nacos SDK, OpenTelemetry, clocks and identifiers. Theorems hold for all of them unless they name
  a hypothesis.

  \<^bold>\<open>Simplifications.\<close> Floating point arithmetic is rational arithmetic. Case mapping and character classes are those
  of ASCII. Log messages are not modelled except for the audit log. A generator that is closed early runs its
  clean-up at once. Interceptors of the client write into the dictionary they are given or return a new one, as each
  does; aliasing beyond that is not modelled. Exceptions that are not \<open>Exception\<close> (cancellation, exit) appear where the
  code tells them apart.

  \<^bold>\<open>Not modelled.\<close> Code generated by the Thrift and protobuf compilers (service stubs and descriptors, data types apart);
  the set-up of OpenTelemetry, metrics and log formatting; routes handed to FastAPI and Starlette; the object encoder
  \<open>utils/encoders.py\<close>, which nothing calls; JSON schemas and annotations of service functions; the synchronous
  variants of the Nacos client, its subscriptions and thread pool; the applications' \<open>create_client\<close>, shutdown and
  global instance; development scripts, tests and the Rust SDK.
\<close>

end
